(* ===== verification/JS_Base.thy ===== *)
theory JS_Base
  imports Complex_Main
begin

text \<open>
  What the services use of the language and of its standard library.

  Strings are character lists (the code handles ids, keys and decimal texts, all ASCII).
  A JavaScript number is \<open>Fin q\<close> with an exact rational \<open>q\<close>, an infinity or \<open>NaN\<close>: the
  special values and every comparison with them are kept, binary64 rounding is not modelled.
  \<open>json\<close> is a parsed JSON value; a string that is the \<open>toISOString\<close> rendering of an instant
  is written \<open>JIso ms\<close>, so that \<open>Date.parse\<close> of it is \<open>ms\<close>.
\<close>

section \<open>Collections of facts\<close>

named_theorems op_defs \<open>definitions of the operations of the services\<close>
named_theorems row_simps \<open>how operations read and write rows of the tables\<close>

section \<open>Characters and strings\<close>

definition is_digit :: "char \<Rightarrow> bool" where
  "is_digit c \<longleftrightarrow> 48 \<le> (of_char c :: nat) \<and> (of_char c :: nat) \<le> 57"

definition digit_val :: "char \<Rightarrow> nat" where
  "digit_val c = (of_char c :: nat) - 48"

definition digit_char :: "nat \<Rightarrow> char" where
  "digit_char d = char_of (48 + d)"

definition is_ws :: "char \<Rightarrow> bool" where
  "is_ws c \<longleftrightarrow> (of_char c :: nat) \<in> {9, 10, 11, 12, 13, 32}"

definition js_trim :: "string \<Rightarrow> string" where
  "js_trim s = rev (dropWhile is_ws (rev (dropWhile is_ws s)))"

fun starts_with :: "string \<Rightarrow> string \<Rightarrow> bool" where
  "starts_with s [] = True"
| "starts_with [] (c # p) = False"
| "starts_with (d # s) (c # p) = (d = c \<and> starts_with s p)"

lemma starts_with_append [simp]: "starts_with (p @ s) p"
  by (induction p) auto

lemma starts_with_iff: "starts_with s p \<longleftrightarrow> (\<exists>r. s = p @ r)"
  by (induction s p rule: starts_with.induct) auto

text \<open>\<open>split\<close> on one character.\<close>

fun js_split :: "char \<Rightarrow> string \<Rightarrow> string list" where
  "js_split c [] = [[]]"
| "js_split c (x # xs) = (if x = c then [] # js_split c xs
     else (case js_split c xs of [] \<Rightarrow> [[x]] | y # ys \<Rightarrow> (x # y) # ys))"

text \<open>\<open>toLowerCase\<close> and \<open>toUpperCase\<close>.\<close>

definition js_lower :: "string \<Rightarrow> string" where
  "js_lower s = map (\<lambda>c. let n = (of_char c :: nat) in if 65 \<le> n \<and> n \<le> 90 then char_of (n + 32) else c) s"

definition js_upper :: "string \<Rightarrow> string" where
  "js_upper s = map (\<lambda>c. let n = (of_char c :: nat) in if 97 \<le> n \<and> n \<le> 122 then char_of (n - 32) else c) s"

fun nat_of_digits :: "nat \<Rightarrow> string \<Rightarrow> nat" where
  "nat_of_digits acc [] = acc"
| "nat_of_digits acc (c # cs) = nat_of_digits (10 * acc + digit_val c) cs"

fun digits_of_nat :: "nat \<Rightarrow> string" where
  "digits_of_nat n = (if n < 10 then [digit_char n]
     else digits_of_nat (n div 10) @ [digit_char (n mod 10)])"

declare digits_of_nat.simps [simp del]

definition string_of_int :: "int \<Rightarrow> string" where
  "string_of_int i = (if i < 0 then ''-'' @ digits_of_nat (nat (- i)) else digits_of_nat (nat i))"

lemma digit_char_val [simp]: "d < 10 \<Longrightarrow> digit_val (digit_char d) = d"
  by (simp add: digit_val_def digit_char_def)

lemma digit_char_is_digit [simp]: "d < 10 \<Longrightarrow> is_digit (digit_char d)"
  by (simp add: is_digit_def digit_char_def)

lemma digit_val_less [simp]: "is_digit c \<Longrightarrow> digit_val c < 10"
  unfolding is_digit_def digit_val_def by linarith

lemma nat_of_digits_append:
  "nat_of_digits acc (xs @ ys) = nat_of_digits (nat_of_digits acc xs) ys"
  by (induction xs arbitrary: acc) auto

lemma nat_of_digits_snoc [simp]:
  "nat_of_digits acc (xs @ [c]) = 10 * nat_of_digits acc xs + digit_val c"
  by (simp add: nat_of_digits_append)

lemma digits_of_nat_digits: "\<forall>c \<in> set (digits_of_nat n). is_digit c"
proof (induction n rule: digits_of_nat.induct)
  case (1 n)
  then show ?case by (subst digits_of_nat.simps) auto
qed

lemma digits_of_nat_nonempty [simp]: "digits_of_nat n \<noteq> []"
  by (subst digits_of_nat.simps) simp

lemma nat_of_digits_of_nat [simp]: "nat_of_digits 0 (digits_of_nat n) = n"
proof (induction n rule: digits_of_nat.induct)
  case (1 n)
  then show ?case by (cases "n < 10") (simp_all add: digits_of_nat.simps [of n])
qed

lemma nat_of_digits_acc: "nat_of_digits acc xs = acc * 10 ^ length xs + nat_of_digits 0 xs"
proof (induction xs rule: rev_induct)
  case Nil
  then show ?case by simp
next
  case (snoc x xs)
  then show ?case by (simp add: algebra_simps)
qed

section \<open>Numbers\<close>

datatype jsnum = NaN | NegInf | PosInf | Fin rat

fun js_isFinite :: "jsnum \<Rightarrow> bool" where
  "js_isFinite (Fin _) = True"
| "js_isFinite _ = False"

text \<open>\<open>a < b\<close> of the language: false as soon as an operand is \<open>NaN\<close>.\<close>

fun js_less :: "jsnum \<Rightarrow> jsnum \<Rightarrow> bool" where
  "js_less (Fin a) (Fin b) = (a < b)"
| "js_less NegInf (Fin _) = True"
| "js_less NegInf PosInf = True"
| "js_less (Fin _) PosInf = True"
| "js_less _ _ = False"

fun hex_val :: "char \<Rightarrow> nat option" where
  "hex_val c = (let n = (of_char c :: nat) in
     if 48 \<le> n \<and> n \<le> 57 then Some (n - 48)
     else if 65 \<le> n \<and> n \<le> 70 then Some (n - 55)
     else if 97 \<le> n \<and> n \<le> 102 then Some (n - 87) else None)"

fun radix_digits :: "nat \<Rightarrow> nat \<Rightarrow> string \<Rightarrow> nat option" where
  "radix_digits b acc [] = Some acc"
| "radix_digits b acc (c # cs) = (case hex_val c of None \<Rightarrow> None
     | Some d \<Rightarrow> if d < b then radix_digits b (b * acc + d) cs else None)"

definition js_scale10 :: "rat \<Rightarrow> int \<Rightarrow> rat" where
  "js_scale10 m e = (if 0 \<le> e then m * 10 ^ nat e else m / 10 ^ nat (- e))"

definition js_exponent :: "string \<Rightarrow> int option" where
  "js_exponent s =
     (let (neg, ds) = (case s of CHR ''-'' # u \<Rightarrow> (True, u) | CHR ''+'' # u \<Rightarrow> (False, u) | u \<Rightarrow> (False, u))
      in if ds \<noteq> [] \<and> list_all is_digit ds
         then Some (if neg then - int (nat_of_digits 0 ds) else int (nat_of_digits 0 ds)) else None)"

definition js_unsigned_decimal :: "string \<Rightarrow> jsnum" where
  "js_unsigned_decimal s =
     (let ip = takeWhile is_digit s; r = dropWhile is_digit s;
          (fp, r2) = (case r of CHR ''.'' # u \<Rightarrow> (takeWhile is_digit u, dropWhile is_digit u) | u \<Rightarrow> ([], u));
          m = of_nat (nat_of_digits 0 (ip @ fp)) / 10 ^ length fp
      in if ip = [] \<and> fp = [] then NaN
         else case r2 of [] \<Rightarrow> Fin m
           | c # u \<Rightarrow> if c = CHR ''e'' \<or> c = CHR ''E''
               then (case js_exponent u of None \<Rightarrow> NaN | Some e \<Rightarrow> Fin (js_scale10 m e)) else NaN)"

text \<open>\<open>Number(s)\<close> for a string \<open>s\<close>.\<close>

definition js_Number :: "string \<Rightarrow> jsnum" where
  "js_Number s =
     (let t = js_trim s in
      if t = [] then Fin 0
      else if starts_with t ''0x'' \<or> starts_with t ''0X'' \<or> starts_with t ''0o'' \<or> starts_with t ''0O''
            \<or> starts_with t ''0b'' \<or> starts_with t ''0B''
      then (let b = (if t ! 1 \<in> {CHR ''x'', CHR ''X''} then 16 else if t ! 1 \<in> {CHR ''o'', CHR ''O''} then 8 else 2)
            in if drop 2 t = [] then NaN
               else case radix_digits b 0 (drop 2 t) of None \<Rightarrow> NaN | Some n \<Rightarrow> Fin (of_nat n))
      else if t = ''Infinity'' \<or> t = ''+Infinity'' then PosInf
      else if t = ''-Infinity'' then NegInf
      else case t of CHR ''-'' # u \<Rightarrow> (case js_unsigned_decimal u of Fin q \<Rightarrow> Fin (- q) | x \<Rightarrow> x)
         | CHR ''+'' # u \<Rightarrow> js_unsigned_decimal u
         | u \<Rightarrow> js_unsigned_decimal u)"

text \<open>\<open>Number.parseInt(s, 10)\<close>: \<open>None\<close> is \<open>NaN\<close>.\<close>

definition js_parseInt10 :: "string \<Rightarrow> int option" where
  "js_parseInt10 s =
     (let t = js_trim s;
          (neg, u) = (case t of CHR ''-'' # v \<Rightarrow> (True, v) | CHR ''+'' # v \<Rightarrow> (False, v) | v \<Rightarrow> (False, v));
          ds = takeWhile is_digit u
      in if ds = [] then None
         else Some (if neg then - int (nat_of_digits 0 ds) else int (nat_of_digits 0 ds)))"

text \<open>\<open>Math.round\<close>: halves go up.\<close>

definition js_round :: "rat \<Rightarrow> int" where
  "js_round q = \<lfloor>q + 1 / 2\<rfloor>"

text \<open>\<open>BigInt(s)\<close> for a string: \<open>None\<close> when it throws.\<close>

definition js_BigInt :: "string \<Rightarrow> int option" where
  "js_BigInt s =
     (let t = js_trim s in
      if t = [] then Some 0
      else if starts_with t ''0x'' \<or> starts_with t ''0X'' \<or> starts_with t ''0o'' \<or> starts_with t ''0O''
            \<or> starts_with t ''0b'' \<or> starts_with t ''0B''
      then (let b = (if t ! 1 \<in> {CHR ''x'', CHR ''X''} then 16 else if t ! 1 \<in> {CHR ''o'', CHR ''O''} then 8 else 2)
            in if drop 2 t = [] then None else map_option int (radix_digits b 0 (drop 2 t)))
      else (let (neg, ds) = (case t of CHR ''-'' # u \<Rightarrow> (True, u) | CHR ''+'' # u \<Rightarrow> (False, u) | u \<Rightarrow> (False, u))
            in if ds \<noteq> [] \<and> list_all is_digit ds
               then Some (if neg then - int (nat_of_digits 0 ds) else int (nat_of_digits 0 ds)) else None))"

text \<open>
  \<open>String(q)\<close> for a number between \<open>1e-6\<close> and \<open>1e21\<close> in absolute value: the integer part and
  the decimals, at most 30 of them.
\<close>

fun frac_digits :: "nat \<Rightarrow> rat \<Rightarrow> string" where
  "frac_digits 0 q = []"
| "frac_digits (Suc n) q = (if q = 0 then [] else
     (let d = \<lfloor>10 * q\<rfloor> in digit_char (nat d) # frac_digits n (10 * q - of_int d)))"

definition js_number_string :: "rat \<Rightarrow> string" where
  "js_number_string q =
     (let a = \<bar>q\<bar>; i = \<lfloor>a\<rfloor>; f = a - of_int i
      in (if q < 0 then ''-'' else []) @ digits_of_nat (nat i)
         @ (if f = 0 then [] else ''.'' @ frac_digits 30 f))"

lemma digits_no_sign:
  "(case digits_of_nat n of CHR ''-'' # u \<Rightarrow> (True, u) | CHR ''+'' # u \<Rightarrow> (False, u) | u \<Rightarrow> (False, u)) = (False, digits_of_nat n)"
proof -
  obtain c u where cu: "digits_of_nat n = c # u" by (cases "digits_of_nat n") auto
  then have "is_digit c" using digits_of_nat_digits [of n] by simp
  then have "c \<noteq> CHR ''-''" "c \<noteq> CHR ''+''" by (auto simp: is_digit_def)
  then show ?thesis unfolding cu by (cases c) (auto split: bool.splits)
qed

lemma js_BigInt_digits:
  "js_BigInt (digits_of_nat n) = Some (int n)"
proof -
  let ?t = "digits_of_nat n"
  have d: "\<forall>c \<in> set ?t. is_digit c" by (rule digits_of_nat_digits)
  have ws: "\<not> is_ws c" if "is_digit c" for c using that by (auto simp: is_digit_def is_ws_def)
  have tr: "js_trim ?t = ?t"
  proof -
    have "dropWhile is_ws ?t = ?t" using d ws by (cases ?t) auto
    moreover have "dropWhile is_ws (rev ?t) = rev ?t" using d ws by (cases "rev ?t") (auto simp: rev_eq_Cons_iff)
    ultimately show ?thesis by (simp add: js_trim_def)
  qed
  have np: "\<not> starts_with ?t [CHR ''0'', c]" if "\<not> is_digit c" for c
    using d that by (auto simp: starts_with_iff)
  have "list_all is_digit ?t" using d by (simp add: list_all_iff)
  then show ?thesis
    using digits_no_sign [of n] np [of "CHR ''x''"] np [of "CHR ''X''"] np [of "CHR ''o''"] np [of "CHR ''O''"] np [of "CHR ''b''"] np [of "CHR ''B''"]
    by (simp add: js_BigInt_def tr Let_def is_digit_def)
qed

section \<open>JSON values\<close>

datatype json = JNull | JBool bool | JNum rat | JStr string | JIso int
  | JArr "json list" | JObj "(string \<times> json) list"

text \<open>\<open>v[key]\<close> of a parsed value: \<open>None\<close> is \<open>undefined\<close>.\<close>

fun jget :: "json \<Rightarrow> string \<Rightarrow> json option" where
  "jget (JObj kvs) k = map_of kvs k"
| "jget _ _ = None"

text \<open>\<open>xs[i]\<close> of a parsed array, and \<open>a ?? b\<close>.\<close>

definition jidx :: "json list \<Rightarrow> int \<Rightarrow> json option" where
  "jidx xs i = (if 0 \<le> i \<and> nat i < length xs then Some (xs ! nat i) else None)"

definition jcoalesce :: "json option \<Rightarrow> json option \<Rightarrow> json option" where
  "jcoalesce a b = (if a = None \<or> a = Some JNull then b else a)"

text \<open>\<open>v || null\<close> for a string that may be missing.\<close>

definition js_or_null :: "string option \<Rightarrow> string option" where
  "js_or_null v = (case v of Some s \<Rightarrow> if s = [] then None else Some s | None \<Rightarrow> None)"

text \<open>A property that is a non-empty string; a value with \<open>typeof v === 'object'\<close> that is not null.\<close>

definition jnonempty_str :: "json option \<Rightarrow> string option" where
  "jnonempty_str v = (case v of Some (JStr s) \<Rightarrow> if s = [] then None else Some s | _ \<Rightarrow> None)"

definition jis_object :: "json option \<Rightarrow> bool" where
  "jis_object v = (case v of Some (JObj _) \<Rightarrow> True | Some (JArr _) \<Rightarrow> True | _ \<Rightarrow> False)"

text \<open>\<open>v ?? null\<close> written into a JSON document.\<close>

definition jstr_or_null :: "string option \<Rightarrow> json" where
  "jstr_or_null v = (case v of None \<Rightarrow> JNull | Some s \<Rightarrow> JStr s)"

text \<open>\<open>...(v !== undefined ? { k: v } : {})\<close>, and a property that is \<open>undefined\<close>: both vanish in the document.\<close>

definition opt_field :: "string \<Rightarrow> ('a \<Rightarrow> json) \<Rightarrow> 'a option \<Rightarrow> (string \<times> json) list" where
  "opt_field k f v = (case v of None \<Rightarrow> [] | Some x \<Rightarrow> [(k, f x)])"

text \<open>\<open>{ ...a, ...b }\<close>.\<close>

definition js_spread :: "(string \<times> json) list \<Rightarrow> (string \<times> json) list \<Rightarrow> (string \<times> json) list" where
  "js_spread a b = map (\<lambda>(k, v). (k, case map_of b k of Some w \<Rightarrow> w | None \<Rightarrow> v)) a @ filter (\<lambda>(k, v). k \<notin> fst ` set a) b"

lemma map_of_js_spread: "map_of (js_spread a b) k = (case map_of b k of Some v \<Rightarrow> Some v | None \<Rightarrow> map_of a k)"
proof -
  have m: "map_of (map (\<lambda>(k, v). (k, case map_of b k of Some w \<Rightarrow> w | None \<Rightarrow> v)) a) k
      = map_option (\<lambda>v. case map_of b k of Some w \<Rightarrow> w | None \<Rightarrow> v) (map_of a k)"
    by (induction a) (auto split: option.splits)
  have f: "map_of (filter (\<lambda>(k, v). k \<notin> A) b) k = (if k \<in> A then None else map_of b k)" for A
    by (induction b) auto
  have n: "k \<in> fst ` set a \<longleftrightarrow> map_of a k \<noteq> None" by (metis map_of_eq_None_iff)
  show ?thesis unfolding js_spread_def map_of_append map_add_def m f n by (cases "map_of a k"; cases "map_of b k") auto
qed

text \<open>\<open>a >= b\<close>: false as soon as an operand is \<open>NaN\<close>; \<open>String(n)\<close>.\<close>

definition js_geq :: "jsnum \<Rightarrow> jsnum \<Rightarrow> bool" where
  "js_geq a b \<longleftrightarrow> \<not> js_less a b \<and> a \<noteq> NaN \<and> b \<noteq> NaN"

fun jsnum_string :: "jsnum \<Rightarrow> string" where
  "jsnum_string NaN = ''NaN''"
| "jsnum_string PosInf = ''Infinity''"
| "jsnum_string NegInf = ''-Infinity''"
| "jsnum_string (Fin q) = js_number_string q"

lemma digit_not_ws [simp]: "is_digit c \<Longrightarrow> \<not> is_ws c"
  by (auto simp: is_digit_def is_ws_def)

lemma js_trim_no_ws: "\<forall>c \<in> set s. \<not> is_ws c \<Longrightarrow> js_trim s = s"
proof -
  assume a: "\<forall>c \<in> set s. \<not> is_ws c"
  then have "dropWhile is_ws s = s" by (cases s) auto
  moreover have "dropWhile is_ws (rev s) = rev s" using a by (cases "rev s") (auto simp: rev_eq_Cons_iff)
  ultimately show ?thesis by (simp add: js_trim_def)
qed

lemma takeWhile_digits: "takeWhile is_digit (digits_of_nat n) = digits_of_nat n"
  using digits_of_nat_digits [of n] by (simp only: takeWhile_eq_all_conv)

lemma js_parseInt_digits: "js_parseInt10 (digits_of_nat n) = Some (int n)"
proof -
  have "js_trim (digits_of_nat n) = digits_of_nat n"
    by (rule js_trim_no_ws) (use digits_of_nat_digits in auto)
  then show ?thesis by (simp add: js_parseInt10_def digits_no_sign takeWhile_digits)
qed

end
