(* ===== verification/Svc_Base.thy ===== *)
theory Svc_Base
  imports JS_Base
begin

text \<open>
  What the services share: the exceptions they throw, the database transaction, tables of
  rows with a primary key, the audit records they send, and the two contracts that the
  correctness of the services rests on: the life cycle of a versioned row and the
  idempotence of an operation that may be delivered more than once.
\<close>

section \<open>Exceptions and transactions\<close>

text \<open>
  The exception classes of the code. The string is the fixed text of the message; the values
  interpolated into it are left out. \<open>UniqueViolation c\<close> is the driver's error 23505 on the
  unique index \<open>c\<close>.
\<close>

datatype exn =
    NotFoundException string
  | ConflictException string
  | BadRequestException string
  | UnprocessableEntityException string
  | ServiceUnavailableException string
  | BadGatewayException string
  | CapitalCeilingExceededError rat rat rat
  | UniqueViolation string
  | HttpException int
  | PlainError string

type_synonym ('a, 'db) outcome = "(exn + 'a) \<times> 'db"

text \<open>
  \<open>dataSource.transaction(body)\<close>: the writes of a body that throws are rolled back.
\<close>

definition transaction :: "('db \<Rightarrow> ('a, 'db) outcome) \<Rightarrow> 'db \<Rightarrow> ('a, 'db) outcome" where
  "transaction body d = (case body d of (Inl e, _) \<Rightarrow> (Inl e, d) | (Inr v, d') \<Rightarrow> (Inr v, d'))"

lemma transaction_Inl: "transaction b d = (Inl e, d') \<Longrightarrow> d' = d"
  by (auto simp: transaction_def split: prod.splits sum.splits)

lemma transaction_Inr_iff [simp]: "transaction b d = (Inr v, d') \<longleftrightarrow> b d = (Inr v, d')"
  by (auto simp: transaction_def split: prod.splits sum.splits)

lemma fst_transaction [simp]: "fst (transaction b d) = fst (b d)"
  by (auto simp: transaction_def split: prod.splits sum.splits)

lemma snd_transaction: "snd (transaction b d) = (case fst (b d) of Inl _ \<Rightarrow> d | Inr _ \<Rightarrow> snd (b d))"
  by (auto simp: transaction_def split: prod.splits sum.splits)

section \<open>Tables\<close>

text \<open>
  A table is the list of its rows, oldest first. \<open>get_row\<close> is \<open>findOne\<close> by primary key,
  \<open>save_row\<close> is \<open>em.save\<close>: it replaces the row with the same key or appends a new one.
\<close>

definition get_row :: "('r \<Rightarrow> 'k) \<Rightarrow> 'k \<Rightarrow> 'r list \<Rightarrow> 'r option" where
  "get_row key k rs = find (\<lambda>r. key r = k) rs"

definition save_row :: "('r \<Rightarrow> 'k) \<Rightarrow> 'r \<Rightarrow> 'r list \<Rightarrow> 'r list" where
  "save_row key r rs =
     (if \<exists>x \<in> set rs. key x = key r then map (\<lambda>x. if key x = key r then r else x) rs else rs @ [r])"

locale row_store =
  fixes get :: "'k \<Rightarrow> 'db \<Rightarrow> 'row option"
    and save :: "'row \<Rightarrow> 'db \<Rightarrow> 'db"
    and key :: "'row \<Rightarrow> 'k"
  assumes get_save_same: "get (key r) (save r d) = Some r"
    and get_save_other: "k \<noteq> key r \<Longrightarrow> get k (save r d) = get k d"
begin

lemma get_save: "get k (save r d) = (if k = key r then Some r else get k d)"
  by (simp add: get_save_same get_save_other)

lemma get_save_keeps: "get k d = Some r0 \<Longrightarrow> \<exists>r'. get k (save r d) = Some r'"
  by (simp add: get_save)

lemma get_fold_save_other:
  "k \<notin> key ` set xs \<Longrightarrow> get k (fold save xs d) = get k d"
  by (induction xs arbitrary: d) (auto simp: get_save_other)

end

lemma find_map_same_key:
  "find (\<lambda>x. key x = k) (map (\<lambda>x. if key x = key r then r else x) rs) =
     (if k = key r then (case find (\<lambda>x. key x = k) rs of None \<Rightarrow> None | Some _ \<Rightarrow> Some r)
      else find (\<lambda>x. key x = k) rs)"
  by (induction rs) auto

lemma find_append: "find P (xs @ ys) = (case find P xs of None \<Rightarrow> find P ys | Some x \<Rightarrow> Some x)"
  by (induction xs) auto

lemma find_none_iff': "(\<exists>x \<in> set rs. P x) = (find P rs \<noteq> None)"
  by (induction rs) auto

lemma get_row_save_row [row_simps]:
  "get_row key k (save_row key r rs) = (if k = key r then Some r else get_row key k rs)"
proof -
  have "(\<exists>x \<in> set rs. key x = key r) = (find (\<lambda>x. key x = key r) rs \<noteq> None)"
    by (rule find_none_iff')
  then show ?thesis
    by (auto simp: get_row_def save_row_def find_map_same_key find_append split: option.splits)
qed

interpretation tbl: row_store "get_row key" "save_row key" key for key :: "'r \<Rightarrow> 'k"
  by unfold_locales (simp_all add: get_row_save_row)

lemma find_SomeD: "find P xs = Some x \<Longrightarrow> x \<in> set xs \<and> P x"
  by (induction xs) (auto split: if_splits)

lemma get_row_key: "get_row key k rs = Some r \<Longrightarrow> key r = k"
  by (auto simp: get_row_def find_Some_iff)

lemma get_row_in_set: "get_row key k rs = Some r \<Longrightarrow> r \<in> set rs"
  by (auto simp: get_row_def find_Some_iff)

lemma get_row_append:
  "get_row key k (rs @ [r]) =
     (case get_row key k rs of None \<Rightarrow> if key r = k then Some r else None | Some x \<Rightarrow> Some x)"
  by (simp add: get_row_def find_append split: option.splits)

lemma get_row_appends [row_simps]:
  "get_row key k (rs @ xs) = (case get_row key k rs of None \<Rightarrow> get_row key k xs | Some x \<Rightarrow> Some x)"
  unfolding get_row_def by (rule find_append)

lemma get_row_one [row_simps]: "get_row key k [r] = (if key r = k then Some r else None)"
  by (simp add: get_row_def)

lemma get_row_map:
  "(\<And>r. key (f r) = key r) \<Longrightarrow> get_row key k (map f rs) = map_option f (get_row key k rs)"
  by (induction rs) (auto simp: get_row_def)

lemma save_row_existing:
  "get_row key (key r) rs = Some x \<Longrightarrow> save_row key r rs = map (\<lambda>y. if key y = key r then r else y) rs"
proof -
  assume a: "get_row key (key r) rs = Some x"
  then have "x \<in> set rs" "key x = key r" by (auto dest: get_row_in_set get_row_key)
  then show ?thesis by (auto simp: save_row_def)
qed

lemma save_row_new:
  "get_row key (key r) rs = None \<Longrightarrow> save_row key r rs = rs @ [r]"
  by (auto simp: save_row_def get_row_def find_None_iff)

text \<open>A batch of the oldest rows, when enough of them are older than \<open>t\<close>.\<close>

lemma sorted_prefix:
  assumes "sorted (map f xs)"
  shows "takeWhile (\<lambda>x. f x < t) xs = filter (\<lambda>x. f x < t) xs"
  using assms
proof (induction xs)
  case (Cons x xs)
  show ?case
  proof (cases "f x < t")
    case True
    with Cons show ?thesis by simp
  next
    case False
    with Cons.prems have "\<forall>y \<in> set xs. \<not> f y < t" by auto
    with False show ?thesis by (simp add: filter_False)
  qed
qed simp

lemma batch_head:
  fixes f :: "'r \<Rightarrow> 'k :: linorder"
  assumes "limit \<le> length (filter (\<lambda>r. f r < t) (filter P rows))"
    and "r \<in> set (take limit (sort_key f (filter P rows)))"
  shows "f r < t \<and> r \<in> set rows \<and> P r"
proof -
  let ?s = "sort_key f (filter P rows)"
  let ?w = "takeWhile (\<lambda>x. f x < t) ?s"
  have "?w = filter (\<lambda>x. f x < t) ?s" by (rule sorted_prefix) simp
  then have "length ?w = length (filter (\<lambda>r. f r < t) (filter P rows))" by (simp only: filter_sort length_sort)
  with assms(1) have le: "limit \<le> length ?w" by simp
  have "?s = ?w @ dropWhile (\<lambda>x. f x < t) ?s" by simp
  then have "take limit ?s = take limit ?w @ take (limit - length ?w) (dropWhile (\<lambda>x. f x < t) ?s)"
    by (metis take_append)
  with le have "take limit ?s = take limit ?w" by simp
  with assms(2) have "r \<in> set (takeWhile (\<lambda>x. f x < t) ?s)" by (metis in_set_takeD)
  then show ?thesis by (auto dest: set_takeWhileD)
qed

text \<open>Primary keys are unique: saving keeps it.\<close>

lemma map_key_save_row:
  "map key (save_row key r rs) =
     (if \<exists>x \<in> set rs. key x = key r then map key rs else map key rs @ [key r])"
  by (auto simp: save_row_def)

lemma distinct_save_row [simp]:
  "distinct (map key rs) \<Longrightarrow> distinct (map key (save_row key r rs))"
  by (auto simp: map_key_save_row)

lemma distinct_get_row:
  "distinct (map key rs) \<Longrightarrow> r \<in> set rs \<Longrightarrow> get_row key (key r) rs = Some r"
  by (induction rs) (auto simp: get_row_def)

text \<open>Totals over a table: what replacing one row does to them.\<close>

lemma head_key_fresh: "distinct (map key (r # rs)) \<Longrightarrow> x \<in> set rs \<Longrightarrow> key x \<noteq> key r"
  by (auto simp: image_iff)

lemma map_replace_id:
  "k \<notin> key ` set rs \<Longrightarrow> map (\<lambda>x. if key x = k then r else x) rs = rs"
  by (induction rs) auto

lemma sum_list_save_row:
  fixes f :: "'r \<Rightarrow> rat"
  assumes "distinct (map key rs)" and "get_row key (key r) rs = Some r0"
  shows "sum_list (map f (save_row key r rs)) = sum_list (map f rs) - f r0 + f r"
proof -
  have "sum_list (map f (map (\<lambda>y. if key y = key r then r else y) rs)) = sum_list (map f rs) - f r0 + f r"
    using assms
  proof (induction rs)
    case Nil
    then show ?case by (simp add: get_row_def)
  next
    case (Cons x xs)
    show ?case
    proof (cases "key x = key r")
      case True
      with Cons.prems have "x = r0" "key r \<notin> key ` set xs"
        by (auto simp: get_row_def)
      with True show ?thesis using map_replace_id [of "key r" key xs r] by simp
    next
      case False
      with Cons show ?thesis by (simp add: get_row_def)
    qed
  qed
  with assms(2) show ?thesis by (simp add: save_row_existing)
qed

lemma count_save_row:
  assumes "distinct (map key rs)" and "get_row key (key r) rs = Some r0"
  shows "length (filter P (save_row key r rs)) + (if P r0 then 1 else 0) = length (filter P rs) + (if P r then 1 else 0)"
proof -
  have c: "of_nat (length (filter P xs)) = sum_list (map (\<lambda>x. if P x then 1 else 0 :: rat) xs)" for xs
    by (induction xs) auto
  have "of_nat (length (filter P (save_row key r rs)) + (if P r0 then 1 else 0))
      = (of_nat (length (filter P rs) + (if P r then 1 else 0)) :: rat)"
    unfolding of_nat_add c sum_list_save_row [OF assms] by simp
  then show ?thesis by (simp only: of_nat_eq_iff)
qed

lemma save_row_twice [simp]:
  assumes k: "key r' = key r"
  shows "save_row key r' (save_row key r rs) = save_row key r' rs"
proof (cases "\<exists>x \<in> set rs. key x = key r")
  case True
  then have s: "save_row key r rs = map (\<lambda>x. if key x = key r then r else x) rs" by (simp add: save_row_def)
  from True have "\<exists>x \<in> set (save_row key r rs). key x = key r'" unfolding s k by force
  then have "save_row key r' (save_row key r rs) = map (\<lambda>x. if key x = key r' then r' else x) (save_row key r rs)"
    unfolding save_row_def [of key r'] by simp
  also have "\<dots> = map (\<lambda>x. if key x = key r' then r' else x) rs" unfolding s k by simp
  finally show ?thesis using True by (simp add: save_row_def k)
next
  case False
  then have "map (\<lambda>x. if key x = key r then r' else x) rs = rs" by (intro map_idI) auto
  with False k show ?thesis by (simp add: save_row_def)
qed

lemma fold_save_new:
  "distinct (map key xs) \<Longrightarrow> key ` set xs \<inter> key ` set rs = {} \<Longrightarrow> fold (save_row key) xs rs = rs @ xs"
proof (induction xs arbitrary: rs)
  case Nil
  then show ?case by simp
next
  case (Cons x xs)
  then have "key x \<notin> key ` set rs" by auto
  then have s: "save_row key x rs = rs @ [x]" by (auto simp: save_row_def image_iff)
  have "key ` set xs \<inter> key ` set (rs @ [x]) = {}" using Cons.prems by auto
  with Cons.IH [of "rs @ [x]"] Cons.prems(1) show ?case by (simp add: s)
qed

lemma distinct_map_filter_conj:
  "distinct (map f (filter P xs)) \<Longrightarrow> distinct (map f (filter (\<lambda>x. P x \<and> Q x) xs))"
  by (induction xs) (auto split: if_splits)

lemma set_save_row:
  "x \<in> set (save_row key r rs) \<Longrightarrow> x = r \<or> x \<in> set rs \<and> key x \<noteq> key r"
  by (auto simp: save_row_def split: if_splits)

section \<open>Audit records\<close>

text \<open>
  \<open>audit.record\<close> sends one record to the audit service and never fails the caller. The state
  of a service holds the records sent so far, oldest first.
\<close>

record audit_entry =
  au_idempotencyKey :: "string option"
  au_correlationId :: "string option"
  au_actor :: string
  au_action :: string
  au_resourceType :: string
  au_resourceId :: string
  au_payload :: json

section \<open>Identifiers\<close>

text \<open>A version 4 UUID, as \<open>IsUUID('4')\<close> accepts it.\<close>

definition is_hex :: "char \<Rightarrow> bool" where
  "is_hex c \<longleftrightarrow> hex_val c \<noteq> None"

definition is_uuid4 :: "string \<Rightarrow> bool" where
  "is_uuid4 s \<longleftrightarrow> length s = 36 \<and> list_all (\<lambda>(i, c).
      if i \<in> {8, 13, 18, 23} then c = CHR ''-''
      else if i = 14 then c = CHR ''4''
      else if i = 19 then c \<in> {CHR ''8'', CHR ''9'', CHR ''a'', CHR ''b'', CHR ''A'', CHR ''B''}
      else is_hex c) (zip [0..<36] s)"

section \<open>The life cycle of a versioned row\<close>

text \<open>
  Every service owns its table alone and lets a row change only by committed operations.
  \<open>step\<close> is one committed operation of the service, \<open>st\<close> and \<open>ver\<close> the state and the
  \<open>entityVersion\<close> of a row, \<open>allowed\<close> the transitions the service promises.
\<close>

locale lifecycle =
  fixes step :: "'db \<Rightarrow> 'db \<Rightarrow> bool"
    and row :: "'k \<Rightarrow> 'db \<Rightarrow> 'row option"
    and st :: "'row \<Rightarrow> 's"
    and ver :: "'row \<Rightarrow> int"
    and allowed :: "'s \<Rightarrow> 's \<Rightarrow> bool"
  assumes step_row: "step d d' \<Longrightarrow> row k d = Some r \<Longrightarrow>
    \<exists>r'. row k d' = Some r' \<and>
      (st r' = st r \<and> ver r' = ver r \<or> ver r' = ver r + 1 \<and> allowed (st r) (st r'))"
begin

lemma run_row:
  "step\<^sup>*\<^sup>* d d' \<Longrightarrow> row k d = Some r \<Longrightarrow>
    \<exists>r'. row k d' = Some r' \<and> ver r \<le> ver r' \<and> allowed\<^sup>*\<^sup>* (st r) (st r') \<and>
      (ver r' = ver r \<longrightarrow> st r' = st r)"
proof (induction rule: rtranclp_induct)
  case base
  then show ?case by auto
next
  case (step y z)
  then obtain r1 where r1: "row k y = Some r1" "ver r \<le> ver r1" "allowed\<^sup>*\<^sup>* (st r) (st r1)"
      "ver r1 = ver r \<longrightarrow> st r1 = st r" by blast
  from step_row [OF step.hyps(2) r1(1)] obtain r2 where r2: "row k z = Some r2"
      "st r2 = st r1 \<and> ver r2 = ver r1 \<or> ver r2 = ver r1 + 1 \<and> allowed (st r1) (st r2)" by blast
  from r2(2) have "ver r \<le> ver r2 \<and> allowed\<^sup>*\<^sup>* (st r) (st r2) \<and> (ver r2 = ver r \<longrightarrow> st r2 = st r)"
    using r1 by (auto intro: rtranclp.rtrancl_into_rtrancl)
  with r2(1) show ?case by blast
qed

lemma run_terminal:
  assumes run: "step\<^sup>*\<^sup>* d d'" and r: "row k d = Some r" and t: "\<And>s. \<not> allowed (st r) s"
  shows "\<exists>r'. row k d' = Some r' \<and> st r' = st r \<and> ver r' = ver r"
  using run r t
proof (induction rule: rtranclp_induct)
  case base
  then show ?case by auto
next
  case (step y z)
  then obtain r1 where r1: "row k y = Some r1" "st r1 = st r" "ver r1 = ver r" by blast
  from step_row [OF step.hyps(2) r1(1)] step.prems r1 show ?case by force
qed

lemma run_closed:
  assumes run: "step\<^sup>*\<^sup>* d d'" and r: "row k d = Some r" and a: "st r \<in> A"
    and cl: "\<And>s s'. s \<in> A \<Longrightarrow> allowed s s' \<Longrightarrow> s' \<in> A"
  shows "\<exists>r'. row k d' = Some r' \<and> st r' \<in> A"
proof -
  from run_row [OF run r] obtain r' where r': "row k d' = Some r'" "allowed\<^sup>*\<^sup>* (st r) (st r')" by blast
  from r'(2) a have "st r' \<in> A" by (induction rule: rtranclp_induct) (auto intro: cl)
  with r'(1) show ?thesis by blast
qed

end

section \<open>Idempotent delivery\<close>

text \<open>
  The relay delivers at least once, so what it calls must change nothing when it is called
  again after it has succeeded.
\<close>

locale idempotent_op =
  fixes op :: "'req \<Rightarrow> 'db \<Rightarrow> ('a, 'db) outcome"
  assumes again: "op q d = (Inr v, d') \<Longrightarrow> \<exists>v'. op q d' = (Inr v', d')"
begin

lemma redeliver:
  assumes "op q d = (Inr v, d')"
  shows "((\<lambda>x. snd (op q x)) ^^ Suc n) d = d'"
proof (induction n)
  case 0
  from assms show ?case by simp
next
  case (Suc n)
  moreover from again [OF assms] obtain v' where "op q d' = (Inr v', d')" ..
  ultimately show ?case by simp
qed

end

end
