(* ===== verification/Outbox.thy ===== *)
theory Outbox
  imports Svc_Base
begin

text \<open>
  The transactional outbox and inbox (\<open>packages/messaging\<close>, \<open>packages/persistence\<close>) and the
  Kafka bridge (\<open>packages/outbox-kafka-bridge\<close>). Services append rows in the transaction of
  the state change; workers fetch the unprocessed rows of their event types in id order and
  set \<open>processedAt\<close>.
\<close>

section \<open>Event names and rows\<close>

definition riskDecisionIssued :: string where "riskDecisionIssued = ''RiskDecisionIssued''"
definition capitalReserved :: string where "capitalReserved = ''CapitalReserved''"
definition planArmed :: string where "planArmed = ''PlanArmed''"
definition legFilled :: string where "legFilled = ''LegFilled''"
definition planCompleted :: string where "planCompleted = ''PlanCompleted''"
definition planFailed :: string where "planFailed = ''PlanFailed''"
definition snapshotUpdated :: string where "snapshotUpdated = ''SnapshotUpdated''"
definition paperPromotionCandidateRequested :: string where
  "paperPromotionCandidateRequested = ''PaperPromotionCandidateRequested''"
definition dexTransactionSubmitted :: string where "dexTransactionSubmitted = ''DexTransactionSubmitted''"
definition dexTransactionConfirmed :: string where "dexTransactionConfirmed = ''DexTransactionConfirmed''"
definition dexTransactionFailed :: string where "dexTransactionFailed = ''DexTransactionFailed''"

lemmas event_names =
  riskDecisionIssued_def capitalReserved_def planArmed_def legFilled_def planCompleted_def
  planFailed_def snapshotUpdated_def paperPromotionCandidateRequested_def
  dexTransactionSubmitted_def dexTransactionConfirmed_def dexTransactionFailed_def

record outbox_row =
  ob_id :: nat
  ob_messageId :: string
  ob_eventType :: string
  ob_entityType :: string
  ob_entityId :: string
  ob_schemaVersion :: int
  ob_payload :: json
  ob_envelope :: json
  ob_createdAt :: int
  ob_processedAt :: "int option"
  ob_deadLetterAt :: "int option"
  ob_deadLetterReason :: "string option"
  ob_attempts :: nat
  ob_paperEnqueueKey :: "string option"

text \<open>The envelope every producer writes around its payload.\<close>

definition mk_envelope ::
  "string \<Rightarrow> string \<Rightarrow> string \<Rightarrow> string \<Rightarrow> int \<Rightarrow> string \<Rightarrow> int \<Rightarrow> string \<Rightarrow> json \<Rightarrow> json" where
  "mk_envelope messageId correlationId entityType entityId version sourceModule eventTs eventName payload =
     JObj [(''messageId'', JStr messageId), (''correlationId'', JStr correlationId),
       (''entityType'', JStr entityType), (''entityId'', JStr entityId),
       (''version'', JNum (of_int version)), (''sourceModule'', JStr sourceModule),
       (''eventTs'', JIso eventTs), (''eventName'', JStr eventName), (''payload'', payload)]"

definition mk_outbox ::
  "string \<Rightarrow> string \<Rightarrow> string \<Rightarrow> string \<Rightarrow> int \<Rightarrow> json \<Rightarrow> json \<Rightarrow> int \<Rightarrow> outbox_row" where
  "mk_outbox messageId eventType entityType entityId version payload envelope createdAt =
     \<lparr> ob_id = 0, ob_messageId = messageId, ob_eventType = eventType, ob_entityType = entityType,
       ob_entityId = entityId, ob_schemaVersion = version, ob_payload = payload,
       ob_envelope = envelope, ob_createdAt = createdAt, ob_processedAt = None,
       ob_deadLetterAt = None, ob_deadLetterReason = None, ob_attempts = 0,
       ob_paperEnqueueKey = None \<rparr>"

text \<open>
  \<open>em.save\<close> of a new row: the id comes from the table's sequence and is above every id given
  before; rows are never deleted.
\<close>

definition save_outbox :: "outbox_row \<Rightarrow> outbox_row list \<Rightarrow> outbox_row list" where
  "save_outbox ev rows = rows @ [ev\<lparr>ob_id := Suc (fold max (map ob_id rows) 0)\<rparr>]"

definition update_outbox :: "nat \<Rightarrow> (outbox_row \<Rightarrow> outbox_row) \<Rightarrow> outbox_row list \<Rightarrow> outbox_row list" where
  "update_outbox i f rows = map (\<lambda>r. if ob_id r = i then f r else r) rows"

definition mark_processed :: "int \<Rightarrow> nat \<Rightarrow> outbox_row list \<Rightarrow> outbox_row list" where
  "mark_processed now i rows = update_outbox i (\<lambda>r. r\<lparr>ob_processedAt := Some now\<rparr>) rows"

section \<open>Polling\<close>

text \<open>
  \<open>fetchLockedOutboxBatch\<close>; \<open>locked\<close> holds the ids another transaction has locked
  (\<open>SKIP LOCKED\<close>).
\<close>

definition fetchLockedOutboxBatch ::
  "nat set \<Rightarrow> nat \<Rightarrow> string list \<Rightarrow> outbox_row list \<Rightarrow> outbox_row list" where
  "fetchLockedOutboxBatch locked limit eventTypes rows =
     (if eventTypes = [] then []
      else take limit (filter (\<lambda>r. ob_id r \<notin> locked)
        (sort_key ob_id (filter (\<lambda>r. ob_processedAt r = None \<and> ob_deadLetterAt r = None
           \<and> ob_eventType r \<in> set eventTypes) rows))))"

lemma fetch_batch_open:
  "r \<in> set (fetchLockedOutboxBatch locked limit ts rows) \<Longrightarrow>
     r \<in> set rows \<and> ob_processedAt r = None \<and> ob_deadLetterAt r = None
     \<and> ob_eventType r \<in> set ts \<and> ob_id r \<notin> locked"
  by (auto simp: fetchLockedOutboxBatch_def split: if_splits dest!: in_set_takeD)

lemma fetch_batch_length: "length (fetchLockedOutboxBatch locked limit ts rows) \<le> limit"
  by (simp add: fetchLockedOutboxBatch_def)

section \<open>Inbox\<close>

type_synonym inbox = "(string \<times> string) list"

text \<open>
  \<open>tryClaimInboxMessage\<close>: the insert fails with a unique violation when the consumer has
  already claimed the message.
\<close>

definition tryClaimInboxMessage :: "string \<Rightarrow> string \<Rightarrow> inbox \<Rightarrow> bool \<times> inbox" where
  "tryClaimInboxMessage consumerId messageId inbox =
     (if (consumerId, messageId) \<in> set inbox then (False, inbox)
      else (True, inbox @ [(consumerId, messageId)]))"

definition releaseInboxClaim :: "string \<Rightarrow> string \<Rightarrow> inbox \<Rightarrow> inbox" where
  "releaseInboxClaim consumerId messageId inbox = filter (\<lambda>x. x \<noteq> (consumerId, messageId)) inbox"

lemma claim_once:
  "tryClaimInboxMessage c m i = (True, i') \<Longrightarrow> tryClaimInboxMessage c m i' = (False, i')"
  by (auto simp: tryClaimInboxMessage_def split: if_splits)

lemma claim_distinct:
  "distinct i \<Longrightarrow> distinct (snd (tryClaimInboxMessage c m i))"
  by (simp add: tryClaimInboxMessage_def)

section \<open>Kafka bridge\<close>

definition KAFKA_PUBLISH_EVENT_TYPES :: "string list" where
  "KAFKA_PUBLISH_EVENT_TYPES =
     [snapshotUpdated, capitalReserved, planArmed, legFilled, planCompleted,
      dexTransactionSubmitted, dexTransactionConfirmed, dexTransactionFailed]"

datatype publish_result = published | empty

text \<open>
  \<open>publishOneSnapshotUpdated\<close>: \<open>send\<close> is the Kafka producer, \<open>Inl\<close> when the broker refuses.
  The second component is the list of records the broker has accepted.
\<close>

definition publishOneSnapshotUpdated ::
  "(string \<times> json \<Rightarrow> exn + unit) \<Rightarrow> nat set \<Rightarrow> int \<Rightarrow> outbox_row list
     \<Rightarrow> (exn + publish_result \<times> (string \<times> json) list) \<times> outbox_row list" where
  "publishOneSnapshotUpdated send locked now rows =
     (case fetchLockedOutboxBatch locked 1 KAFKA_PUBLISH_EVENT_TYPES rows of
        [] \<Rightarrow> (Inr (empty, []), rows)
      | row # _ \<Rightarrow>
          (case send (ob_messageId row, ob_envelope row) of
             Inl e \<Rightarrow> (Inl e, rows)
           | Inr () \<Rightarrow> (Inr (published, [(ob_messageId row, ob_envelope row)]),
                        mark_processed now (ob_id row) rows)))"

declare publishOneSnapshotUpdated_def [op_defs] fetchLockedOutboxBatch_def [op_defs]

section \<open>Facts shared by the producers and the workers\<close>

lemma fold_max_ge: "x \<in> set (a # xs) \<Longrightarrow> x \<le> fold max xs (a::nat)"
  unfolding Max.set_eq_fold [symmetric] by (rule Max_ge) simp_all

lemma save_outbox_new_id: "r \<in> set rows \<Longrightarrow> ob_id r < Suc (fold max (map ob_id rows) 0)"
  by (rule le_imp_less_Suc, rule fold_max_ge) simp

lemma save_outbox_sorted:
  assumes "sorted (map ob_id rows)" and "distinct (map ob_id rows)"
  shows "sorted (map ob_id (save_outbox ev rows))" and "distinct (map ob_id (save_outbox ev rows))"
proof -
  have lt: "\<forall>i \<in> set (map ob_id rows). i < Suc (fold max (map ob_id rows) 0)"
    using save_outbox_new_id by auto
  then have "Suc (fold max (map ob_id rows) 0) \<notin> set (map ob_id rows)" by blast
  with assms(2) show "distinct (map ob_id (save_outbox ev rows))" by (simp add: save_outbox_def)
  from lt have "\<forall>i \<in> set (map ob_id rows). i \<le> Suc (fold max (map ob_id rows) 0)" by (meson less_imp_le)
  with assms(1) show "sorted (map ob_id (save_outbox ev rows))"
    by (simp add: save_outbox_def sorted_append)
qed

lemma mark_processed_ids [simp]: "map ob_id (mark_processed now i rows) = map ob_id rows"
  by (auto simp: mark_processed_def update_outbox_def)

lemma mark_processed_length [simp]: "length (mark_processed now i rows) = length rows"
  by (simp add: mark_processed_def update_outbox_def)

lemma mark_processed_in:
  "r \<in> set (mark_processed now i rows) \<Longrightarrow> ob_processedAt r = None \<Longrightarrow> r \<in> set rows \<and> ob_id r \<noteq> i"
  by (auto simp: mark_processed_def update_outbox_def split: if_splits)

lemma mark_processed_other:
  "r \<in> set rows \<Longrightarrow> ob_id r \<noteq> i \<Longrightarrow> r \<in> set (mark_processed now i rows)"
  by (force simp: mark_processed_def update_outbox_def)

lemma save_outbox_prefix: "\<exists>suf. save_outbox ev rows = rows @ suf"
  by (simp add: save_outbox_def)

lemma mk_outbox_simps [simp]:
  "ob_eventType (mk_outbox m et nt ni v p e c) = et"
  "ob_entityId (mk_outbox m et nt ni v p e c) = ni"
  "ob_payload (mk_outbox m et nt ni v p e c) = p"
  "ob_messageId (mk_outbox m et nt ni v p e c) = m"
  "ob_processedAt (mk_outbox m et nt ni v p e c) = None"
  "ob_deadLetterAt (mk_outbox m et nt ni v p e c) = None"
  "ob_envelope (mk_outbox m et nt ni v p e c) = e"
  by (simp_all add: mk_outbox_def)

end
