(* ===== verification/Capital.thy ===== *)
theory Capital
  imports Outbox
begin

text \<open>
  \<open>apps/capital-service\<close>: the aggregate capital ceiling (\<open>capital-limits.service.ts\<close>), the
  reservations (\<open>capital.service.ts\<close>), the expiry of their lease
  (\<open>capital-reservation-expiry.ts\<close>) and the sweeper (\<open>capital-reservation-sweeper.worker.ts\<close>).
  The database holds the reservations, the shared outbox, the portfolio rows the service reads
  and the audit records it has sent.
\<close>

section \<open>State\<close>

datatype cr_status = active | released | expired

record reservation =
  cr_id :: string
  cr_planId :: "string option"
  cr_correlationId :: string
  cr_amountUsd :: rat
  cr_state :: cr_status
  cr_expiresAt :: int
  cr_entityVersion :: int

record capital_db =
  cd_reservations :: "reservation list"
  cd_positions :: "(rat \<times> rat) list" \<comment> \<open>quantity and notional of \<open>portfolio_positions\<close>\<close>
  cd_outbox :: "outbox_row list"
  cd_audit :: "audit_entry list"
  cd_activeUsdGauge :: rat

definition get_res :: "string \<Rightarrow> capital_db \<Rightarrow> reservation option" where
  "get_res i d = get_row cr_id i (cd_reservations d)"

definition save_res :: "reservation \<Rightarrow> capital_db \<Rightarrow> capital_db" where
  "save_res r d = d\<lparr>cd_reservations := save_row cr_id r (cd_reservations d)\<rparr>"

interpretation res: row_store get_res save_res cr_id
  by unfold_locales (simp_all add: get_res_def save_res_def row_simps)

lemma get_res_key: "get_res i d = Some r \<Longrightarrow> cr_id r = i"
  by (auto simp: get_res_def dest: get_row_key)

section \<open>The ceiling\<close>

record limits_env =
  le_ceilingEnv :: "string option"   \<comment> \<open>\<open>CAPITAL_MAX_ACTIVE_USD\<close>\<close>
  le_production :: bool              \<comment> \<open>\<open>NODE_ENV = production\<close>\<close>

record fetch_result =
  fr_ok :: bool
  fr_status :: int
  fr_body :: json

type_synonym limits_cache = "(rat \<times> int) option"

definition CONFIG_CACHE_TTL_MS :: int where "CONFIG_CACHE_TTL_MS = 10000"
definition SAFE_DEFAULT_CEILING_USD :: rat where "SAFE_DEFAULT_CEILING_USD = 1000"

definition asNumber :: "json option \<Rightarrow> jsnum \<Rightarrow> jsnum" where
  "asNumber v fallback = (case v of Some (JNum q) \<Rightarrow> Fin q | _ \<Rightarrow> fallback)"

text \<open>\<open>parseResponse\<close>; \<open>JSON_parse\<close> is \<open>JSON.parse\<close>, \<open>None\<close> when it throws.\<close>

definition parseResponse :: "(string \<Rightarrow> json option) \<Rightarrow> fetch_result \<Rightarrow> rat option" where
  "parseResponse JSON_parse res =
     (if \<not> fr_ok res then None
      else case jget (fr_body res) ''configValue'' of
        Some (JStr cv) \<Rightarrow>
          (if cv = [] then None
           else case JSON_parse cv of
             None \<Rightarrow> None
           | Some (JObj kvs) \<Rightarrow>
               (case asNumber (jget (JObj kvs) ''maxActiveCapitalUsd'') NaN of
                  Fin q \<Rightarrow> if q > 0 then Some q else None
                | _ \<Rightarrow> None)
           | Some _ \<Rightarrow> None)
      | _ \<Rightarrow> None)"

definition parseEnvCeiling :: "limits_env \<Rightarrow> rat option" where
  "parseEnvCeiling env =
     (case le_ceilingEnv env of
        None \<Rightarrow> None
      | Some raw \<Rightarrow> if js_trim raw = [] then None
          else case js_Number raw of Fin v \<Rightarrow> if v > 0 then Some v else None | _ \<Rightarrow> None)"

definition refresh :: "(string \<Rightarrow> json option) \<Rightarrow> fetch_result \<Rightarrow> int \<Rightarrow> limits_cache \<Rightarrow> limits_cache" where
  "refresh JSON_parse res now cache =
     (case parseResponse JSON_parse res of Some v \<Rightarrow> Some (v, now) | None \<Rightarrow> cache)"

text \<open>\<open>getMaxActiveCapitalUsd\<close>; \<open>res\<close> is the answer of the config service if it is asked.\<close>

definition getMaxActiveCapitalUsd ::
  "(string \<Rightarrow> json option) \<Rightarrow> limits_env \<Rightarrow> fetch_result \<Rightarrow> int \<Rightarrow> limits_cache
     \<Rightarrow> (exn + rat) \<times> limits_cache" where
  "getMaxActiveCapitalUsd JSON_parse env res now cache =
     (let envCeiling = parseEnvCeiling env;
          cache' = (case cache of
              None \<Rightarrow> refresh JSON_parse res now cache
            | Some (_, fetchedAt) \<Rightarrow>
                if now - fetchedAt > CONFIG_CACHE_TTL_MS then refresh JSON_parse res now cache else cache);
          configCeiling = map_option fst cache'
      in (case (envCeiling, configCeiling) of
            (Some e, Some c) \<Rightarrow> (Inr (min e c), cache')
          | (Some e, None) \<Rightarrow> (Inr e, cache')
          | (None, Some c) \<Rightarrow> (Inr c, cache')
          | (None, None) \<Rightarrow>
              if le_production env
              then (Inl (ServiceUnavailableException ''Capital ceiling unavailable''), cache')
              else (Inr SAFE_DEFAULT_CEILING_USD, cache')))"

section \<open>Lease expiry\<close>

definition materializeCapitalReservationExpiryIfNeeded :: "reservation \<Rightarrow> int \<Rightarrow> bool \<times> reservation" where
  "materializeCapitalReservationExpiryIfNeeded row now =
     (if cr_state row \<noteq> active then (False, row)
      else if cr_expiresAt row > now then (False, row)
      else (True, row\<lparr>cr_state := expired, cr_entityVersion := cr_entityVersion row + 1\<rparr>))"

section \<open>Reservations\<close>

record reserve_dto =
  rd_correlationId :: string
  rd_planId :: "string option"
  rd_amountUsd :: rat
  rd_ttlSeconds :: "int option"

definition active_reservations_usd :: "capital_db \<Rightarrow> rat" where
  "active_reservations_usd d = sum_list (map cr_amountUsd (filter (\<lambda>r. cr_state r = active) (cd_reservations d)))"

definition open_positions_usd :: "capital_db \<Rightarrow> rat" where
  "open_positions_usd d = sum_list (map snd (filter (\<lambda>(q, n). q \<noteq> 0) (cd_positions d)))"

definition uniq_capital_res_active_per_correlation :: string where
  "uniq_capital_res_active_per_correlation = ''uniq_capital_res_active_per_correlation''"

text \<open>
  The body of the transaction of \<open>attemptReserve\<close>. \<open>ceilingR\<close> is the answer of the limits
  service, \<open>rid\<close> and \<open>mid\<close> the ids the database and \<open>randomUUID\<close> give out. The insert fails
  on the partial unique index of migration 051 when the correlation id has an active row.
\<close>

definition reserve_tx ::
  "exn + rat \<Rightarrow> reserve_dto \<Rightarrow> string \<Rightarrow> string \<Rightarrow> int \<Rightarrow> capital_db \<Rightarrow> (reservation, capital_db) outcome" where
  "reserve_tx ceilingR dto rid mid now d =
     (case ceilingR of
        Inl e \<Rightarrow> (Inl e, d)
      | Inr cap \<Rightarrow>
          (let activeTotal = active_reservations_usd d + open_positions_usd d;
               d1 = d\<lparr>cd_activeUsdGauge := activeTotal\<rparr>
           in if activeTotal + rd_amountUsd dto > cap
              then (Inl (CapitalCeilingExceededError cap activeTotal (rd_amountUsd dto)), d1)
              else if \<exists>r \<in> set (cd_reservations d). cr_state r = active \<and> cr_correlationId r = rd_correlationId dto
              then (Inl (UniqueViolation uniq_capital_res_active_per_correlation), d1)
              else
                (let ttl = (case rd_ttlSeconds dto of None \<Rightarrow> 300 | Some t \<Rightarrow> t);
                     row = \<lparr> cr_id = rid, cr_planId = rd_planId dto,
                             cr_correlationId = rd_correlationId dto, cr_amountUsd = rd_amountUsd dto,
                             cr_state = active, cr_expiresAt = now + ttl * 1000, cr_entityVersion = 1 \<rparr>;
                     payload = JObj [(''reservationId'', JStr rid),
                       (''correlationId'', JStr (rd_correlationId dto)),
                       (''planId'', jstr_or_null (rd_planId dto)),
                       (''amountUsd'', JNum (rd_amountUsd dto)),
                       (''expiresAt'', JIso (cr_expiresAt row)), (''entityVersion'', JNum 1)];
                     envelope = mk_envelope mid (rd_correlationId dto) ''CapitalReservation'' rid 1
                       ''capital-service'' now capitalReserved payload;
                     ev = mk_outbox mid capitalReserved ''CapitalReservation'' rid 1 payload envelope now
                 in (Inr row, (save_res row d1)\<lparr>cd_outbox := save_outbox ev (cd_outbox d)\<rparr>))))"

definition capital_audit :: "string \<Rightarrow> string \<Rightarrow> string option \<Rightarrow> string \<Rightarrow> json \<Rightarrow> audit_entry" where
  "capital_audit action rid correlationId key payload =
     \<lparr> au_idempotencyKey = Some key, au_correlationId = correlationId, au_actor = ''capital-service'',
       au_action = action, au_resourceType = ''CapitalReservation'', au_resourceId = rid,
       au_payload = payload \<rparr>"

text \<open>The gauge is process state and survives the rollback, as the metric does.\<close>

definition attemptReserve ::
  "exn + rat \<Rightarrow> reserve_dto \<Rightarrow> string \<Rightarrow> string \<Rightarrow> int \<Rightarrow> capital_db \<Rightarrow> (reservation, capital_db) outcome" where
  "attemptReserve ceilingR dto rid mid now d =
     (case reserve_tx ceilingR dto rid mid now d of
        (Inl e, d1) \<Rightarrow> (Inl e, d\<lparr>cd_activeUsdGauge := cd_activeUsdGauge d1\<rparr>)
      | (Inr saved, d1) \<Rightarrow>
          (Inr saved, d1\<lparr>cd_audit := cd_audit d1 @ [capital_audit ''ReserveCapital'' (cr_id saved)
             (Some (rd_correlationId dto)) (''capital:ReserveCapital:'' @ cr_id saved)
             (JObj [(''planId'', jstr_or_null (cr_planId saved)), (''amountUsd'', JNum (rd_amountUsd dto)),
                (''expiresAtIso'', JIso (cr_expiresAt saved))])]\<rparr>))"

text \<open>
  \<open>reserve\<close>. \<open>env\<close> is what the other transactions commit between the failed insert and the
  look-up of the existing row; the second attempt has ids, a ceiling and a clock of its own.
\<close>

definition find_active :: "string \<Rightarrow> capital_db \<Rightarrow> reservation option" where
  "find_active corr d = find (\<lambda>r. cr_correlationId r = corr \<and> cr_state r = active) (cd_reservations d)"

definition reserve ::
  "exn + rat \<Rightarrow> exn + rat \<Rightarrow> reserve_dto \<Rightarrow> string \<Rightarrow> string \<Rightarrow> string \<Rightarrow> string \<Rightarrow> int \<Rightarrow> int
     \<Rightarrow> (capital_db \<Rightarrow> capital_db) \<Rightarrow> capital_db \<Rightarrow> (reservation, capital_db) outcome" where
  "reserve ceilingR ceilingR2 dto rid mid rid2 mid2 now now2 env d =
     (case attemptReserve ceilingR dto rid mid now d of
        (Inr saved, d1) \<Rightarrow> (Inr saved, d1)
      | (Inl err, d1) \<Rightarrow>
          if err = UniqueViolation uniq_capital_res_active_per_correlation
          then (let d2 = env d1 in
                case find_active (rd_correlationId dto) d2 of
                  Some existing \<Rightarrow> (Inr existing, d2)
                | None \<Rightarrow> attemptReserve ceilingR2 dto rid2 mid2 now2 d2)
          else (Inl err, d1))"

definition getById :: "string \<Rightarrow> int \<Rightarrow> capital_db \<Rightarrow> (reservation, capital_db) outcome" where
  "getById i now = transaction (\<lambda>d.
     (case get_res i d of
        None \<Rightarrow> (Inl (NotFoundException ''Reservation not found''), d)
      | Some row \<Rightarrow>
          (case materializeCapitalReservationExpiryIfNeeded row now of
             (True, row') \<Rightarrow> (Inr row', save_res row' d)
           | (False, row') \<Rightarrow> (Inr row', d))))"

definition release_tx :: "string \<Rightarrow> int \<Rightarrow> capital_db \<Rightarrow> (reservation \<times> bool, capital_db) outcome" where
  "release_tx i now d =
     (case get_res i d of
        None \<Rightarrow> (Inl (NotFoundException ''Reservation not found''), d)
      | Some row \<Rightarrow>
          if cr_state row = released then (Inr (row, False), d)
          else if cr_state row \<noteq> active
          then (Inl (ConflictException ''Reservation cannot be released from its state''), d)
          else (case materializeCapitalReservationExpiryIfNeeded row now of
             (True, row') \<Rightarrow>
               (Inl (ConflictException ''Reservation has expired and cannot be released''), save_res row' d)
           | (False, _) \<Rightarrow>
               (let row' = row\<lparr>cr_state := released, cr_entityVersion := cr_entityVersion row + 1\<rparr>
                in (Inr (row', True), save_res row' d))))"

definition release :: "string \<Rightarrow> int \<Rightarrow> capital_db \<Rightarrow> (reservation, capital_db) outcome" where
  "release i now d =
     (case transaction (release_tx i now) d of
        (Inl e, d1) \<Rightarrow> (Inl e, d1)
      | (Inr (saved, didTransition), d1) \<Rightarrow>
          (Inr saved, if didTransition
             then d1\<lparr>cd_audit := cd_audit d1 @ [capital_audit ''ReleaseReservation'' (cr_id saved)
               (Some (cr_correlationId saved)) (''capital:ReleaseReservation:'' @ cr_id saved)
               (JObj [(''state'', JStr ''released'')])]\<rparr>
             else d1))"

section \<open>Sweeper\<close>

record sweeper =
  sw_isRunning :: bool
  sw_isShuttingDown :: bool
  sw_expiredTotal :: nat

definition sweep_row :: "int \<Rightarrow> reservation \<Rightarrow> reservation" where
  "sweep_row now r =
     (if cr_state r = active \<and> cr_expiresAt r < now
      then r\<lparr>cr_state := expired, cr_entityVersion := cr_entityVersion r + 1\<rparr> else r)"

text \<open>\<open>runSweep\<close>; \<open>dbError\<close> is the failure of the update statement, which is logged.\<close>

definition runSweep :: "bool \<Rightarrow> int \<Rightarrow> sweeper \<Rightarrow> capital_db \<Rightarrow> nat \<times> sweeper \<times> capital_db" where
  "runSweep dbError now w d =
     (if sw_isRunning w then (0, w, d)
      else if sw_isShuttingDown w then (0, w, d)
      else if dbError then (0, w\<lparr>sw_isRunning := False\<rparr>, d)
      else (let n = length (filter (\<lambda>r. cr_state r = active \<and> cr_expiresAt r < now) (cd_reservations d))
            in (n, w\<lparr>sw_isRunning := False, sw_expiredTotal := sw_expiredTotal w + n\<rparr>,
                d\<lparr>cd_reservations := map (sweep_row now) (cd_reservations d)\<rparr>)))"

declare reserve_tx_def [op_defs] attemptReserve_def [op_defs] reserve_def [op_defs]
  getById_def [op_defs] release_tx_def [op_defs] release_def [op_defs] runSweep_def [op_defs]
  materializeCapitalReservationExpiryIfNeeded_def [op_defs]

section \<open>Committed operations of the service\<close>

text \<open>
  One committed operation, with the ceiling the limits service answers bounded by \<open>C\<close>. Ids
  the database hands out are fresh and the request body has passed its validation
  (\<open>amountUsd\<close> is at least 0).
\<close>

inductive capital_step :: "rat \<Rightarrow> capital_db \<Rightarrow> capital_db \<Rightarrow> bool" for C where
  step_reserve: "attemptReserve cR dto rid mid now d = (out, d') \<Longrightarrow> get_res rid d = None \<Longrightarrow>
     0 \<le> rd_amountUsd dto \<Longrightarrow> (\<And>c. cR = Inr c \<Longrightarrow> c \<le> C) \<Longrightarrow> capital_step C d d'"
| step_getById: "getById i now d = (out, d') \<Longrightarrow> capital_step C d d'"
| step_release: "release i now d = (out, d') \<Longrightarrow> capital_step C d d'"
| step_sweep: "runSweep e now w d = (n, w', d') \<Longrightarrow> capital_step C d d'"

inductive_cases capital_stepE: "capital_step C d d'"

definition cr_allowed :: "cr_status \<Rightarrow> cr_status \<Rightarrow> bool" where
  "cr_allowed s s' \<longleftrightarrow> s = active \<and> (s' = released \<or> s' = expired)"

definition active_amount :: "reservation \<Rightarrow> rat" where
  "active_amount r = (if cr_state r = active then cr_amountUsd r else 0)"

lemma active_reservations_usd_alt:
  "active_reservations_usd d = sum_list (map active_amount (cd_reservations d))"
  by (simp add: active_reservations_usd_def active_amount_def [abs_def] sum_list_map_filter')

definition total_active :: "capital_db \<Rightarrow> rat" where
  "total_active d = active_reservations_usd d + open_positions_usd d"

text \<open>Every transaction leaves one of these shapes behind.\<close>

lemma attemptReserve_cases:
  assumes "attemptReserve cR dto rid mid now d = (out, d')"
  obtains (fail) e g where "out = Inl e" "d' = d\<lparr>cd_activeUsdGauge := g\<rparr>"
  | (ok) c row where "cR = Inr c" "total_active d + rd_amountUsd dto \<le> c"
      "\<forall>r \<in> set (cd_reservations d). \<not> (cr_state r = active \<and> cr_correlationId r = rd_correlationId dto)"
      "out = Inr row" "cr_id row = rid" "cr_state row = active" "cr_amountUsd row = rd_amountUsd dto"
      "cr_correlationId row = rd_correlationId dto" "cr_entityVersion row = 1"
      "cd_reservations d' = save_row cr_id row (cd_reservations d)" "cd_positions d' = cd_positions d"
      "\<exists>ev. cd_outbox d' = save_outbox ev (cd_outbox d) \<and> ob_eventType ev = capitalReserved
         \<and> ob_entityId ev = rid \<and> ob_processedAt ev = None"
proof (cases "reserve_tx cR dto rid mid now d")
  case (Pair res d1)
  show thesis
  proof (cases res)
    case (Inl e)
    with Pair assms have "out = Inl e" "d' = d\<lparr>cd_activeUsdGauge := cd_activeUsdGauge d1\<rparr>"
      by (auto simp: attemptReserve_def)
    then show thesis by (rule fail)
  next
    case (Inr row)
    have o: "out = Inr row" "cd_reservations d' = cd_reservations d1" "cd_positions d' = cd_positions d1"
        "cd_outbox d' = cd_outbox d1"
      using Pair Inr assms by (auto simp: attemptReserve_def)
    obtain c where c: "cR = Inr c" using Pair Inr by (cases cR) (auto simp: reserve_tx_def)
    have "\<not> total_active d + rd_amountUsd dto > c"
      using Pair Inr c by (auto simp: reserve_tx_def total_active_def Let_def split: if_splits)
    moreover have "\<forall>r \<in> set (cd_reservations d). \<not> (cr_state r = active \<and> cr_correlationId r = rd_correlationId dto)"
      using Pair Inr c by (auto simp: reserve_tx_def Let_def split: if_splits)
    moreover have "cr_id row = rid" "cr_state row = active" "cr_amountUsd row = rd_amountUsd dto"
        "cr_correlationId row = rd_correlationId dto" "cr_entityVersion row = 1"
        "cd_reservations d1 = save_row cr_id row (cd_reservations d)" "cd_positions d1 = cd_positions d"
      using Pair Inr c by (auto simp: reserve_tx_def Let_def save_res_def split: if_splits)
    moreover have "\<exists>ev. cd_outbox d1 = save_outbox ev (cd_outbox d) \<and> ob_eventType ev = capitalReserved
         \<and> ob_entityId ev = rid \<and> ob_processedAt ev = None"
      using Pair Inr c by (force simp: reserve_tx_def Let_def save_res_def split: if_splits)
    ultimately show thesis using c o by (intro ok [of c row]) auto
  qed
qed

lemma materialize_cases:
  "materializeCapitalReservationExpiryIfNeeded row now = (b, row') \<Longrightarrow>
     (\<not> b \<and> row' = row \<and> (cr_state row = active \<longrightarrow> now < cr_expiresAt row))
     \<or> (b \<and> cr_state row = active \<and> cr_expiresAt row \<le> now
          \<and> row' = row\<lparr>cr_state := expired, cr_entityVersion := cr_entityVersion row + 1\<rparr>)"
  by (auto simp: materializeCapitalReservationExpiryIfNeeded_def split: if_splits)

lemma getById_cases:
  "getById i now d = (out, d') \<Longrightarrow> d' = d \<or>
     (\<exists>row. get_res (cr_id row) d = Some row \<and> cr_state row = active \<and> cr_expiresAt row \<le> now \<and>
        d' = save_res (row\<lparr>cr_state := expired, cr_entityVersion := cr_entityVersion row + 1\<rparr>) d)"
  by (auto simp: getById_def transaction_def split: prod.splits sum.splits option.splits bool.splits
      dest!: materialize_cases dest: get_res_key)

lemma release_cases:
  "release i now d = (out, d') \<Longrightarrow>
     (cd_reservations d' = cd_reservations d \<and> cd_positions d' = cd_positions d) \<or>
     (\<exists>row. get_res (cr_id row) d = Some row \<and> cr_id row = i \<and> cr_state row = active \<and> now < cr_expiresAt row \<and>
        out = Inr (row\<lparr>cr_state := released, cr_entityVersion := cr_entityVersion row + 1\<rparr>) \<and>
        cd_positions d' = cd_positions d \<and>
        cd_reservations d' = save_row cr_id (row\<lparr>cr_state := released, cr_entityVersion := cr_entityVersion row + 1\<rparr>)
           (cd_reservations d))"
  (is "?prem \<Longrightarrow> ?concl")
proof -
  assume r: ?prem
  show ?concl
  proof (cases "get_res i d")
    case None
    with r show ?thesis by (auto simp: release_def release_tx_def transaction_def)
  next
    case (Some row)
    then have "cr_id row = i" by (rule get_res_key)
    with Some r show ?thesis
      by (auto simp: release_def release_tx_def transaction_def save_res_def Let_def split: prod.splits sum.splits
        bool.splits if_splits dest!: materialize_cases)
  qed
qed

lemma runSweep_cases:
  "runSweep e now w d = (n, w', d') \<Longrightarrow> d' = d \<or>
     d' = d\<lparr>cd_reservations := map (sweep_row now) (cd_reservations d)\<rparr>"
  by (auto simp: runSweep_def Let_def split: if_splits)

lemma sweep_row_id [simp]: "cr_id (sweep_row now r) = cr_id r"
  by (simp add: sweep_row_def)

section \<open>Life cycle of a reservation\<close>

lemma capital_step_row:
  assumes "capital_step C d d'" and "get_res k d = Some r"
  shows "\<exists>r'. get_res k d' = Some r' \<and>
      (cr_state r' = cr_state r \<and> cr_entityVersion r' = cr_entityVersion r
       \<or> cr_entityVersion r' = cr_entityVersion r + 1 \<and> cr_allowed (cr_state r) (cr_state r'))"
  using assms(1)
proof cases
  case (step_reserve cR dto rid mid now out)
  from step_reserve(1) show ?thesis
  proof (cases rule: attemptReserve_cases)
    case (fail e g)
    with assms(2) show ?thesis by (auto simp: get_res_def)
  next
    case (ok c row)
    with assms(2) step_reserve(2) show ?thesis by (auto simp: get_res_def row_simps)
  qed
next
  case (step_getById i now out)
  from getById_cases [OF this] assms(2) show ?thesis
    by (auto simp: res.get_save cr_allowed_def)
next
  case (step_release i now out)
  from release_cases [OF this] assms(2) show ?thesis
    by (auto simp: get_res_def row_simps cr_allowed_def)
next
  case (step_sweep e now w n w')
  from runSweep_cases [OF this] assms(2) show ?thesis
    by (auto simp: get_res_def get_row_map sweep_row_def cr_allowed_def)
qed

interpretation resv: lifecycle "capital_step C" get_res cr_state cr_entityVersion cr_allowed for C
  by unfold_locales (rule capital_step_row)

section \<open>Invariants\<close>

definition capital_inv :: "capital_db \<Rightarrow> bool" where
  "capital_inv d \<longleftrightarrow> distinct (map cr_id (cd_reservations d))
     \<and> (\<forall>r \<in> set (cd_reservations d). 0 \<le> cr_amountUsd r)
     \<and> distinct (map cr_correlationId (filter (\<lambda>r. cr_state r = active) (cd_reservations d)))"

lemma capital_inv_gauge [simp]: "capital_inv (d\<lparr>cd_activeUsdGauge := g\<rparr>) = capital_inv d"
  by (simp add: capital_inv_def)

lemma capital_inv_cong:
  "cd_reservations d' = cd_reservations d \<Longrightarrow> capital_inv d' = capital_inv d"
  by (simp add: capital_inv_def)

text \<open>Deactivating rows only removes them from the list of the active ones.\<close>

lemma filter_active_save_row:
  "cr_state r \<noteq> active \<Longrightarrow> get_row cr_id (cr_id r) rs = Some x \<Longrightarrow>
     filter (\<lambda>y. cr_state y = active) (save_row cr_id r rs)
       = filter (\<lambda>y. cr_id y \<noteq> cr_id r) (filter (\<lambda>y. cr_state y = active) rs)"
proof -
  assume a: "cr_state r \<noteq> active" and g: "get_row cr_id (cr_id r) rs = Some x"
  have "filter (\<lambda>y. cr_state y = active) (map (\<lambda>y. if cr_id y = cr_id r then r else y) rs)
       = filter (\<lambda>y. cr_id y \<noteq> cr_id r) (filter (\<lambda>y. cr_state y = active) rs)"
    using a by (induction rs) auto
  with g show ?thesis by (simp add: save_row_existing)
qed

lemma filter_active_sweep:
  "filter (\<lambda>y. cr_state y = active) (map (sweep_row now) rs)
     = filter (\<lambda>y. \<not> cr_expiresAt y < now) (filter (\<lambda>y. cr_state y = active) rs)"
  by (induction rs) (auto simp: sweep_row_def)

lemma capital_inv_deactivate:
  assumes "capital_inv d" and "get_res (cr_id row) d = Some row" and "s \<noteq> active"
    and "cd_reservations d' = save_row cr_id (row\<lparr>cr_state := s, cr_entityVersion := v\<rparr>) (cd_reservations d)"
  shows "capital_inv d'" and "active_reservations_usd d' = active_reservations_usd d - active_amount row"
proof -
  let ?r = "row\<lparr>cr_state := s, cr_entityVersion := v\<rparr>"
  from assms(2) have g: "get_row cr_id (cr_id ?r) (cd_reservations d) = Some row"
    by (simp add: get_res_def)
  from assms(1) have "0 \<le> cr_amountUsd row" using get_row_in_set [OF g] by (auto simp: capital_inv_def)
  then show "capital_inv d'"
    using assms filter_active_save_row [OF _ g] unfolding capital_inv_def assms(4)
    by (auto simp: distinct_map_filter_conj dest!: set_save_row)
  show "active_reservations_usd d' = active_reservations_usd d - active_amount row"
    using assms sum_list_save_row [OF _ g, of active_amount]
    by (simp add: active_reservations_usd_alt capital_inv_def active_amount_def)
qed

lemma active_amount_nonneg: "0 \<le> cr_amountUsd r \<Longrightarrow> 0 \<le> active_amount r"
  by (simp add: active_amount_def)

lemma capital_step_inv_total:
  assumes "capital_step C d d'" and "capital_inv d" and "total_active d \<le> C"
  shows "capital_inv d' \<and> total_active d' \<le> C"
  using assms(1)
proof cases
  case (step_reserve cR dto rid mid now out)
  from step_reserve(1) show ?thesis
  proof (cases rule: attemptReserve_cases)
    case (fail e g)
    with assms show ?thesis by (simp add: total_active_def active_reservations_usd_def open_positions_usd_def)
  next
    case (ok c row)
    have new: "cd_reservations d' = cd_reservations d @ [row]"
      using ok step_reserve(2) by (simp add: get_res_def save_row_new)
    moreover have "cr_id row \<notin> cr_id ` set (cd_reservations d)"
      using ok(5) step_reserve(2) by (auto simp: get_res_def get_row_def find_None_iff)
    ultimately have "capital_inv d'"
      using assms(2) ok step_reserve(3) by (auto simp: capital_inv_def)
    moreover have "total_active d' = total_active d + rd_amountUsd dto"
      using new ok by (simp add: total_active_def active_reservations_usd_def open_positions_usd_def)
    moreover have "c \<le> C" using ok(1) step_reserve(4) by blast
    ultimately show ?thesis using ok(2) by simp
  qed
next
  case (step_getById i now out)
  from getById_cases [OF this] show ?thesis
  proof
    assume "d' = d"
    with assms show ?thesis by simp
  next
    assume "\<exists>row. get_res (cr_id row) d = Some row \<and> cr_state row = active \<and> cr_expiresAt row \<le> now \<and>
        d' = save_res (row\<lparr>cr_state := expired, cr_entityVersion := cr_entityVersion row + 1\<rparr>) d"
    then obtain row where row: "get_res (cr_id row) d = Some row"
        "d' = save_res (row\<lparr>cr_state := expired, cr_entityVersion := cr_entityVersion row + 1\<rparr>) d" by blast
    then have "0 \<le> active_amount row"
      using assms(2) by (auto simp: capital_inv_def get_res_def active_amount_def dest!: get_row_in_set)
    with row assms capital_inv_deactivate [OF assms(2) row(1), of expired d' "cr_entityVersion row + 1"]
    show ?thesis by (simp add: save_res_def total_active_def open_positions_usd_def)
  qed
next
  case (step_release i now out)
  from release_cases [OF this] show ?thesis
  proof
    assume "cd_reservations d' = cd_reservations d \<and> cd_positions d' = cd_positions d"
    with assms show ?thesis
      by (simp add: capital_inv_def total_active_def active_reservations_usd_def open_positions_usd_def)
  next
    assume "\<exists>row. get_res (cr_id row) d = Some row \<and> cr_id row = i \<and> cr_state row = active \<and> now < cr_expiresAt row \<and>
        out = Inr (row\<lparr>cr_state := released, cr_entityVersion := cr_entityVersion row + 1\<rparr>) \<and>
        cd_positions d' = cd_positions d \<and>
        cd_reservations d' = save_row cr_id (row\<lparr>cr_state := released, cr_entityVersion := cr_entityVersion row + 1\<rparr>)
           (cd_reservations d)"
    then obtain row where row: "get_res (cr_id row) d = Some row" "cd_positions d' = cd_positions d"
        "cd_reservations d' = save_row cr_id (row\<lparr>cr_state := released, cr_entityVersion := cr_entityVersion row + 1\<rparr>)
           (cd_reservations d)" by blast
    then have "0 \<le> active_amount row"
      using assms(2) by (auto simp: capital_inv_def get_res_def active_amount_def dest!: get_row_in_set)
    with row assms capital_inv_deactivate [OF assms(2) row(1), of released d' "cr_entityVersion row + 1"]
    show ?thesis by (simp add: total_active_def open_positions_usd_def)
  qed
next
  case (step_sweep e now w n w')
  from runSweep_cases [OF this] show ?thesis
  proof
    assume "d' = d"
    with assms show ?thesis by simp
  next
    assume d': "d' = d\<lparr>cd_reservations := map (sweep_row now) (cd_reservations d)\<rparr>"
    have "map cr_id (map (sweep_row now) (cd_reservations d)) = map cr_id (cd_reservations d)" by simp
    moreover have "\<forall>r. cr_amountUsd (sweep_row now r) = cr_amountUsd r" by (simp add: sweep_row_def)
    ultimately have "capital_inv d'"
      using assms(2) unfolding capital_inv_def d' by (auto simp: filter_active_sweep distinct_map_filter_conj o_def)
    moreover have "active_reservations_usd d' \<le> active_reservations_usd d"
    proof -
      have "active_amount (sweep_row now r) \<le> active_amount r" if "r \<in> set (cd_reservations d)" for r
        using assms(2) that by (auto simp: capital_inv_def sweep_row_def active_amount_def)
      then show ?thesis
        by (simp add: active_reservations_usd_alt d' o_def sum_list_mono)
    qed
    ultimately show ?thesis using assms(3) by (simp add: total_active_def open_positions_usd_def d')
  qed
qed

lemma capital_run_inv_total:
  "(capital_step C)\<^sup>*\<^sup>* d d' \<Longrightarrow> capital_inv d \<Longrightarrow> total_active d \<le> C \<Longrightarrow>
     capital_inv d' \<and> total_active d' \<le> C"
  by (induction rule: rtranclp_induct) (auto dest: capital_step_inv_total)

section \<open>Idempotent release\<close>

lemma release_again:
  assumes "release i now d = (Inr v, d')"
  shows "\<exists>v'. release i now d' = (Inr v', d')"
proof (cases "get_res i d")
  case None
  with assms show ?thesis by (simp add: release_def release_tx_def transaction_def)
next
  case (Some row)
  then have id: "cr_id row = i" by (rule get_res_key)
  show ?thesis
  proof (cases "cr_state row = released")
    case True
    with Some assms show ?thesis by (auto simp: release_def release_tx_def transaction_def)
  next
    case False
    then have act: "cr_state row = active" "now < cr_expiresAt row"
      using Some assms by (auto simp: release_def release_tx_def transaction_def
        materializeCapitalReservationExpiryIfNeeded_def split: if_splits)
    then have "\<exists>r'. get_res i d' = Some r' \<and> cr_state r' = released"
      using Some assms id False
      by (auto simp: release_def release_tx_def transaction_def Let_def get_res_def save_res_def row_simps
        materializeCapitalReservationExpiryIfNeeded_def)
    then show ?thesis by (auto simp: release_def release_tx_def transaction_def)
  qed
qed

interpretation rel: idempotent_op "\<lambda>(i, now). release i now"
  by unfold_locales (auto dest: release_again)

section \<open>Properties\<close>

definition empty_capital_db :: capital_db where
  "empty_capital_db = \<lparr> cd_reservations = [], cd_positions = [], cd_outbox = [], cd_audit = [],
     cd_activeUsdGauge = 0 \<rparr>"

definition dto_example :: reserve_dto where
  "dto_example = \<lparr> rd_correlationId = ''corr-1'', rd_planId = Some ''plan-1'', rd_amountUsd = 600,
     rd_ttlSeconds = None \<rparr>"



text \<open>
  The life cycle of a reservation. A released or expired reservation never changes again,
  whatever operations follow; a row is never lost, its version never decreases, and an
  unchanged version means an unchanged state.
\<close>

theorem reservation_lifecycle:
  assumes "(capital_step C)\<^sup>*\<^sup>* d d'" and "get_res i d = Some r"
  shows "\<exists>r'. get_res i d' = Some r' \<and> cr_entityVersion r \<le> cr_entityVersion r'
    \<and> (cr_entityVersion r' = cr_entityVersion r \<longrightarrow> cr_state r' = cr_state r)
    \<and> (cr_state r \<noteq> active \<longrightarrow> cr_state r' = cr_state r \<and> cr_entityVersion r' = cr_entityVersion r)"
  using resv.run_row [OF assms] resv.run_terminal [OF assms] by (force simp: cr_allowed_def)

theorem reservation_lifecycle_witness:
  "\<exists>r'. get_res ''r1'' (snd (release ''r1'' 5 (snd (attemptReserve (Inr 1000) dto_example ''r1'' ''m1'' 0 empty_capital_db))))
     = Some r' \<and> 1 \<le> cr_entityVersion r'"
proof -
  let ?d = "snd (attemptReserve (Inr 1000) dto_example ''r1'' ''m1'' 0 empty_capital_db)"
  have step: "capital_step 1000 ?d (snd (release ''r1'' 5 ?d))"
    by (rule step_release [of "''r1''" 5 _ "fst (release ''r1'' 5 ?d)"]) simp
  obtain r where r: "get_res ''r1'' ?d = Some r" "cr_entityVersion r = 1"
    by (simp add: attemptReserve_def reserve_tx_def dto_example_def empty_capital_db_def total_active_def
      active_reservations_usd_def open_positions_usd_def get_res_def get_row_def save_res_def save_row_def Let_def)
  show ?thesis
    using reservation_lifecycle [OF r_into_rtranclp [where r = "capital_step 1000", OF step] r(1)] r(2) by auto
qed

text \<open>
  A retried reserve under the ceiling is idempotent. While the correlation id has an active
  reservation and the requested amount fits on top of it, \<open>reserve\<close> creates no second row: it
  returns the existing one and leaves the reservations and the outbox as they are.
\<close>

theorem reserve_replay_returns_existing:
  assumes "find_active (rd_correlationId dto) d = Some existing"
    and "total_active d + rd_amountUsd dto \<le> c"
  shows "\<exists>d'. reserve (Inr c) cR2 dto rid mid rid2 mid2 now now2 id d = (Inr existing, d')
    \<and> cd_reservations d' = cd_reservations d \<and> cd_outbox d' = cd_outbox d \<and> cd_audit d' = cd_audit d"
proof -
  from assms(1) have "\<exists>r \<in> set (cd_reservations d). cr_state r = active \<and> cr_correlationId r = rd_correlationId dto"
    by (auto simp: find_active_def find_Some_iff)
  with assms show ?thesis
    by (auto simp: reserve_def attemptReserve_def reserve_tx_def total_active_def Let_def find_active_def)
qed

theorem reserve_replay_returns_existing_witness:
  "\<exists>d' e. reserve (Inr 2000) (Inr 2000) dto_example ''r2'' ''m2'' ''r3'' ''m3'' 7 8 id
      (snd (attemptReserve (Inr 2000) dto_example ''r1'' ''m1'' 0 empty_capital_db)) = (Inr e, d')
      \<and> cr_id e = ''r1'' \<and> length (cd_reservations d') = 1"
proof -
  let ?d = "snd (attemptReserve (Inr 2000) dto_example ''r1'' ''m1'' 0 empty_capital_db)"
  note ev = attemptReserve_def reserve_tx_def dto_example_def empty_capital_db_def total_active_def
      active_reservations_usd_def open_positions_usd_def save_res_def save_row_def Let_def find_active_def
  obtain e where e: "find_active (rd_correlationId dto_example) ?d = Some e" "cr_id e = ''r1''"
    by (simp add: ev)
  have t: "total_active ?d + rd_amountUsd dto_example \<le> 2000" by (simp add: ev)
  have l: "length (cd_reservations ?d) = 1" by (simp add: ev)
  from reserve_replay_returns_existing [OF e(1) t, of "Inr 2000" "''r2''" "''m2''" "''r3''" "''m3''" 7 8] e(2) l
  show ?thesis by auto
qed

text \<open>
  a retried reserve at the ceiling is refused. The ceiling is checked before the unique index,
  and the reservation being retried is already part of the active total. So when the ceiling leaves
  no room for the amount a second time, the retry of a reserve that has succeeded does not return
  the existing reservation but throws \<open>CapitalCeilingExceededError\<close>.
\<close>

theorem reserve_retry_refused_at_ceiling:
  assumes "attemptReserve (Inr c) dto rid mid now d = (Inr row, d1)"
    and "get_res rid d = None" and "c < total_active d + 2 * rd_amountUsd dto"
  shows "fst (reserve (Inr c) cR2 dto rid' mid' rid2 mid2 now' now2 env d1)
    = Inl (CapitalCeilingExceededError c (total_active d1) (rd_amountUsd dto))
    \<and> find_active (rd_correlationId dto) d1 \<noteq> None"
proof -
  from assms(1) have "total_active d1 = total_active d + rd_amountUsd dto
      \<and> row \<in> set (cd_reservations d1) \<and> cr_state row = active \<and> cr_correlationId row = rd_correlationId dto"
  proof (cases rule: attemptReserve_cases)
    case (fail e g)
    then show ?thesis by auto
  next
    case (ok c row')
    then have "cd_reservations d1 = cd_reservations d @ [row]"
      using assms(2) by (auto simp: get_res_def save_row_new)
    moreover have "row = row'" "cr_state row = active" "cr_amountUsd row = rd_amountUsd dto"
        "cr_correlationId row = rd_correlationId dto" "cd_positions d1 = cd_positions d"
      using ok by auto
    ultimately show ?thesis
      by (simp add: total_active_def active_reservations_usd_def open_positions_usd_def)
  qed
  then have new: "total_active d1 = total_active d + rd_amountUsd dto"
      and r: "row \<in> set (cd_reservations d1)" "cr_state row = active" "cr_correlationId row = rd_correlationId dto"
    by blast+
  from new assms(3) have "total_active d1 + rd_amountUsd dto > c" by simp
  then have "fst (reserve (Inr c) cR2 dto rid' mid' rid2 mid2 now' now2 env d1)
    = Inl (CapitalCeilingExceededError c (total_active d1) (rd_amountUsd dto))"
    by (simp add: reserve_def attemptReserve_def reserve_tx_def total_active_def Let_def)
  moreover from r have "find_active (rd_correlationId dto) d1 \<noteq> None"
    by (auto simp: find_active_def find_None_iff)
  ultimately show ?thesis ..
qed

theorem reserve_retry_refused_at_ceiling_witness:
  "fst (reserve (Inr 1000) (Inr 1000) dto_example ''r2'' ''m2'' ''r3'' ''m3'' 7 8 id
      (snd (attemptReserve (Inr 1000) dto_example ''r1'' ''m1'' 0 empty_capital_db)))
    = Inl (CapitalCeilingExceededError 1000 600 600)"
proof -
  let ?d1 = "snd (attemptReserve (Inr 1000) dto_example ''r1'' ''m1'' 0 empty_capital_db)"
  note ev = attemptReserve_def reserve_tx_def dto_example_def empty_capital_db_def total_active_def
      active_reservations_usd_def open_positions_usd_def save_res_def save_row_def Let_def
  obtain row where row: "attemptReserve (Inr 1000) dto_example ''r1'' ''m1'' 0 empty_capital_db = (Inr row, ?d1)"
    by (simp add: ev)
  have g: "get_res ''r1'' empty_capital_db = None" by (simp add: get_res_def get_row_def empty_capital_db_def)
  have t: "(1000::rat) < total_active empty_capital_db + 2 * rd_amountUsd dto_example"
    by (simp add: ev)
  have a: "total_active ?d1 = 600" "rd_amountUsd dto_example = 600" by (simp_all add: ev)
  show ?thesis
    using reserve_retry_refused_at_ceiling [OF row g t, of "Inr 1000" "''r2''" "''m2''" "''r3''" "''m3''" 7 8 id]
    by (simp add: a)
qed

text \<open>
  Releasing a lapsed lease loses the expiry. When the lease of an active reservation has run
  out, \<open>release\<close> saves the expired row and then throws inside the same transaction, so the write
  is rolled back: the call answers 409, nothing changes, and the row still counts against the
  ceiling, while \<open>getById\<close> at the same instant does commit the expiry.
\<close>

theorem release_lapsed_lease_rolls_back:
  assumes "get_res i d = Some row" and "cr_state row = active" and "cr_expiresAt row \<le> now"
  shows "release i now d = (Inl (ConflictException ''Reservation has expired and cannot be released''), d)
    \<and> (\<exists>r'. get_res i (snd (getById i now d)) = Some r' \<and> cr_state r' = expired)"
proof -
  from assms have m: "materializeCapitalReservationExpiryIfNeeded row now
      = (True, row\<lparr>cr_state := expired, cr_entityVersion := cr_entityVersion row + 1\<rparr>)"
    by (simp add: materializeCapitalReservationExpiryIfNeeded_def)
  from assms m have "release i now d = (Inl (ConflictException ''Reservation has expired and cannot be released''), d)"
    by (simp add: release_def release_tx_def transaction_def)
  moreover from assms m have "\<exists>r'. get_res i (snd (getById i now d)) = Some r' \<and> cr_state r' = expired"
    by (simp add: getById_def transaction_def get_res_key [OF assms(1)] res.get_save)
  ultimately show ?thesis ..
qed

theorem release_lapsed_lease_rolls_back_witness:
  "fst (release ''r1'' 300000 (snd (attemptReserve (Inr 1000) dto_example ''r1'' ''m1'' 0 empty_capital_db)))
     = Inl (ConflictException ''Reservation has expired and cannot be released'')"
proof -
  let ?d = "snd (attemptReserve (Inr 1000) dto_example ''r1'' ''m1'' 0 empty_capital_db)"
  obtain row where "get_res ''r1'' ?d = Some row" "cr_state row = active" "cr_expiresAt row \<le> 300000"
    by (simp add: attemptReserve_def reserve_tx_def dto_example_def empty_capital_db_def total_active_def
      active_reservations_usd_def open_positions_usd_def get_res_def get_row_def save_res_def save_row_def Let_def)
  from release_lapsed_lease_rolls_back [OF this] show ?thesis by simp
qed

text \<open>
  The limits service. The environment override can only tighten the ceiling of the config
  service; with neither source the service refuses in production and otherwise answers the safe
  default; a failed fetch keeps the stale value.
\<close>

theorem max_active_capital_env_only_tightens:
  "(case parseEnvCeiling env of
      Some e \<Rightarrow> \<exists>v. fst (getMaxActiveCapitalUsd JP env res now cache) = Inr v \<and> v \<le> e
       \<and> (\<forall>c t. cache = Some (c, t) \<and> \<not> fr_ok res \<longrightarrow> v = min e c)
    | None \<Rightarrow> \<not> fr_ok res \<longrightarrow>
        fst (getMaxActiveCapitalUsd JP env res now cache)
          = (case cache of Some (c, _) \<Rightarrow> Inr c
             | None \<Rightarrow> if le_production env then Inl (ServiceUnavailableException ''Capital ceiling unavailable'')
                       else Inr 1000))"
  by (auto simp: getMaxActiveCapitalUsd_def Let_def refresh_def parseResponse_def SAFE_DEFAULT_CEILING_USD_def
      split: option.splits)

theorem max_active_capital_env_only_tightens_witness:
  "fst (getMaxActiveCapitalUsd (\<lambda>_. None) \<lparr>le_ceilingEnv = None, le_production = True\<rparr>
       \<lparr>fr_ok = False, fr_status = 0, fr_body = JNull\<rparr> 0 None)
     = Inl (ServiceUnavailableException ''Capital ceiling unavailable'')
   \<and> (\<exists>v. fst (getMaxActiveCapitalUsd (\<lambda>_. None) \<lparr>le_ceilingEnv = Some '' 250.5 '', le_production = True\<rparr>
       \<lparr>fr_ok = False, fr_status = 0, fr_body = JNull\<rparr> 0 (Some (400, 0))) = Inr v \<and> v = 501 / 2)"
proof
  have p: "parseEnvCeiling \<lparr>le_ceilingEnv = Some '' 250.5 '', le_production = True\<rparr> = Some (501 / 2)"
    by (simp add: parseEnvCeiling_def js_trim_def is_ws_def js_Number_def js_unsigned_decimal_def is_digit_def
      digit_val_def)
  have n: "parseEnvCeiling \<lparr>le_ceilingEnv = None, le_production = True\<rparr> = None"
    by (simp add: parseEnvCeiling_def)
  let ?f = "\<lparr>fr_ok = False, fr_status = 0, fr_body = JNull\<rparr>"
  show "fst (getMaxActiveCapitalUsd (\<lambda>_. None) \<lparr>le_ceilingEnv = None, le_production = True\<rparr> ?f 0 None)
     = Inl (ServiceUnavailableException ''Capital ceiling unavailable'')"
    using max_active_capital_env_only_tightens [where env = "\<lparr>le_ceilingEnv = None, le_production = True\<rparr>"
      and JP = "\<lambda>_. None" and res = ?f and now = 0 and cache = None]
    by (simp add: n)
  show "\<exists>v. fst (getMaxActiveCapitalUsd (\<lambda>_. None) \<lparr>le_ceilingEnv = Some '' 250.5 '', le_production = True\<rparr>
       ?f 0 (Some (400, 0))) = Inr v \<and> v = 501 / 2"
    using max_active_capital_env_only_tightens [where env = "\<lparr>le_ceilingEnv = Some '' 250.5 '', le_production = True\<rparr>"
      and JP = "\<lambda>_. None" and res = ?f and now = 0 and cache = "Some (400, 0)"]
    by (auto simp: p)
qed

end
