(* ===== verification/Exec_Db.thy ===== *)
theory Exec_Db
  imports Outbox
begin

text \<open>
  The database of \<open>apps/execution-orchestrator\<close>: plans, legs, on-chain transactions, the
  idempotency keys of fills, the shared outbox and the audit records sent. The states are the
  text values the code writes into the \<open>state\<close> columns.
\<close>

section \<open>Entities\<close>

datatype plan_state = P_planned | P_reserved | P_armed | P_executing | P_completed | P_failed

datatype leg_state = L_created | L_submitting | L_sent | L_acknowledged | L_partiallyFilled
  | L_filled | L_failed | L_rejected | L_timedOut

datatype leg_type = dex | bridge

datatype confidence = exact | modeled | unavailable

datatype tx_status = tx_pending | tx_confirmed | tx_failed | tx_reverted

record plan =
  pl_id :: string
  pl_correlationId :: "string option"
  pl_state :: plan_state
  pl_capitalReservationId :: "string option"
  pl_riskDecisionId :: "string option"
  pl_routeKey :: "string option"
  pl_entityVersion :: int
  pl_playbookConfig :: "json option"
  pl_costBreakdown :: "json option"
  pl_createdAt :: int
  pl_updatedAt :: int

record leg =
  lg_id :: string
  lg_planId :: string
  lg_legIndex :: int
  lg_state :: leg_state
  lg_entityVersion :: int
  lg_venueRef :: "string option"
  lg_legType :: leg_type
  lg_chainId :: "int option"
  lg_targetQuantity :: rat
  lg_filledQuantity :: rat
  lg_estimatedGasUsd :: "rat option"
  lg_slippageBps :: "rat option"
  lg_poolFeeUsd :: "rat option"
  lg_bridgeFeeUsd :: "rat option"
  lg_totalCostUsd :: "rat option"
  lg_costConfidence :: "confidence option"
  lg_createdAt :: int
  lg_updatedAt :: int

record onchain_tx =
  oc_id :: nat
  oc_txHash :: string
  oc_chainId :: int
  oc_legId :: "string option"
  oc_fromAddress :: string
  oc_toAddress :: string
  oc_value :: string
  oc_gasLimit :: string
  oc_gasUsed :: "string option"
  oc_gasPrice :: "string option"
  oc_maxPriorityFeePerGas :: "string option"
  oc_maxFeePerGas :: "string option"
  oc_status :: tx_status
  oc_blockNumber :: "int option"
  oc_blockHash :: "string option"
  oc_transactionIndex :: "int option"
  oc_confirmations :: int
  oc_confirmedAt :: "int option"
  oc_revertReason :: "string option"
  oc_errorMessage :: "string option"
  oc_nonce :: "int option"
  oc_createdAt :: int

record fill_idempotency =
  fi_legId :: string
  fi_idempotencyKey :: string
  fi_resultingState :: leg_state
  fi_resultingFilledQuantity :: rat
  fi_resultingEntityVersion :: int

record exec_db =
  ed_plans :: "plan list"
  ed_legs :: "leg list"
  ed_onchain :: "onchain_tx list"
  ed_fills :: "fill_idempotency list"
  ed_outbox :: "outbox_row list"
  ed_audit :: "audit_entry list"

section \<open>Access\<close>

definition get_plan :: "string \<Rightarrow> exec_db \<Rightarrow> plan option" where
  "get_plan i d = get_row pl_id i (ed_plans d)"

definition save_plan :: "plan \<Rightarrow> exec_db \<Rightarrow> exec_db" where
  "save_plan p d = d\<lparr>ed_plans := save_row pl_id p (ed_plans d)\<rparr>"

definition get_leg :: "string \<Rightarrow> exec_db \<Rightarrow> leg option" where
  "get_leg i d = get_row lg_id i (ed_legs d)"

definition save_leg :: "leg \<Rightarrow> exec_db \<Rightarrow> exec_db" where
  "save_leg l d = d\<lparr>ed_legs := save_row lg_id l (ed_legs d)\<rparr>"

text \<open>\<open>findOne(ExecutionLegEntity, { id: legId, planId })\<close>\<close>

definition find_leg_of_plan :: "string \<Rightarrow> string \<Rightarrow> exec_db \<Rightarrow> leg option" where
  "find_leg_of_plan planId legId d =
     (case get_leg legId d of None \<Rightarrow> None | Some l \<Rightarrow> if lg_planId l = planId then Some l else None)"

definition legs_of_plan :: "string \<Rightarrow> exec_db \<Rightarrow> leg list" where
  "legs_of_plan planId d = filter (\<lambda>l. lg_planId l = planId) (ed_legs d)"

definition emit :: "outbox_row \<Rightarrow> exec_db \<Rightarrow> exec_db" where
  "emit ev d = d\<lparr>ed_outbox := save_outbox ev (ed_outbox d)\<rparr>"

definition audited :: "audit_entry \<Rightarrow> exec_db \<Rightarrow> exec_db" where
  "audited a d = d\<lparr>ed_audit := ed_audit d @ [a]\<rparr>"

text \<open>The audit records of the orchestrator; the key ends with the version where the code says so.\<close>

definition exec_audit :: "string \<Rightarrow> string \<Rightarrow> string \<Rightarrow> string \<Rightarrow> string option \<Rightarrow> json \<Rightarrow> audit_entry" where
  "exec_audit action resourceType rid key correlationId payload =
     \<lparr> au_idempotencyKey = Some key, au_correlationId = correlationId,
       au_actor = ''execution-orchestrator'', au_action = action, au_resourceType = resourceType,
       au_resourceId = rid, au_payload = payload \<rparr>"

interpretation plans: row_store get_plan save_plan pl_id
  by unfold_locales (simp_all add: get_plan_def save_plan_def row_simps)

interpretation legs: row_store get_leg save_leg lg_id
  by unfold_locales (simp_all add: get_leg_def save_leg_def row_simps)

lemma get_plan_key: "get_plan i d = Some p \<Longrightarrow> pl_id p = i"
  by (auto simp: get_plan_def dest: get_row_key)

lemma get_leg_key: "get_leg i d = Some l \<Longrightarrow> lg_id l = i"
  by (auto simp: get_leg_def dest: get_row_key)

lemma find_leg_of_plan_Some:
  "find_leg_of_plan pid lid d = Some l \<longleftrightarrow> get_leg lid d = Some l \<and> lg_planId l = pid"
  by (auto simp: find_leg_of_plan_def split: option.splits)

lemma db_access [simp]:
  "ed_legs (save_plan p d) = ed_legs d" "ed_outbox (save_plan p d) = ed_outbox d"
  "ed_fills (save_plan p d) = ed_fills d" "ed_onchain (save_plan p d) = ed_onchain d"
  "ed_plans (save_leg l d) = ed_plans d" "ed_outbox (save_leg l d) = ed_outbox d"
  "ed_fills (save_leg l d) = ed_fills d" "ed_onchain (save_leg l d) = ed_onchain d"
  "ed_plans (emit ev d) = ed_plans d" "ed_legs (emit ev d) = ed_legs d"
  "ed_fills (emit ev d) = ed_fills d" "ed_onchain (emit ev d) = ed_onchain d"
  "ed_plans (audited a d) = ed_plans d" "ed_legs (audited a d) = ed_legs d"
  "ed_fills (audited a d) = ed_fills d" "ed_onchain (audited a d) = ed_onchain d"
  "ed_outbox (audited a d) = ed_outbox d"
  "ed_plans (save_plan p d) = save_row pl_id p (ed_plans d)"
  "ed_legs (save_leg l d) = save_row lg_id l (ed_legs d)"
  "ed_outbox (emit ev d) = save_outbox ev (ed_outbox d)"
  "ed_audit (audited a d) = ed_audit d @ [a]"
  "ed_audit (save_plan p d) = ed_audit d" "ed_audit (save_leg l d) = ed_audit d"
  "ed_audit (emit ev d) = ed_audit d"
  by (simp_all add: save_plan_def save_leg_def emit_def audited_def)

lemma db_get [simp]:
  "get_plan i (save_leg l d) = get_plan i d" "get_plan i (emit ev d) = get_plan i d"
  "get_plan i (audited a d) = get_plan i d" "get_leg i (save_plan p d) = get_leg i d"
  "get_leg i (emit ev d) = get_leg i d" "get_leg i (audited a d) = get_leg i d"
  by (simp_all add: get_plan_def get_leg_def)

lemma exec_get_save [row_simps]:
  "get_plan i (save_plan p d) = (if i = pl_id p then Some p else get_plan i d)"
  "get_leg i (save_leg l d) = (if i = lg_id l then Some l else get_leg i d)"
  by (rule plans.get_save, rule legs.get_save)

section \<open>What one committed operation may do\<close>

text \<open>
  The abstract specification of the orchestrator: every operation of the services below is one
  of these effects. \<open>events\<close> collects the outbox rows of the plan and leg life cycle.
\<close>

definition plan_allowed :: "plan_state \<Rightarrow> plan_state \<Rightarrow> bool" where
  "plan_allowed s s' \<longleftrightarrow> (s, s') \<in> {(P_planned, P_reserved), (P_reserved, P_armed), (P_armed, P_executing),
     (P_executing, P_completed), (P_armed, P_failed), (P_executing, P_failed)}"

definition leg_allowed :: "leg_state \<Rightarrow> leg_state \<Rightarrow> bool" where
  "leg_allowed s s' \<longleftrightarrow> (s, s') \<in> {(L_created, L_submitting), (L_submitting, L_sent),
     (L_submitting, L_failed), (L_submitting, L_rejected), (L_submitting, L_timedOut),
     (L_sent, L_acknowledged), (L_acknowledged, L_partiallyFilled), (L_acknowledged, L_filled),
     (L_partiallyFilled, L_partiallyFilled), (L_partiallyFilled, L_filled),
     (L_created, L_failed), (L_partiallyFilled, L_failed)}"

definition lifecycle_events :: "string list" where
  "lifecycle_events = [legFilled, planCompleted, planFailed]"

definition events :: "string \<Rightarrow> string \<Rightarrow> exec_db \<Rightarrow> outbox_row list" where
  "events et i d = filter (\<lambda>r. ob_eventType r = et \<and> ob_entityId r = i) (ed_outbox d)"

definition same_events :: "exec_db \<Rightarrow> exec_db \<Rightarrow> bool" where
  "same_events d d' \<longleftrightarrow> (\<forall>et \<in> set lifecycle_events. \<forall>i. length (events et i d') = length (events et i d))"

definition one_event :: "string \<Rightarrow> string \<Rightarrow> exec_db \<Rightarrow> exec_db \<Rightarrow> bool" where
  "one_event et0 i0 d d' \<longleftrightarrow> (\<forall>et \<in> set lifecycle_events. \<forall>i.
     length (events et i d') = length (events et i d) + (if et = et0 \<and> i = i0 then 1 else 0))"

definition swept :: "leg_state \<Rightarrow> bool" where
  "swept s \<longleftrightarrow> s = L_created \<or> s = L_submitting \<or> s = L_partiallyFilled"

definition sweep_leg :: "string \<Rightarrow> int \<Rightarrow> leg \<Rightarrow> leg" where
  "sweep_leg planId now l =
     (if lg_planId l = planId \<and> swept (lg_state l)
      then l\<lparr>lg_state := L_failed, lg_entityVersion := lg_entityVersion l + 1, lg_updatedAt := now\<rparr> else l)"

inductive exec_effect :: "exec_db \<Rightarrow> exec_db \<Rightarrow> bool" where
  eff_none: "ed_plans d' = ed_plans d \<Longrightarrow> ed_legs d' = ed_legs d \<Longrightarrow> same_events d d' \<Longrightarrow> exec_effect d d'"
| eff_new_plan: "get_plan (pl_id p) d = None \<Longrightarrow> pl_state p = P_planned \<Longrightarrow> ed_plans d' = ed_plans d @ [p] \<Longrightarrow>
     ed_legs d' = ed_legs d \<Longrightarrow> same_events d d' \<Longrightarrow> exec_effect d d'"
| eff_plan: "get_plan (pl_id p) d = Some p0 \<Longrightarrow> pl_entityVersion p = pl_entityVersion p0 + 1 \<Longrightarrow>
     plan_allowed (pl_state p0) (pl_state p) \<Longrightarrow> pl_state p \<in> {P_reserved, P_armed} \<Longrightarrow>
     ed_plans d' = save_row pl_id p (ed_plans d) \<Longrightarrow> ed_legs d' = ed_legs d \<Longrightarrow> same_events d d' \<Longrightarrow>
     exec_effect d d'"
| eff_begin: "get_plan (pl_id p) d = Some p0 \<Longrightarrow> pl_entityVersion p = pl_entityVersion p0 + 1 \<Longrightarrow>
     pl_state p0 = P_armed \<Longrightarrow> pl_state p = P_executing \<Longrightarrow>
     ed_plans d' = save_row pl_id p (ed_plans d) \<Longrightarrow> legs_of_plan (pl_id p) d = [] \<Longrightarrow>
     ed_legs d' = ed_legs d @ new \<Longrightarrow>
     (\<forall>l \<in> set new. lg_planId l = pl_id p \<and> lg_state l = L_created \<and> lg_filledQuantity l = 0
        \<and> lg_entityVersion l = 1) \<Longrightarrow>
     distinct (map lg_id new) \<Longrightarrow> (\<forall>l \<in> set new. get_leg (lg_id l) d = None) \<Longrightarrow>
     same_events d d' \<Longrightarrow> exec_effect d d'"
| eff_complete: "get_plan (pl_id p) d = Some p0 \<Longrightarrow> pl_entityVersion p = pl_entityVersion p0 + 1 \<Longrightarrow>
     pl_state p0 = P_executing \<Longrightarrow> pl_state p = P_completed \<Longrightarrow>
     legs_of_plan (pl_id p) d \<noteq> [] \<Longrightarrow> (\<forall>l \<in> set (legs_of_plan (pl_id p) d). lg_state l = L_filled) \<Longrightarrow>
     ed_plans d' = save_row pl_id p (ed_plans d) \<Longrightarrow> ed_legs d' = ed_legs d \<Longrightarrow>
     one_event planCompleted (pl_id p) d d' \<Longrightarrow> exec_effect d d'"
| eff_fail: "get_plan (pl_id p) d = Some p0 \<Longrightarrow> pl_entityVersion p = pl_entityVersion p0 + 1 \<Longrightarrow>
     pl_state p0 \<in> {P_armed, P_executing} \<Longrightarrow> pl_state p = P_failed \<Longrightarrow>
     ed_plans d' = save_row pl_id p (ed_plans d) \<Longrightarrow>
     ed_legs d' = map (sweep_leg (pl_id p) now) (ed_legs d) \<Longrightarrow>
     one_event planFailed (pl_id p) d d' \<Longrightarrow> exec_effect d d'"
| eff_leg: "get_leg (lg_id l) d = Some l0 \<Longrightarrow> lg_entityVersion l = lg_entityVersion l0 + 1 \<Longrightarrow>
     lg_planId l = lg_planId l0 \<Longrightarrow> leg_allowed (lg_state l0) (lg_state l) \<Longrightarrow> lg_state l \<noteq> L_filled \<Longrightarrow>
     lg_state l \<noteq> L_partiallyFilled \<Longrightarrow> lg_targetQuantity l = lg_targetQuantity l0 \<Longrightarrow>
     lg_filledQuantity l = lg_filledQuantity l0 \<Longrightarrow>
     ed_plans d' = ed_plans d \<Longrightarrow> ed_legs d' = save_row lg_id l (ed_legs d) \<Longrightarrow> same_events d d' \<Longrightarrow>
     exec_effect d d'"
| eff_fill_part: "get_leg (lg_id l) d = Some l0 \<Longrightarrow> lg_entityVersion l = lg_entityVersion l0 + 1 \<Longrightarrow>
     lg_planId l = lg_planId l0 \<Longrightarrow> lg_state l0 \<in> {L_acknowledged, L_partiallyFilled} \<Longrightarrow>
     lg_state l = L_partiallyFilled \<Longrightarrow> lg_targetQuantity l = lg_targetQuantity l0 \<Longrightarrow>
     lg_filledQuantity l0 < lg_filledQuantity l \<Longrightarrow> lg_filledQuantity l < lg_targetQuantity l \<Longrightarrow>
     ed_plans d' = ed_plans d \<Longrightarrow> ed_legs d' = save_row lg_id l (ed_legs d) \<Longrightarrow> same_events d d' \<Longrightarrow>
     exec_effect d d'"
| eff_fill_full: "get_leg (lg_id l) d = Some l0 \<Longrightarrow> lg_entityVersion l = lg_entityVersion l0 + 1 \<Longrightarrow>
     lg_planId l = lg_planId l0 \<Longrightarrow> lg_state l0 \<in> {L_acknowledged, L_partiallyFilled} \<Longrightarrow>
     lg_state l = L_filled \<Longrightarrow> lg_targetQuantity l = lg_targetQuantity l0 \<Longrightarrow>
     lg_filledQuantity l = lg_targetQuantity l \<Longrightarrow>
     ed_plans d' = ed_plans d \<Longrightarrow> ed_legs d' = save_row lg_id l (ed_legs d) \<Longrightarrow>
     one_event legFilled (lg_id l) d d' \<Longrightarrow> exec_effect d d'"

lemma sweep_leg_simps [simp]:
  "lg_id (sweep_leg i now l) = lg_id l" "lg_planId (sweep_leg i now l) = lg_planId l"
  "lg_targetQuantity (sweep_leg i now l) = lg_targetQuantity l"
  "lg_filledQuantity (sweep_leg i now l) = lg_filledQuantity l"
  "lg_id \<circ> sweep_leg i now = lg_id"
  by (auto simp: sweep_leg_def)

lemma get_row_sweep [row_simps]:
  "get_row lg_id i (map (sweep_leg k now) ls) = map_option (sweep_leg k now) (get_row lg_id i ls)"
  by (rule get_row_map) simp

lemmas db_row_simps = get_leg_def get_plan_def row_simps

lemma same_events_refl [simp]: "ed_outbox d' = ed_outbox d \<Longrightarrow> same_events d d'"
  by (simp add: same_events_def events_def)

lemma event_names_distinct [simp]:
  "legFilled \<noteq> planCompleted" "legFilled \<noteq> planFailed" "planCompleted \<noteq> planFailed"
  "planCompleted \<noteq> legFilled" "planFailed \<noteq> legFilled" "planFailed \<noteq> planCompleted"
  "planArmed \<noteq> legFilled" "planArmed \<noteq> planCompleted" "planArmed \<noteq> planFailed"
  "dexTransactionSubmitted \<notin> set lifecycle_events" "dexTransactionConfirmed \<notin> set lifecycle_events"
  "dexTransactionFailed \<notin> set lifecycle_events" "planArmed \<notin> set lifecycle_events"
  "legFilled \<in> set lifecycle_events" "planCompleted \<in> set lifecycle_events" "planFailed \<in> set lifecycle_events"
  by (simp_all add: event_names lifecycle_events_def)

lemma events_save_outbox:
  "ed_outbox d' = save_outbox ev (ed_outbox d) \<Longrightarrow>
     length (events et i d') = length (events et i d)
       + (if ob_eventType ev = et \<and> ob_entityId ev = i then 1 else 0)"
  by (simp add: events_def save_outbox_def)

lemma same_events_emit:
  "ed_outbox d' = save_outbox ev (ed_outbox d) \<Longrightarrow> ob_eventType ev \<notin> set lifecycle_events \<Longrightarrow> same_events d d'"
  by (auto simp: same_events_def events_save_outbox)

lemma one_event_emit:
  "ed_outbox d' = save_outbox ev (ed_outbox d) \<Longrightarrow> ob_eventType ev = et \<Longrightarrow> ob_entityId ev = i \<Longrightarrow>
     one_event et i d d'"
  by (auto simp: one_event_def events_save_outbox)

end
