(* ===== verification/Exec_Spec.thy ===== *)
theory Exec_Spec
  imports Exec_Db
begin

text \<open>
  What follows from the abstract specification \<open>exec_effect\<close> alone: the life cycles of plans and
  legs and the invariant that ties plans, legs, fills and outbox rows together.
\<close>

section \<open>Life cycles\<close>

inductive_cases exec_effectE: "exec_effect d d'"

lemma effect_plan_row:
  assumes "exec_effect d d'" and "get_plan i d = Some p0"
  shows "\<exists>p. get_plan i d' = Some p \<and> (pl_state p = pl_state p0 \<and> pl_entityVersion p = pl_entityVersion p0
    \<or> pl_entityVersion p = pl_entityVersion p0 + 1 \<and> plan_allowed (pl_state p0) (pl_state p))"
  using assms
  by cases (auto simp: db_row_simps plan_allowed_def split: option.splits)

interpretation planlife: lifecycle exec_effect get_plan pl_state pl_entityVersion plan_allowed
  by unfold_locales (rule effect_plan_row)

text \<open>
  The plan of a leg and its target are fixed; its filled quantity only grows.
\<close>

lemma effect_leg_change:
  assumes "exec_effect d d'" and "get_leg i d = Some l0"
  shows "\<exists>l. get_leg i d' = Some l \<and> lg_planId l = lg_planId l0 \<and> lg_targetQuantity l = lg_targetQuantity l0
    \<and> (lg_state l = lg_state l0 \<and> lg_entityVersion l = lg_entityVersion l0
       \<or> lg_entityVersion l = lg_entityVersion l0 + 1 \<and> leg_allowed (lg_state l0) (lg_state l))
    \<and> (lg_filledQuantity l = lg_filledQuantity l0
       \<or> lg_state l = L_partiallyFilled \<and> lg_filledQuantity l0 < lg_filledQuantity l
       \<or> lg_state l = L_filled \<and> lg_filledQuantity l = lg_targetQuantity l0)"
  using assms(1)
proof cases
  case (eff_begin p p0 new)
  with assms(2) show ?thesis by (simp add: db_row_simps)
next
  case (eff_fail p p0 now)
  with assms(2) show ?thesis
    by (cases "lg_state l0") (simp_all add: db_row_simps sweep_leg_def leg_allowed_def swept_def)
next
  case (eff_leg l l0')
  with assms(2) show ?thesis by (cases "i = lg_id l") (simp_all add: db_row_simps)
next
  case (eff_fill_part l l0')
  with assms(2) show ?thesis by (cases "i = lg_id l") (auto simp: db_row_simps leg_allowed_def)
next
  case (eff_fill_full l l0')
  with assms(2) show ?thesis by (cases "i = lg_id l") (auto simp: db_row_simps leg_allowed_def)
qed (use assms(2) in \<open>simp_all add: db_row_simps\<close>)

interpretation leglife: lifecycle exec_effect get_leg lg_state lg_entityVersion leg_allowed
  by unfold_locales (use effect_leg_change in blast)

section \<open>The invariant\<close>

definition leg_ok :: "leg \<Rightarrow> bool" where
  "leg_ok l \<longleftrightarrow> (case lg_state l of
      L_filled \<Rightarrow> lg_filledQuantity l = lg_targetQuantity l
    | L_partiallyFilled \<Rightarrow> 0 < lg_filledQuantity l \<and> lg_filledQuantity l < lg_targetQuantity l
    | L_failed \<Rightarrow> lg_filledQuantity l = 0 \<or> 0 < lg_filledQuantity l \<and> lg_filledQuantity l < lg_targetQuantity l
    | _ \<Rightarrow> lg_filledQuantity l = 0)"

definition plan_ok :: "exec_db \<Rightarrow> plan \<Rightarrow> bool" where
  "plan_ok d p \<longleftrightarrow>
     (pl_state p = P_completed \<longrightarrow> legs_of_plan (pl_id p) d \<noteq> []
        \<and> (\<forall>l \<in> set (legs_of_plan (pl_id p) d). lg_state l = L_filled))"

definition events_ok :: "exec_db \<Rightarrow> bool" where
  "events_ok d \<longleftrightarrow> (\<forall>i.
     length (events legFilled i d) = (case get_leg i d of Some l \<Rightarrow> if lg_state l = L_filled then 1 else 0 | None \<Rightarrow> 0)
   \<and> length (events planCompleted i d)
       = (case get_plan i d of Some p \<Rightarrow> if pl_state p = P_completed then 1 else 0 | None \<Rightarrow> 0)
   \<and> length (events planFailed i d)
       = (case get_plan i d of Some p \<Rightarrow> if pl_state p = P_failed then 1 else 0 | None \<Rightarrow> 0))"

definition leg_has_plan :: "exec_db \<Rightarrow> leg \<Rightarrow> bool" where
  "leg_has_plan d l \<longleftrightarrow> (\<exists>p. get_plan (lg_planId l) d = Some p
     \<and> pl_state p \<in> {P_executing, P_completed, P_failed})"

definition exec_inv :: "exec_db \<Rightarrow> bool" where
  "exec_inv d \<longleftrightarrow> distinct (map pl_id (ed_plans d)) \<and> distinct (map lg_id (ed_legs d))
     \<and> (\<forall>l \<in> set (ed_legs d). leg_ok l \<and> leg_has_plan d l)
     \<and> (\<forall>i p. get_plan i d = Some p \<longrightarrow> plan_ok d p)
     \<and> events_ok d"

lemma exec_invD:
  assumes "exec_inv d"
  shows "distinct (map pl_id (ed_plans d))" "distinct (map lg_id (ed_legs d))"
    "l \<in> set (ed_legs d) \<Longrightarrow> leg_ok l" "l \<in> set (ed_legs d) \<Longrightarrow> leg_has_plan d l"
    "get_plan i d = Some p \<Longrightarrow> plan_ok d p" "events_ok d"
  using assms by (auto simp: exec_inv_def)

lemma get_leg_in: "get_leg i d = Some l \<Longrightarrow> l \<in> set (ed_legs d)"
  by (auto simp: get_leg_def dest: get_row_in_set)

lemma in_get_leg: "exec_inv d \<Longrightarrow> l \<in> set (ed_legs d) \<Longrightarrow> get_leg (lg_id l) d = Some l"
  by (simp add: get_leg_def exec_inv_def distinct_get_row)

lemma distinct_save_plan_leg:
  "distinct (map pl_id ps) \<Longrightarrow> distinct (map pl_id (save_row pl_id p ps))"
  "distinct (map lg_id ls) \<Longrightarrow> distinct (map lg_id (save_row lg_id l ls))"
  by simp_all

lemma effect_distinct:
  assumes "exec_effect d d'" and "exec_inv d"
  shows "distinct (map pl_id (ed_plans d')) \<and> distinct (map lg_id (ed_legs d'))"
  using assms(1)
proof cases
  case (eff_new_plan p)
  then have "pl_id p \<notin> set (map pl_id (ed_plans d))" by (auto simp: get_plan_def get_row_def find_None_iff)
  with eff_new_plan exec_invD [OF assms(2)] show ?thesis by simp
next
  case (eff_begin p p0 new)
  then have "set (map lg_id new) \<inter> set (map lg_id (ed_legs d)) = {}"
    by (force simp: get_leg_def get_row_def find_None_iff)
  with eff_begin exec_invD [OF assms(2)] show ?thesis by (auto simp: distinct_save_plan_leg)
next
  case (eff_fail p p0 now)
  with eff_fail exec_invD [OF assms(2)] show ?thesis by (simp add: distinct_save_plan_leg)
qed (use exec_invD [OF assms(2)] in \<open>simp_all add: distinct_save_plan_leg\<close>)

lemma effect_leg_ok:
  assumes "exec_effect d d'" and "exec_inv d" and "l' \<in> set (ed_legs d')"
  shows "leg_ok l'"
  using assms(1)
proof cases
  case (eff_begin p p0 new)
  with assms exec_invD(3) [OF assms(2)] show ?thesis by (auto simp: leg_ok_def)
next
  case (eff_fail p p0 now)
  with assms(3) obtain l where "l \<in> set (ed_legs d)" "l' = l \<or> (swept (lg_state l) \<and> lg_state l' = L_failed
      \<and> lg_filledQuantity l' = lg_filledQuantity l \<and> lg_targetQuantity l' = lg_targetQuantity l)"
    by (auto simp: sweep_leg_def split: if_splits)
  with exec_invD(3) [OF assms(2), of l] show ?thesis by (auto simp: leg_ok_def swept_def)
next
  case (eff_leg l l0)
  from eff_leg(1) have "leg_ok l0" using exec_invD(3) [OF assms(2)] get_leg_in by blast
  with eff_leg have "leg_ok l" by (auto simp: leg_ok_def leg_allowed_def)
  with eff_leg assms(3) exec_invD(3) [OF assms(2)] show ?thesis by (auto dest: set_save_row)
next
  case (eff_fill_part l l0)
  from eff_fill_part(1) have "leg_ok l0" using exec_invD(3) [OF assms(2)] get_leg_in by blast
  with eff_fill_part have "leg_ok l" by (auto simp: leg_ok_def)
  with eff_fill_part assms(3) exec_invD(3) [OF assms(2)] show ?thesis by (auto dest: set_save_row)
next
  case (eff_fill_full l l0)
  then have "leg_ok l" by (simp add: leg_ok_def)
  with eff_fill_full assms(3) exec_invD(3) [OF assms(2)] show ?thesis by (auto dest: set_save_row)
qed (use assms exec_invD(3) [OF assms(2)] in \<open>simp_all\<close>)

lemma plan_state_kept:
  assumes "exec_effect d d'" and "leg_has_plan d l" and "lg_planId l' = lg_planId l"
  shows "leg_has_plan d' l'"
proof -
  from assms(2) obtain p0 where p0: "get_plan (lg_planId l) d = Some p0"
      "pl_state p0 \<in> {P_executing, P_completed, P_failed}" by (auto simp: leg_has_plan_def)
  from effect_plan_row [OF assms(1) p0(1)] obtain p where "get_plan (lg_planId l) d' = Some p"
      "pl_state p = pl_state p0 \<or> plan_allowed (pl_state p0) (pl_state p)" by blast
  with p0(2) assms(3) show ?thesis by (auto simp: leg_has_plan_def plan_allowed_def)
qed

lemma effect_leg_has_plan:
  assumes "exec_effect d d'" and "exec_inv d" and "l' \<in> set (ed_legs d')"
  shows "leg_has_plan d' l'"
proof (cases "\<exists>l \<in> set (ed_legs d). lg_planId l' = lg_planId l")
  case True
  then show ?thesis using plan_state_kept [OF assms(1)] exec_invD(4) [OF assms(2)] by blast
next
  case False
  show ?thesis using assms(1)
  proof cases
    case (eff_begin p p0 new)
    with False assms(3) have "lg_planId l' = pl_id p" by auto
    with eff_begin show ?thesis by (auto simp: leg_has_plan_def get_plan_def row_simps)
  qed (use False assms(3) get_leg_in in \<open>fastforce dest: set_save_row split: if_splits\<close>)+
qed

text \<open>A filled leg stays filled.\<close>

lemma effect_filled_kept:
  assumes "exec_effect d d'" and "get_leg i d = Some l" and "lg_state l = L_filled"
  shows "\<exists>l'. get_leg i d' = Some l' \<and> lg_state l' = L_filled"
  using effect_leg_change [OF assms(1,2)] assms(3) by (auto simp: leg_allowed_def)

lemma saved_leg_origin:
  assumes "l' \<in> set (save_row lg_id l (ed_legs d))" and "get_leg (lg_id l) d = Some l0"
    and "lg_planId l = lg_planId l0"
  shows "\<exists>l1 \<in> set (ed_legs d). lg_id l1 = lg_id l' \<and> lg_planId l1 = lg_planId l'"
  using set_save_row [OF assms(1)] get_leg_in [OF assms(2)] get_leg_key [OF assms(2)] assms(3) by auto

lemma effect_legs_of_plan:
  assumes "exec_effect d d'" and "leg_has_plan d l0" and "l' \<in> set (ed_legs d')"
    and "lg_planId l' = lg_planId l0"
  shows "\<exists>l \<in> set (ed_legs d). lg_id l = lg_id l' \<and> lg_planId l = lg_planId l'"
  using assms(1)
proof cases
  case (eff_begin p p0 new)
  have "lg_planId l0 \<noteq> pl_id p" using assms(2) eff_begin by (auto simp: leg_has_plan_def)
  with eff_begin assms(3,4) show ?thesis by auto
next
  case (eff_fail p p0 now)
  with assms(3) show ?thesis by auto
next
  case (eff_leg l l1)
  with assms(3) saved_leg_origin show ?thesis by metis
next
  case (eff_fill_part l l1)
  with assms(3) saved_leg_origin show ?thesis by metis
next
  case (eff_fill_full l l1)
  with assms(3) saved_leg_origin show ?thesis by metis
qed (use assms(3) in auto)

lemma effect_plan_ok:
  assumes "exec_effect d d'" and "exec_inv d" and "get_plan i d' = Some p"
  shows "plan_ok d' p"
  unfolding plan_ok_def
proof
  assume c: "pl_state p = P_completed"
  have id: "pl_id p = i" using assms(3) by (rule get_plan_key)
  have filled_then: "legs_of_plan i d \<noteq> [] \<and> (\<forall>l \<in> set (legs_of_plan i d). lg_state l = L_filled)"
  proof (cases "get_plan i d")
    case None
    with assms(1,3) c show ?thesis
      by cases (auto simp: db_row_simps split: if_splits option.splits)
  next
    case (Some p0)
    show ?thesis
    proof (cases "pl_state p0 = P_completed")
      case True
      then show ?thesis using exec_invD(5) [OF assms(2) Some] get_plan_key [OF Some] by (simp add: plan_ok_def)
    next
      case False
      from assms(1) Some False assms(3) c show ?thesis
        by cases (auto simp: db_row_simps split: if_splits option.splits)
    qed
  qed
  then obtain l0 where l0: "l0 \<in> set (ed_legs d)" "lg_planId l0 = i"
    unfolding legs_of_plan_def by (metis (mono_tags, lifting) filter_False)
  have "\<exists>l' \<in> set (ed_legs d'). lg_planId l' = i"
    using effect_leg_change [OF assms(1) in_get_leg [OF assms(2) l0(1)]] l0(2) get_leg_in by blast
  moreover have "lg_state l' = L_filled" if l': "l' \<in> set (ed_legs d')" "lg_planId l' = i" for l'
  proof -
    obtain l where l: "l \<in> set (ed_legs d)" "lg_id l = lg_id l'" "lg_planId l = i"
      using effect_legs_of_plan [OF assms(1) exec_invD(4) [OF assms(2) l0(1)] l'(1)] l0(2) l'(2) by auto
    then have "lg_state l = L_filled" using filled_then by (auto simp: legs_of_plan_def)
    from effect_filled_kept [OF assms(1) in_get_leg [OF assms(2) l(1)] this] obtain l'' where
      l'': "get_leg (lg_id l') d' = Some l''" "lg_state l'' = L_filled" using l(2) by auto
    have "get_leg (lg_id l') d' = Some l'"
      using effect_distinct [OF assms(1,2)] l'(1) by (simp add: get_leg_def distinct_get_row)
    with l'' show ?thesis by simp
  qed
  ultimately show "legs_of_plan (pl_id p) d' \<noteq> [] \<and> (\<forall>l\<in>set (legs_of_plan (pl_id p) d'). lg_state l = L_filled)"
    unfolding id by (auto simp: legs_of_plan_def filter_empty_conv)
qed


text \<open>Outbox rows of the life cycle.\<close>

lemma same_eventsD:
  "same_events d d' \<Longrightarrow> length (events legFilled i d') = length (events legFilled i d)"
  "same_events d d' \<Longrightarrow> length (events planCompleted i d') = length (events planCompleted i d)"
  "same_events d d' \<Longrightarrow> length (events planFailed i d') = length (events planFailed i d)"
  by (simp_all add: same_events_def)

lemma one_eventD:
  "one_event et k d d' \<Longrightarrow> length (events legFilled i d')
     = length (events legFilled i d) + (if legFilled = et \<and> i = k then 1 else 0)"
  "one_event et k d d' \<Longrightarrow> length (events planCompleted i d')
     = length (events planCompleted i d) + (if planCompleted = et \<and> i = k then 1 else 0)"
  "one_event et k d d' \<Longrightarrow> length (events planFailed i d')
     = length (events planFailed i d) + (if planFailed = et \<and> i = k then 1 else 0)"
  by (simp_all add: one_event_def)

definition filled_at :: "string \<Rightarrow> exec_db \<Rightarrow> nat" where
  "filled_at i d = (case get_leg i d of Some l \<Rightarrow> if lg_state l = L_filled then 1 else 0 | None \<Rightarrow> 0)"

definition plan_at :: "plan_state \<Rightarrow> string \<Rightarrow> exec_db \<Rightarrow> nat" where
  "plan_at s i d = (case get_plan i d of Some p \<Rightarrow> if pl_state p = s then 1 else 0 | None \<Rightarrow> 0)"

lemma events_ok_alt:
  "events_ok d \<longleftrightarrow> (\<forall>i. length (events legFilled i d) = filled_at i d
     \<and> length (events planCompleted i d) = plan_at P_completed i d
     \<and> length (events planFailed i d) = plan_at P_failed i d)"
  by (simp add: events_ok_def filled_at_def plan_at_def)

lemma effect_filled_at:
  assumes "exec_effect d d'"
  shows "filled_at i d' + length (events legFilled i d) = filled_at i d + length (events legFilled i d')"
  using assms
proof cases
  case (eff_begin p p0 new)
  then have n: "\<forall>l \<in> set new. lg_state l \<noteq> L_filled" by simp
  show ?thesis
    using eff_begin(7) n same_eventsD(1) [OF eff_begin(11)]
    by (auto dest!: get_row_in_set simp: filled_at_def db_row_simps split: option.splits)
next
  case (eff_complete p p0)
  then show ?thesis by (simp add: filled_at_def db_row_simps one_eventD(1) [OF eff_complete(9)])
next
  case (eff_fail p p0 now)
  then show ?thesis
    by (simp add: filled_at_def db_row_simps one_eventD(1) [OF eff_fail(7)] sweep_leg_def swept_def split: option.splits)
next
  case (eff_leg l l0)
  then have "lg_state l0 \<noteq> L_filled" by (auto simp: leg_allowed_def)
  with eff_leg show ?thesis by (simp add: filled_at_def db_row_simps same_eventsD split: option.splits)
next
  case (eff_fill_part l l0)
  then show ?thesis by (auto simp: filled_at_def db_row_simps same_eventsD split: option.splits)
next
  case (eff_fill_full l l0)
  then show ?thesis
    by (auto simp: filled_at_def db_row_simps one_eventD(1) [OF eff_fill_full(10)] split: option.splits)
qed (simp_all add: filled_at_def db_row_simps same_eventsD)

lemma effect_plan_at:
  assumes "exec_effect d d'"
  shows "plan_at P_completed i d' + length (events planCompleted i d)
      = plan_at P_completed i d + length (events planCompleted i d')
    \<and> plan_at P_failed i d' + length (events planFailed i d)
      = plan_at P_failed i d + length (events planFailed i d')"
  using assms
proof cases
  case (eff_new_plan p)
  then show ?thesis by (auto simp: plan_at_def db_row_simps same_eventsD split: option.splits)
next
  case (eff_plan p p0)
  then have "pl_state p0 \<noteq> P_completed \<and> pl_state p0 \<noteq> P_failed" by (auto simp: plan_allowed_def)
  with eff_plan show ?thesis by (auto simp: plan_at_def db_row_simps same_eventsD split: option.splits)
next
  case (eff_begin p p0 new)
  then show ?thesis by (simp add: plan_at_def db_row_simps same_eventsD split: option.splits)
next
  case (eff_complete p p0)
  then show ?thesis
    by (simp add: plan_at_def db_row_simps one_eventD [OF eff_complete(9)] split: option.splits)
next
  case (eff_fail p p0 now)
  then show ?thesis
    by (auto simp: plan_at_def db_row_simps one_eventD [OF eff_fail(7)] split: option.splits)
qed (simp_all add: plan_at_def db_row_simps same_eventsD one_eventD)

lemma effect_inv:
  assumes "exec_effect d d'" and "exec_inv d"
  shows "exec_inv d'"
proof -
  have "events_ok d'"
    using exec_invD(6) [OF assms(2)] effect_filled_at [OF assms(1)] effect_plan_at [OF assms(1)]
    unfolding events_ok_alt by (metis add_left_cancel add.commute)
  then show ?thesis
    unfolding exec_inv_def
    using effect_distinct [OF assms] effect_leg_ok [OF assms] effect_leg_has_plan [OF assms] effect_plan_ok [OF assms]
    by blast
qed

lemma effects_inv: "exec_effect\<^sup>*\<^sup>* d d' \<Longrightarrow> exec_inv d \<Longrightarrow> exec_inv d'"
  by (induction rule: rtranclp_induct) (auto dest: effect_inv)

lemma effects_leg:
  assumes "exec_effect\<^sup>*\<^sup>* d d'" and "exec_inv d" and "get_leg i d = Some l0"
  shows "\<exists>l. get_leg i d' = Some l \<and> lg_planId l = lg_planId l0 \<and> lg_targetQuantity l = lg_targetQuantity l0
    \<and> (lg_filledQuantity l0 \<le> lg_filledQuantity l \<or> lg_targetQuantity l0 \<le> 0)"
  using assms
proof (induction rule: rtranclp_induct)
  case base
  then show ?case by auto
next
  case (step y z)
  then obtain l1 where l1: "get_leg i y = Some l1" "lg_planId l1 = lg_planId l0"
      "lg_targetQuantity l1 = lg_targetQuantity l0"
      "lg_filledQuantity l0 \<le> lg_filledQuantity l1 \<or> lg_targetQuantity l0 \<le> 0" by blast
  have ok: "leg_ok l1" using effects_inv [OF step.hyps(1) step.prems(1)] exec_invD(3) get_leg_in [OF l1(1)] by blast
  from effect_leg_change [OF step.hyps(2) l1(1)] obtain l2 where l2: "get_leg i z = Some l2"
      "lg_planId l2 = lg_planId l1" "lg_targetQuantity l2 = lg_targetQuantity l1"
      "lg_filledQuantity l2 = lg_filledQuantity l1 \<or> lg_filledQuantity l1 < lg_filledQuantity l2
        \<or> lg_filledQuantity l2 = lg_targetQuantity l1" by blast
  moreover from ok have "lg_filledQuantity l1 \<le> lg_targetQuantity l1 \<or> lg_targetQuantity l1 \<le> 0"
    by (cases "lg_state l1") (auto simp: leg_ok_def)
  ultimately show ?case using l1 by auto
qed

end
