(* ===== verification/Playbook.thy ===== *)
theory Playbook
  imports Exec_Db
begin

text \<open>
  What the orchestrator reads from the playbook of a plan (\<open>playbook_config\<close>, JSON): the venue
  of a leg, the parameters of a bridge leg, the legs of a multi-leg plan, the token a leg
  sells, and the grouping key of its fills.
\<close>

section \<open>Venue keys\<close>

definition DEX_VENUE_KEYS :: "string list" where
  "DEX_VENUE_KEYS = [''uniswap-v2'', ''uniswap-v3'', ''sushiswap'', ''pancakeswap-v2'', ''biswap'']"

definition isLiveVenueKey :: "string option \<Rightarrow> bool" where
  "isLiveVenueKey k = (case k of None \<Rightarrow> False | Some s \<Rightarrow> s \<in> set DEX_VENUE_KEYS)"

definition array_entry :: "json option \<Rightarrow> int \<Rightarrow> json option" where
  "array_entry v i = (case v of Some (JArr xs) \<Rightarrow> jidx xs i | _ \<Rightarrow> None)"

definition obj_field :: "json option \<Rightarrow> string \<Rightarrow> json option" where
  "obj_field v k = (case v of Some j \<Rightarrow> jget j k | None \<Rightarrow> None)"

definition extractVenueKey :: "plan \<Rightarrow> leg \<Rightarrow> string option" where
  "extractVenueKey p l =
     (case pl_playbookConfig p of
        None \<Rightarrow> None
      | Some config \<Rightarrow>
          (if \<not> jis_object (Some config) then None
           else case jnonempty_str (obj_field (array_entry (jget config ''legs'') (lg_legIndex l)) ''venueKey'') of
             Some vk \<Rightarrow> Some vk
           | None \<Rightarrow>
             (case jnonempty_str (obj_field (array_entry (jget config ''dexSwaps'') (lg_legIndex l)) ''venueKey'') of
                Some vk \<Rightarrow> Some vk
              | None \<Rightarrow> jnonempty_str (jget config ''venueKey''))))"

section \<open>Bridge parameters\<close>

record bridge_leg_params =
  bl_bridgeKey :: string
  bl_sourceChainId :: rat
  bl_destinationChainId :: rat
  bl_token :: string
  bl_destinationToken :: string
  bl_amount :: int
  bl_recipientAddress :: string

definition asString :: "json option \<Rightarrow> string option" where
  "asString v = (case v of Some (JStr s) \<Rightarrow> if s = [] then None else Some s
     | Some (JNum q) \<Rightarrow> Some (js_number_string q) | _ \<Rightarrow> None)"

definition asNumber_bridge :: "json option \<Rightarrow> rat option" where
  "asNumber_bridge v = (case v of Some (JNum q) \<Rightarrow> Some q
     | Some (JStr s) \<Rightarrow> (case js_Number s of Fin q \<Rightarrow> Some q | _ \<Rightarrow> None) | _ \<Rightarrow> None)"

definition or_else :: "'a option \<Rightarrow> 'a option \<Rightarrow> 'a option" where
  "or_else a b = (case a of None \<Rightarrow> b | Some _ \<Rightarrow> a)"

text \<open>\<open>params k\<close> is \<open>params[k]\<close>.\<close>

definition validateAndBuildBridgeParams :: "(string \<Rightarrow> json option) \<Rightarrow> bridge_leg_params option" where
  "validateAndBuildBridgeParams params =
     (let bridgeKey = asString (params ''bridgeKey'');
          sourceChainId = asNumber_bridge (params ''sourceChainId'');
          destinationChainId = asNumber_bridge (params ''destinationChainId'');
          token = or_else (asString (params ''token'')) (asString (params ''tokenAddress''));
          destinationToken = or_else (asString (params ''destinationToken'')) (asString (params ''destinationTokenAddress''));
          amountStr = asString (params ''amount'');
          recipient = or_else (asString (params ''recipientAddress'')) (asString (params ''recipient''))
      in case (bridgeKey, sourceChainId, destinationChainId, token, destinationToken, amountStr) of
           (Some bk, Some src, Some dst, Some tk, Some dt, Some am) \<Rightarrow>
             (if src = 0 \<or> dst = 0 then None
              else case js_BigInt am of
                None \<Rightarrow> None
              | Some amount \<Rightarrow> Some \<lparr> bl_bridgeKey = bk, bl_sourceChainId = src, bl_destinationChainId = dst,
                  bl_token = tk, bl_destinationToken = dt, bl_amount = amount,
                  bl_recipientAddress = (case recipient of None \<Rightarrow> [] | Some r \<Rightarrow> r) \<rparr>)
         | _ \<Rightarrow> None)"

text \<open>The fields of a multi-leg entry under the names of the legacy format.\<close>

definition mapped_bridge_entry :: "json \<Rightarrow> string \<Rightarrow> json option" where
  "mapped_bridge_entry entry k =
     (if k = ''bridgeKey'' then jget entry ''bridgeKey''
      else if k = ''sourceChainId'' then jcoalesce (jget entry ''chainId'') (jget entry ''sourceChainId'')
      else if k = ''destinationChainId'' then jget entry ''destinationChainId''
      else if k = ''token'' then jcoalesce (jget entry ''token'') (jget entry ''tokenAddress'')
      else if k = ''destinationToken'' then jcoalesce (jget entry ''destinationToken'') (jget entry ''destinationTokenAddress'')
      else if k = ''amount'' then jget entry ''amount''
      else if k = ''recipientAddress'' then jcoalesce (jget entry ''recipientAddress'') (jget entry ''recipient'')
      else None)"

definition extractBridgeParams :: "json option \<Rightarrow> int \<Rightarrow> bridge_leg_params option" where
  "extractBridgeParams playbookConfig legIndex =
     (case playbookConfig of
        None \<Rightarrow> None
      | Some config \<Rightarrow>
          (if \<not> jis_object (Some config) then None
           else
             (let legacy =
                (case array_entry (jget config ''dexSwaps'') legIndex of
                   Some legParams \<Rightarrow>
                     (if jis_object (Some legParams) \<and> jnonempty_str (jget legParams ''bridgeKey'') \<noteq> None
                      then validateAndBuildBridgeParams (jget legParams)
                      else if jis_object (jget config ''bridgeDefaults'')
                      then validateAndBuildBridgeParams (obj_field (jget config ''bridgeDefaults'')) else None)
                 | None \<Rightarrow>
                     (if jis_object (jget config ''bridgeDefaults'')
                      then validateAndBuildBridgeParams (obj_field (jget config ''bridgeDefaults'')) else None))
              in case array_entry (jget config ''legs'') legIndex of
                   Some entry \<Rightarrow>
                     (if jis_object (Some entry) \<and> (jnonempty_str (jget entry ''bridgeKey'') \<noteq> None
                           \<or> jget entry ''legType'' = Some (JStr ''bridge''))
                      then or_else (validateAndBuildBridgeParams (mapped_bridge_entry entry)) legacy
                      else legacy)
                 | None \<Rightarrow> legacy)))"

section \<open>Multi-leg plans\<close>

text \<open>\<open>parsePlaybookConfig\<close>: \<open>Some\<close> the entries of \<open>legs\<close> when the document has schema version 1.\<close>

definition parsePlaybookConfig :: "json option \<Rightarrow> json list option" where
  "parsePlaybookConfig raw =
     (case raw of
        None \<Rightarrow> None
      | Some config \<Rightarrow>
          (if \<not> jis_object raw then None
           else if jget config ''schemaVersion'' \<noteq> Some (JNum 1) then None
           else case jget config ''legs'' of Some (JArr ls) \<Rightarrow> Some ls | _ \<Rightarrow> None))"

record leg_def =
  df_legIndex :: int
  df_legType :: leg_type
  df_chainId :: "int option"
  df_targetQuantity :: rat

text \<open>
  The columns of one leg taken from its entry, which the code does not validate: an undefined
  type or quantity takes the column default, and a value the column cannot hold makes the
  insert fail (\<open>None\<close>).
\<close>

definition json_int :: "json option \<Rightarrow> int option" where
  "json_int v = (case v of Some (JNum q) \<Rightarrow> if q = of_int \<lfloor>q\<rfloor> then Some \<lfloor>q\<rfloor> else None | _ \<Rightarrow> None)"

definition leg_def_of_entry :: "json \<Rightarrow> leg_def option" where
  "leg_def_of_entry e =
     (let ty = (case jget e ''legType'' of None \<Rightarrow> Some dex
                | Some (JStr s) \<Rightarrow> if s = ''dex'' then Some dex else if s = ''bridge'' then Some bridge else None
                | _ \<Rightarrow> None);
          chain = (if jcoalesce (jget e ''chainId'') None = None then Some None
                   else map_option Some (json_int (jget e ''chainId'')));
          qty = (case jget e ''targetQuantity'' of None \<Rightarrow> Some 1 | Some (JNum q) \<Rightarrow> Some q | _ \<Rightarrow> None)
      in case (json_int (jget e ''legIndex''), ty, chain, qty) of
           (Some i, Some t, Some c, Some q) \<Rightarrow>
             Some \<lparr> df_legIndex = i, df_legType = t, df_chainId = c, df_targetQuantity = q \<rparr>
         | _ \<Rightarrow> None)"

definition readBeginLegCount :: "string option \<Rightarrow> nat" where
  "readBeginLegCount env =
     (let raw = (case env of None \<Rightarrow> ''1'' | Some s \<Rightarrow> js_trim s)
      in case js_parseInt10 raw of None \<Rightarrow> 1 | Some n \<Rightarrow> if n < 1 \<or> n > 16 then 1 else nat n)"

section \<open>Keys of a fill\<close>

definition resolveInstrumentKeyForPlan :: "plan \<Rightarrow> string" where
  "resolveInstrumentKeyForPlan p =
     (let fallback = (case pl_riskDecisionId p of
            Some r \<Rightarrow> if r \<noteq> [] then ''arb:risk-decision:'' @ r else ''arb:execution-plan:'' @ pl_id p
          | None \<Rightarrow> ''arb:execution-plan:'' @ pl_id p)
      in case pl_routeKey p of None \<Rightarrow> fallback
         | Some rk \<Rightarrow> if js_trim rk \<noteq> [] then js_trim rk else fallback)"

definition readLegTokenIn :: "json option \<Rightarrow> int \<Rightarrow> string option" where
  "readLegTokenIn playbookConfig legIndex =
     (case playbookConfig of
        None \<Rightarrow> None
      | Some config \<Rightarrow> jnonempty_str (obj_field (array_entry (jget config ''legs'') legIndex) ''tokenIn''))"

declare extractVenueKey_def [op_defs] extractBridgeParams_def [op_defs] parsePlaybookConfig_def [op_defs]
  leg_def_of_entry_def [op_defs]

lemma readBeginLegCount_bounds: "1 \<le> readBeginLegCount env \<and> readBeginLegCount env \<le> 16"
  by (auto simp: readBeginLegCount_def Let_def split: option.splits)

lemma resolveInstrumentKey_nonempty: "resolveInstrumentKeyForPlan p \<noteq> []"
  by (auto simp: resolveInstrumentKeyForPlan_def Let_def split: option.splits)

end
