(* ===== verification/Plans.thy ===== *)
theory Plans
  imports Playbook
begin

text \<open>
  \<open>plans.service.ts\<close> of the execution orchestrator and the HTTP clients it asks before it
  links a reservation to a plan or arms it (\<open>capital-http.client.ts\<close>, \<open>risk-http.client.ts\<close>).
  The answers of the two services are arguments.
\<close>

section \<open>HTTP clients\<close>

datatype http_response = Unreachable | Response int "json option" \<comment> \<open>status, body if it is JSON\<close>

record capital_snapshot =
  cs_id :: string
  cs_state :: string
  cs_correlationId :: "string option"
  cs_planId :: "string option"
  cs_expiresAtIso :: json

record risk_snapshot =
  rs_id :: string
  rs_correlationId :: string
  rs_outcome :: string

definition http_ok :: "int \<Rightarrow> bool" where
  "http_ok st \<longleftrightarrow> 200 \<le> st \<and> st \<le> 299"

definition is_string_json :: "json option \<Rightarrow> bool" where
  "is_string_json v = (case v of Some (JStr _) \<Rightarrow> True | Some (JIso _) \<Rightarrow> True | _ \<Rightarrow> False)"

definition string_or_null :: "json option \<Rightarrow> string option" where
  "string_or_null v = (case v of Some (JStr s) \<Rightarrow> Some s | _ \<Rightarrow> None)"

definition parseCapitalSnapshot :: "json \<Rightarrow> exn + capital_snapshot" where
  "parseCapitalSnapshot body =
     (case body of
        JObj _ \<Rightarrow>
          (case (jget body ''id'', jget body ''state'') of
             (Some (JStr i), Some (JStr st)) \<Rightarrow>
               (if \<not> is_string_json (jget body ''amountUsd'')
                then Inl (BadGatewayException ''capital-service: missing amountUsd for reservation'')
                else if \<not> is_string_json (jget body ''expiresAt'')
                then Inl (BadGatewayException ''capital-service: missing expiresAt for reservation'')
                else Inr \<lparr> cs_id = i, cs_state = st,
                  cs_correlationId = string_or_null (jget body ''correlationId''),
                  cs_planId = string_or_null (jget body ''planId''),
                  cs_expiresAtIso = the (jget body ''expiresAt'') \<rparr>)
           | _ \<Rightarrow> Inl (BadGatewayException ''capital-service: missing id/state for reservation''))
      | _ \<Rightarrow> Inl (BadGatewayException ''capital-service: invalid JSON for reservation''))"

definition getReservation :: "http_response \<Rightarrow> exn + capital_snapshot" where
  "getReservation res =
     (case res of
        Unreachable \<Rightarrow> Inl (BadGatewayException ''capital-service unreachable for GET reservations'')
      | Response st body \<Rightarrow>
          (if st = 404 then Inl (NotFoundException ''Reservation not found'')
           else if \<not> http_ok st then Inl (BadGatewayException ''capital-service GET reservations failed'')
           else case body of
             None \<Rightarrow> Inl (BadGatewayException ''capital-service: non-JSON body for reservation'')
           | Some b \<Rightarrow> parseCapitalSnapshot b))"

definition parseRiskSnapshot :: "json \<Rightarrow> exn + risk_snapshot" where
  "parseRiskSnapshot body =
     (case body of
        JObj _ \<Rightarrow>
          (case (jget body ''id'', jget body ''correlationId'') of
             (Some (JStr i), Some (JStr c)) \<Rightarrow>
               (case jget body ''outcome'' of
                  Some (JStr out) \<Rightarrow> Inr \<lparr> rs_id = i, rs_correlationId = c, rs_outcome = out \<rparr>
                | _ \<Rightarrow> Inl (BadGatewayException ''risk-service: missing outcome for risk-decisions''))
           | _ \<Rightarrow> Inl (BadGatewayException ''risk-service: missing id/correlationId for risk-decisions''))
      | _ \<Rightarrow> Inl (BadGatewayException ''risk-service: invalid JSON for risk-decisions''))"

definition getRiskDecisionHttp :: "http_response \<Rightarrow> exn + risk_snapshot" where
  "getRiskDecisionHttp res =
     (case res of
        Unreachable \<Rightarrow> Inl (BadGatewayException ''risk-service unreachable for GET risk-decisions'')
      | Response st body \<Rightarrow>
          (if st = 404 then Inl (NotFoundException ''Risk decision not found'')
           else if \<not> http_ok st then Inl (BadGatewayException ''risk-service GET risk-decisions failed'')
           else case body of
             None \<Rightarrow> Inl (BadGatewayException ''risk-service: non-JSON body for risk-decisions'')
           | Some b \<Rightarrow> parseRiskSnapshot b))"

section \<open>Guards\<close>

text \<open>\<open>loadReservationSnapshotTwice\<close>; the flag is \<open>ifMissing = 'conflict'\<close>.\<close>

definition loadReservationSnapshotTwice :: "http_response \<Rightarrow> http_response \<Rightarrow> bool \<Rightarrow> exn + capital_snapshot" where
  "loadReservationSnapshotTwice res1 res2 missingIsConflict =
     (case (case getReservation res1 of Inl e \<Rightarrow> Inl e | Inr _ \<Rightarrow> getReservation res2) of
        Inl e \<Rightarrow> (case e of
            NotFoundException _ \<Rightarrow> if missingIsConflict then Inl (ConflictException ''Reservation missing'') else Inl e
          | _ \<Rightarrow> Inl e)
      | Inr s \<Rightarrow> Inr s)"

definition assertApprovedRiskViaHttp :: "(string \<Rightarrow> http_response) \<Rightarrow> plan \<Rightarrow> exn + unit" where
  "assertApprovedRiskViaHttp riskHttp p =
     (case pl_riskDecisionId p of
        None \<Rightarrow> Inl (ConflictException ''Plan must reference an approved risk decision before reservation/arm'')
      | Some rid \<Rightarrow>
          (case getRiskDecisionHttp (riskHttp rid) of
             Inl e \<Rightarrow> (case e of
                 NotFoundException _ \<Rightarrow> Inl (ConflictException ''Risk decision missing for plan'')
               | _ \<Rightarrow> Inl e)
           | Inr risk \<Rightarrow>
               (if rs_outcome risk \<noteq> ''approved''
                then Inl (ConflictException ''Risk decision must be approved before reservation/arm'')
                else if pl_correlationId p \<noteq> None \<and> Some (rs_correlationId risk) \<noteq> pl_correlationId p
                then Inl (ConflictException ''Risk decision correlation does not match plan'')
                else Inr ())))"

definition assertReservationActive :: "int \<Rightarrow> capital_snapshot \<Rightarrow> exn + unit" where
  "assertReservationActive now res =
     (if cs_state res \<noteq> ''active''
      then (if cs_state res = ''expired'' then Inl (ConflictException ''Reservation has expired'')
            else Inl (ConflictException ''Reservation is not active''))
      else case cs_expiresAtIso res of
        JIso expiresMs \<Rightarrow> if expiresMs \<le> now then Inl (ConflictException ''Reservation has expired'') else Inr ()
      | _ \<Rightarrow> Inl (ConflictException ''Reservation has expired''))"

definition assertReservationMatchesPlan :: "plan \<Rightarrow> capital_snapshot \<Rightarrow> exn + unit" where
  "assertReservationMatchesPlan p res =
     (case cs_planId res of
        None \<Rightarrow> Inl (ConflictException ''Reservation must be linked to plan by capital-service before orchestration'')
      | Some pid \<Rightarrow>
          (if pid \<noteq> pl_id p then Inl (ConflictException ''Reservation belongs to another plan'')
           else if pl_correlationId p \<noteq> None \<and> cs_correlationId res \<noteq> pl_correlationId p
           then Inl (ConflictException ''Reservation correlation does not match plan'')
           else Inr ()))"

text \<open>The checks of \<open>linkReservation\<close> and \<open>arm\<close> before their transactions, in order.\<close>

definition reservation_checks ::
  "(string \<Rightarrow> http_response) \<Rightarrow> http_response \<Rightarrow> http_response \<Rightarrow> bool \<Rightarrow> int \<Rightarrow> plan \<Rightarrow> exn + unit" where
  "reservation_checks riskHttp res1 res2 missingIsConflict now peek =
     (case assertApprovedRiskViaHttp riskHttp peek of
        Inl e \<Rightarrow> Inl e
      | Inr _ \<Rightarrow>
          (case loadReservationSnapshotTwice res1 res2 missingIsConflict of
             Inl e \<Rightarrow> Inl e
           | Inr res \<Rightarrow>
               (case assertReservationActive now res of
                  Inl e \<Rightarrow> Inl e
                | Inr _ \<Rightarrow> assertReservationMatchesPlan peek res)))"

section \<open>Operations\<close>

record create_plan_dto =
  cp_correlationId :: "string option"
  cp_riskDecisionId :: "string option"
  cp_routeKey :: "string option"

definition create_plan :: "create_plan_dto \<Rightarrow> string \<Rightarrow> int \<Rightarrow> exec_db \<Rightarrow> (plan, exec_db) outcome" where
  "create_plan dto newId now d =
     (let row = \<lparr> pl_id = newId, pl_correlationId = cp_correlationId dto, pl_state = P_planned,
            pl_capitalReservationId = None, pl_riskDecisionId = cp_riskDecisionId dto,
            pl_routeKey = map_option js_trim (cp_routeKey dto), pl_entityVersion = 1,
            pl_playbookConfig = None, pl_costBreakdown = None, pl_createdAt = now, pl_updatedAt = now \<rparr>
      in (Inr row, save_plan row d))"

definition list_plans :: "exec_db \<Rightarrow> plan list" where
  "list_plans d = take 100 (rev (sort_key pl_createdAt (ed_plans d)))"

definition getPlanById :: "string \<Rightarrow> exec_db \<Rightarrow> exn + plan" where
  "getPlanById i d = (case get_plan i d of None \<Rightarrow> Inl (NotFoundException ''Plan not found'') | Some p \<Rightarrow> Inr p)"

definition link_tx :: "string \<Rightarrow> string \<Rightarrow> int \<Rightarrow> exec_db \<Rightarrow> (plan, exec_db) outcome" where
  "link_tx planId capitalReservationId now d =
     (case get_plan planId d of
        None \<Rightarrow> (Inl (NotFoundException ''Plan not found''), d)
      | Some p \<Rightarrow>
          (if pl_state p \<noteq> P_planned
           then (Inl (ConflictException ''Plan must be planned to link reservation''), d)
           else (let saved = p\<lparr>pl_capitalReservationId := Some capitalReservationId, pl_state := P_reserved,
                       pl_entityVersion := pl_entityVersion p + 1, pl_updatedAt := now\<rparr>
                 in (Inr saved, audited (exec_audit ''LinkReservation'' ''ExecutionPlan'' (pl_id saved)
                       (''execution:LinkReservation:'' @ pl_id saved @ '':'' @ capitalReservationId)
                       (pl_correlationId saved)
                       (JObj [(''capitalReservationId'', JStr capitalReservationId), (''state'', JStr ''reserved'')]))
                     (save_plan saved d)))))"

text \<open>\<open>env\<close> is what other transactions commit between the checks and the transaction.\<close>

definition linkReservation ::
  "string \<Rightarrow> string \<Rightarrow> (string \<Rightarrow> http_response) \<Rightarrow> http_response \<Rightarrow> http_response \<Rightarrow> int
     \<Rightarrow> (exec_db \<Rightarrow> exec_db) \<Rightarrow> int \<Rightarrow> exec_db \<Rightarrow> (plan, exec_db) outcome" where
  "linkReservation planId capitalReservationId riskHttp res1 res2 checkNow env now d =
     (case get_plan planId d of
        None \<Rightarrow> (Inl (NotFoundException ''Plan not found''), d)
      | Some peek \<Rightarrow>
          (if pl_state peek \<noteq> P_planned
           then (Inl (ConflictException ''Plan must be planned to link reservation''), d)
           else case reservation_checks riskHttp res1 res2 False checkNow peek of
             Inl e \<Rightarrow> (Inl e, d)
           | Inr _ \<Rightarrow> transaction (link_tx planId capitalReservationId now) (env d)))"

text \<open>The correlation id of an envelope: the plan's unless it is missing or blank.\<close>

definition correlationForEnvelope :: "plan \<Rightarrow> string" where
  "correlationForEnvelope p =
     (case pl_correlationId p of None \<Rightarrow> pl_id p | Some c \<Rightarrow> if js_trim c \<noteq> [] then c else pl_id p)"

definition plan_event :: "string \<Rightarrow> string \<Rightarrow> string \<Rightarrow> plan \<Rightarrow> json \<Rightarrow> int \<Rightarrow> outbox_row" where
  "plan_event messageId eventName correlationId p payload now =
     mk_outbox messageId eventName ''ExecutionPlan'' (pl_id p) 1 payload
       (mk_envelope messageId correlationId ''ExecutionPlan'' (pl_id p) 1 ''execution-orchestrator'' now eventName payload) now"

definition arm_tx :: "string \<Rightarrow> string \<Rightarrow> int \<Rightarrow> exec_db \<Rightarrow> (plan, exec_db) outcome" where
  "arm_tx planId messageId now d =
     (case get_plan planId d of
        None \<Rightarrow> (Inl (NotFoundException ''Plan not found''), d)
      | Some p \<Rightarrow>
          (if pl_state p \<noteq> P_reserved
           then (Inl (ConflictException ''Plan must be reserved before arm''), d)
           else case pl_capitalReservationId p of
             None \<Rightarrow> (Inl (ConflictException ''Plan has no capital reservation''), d)
           | Some crid \<Rightarrow>
               (let saved = p\<lparr>pl_state := P_armed, pl_entityVersion := pl_entityVersion p + 1, pl_updatedAt := now\<rparr>;
                    correlation = (case pl_correlationId saved of Some c \<Rightarrow> if c \<noteq> [] then c else pl_id saved
                                   | None \<Rightarrow> pl_id saved);
                    payload = JObj [(''planId'', JStr (pl_id saved)), (''state'', JStr ''armed''),
                      (''capitalReservationId'', JStr crid),
                      (''riskDecisionId'', jstr_or_null (pl_riskDecisionId saved)),
                      (''entityVersion'', JNum (of_int (pl_entityVersion saved)))]
                in (Inr saved, audited (exec_audit ''ArmPlan'' ''ExecutionPlan'' (pl_id saved)
                      (''execution:ArmPlan:'' @ pl_id saved @ '':v'' @ string_of_int (pl_entityVersion saved))
                      (pl_correlationId saved)
                      (JObj [(''state'', JStr ''armed''), (''capitalReservationId'', JStr crid)]))
                    (emit (plan_event messageId planArmed correlation saved payload now) (save_plan saved d))))))"

definition arm ::
  "string \<Rightarrow> (string \<Rightarrow> http_response) \<Rightarrow> (string \<Rightarrow> http_response) \<Rightarrow> (string \<Rightarrow> http_response) \<Rightarrow> int
     \<Rightarrow> (exec_db \<Rightarrow> exec_db) \<Rightarrow> string \<Rightarrow> int \<Rightarrow> exec_db \<Rightarrow> (plan, exec_db) outcome" where
  "arm planId riskHttp capHttp1 capHttp2 checkNow env messageId now d =
     (case get_plan planId d of
        None \<Rightarrow> (Inl (NotFoundException ''Plan not found''), d)
      | Some peek \<Rightarrow>
          (if pl_state peek \<noteq> P_reserved
           then (Inl (ConflictException ''Plan must be reserved before arm''), d)
           else case pl_capitalReservationId peek of
             None \<Rightarrow> (Inl (ConflictException ''Plan has no capital reservation''), d)
           | Some crid \<Rightarrow>
               (case reservation_checks riskHttp (capHttp1 crid) (capHttp2 crid) True checkNow peek of
                  Inl e \<Rightarrow> (Inl e, d)
                | Inr _ \<Rightarrow> transaction (arm_tx planId messageId now) (env d))))"

definition tryMarkPlanCompletedWhenAllLegsFilled ::
  "string \<Rightarrow> string \<Rightarrow> int \<Rightarrow> exec_db \<Rightarrow> (bool \<times> plan option) \<times> exec_db" where
  "tryMarkPlanCompletedWhenAllLegsFilled planId messageId now d =
     (let legsForPlan = legs_of_plan planId d in
      if legsForPlan = [] then ((False, None), d)
      else if \<exists>l \<in> set legsForPlan. lg_state l \<noteq> L_filled then ((False, None), d)
      else case get_plan planId d of
        None \<Rightarrow> ((False, None), d)
      | Some p \<Rightarrow>
          (if pl_state p \<noteq> P_executing then ((False, Some p), d)
           else
             (let saved = p\<lparr>pl_state := P_completed, pl_entityVersion := pl_entityVersion p + 1, pl_updatedAt := now\<rparr>;
                  payload = JObj [(''planId'', JStr (pl_id saved)), (''state'', JStr ''completed''),
                    (''entityVersion'', JNum (of_int (pl_entityVersion saved))),
                    (''capitalReservationId'', jstr_or_null (pl_capitalReservationId saved))]
              in ((True, Some saved),
                  audited (exec_audit ''MarkPlanCompleted'' ''ExecutionPlan'' (pl_id saved)
                      (''execution:MarkPlanCompleted:'' @ pl_id saved @ '':v'' @ string_of_int (pl_entityVersion saved))
                      (pl_correlationId saved) (JObj [(''state'', JStr ''completed'')]))
                    (emit (plan_event messageId planCompleted (correlationForEnvelope saved) saved payload now)
                      (save_plan saved d))))))"

datatype fail_reason = stuck_reaper | manual

fun reason_text :: "fail_reason \<Rightarrow> string" where
  "reason_text stuck_reaper = ''stuck_reaper''"
| "reason_text manual = ''manual''"

text \<open>The legs that are swept are saved one by one; the list of the table keeps its order.\<close>

definition markFailed :: "string \<Rightarrow> fail_reason \<Rightarrow> string \<Rightarrow> int \<Rightarrow> exec_db \<Rightarrow> (bool \<times> plan option) \<times> exec_db" where
  "markFailed planId reason messageId now d =
     (case get_plan planId d of
        None \<Rightarrow> ((False, None), d)
      | Some p \<Rightarrow>
          (if pl_state p \<noteq> P_armed \<and> pl_state p \<noteq> P_executing then ((False, Some p), d)
           else
             (let saved = p\<lparr>pl_state := P_failed, pl_entityVersion := pl_entityVersion p + 1, pl_updatedAt := now\<rparr>;
                  nonTerminalLegs = filter (\<lambda>l. lg_state l = L_created \<or> lg_state l = L_submitting
                    \<or> lg_state l = L_partiallyFilled) (legs_of_plan planId d);
                  d1 = fold (\<lambda>l. save_leg (l\<lparr>lg_state := L_failed, lg_entityVersion := lg_entityVersion l + 1,
                    lg_updatedAt := now\<rparr>)) nonTerminalLegs (save_plan saved d);
                  payload = JObj [(''planId'', JStr (pl_id saved)), (''state'', JStr ''failed''),
                    (''entityVersion'', JNum (of_int (pl_entityVersion saved))),
                    (''capitalReservationId'', jstr_or_null (pl_capitalReservationId saved)),
                    (''reason'', JStr (reason_text reason))]
              in ((True, Some saved),
                  audited (exec_audit ''MarkPlanFailed'' ''ExecutionPlan'' (pl_id saved)
                      (''execution:MarkPlanFailed:'' @ pl_id saved @ '':v'' @ string_of_int (pl_entityVersion saved))
                      (pl_correlationId saved)
                      (JObj [(''state'', JStr ''failed''), (''reason'', JStr (reason_text reason)),
                         (''legsSwept'', JNum (of_nat (length nonTerminalLegs)))]))
                    (emit (plan_event messageId planFailed (correlationForEnvelope saved) saved payload now) d1)))))"

section \<open>Read models\<close>

record dex_enrichment =
  de_isDex :: bool       \<comment> \<open>\<open>venueType\<close>: 'dex' or null\<close>
  de_chainId :: "int option"
  de_txHash :: "string option"
  de_txStatus :: "tx_status option"
  de_gasUsedWei :: "string option"

definition onchain_of_legs :: "string list \<Rightarrow> exec_db \<Rightarrow> onchain_tx list" where
  "onchain_of_legs legIds d = filter (\<lambda>t. case oc_legId t of None \<Rightarrow> False | Some i \<Rightarrow> i \<in> set legIds) (ed_onchain d)"

text \<open>The gas of one transaction; a malformed value is skipped.\<close>

definition gas_wei :: "onchain_tx \<Rightarrow> int" where
  "gas_wei t =
     (case (oc_gasUsed t, oc_gasPrice t) of
        (Some u, Some p) \<Rightarrow> (case (js_BigInt u, js_BigInt p) of (Some a, Some b) \<Rightarrow> a * b | _ \<Rightarrow> 0)
      | _ \<Rightarrow> 0)"

definition getDexEnrichment :: "string \<Rightarrow> exec_db \<Rightarrow> dex_enrichment" where
  "getDexEnrichment planId d =
     (let none = \<lparr> de_isDex = False, de_chainId = None, de_txHash = None, de_txStatus = None, de_gasUsedWei = None \<rparr>;
          legIds = map lg_id (legs_of_plan planId d)
      in if legIds = [] then none
         else case sort_key oc_createdAt (onchain_of_legs legIds d) of
           [] \<Rightarrow> none
         | tx # _ \<Rightarrow> \<lparr> de_isDex = True, de_chainId = Some (oc_chainId tx), de_txHash = Some (oc_txHash tx),
             de_txStatus = Some (oc_status tx),
             de_gasUsedWei = Some (string_of_int (sum_list (map gas_wei (onchain_of_legs legIds d)))) \<rparr>)"

definition getLegs :: "string \<Rightarrow> exec_db \<Rightarrow> exn + leg list" where
  "getLegs planId d =
     (case getPlanById planId d of Inl e \<Rightarrow> Inl e
      | Inr _ \<Rightarrow> Inr (sort_key lg_legIndex (legs_of_plan planId d)))"

definition getOnChainTxsForPlan :: "string \<Rightarrow> exec_db \<Rightarrow> exn + onchain_tx list" where
  "getOnChainTxsForPlan planId d =
     (case getLegs planId d of Inl e \<Rightarrow> Inl e
      | Inr ls \<Rightarrow> if ls = [] then Inr []
          else Inr (sort_key oc_createdAt (onchain_of_legs (map lg_id ls) d)))"

definition getOnChainTxsForLeg :: "string \<Rightarrow> exec_db \<Rightarrow> onchain_tx list" where
  "getOnChainTxsForLeg legId d = sort_key oc_createdAt (filter (\<lambda>t. oc_legId t = Some legId) (ed_onchain d))"

declare create_plan_def [op_defs] link_tx_def [op_defs] linkReservation_def [op_defs] arm_tx_def [op_defs]
  arm_def [op_defs] tryMarkPlanCompletedWhenAllLegsFilled_def [op_defs] markFailed_def [op_defs]

section \<open>The operations refine the abstract effects\<close>

lemma create_plan_effect:
  assumes "create_plan dto i now d = (out, d')" and "get_plan i d = None"
  shows "exec_effect d d'"
proof -
  have "\<exists>row. d' = save_plan row d \<and> pl_id row = i \<and> pl_state row = P_planned"
    using assms(1) unfolding create_plan_def Let_def by (intro exI conjI) auto
  then obtain row where row: "d' = save_plan row d" "pl_id row = i" "pl_state row = P_planned" by blast
  show ?thesis
    by (rule eff_new_plan [of row]) (use row assms(2) in \<open>simp_all add: get_plan_def save_row_new\<close>)
qed

lemma link_tx_effect:
  assumes "transaction (link_tx i c now) d = (out, d')"
  shows "exec_effect d d'"
proof (cases "get_plan i d")
  case None
  with assms show ?thesis by (simp add: link_tx_def transaction_def eff_none)
next
  case (Some p)
  then have k: "pl_id p = i" by (rule get_plan_key)
  show ?thesis
  proof (cases "pl_state p = P_planned")
    case True
    let ?p = "p\<lparr>pl_capitalReservationId := Some c, pl_state := P_reserved,
      pl_entityVersion := pl_entityVersion p + 1, pl_updatedAt := now\<rparr>"
    show ?thesis
      by (rule eff_plan [of ?p d p]) (use True Some k assms in \<open>auto simp: link_tx_def transaction_def plan_allowed_def Let_def\<close>)
  next
    case False
    with Some assms show ?thesis by (simp add: link_tx_def transaction_def eff_none)
  qed
qed

lemma plan_event_simps [simp]:
  "ob_eventType (plan_event m e c p pay now) = e" "ob_entityId (plan_event m e c p pay now) = pl_id p"
  "ob_payload (plan_event m e c p pay now) = pay" "ob_processedAt (plan_event m e c p pay now) = None"
  by (simp_all add: plan_event_def)

lemma arm_tx_cases:
  assumes "transaction (arm_tx i m now) d = (out, d')"
  obtains (refused) e where "out = Inl e" "d' = d"
  | (armed) p crid saved ev a where "get_plan i d = Some p" "pl_state p = P_reserved"
      "pl_capitalReservationId p = Some crid" "out = Inr saved"
      "saved = p\<lparr>pl_state := P_armed, pl_entityVersion := pl_entityVersion p + 1, pl_updatedAt := now\<rparr>"
      "ob_eventType ev = planArmed" "d' = audited a (emit ev (save_plan saved d))"
proof (cases "get_plan i d")
  case None
  with assms refused show thesis by (auto simp: arm_tx_def transaction_def)
next
  case (Some p)
  show thesis
  proof (cases "pl_state p = P_reserved \<and> pl_capitalReservationId p \<noteq> None")
    case True
    then obtain crid where "pl_state p = P_reserved" "pl_capitalReservationId p = Some crid" by auto
    with assms Some show thesis
      by (intro armed [of p crid]) (auto simp: arm_tx_def transaction_def Let_def)
  next
    case False
    with Some assms refused show thesis by (auto simp: arm_tx_def transaction_def split: if_splits)
  qed
qed

lemma arm_tx_effect:
  assumes "transaction (arm_tx i m now) d = (out, d')"
  shows "exec_effect d d'"
  using assms
proof (cases rule: arm_tx_cases)
  case (refused e)
  then show ?thesis by (simp add: eff_none)
next
  case (armed p crid saved ev a)
  then have k: "pl_id p = i" by (auto dest: get_plan_key)
  have "same_events d d'" by (rule same_events_emit [of d' ev]) (use armed in simp_all)
  then show ?thesis
    by (intro eff_plan [of saved d p]) (use armed k in \<open>simp_all add: plan_allowed_def\<close>)
qed

lemma tryMark_cases:
  assumes "tryMarkPlanCompletedWhenAllLegsFilled i m now d = (out, d')"
  obtains (refused) r where "out = (False, r)" "d' = d"
  | (changed) p saved ev a where "get_plan i d = Some p" "pl_state p = P_executing"
      "legs_of_plan i d \<noteq> []" "\<forall>l \<in> set (legs_of_plan i d). lg_state l = L_filled"
      "saved = p\<lparr>pl_state := P_completed, pl_entityVersion := pl_entityVersion p + 1, pl_updatedAt := now\<rparr>"
      "out = (True, Some saved)" "d' = audited a (emit ev (save_plan saved d))"
      "ob_eventType ev = planCompleted" "ob_entityId ev = pl_id saved"
proof (cases "legs_of_plan i d = [] \<or> (\<exists>l \<in> set (legs_of_plan i d). lg_state l \<noteq> L_filled)")
  case True
  with assms refused show thesis
    by (auto simp: tryMarkPlanCompletedWhenAllLegsFilled_def Let_def split: if_splits)
next
  case False
  show thesis
  proof (cases "\<exists>p. get_plan i d = Some p \<and> pl_state p = P_executing")
    case True
    then obtain p where "get_plan i d = Some p" "pl_state p = P_executing" by blast
    with assms False show thesis
      by (intro changed [of p]) (auto simp: tryMarkPlanCompletedWhenAllLegsFilled_def Let_def)
  next
    case F2: False
    with assms False refused show thesis
      by (cases "get_plan i d") (auto simp: tryMarkPlanCompletedWhenAllLegsFilled_def Let_def)
  qed
qed

lemma tryMark_effect:
  assumes "tryMarkPlanCompletedWhenAllLegsFilled i m now d = (out, d')"
  shows "exec_effect d d'"
  using assms
proof (cases rule: tryMark_cases)
  case (refused r)
  then show ?thesis by (simp add: eff_none)
next
  case (changed p saved ev a)
  then have k: "pl_id saved = i" by (auto dest: get_plan_key)
  have "one_event planCompleted (pl_id saved) d d'"
    by (rule one_event_emit [of d' ev]) (use changed in simp_all)
  with changed k show ?thesis by (intro eff_complete [of saved d p]) simp_all
qed

text \<open>The sweep of \<open>markFailed\<close> saves each leg; on the table it is one map.\<close>

lemma fold_save_map:
  assumes "distinct (map lg_id ls)" and "\<And>l. lg_id (f l) = lg_id l" and "set xs \<subseteq> set ls" and "distinct (map lg_id xs)"
  shows "fold (\<lambda>l. save_row lg_id (f l)) xs ls = map (\<lambda>l. if l \<in> set xs then f l else l) ls"
  using assms(1,3,4)
proof (induction xs arbitrary: ls)
  case Nil
  then show ?case by simp
next
  case (Cons x xs)
  have ex: "\<exists>y \<in> set ls. lg_id y = lg_id (f x)" using Cons.prems assms(2) by auto
  have inj: "\<And>y. y \<in> set ls \<Longrightarrow> lg_id y = lg_id x \<Longrightarrow> y = x"
    using Cons.prems(1,2) by (auto simp: distinct_map inj_on_def)
  have s: "save_row lg_id (f x) ls = map (\<lambda>l. if l = x then f x else l) ls"
    using ex inj by (auto simp: save_row_def assms(2))
  let ?ls = "map (\<lambda>l. if l = x then f x else l) ls"
  have "map lg_id ?ls = map lg_id ls" by (simp add: assms(2))
  then have d: "distinct (map lg_id ?ls)" using Cons.prems(1) by metis
  have nx: "lg_id x \<notin> lg_id ` set xs" using Cons.prems(3) by simp
  then have "set xs \<subseteq> set ?ls" using Cons.prems(2) by force
  then have "fold (\<lambda>l. save_row lg_id (f l)) xs ?ls = map (\<lambda>l. if l \<in> set xs then f l else l) ?ls"
    using Cons.IH [OF d] Cons.prems(3) by simp
  also have "\<dots> = map (\<lambda>l. if l \<in> set (x # xs) then f l else l) ls"
    using nx assms(2) by (auto simp: image_iff)
  finally show ?case by (simp add: s)
qed

lemma fold_save_leg:
  "fold (\<lambda>l. save_leg (f l)) xs d = d\<lparr>ed_legs := fold (\<lambda>l. save_row lg_id (f l)) xs (ed_legs d)\<rparr>"
  by (induction xs arbitrary: d) (simp_all add: save_leg_def)

lemma markFailed_cases:
  assumes "markFailed i reason m now d = (out, d')" and "distinct (map lg_id (ed_legs d))"
  obtains (refused) r where "out = (False, r)" "d' = d"
      "\<forall>p. get_plan i d = Some p \<longrightarrow> pl_state p \<noteq> P_armed \<and> pl_state p \<noteq> P_executing"
  | (changed) p saved ev a where "get_plan i d = Some p" "pl_state p \<in> {P_armed, P_executing}"
      "saved = p\<lparr>pl_state := P_failed, pl_entityVersion := pl_entityVersion p + 1, pl_updatedAt := now\<rparr>"
      "out = (True, Some saved)"
      "d' = audited a (emit ev ((save_plan saved d)\<lparr>ed_legs := map (sweep_leg i now) (ed_legs d)\<rparr>))"
      "ob_eventType ev = planFailed" "ob_entityId ev = pl_id saved"
proof (cases "\<exists>p. get_plan i d = Some p \<and> pl_state p \<in> {P_armed, P_executing}")
  case True
  then obtain p where p: "get_plan i d = Some p" "pl_state p \<in> {P_armed, P_executing}" by blast
  let ?xs = "filter (\<lambda>l. lg_state l = L_created \<or> lg_state l = L_submitting \<or> lg_state l = L_partiallyFilled) (legs_of_plan i d)"
  let ?f = "\<lambda>l. l\<lparr>lg_state := L_failed, lg_entityVersion := lg_entityVersion l + 1, lg_updatedAt := now\<rparr>"
  have "fold (\<lambda>l. save_row lg_id (?f l)) ?xs (ed_legs d) = map (\<lambda>l. if l \<in> set ?xs then ?f l else l) (ed_legs d)"
    by (rule fold_save_map) (use assms(2) in \<open>auto simp: legs_of_plan_def distinct_map_filter\<close>)
  also have "\<dots> = map (sweep_leg i now) (ed_legs d)"
    by (rule map_cong) (auto simp: sweep_leg_def swept_def legs_of_plan_def)
  finally have f: "fold (\<lambda>l. save_leg (?f l)) ?xs (save_plan s d)
      = (save_plan s d)\<lparr>ed_legs := map (sweep_leg i now) (ed_legs d)\<rparr>" for s
    by (simp add: fold_save_leg)
  show thesis
    using assms(1) p by (intro changed [of p]) (auto simp: markFailed_def Let_def f)
next
  case False
  with assms refused show thesis by (cases "get_plan i d") (auto simp: markFailed_def)
qed

lemma markFailed_effect:
  assumes "markFailed i reason m now d = (out, d')" and "distinct (map lg_id (ed_legs d))"
  shows "exec_effect d d'"
  using assms
proof (cases rule: markFailed_cases)
  case (refused r)
  then show ?thesis by (simp add: eff_none)
next
  case (changed p saved ev a)
  then have k: "pl_id saved = i" by (auto dest: get_plan_key)
  have "one_event planFailed (pl_id saved) d d'"
    by (rule one_event_emit [of d' ev]) (use changed in simp_all)
  with changed k show ?thesis by (intro eff_fail [of saved d p d' now]) simp_all
qed

end
