(* ===== verification/Live_Guards.thy ===== *)
theory Live_Guards
  imports Playbook
begin

text \<open>
  The two guards in front of live execution: the kill switch (\<open>dex-kill-switch.service.ts\<close>) and
  the pre-trade cost gate (\<open>trade-cost-estimator.service.ts\<close>). The cost of a single leg (RPC
  nodes, price oracle, bridges) is an argument; its aggregation and the decision are modelled.
\<close>

section \<open>Kill switch\<close>

record halt_env =
  he_override :: "string option"   \<comment> \<open>\<open>DEX_LIVE_KILL_SWITCH\<close>\<close>
  he_cacheTtl :: "string option"   \<comment> \<open>\<open>DEX_KILL_SWITCH_CACHE_TTL_MS\<close>\<close>
  he_production :: bool

type_synonym halt_cache = "(bool \<times> int) option"

definition cacheTtlMs :: "halt_env \<Rightarrow> int" where
  "cacheTtlMs env =
     (case he_cacheTtl env of
        None \<Rightarrow> 30000
      | Some raw \<Rightarrow> if raw = [] then 30000
          else case js_parseInt10 raw of None \<Rightarrow> 30000 | Some n \<Rightarrow> min 300000 (max 5000 n))"

definition parseEnvOverride :: "halt_env \<Rightarrow> bool option" where
  "parseEnvOverride env =
     (case he_override env of
        None \<Rightarrow> None
      | Some raw \<Rightarrow> if raw = [] then None
          else if raw = ''true'' \<or> raw = ''1'' then Some True
          else if raw = ''false'' \<or> raw = ''0'' then Some False
          else None)"

text \<open>\<open>refresh\<close>: the answer of the config service is its status flag and its body.\<close>

definition refresh_halt :: "(string \<Rightarrow> json option) \<Rightarrow> bool \<Rightarrow> json \<Rightarrow> int \<Rightarrow> halt_cache \<Rightarrow> halt_cache" where
  "refresh_halt JSON_parse ok body now cache =
     (if \<not> ok \<or> \<not> jis_object (Some body) then cache
      else case jnonempty_str (jget body ''configValue'') of
        None \<Rightarrow> cache
      | Some raw \<Rightarrow>
          (case JSON_parse raw of
             None \<Rightarrow> cache
           | Some parsed \<Rightarrow> Some (case jget parsed ''killSwitch'' of Some (JBool b) \<Rightarrow> b | _ \<Rightarrow> False, now)))"

definition isLiveHalted ::
  "(string \<Rightarrow> json option) \<Rightarrow> halt_env \<Rightarrow> bool \<Rightarrow> json \<Rightarrow> int \<Rightarrow> halt_cache \<Rightarrow> bool \<times> halt_cache" where
  "isLiveHalted JSON_parse env ok body now cache =
     (case parseEnvOverride env of
        Some b \<Rightarrow> (b, cache)
      | None \<Rightarrow>
          (let cache' = (case cache of
                 None \<Rightarrow> refresh_halt JSON_parse ok body now cache
               | Some (_, fetchedAt) \<Rightarrow>
                   if now - fetchedAt > cacheTtlMs env then refresh_halt JSON_parse ok body now cache else cache)
           in case cache' of Some (v, _) \<Rightarrow> (v, cache') | None \<Rightarrow> (he_production env, cache')))"

definition assertLiveNotHalted :: "bool \<Rightarrow> exn + unit" where
  "assertLiveNotHalted halted =
     (if halted then Inl (ConflictException ''DEX live execution is halted (kill switch active)'') else Inr ())"

section \<open>Cost of a plan\<close>

record leg_cost =
  lc_legIndex :: int
  lc_legType :: leg_type
  lc_chainId :: rat
  lc_gasUsd :: jsnum
  lc_slippageCostUsd :: jsnum
  lc_poolFeeUsd :: jsnum
  lc_bridgeFeeUsd :: jsnum
  lc_totalCostUsd :: jsnum
  lc_slippageBps :: rat
  lc_estimateConfidence :: confidence

record plan_cost =
  pc_estimatedAt :: int
  pc_legs :: "leg_cost list"
  pc_totalGasUsd :: rat
  pc_totalSlippageUsd :: rat
  pc_totalPoolFeeUsd :: rat
  pc_totalBridgeFeeUsd :: rat
  pc_totalCostUsd :: rat
  pc_grossProfitUsd :: "rat option"
  pc_netProfitUsd :: "rat option"
  pc_estimateConfidence :: confidence

fun finite_or_zero :: "jsnum \<Rightarrow> rat" where
  "finite_or_zero (Fin v) = v"
| "finite_or_zero _ = 0"

definition sum_finite :: "jsnum list \<Rightarrow> rat" where
  "sum_finite values = fold (\<lambda>v total. total + finite_or_zero v) values 0"

definition aggregateConfidence :: "leg_cost list \<Rightarrow> confidence" where
  "aggregateConfidence ls =
     (if \<exists>l \<in> set ls. lc_estimateConfidence l = unavailable then unavailable
      else if \<exists>l \<in> set ls. lc_estimateConfidence l = modeled then modeled
      else exact)"

definition extractGrossProfitUsd :: "json option \<Rightarrow> rat option" where
  "extractGrossProfitUsd config =
     (case config of None \<Rightarrow> None
      | Some c \<Rightarrow> (case jget c ''grossProfitUsd'' of Some (JNum q) \<Rightarrow> Some q | _ \<Rightarrow> None))"

text \<open>
  The estimates of the entries in order; an entry that is not an object is skipped, and an
  estimate that throws ends the loop.
\<close>

fun estimate_legs :: "(int \<Rightarrow> json \<Rightarrow> exn + leg_cost) \<Rightarrow> int \<Rightarrow> json list \<Rightarrow> exn + leg_cost list" where
  "estimate_legs est i [] = Inr []"
| "estimate_legs est i (e # es) =
     (if \<not> jis_object (Some e) then estimate_legs est (i + 1) es
      else case est i e of
        Inl x \<Rightarrow> Inl x
      | Inr c \<Rightarrow> (case estimate_legs est (i + 1) es of Inl x \<Rightarrow> Inl x | Inr cs \<Rightarrow> Inr (c # cs)))"

definition estimatePlanCost :: "(int \<Rightarrow> json \<Rightarrow> exn + leg_cost) \<Rightarrow> int \<Rightarrow> plan \<Rightarrow> exn + plan_cost" where
  "estimatePlanCost est now p =
     (let legsRaw = (case pl_playbookConfig p of None \<Rightarrow> []
            | Some c \<Rightarrow> (case jget c ''legs'' of Some (JArr es) \<Rightarrow> es | _ \<Rightarrow> []))
      in case estimate_legs est 0 legsRaw of
           Inl e \<Rightarrow> Inl e
         | Inr ls \<Rightarrow>
             (let total = sum_finite (map lc_totalCostUsd ls);
                  gross = extractGrossProfitUsd (pl_playbookConfig p)
              in Inr \<lparr> pc_estimatedAt = now, pc_legs = ls,
                   pc_totalGasUsd = sum_finite (map lc_gasUsd ls),
                   pc_totalSlippageUsd = sum_finite (map lc_slippageCostUsd ls),
                   pc_totalPoolFeeUsd = sum_finite (map lc_poolFeeUsd ls),
                   pc_totalBridgeFeeUsd = sum_finite (map lc_bridgeFeeUsd ls),
                   pc_totalCostUsd = total, pc_grossProfitUsd = gross,
                   pc_netProfitUsd = map_option (\<lambda>g. g - total) gross,
                   pc_estimateConfidence = aggregateConfidence ls \<rparr>))"

text \<open>The reasons that block a plan; none means it is allowed.\<close>

definition evaluatePlanGate :: "rat \<Rightarrow> plan_cost \<Rightarrow> string list" where
  "evaluatePlanGate minNetProfitUsd b =
     (if pc_estimateConfidence b = unavailable
      then [''Cost estimate unavailable: cannot value live plan (fail-closed)''] else [])
     @ (case pc_netProfitUsd b of
          None \<Rightarrow> []
        | Some n \<Rightarrow> if n < minNetProfitUsd then [''Net profit below minimum''] else [])"

definition round2 :: "jsnum \<Rightarrow> rat" where
  "round2 v = (case v of Fin q \<Rightarrow> of_int (js_round (q * 100)) / 100 | _ \<Rightarrow> 0)"

definition jsnum_json :: "jsnum \<Rightarrow> json" where
  "jsnum_json v = (case v of Fin q \<Rightarrow> JNum q | _ \<Rightarrow> JNull)"

definition confidence_text :: "confidence \<Rightarrow> string" where
  "confidence_text c = (case c of exact \<Rightarrow> ''exact'' | modeled \<Rightarrow> ''modeled'' | unavailable \<Rightarrow> ''unavailable'')"

definition leg_type_text :: "leg_type \<Rightarrow> string" where
  "leg_type_text t = (case t of dex \<Rightarrow> ''dex'' | bridge \<Rightarrow> ''bridge'')"

definition leg_cost_json :: "leg_cost \<Rightarrow> json" where
  "leg_cost_json l = JObj [(''legIndex'', JNum (of_int (lc_legIndex l))),
     (''legType'', JStr (leg_type_text (lc_legType l))), (''chainId'', JNum (lc_chainId l)),
     (''gasUsd'', jsnum_json (lc_gasUsd l)), (''slippageCostUsd'', jsnum_json (lc_slippageCostUsd l)),
     (''poolFeeUsd'', jsnum_json (lc_poolFeeUsd l)), (''bridgeFeeUsd'', jsnum_json (lc_bridgeFeeUsd l)),
     (''totalCostUsd'', jsnum_json (lc_totalCostUsd l)), (''slippageBps'', JNum (lc_slippageBps l)),
     (''estimateConfidence'', JStr (confidence_text (lc_estimateConfidence l)))]"

definition jnum_or_null :: "rat option \<Rightarrow> json" where
  "jnum_or_null v = (case v of None \<Rightarrow> JNull | Some q \<Rightarrow> JNum q)"

definition plan_cost_json :: "plan_cost \<Rightarrow> json" where
  "plan_cost_json b = JObj [(''schemaVersion'', JNum 1), (''estimatedAt'', JIso (pc_estimatedAt b)),
     (''legs'', JArr (map leg_cost_json (pc_legs b))), (''totalGasUsd'', JNum (pc_totalGasUsd b)),
     (''totalSlippageUsd'', JNum (pc_totalSlippageUsd b)), (''totalPoolFeeUsd'', JNum (pc_totalPoolFeeUsd b)),
     (''totalBridgeFeeUsd'', JNum (pc_totalBridgeFeeUsd b)), (''totalCostUsd'', JNum (pc_totalCostUsd b)),
     (''grossProfitUsd'', jnum_or_null (pc_grossProfitUsd b)), (''netProfitUsd'', jnum_or_null (pc_netProfitUsd b)),
     (''estimateConfidence'', JStr (confidence_text (pc_estimateConfidence b)))]"

declare isLiveHalted_def [op_defs] estimatePlanCost_def [op_defs] evaluatePlanGate_def [op_defs]

section \<open>Facts\<close>

lemma round2_close: "\<bar>round2 (Fin q) - q\<bar> \<le> 1 / 200"
proof -
  have "of_int \<lfloor>q * 100 + 1 / 2\<rfloor> \<le> q * 100 + 1 / 2" "q * 100 + 1 / 2 < of_int \<lfloor>q * 100 + 1 / 2\<rfloor> + 1"
    using floor_correct [of "q * 100 + 1 / 2"] by simp_all
  then have "\<bar>of_int \<lfloor>q * 100 + 1 / 2\<rfloor> - q * 100\<bar> \<le> 1 / 2" by linarith
  then show ?thesis by (simp add: round2_def js_round_def abs_if split: if_splits)
qed

lemma gate_allows_iff:
  "evaluatePlanGate m b = [] \<longleftrightarrow> pc_estimateConfidence b \<noteq> unavailable
     \<and> (\<forall>n. pc_netProfitUsd b = Some n \<longrightarrow> m \<le> n)"
  by (auto simp: evaluatePlanGate_def split: option.splits)

lemma sum_finite_Cons: "sum_finite (v # vs) = finite_or_zero v + sum_finite vs"
proof -
  have "fold (\<lambda>v total. total + finite_or_zero v) vs a = a + fold (\<lambda>v total. total + finite_or_zero v) vs 0" for a
  proof (induction vs arbitrary: a)
    case Nil
    then show ?case by simp
  next
    case (Cons x xs)
    show ?case using Cons [of "a + finite_or_zero x"] Cons [of "finite_or_zero x"] by simp
  qed
  from this [of "finite_or_zero v"] show ?thesis by (simp add: sum_finite_def)
qed

end
