(* ===== verification/Legs.thy ===== *)
theory Legs
  imports Plans Live_Guards
begin

text \<open>
  \<open>legs.service.ts\<close> of the execution orchestrator, with the services it calls inside its
  transactions: \<open>on-chain-transaction.service.ts\<close> and \<open>dex-outbox-events.service.ts\<close>. The
  venue and the bridge adapter are arguments; what they may answer is \<open>venue_outcome\<close>.
\<close>

section \<open>Begin of execution\<close>

definition mk_leg :: "string \<Rightarrow> string \<Rightarrow> leg_def \<Rightarrow> int \<Rightarrow> leg" where
  "mk_leg newId planId df now =
     \<lparr> lg_id = newId, lg_planId = planId, lg_legIndex = df_legIndex df, lg_state = L_created,
       lg_entityVersion = 1, lg_venueRef = None, lg_legType = df_legType df, lg_chainId = df_chainId df,
       lg_targetQuantity = df_targetQuantity df, lg_filledQuantity = 0, lg_estimatedGasUsd = None,
       lg_slippageBps = None, lg_poolFeeUsd = None, lg_bridgeFeeUsd = None, lg_totalCostUsd = None,
       lg_costConfidence = None, lg_createdAt = now, lg_updatedAt = now \<rparr>"

fun parse_leg_defs :: "json list \<Rightarrow> exn + leg_def list" where
  "parse_leg_defs [] = Inr []"
| "parse_leg_defs (e # es) =
     (case leg_def_of_entry e of
        None \<Rightarrow> Inl (PlainError ''invalid leg definition in playbook'')
      | Some df \<Rightarrow> (case parse_leg_defs es of Inl x \<Rightarrow> Inl x | Inr dfs \<Rightarrow> Inr (df # dfs)))"

definition begin_leg_defs :: "json option \<Rightarrow> string option \<Rightarrow> exn + leg_def list" where
  "begin_leg_defs playbook legCountEnv =
     (case parsePlaybookConfig playbook of
        Some (e # es) \<Rightarrow> parse_leg_defs (e # es)
      | _ \<Rightarrow> Inr (map (\<lambda>i. \<lparr> df_legIndex = int i, df_legType = dex, df_chainId = None, df_targetQuantity = 10 \<rparr>)
                [0..<readBeginLegCount legCountEnv]))"

definition find_cost :: "plan_cost \<Rightarrow> leg \<Rightarrow> leg_cost option" where
  "find_cost b l = find (\<lambda>c. lc_legIndex c = lg_legIndex l) (pc_legs b)"

definition cost_columns :: "plan_cost \<Rightarrow> int \<Rightarrow> leg \<Rightarrow> leg" where
  "cost_columns b now l =
     (case find_cost b l of
        None \<Rightarrow> l
      | Some c \<Rightarrow> l\<lparr> lg_estimatedGasUsd := Some (round2 (lc_gasUsd c)),
          lg_slippageBps := (if lc_legType c = dex then Some (lc_slippageBps c) else None),
          lg_poolFeeUsd := (if lc_legType c = dex then Some (round2 (lc_poolFeeUsd c)) else None),
          lg_bridgeFeeUsd := (if lc_legType c = bridge then Some (round2 (lc_bridgeFeeUsd c)) else None),
          lg_totalCostUsd := Some (round2 (lc_totalCostUsd c)),
          lg_costConfidence := Some (lc_estimateConfidence c), lg_updatedAt := now \<rparr>)"

text \<open>
  \<open>applyPlanCostGate\<close>: \<open>est\<close> is the cost of one leg, \<open>minNet\<close> the floor of the risk policy. An
  estimate that throws skips the gate.
\<close>

definition applyPlanCostGate ::
  "(int \<Rightarrow> json \<Rightarrow> exn + leg_cost) \<Rightarrow> rat \<Rightarrow> int \<Rightarrow> plan \<Rightarrow> leg list \<Rightarrow> exec_db \<Rightarrow> (plan \<times> leg list, exec_db) outcome" where
  "applyPlanCostGate est minNet now p savedLegs d =
     (case estimatePlanCost est now p of
        Inl _ \<Rightarrow> (Inr (p, savedLegs), d)
      | Inr b \<Rightarrow>
          (let legs' = map (cost_columns b now) savedLegs;
               d1 = fold (\<lambda>l. save_leg (cost_columns b now l)) (filter (\<lambda>l. find_cost b l \<noteq> None) savedLegs) d;
               p' = p\<lparr>pl_costBreakdown := Some (plan_cost_json b), pl_updatedAt := now\<rparr>;
               d2 = save_plan p' d1;
               hasLiveLeg = (\<exists>l \<in> set legs'. lg_legType l = bridge \<or> isLiveVenueKey (extractVenueKey p' l))
           in if \<not> hasLiveLeg then (Inr (p', legs'), d2)
              else if evaluatePlanGate minNet b \<noteq> []
              then (Inl (UnprocessableEntityException ''Plan blocked by pre-trade cost gate''), d2)
              else (Inr (p', legs'), d2)))"

definition begin_tx ::
  "string \<Rightarrow> (nat \<Rightarrow> string) \<Rightarrow> string option \<Rightarrow> (int \<Rightarrow> json \<Rightarrow> exn + leg_cost) \<Rightarrow> rat \<Rightarrow> int \<Rightarrow> exec_db
     \<Rightarrow> (plan \<times> leg list, exec_db) outcome" where
  "begin_tx planId newId legCountEnv est minNet now d =
     (case get_plan planId d of
        None \<Rightarrow> (Inl (NotFoundException ''Plan not found''), d)
      | Some p \<Rightarrow>
          (if pl_state p \<noteq> P_armed
           then (Inl (ConflictException ''Plan must be armed to begin execution''), d)
           else if legs_of_plan planId d \<noteq> []
           then (Inl (ConflictException ''Plan already has execution legs; refuse duplicate begin''), d)
           else
             (let p1 = p\<lparr>pl_state := P_executing, pl_entityVersion := pl_entityVersion p + 1, pl_updatedAt := now\<rparr>;
                  d1 = save_plan p1 d
              in case begin_leg_defs (pl_playbookConfig p1) legCountEnv of
                   Inl e \<Rightarrow> (Inl e, d1)
                 | Inr dfs \<Rightarrow>
                     (let savedLegs = map (\<lambda>(i, df). mk_leg (newId i) (pl_id p1) df now) (enumerate 0 dfs);
                          d2 = fold save_leg savedLegs d1
                      in case applyPlanCostGate est minNet now p1 savedLegs d2 of
                           (Inl e, d3) \<Rightarrow> (Inl e, d3)
                         | (Inr (p2, legs'), d3) \<Rightarrow>
                             (Inr (p2, legs'), audited (exec_audit ''BeginExecution'' ''ExecutionPlan'' (pl_id p2)
                                (''execution:BeginExecution:'' @ pl_id p2) (pl_correlationId p2)
                                (JObj [(''state'', JStr ''executing''), (''legIds'', JArr (map (JStr \<circ> lg_id) legs')),
                                   (''legCount'', JNum (of_nat (length legs')))])) d3)))))"

definition beginExecution where
  "beginExecution planId newId legCountEnv est minNet now =
     transaction (begin_tx planId newId legCountEnv est minNet now)"

definition listForPlan :: "string \<Rightarrow> exec_db \<Rightarrow> exn + leg list" where
  "listForPlan planId d =
     (case get_plan planId d of None \<Rightarrow> Inl (NotFoundException ''Plan not found'')
      | Some _ \<Rightarrow> Inr (sort_key lg_legIndex (legs_of_plan planId d)))"

section \<open>On-chain transactions and their events\<close>

record onchain_meta =
  om_txHash :: string
  om_chainId :: int
  om_fromAddress :: string
  om_toAddress :: string
  om_nonce :: "int option"
  om_gasLimit :: "string option"
  om_gasUsed :: "string option"
  om_gasPrice :: "string option"
  om_maxFeePerGas :: "string option"
  om_maxPriorityFeePerGas :: "string option"
  om_blockNumber :: "int option"
  om_blockHash :: "string option"
  om_transactionIndex :: "int option"
  om_value :: "string option"
  om_status :: tx_status
  om_revertReason :: "string option"

definition or_zero :: "string option \<Rightarrow> string" where
  "or_zero v = (case v of None \<Rightarrow> ''0'' | Some s \<Rightarrow> s)"

text \<open>\<open>persistWithOutcome\<close>: the row of the transaction hash if there is one, else a new row.\<close>

definition persistWithOutcome :: "string \<Rightarrow> onchain_meta \<Rightarrow> int \<Rightarrow> exec_db \<Rightarrow> onchain_tx \<times> exec_db" where
  "persistWithOutcome legId meta now d =
     (case find (\<lambda>t. oc_txHash t = om_txHash meta) (ed_onchain d) of
        Some existing \<Rightarrow> (existing, d)
      | None \<Rightarrow>
          (let row = \<lparr> oc_id = Suc (fold max (map oc_id (ed_onchain d)) 0), oc_txHash = om_txHash meta,
                 oc_chainId = om_chainId meta, oc_legId = Some legId, oc_fromAddress = om_fromAddress meta,
                 oc_toAddress = om_toAddress meta, oc_value = or_zero (om_value meta),
                 oc_gasLimit = or_zero (om_gasLimit meta), oc_gasUsed = om_gasUsed meta,
                 oc_gasPrice = om_gasPrice meta, oc_maxPriorityFeePerGas = om_maxPriorityFeePerGas meta,
                 oc_maxFeePerGas = om_maxFeePerGas meta, oc_status = om_status meta,
                 oc_blockNumber = om_blockNumber meta, oc_blockHash = om_blockHash meta,
                 oc_transactionIndex = om_transactionIndex meta, oc_confirmations = 0,
                 oc_confirmedAt = (if om_status meta = tx_confirmed then Some now else None),
                 oc_revertReason = om_revertReason meta, oc_errorMessage = None, oc_nonce = om_nonce meta,
                 oc_createdAt = now \<rparr>
           in (row, d\<lparr>ed_onchain := ed_onchain d @ [row]\<rparr>)))"

definition confirmed_desc :: "string \<Rightarrow> exec_db \<Rightarrow> onchain_tx option" where
  "confirmed_desc legId d =
     (case rev (sort_key oc_createdAt (filter (\<lambda>t. oc_legId t = Some legId \<and> oc_status t = tx_confirmed) (ed_onchain d))) of
        [] \<Rightarrow> None | t # _ \<Rightarrow> Some t)"

definition jint_or_null :: "int option \<Rightarrow> json" where
  "jint_or_null v = (case v of None \<Rightarrow> JNull | Some i \<Rightarrow> JNum (of_int i))"

definition buildSubmittedPayload :: "onchain_tx \<Rightarrow> json" where
  "buildSubmittedPayload t = JObj [(''txHash'', JStr (oc_txHash t)), (''chainId'', JNum (of_int (oc_chainId t))),
     (''legId'', jstr_or_null (oc_legId t)), (''planId'', JNull), (''fromAddress'', JStr (oc_fromAddress t)),
     (''toAddress'', JStr (oc_toAddress t)), (''value'', JStr (oc_value t)), (''gasLimit'', JStr (oc_gasLimit t)),
     (''nonce'', jint_or_null (oc_nonce t)), (''submittedAt'', JIso (oc_createdAt t))]"

definition buildConfirmedPayload :: "onchain_tx \<Rightarrow> int \<Rightarrow> json" where
  "buildConfirmedPayload t now = JObj [(''txHash'', JStr (oc_txHash t)), (''chainId'', JNum (of_int (oc_chainId t))),
     (''legId'', jstr_or_null (oc_legId t)), (''planId'', JNull), (''blockNumber'', jint_or_null (oc_blockNumber t)),
     (''gasUsed'', jstr_or_null (oc_gasUsed t)), (''effectiveGasPrice'', jstr_or_null (oc_gasPrice t)),
     (''confirmations'', JNum (of_int (oc_confirmations t))),
     (''confirmedAt'', JIso (case oc_confirmedAt t of Some c \<Rightarrow> c | None \<Rightarrow> now))]"

definition buildFailedPayload :: "onchain_tx \<Rightarrow> int \<Rightarrow> json" where
  "buildFailedPayload t now = JObj [(''txHash'', JStr (oc_txHash t)), (''chainId'', JNum (of_int (oc_chainId t))),
     (''legId'', jstr_or_null (oc_legId t)), (''planId'', JNull), (''blockNumber'', jint_or_null (oc_blockNumber t)),
     (''gasUsed'', jstr_or_null (oc_gasUsed t)), (''effectiveGasPrice'', jstr_or_null (oc_gasPrice t)),
     (''revertReason'', jstr_or_null (oc_revertReason t)), (''errorMessage'', jstr_or_null (oc_errorMessage t)),
     (''failedAt'', JIso now)]"

definition writeOutboxRow :: "onchain_tx \<Rightarrow> string \<Rightarrow> json \<Rightarrow> string \<Rightarrow> string \<Rightarrow> int \<Rightarrow> exec_db \<Rightarrow> exec_db" where
  "writeOutboxRow t eventType payload correlationId messageId now d =
     (if \<exists>r \<in> set (ed_outbox d). ob_eventType r = eventType \<and> ob_entityId r = oc_txHash t then d
      else emit (mk_outbox messageId eventType ''OnChainTransaction'' (oc_txHash t) 1 payload
        (JObj [(''messageId'', JStr messageId), (''correlationId'', JStr correlationId),
           (''causationId'', JStr (case oc_legId t of Some l \<Rightarrow> l | None \<Rightarrow> messageId)),
           (''entityType'', JStr ''OnChainTransaction''), (''entityId'', JStr (oc_txHash t)),
           (''version'', JNum 1), (''sourceModule'', JStr ''execution-orchestrator''), (''eventTs'', JIso now),
           (''eventName'', JStr eventType), (''payload'', payload)]) now) d)"

definition emitSubmitted :: "onchain_tx \<Rightarrow> string \<Rightarrow> string \<Rightarrow> int \<Rightarrow> exec_db \<Rightarrow> exec_db" where
  "emitSubmitted t corr mid now = writeOutboxRow t dexTransactionSubmitted (buildSubmittedPayload t) corr mid now"

definition emitConfirmed :: "onchain_tx \<Rightarrow> string \<Rightarrow> string \<Rightarrow> int \<Rightarrow> exec_db \<Rightarrow> exec_db" where
  "emitConfirmed t corr mid now = writeOutboxRow t dexTransactionConfirmed (buildConfirmedPayload t now) corr mid now"

definition emitFailed :: "onchain_tx \<Rightarrow> string \<Rightarrow> string \<Rightarrow> int \<Rightarrow> exec_db \<Rightarrow> exec_db" where
  "emitFailed t corr mid now = writeOutboxRow t dexTransactionFailed (buildFailedPayload t now) corr mid now"

section \<open>Two-phase submission\<close>

definition beginMarkSent :: "string \<Rightarrow> string \<Rightarrow> bool \<Rightarrow> int \<Rightarrow> exec_db \<Rightarrow> (plan \<times> leg, exec_db) outcome" where
  "beginMarkSent planId legId halted now = transaction (\<lambda>d.
     (case get_plan planId d of
        None \<Rightarrow> (Inl (NotFoundException ''Plan not found''), d)
      | Some p \<Rightarrow>
          (if pl_state p \<noteq> P_executing then (Inl (ConflictException ''Plan must be executing''), d)
           else case find_leg_of_plan planId legId d of
             None \<Rightarrow> (Inl (NotFoundException ''Leg not found''), d)
           | Some l \<Rightarrow>
               (if lg_state l \<noteq> L_created then (Inl (ConflictException ''Leg must be created to mark sent''), d)
                else
                  (let isLiveLeg = (lg_legType l = bridge \<or> isLiveVenueKey (extractVenueKey p l))
                   in case (if isLiveLeg then assertLiveNotHalted halted else Inr ()) of
                        Inl e \<Rightarrow> (Inl e, d)
                      | Inr _ \<Rightarrow>
                          (let l' = l\<lparr>lg_state := L_submitting, lg_entityVersion := lg_entityVersion l + 1, lg_updatedAt := now\<rparr>
                           in (Inr (p, l'), save_leg l' d)))))))"

text \<open>\<open>correlationId ?? planId\<close> of the events of \<open>completeMarkSent\<close>.\<close>

definition complete_tx ::
  "string \<Rightarrow> string \<Rightarrow> string option \<Rightarrow> string \<Rightarrow> onchain_meta option \<Rightarrow> string \<Rightarrow> int \<Rightarrow> exec_db \<Rightarrow> (leg, exec_db) outcome" where
  "complete_tx planId legId correlationId externalOrderId meta messageId now d =
     (case find_leg_of_plan planId legId d of
        None \<Rightarrow> (Inl (NotFoundException ''Leg not found''), d)
      | Some l \<Rightarrow>
          (if lg_state l \<noteq> L_submitting then (Inr l, d)
           else
             (let l' = l\<lparr>lg_state := L_sent, lg_entityVersion := lg_entityVersion l + 1,
                     lg_venueRef := Some externalOrderId, lg_updatedAt := now\<rparr>;
                  d1 = save_leg l' d
              in case meta of
                   None \<Rightarrow> (Inr l', d1)
                 | Some m \<Rightarrow>
                     (case persistWithOutcome legId m now d1 of
                        (oct, d2) \<Rightarrow>
                          (let corr = (case correlationId of None \<Rightarrow> planId | Some c \<Rightarrow> c)
                           in (Inr l', if oc_status oct = tx_confirmed then emitConfirmed oct corr messageId now d2
                                       else emitFailed oct corr messageId now d2))))))"

definition completeMarkSent ::
  "string \<Rightarrow> string \<Rightarrow> string option \<Rightarrow> string \<Rightarrow> onchain_meta option \<Rightarrow> string \<Rightarrow> int \<Rightarrow> exec_db \<Rightarrow> (leg, exec_db) outcome" where
  "completeMarkSent planId legId correlationId externalOrderId meta messageId now d =
     (case transaction (complete_tx planId legId correlationId externalOrderId meta messageId now) d of
        (Inl e, d1) \<Rightarrow> (Inl e, d1)
      | (Inr saved, d1) \<Rightarrow>
          (Inr saved, audited (exec_audit ''MarkLegSent'' ''ExecutionLeg'' (lg_id saved)
             (''execution:MarkLegSent:'' @ lg_id saved @ '':v'' @ string_of_int (lg_entityVersion saved)) correlationId
             (JObj [(''planId'', JStr planId), (''venueRef'', JStr externalOrderId)])) d1))"

definition failSubmittingLeg :: "string \<Rightarrow> string \<Rightarrow> string option \<Rightarrow> string \<Rightarrow> int \<Rightarrow> exec_db \<Rightarrow> exec_db" where
  "failSubmittingLeg planId legId correlationId message now d =
     (case find_leg_of_plan planId legId d of
        None \<Rightarrow> d
      | Some l \<Rightarrow>
          (if lg_state l \<noteq> L_submitting then d
           else
             (let saved = l\<lparr>lg_state := L_failed, lg_entityVersion := lg_entityVersion l + 1, lg_updatedAt := now\<rparr>
              in audited (exec_audit ''MarkLegSentFail'' ''ExecutionLeg'' (lg_id saved)
                   (''execution:MarkLegSentFail:'' @ lg_id saved @ '':v'' @ string_of_int (lg_entityVersion saved)) correlationId
                   (JObj [(''planId'', JStr planId), (''message'', JStr message)])) (save_leg saved d))))"

datatype venue_terminal = T_rejected | T_timedOut | T_failed

fun terminal_state :: "venue_terminal \<Rightarrow> leg_state" where
  "terminal_state T_rejected = L_rejected"
| "terminal_state T_timedOut = L_timedOut"
| "terminal_state T_failed = L_failed"

fun terminal_text :: "venue_terminal \<Rightarrow> string" where
  "terminal_text T_rejected = ''rejected''"
| "terminal_text T_timedOut = ''timedOut''"
| "terminal_text T_failed = ''failed''"

definition terminal_tx :: "string \<Rightarrow> string \<Rightarrow> venue_terminal \<Rightarrow> int \<Rightarrow> exec_db \<Rightarrow> (leg, exec_db) outcome" where
  "terminal_tx planId legId t now d =
     (case find_leg_of_plan planId legId d of
        None \<Rightarrow> (Inl (NotFoundException ''Leg not found''), d)
      | Some l \<Rightarrow>
          (if lg_state l \<noteq> L_submitting then (Inr l, d)
           else (let l' = l\<lparr>lg_state := terminal_state t, lg_entityVersion := lg_entityVersion l + 1, lg_updatedAt := now\<rparr>
                 in (Inr l', save_leg l' d))))"

definition applyTerminalSubmitError ::
  "string \<Rightarrow> string \<Rightarrow> string option \<Rightarrow> venue_terminal \<Rightarrow> string \<Rightarrow> int \<Rightarrow> exec_db \<Rightarrow> (leg, exec_db) outcome" where
  "applyTerminalSubmitError planId legId correlationId t message now d =
     (case transaction (terminal_tx planId legId t now) d of
        (Inl e, d1) \<Rightarrow> (Inl e, d1)
      | (Inr saved, d1) \<Rightarrow>
          (Inr saved, audited (exec_audit ''MarkLegSentTerminal'' ''ExecutionLeg'' (lg_id saved)
             (''execution:MarkLegSentTerminal:'' @ lg_id saved @ '':v'' @ string_of_int (lg_entityVersion saved)) correlationId
             (JObj [(''planId'', JStr planId), (''terminalState'', JStr (terminal_text t)),
                (''message'', JStr message)])) d1))"

text \<open>What the venue or the bridge answers in phase 2; \<open>VOther\<close> is any other exception.\<close>

datatype venue_outcome = VSent string "onchain_meta option" | VTerminal venue_terminal string
  | VClientError string | VOther string

text \<open>
  \<open>markSent\<close>. Phase 2 runs outside every transaction, so \<open>env\<close> is what the other transactions
  commit while the venue answers. The exception for missing bridge parameters is thrown inside
  the \<open>try\<close> block and reaches the generic handler at its end.
\<close>

definition markSent ::
  "string \<Rightarrow> string \<Rightarrow> bool \<Rightarrow> (plan \<Rightarrow> leg \<Rightarrow> venue_outcome) \<Rightarrow> (bridge_leg_params \<Rightarrow> string \<Rightarrow> venue_outcome)
     \<Rightarrow> string \<Rightarrow> int \<Rightarrow> (exec_db \<Rightarrow> exec_db) \<Rightarrow> int \<Rightarrow> exec_db \<Rightarrow> (leg, exec_db) outcome" where
  "markSent planId legId halted venue submitBridge messageId now env now2 d =
     (case beginMarkSent planId legId halted now d of
        (Inl e, d1) \<Rightarrow> (Inl e, d1)
      | (Inr (p, l), d1) \<Rightarrow>
          (let d2 = env d1;
               noParams = (lg_legType l = bridge \<and> extractBridgeParams (pl_playbookConfig p) (lg_legIndex l) = None);
               out = (if lg_legType l = bridge
                      then (case extractBridgeParams (pl_playbookConfig p) (lg_legIndex l) of
                              None \<Rightarrow> VOther ''Bridge leg has no bridge params in playbookConfig''
                            | Some bp \<Rightarrow> (case submitBridge bp (''bridge:'' @ pl_id p @ '':'' @ lg_id l) of
                                VSent x _ \<Rightarrow> VSent x None | v \<Rightarrow> v))
                      else venue p l);
               d3 = (if noParams then failSubmittingLeg planId legId (pl_correlationId p)
                       ''Bridge leg has no bridge params in playbookConfig'' now2 d2 else d2)
           in case out of
                VSent externalOrderId meta \<Rightarrow>
                  completeMarkSent planId legId (pl_correlationId p) externalOrderId meta messageId now2 d3
              | VTerminal t msg \<Rightarrow> applyTerminalSubmitError planId legId (pl_correlationId p) t msg now2 d3
              | VClientError msg \<Rightarrow>
                  (Inl (UnprocessableEntityException ''Venue submitLeg failed (venue client error)''),
                   failSubmittingLeg planId legId (pl_correlationId p) msg now2 d3)
              | VOther _ \<Rightarrow> (Inl (ServiceUnavailableException ''Venue submitLeg failed; leg is submitting''), d3)))"

definition markAcknowledged :: "string \<Rightarrow> string \<Rightarrow> int \<Rightarrow> exec_db \<Rightarrow> (leg, exec_db) outcome" where
  "markAcknowledged planId legId now = transaction (\<lambda>d.
     (case get_plan planId d of
        None \<Rightarrow> (Inl (NotFoundException ''Plan not found''), d)
      | Some p \<Rightarrow>
          (case find_leg_of_plan planId legId d of
             None \<Rightarrow> (Inl (NotFoundException ''Leg not found''), d)
           | Some l \<Rightarrow>
               (if lg_state l \<noteq> L_sent then (Inl (ConflictException ''Leg must be sent before ack''), d)
                else
                  (let saved = l\<lparr>lg_state := L_acknowledged, lg_entityVersion := lg_entityVersion l + 1, lg_updatedAt := now\<rparr>
                   in (Inr saved, audited (exec_audit ''MarkLegAcknowledged'' ''ExecutionLeg'' (lg_id saved)
                        (''execution:MarkLegAcknowledged:'' @ lg_id saved @ '':v'' @ string_of_int (lg_entityVersion saved))
                        (pl_correlationId p) (JObj [(''planId'', JStr planId)])) (save_leg saved d)))))))"

declare begin_tx_def [op_defs] applyPlanCostGate_def [op_defs] beginMarkSent_def [op_defs] complete_tx_def [op_defs]
  completeMarkSent_def [op_defs] failSubmittingLeg_def [op_defs] terminal_tx_def [op_defs]
  applyTerminalSubmitError_def [op_defs] markSent_def [op_defs] markAcknowledged_def [op_defs]

section \<open>The operations refine the abstract effects\<close>

lemma same_events_audited [simp]: "same_events d (audited a d') = same_events d d'"
  by (simp add: same_events_def events_def)

lemma leg_step_effect:
  assumes "get_leg i d = Some l0" and "leg_allowed (lg_state l0) s" and "s \<noteq> L_filled" and "s \<noteq> L_partiallyFilled"
    and "lg_id l = lg_id l0" "lg_planId l = lg_planId l0" "lg_targetQuantity l = lg_targetQuantity l0"
      "lg_filledQuantity l = lg_filledQuantity l0" "lg_entityVersion l = lg_entityVersion l0 + 1" "lg_state l = s"
    and "ed_plans d' = ed_plans d" and "ed_legs d' = save_row lg_id l (ed_legs d)" and "same_events d d'"
  shows "exec_effect d d'"
  by (rule eff_leg [of l d l0]) (use assms get_leg_key [OF assms(1)] in simp_all)

lemma writeOutboxRow_keeps:
  assumes "et \<notin> set lifecycle_events"
  shows "ed_plans (writeOutboxRow t et p c m now d) = ed_plans d
    \<and> ed_legs (writeOutboxRow t et p c m now d) = ed_legs d \<and> same_events d (writeOutboxRow t et p c m now d)"
proof (cases "\<exists>r \<in> set (ed_outbox d). ob_eventType r = et \<and> ob_entityId r = oc_txHash t")
  case True
  then show ?thesis by (simp add: writeOutboxRow_def)
next
  case False
  have "same_events d (writeOutboxRow t et p c m now d)"
    unfolding writeOutboxRow_def if_not_P [OF False]
    by (rule same_events_emit [OF _ ]) (use assms in \<open>auto simp: emit_def\<close>)
  with False show ?thesis by (simp add: writeOutboxRow_def)
qed

lemma persist_keeps:
  "ed_plans (snd (persistWithOutcome i m now d)) = ed_plans d \<and> ed_legs (snd (persistWithOutcome i m now d)) = ed_legs d
    \<and> ed_outbox (snd (persistWithOutcome i m now d)) = ed_outbox d"
  by (simp add: persistWithOutcome_def Let_def split: option.splits)

lemma same_events_trans: "same_events d d1 \<Longrightarrow> same_events d1 d2 \<Longrightarrow> same_events d d2"
  by (simp add: same_events_def)

lemma emit_dex_keeps:
  "ed_plans (emitConfirmed t c m now d) = ed_plans d" "ed_legs (emitConfirmed t c m now d) = ed_legs d"
  "same_events d (emitConfirmed t c m now d)"
  "ed_plans (emitFailed t c m now d) = ed_plans d" "ed_legs (emitFailed t c m now d) = ed_legs d"
  "same_events d (emitFailed t c m now d)"
  using writeOutboxRow_keeps event_names_distinct by (simp_all add: emitConfirmed_def emitFailed_def)

lemma beginMarkSent_cases:
  assumes "beginMarkSent pid lid halted now d = (out, d')"
  obtains (refused) e where "out = Inl e" "d' = d"
  | (reserved) p l l' where "get_plan pid d = Some p" "pl_state p = P_executing" "get_leg lid d = Some l"
      "lg_planId l = pid" "lg_state l = L_created"
      "l' = l\<lparr>lg_state := L_submitting, lg_entityVersion := lg_entityVersion l + 1, lg_updatedAt := now\<rparr>"
      "out = Inr (p, l')" "d' = save_leg l' d"
      "(lg_legType l = bridge \<or> isLiveVenueKey (extractVenueKey p l)) \<longrightarrow> \<not> halted"
proof (cases "get_plan pid d")
  case None
  with assms refused show thesis by (auto simp: beginMarkSent_def transaction_def)
next
  case (Some p)
  note p = Some
  show thesis
  proof (cases "pl_state p = P_executing")
    case False
    with assms refused p show thesis by (auto simp: beginMarkSent_def transaction_def)
  next
    case True
    note ex = True
    show thesis
    proof (cases "find_leg_of_plan pid lid d")
      case None
      with assms refused p ex show thesis by (auto simp: beginMarkSent_def transaction_def)
    next
      case (Some l)
      note l = Some
      let ?live = "lg_legType l = bridge \<or> isLiveVenueKey (extractVenueKey p l)"
      show thesis
      proof (cases "lg_state l = L_created \<and> (?live \<longrightarrow> \<not> halted)")
        case True
        then have "(if ?live then assertLiveNotHalted halted else Inr ()) = Inr ()"
          by (simp add: assertLiveNotHalted_def)
        with assms p ex l True show thesis
          by (intro reserved [of p l]) (auto simp: beginMarkSent_def transaction_def Let_def find_leg_of_plan_Some)
      next
        case False
        with assms p ex l refused show thesis
          by (cases "lg_state l = L_created") (auto simp: beginMarkSent_def transaction_def Let_def assertLiveNotHalted_def)
      qed
    qed
  qed
qed

lemma beginMarkSent_effect:
  assumes "beginMarkSent pid lid halted now d = (out, d')"
  shows "exec_effect d d'"
  using assms
proof (cases rule: beginMarkSent_cases)
  case (refused e)
  then show ?thesis by (simp add: eff_none)
next
  case (reserved p l l')
  show ?thesis
    by (rule leg_step_effect [OF reserved(3), of L_submitting l']) (use reserved in \<open>simp_all add: leg_allowed_def\<close>)
qed

lemma complete_tx_effect:
  assumes "complete_tx pid lid corr x meta m now d = (out, d')"
  shows "exec_effect d d'"
proof (cases "find_leg_of_plan pid lid d")
  case None
  with assms show ?thesis by (simp add: complete_tx_def eff_none)
next
  case (Some l)
  then have g: "get_leg lid d = Some l" by (simp add: find_leg_of_plan_Some)
  show ?thesis
  proof (cases "lg_state l = L_submitting")
    case False
    with Some assms show ?thesis by (simp add: complete_tx_def eff_none)
  next
    case True
    let ?l = "l\<lparr>lg_state := L_sent, lg_entityVersion := lg_entityVersion l + 1, lg_venueRef := Some x, lg_updatedAt := now\<rparr>"
    have "ed_plans d' = ed_plans d \<and> ed_legs d' = save_row lg_id ?l (ed_legs d) \<and> same_events d d'"
    proof (cases meta)
      case None
      with Some True assms show ?thesis by (auto simp: complete_tx_def Let_def)
    next
      case (Some mt)
      obtain oct d2 where pw: "persistWithOutcome lid mt now (save_leg ?l d) = (oct, d2)" by (cases "persistWithOutcome lid mt now (save_leg ?l d)")
      then have k: "ed_plans d2 = ed_plans d" "ed_legs d2 = save_row lg_id ?l (ed_legs d)" "same_events d d2"
        using persist_keeps [of lid mt now "save_leg ?l d"] by simp_all
      have "d' = (if oc_status oct = tx_confirmed then emitConfirmed oct (case corr of None \<Rightarrow> pid | Some c \<Rightarrow> c) m now d2
                  else emitFailed oct (case corr of None \<Rightarrow> pid | Some c \<Rightarrow> c) m now d2)"
        using assms \<open>find_leg_of_plan pid lid d = Some l\<close> True Some pw by (simp add: complete_tx_def Let_def)
      with k emit_dex_keeps show ?thesis by (auto intro: same_events_trans)
    qed
    then show ?thesis
      by (intro leg_step_effect [OF g, of L_sent ?l]) (use True in \<open>simp_all add: leg_allowed_def\<close>)
  qed
qed

text \<open>Records sent after a transaction do not touch what the effects speak about.\<close>

lemma exec_effect_cong:
  assumes "exec_effect d d1" and "ed_plans d' = ed_plans d1" "ed_legs d' = ed_legs d1" "ed_outbox d' = ed_outbox d1"
  shows "exec_effect d d'"
proof -
  have e: "events et i d' = events et i d1" for et i using assms(4) by (simp add: events_def)
  show ?thesis using assms(1)
  proof cases
    case eff_none
    with assms(2-) e show ?thesis by (intro exec_effect.eff_none) (simp_all add: same_events_def)
  next
    case (eff_new_plan p)
    with assms(2-) e show ?thesis by (intro exec_effect.eff_new_plan [of p]) (simp_all add: same_events_def)
  next
    case (eff_plan p p0)
    with assms(2-) e show ?thesis by (intro exec_effect.eff_plan [of p d p0]) (simp_all add: same_events_def)
  next
    case (eff_begin p p0 new)
    with assms(2-) e show ?thesis by (intro exec_effect.eff_begin [of p d p0 d' new]) (simp_all add: same_events_def)
  next
    case (eff_complete p p0)
    with assms(2-) e show ?thesis by (intro exec_effect.eff_complete [of p d p0]) (simp_all add: one_event_def)
  next
    case (eff_fail p p0 now)
    with assms(2-) e show ?thesis by (intro exec_effect.eff_fail [of p d p0 d' now]) (simp_all add: one_event_def)
  next
    case (eff_leg l l0)
    with assms(2-) e show ?thesis by (intro exec_effect.eff_leg [of l d l0]) (simp_all add: same_events_def)
  next
    case (eff_fill_part l l0)
    with assms(2-) e show ?thesis by (intro exec_effect.eff_fill_part [of l d l0]) (simp_all add: same_events_def)
  next
    case (eff_fill_full l l0)
    with assms(2-) e show ?thesis by (intro exec_effect.eff_fill_full [of l d l0]) (simp_all add: one_event_def)
  qed
qed

lemma exec_effect_refl [simp]: "exec_effect d d"
  by (rule eff_none) simp_all

lemma effect_transaction:
  assumes "\<And>out d'. body d = (out, d') \<Longrightarrow> exec_effect d d'" and "transaction body d = (out, d')"
  shows "exec_effect d d'"
proof (cases out)
  case (Inl e)
  with assms(2) have "d' = d" using transaction_Inl by metis
  then show ?thesis by simp
next
  case (Inr v)
  with assms show ?thesis by simp
qed

lemma effect_audited: "exec_effect d d' \<Longrightarrow> exec_effect d (audited a d')"
  by (erule exec_effect_cong) simp_all

lemma completeMarkSent_effect:
  assumes "completeMarkSent pid lid corr x meta m now d = (out, d')"
  shows "exec_effect d d'"
proof -
  obtain o1 d1 where t: "transaction (complete_tx pid lid corr x meta m now) d = (o1, d1)"
    by (cases "transaction (complete_tx pid lid corr x meta m now) d")
  have "exec_effect d d1" by (rule effect_transaction [OF _ t]) (rule complete_tx_effect)
  moreover have "d' = d1 \<or> (\<exists>a. d' = audited a d1)"
    using assms t by (auto simp: completeMarkSent_def split: sum.splits)
  ultimately show ?thesis using effect_audited by blast
qed

lemma failSubmittingLeg_effect: "exec_effect d (failSubmittingLeg pid lid corr msg now d)"
proof (cases "find_leg_of_plan pid lid d")
  case None
  then show ?thesis by (simp add: failSubmittingLeg_def)
next
  case (Some l)
  then have g: "get_leg lid d = Some l" by (simp add: find_leg_of_plan_Some)
  show ?thesis
  proof (cases "lg_state l = L_submitting")
    case False
    with Some show ?thesis by (simp add: failSubmittingLeg_def)
  next
    case True
    show ?thesis
      by (rule leg_step_effect [OF g, of L_failed "l\<lparr>lg_state := L_failed, lg_entityVersion := lg_entityVersion l + 1, lg_updatedAt := now\<rparr>"])
        (use True Some in \<open>simp_all add: leg_allowed_def failSubmittingLeg_def Let_def\<close>)
  qed
qed

lemma terminal_tx_effect:
  assumes "terminal_tx pid lid t now d = (out, d')"
  shows "exec_effect d d'"
proof (cases "find_leg_of_plan pid lid d")
  case None
  with assms show ?thesis by (simp add: terminal_tx_def)
next
  case (Some l)
  then have g: "get_leg lid d = Some l" by (simp add: find_leg_of_plan_Some)
  show ?thesis
  proof (cases "lg_state l = L_submitting")
    case False
    with Some assms show ?thesis by (simp add: terminal_tx_def)
  next
    case True
    have d': "d' = save_leg (l\<lparr>lg_state := terminal_state t, lg_entityVersion := lg_entityVersion l + 1, lg_updatedAt := now\<rparr>) d"
      using Some assms True by (simp add: terminal_tx_def Let_def)
    show ?thesis
      by (rule leg_step_effect [OF g, of "terminal_state t" "l\<lparr>lg_state := terminal_state t, lg_entityVersion := lg_entityVersion l + 1, lg_updatedAt := now\<rparr>"])
        (use True in \<open>cases t; simp add: leg_allowed_def d'\<close>)+
  qed
qed

lemma applyTerminal_effect:
  assumes "applyTerminalSubmitError pid lid corr t msg now d = (out, d')"
  shows "exec_effect d d'"
proof -
  obtain o1 d1 where x: "transaction (terminal_tx pid lid t now) d = (o1, d1)"
    by (cases "transaction (terminal_tx pid lid t now) d")
  have "exec_effect d d1" by (rule effect_transaction [OF _ x]) (rule terminal_tx_effect)
  moreover have "d' = d1 \<or> (\<exists>a. d' = audited a d1)"
    using assms x by (auto simp: applyTerminalSubmitError_def split: sum.splits)
  ultimately show ?thesis using effect_audited by blast
qed

lemma markAcknowledged_effect:
  assumes "markAcknowledged pid lid now d = (out, d')"
  shows "exec_effect d d'"
proof (cases "\<exists>p l. get_plan pid d = Some p \<and> find_leg_of_plan pid lid d = Some l \<and> lg_state l = L_sent")
  case True
  then obtain p l where h: "get_plan pid d = Some p" "find_leg_of_plan pid lid d = Some l" "lg_state l = L_sent" by blast
  then have g: "get_leg lid d = Some l" by (simp add: find_leg_of_plan_Some)
  let ?l = "l\<lparr>lg_state := L_acknowledged, lg_entityVersion := lg_entityVersion l + 1, lg_updatedAt := now\<rparr>"
  have "\<exists>a. d' = audited a (save_leg ?l d)"
    using assms h by (auto simp: markAcknowledged_def transaction_def Let_def)
  then obtain a where d': "d' = audited a (save_leg ?l d)" ..
  show ?thesis
    by (rule leg_step_effect [OF g, of L_acknowledged ?l]) (use h(3) d' in \<open>simp_all add: leg_allowed_def\<close>)
next
  case False
  with assms have "d' = d"
    by (auto simp: markAcknowledged_def transaction_def split: option.splits if_splits)
  then show ?thesis by simp
qed

text \<open>\<open>markSent\<close> is at most three effects, with what the others commit in between.\<close>

lemma markSent_effects:
  assumes "markSent pid lid halted venue sb m now env now2 d = (out, d')"
    and "\<And>x. exec_effect\<^sup>*\<^sup>* x (env x)"
  shows "exec_effect\<^sup>*\<^sup>* d d'"
proof -
  obtain o1 d1 where b: "beginMarkSent pid lid halted now d = (o1, d1)" by (cases "beginMarkSent pid lid halted now d")
  have e1: "exec_effect\<^sup>*\<^sup>* d d1" using beginMarkSent_effect [OF b] by blast
  show ?thesis
  proof (cases o1)
    case (Inl e)
    with assms b e1 show ?thesis by (simp add: markSent_def)
  next
    case (Inr pl)
    obtain p l where pl: "pl = (p, l)" by (cases pl)
    have f: "exec_effect\<^sup>*\<^sup>* x (failSubmittingLeg pid lid c msg now2 x)" for x c msg
      using failSubmittingLeg_effect by blast
    define d3 where "d3 = (if lg_legType l = bridge \<and> extractBridgeParams (pl_playbookConfig p) (lg_legIndex l) = None
      then failSubmittingLeg pid lid (pl_correlationId p) ''Bridge leg has no bridge params in playbookConfig'' now2 (env d1) else env d1)"
    have e3: "exec_effect\<^sup>*\<^sup>* d d3"
      using e1 assms(2) [of d1] f unfolding d3_def by (auto intro: rtranclp_trans)
    have "exec_effect\<^sup>*\<^sup>* d3 d'"
      using assms(1) b Inr pl completeMarkSent_effect applyTerminal_effect f
      unfolding markSent_def by (fastforce simp: Let_def d3_def [symmetric] split: venue_outcome.splits)
    with e3 show ?thesis by (rule rtranclp_trans)
  qed
qed

text \<open>\<open>beginExecution\<close> inserts the legs, then fills in their cost columns.\<close>

lemma cost_columns_keeps [simp]:
  "lg_id (cost_columns b now l) = lg_id l" "lg_planId (cost_columns b now l) = lg_planId l"
  "lg_state (cost_columns b now l) = lg_state l" "lg_filledQuantity (cost_columns b now l) = lg_filledQuantity l"
  "lg_entityVersion (cost_columns b now l) = lg_entityVersion l"
  "lg_targetQuantity (cost_columns b now l) = lg_targetQuantity l"
  "lg_id \<circ> cost_columns b now = lg_id"
  by (auto simp: cost_columns_def split: option.splits)

lemma mk_leg_simps [simp]:
  "lg_id (mk_leg i p df now) = i" "lg_planId (mk_leg i p df now) = p" "lg_state (mk_leg i p df now) = L_created"
  "lg_filledQuantity (mk_leg i p df now) = 0" "lg_entityVersion (mk_leg i p df now) = 1"
  by (simp_all add: mk_leg_def)

lemma fold_cost_columns:
  assumes "distinct (map lg_id (ls @ saved))"
  shows "fold (\<lambda>l. save_row lg_id (cost_columns b now l)) (filter (\<lambda>l. find_cost b l \<noteq> None) saved) (ls @ saved)
    = ls @ map (cost_columns b now) saved"
proof -
  let ?xs = "filter (\<lambda>l. find_cost b l \<noteq> None) saved"
  have "fold (\<lambda>l. save_row lg_id (cost_columns b now l)) ?xs (ls @ saved)
      = map (\<lambda>l. if l \<in> set ?xs then cost_columns b now l else l) (ls @ saved)"
    by (rule fold_save_map) (use assms in \<open>auto simp: distinct_map_filter\<close>)
  also have "map (\<lambda>l. if l \<in> set ?xs then cost_columns b now l else l) ls = ls"
    using assms by (intro map_idI) auto
  moreover have "map (\<lambda>l. if l \<in> set ?xs then cost_columns b now l else l) saved = map (cost_columns b now) saved"
    by (rule map_cong) (auto simp: cost_columns_def)
  ultimately show ?thesis by simp
qed

lemma applyPlanCostGate_shape:
  assumes "applyPlanCostGate est minNet now p saved d = (Inr (p', legs'), d')"
    and "ed_legs d = ls @ saved" and "distinct (map lg_id (ls @ saved))" and "ed_plans d = save_row pl_id p ps"
  shows "ed_legs d' = ls @ legs' \<and> ed_plans d' = save_row pl_id p' ps \<and> ed_outbox d' = ed_outbox d
    \<and> pl_id p' = pl_id p \<and> pl_state p' = pl_state p \<and> pl_entityVersion p' = pl_entityVersion p
    \<and> (legs' = saved \<or> (\<exists>b. legs' = map (cost_columns b now) saved))"
proof (cases "estimatePlanCost est now p")
  case (Inl e)
  with assms show ?thesis by (simp add: applyPlanCostGate_def)
next
  case (Inr b)
  let ?p = "p\<lparr>pl_costBreakdown := Some (plan_cost_json b), pl_updatedAt := now\<rparr>"
  let ?d = "save_plan ?p (fold (\<lambda>l. save_leg (cost_columns b now l)) (filter (\<lambda>l. find_cost b l \<noteq> None) saved) d)"
  have "p' = ?p \<and> legs' = map (cost_columns b now) saved \<and> d' = ?d"
    using assms(1) Inr by (auto simp: applyPlanCostGate_def Let_def split: if_splits)
  with assms(2-) fold_cost_columns [OF assms(3)] show ?thesis by (auto simp: fold_save_leg)
qed

lemma begin_tx_shape:
  assumes "begin_tx pid newId cnt est minNet now d = (Inr (p2, legs'), d')"
    and "distinct (map lg_id (ed_legs d))" and "inj newId" and "\<And>n. get_leg (newId n) d = None"
  shows "\<exists>p. get_plan pid d = Some p \<and> pl_state p = P_armed \<and> legs_of_plan pid d = [] \<and>
    pl_id p2 = pid \<and> pl_state p2 = P_executing \<and> pl_entityVersion p2 = pl_entityVersion p + 1 \<and>
    ed_plans d' = save_row pl_id p2 (ed_plans d) \<and> ed_legs d' = ed_legs d @ legs' \<and> ed_outbox d' = ed_outbox d \<and>
    distinct (map lg_id legs') \<and> (\<forall>l \<in> set legs'. lg_planId l = pid \<and> lg_state l = L_created \<and> lg_filledQuantity l = 0
       \<and> lg_entityVersion l = 1 \<and> get_leg (lg_id l) d = None)"
proof -
  obtain p where p: "get_plan pid d = Some p" "pl_state p = P_armed" "legs_of_plan pid d = []"
    using assms(1) by (auto simp: begin_tx_def split: option.splits if_splits)
  have k: "pl_id p = pid" using p(1) by (rule get_plan_key)
  define p1 where "p1 = p\<lparr>pl_state := P_executing, pl_entityVersion := pl_entityVersion p + 1, pl_updatedAt := now\<rparr>"
  obtain dfs where dfs: "begin_leg_defs (pl_playbookConfig p1) cnt = Inr dfs"
    using assms(1) p by (auto simp: begin_tx_def Let_def p1_def split: sum.splits)
  define saved where "saved = map (\<lambda>(i, df). mk_leg (newId i) (pl_id p1) df now) (enumerate 0 dfs)"
  have ids: "map lg_id saved = map newId [0..<length dfs]"
    unfolding saved_def by (rule nth_equalityI) (simp_all add: nth_enumerate_eq)
  have ds: "distinct (map lg_id saved)"
    unfolding ids using assms(3) by (simp add: distinct_map inj_on_def inj_def)
  have fresh: "lg_id l \<notin> set (map lg_id (ed_legs d)) \<and> get_leg (lg_id l) d = None" if "l \<in> set saved" for l
  proof -
    have "lg_id l \<in> set (map lg_id saved)" using that by simp
    then obtain n where "lg_id l = newId n" unfolding ids by auto
    then show ?thesis using assms(4) [of n] by (auto simp: get_leg_def get_row_def find_None_iff)
  qed
  then have "lg_id ` set saved \<inter> lg_id ` set (ed_legs d) = {}" by auto
  then have dist: "distinct (map lg_id (ed_legs d @ saved))" using assms(2) ds by auto
  have rows: "\<forall>l \<in> set saved. lg_planId l = pid \<and> lg_state l = L_created \<and> lg_filledQuantity l = 0 \<and> lg_entityVersion l = 1"
    using k by (auto simp: saved_def p1_def)
  define d2 where "d2 = fold save_leg saved (save_plan p1 d)"
  have fs: "fold save_leg xs x = x\<lparr>ed_legs := fold (save_row lg_id) xs (ed_legs x)\<rparr>" for xs x
    by (induction xs arbitrary: x) (simp_all add: save_leg_def)
  have d2: "ed_legs d2 = ed_legs d @ saved" "ed_plans d2 = save_row pl_id p1 (ed_plans d)" "ed_outbox d2 = ed_outbox d"
    using fold_save_new [OF ds, of "ed_legs d"] fresh by (auto simp: d2_def fs)
  obtain r d3 where g: "applyPlanCostGate est minNet now p1 saved d2 = (r, d3)"
    by (cases "applyPlanCostGate est minNet now p1 saved d2")
  have "r = Inr (p2, legs') \<and> (\<exists>a. d' = audited a d3)"
    using assms(1) p dfs g
    by (auto simp: begin_tx_def Let_def p1_def [symmetric] saved_def [symmetric] d2_def [symmetric] split: sum.splits)
  then obtain a where a: "r = Inr (p2, legs')" "d' = audited a d3" by blast
  from applyPlanCostGate_shape [OF g [unfolded a(1)] d2(1) dist d2(2)] a p k rows ds fresh d2(3)
  show ?thesis by (auto simp: p1_def)
qed

lemma begin_effect:
  assumes "beginExecution pid newId cnt est minNet now d = (out, d')"
    and "distinct (map lg_id (ed_legs d))" and "inj newId" and "\<And>n. get_leg (newId n) d = None"
  shows "exec_effect d d'"
proof (cases out)
  case (Inl e)
  with assms(1) have "d' = d" unfolding beginExecution_def using transaction_Inl by metis
  then show ?thesis by simp
next
  case (Inr r)
  obtain p2 legs' where r: "r = (p2, legs')" by (cases r)
  have "begin_tx pid newId cnt est minNet now d = (Inr (p2, legs'), d')"
    using assms(1) Inr r by (simp add: beginExecution_def)
  from begin_tx_shape [OF this assms(2-)] show ?thesis
    by (elim exE conjE) (rule eff_begin [of p2 d _ d' legs'], simp_all)
qed

end
