(* ===== verification/Fills.thy ===== *)
theory Fills
  imports Legs
begin

text \<open>
  \<open>applyFill\<close> of \<open>legs.service.ts\<close>: the fills a venue reports for a leg, their idempotency keys,
  and the \<open>LegFilled\<close> row that starts the settlement.
\<close>

section \<open>Model\<close>

datatype fill_mode = full_fill | partial_fill

record apply_fill_dto =
  af_idempotencyKey :: "string option"
  af_clientKnownVersion :: "int option"
  af_mode :: "fill_mode option"
  af_cumulativeFilled :: "rat option"

text \<open>What the settlement after a complete fill is called with.\<close>

record fill_context =
  fx_planId :: string
  fx_legId :: string
  fx_legIndex :: int
  fx_filledQuantity :: rat
  fx_instrumentKey :: string
  fx_correlationId :: "string option"
  fx_chainId :: "int option"
  fx_tokenIn :: "string option"

definition given_key :: "apply_fill_dto \<Rightarrow> string option" where
  "given_key dto = (case af_idempotencyKey dto of None \<Rightarrow> None | Some k \<Rightarrow> if k = [] then None else Some k)"

definition fill_audit_key :: "string \<Rightarrow> apply_fill_dto \<Rightarrow> string" where
  "fill_audit_key legId dto =
     (case given_key dto of
        Some k \<Rightarrow> ''execution:ApplyFill:'' @ k
      | None \<Rightarrow> ''execution:ApplyFill:'' @ legId @ '':v''
          @ (case af_clientKnownVersion dto of None \<Rightarrow> ''na'' | Some v \<Rightarrow> string_of_int v))"

definition mode_text :: "fill_mode \<Rightarrow> string" where
  "mode_text m = (case m of full_fill \<Rightarrow> ''full'' | partial_fill \<Rightarrow> ''partial'')"

text \<open>The next quantity and state of the leg, or the exception of the guards.\<close>

definition next_fill :: "apply_fill_dto \<Rightarrow> leg \<Rightarrow> exn + rat \<times> leg_state" where
  "next_fill dto l =
     (case (case af_mode dto of None \<Rightarrow> full_fill | Some m \<Rightarrow> m) of
        full_fill \<Rightarrow> Inr (lg_targetQuantity l, L_filled)
      | partial_fill \<Rightarrow>
          (case af_cumulativeFilled dto of
             None \<Rightarrow> Inl (BadRequestException ''cumulativeFilled is required when mode=partial'')
           | Some c \<Rightarrow>
               (if c \<le> lg_filledQuantity l then Inl (ConflictException ''cumulativeFilled must exceed current filled'')
                else if c > lg_targetQuantity l then Inl (ConflictException ''cumulativeFilled exceeds targetQuantity'')
                else Inr (c, if c \<ge> lg_targetQuantity l then L_filled else L_partiallyFilled))))"

definition dex_meta_json :: "onchain_tx \<Rightarrow> json" where
  "dex_meta_json t = JObj [(''txHash'', JStr (oc_txHash t)), (''chainId'', JNum (of_int (oc_chainId t))),
     (''gasUsed'', jstr_or_null (oc_gasUsed t)), (''effectiveGasPrice'', jstr_or_null (oc_gasPrice t)),
     (''blockNumber'', jint_or_null (oc_blockNumber t)), (''fromAddress'', JStr (oc_fromAddress t)),
     (''toAddress'', JStr (oc_toAddress t))]"

definition leg_filled_payload :: "leg \<Rightarrow> onchain_tx option \<Rightarrow> json" where
  "leg_filled_payload l tx = JObj ([(''legId'', JStr (lg_id l)), (''planId'', JStr (lg_planId l)),
     (''state'', JStr ''filled''), (''filledQuantity'', JNum (lg_filledQuantity l)),
     (''entityVersion'', JNum (of_int (lg_entityVersion l)))]
     @ (case tx of None \<Rightarrow> [] | Some t \<Rightarrow> [(''dex'', dex_meta_json t)]))"

definition leg_filled_event :: "plan \<Rightarrow> leg \<Rightarrow> onchain_tx option \<Rightarrow> string \<Rightarrow> int \<Rightarrow> outbox_row" where
  "leg_filled_event p l tx messageId now =
     (let payload = leg_filled_payload l tx
      in mk_outbox messageId legFilled ''ExecutionLeg'' (lg_id l) 2 payload
           (mk_envelope messageId (correlationForEnvelope p) ''ExecutionLeg'' (lg_id l) 2 ''execution-orchestrator''
              now legFilled payload) now)"

text \<open>
  The writes of a fill that has passed the guards. The second component of the result is the
  context of the settlement, \<open>None\<close> unless this call filled the leg.
\<close>

definition fill_key_rows :: "apply_fill_dto \<Rightarrow> leg \<Rightarrow> fill_idempotency list" where
  "fill_key_rows dto saved =
     (case given_key dto of None \<Rightarrow> []
      | Some k \<Rightarrow> [\<lparr> fi_legId = lg_id saved, fi_idempotencyKey = k, fi_resultingState = lg_state saved,
          fi_resultingFilledQuantity = lg_filledQuantity saved, fi_resultingEntityVersion = lg_entityVersion saved \<rparr>])"

definition fill_context_of :: "string \<Rightarrow> string \<Rightarrow> plan \<Rightarrow> leg \<Rightarrow> onchain_tx option \<Rightarrow> fill_context" where
  "fill_context_of planId legId p saved onChainTx =
     \<lparr> fx_planId = planId, fx_legId = legId, fx_legIndex = lg_legIndex saved,
       fx_filledQuantity = lg_filledQuantity saved, fx_instrumentKey = resolveInstrumentKeyForPlan p,
       fx_correlationId = pl_correlationId p, fx_chainId = map_option oc_chainId onChainTx,
       fx_tokenIn = readLegTokenIn (pl_playbookConfig p) (lg_legIndex saved) \<rparr>"

definition fill_audit_payload :: "string \<Rightarrow> apply_fill_dto \<Rightarrow> json" where
  "fill_audit_payload planId dto = JObj ([(''planId'', JStr planId),
     (''mode'', JStr (mode_text (case af_mode dto of None \<Rightarrow> full_fill | Some m \<Rightarrow> m)))]
     @ (case af_cumulativeFilled dto of None \<Rightarrow> [] | Some c \<Rightarrow> [(''cumulativeFilled'', JNum c)]))"

definition commit_fill ::
  "string \<Rightarrow> string \<Rightarrow> apply_fill_dto \<Rightarrow> string \<Rightarrow> int \<Rightarrow> plan \<Rightarrow> leg \<Rightarrow> exec_db \<Rightarrow> (leg \<times> fill_context option) \<times> exec_db" where
  "commit_fill planId legId dto messageId now p saved d =
     (let d1 = save_leg saved d;
          d2 = d1\<lparr>ed_fills := ed_fills d1 @ fill_key_rows dto saved\<rparr>;
          onChainTx = confirmed_desc (lg_id saved) d2;
          d3 = (if lg_state saved = L_filled then emit (leg_filled_event p saved onChainTx messageId now) d2 else d2);
          ctx = (if lg_state saved = L_filled then Some (fill_context_of planId legId p saved onChainTx) else None)
      in ((saved, ctx), audited (exec_audit ''ApplyFill'' ''ExecutionLeg'' (lg_id saved) (fill_audit_key legId dto)
            (pl_correlationId p) (fill_audit_payload planId dto)) d3))"

text \<open>
  The body of the transaction. The insert of the key cannot violate its unique index, since the
  look-up before it runs under the lock of the leg.
\<close>

definition fill_tx ::
  "string \<Rightarrow> string \<Rightarrow> apply_fill_dto \<Rightarrow> string \<Rightarrow> int \<Rightarrow> exec_db \<Rightarrow> (leg \<times> fill_context option, exec_db) outcome" where
  "fill_tx planId legId dto messageId now d =
     (case get_plan planId d of
        None \<Rightarrow> (Inl (NotFoundException ''Plan not found''), d)
      | Some p \<Rightarrow>
          (case find_leg_of_plan planId legId d of
             None \<Rightarrow> (Inl (NotFoundException ''Leg not found''), d)
           | Some l \<Rightarrow>
               (if \<exists>f \<in> set (ed_fills d). fi_legId f = legId \<and> Some (fi_idempotencyKey f) = given_key dto
                then (Inr (l, None), d)
                else if af_clientKnownVersion dto \<noteq> None \<and> af_clientKnownVersion dto \<noteq> Some (lg_entityVersion l)
                then (Inl (ConflictException ''Leg version mismatch''), d)
                else if lg_state l \<noteq> L_acknowledged \<and> lg_state l \<noteq> L_partiallyFilled
                then (Inl (ConflictException ''Leg must be acknowledged or partiallyFilled before fill''), d)
                else case next_fill dto l of
                  Inl e \<Rightarrow> (Inl e, d)
                | Inr (nextFilled, nextState) \<Rightarrow>
                    (case commit_fill planId legId dto messageId now p (l\<lparr>lg_filledQuantity := nextFilled,
                        lg_state := nextState, lg_entityVersion := lg_entityVersion l + 1, lg_updatedAt := now\<rparr>) d of
                       (r, d') \<Rightarrow> (Inr r, d')))))"

definition applyFill where
  "applyFill planId legId dto messageId now = transaction (fill_tx planId legId dto messageId now)"

declare fill_tx_def [op_defs] next_fill_def [op_defs]

section \<open>Behaviour\<close>

lemma leg_filled_event_simps [simp]:
  "ob_eventType (leg_filled_event p l tx m now) = legFilled" "ob_entityId (leg_filled_event p l tx m now) = lg_id l"
  "ob_payload (leg_filled_event p l tx m now) = leg_filled_payload l tx"
  by (simp_all add: leg_filled_event_def Let_def)

lemma confirmed_desc_cong: "ed_onchain d' = ed_onchain d \<Longrightarrow> confirmed_desc i d' = confirmed_desc i d"
  by (simp add: confirmed_desc_def)

lemma commit_fill_shape:
  assumes "commit_fill pid lid dto m now p saved d = ((l', ctx), d')"
  shows "l' = saved \<and> (ctx \<noteq> None \<longleftrightarrow> lg_state saved = L_filled) \<and> ed_plans d' = ed_plans d
    \<and> ed_legs d' = save_row lg_id saved (ed_legs d) \<and> ed_fills d' = ed_fills d @ fill_key_rows dto saved
    \<and> ed_outbox d' = (if lg_state saved = L_filled
        then save_outbox (leg_filled_event p saved (confirmed_desc (lg_id saved) d) m now) (ed_outbox d) else ed_outbox d)"
proof -
  have c: "confirmed_desc i ((save_leg y d)\<lparr>ed_fills := x\<rparr>) = confirmed_desc i d" for i x y
    by (rule confirmed_desc_cong) simp
  show ?thesis using assms by (auto simp: commit_fill_def Let_def c)
qed

lemma next_fill_Inr:
  assumes "next_fill dto l = Inr (q, s)"
  shows "(s = L_filled \<and> q = lg_targetQuantity l) \<or>
     (s = L_partiallyFilled \<and> lg_filledQuantity l < q \<and> q < lg_targetQuantity l)"
  using assms by (auto simp: next_fill_def split: option.splits fill_mode.splits if_splits)

lemma applyFill_cases:
  assumes "applyFill pid lid dto m now d = (out, d')"
  obtains (refused) e where "out = Inl e" "d' = d"
  | (replayed) l f where "find_leg_of_plan pid lid d = Some l" "f \<in> set (ed_fills d)" "fi_legId f = lid"
      "given_key dto = Some (fi_idempotencyKey f)" "out = Inr (l, None)" "d' = d"
  | (filled) p l saved q s ctx where "get_plan pid d = Some p" "get_leg lid d = Some l" "lg_planId l = pid"
      "lg_state l \<in> {L_acknowledged, L_partiallyFilled}" "next_fill dto l = Inr (q, s)"
      "saved = l\<lparr>lg_filledQuantity := q, lg_state := s, lg_entityVersion := lg_entityVersion l + 1, lg_updatedAt := now\<rparr>"
      "out = Inr (saved, ctx)" "ctx \<noteq> None \<longleftrightarrow> s = L_filled"
      "ed_plans d' = ed_plans d" "ed_legs d' = save_row lg_id saved (ed_legs d)"
      "ed_outbox d' = (if s = L_filled
         then save_outbox (leg_filled_event p saved (confirmed_desc lid d) m now) (ed_outbox d) else ed_outbox d)"
      "\<And>k. given_key dto = Some k \<Longrightarrow> \<exists>f \<in> set (ed_fills d'). fi_legId f = lid \<and> fi_idempotencyKey f = k"
proof (cases "get_plan pid d")
  case None
  with assms refused show thesis by (auto simp: applyFill_def fill_tx_def transaction_def)
next
  case (Some p)
  note p = Some
  show thesis
  proof (cases "find_leg_of_plan pid lid d")
    case None
    with assms refused p show thesis by (auto simp: applyFill_def fill_tx_def transaction_def)
  next
    case (Some l)
    note l = Some
    then have g: "get_leg lid d = Some l" "lg_planId l = pid" by (simp_all add: find_leg_of_plan_Some)
    then have id: "lg_id l = lid" by (auto dest: get_leg_key)
    let ?seen = "\<exists>f \<in> set (ed_fills d). fi_legId f = lid \<and> Some (fi_idempotencyKey f) = given_key dto"
    let ?mismatch = "af_clientKnownVersion dto \<noteq> None \<and> af_clientKnownVersion dto \<noteq> Some (lg_entityVersion l)"
    show thesis
    proof (cases ?seen)
      case True
      then obtain f where f: "f \<in> set (ed_fills d)" "fi_legId f = lid" "given_key dto = Some (fi_idempotencyKey f)" by auto
      have "fill_tx pid lid dto m now d = (Inr (l, None), d)" unfolding fill_tx_def using p l True by simp
      with assms f l show thesis by (intro replayed [of l f]) (simp_all add: applyFill_def transaction_def)
    next
      case False
      note ns = False
      show thesis
      proof (cases "?mismatch \<or> lg_state l \<notin> {L_acknowledged, L_partiallyFilled} \<or> (\<exists>e. next_fill dto l = Inl e)")
        case True
        have "\<exists>e. fill_tx pid lid dto m now d = (Inl e, d)" unfolding fill_tx_def using p l ns True by auto
        with assms refused show thesis by (auto simp: applyFill_def transaction_def)
      next
        case False
        then have st: "lg_state l \<in> {L_acknowledged, L_partiallyFilled}" "\<not> ?mismatch" by simp_all
        from False obtain q s where q: "next_fill dto l = Inr (q, s)" by (cases "next_fill dto l") auto
        let ?saved = "l\<lparr>lg_filledQuantity := q, lg_state := s, lg_entityVersion := lg_entityVersion l + 1, lg_updatedAt := now\<rparr>"
        obtain l' ctx d1 where c: "commit_fill pid lid dto m now p ?saved d = ((l', ctx), d1)"
          by (metis surj_pair)
        have f: "fill_tx pid lid dto m now d = (Inr (l', ctx), d1)"
          unfolding fill_tx_def using p l ns st q c by auto
        note r = commit_fill_shape [OF c]
        then have "\<exists>f \<in> set (ed_fills d1). fi_legId f = lid \<and> fi_idempotencyKey f = k" if "given_key dto = Some k" for k
          using that id by (simp add: fill_key_rows_def)
        moreover have "out = Inr (?saved, ctx) \<and> d' = d1" using assms f r by (simp add: applyFill_def transaction_def)
        ultimately show thesis using p g st(1) q r id by (intro filled [of p l q s ?saved ctx]) simp_all
      qed
    qed
  qed
qed

lemma applyFill_effect:
  assumes "applyFill pid lid dto m now d = (out, d')"
  shows "exec_effect d d'"
  using assms
proof (cases rule: applyFill_cases)
  case (refused e)
  then show ?thesis by simp
next
  case (replayed l f)
  then show ?thesis by simp
next
  case (filled p l saved q s ctx)
  have id: "lg_id saved = lid" using filled(2,6) by (auto dest: get_leg_key)
  from next_fill_Inr [OF filled(5)] show ?thesis
  proof
    assume a: "s = L_filled \<and> q = lg_targetQuantity l"
    have "one_event legFilled (lg_id saved) d d'"
      by (rule one_event_emit [of d' "leg_filled_event p saved (confirmed_desc lid d) m now"]) (use filled a in simp_all)
    with filled a id show ?thesis by (intro eff_fill_full [of saved d l]) simp_all
  next
    assume a: "s = L_partiallyFilled \<and> lg_filledQuantity l < q \<and> q < lg_targetQuantity l"
    then have "same_events d d'" using filled by simp
    with filled a id show ?thesis by (intro eff_fill_part [of saved d l]) simp_all
  qed
qed

end
