(* ===== verification/Plan_Builder.thy ===== *)
theory Plan_Builder
  imports Fills
begin

text \<open>
  \<open>multi-leg-plan-builder.service.ts\<close>: the leg sequence of a cross-chain plan is validated,
  defaults are filled in and the result is stored as the playbook of a planned plan, from which
  \<open>beginExecution\<close>, the venue routing and the bridge submission read it back.
\<close>

section \<open>Requests\<close>

record leg_descriptor =
  ld_legType :: leg_type
  ld_chainId :: int
  ld_targetQuantity :: "rat option"
  ld_venueKey :: "string option"
  ld_tokenIn :: "string option"
  ld_tokenOut :: "string option"
  ld_amountIn :: "string option"
  ld_path :: "string list option"
  ld_slippageBps :: "int option"
  ld_recipient :: "string option"
  ld_deadlineSeconds :: "int option"
  ld_amountOutExpected :: "string option"
  ld_fee :: "int option"
  ld_sqrtPriceLimitX96 :: "string option"
  ld_bridgeKey :: "string option"
  ld_destinationChainId :: "int option"
  ld_token :: "string option"
  ld_destinationToken :: "string option"
  ld_amount :: "string option"
  ld_recipientAddress :: "string option"

record multi_leg_dto =
  ml_correlationId :: "string option"
  ml_riskDecisionId :: "string option"
  ml_routeKey :: "string option"
  ml_notionalUsd :: "rat option"
  ml_grossProfitUsd :: "rat option"
  ml_legs :: "leg_descriptor list"

text \<open>The registered bridge adapters with the chain pairs they support.\<close>

type_synonym adapters = "string \<Rightarrow> (int \<times> int) list option"

section \<open>Validation\<close>

text \<open>The loop over the legs: \<open>prev\<close> is the leg before, the result the number of bridges.\<close>

fun count_bridges :: "bool \<Rightarrow> nat \<Rightarrow> leg_descriptor list \<Rightarrow> exn + nat" where
  "count_bridges prevBridge n [] = Inr n"
| "count_bridges prevBridge n (l # ls) =
     (if ld_legType l = bridge
      then (if prevBridge then Inl (BadRequestException ''Adjacent bridge legs are not allowed'')
            else count_bridges True (n + 1) ls)
      else count_bridges False n ls)"

definition validateLegSequence :: "leg_descriptor list \<Rightarrow> exn + unit" where
  "validateLegSequence legs =
     (if length legs < 2 then Inl (BadRequestException ''Multi-leg plan must have at least 2 legs'')
      else if length legs > 8 then Inl (BadRequestException ''Multi-leg plan must have at most 8 legs'')
      else if ld_legType (hd legs) \<noteq> dex then Inl (BadRequestException ''Multi-leg plan must start with a DEX leg'')
      else if ld_legType (last legs) \<noteq> dex then Inl (BadRequestException ''Multi-leg plan must end with a DEX leg'')
      else case count_bridges False 0 legs of
        Inl e \<Rightarrow> Inl e
      | Inr n \<Rightarrow> if n > 2 then Inl (BadRequestException ''Multi-leg plan must have at most 2 bridge legs'') else Inr ())"

definition base_fields :: "nat \<Rightarrow> leg_descriptor \<Rightarrow> (string \<times> json) list" where
  "base_fields i l = [(''legIndex'', JNum (of_nat i)), (''legType'', JStr (leg_type_text (ld_legType l))),
     (''chainId'', JNum (of_int (ld_chainId l))),
     (''targetQuantity'', JNum (case ld_targetQuantity l of None \<Rightarrow> 10 | Some q \<Rightarrow> q))]"

definition truthy :: "string option \<Rightarrow> bool" where
  "truthy v \<longleftrightarrow> v \<noteq> None \<and> v \<noteq> Some []"

definition validateAndResolveBridgeLeg :: "adapters \<Rightarrow> leg_descriptor \<Rightarrow> nat \<Rightarrow> exn + json" where
  "validateAndResolveBridgeLeg ad l i =
     (if \<not> truthy (ld_bridgeKey l) then Inl (BadRequestException ''Bridge leg must specify bridgeKey'')
      else if ld_destinationChainId l = None \<or> ld_destinationChainId l = Some 0
      then Inl (BadRequestException ''Bridge leg must specify destinationChainId'')
      else if \<not> truthy (ld_token l) then Inl (BadRequestException ''Bridge leg must specify token'')
      else if \<not> truthy (ld_destinationToken l) then Inl (BadRequestException ''Bridge leg must specify destinationToken'')
      else if \<not> truthy (ld_amount l) then Inl (BadRequestException ''Bridge leg must specify amount'')
      else if js_BigInt (the (ld_amount l)) = None
      then Inl (BadRequestException ''Bridge leg amount must be a valid integer string'')
      else case ad (the (ld_bridgeKey l)) of
        None \<Rightarrow> Inl (BadRequestException ''Bridge leg: unknown bridgeKey'')
      | Some supportedChains \<Rightarrow>
          (if (ld_chainId l, the (ld_destinationChainId l)) \<notin> set supportedChains
           then Inl (BadRequestException ''Bridge leg: bridge does not support the chain pair'')
           else Inr (JObj (base_fields i l
             @ [(''bridgeKey'', JStr (the (ld_bridgeKey l))),
                (''destinationChainId'', JNum (of_int (the (ld_destinationChainId l)))),
                (''token'', JStr (the (ld_token l))), (''destinationToken'', JStr (the (ld_destinationToken l))),
                (''amount'', JStr (the (ld_amount l)))]
             @ opt_field ''recipientAddress'' JStr (ld_recipientAddress l)))))"

definition resolve_dex_leg :: "leg_descriptor \<Rightarrow> nat \<Rightarrow> json" where
  "resolve_dex_leg l i = JObj (base_fields i l
     @ opt_field ''venueKey'' JStr (ld_venueKey l) @ opt_field ''tokenIn'' JStr (ld_tokenIn l)
     @ opt_field ''tokenOut'' JStr (ld_tokenOut l) @ opt_field ''amountIn'' JStr (ld_amountIn l)
     @ opt_field ''path'' (\<lambda>p. JArr (map JStr p)) (ld_path l)
     @ opt_field ''slippageBps'' (\<lambda>n. JNum (of_int n)) (ld_slippageBps l)
     @ opt_field ''recipient'' JStr (ld_recipient l)
     @ opt_field ''deadlineSeconds'' (\<lambda>n. JNum (of_int n)) (ld_deadlineSeconds l)
     @ opt_field ''amountOutExpected'' JStr (ld_amountOutExpected l)
     @ opt_field ''fee'' (\<lambda>n. JNum (of_int n)) (ld_fee l)
     @ opt_field ''sqrtPriceLimitX96'' JStr (ld_sqrtPriceLimitX96 l))"

fun resolve_legs :: "adapters \<Rightarrow> nat \<Rightarrow> leg_descriptor list \<Rightarrow> exn + json list" where
  "resolve_legs ad i [] = Inr []"
| "resolve_legs ad i (l # ls) =
     (case (if ld_legType l = dex then Inr (resolve_dex_leg l i) else validateAndResolveBridgeLeg ad l i) of
        Inl e \<Rightarrow> Inl e
      | Inr j \<Rightarrow> (case resolve_legs ad (i + 1) ls of Inl e \<Rightarrow> Inl e | Inr js \<Rightarrow> Inr (j # js)))"

definition resolveAndValidateLegs :: "adapters \<Rightarrow> leg_descriptor list \<Rightarrow> exn + json list" where
  "resolveAndValidateLegs ad legs = resolve_legs ad 0 legs"

definition playbook_json :: "multi_leg_dto \<Rightarrow> json list \<Rightarrow> json" where
  "playbook_json dto resolved =
     (let chainIds = rev (remdups (rev (map ld_chainId (ml_legs dto))))
      in JObj ([(''schemaVersion'', JNum 1), (''legs'', JArr resolved), (''isCrossChain'', JBool (length chainIds > 1)),
           (''chainIds'', JArr (map (\<lambda>c. JNum (of_int c)) chainIds))]
           @ opt_field ''grossProfitUsd'' JNum (ml_grossProfitUsd dto)
           @ opt_field ''notionalUsd'' JNum (ml_notionalUsd dto)))"

definition buildMultiLegPlan :: "adapters \<Rightarrow> multi_leg_dto \<Rightarrow> string \<Rightarrow> int \<Rightarrow> exec_db \<Rightarrow> (plan, exec_db) outcome" where
  "buildMultiLegPlan ad dto newId now d =
     (case validateLegSequence (ml_legs dto) of
        Inl e \<Rightarrow> (Inl e, d)
      | Inr _ \<Rightarrow>
          (case resolveAndValidateLegs ad (ml_legs dto) of
             Inl e \<Rightarrow> (Inl e, d)
           | Inr resolved \<Rightarrow>
               (let chainIds = rev (remdups (rev (map ld_chainId (ml_legs dto))));
                    saved = \<lparr> pl_id = newId, pl_correlationId = ml_correlationId dto, pl_state = P_planned,
                      pl_capitalReservationId = None, pl_riskDecisionId = ml_riskDecisionId dto,
                      pl_routeKey = map_option js_trim (ml_routeKey dto), pl_entityVersion = 1,
                      pl_playbookConfig = Some (playbook_json dto resolved), pl_costBreakdown = None,
                      pl_createdAt = now, pl_updatedAt = now \<rparr>
                in (Inr saved, audited (exec_audit ''CreateMultiLegPlan'' ''ExecutionPlan'' newId
                     (''execution:CreateMultiLegPlan:'' @ newId) (ml_correlationId dto)
                     (JObj [(''legCount'', JNum (of_nat (length (ml_legs dto)))),
                        (''isCrossChain'', JBool (length chainIds > 1)),
                        (''chainIds'', JArr (map (\<lambda>c. JNum (of_int c)) chainIds)),
                        (''legTypes'', JArr (map (JStr \<circ> leg_type_text \<circ> ld_legType) (ml_legs dto)))]))
                   (save_plan saved d)))))"

declare validateLegSequence_def [op_defs] validateAndResolveBridgeLeg_def [op_defs] buildMultiLegPlan_def [op_defs]

section \<open>The accepted sequences\<close>

fun no_adjacent :: "bool list \<Rightarrow> bool" where
  "no_adjacent (a # b # bs) = (\<not> (a \<and> b) \<and> no_adjacent (b # bs))"
| "no_adjacent _ = True"

definition is_bridge :: "leg_descriptor \<Rightarrow> bool" where
  "is_bridge l \<longleftrightarrow> ld_legType l = bridge"

lemma count_bridges_spec:
  "(\<exists>m. count_bridges prev n ls = Inr m) = no_adjacent (prev # map is_bridge ls)
   \<and> (count_bridges prev n ls = Inr m \<longrightarrow> m = n + length (filter is_bridge ls))"
proof (induction ls arbitrary: prev n m)
  case Nil
  then show ?case by auto
next
  case (Cons l ls)
  show ?case
  proof (cases "is_bridge l")
    case True
    then show ?thesis using Cons [of True "n + 1"] by (cases prev) (auto simp: is_bridge_def)
  next
    case False
    then show ?thesis using Cons [of False n] by (auto simp: is_bridge_def)
  qed
qed

text \<open>A sequence is accepted exactly when it has the documented shape.\<close>

definition good_sequence :: "leg_type list \<Rightarrow> bool" where
  "good_sequence ts \<longleftrightarrow> 2 \<le> length ts \<and> length ts \<le> 8 \<and> hd ts = dex \<and> last ts = dex
     \<and> no_adjacent (map (\<lambda>t. t = bridge) ts) \<and> count_list ts bridge \<le> 2"

lemma count_list_bridges: "count_list (map ld_legType ls) bridge = length (filter is_bridge ls)"
  by (induction ls) (auto simp: is_bridge_def)

lemma validateLegSequence_iff:
  "validateLegSequence ls = Inr () \<longleftrightarrow> good_sequence (map ld_legType ls)"
proof (cases "2 \<le> length ls \<and> length ls \<le> 8 \<and> ld_legType (hd ls) = dex \<and> ld_legType (last ls) = dex")
  case True
  then have ne: "ls \<noteq> []" by auto
  have na: "no_adjacent (False # map is_bridge ls) = no_adjacent (map (\<lambda>t. t = bridge) (map ld_legType ls))"
    by (cases ls) (auto simp: is_bridge_def [abs_def] o_def)
  have c: "count_list (map ld_legType ls) bridge = length (filter is_bridge ls)" by (rule count_list_bridges)
  show ?thesis
  proof (cases "count_bridges False 0 ls")
    case (Inl e)
    then have "\<not> no_adjacent (False # map is_bridge ls)" using count_bridges_spec [of False 0 ls] by auto
    with Inl True na show ?thesis by (simp add: validateLegSequence_def good_sequence_def)
  next
    case (Inr m)
    then have "no_adjacent (False # map is_bridge ls)" "m = length (filter is_bridge ls)"
      using count_bridges_spec [of False 0 ls m] by auto
    with Inr True na ne c show ?thesis
      by (auto simp: validateLegSequence_def good_sequence_def hd_map last_map)
  qed
next
  case False
  then show ?thesis
    by (cases ls) (auto simp: validateLegSequence_def good_sequence_def hd_map last_map Suc_le_eq)
qed

section \<open>Reading the playbook back\<close>

lemma resolve_legs_nth:
  "resolve_legs ad i ls = Inr js \<Longrightarrow> length js = length ls \<and>
    (\<forall>k < length ls. (ld_legType (ls ! k) = dex \<longrightarrow> js ! k = resolve_dex_leg (ls ! k) (i + k))
       \<and> (ld_legType (ls ! k) = bridge \<longrightarrow> validateAndResolveBridgeLeg ad (ls ! k) (i + k) = Inr (js ! k)))"
proof (induction ls arbitrary: i js)
  case Nil
  then show ?case by simp
next
  case (Cons l ls)
  from Cons.prems obtain j js' where j: "js = j # js'" "resolve_legs ad (i + 1) ls = Inr js'"
      "(if ld_legType l = dex then Inr (resolve_dex_leg l i) else validateAndResolveBridgeLeg ad l i) = Inr j"
    by (auto split: sum.splits)
  from Cons.IH [OF j(2)] j show ?case
    by (auto simp: nth_Cons split: nat.splits if_splits)
qed

lemma base_fields_map_of:
  "map_of (base_fields i l) k =
     (if k = ''legIndex'' then Some (JNum (of_nat i))
      else if k = ''legType'' then Some (JStr (leg_type_text (ld_legType l)))
      else if k = ''chainId'' then Some (JNum (of_int (ld_chainId l)))
      else if k = ''targetQuantity'' then Some (JNum (case ld_targetQuantity l of None \<Rightarrow> 10 | Some q \<Rightarrow> q))
      else None)"
  by (simp add: base_fields_def)

lemma opt_field_map_of: "map_of (opt_field k f v) k' = (if k' = k then map_option f v else None)"
  by (simp add: opt_field_def split: option.splits)

lemmas field_simps_json = base_fields_map_of opt_field_map_of map_add_def

lemma resolve_dex_leg_fields:
  "jget (resolve_dex_leg l i) ''venueKey'' = map_option JStr (ld_venueKey l)"
  "jget (resolve_dex_leg l i) ''tokenIn'' = map_option JStr (ld_tokenIn l)"
  "jget (resolve_dex_leg l i) ''legIndex'' = Some (JNum (of_nat i))"
  "jget (resolve_dex_leg l i) ''legType'' = Some (JStr (leg_type_text (ld_legType l)))"
  "jget (resolve_dex_leg l i) ''chainId'' = Some (JNum (of_int (ld_chainId l)))"
  "jget (resolve_dex_leg l i) ''targetQuantity'' = Some (JNum (case ld_targetQuantity l of None \<Rightarrow> 10 | Some q \<Rightarrow> q))"
  by (simp_all add: resolve_dex_leg_def field_simps_json split: option.splits)

lemma resolve_bridge_cases:
  assumes "validateAndResolveBridgeLeg ad l i = Inr j"
  obtains bk dst tk dt am amount ps where "ld_bridgeKey l = Some bk" "bk \<noteq> []" "ld_destinationChainId l = Some dst" "dst \<noteq> 0"
    "ld_token l = Some tk" "tk \<noteq> []" "ld_destinationToken l = Some dt" "dt \<noteq> []" "ld_amount l = Some am" "am \<noteq> []"
    "js_BigInt am = Some amount" "ad bk = Some ps" "(ld_chainId l, dst) \<in> set ps"
    "j = JObj (base_fields i l @ [(''bridgeKey'', JStr bk), (''destinationChainId'', JNum (of_int dst)), (''token'', JStr tk),
       (''destinationToken'', JStr dt), (''amount'', JStr am)] @ opt_field ''recipientAddress'' JStr (ld_recipientAddress l))"
  using assms
  by (auto simp: validateAndResolveBridgeLeg_def truthy_def split: if_splits option.splits)

lemma leg_def_of_resolved:
  assumes "resolveAndValidateLegs ad ls = Inr js" and "k < length ls"
  shows "leg_def_of_entry (js ! k) = Some \<lparr> df_legIndex = int k, df_legType = ld_legType (ls ! k),
     df_chainId = Some (ld_chainId (ls ! k)),
     df_targetQuantity = (case ld_targetQuantity (ls ! k) of None \<Rightarrow> 10 | Some q \<Rightarrow> q) \<rparr>"
proof -
  have r: "resolve_legs ad 0 ls = Inr js" using assms(1) by (simp add: resolveAndValidateLegs_def)
  have ji: "json_int (Some (JNum (of_nat k))) = Some (int k)" "json_int (Some (JNum (of_int c))) = Some c" for c
    by (simp_all add: json_int_def)
  have "jget (js ! k) ''legIndex'' = Some (JNum (of_nat k))"
    "jget (js ! k) ''legType'' = Some (JStr (leg_type_text (ld_legType (ls ! k))))"
    "jget (js ! k) ''chainId'' = Some (JNum (of_int (ld_chainId (ls ! k))))"
    "jget (js ! k) ''targetQuantity'' = Some (JNum (case ld_targetQuantity (ls ! k) of None \<Rightarrow> 10 | Some q \<Rightarrow> q))"
  proof -
    show "jget (js ! k) ''legIndex'' = Some (JNum (of_nat k))"
      "jget (js ! k) ''legType'' = Some (JStr (leg_type_text (ld_legType (ls ! k))))"
      "jget (js ! k) ''chainId'' = Some (JNum (of_int (ld_chainId (ls ! k))))"
      "jget (js ! k) ''targetQuantity'' = Some (JNum (case ld_targetQuantity (ls ! k) of None \<Rightarrow> 10 | Some q \<Rightarrow> q))"
      using resolve_legs_nth [OF r] assms(2)
      by (cases "ld_legType (ls ! k)"; auto simp: resolve_dex_leg_fields field_simps_json elim!: resolve_bridge_cases)+
  qed
  then show ?thesis
    by (simp add: leg_def_of_entry_def ji jcoalesce_def leg_type_text_def Let_def split: leg_type.splits)
qed

lemma playbook_json_fields:
  "jget (playbook_json dto js) ''schemaVersion'' = Some (JNum 1)"
  "jget (playbook_json dto js) ''legs'' = Some (JArr js)"
  "jis_object (Some (playbook_json dto js))"
  by (simp_all add: playbook_json_def Let_def map_add_def opt_field_map_of jis_object_def)

lemma parse_leg_defs_all:
  "\<forall>k < length es. leg_def_of_entry (es ! k) = Some (dfs ! k) \<Longrightarrow> length dfs = length es \<Longrightarrow> parse_leg_defs es = Inr dfs"
proof (induction es arbitrary: dfs)
  case Nil
  then show ?case by simp
next
  case (Cons e es)
  then obtain df dfs' where d: "dfs = df # dfs'" by (cases dfs) auto
  have "leg_def_of_entry e = Some df" using Cons.prems(1) d by (metis nth_Cons_0 length_greater_0_conv list.discI)
  moreover have "parse_leg_defs es = Inr dfs'"
    using Cons.prems d by (intro Cons.IH) (auto dest: spec [of _ "Suc _"])
  ultimately show ?case by (simp add: d)
qed

definition leg_def_of_descriptor :: "nat \<Rightarrow> leg_descriptor \<Rightarrow> leg_def" where
  "leg_def_of_descriptor k l = \<lparr> df_legIndex = int k, df_legType = ld_legType l, df_chainId = Some (ld_chainId l),
     df_targetQuantity = (case ld_targetQuantity l of None \<Rightarrow> 10 | Some q \<Rightarrow> q) \<rparr>"

lemma bridge_params_of_resolved:
  assumes "validateAndResolveBridgeLeg ad l k = Inr j" and "ld_chainId l \<noteq> 0"
    and "jget c ''legs'' = Some (JArr js)" and "jis_object (Some c)" and "i < length js" and "js ! i = j"
  shows "\<exists>bp. extractBridgeParams (Some c) (int i) = Some bp \<and> Some (bl_bridgeKey bp) = ld_bridgeKey l
    \<and> bl_sourceChainId bp = of_int (ld_chainId l) \<and> Some (bl_destinationChainId bp) = map_option of_int (ld_destinationChainId l)
    \<and> Some (bl_token bp) = ld_token l \<and> Some (bl_destinationToken bp) = ld_destinationToken l
    \<and> Some (bl_amount bp) = Option.bind (ld_amount l) js_BigInt"
  using assms(1)
proof (rule resolve_bridge_cases)
  fix bk dst tk dt am amount ps
  assume h: "ld_bridgeKey l = Some bk" "bk \<noteq> []" "ld_destinationChainId l = Some dst" "dst \<noteq> 0"
    "ld_token l = Some tk" "tk \<noteq> []" "ld_destinationToken l = Some dt" "dt \<noteq> []" "ld_amount l = Some am" "am \<noteq> []"
    "js_BigInt am = Some amount" "ad bk = Some ps" "(ld_chainId l, dst) \<in> set ps"
    "j = JObj (base_fields k l @ [(''bridgeKey'', JStr bk), (''destinationChainId'', JNum (of_int dst)), (''token'', JStr tk),
       (''destinationToken'', JStr dt), (''amount'', JStr am)] @ opt_field ''recipientAddress'' JStr (ld_recipientAddress l))"
  have e: "array_entry (jget c ''legs'') (int i) = Some j"
    using assms(3,5,6) by (simp add: array_entry_def jidx_def)
  have f: "jget j ''bridgeKey'' = Some (JStr bk)" "jget j ''chainId'' = Some (JNum (of_int (ld_chainId l)))"
    "jget j ''destinationChainId'' = Some (JNum (of_int dst))" "jget j ''token'' = Some (JStr tk)"
    "jget j ''destinationToken'' = Some (JStr dt)" "jget j ''amount'' = Some (JStr am)" "jis_object (Some j)"
    unfolding h(14) by (simp_all add: field_simps_json jis_object_def)
  show ?thesis
    using h f assms(2,4) e
    by (simp add: extractBridgeParams_def validateAndBuildBridgeParams_def mapped_bridge_entry_def jcoalesce_def
      asString_def asNumber_bridge_def or_else_def jnonempty_str_def Let_def)
qed

text \<open>
  C9: what the builder stores is what the execution reads. When a multi-leg plan is built, its leg
  sequence has the documented shape; beginning execution creates exactly the described legs, in
  order; the submission of a bridge leg finds exactly its bridge, chains, tokens and amount; and a
  DEX leg is routed to its venue.
\<close>

theorem multi_leg_plan_roundtrip:
  assumes "buildMultiLegPlan ad dto i now d = (Inr p, d')"
  shows "good_sequence (map ld_legType (ml_legs dto))
    \<and> begin_leg_defs (pl_playbookConfig p) cnt = Inr (map (\<lambda>(k, l). leg_def_of_descriptor k l) (enumerate 0 (ml_legs dto)))
    \<and> (\<forall>k < length (ml_legs dto). let l = ml_legs dto ! k in
        (ld_legType l = bridge \<and> ld_chainId l \<noteq> 0 \<longrightarrow>
          (\<exists>bp. extractBridgeParams (pl_playbookConfig p) (int k) = Some bp \<and> Some (bl_bridgeKey bp) = ld_bridgeKey l
            \<and> bl_sourceChainId bp = of_int (ld_chainId l)
            \<and> Some (bl_destinationChainId bp) = map_option of_int (ld_destinationChainId l)
            \<and> Some (bl_token bp) = ld_token l \<and> Some (bl_destinationToken bp) = ld_destinationToken l
            \<and> Some (bl_amount bp) = Option.bind (ld_amount l) js_BigInt))
        \<and> (\<forall>x v. ld_legType l = dex \<and> ld_venueKey l = Some v \<and> v \<noteq> [] \<and> lg_legIndex x = int k \<longrightarrow>
             extractVenueKey p x = Some v))"
proof -
  from assms obtain js where v: "validateLegSequence (ml_legs dto) = Inr ()"
      and r: "resolveAndValidateLegs ad (ml_legs dto) = Inr js" and pc: "pl_playbookConfig p = Some (playbook_json dto js)"
    by (auto simp: buildMultiLegPlan_def Let_def split: sum.splits)
  have g: "good_sequence (map ld_legType (ml_legs dto))" using v by (simp add: validateLegSequence_iff)
  have nth: "length js = length (ml_legs dto)"
      "\<And>k. k < length (ml_legs dto) \<Longrightarrow> ld_legType (ml_legs dto ! k) = dex \<Longrightarrow> js ! k = resolve_dex_leg (ml_legs dto ! k) k"
      "\<And>k. k < length (ml_legs dto) \<Longrightarrow> ld_legType (ml_legs dto ! k) = bridge \<Longrightarrow>
         validateAndResolveBridgeLeg ad (ml_legs dto ! k) k = Inr (js ! k)"
    using resolve_legs_nth [of ad 0 "ml_legs dto" js] r by (auto simp: resolveAndValidateLegs_def)
  have "js \<noteq> []" using g nth(1) by (auto simp: good_sequence_def)
  then obtain e es where js: "js = e # es" by (cases js) auto
  have "parse_leg_defs js = Inr (map (\<lambda>(k, l). leg_def_of_descriptor k l) (enumerate 0 (ml_legs dto)))"
    by (rule parse_leg_defs_all) (use leg_def_of_resolved [OF r] nth(1) in \<open>simp_all add: nth_enumerate_eq leg_def_of_descriptor_def\<close>)
  then have b: "begin_leg_defs (pl_playbookConfig p) cnt = Inr (map (\<lambda>(k, l). leg_def_of_descriptor k l) (enumerate 0 (ml_legs dto)))"
    by (simp add: begin_leg_defs_def parsePlaybookConfig_def pc playbook_json_fields js)
  have br: "ld_legType (ml_legs dto ! k) = bridge \<Longrightarrow> ld_chainId (ml_legs dto ! k) \<noteq> 0 \<Longrightarrow> k < length (ml_legs dto) \<Longrightarrow>
      \<exists>bp. extractBridgeParams (pl_playbookConfig p) (int k) = Some bp \<and> Some (bl_bridgeKey bp) = ld_bridgeKey (ml_legs dto ! k)
            \<and> bl_sourceChainId bp = of_int (ld_chainId (ml_legs dto ! k))
            \<and> Some (bl_destinationChainId bp) = map_option of_int (ld_destinationChainId (ml_legs dto ! k))
            \<and> Some (bl_token bp) = ld_token (ml_legs dto ! k) \<and> Some (bl_destinationToken bp) = ld_destinationToken (ml_legs dto ! k)
            \<and> Some (bl_amount bp) = Option.bind (ld_amount (ml_legs dto ! k)) js_BigInt" for k
    unfolding pc by (rule bridge_params_of_resolved [OF nth(3) _ playbook_json_fields(2,3)]) (use nth(1) in simp_all)
  have ve: "extractVenueKey p x = Some v" if "k < length (ml_legs dto)" "ld_legType (ml_legs dto ! k) = dex"
      "ld_venueKey (ml_legs dto ! k) = Some v" "v \<noteq> []" "lg_legIndex x = int k" for x v k
  proof -
    have "array_entry (jget (playbook_json dto js) ''legs'') (lg_legIndex x) = Some (resolve_dex_leg (ml_legs dto ! k) k)"
      using that nth by (simp add: playbook_json_fields array_entry_def jidx_def)
    then show ?thesis
      using that by (simp add: extractVenueKey_def pc playbook_json_fields obj_field_def resolve_dex_leg_fields jnonempty_str_def)
  qed
  show ?thesis using g b br ve by (simp add: Let_def)
qed

definition ex_leg :: leg_descriptor where
  "ex_leg = \<lparr> ld_legType = dex, ld_chainId = 1, ld_targetQuantity = None, ld_venueKey = Some ''sushiswap'', ld_tokenIn = None,
     ld_tokenOut = None, ld_amountIn = None, ld_path = None, ld_slippageBps = None, ld_recipient = None, ld_deadlineSeconds = None,
     ld_amountOutExpected = None, ld_fee = None, ld_sqrtPriceLimitX96 = None, ld_bridgeKey = None, ld_destinationChainId = None,
     ld_token = None, ld_destinationToken = None, ld_amount = None, ld_recipientAddress = None \<rparr>"

definition ex_multi :: multi_leg_dto where
  "ex_multi = \<lparr> ml_correlationId = None, ml_riskDecisionId = None, ml_routeKey = None, ml_notionalUsd = None,
     ml_grossProfitUsd = Some 5, ml_legs = [ex_leg, ex_leg\<lparr>ld_legType := bridge, ld_bridgeKey := Some ''across'',
       ld_destinationChainId := Some 10, ld_token := Some ''0xa'', ld_destinationToken := Some ''0xb'', ld_amount := Some ''25''\<rparr>,
       ex_leg\<lparr>ld_chainId := 10\<rparr>] \<rparr>"

definition ex_adapters :: adapters where
  "ex_adapters k = (if k = ''across'' then Some [(1, 10)] else None)"

theorem multi_leg_plan_roundtrip_witness:
  "\<exists>p d' bp. buildMultiLegPlan ex_adapters ex_multi ''p1'' 0 \<lparr> ed_plans = [], ed_legs = [], ed_onchain = [], ed_fills = [],
      ed_outbox = [], ed_audit = [] \<rparr> = (Inr p, d')
    \<and> extractBridgeParams (pl_playbookConfig p) 1 = Some bp \<and> bl_amount bp = 25"
proof -
  let ?d = "\<lparr> ed_plans = [], ed_legs = [], ed_onchain = [], ed_fills = [], ed_outbox = [], ed_audit = [] \<rparr>"
  have "(case fst (buildMultiLegPlan ex_adapters ex_multi ''p1'' 0 ?d) of Inr p \<Rightarrow> True | Inl _ \<Rightarrow> False)" by code_simp
  then obtain p d' where b: "buildMultiLegPlan ex_adapters ex_multi ''p1'' 0 ?d = (Inr p, d')"
    by (cases "buildMultiLegPlan ex_adapters ex_multi ''p1'' 0 ?d") (auto split: sum.splits)
  have "js_BigInt ''25'' = Some 25" by code_simp
  with multi_leg_plan_roundtrip [OF b, of None] show ?thesis
    using b by (auto simp: ex_multi_def ex_leg_def Let_def dest!: spec [of _ "Suc 0"])
qed

end
