(* ===== verification/Reaper.thy ===== *)
theory Reaper
  imports Fills Exec_Spec
begin

text \<open>
  \<open>stuck-plan-reaper.worker.ts\<close>: the recovery path of the two-phase submission. A cycle
  reconciles the legs that stay in \<open>submitting\<close> and, when the flag is set, fails the plans that
  stay armed or executing.
\<close>

section \<open>Model\<close>

record reaper_env =
  re_legTimeout :: "string option"    \<comment> \<open>\<open>LEG_STUCK_TIMEOUT_MS\<close>\<close>
  re_planTimeout :: "string option"   \<comment> \<open>\<open>PLAN_STUCK_TIMEOUT_MS\<close>\<close>
  re_autoFail :: "string option"      \<comment> \<open>\<open>STUCK_REAPER_AUTO_FAIL_PLANS\<close>\<close>

record reaper =
  rp_isRunning :: bool
  rp_isShuttingDown :: bool

record cycle_result =
  cy_legsRecovered :: nat
  cy_legsFailed :: nat
  cy_plansStuck :: nat
  cy_plansAutoFailed :: nat

definition js_trunc :: "rat \<Rightarrow> int" where
  "js_trunc q = (if 0 \<le> q then \<lfloor>q\<rfloor> else \<lceil>q\<rceil>)"

text \<open>\<open>new Date(now - Number(env ?? default))\<close>: \<open>None\<close> is an invalid date.\<close>

definition cutoff_date :: "string option \<Rightarrow> rat \<Rightarrow> int \<Rightarrow> int option" where
  "cutoff_date env deflt now =
     (case (case env of None \<Rightarrow> Fin deflt | Some s \<Rightarrow> js_Number s) of
        Fin q \<Rightarrow> (let t = js_trunc (of_int now - q) in if \<bar>t\<bar> \<le> 8640000000000000 then Some t else None)
      | _ \<Rightarrow> None)"

datatype reap_outcome = recovered | reaped_failed | already_advanced

definition reap_tx :: "string \<Rightarrow> int \<Rightarrow> exec_db \<Rightarrow> reap_outcome \<times> exec_db" where
  "reap_tx legId now d =
     (case get_leg legId d of
        None \<Rightarrow> (already_advanced, d)
      | Some fresh \<Rightarrow>
          (if lg_state fresh \<noteq> L_submitting then (already_advanced, d)
           else case confirmed_desc legId d of
             Some tx \<Rightarrow>
               (let ref = (if lg_venueRef fresh = None \<or> lg_venueRef fresh = Some [] then Some (oc_txHash tx) else lg_venueRef fresh)
                in (recovered, save_leg (fresh\<lparr>lg_state := L_sent, lg_entityVersion := lg_entityVersion fresh + 1,
                      lg_venueRef := ref, lg_updatedAt := now\<rparr>) d))
           | None \<Rightarrow>
               (reaped_failed, save_leg (fresh\<lparr>lg_state := L_failed, lg_entityVersion := lg_entityVersion fresh + 1,
                  lg_updatedAt := now\<rparr>) d)))"

text \<open>\<open>reapStuckLeg\<close>: true is \<open>'recovered'\<close>; \<open>'already-advanced'\<close> is answered as \<open>'failed'\<close>.\<close>

definition reapStuckLeg :: "leg \<Rightarrow> int \<Rightarrow> exec_db \<Rightarrow> bool \<times> exec_db" where
  "reapStuckLeg l now d = (case reap_tx (lg_id l) now d of (r, d') \<Rightarrow> (r = recovered, d'))"

definition planHasPendingOnChainTx :: "string \<Rightarrow> exec_db \<Rightarrow> bool" where
  "planHasPendingOnChainTx planId d =
     (let submittingLegs = filter (\<lambda>l. lg_state l = L_submitting) (legs_of_plan planId d)
      in submittingLegs \<noteq> [] \<and> onchain_of_legs (map lg_id submittingLegs) d \<noteq> [])"

definition reap_legs :: "int option \<Rightarrow> int \<Rightarrow> leg list \<Rightarrow> cycle_result \<times> exec_db \<Rightarrow> cycle_result \<times> exec_db" where
  "reap_legs cutoff now stuckLegs s =
     fold (\<lambda>l (r, d).
       if (case cutoff of None \<Rightarrow> False | Some c \<Rightarrow> lg_updatedAt l \<ge> c) then (r, d)
       else case reapStuckLeg l now d of
         (True, d') \<Rightarrow> (r\<lparr>cy_legsRecovered := cy_legsRecovered r + 1\<rparr>, d')
       | (False, d') \<Rightarrow> (r\<lparr>cy_legsFailed := cy_legsFailed r + 1\<rparr>, d')) stuckLegs s"

definition autofail_plans :: "(string \<Rightarrow> string) \<Rightarrow> int \<Rightarrow> plan list \<Rightarrow> cycle_result \<times> exec_db \<Rightarrow> cycle_result \<times> exec_db" where
  "autofail_plans mid now stuckPlans s =
     fold (\<lambda>p (r, d).
       if planHasPendingOnChainTx (pl_id p) d then (r, d)
       else case markFailed (pl_id p) stuck_reaper (mid (pl_id p)) now d of
         ((True, _), d') \<Rightarrow> (r\<lparr>cy_plansAutoFailed := cy_plansAutoFailed r + 1\<rparr>, d')
       | ((False, _), d') \<Rightarrow> (r, d')) stuckPlans s"

definition empty_cycle :: cycle_result where
  "empty_cycle = \<lparr> cy_legsRecovered = 0, cy_legsFailed = 0, cy_plansStuck = 0, cy_plansAutoFailed = 0 \<rparr>"

text \<open>An invalid cutoff makes the query for the stuck plans fail, which ends the cycle.\<close>

definition runCycle :: "reaper_env \<Rightarrow> (string \<Rightarrow> string) \<Rightarrow> int \<Rightarrow> reaper \<Rightarrow> exec_db \<Rightarrow> cycle_result \<times> exec_db" where
  "runCycle env mid now w d =
     (if rp_isRunning w \<or> rp_isShuttingDown w then (empty_cycle, d)
      else
        (let stuckLegs = take 50 (sort_key lg_createdAt (filter (\<lambda>l. lg_state l = L_submitting) (ed_legs d)));
             (r1, d1) = reap_legs (cutoff_date (re_legTimeout env) 300000 now) now stuckLegs (empty_cycle, d)
         in case cutoff_date (re_planTimeout env) 1800000 now of
              None \<Rightarrow> (r1, d1)
            | Some planCutoff \<Rightarrow>
                (let stuckPlans = filter (\<lambda>p. (pl_state p = P_armed \<or> pl_state p = P_executing)
                        \<and> pl_updatedAt p < planCutoff) (ed_plans d1);
                     r2 = r1\<lparr>cy_plansStuck := length stuckPlans\<rparr>
                 in if re_autoFail env = Some ''true'' then autofail_plans mid now stuckPlans (r2, d1) else (r2, d1))))"

declare reap_tx_def [op_defs] reapStuckLeg_def [op_defs] runCycle_def [op_defs]

section \<open>Effects\<close>

lemma reapStuckLeg_effect:
  assumes "reapStuckLeg l now d = (b, d')"
  shows "exec_effect d d'"
proof (cases "\<exists>fresh. get_leg (lg_id l) d = Some fresh \<and> lg_state fresh = L_submitting")
  case True
  then obtain fresh where f: "get_leg (lg_id l) d = Some fresh" "lg_state fresh = L_submitting" by blast
  show ?thesis
  proof (cases "confirmed_desc (lg_id l) d")
    case None
    show ?thesis
      by (rule leg_step_effect [OF f(1), of L_failed "fresh\<lparr>lg_state := L_failed,
            lg_entityVersion := lg_entityVersion fresh + 1, lg_updatedAt := now\<rparr>"])
        (use f None assms in \<open>auto simp: leg_allowed_def reapStuckLeg_def reap_tx_def\<close>)
  next
    case (Some tx)
    define ref where "ref = (if lg_venueRef fresh = None \<or> lg_venueRef fresh = Some [] then Some (oc_txHash tx) else lg_venueRef fresh)"
    have "d' = save_leg (fresh\<lparr>lg_state := L_sent, lg_entityVersion := lg_entityVersion fresh + 1,
                      lg_venueRef := ref, lg_updatedAt := now\<rparr>) d"
      using f Some assms by (simp add: reapStuckLeg_def reap_tx_def Let_def ref_def)
    then show ?thesis
      by (intro leg_step_effect [OF f(1), of L_sent "fresh\<lparr>lg_state := L_sent, lg_entityVersion := lg_entityVersion fresh + 1,
                      lg_venueRef := ref, lg_updatedAt := now\<rparr>"]) (use f in \<open>simp_all add: leg_allowed_def\<close>)
  qed
next
  case False
  with assms have "d' = d" by (auto simp: reapStuckLeg_def reap_tx_def split: option.splits)
  then show ?thesis by simp
qed

lemma reap_legs_effects: "exec_effect\<^sup>*\<^sup>* (snd s) (snd (reap_legs c now ls s))"
proof (induction ls arbitrary: s)
  case Nil
  then show ?case by (simp add: reap_legs_def)
next
  case (Cons l ls)
  obtain r d where s: "s = (r, d)" by (cases s)
  obtain b d' where rs: "reapStuckLeg l now d = (b, d')" by (cases "reapStuckLeg l now d")
  from reapStuckLeg_effect [OF rs] have e: "exec_effect d d'" .
  have "\<exists>r'. reap_legs c now (l # ls) s = reap_legs c now ls (r', d) \<or> reap_legs c now (l # ls) s = reap_legs c now ls (r', d')"
    by (cases "case c of None \<Rightarrow> False | Some c \<Rightarrow> lg_updatedAt l \<ge> c"; cases b) (auto simp: reap_legs_def s rs)
  then show ?case
    using Cons.IH e s by (metis converse_rtranclp_into_rtranclp snd_conv)
qed

lemma autofail_effects:
  assumes "exec_inv (snd s)"
  shows "exec_effect\<^sup>*\<^sup>* (snd s) (snd (autofail_plans mid now ps s))"
  using assms
proof (induction ps arbitrary: s)
  case Nil
  then show ?case by (simp add: autofail_plans_def)
next
  case (Cons p ps)
  obtain r d where s: "s = (r, d)" by (cases s)
  obtain b q d' where mf: "markFailed (pl_id p) stuck_reaper (mid (pl_id p)) now d = ((b, q), d')"
    by (metis surj_pair)
  have e: "exec_effect d d'" by (rule markFailed_effect [OF mf]) (use Cons.prems s exec_invD(2) in auto)
  then have i: "exec_inv d'" using effect_inv Cons.prems s by auto
  have "\<exists>r'. autofail_plans mid now (p # ps) s = autofail_plans mid now ps (r', d)
      \<or> autofail_plans mid now (p # ps) s = autofail_plans mid now ps (r', d')"
    by (cases "planHasPendingOnChainTx (pl_id p) d"; cases b) (auto simp: autofail_plans_def s mf)
  then show ?case
    using Cons.IH Cons.prems e i s by (metis converse_rtranclp_into_rtranclp snd_conv)
qed

lemma runCycle_effects:
  assumes "runCycle env mid now w d = (r, d')" and "exec_inv d"
  shows "exec_effect\<^sup>*\<^sup>* d d'"
proof (cases "rp_isRunning w \<or> rp_isShuttingDown w")
  case True
  with assms show ?thesis by (simp add: runCycle_def)
next
  case False
  obtain r1 d1 where rl: "reap_legs (cutoff_date (re_legTimeout env) 300000 now) now
      (take 50 (sort_key lg_createdAt (filter (\<lambda>l. lg_state l = L_submitting) (ed_legs d)))) (empty_cycle, d) = (r1, d1)"
    by (metis surj_pair)
  have e1: "exec_effect\<^sup>*\<^sup>* d d1" using reap_legs_effects [of "(empty_cycle, d)"] rl by (metis snd_conv)
  then have i1: "exec_inv d1" using effects_inv assms(2) by blast
  have "d' = d1 \<or> (\<exists>r2 ps. autofail_plans mid now ps (r2, d1) = (r, d'))"
    using assms(1) False rl
    by (auto simp: runCycle_def Let_def split: option.splits if_splits)
  then show ?thesis
    using e1 autofail_effects [of "(_, d1)"] i1 by (metis rtranclp_trans snd_conv)
qed

end
