(* ===== verification/Execution.thy ===== *)
theory Execution
  imports Exec_Spec Plan_Builder Reaper
begin

text \<open>
  The execution orchestrator as a whole: one step is one committed transaction of its services
  and workers. Every step refines the abstract specification \<open>exec_effect\<close>, so its life cycles and
  its invariant hold in every run.
\<close>

section \<open>Steps and refinement\<close>

text \<open>The ids the database gives to new rows are fresh.\<close>

inductive exec_step :: "exec_db \<Rightarrow> exec_db \<Rightarrow> bool" where
  st_create: "create_plan cdto i now d = (out, d') \<Longrightarrow> get_plan i d = None \<Longrightarrow> exec_step d d'"
| st_build: "buildMultiLegPlan ad mdto i now d = (out, d') \<Longrightarrow> get_plan i d = None \<Longrightarrow> exec_step d d'"
| st_link: "transaction (link_tx i crid now) d = (out, d') \<Longrightarrow> exec_step d d'"
| st_arm: "transaction (arm_tx i m now) d = (out, d') \<Longrightarrow> exec_step d d'"
| st_begin: "beginExecution i newId cnt est minNet now d = (bout, d') \<Longrightarrow> inj newId \<Longrightarrow>
     (\<And>n. get_leg (newId n) d = None) \<Longrightarrow> exec_step d d'"
| st_begin_sent: "beginMarkSent i lid halted now d = (sout, d') \<Longrightarrow> exec_step d d'"
| st_complete_sent: "completeMarkSent i lid corr x meta m now d = (lout, d') \<Longrightarrow> exec_step d d'"
| st_fail_leg: "d' = failSubmittingLeg i lid corr msg now d \<Longrightarrow> exec_step d d'"
| st_terminal: "applyTerminalSubmitError i lid corr t msg now d = (lout, d') \<Longrightarrow> exec_step d d'"
| st_ack: "markAcknowledged i lid now d = (lout, d') \<Longrightarrow> exec_step d d'"
| st_fill: "applyFill i lid dto m now d = (fout, d') \<Longrightarrow> exec_step d d'"
| st_completed: "tryMarkPlanCompletedWhenAllLegsFilled i m now d = (cout, d') \<Longrightarrow> exec_step d d'"
| st_failed: "markFailed i reason m now d = (cout, d') \<Longrightarrow> exec_step d d'"
| st_reap: "reapStuckLeg l now d = (b, d') \<Longrightarrow> exec_step d d'"

lemma buildMultiLegPlan_effect:
  assumes "buildMultiLegPlan ad dto i now d = (out, d')" and "get_plan i d = None"
  shows "exec_effect d d'"
proof (cases out)
  case (Inl e)
  with assms(1) have "d' = d" by (auto simp: buildMultiLegPlan_def Let_def split: sum.splits)
  then show ?thesis by simp
next
  case (Inr saved)
  with assms(1) have s: "pl_id saved = i" "pl_state saved = P_planned" and "\<exists>a. d' = audited a (save_plan saved d)"
    by (auto simp: buildMultiLegPlan_def Let_def split: sum.splits)
  then obtain a where "d' = audited a (save_plan saved d)" by blast
  with s assms(2) show ?thesis
    by (intro eff_new_plan [of saved]) (simp_all add: get_plan_def save_row_new)
qed

text \<open>Every step of the services refines the abstract specification.\<close>

lemma exec_step_refines:
  assumes "exec_step d d'" and "distinct (map lg_id (ed_legs d))"
  shows "exec_effect d d'"
  using assms(1)
proof cases
  case (st_create cdto i now out)
  then show ?thesis by (rule create_plan_effect)
next
  case (st_build ad mdto i now out)
  then show ?thesis by (rule buildMultiLegPlan_effect)
next
  case (st_link i crid now out)
  then show ?thesis by (rule link_tx_effect)
next
  case (st_arm i m now out)
  then show ?thesis by (rule arm_tx_effect)
next
  case (st_begin i newId cnt est minNet now bout)
  then show ?thesis using begin_effect assms(2) by blast
next
  case (st_begin_sent i lid halted now sout)
  then show ?thesis by (rule beginMarkSent_effect)
next
  case (st_complete_sent i lid corr x meta m now lout)
  then show ?thesis by (rule completeMarkSent_effect)
next
  case (st_fail_leg i lid corr msg now)
  then show ?thesis using failSubmittingLeg_effect by simp
next
  case (st_terminal i lid corr t msg now lout)
  then show ?thesis by (rule applyTerminal_effect)
next
  case (st_ack i lid now lout)
  then show ?thesis by (rule markAcknowledged_effect)
next
  case (st_fill i lid dto m now fout)
  then show ?thesis by (rule applyFill_effect)
next
  case (st_completed i m now cout)
  obtain b q where "cout = (b, q)" by (cases cout)
  with st_completed show ?thesis by (auto intro: tryMark_effect)
next
  case (st_failed i reason m now cout)
  then show ?thesis using markFailed_effect assms(2) by blast
next
  case (st_reap l now b)
  then show ?thesis by (rule reapStuckLeg_effect)
qed

lemma exec_run_refines:
  assumes "exec_step\<^sup>*\<^sup>* d d'" and "exec_inv d"
  shows "exec_effect\<^sup>*\<^sup>* d d' \<and> exec_inv d'"
  using assms
proof (induction rule: rtranclp_induct)
  case base
  then show ?case by simp
next
  case (step y z)
  then have y: "exec_effect\<^sup>*\<^sup>* d y" "exec_inv y" by blast+
  have e: "exec_effect y z" using exec_step_refines [OF step.hyps(2)] exec_invD(2) [OF y(2)] by blast
  from y e show ?case by (auto intro: rtranclp.rtrancl_into_rtrancl effect_inv)
qed

lemmas exec_run_effects = exec_run_refines [THEN conjunct1]
lemmas exec_run_inv = exec_run_refines [THEN conjunct2]

definition empty_exec :: exec_db where
  "empty_exec = \<lparr> ed_plans = [], ed_legs = [], ed_onchain = [], ed_fills = [], ed_outbox = [], ed_audit = [] \<rparr>"

lemma empty_exec_inv [simp]: "exec_inv empty_exec"
  by (simp add: exec_inv_def empty_exec_def events_ok_def events_def get_plan_def get_leg_def get_row_def)

section \<open>On-chain rows\<close>

text \<open>The row of a broadcast is written with the transition of its leg to \<open>sent\<close>, never before.\<close>

definition onchain_inv :: "exec_db \<Rightarrow> bool" where
  "onchain_inv d \<longleftrightarrow> (\<forall>t \<in> set (ed_onchain d). \<forall>i. oc_legId t = Some i \<longrightarrow>
     (\<exists>l. get_leg i d = Some l \<and> lg_state l \<noteq> L_created \<and> lg_state l \<noteq> L_submitting))"

lemma onchain_transaction:
  "(\<And>o1 d1. b d = (o1, d1) \<Longrightarrow> ed_onchain d1 = ed_onchain d) \<Longrightarrow> transaction b d = (out, d') \<Longrightarrow>
     ed_onchain d' = ed_onchain d"
  by (cases "b d") (auto simp: transaction_def split: sum.splits)

lemma onchain_link: "link_tx i c now d = (o1, d1) \<Longrightarrow> ed_onchain d1 = ed_onchain d"
  by (auto simp: link_tx_def Let_def split: option.splits if_splits)

lemma onchain_arm: "arm_tx i c now d = (o1, d1) \<Longrightarrow> ed_onchain d1 = ed_onchain d"
  by (auto simp: arm_tx_def Let_def split: option.splits if_splits)

lemma onchain_fold_save [simp]: "ed_onchain (fold (\<lambda>l. save_leg (f l)) xs d) = ed_onchain d"
  by (induction xs arbitrary: d) simp_all

lemma onchain_fold_save' [simp]: "ed_onchain (fold save_leg xs d) = ed_onchain d"
  by (induction xs arbitrary: d) simp_all

lemma onchain_gate: "applyPlanCostGate est mn now p ls d = (o1, d1) \<Longrightarrow> ed_onchain d1 = ed_onchain d"
  by (auto simp: applyPlanCostGate_def Let_def split: sum.splits if_splits)

lemma onchain_begin: "begin_tx i newId cnt est mn now d = (o1, d1) \<Longrightarrow> ed_onchain d1 = ed_onchain d"
  by (auto simp: begin_tx_def Let_def split: option.splits if_splits sum.splits prod.splits dest!: onchain_gate)

lemma onchain_beginMarkSent: "beginMarkSent i lid h now d = (o1, d1) \<Longrightarrow> ed_onchain d1 = ed_onchain d"
  by (erule beginMarkSent_cases) simp_all

lemma onchain_failSubmitting: "ed_onchain (failSubmittingLeg i lid c m now d) = ed_onchain d"
  by (simp add: failSubmittingLeg_def Let_def split: option.splits)

lemma onchain_terminal: "applyTerminalSubmitError i lid c t m now d = (o1, d1) \<Longrightarrow> ed_onchain d1 = ed_onchain d"
  by (auto simp: applyTerminalSubmitError_def terminal_tx_def transaction_def Let_def
    split: option.splits if_splits prod.splits sum.splits)

lemma onchain_ack: "markAcknowledged i lid now d = (o1, d1) \<Longrightarrow> ed_onchain d1 = ed_onchain d"
  by (auto simp: markAcknowledged_def transaction_def Let_def split: option.splits if_splits)

lemma onchain_commit_fill: "commit_fill i lid dto m now p l d = (r, d1) \<Longrightarrow> ed_onchain d1 = ed_onchain d"
  by (auto simp: commit_fill_def Let_def split: if_splits)

lemma onchain_fill: "fill_tx i lid dto m now d = (o1, d1) \<Longrightarrow> ed_onchain d1 = ed_onchain d"
  by (auto simp: fill_tx_def split: option.splits if_splits sum.splits prod.splits dest: onchain_commit_fill)

lemma onchain_tryMark: "tryMarkPlanCompletedWhenAllLegsFilled i m now d = (o1, d1) \<Longrightarrow> ed_onchain d1 = ed_onchain d"
  by (erule tryMark_cases) simp_all

lemma onchain_markFailed: "markFailed i r m now d = (o1, d1) \<Longrightarrow> ed_onchain d1 = ed_onchain d"
  by (auto simp: markFailed_def Let_def split: option.splits if_splits)

lemma onchain_reap: "reapStuckLeg l now d = (b, d1) \<Longrightarrow> ed_onchain d1 = ed_onchain d"
  by (auto simp: reapStuckLeg_def reap_tx_def Let_def split: option.splits if_splits)

lemma onchain_complete:
  assumes "completeMarkSent i lid c x meta m now d = (o1, d1)"
  shows "(\<forall>t \<in> set (ed_onchain d1). t \<in> set (ed_onchain d) \<or> oc_legId t = Some lid
      \<and> (\<exists>l. get_leg lid d1 = Some l \<and> lg_state l = L_sent))"
proof (cases "\<exists>l. find_leg_of_plan i lid d = Some l \<and> lg_state l = L_submitting")
  case False
  then have "ed_onchain d1 = ed_onchain d"
    using assms by (auto simp: completeMarkSent_def complete_tx_def transaction_def split: option.splits sum.splits prod.splits)
  then show ?thesis by simp
next
  case True
  then obtain l where l: "find_leg_of_plan i lid d = Some l" "lg_state l = L_submitting" by blast
  then have id: "lg_id l = lid" by (auto simp: find_leg_of_plan_Some dest: get_leg_key)
  let ?l = "l\<lparr>lg_state := L_sent, lg_entityVersion := lg_entityVersion l + 1, lg_venueRef := Some x, lg_updatedAt := now\<rparr>"
  have w: "ed_onchain (writeOutboxRow t et p cc mm now y) = ed_onchain y \<and> ed_legs (writeOutboxRow t et p cc mm now y) = ed_legs y"
    for t et p cc mm y by (simp add: writeOutboxRow_def)
  have "ed_legs d1 = save_row lg_id ?l (ed_legs d) \<and>
      (\<forall>t \<in> set (ed_onchain d1). t \<in> set (ed_onchain d) \<or> oc_legId t = Some lid)"
    using assms l
    by (auto simp: completeMarkSent_def complete_tx_def transaction_def Let_def persistWithOutcome_def w
      emitConfirmed_def emitFailed_def split: option.splits if_splits)
  then show ?thesis by (auto simp: db_row_simps id)
qed

lemma exec_step_onchain:
  assumes "exec_step d d'"
  shows "\<forall>t \<in> set (ed_onchain d'). t \<in> set (ed_onchain d) \<or>
     (\<exists>i l. oc_legId t = Some i \<and> get_leg i d' = Some l \<and> lg_state l = L_sent)"
  using assms
proof cases
  case (st_create cdto i now out)
  then show ?thesis by (auto simp: create_plan_def Let_def)
next
  case (st_build ad mdto i now out)
  then show ?thesis by (auto simp: buildMultiLegPlan_def Let_def split: sum.splits)
next
  case (st_link i crid now out)
  then show ?thesis using onchain_transaction onchain_link by metis
next
  case (st_arm i m now out)
  then show ?thesis using onchain_transaction onchain_arm by metis
next
  case (st_begin i newId cnt est minNet now bout)
  then show ?thesis using onchain_transaction onchain_begin unfolding beginExecution_def by metis
next
  case (st_begin_sent i lid halted now sout)
  then show ?thesis using onchain_beginMarkSent by simp
next
  case (st_complete_sent i lid corr x meta m now lout)
  then show ?thesis using onchain_complete by blast
next
  case (st_fail_leg i lid corr msg now)
  then show ?thesis using onchain_failSubmitting by simp
next
  case (st_terminal i lid corr t msg now lout)
  then show ?thesis using onchain_terminal by simp
next
  case (st_ack i lid now lout)
  then show ?thesis using onchain_ack by simp
next
  case (st_fill i lid dto m now fout)
  then show ?thesis using onchain_transaction onchain_fill unfolding applyFill_def by metis
next
  case (st_completed i m now cout)
  then show ?thesis using onchain_tryMark by simp
next
  case (st_failed i reason m now cout)
  then show ?thesis using onchain_markFailed by simp
next
  case (st_reap l now b)
  then show ?thesis using onchain_reap by simp
qed

lemma exec_step_onchain_inv:
  assumes "exec_step d d'" and "distinct (map lg_id (ed_legs d))" and "onchain_inv d"
  shows "onchain_inv d'"
  unfolding onchain_inv_def
proof (intro ballI allI impI)
  fix t i assume t: "t \<in> set (ed_onchain d')" "oc_legId t = Some i"
  have eff: "exec_effect d d'" by (rule exec_step_refines) (use assms in simp_all)
  show "\<exists>l. get_leg i d' = Some l \<and> lg_state l \<noteq> L_created \<and> lg_state l \<noteq> L_submitting"
  proof (cases "t \<in> set (ed_onchain d)")
    case True
    then obtain l where l: "get_leg i d = Some l" "lg_state l \<noteq> L_created" "lg_state l \<noteq> L_submitting"
      using assms(3) t(2) by (auto simp: onchain_inv_def)
    from effect_leg_change [OF eff l(1)] obtain l' where "get_leg i d' = Some l'"
        "lg_state l' = lg_state l \<or> leg_allowed (lg_state l) (lg_state l')" by blast
    with l show ?thesis by (auto simp: leg_allowed_def)
  next
    case False
    then show ?thesis using exec_step_onchain [OF assms(1)] t by fastforce
  qed
qed

lemma exec_run_onchain_inv:
  "exec_step\<^sup>*\<^sup>* empty_exec d \<Longrightarrow> onchain_inv d \<and> exec_inv d"
proof (induction rule: rtranclp_induct)
  case base
  have "onchain_inv empty_exec" by (simp add: onchain_inv_def empty_exec_def)
  then show ?case by simp
next
  case (step y z)
  then have "exec_effect y z" using exec_step_refines exec_invD(2) by blast
  with step show ?case using exec_step_onchain_inv effect_inv exec_invD(2) by blast
qed

end
