(* ===== verification/Exec_Run.thy ===== *)
theory Exec_Run
  imports Execution
begin

text \<open>
  A concrete run of the orchestrator, from an empty database to a completed plan with one leg,
  at which the properties are instantiated.
\<close>

definition ex_cdto :: create_plan_dto where
  "ex_cdto = \<lparr> cp_correlationId = Some ''corr'', cp_riskDecisionId = Some ''risk'', cp_routeKey = None \<rparr>"

definition ex_ids :: "nat \<Rightarrow> string" where
  "ex_ids n = ''leg'' @ replicate n (CHR ''x'')"

definition ex_est :: "int \<Rightarrow> json \<Rightarrow> exn + leg_cost" where
  "ex_est i e = Inl (PlainError ''no estimate'')"

definition ex_dto :: apply_fill_dto where
  "ex_dto = \<lparr> af_idempotencyKey = Some ''key'', af_clientKnownVersion = None, af_mode = None, af_cumulativeFilled = None \<rparr>"

definition ex_planned where "ex_planned = snd (create_plan ex_cdto ''p1'' 0 empty_exec)"
definition ex_reserved where "ex_reserved = snd (transaction (link_tx ''p1'' ''r1'' 1) ex_planned)"
definition ex_armed where "ex_armed = snd (transaction (arm_tx ''p1'' ''m1'' 2) ex_reserved)"
definition ex_started where "ex_started = snd (beginExecution ''p1'' ex_ids None ex_est 0 3 ex_armed)"
definition ex_submitting where "ex_submitting = snd (beginMarkSent ''p1'' ''leg'' False 4 ex_started)"
definition ex_sent where
  "ex_sent = snd (completeMarkSent ''p1'' ''leg'' (Some ''corr'') ''order'' None ''m2'' 5 ex_submitting)"
definition ex_acked where "ex_acked = snd (markAcknowledged ''p1'' ''leg'' 6 ex_sent)"
definition ex_filled where "ex_filled = snd (applyFill ''p1'' ''leg'' ex_dto ''m3'' 7 ex_acked)"
definition ex_completed where "ex_completed = snd (tryMarkPlanCompletedWhenAllLegsFilled ''p1'' ''m4'' 8 ex_filled)"

lemmas ex_defs = ex_planned_def ex_reserved_def ex_armed_def ex_started_def ex_submitting_def ex_sent_def
  ex_acked_def ex_filled_def ex_completed_def

lemma ex_ids_inj: "inj ex_ids"
  by (rule injI) (auto simp: ex_ids_def dest: arg_cong [of _ _ length])

lemma ex_completed_plan: "map_option pl_state (get_plan ''p1'' ex_completed) = Some P_completed"
  by code_simp

lemma ex_legs: "map_option lg_state (get_leg ''leg'' ex_started) = Some L_created"
  "map_option lg_state (get_leg ''leg'' ex_submitting) = Some L_submitting"
  "map_option lg_state (get_leg ''leg'' ex_acked) = Some L_acknowledged"
  "map_option lg_state (get_leg ''leg'' ex_completed) = Some L_filled"
  by code_simp+

section \<open>It is a run\<close>

lemma ex_fresh:
  "get_plan ''p1'' empty_exec = None" "ed_legs ex_armed = []"
  by (simp add: empty_exec_def get_plan_def get_row_def) code_simp

lemma ex_steps:
  "exec_step empty_exec ex_planned" "exec_step ex_planned ex_reserved" "exec_step ex_reserved ex_armed"
  "exec_step ex_armed ex_started" "exec_step ex_started ex_submitting" "exec_step ex_submitting ex_sent"
  "exec_step ex_sent ex_acked" "exec_step ex_acked ex_filled" "exec_step ex_filled ex_completed"
proof -
  show "exec_step empty_exec ex_planned"
    unfolding ex_planned_def by (rule st_create [OF surjective_pairing ex_fresh(1)])
  show "exec_step ex_planned ex_reserved" unfolding ex_reserved_def by (rule st_link [OF surjective_pairing])
  show "exec_step ex_reserved ex_armed" unfolding ex_armed_def by (rule st_arm [OF surjective_pairing])
  show "exec_step ex_armed ex_started"
    unfolding ex_started_def by (rule st_begin [OF surjective_pairing ex_ids_inj]) (simp add: get_leg_def ex_fresh(2) get_row_def)
  show "exec_step ex_started ex_submitting" unfolding ex_submitting_def by (rule st_begin_sent [OF surjective_pairing])
  show "exec_step ex_submitting ex_sent" unfolding ex_sent_def by (rule st_complete_sent [OF surjective_pairing])
  show "exec_step ex_sent ex_acked" unfolding ex_acked_def by (rule st_ack [OF surjective_pairing])
  show "exec_step ex_acked ex_filled" unfolding ex_filled_def by (rule st_fill [OF surjective_pairing])
  show "exec_step ex_filled ex_completed" unfolding ex_completed_def by (rule st_completed [OF surjective_pairing])
qed

lemma ex_run_to_started: "exec_step\<^sup>*\<^sup>* empty_exec ex_started"
  using ex_steps by (meson converse_rtranclp_into_rtranclp rtranclp.rtrancl_refl)

lemma ex_run_from_started: "exec_step\<^sup>*\<^sup>* ex_started ex_completed"
  using ex_steps by (meson converse_rtranclp_into_rtranclp rtranclp.rtrancl_refl)

lemma ex_run: "exec_step\<^sup>*\<^sup>* empty_exec ex_completed"
  using ex_run_to_started ex_run_from_started by (rule rtranclp_trans)

lemma ex_inv: "exec_inv ex_started" "exec_inv ex_completed"
  using exec_run_inv [OF ex_run_to_started] exec_run_inv [OF ex_run] by simp_all

end
