(* ===== verification/Exec_Props.thy ===== *)
theory Exec_Props
  imports Exec_Run
begin

text \<open>The properties of the execution orchestrator.\<close>

section \<open>Refinement\<close>

text \<open>
  C3: the orchestrator refines the abstract machine of plans and legs. In every reachable state every
  operation on the database (guards, error paths, audit and outbox rows included) is one step of
  \<open>exec_effect\<close>: a new plan, one transition of one plan, the legs of a begun plan, one transition
  or one fill of one leg, the sweep of a failed plan, or nothing; with the settlement rows that go
  with it. The invariant of plans, legs and events holds afterwards.
\<close>

theorem orchestrator_refines_spec:
  assumes "exec_step\<^sup>*\<^sup>* empty_exec d" and "exec_step d d'"
  shows "exec_effect d d' \<and> exec_inv d'"
proof -
  have inv: "exec_inv d" using exec_run_inv [OF assms(1)] by simp
  then have "exec_effect d d'" using exec_step_refines [OF assms(2)] exec_invD(2) by blast
  with inv show ?thesis using effect_inv by blast
qed

theorem orchestrator_refines_spec_witness: "exec_effect ex_started ex_submitting \<and> exec_inv ex_submitting"
  by (rule orchestrator_refines_spec [OF ex_run_to_started ex_steps(5)])

section \<open>Life cycles\<close>

text \<open>
  C5: the life cycle of a plan. In every run a plan is never lost, its version never decreases, an
  unchanged version means an unchanged state, and a completed or failed plan never changes again.
\<close>

theorem plan_lifecycle:
  assumes "exec_step\<^sup>*\<^sup>* d d'" and "exec_inv d" and "get_plan i d = Some p"
  shows "\<exists>p'. get_plan i d' = Some p' \<and> pl_entityVersion p \<le> pl_entityVersion p'
    \<and> (pl_entityVersion p' = pl_entityVersion p \<longrightarrow> pl_state p' = pl_state p)
    \<and> (pl_state p = P_completed \<or> pl_state p = P_failed \<longrightarrow>
        pl_state p' = pl_state p \<and> pl_entityVersion p' = pl_entityVersion p)"
  using planlife.run_row [OF exec_run_effects [OF assms(1,2)] assms(3)]
    planlife.run_terminal [OF exec_run_effects [OF assms(1,2)] assms(3)]
  by (force simp: plan_allowed_def)

theorem plan_lifecycle_witness:
  "\<exists>p'. get_plan ''p1'' ex_completed = Some p' \<and> 4 \<le> pl_entityVersion p'"
proof -
  obtain p where p: "get_plan ''p1'' ex_started = Some p" "pl_entityVersion p = 4"
  proof -
    have "map_option pl_entityVersion (get_plan ''p1'' ex_started) = Some 4" by code_simp
    then show thesis using that by auto
  qed
  from plan_lifecycle [OF ex_run_from_started ex_inv(1) p(1)] p(2) show ?thesis by auto
qed

lemma beginMarkSent_refused:
  assumes "get_leg lid d = Some l" and "lg_state l \<noteq> L_created" and "lg_planId l = pid" and "leg_has_plan d l"
  shows "\<exists>msg. beginMarkSent pid lid h now d = (Inl (ConflictException msg), d)"
proof -
  from assms(3,4) obtain p where "get_plan pid d = Some p" by (auto simp: leg_has_plan_def)
  with assms show ?thesis
    by (auto simp: beginMarkSent_def transaction_def find_leg_of_plan_def)
qed

text \<open>
  C2: a leg is broadcast at most once. When one call of \<open>markSent\<close> has reserved the leg (phase 1
  has committed), every later call for the same leg, in every state the orchestrator can reach from
  there, is refused with a conflict, calls no venue and changes nothing, whether the first call has
  succeeded, failed or crashed.
\<close>

theorem leg_broadcast_at_most_once:
  assumes "exec_inv d" and "beginMarkSent pid lid h now d = (Inr r, d1)" and "exec_step\<^sup>*\<^sup>* d1 d2"
  shows "\<exists>msg. markSent pid lid h' venue submitBridge m t env t' d2 = (Inl (ConflictException msg), d2)"
  using assms(2)
proof (cases rule: beginMarkSent_cases)
  case (refused e)
  then show ?thesis by simp
next
  case (reserved p l l')
  have "exec_effect d d1" using beginMarkSent_effect [OF assms(2)] .
  then have i1: "exec_inv d1" using assms(1) by (rule effect_inv)
  have g1: "get_leg lid d1 = Some l'" using reserved by (auto simp: row_simps dest: get_leg_key)
  obtain l2 where l2: "get_leg lid d2 = Some l2" "lg_planId l2 = lg_planId l'"
    using effects_leg [OF exec_run_effects [OF assms(3) i1] i1 g1] by blast
  have "lg_state l2 \<noteq> L_created"
    using leglife.run_closed [OF exec_run_effects [OF assms(3) i1] g1, of "{s. s \<noteq> L_created}"] l2(1) reserved(6)
    by (auto simp: leg_allowed_def)
  moreover have "leg_has_plan d2 l2"
    using exec_run_inv [OF assms(3) i1] get_leg_in [OF l2(1)] by (simp add: exec_inv_def)
  moreover have "lg_planId l2 = pid" using l2(2) reserved(4,6) by simp
  ultimately obtain msg where "beginMarkSent pid lid h' t d2 = (Inl (ConflictException msg), d2)"
    using beginMarkSent_refused [OF l2(1), of pid h' t] by auto
  then show ?thesis by (simp add: markSent_def)
qed

theorem leg_broadcast_at_most_once_witness:
  "\<exists>msg. markSent ''p1'' ''leg'' False (\<lambda>_ _. VSent ''again'' None) (\<lambda>_ _. VOther ''down'') ''m9'' 9 id 10 ex_completed
     = (Inl (ConflictException msg), ex_completed)"
proof -
  have "map_option (\<lambda>x. ()) (case fst (beginMarkSent ''p1'' ''leg'' False 4 ex_started) of Inr r \<Rightarrow> Some r | Inl _ \<Rightarrow> None) = Some ()"
    by code_simp
  then obtain r where "beginMarkSent ''p1'' ''leg'' False 4 ex_started = (Inr r, ex_submitting)"
    unfolding ex_submitting_def by (cases "beginMarkSent ''p1'' ''leg'' False 4 ex_started") (auto split: sum.splits)
  moreover have "exec_step\<^sup>*\<^sup>* ex_submitting ex_completed"
    using ex_steps by (meson converse_rtranclp_into_rtranclp rtranclp.rtrancl_refl)
  ultimately show ?thesis using leg_broadcast_at_most_once [OF ex_inv(1)] by blast
qed

section \<open>The invariant of plans, legs, fills and events\<close>

text \<open>
  C6: a completed plan is completely filled. In every state the orchestrator can reach from an empty
  database, a completed plan has at least one leg and every leg of it is filled to exactly its
  target quantity.
\<close>

theorem completed_plan_is_filled:
  assumes "exec_step\<^sup>*\<^sup>* empty_exec d" and "get_plan i d = Some p" and "pl_state p = P_completed"
  shows "legs_of_plan i d \<noteq> [] \<and> (\<forall>l \<in> set (legs_of_plan i d). lg_state l = L_filled
    \<and> lg_filledQuantity l = lg_targetQuantity l)"
proof -
  have inv: "exec_inv d" using exec_run_inv [OF assms(1)] by simp
  have "plan_ok d p" using exec_invD(5) [OF inv assms(2)] .
  moreover have "leg_ok l" if "l \<in> set (legs_of_plan i d)" for l
    using exec_invD(3) [OF inv] that by (simp add: legs_of_plan_def)
  ultimately show ?thesis
    using assms(3) get_plan_key [OF assms(2)] by (auto simp: plan_ok_def leg_ok_def)
qed

theorem completed_plan_is_filled_witness:
  "\<exists>l ls. legs_of_plan ''p1'' ex_completed = l # ls \<and> lg_state l = L_filled \<and> lg_filledQuantity l = lg_targetQuantity l"
proof -
  obtain p where "get_plan ''p1'' ex_completed = Some p" "pl_state p = P_completed"
    using ex_completed_plan by auto
  from completed_plan_is_filled [OF ex_run this] show ?thesis by (cases "legs_of_plan ''p1'' ex_completed") auto
qed

text \<open>
  C4: settlement events are written exactly once. In every reachable state there is exactly one
  \<open>LegFilled\<close> row for a filled leg and none for any other leg, and exactly one \<open>PlanCompleted\<close>
  (\<open>PlanFailed\<close>) row for a completed (failed) plan and none for any other plan.
\<close>

theorem settlement_events_exactly_once:
  assumes "exec_step\<^sup>*\<^sup>* empty_exec d"
  shows "length (events legFilled i d) = (case get_leg i d of Some l \<Rightarrow> if lg_state l = L_filled then 1 else 0 | None \<Rightarrow> 0)
    \<and> length (events planCompleted i d) = (case get_plan i d of Some p \<Rightarrow> if pl_state p = P_completed then 1 else 0 | None \<Rightarrow> 0)
    \<and> length (events planFailed i d) = (case get_plan i d of Some p \<Rightarrow> if pl_state p = P_failed then 1 else 0 | None \<Rightarrow> 0)"
  using exec_invD(6) [OF exec_run_inv [OF assms]] by (simp add: events_ok_def)

theorem settlement_events_exactly_once_witness:
  "length (events legFilled ''leg'' ex_completed) = 1 \<and> length (events planCompleted ''p1'' ex_completed) = 1"
  using settlement_events_exactly_once [OF ex_run, of "''leg''"] settlement_events_exactly_once [OF ex_run, of "''p1''"]
    ex_legs(4) ex_completed_plan by (auto split: option.splits)

text \<open>
  C7: fills stay within the target. In every reachable state a leg is filled to exactly its target, a
  partially filled leg lies strictly between zero and its target, and a leg that has not been
  acknowledged has filled nothing; over any further run the target of a leg is fixed and, for a
  positive target, its filled quantity never decreases.
\<close>

theorem fills_bounded_and_monotone:
  assumes "exec_step\<^sup>*\<^sup>* empty_exec d" and "get_leg i d = Some l" and "exec_step\<^sup>*\<^sup>* d d'" and "0 < lg_targetQuantity l"
  shows "leg_ok l \<and> lg_filledQuantity l \<le> lg_targetQuantity l \<and>
    (\<exists>l'. get_leg i d' = Some l' \<and> lg_targetQuantity l' = lg_targetQuantity l
      \<and> lg_filledQuantity l \<le> lg_filledQuantity l' \<and> lg_filledQuantity l' \<le> lg_targetQuantity l)"
proof -
  have inv: "exec_inv d" using exec_run_inv [OF assms(1)] by simp
  then have inv': "exec_inv d'" using exec_run_inv [OF assms(3)] by blast
  have ok: "leg_ok l" using exec_invD(3) [OF inv get_leg_in [OF assms(2)]] .
  from effects_leg [OF exec_run_effects [OF assms(3) inv] inv assms(2)] assms(4) obtain l' where
    l': "get_leg i d' = Some l'" "lg_targetQuantity l' = lg_targetQuantity l" "lg_filledQuantity l \<le> lg_filledQuantity l'"
    by auto
  have ok': "leg_ok l'" using exec_invD(3) [OF inv' get_leg_in [OF l'(1)]] .
  have b: "lg_filledQuantity x \<le> lg_targetQuantity x" if "leg_ok x" "0 < lg_targetQuantity x" for x
    using that by (cases "lg_state x") (auto simp: leg_ok_def)
  show ?thesis using ok b [OF ok assms(4)] l' b [OF ok'] assms(4) by auto
qed

theorem fills_bounded_and_monotone_witness:
  "\<exists>l'. get_leg ''leg'' ex_completed = Some l' \<and> lg_targetQuantity l' = 10 \<and> lg_filledQuantity l' \<le> 10"
proof -
  have "map_option lg_targetQuantity (get_leg ''leg'' ex_started) = Some 10" by code_simp
  then obtain l where l: "get_leg ''leg'' ex_started = Some l" "lg_targetQuantity l = 10" by auto
  from fills_bounded_and_monotone [OF ex_run_to_started l(1) ex_run_from_started] l(2) show ?thesis by auto
qed

section \<open>Fills\<close>

text \<open>
  A retried fill is idempotent. When a fill with an idempotency key has succeeded, the same
  request again succeeds, returns the leg as it is, asks for no settlement and changes nothing,
  also when it carries the version the client knew before the first attempt.
\<close>

theorem fill_retry_idempotent:
  assumes "applyFill pid lid dto m now d = (Inr r, d1)" and "given_key dto = Some k"
  shows "applyFill pid lid dto m' now' d1 = (Inr (fst r, None), d1)"
  using assms(1)
proof (cases rule: applyFill_cases)
  case (refused e)
  then show ?thesis by simp
next
  case (replayed l f)
  then obtain p where "get_plan pid d = Some p"
    using assms by (auto simp: applyFill_def fill_tx_def transaction_def split: option.splits)
  with replayed show ?thesis by (auto simp: applyFill_def fill_tx_def transaction_def)
next
  case (filled p l saved q s ctx)
  have id: "lg_id saved = lid" using filled(2,6) by (auto dest: get_leg_key)
  have p: "get_plan pid d1 = Some p" using filled(1,9) by (simp add: get_plan_def)
  have l: "find_leg_of_plan pid lid d1 = Some saved"
    using filled(3,6,10) id by (simp add: find_leg_of_plan_Some db_row_simps)
  have seen: "\<exists>f \<in> set (ed_fills d1). fi_legId f = lid \<and> Some (fi_idempotencyKey f) = given_key dto"
    using filled(12) assms(2) by auto
  have "fill_tx pid lid dto m' now' d1 = (Inr (saved, None), d1)"
    unfolding fill_tx_def using p l seen by simp
  then show ?thesis using filled(7) by (simp add: applyFill_def transaction_def)
qed

theorem fill_retry_idempotent_witness:
  "\<exists>l. applyFill ''p1'' ''leg'' ex_dto ''m9'' 99 ex_filled = (Inr (l, None), ex_filled) \<and> lg_state l = L_filled"
proof -
  have "(case fst (applyFill ''p1'' ''leg'' ex_dto ''m3'' 7 ex_acked) of Inr (l, c) \<Rightarrow> lg_state l = L_filled | Inl _ \<Rightarrow> False)"
    by code_simp
  then obtain l c where r: "applyFill ''p1'' ''leg'' ex_dto ''m3'' 7 ex_acked = (Inr (l, c), ex_filled)" "lg_state l = L_filled"
    unfolding ex_filled_def by (cases "applyFill ''p1'' ''leg'' ex_dto ''m3'' 7 ex_acked") (auto split: sum.splits)
  have "given_key ex_dto = Some ''key''" by (simp add: given_key_def ex_dto_def)
  from fill_retry_idempotent [OF r(1) this, of "''m9''" 99] r(2) show ?thesis by auto
qed

text \<open>
  What a fill may do, on every branch. A successful fill without replay needs an acknowledged or
  partially filled leg of the plan and raises its version by one; a full fill sets the quantity to
  the target; a partial fill needs a reported quantity above the current one and at most the target,
  and the leg becomes filled exactly when the target is reached. A failing call changes nothing.
\<close>

theorem fill_branches:
  assumes "applyFill pid lid dto m now d = (out, d')"
  shows "case out of
      Inl _ \<Rightarrow> d' = d
    | Inr (saved, ctx) \<Rightarrow> (\<exists>l. get_leg lid d = Some l \<and> lg_planId l = pid \<and>
        (saved = l \<and> ctx = None \<and> d' = d \<or>
         lg_state l \<in> {L_acknowledged, L_partiallyFilled} \<and> lg_entityVersion saved = lg_entityVersion l + 1
         \<and> get_leg lid d' = Some saved \<and> lg_targetQuantity saved = lg_targetQuantity l
         \<and> (ctx \<noteq> None \<longleftrightarrow> lg_state saved = L_filled)
         \<and> (if af_mode dto = Some partial_fill
            then \<exists>c. af_cumulativeFilled dto = Some c \<and> lg_filledQuantity l < c \<and> c \<le> lg_targetQuantity l
               \<and> lg_filledQuantity saved = c
               \<and> lg_state saved = (if c = lg_targetQuantity l then L_filled else L_partiallyFilled)
            else lg_filledQuantity saved = lg_targetQuantity l \<and> lg_state saved = L_filled)))"
  using assms
proof (cases rule: applyFill_cases)
  case (refused e)
  then show ?thesis by simp
next
  case (replayed l f)
  then show ?thesis by (auto simp: find_leg_of_plan_Some)
next
  case (filled p l saved q s ctx)
  have id: "lg_id saved = lid" using filled(2,6) by (auto dest: get_leg_key)
  have g: "get_leg lid d' = Some saved" using filled(10) id by (simp add: db_row_simps)
  have n: "if af_mode dto = Some partial_fill
            then \<exists>c. af_cumulativeFilled dto = Some c \<and> lg_filledQuantity l < c \<and> c \<le> lg_targetQuantity l
               \<and> q = c \<and> s = (if c = lg_targetQuantity l then L_filled else L_partiallyFilled)
            else q = lg_targetQuantity l \<and> s = L_filled"
    using filled(5) by (auto simp: next_fill_def split: option.splits fill_mode.splits if_splits)
  show ?thesis using filled g n by auto
qed

theorem fill_branches_witness:
  "case applyFill ''p1'' ''leg'' ex_dto ''m3'' 7 ex_started of (Inl _, d') \<Rightarrow> d' = ex_started | _ \<Rightarrow> False"
proof -
  have e: "(case fst (applyFill ''p1'' ''leg'' ex_dto ''m3'' 7 ex_started) of Inl _ \<Rightarrow> True | Inr _ \<Rightarrow> False)" by code_simp
  obtain out d' where o: "applyFill ''p1'' ''leg'' ex_dto ''m3'' 7 ex_started = (out, d')"
    by (cases "applyFill ''p1'' ''leg'' ex_dto ''m3'' 7 ex_started")
  from fill_branches [OF o] e o show ?thesis by (auto split: sum.splits)
qed

section \<open>Submission and recovery\<close>

lemma no_confirmed:
  assumes "onchain_inv d" and "get_leg i d = Some l" and "lg_state l = L_submitting"
  shows "\<forall>t \<in> set (ed_onchain d). oc_legId t \<noteq> Some i"
  using assms by (auto simp: onchain_inv_def)

text \<open>
  C21: the recovery branch of the reaper is dead. The row of a broadcast is only written together with
  the transition to \<open>sent\<close>, so in every reachable state a submitting leg has no on-chain row:
  reconciling it always fails it, and the check that should spare plans with a transaction in
  flight never finds one. A leg whose process crashed after the broadcast is always failed.
\<close>

theorem reaper_never_recovers:
  assumes "exec_step\<^sup>*\<^sup>* empty_exec d" and "get_leg (lg_id l) d = Some l" and "lg_state l = L_submitting"
  shows "reapStuckLeg l now d = (False, save_leg (l\<lparr>lg_state := L_failed,
      lg_entityVersion := lg_entityVersion l + 1, lg_updatedAt := now\<rparr>) d)
    \<and> \<not> planHasPendingOnChainTx (lg_planId l) d"
proof -
  have inv: "onchain_inv d" "exec_inv d" using exec_run_onchain_inv [OF assms(1)] by simp_all
  have "confirmed_desc (lg_id l) d = None"
    using no_confirmed [OF inv(1) assms(2,3)] by (simp add: confirmed_desc_def)
  then have "reapStuckLeg l now d = (False, save_leg (l\<lparr>lg_state := L_failed,
      lg_entityVersion := lg_entityVersion l + 1, lg_updatedAt := now\<rparr>) d)"
    using assms by (simp add: reapStuckLeg_def reap_tx_def)
  moreover have "onchain_of_legs (map lg_id (filter (\<lambda>x. lg_state x = L_submitting) (legs_of_plan (lg_planId l) d))) d = []"
  proof -
    have "oc_legId t \<noteq> Some (lg_id x)" if "t \<in> set (ed_onchain d)"
        "x \<in> set (filter (\<lambda>x. lg_state x = L_submitting) (legs_of_plan (lg_planId l) d))" for t x
      using no_confirmed [OF inv(1) in_get_leg [OF inv(2)], of x] that by (auto simp: legs_of_plan_def)
    then show ?thesis by (fastforce simp: onchain_of_legs_def filter_empty_conv split: option.splits)
  qed
  ultimately show ?thesis by (simp add: planHasPendingOnChainTx_def Let_def)
qed

theorem reaper_never_recovers_witness:
  "\<exists>l. get_leg ''leg'' ex_submitting = Some l \<and> fst (reapStuckLeg l 99 ex_submitting) = False"
proof -
  obtain l where l: "get_leg ''leg'' ex_submitting = Some l" "lg_state l = L_submitting" using ex_legs(2) by auto
  moreover have "lg_id l = ''leg''" using l(1) by (rule get_leg_key)
  moreover have "exec_step\<^sup>*\<^sup>* empty_exec ex_submitting"
    using ex_run_to_started ex_steps(5) by (rule rtranclp.rtrancl_into_rtrancl)
  ultimately show ?thesis using reaper_never_recovers [of ex_submitting l 99] by auto
qed

text \<open>
  a late completion loses the proof of its broadcast. When the leg has left \<open>submitting\<close> while
  the venue was answering (the reaper has failed it), phase 3 persists no on-chain row, emits no
  event and keeps the leg as it is; it answers success and still records \<open>MarkLegSent\<close>.
\<close>

theorem late_completion_loses_proof:
  assumes "get_leg lid d = Some l" and "lg_planId l = pid" and "lg_state l \<noteq> L_submitting"
  shows "\<exists>a. completeMarkSent pid lid corr x (Some meta) m now d = (Inr l, audited a d) \<and> au_action a = ''MarkLegSent''
    \<and> au_resourceId a = lid"
  using assms get_leg_key [OF assms(1)]
  by (auto simp: completeMarkSent_def complete_tx_def transaction_def find_leg_of_plan_def exec_audit_def)

definition ex_meta :: onchain_meta where
  "ex_meta = \<lparr> om_txHash = ''0xabc'', om_chainId = 1, om_fromAddress = ''0x1'', om_toAddress = ''0x2'', om_nonce = None,
     om_gasLimit = None, om_gasUsed = None, om_gasPrice = None, om_maxFeePerGas = None, om_maxPriorityFeePerGas = None,
     om_blockNumber = None, om_blockHash = None, om_transactionIndex = None, om_value = None, om_status = tx_confirmed,
     om_revertReason = None \<rparr>"

theorem late_completion_loses_proof_witness:
  "\<exists>l a d. completeMarkSent ''p1'' ''leg'' None ''order'' (Some ex_meta) ''m9'' 9 d = (Inr l, audited a d)
     \<and> lg_state l = L_failed \<and> ed_onchain (audited a d) = []"
proof -
  define d where "d = snd (reapStuckLeg (the (get_leg ''leg'' ex_submitting)) 99 ex_submitting)"
  have "map_option (\<lambda>l. (lg_planId l, lg_state l)) (get_leg ''leg'' d) = Some (''p1'', L_failed)"
    unfolding d_def by code_simp
  then obtain l where l: "get_leg ''leg'' d = Some l" "lg_planId l = ''p1''" "lg_state l = L_failed" by auto
  have "ed_onchain d = []" unfolding d_def by code_simp
  with late_completion_loses_proof [OF l(1,2), of None "''order''" ex_meta "''m9''" 9] l(3) show ?thesis by auto
qed

text \<open>
  a bridge leg without parameters. Its submission fails the leg, but the exception is thrown inside
  the \<open>try\<close> block, so the caller gets the transient answer 503 (the leg is submitting) instead of 422.
\<close>

theorem bridge_without_params_answers_503:
  assumes "get_plan pid d = Some p" and "pl_state p = P_executing" and "get_leg lid d = Some l" and "lg_planId l = pid"
    and "lg_state l = L_created" and "lg_legType l = bridge"
    and "extractBridgeParams (pl_playbookConfig p) (lg_legIndex l) = None"
  shows "\<exists>d'. markSent pid lid False venue submitBridge m now id now2 d
      = (Inl (ServiceUnavailableException ''Venue submitLeg failed; leg is submitting''), d')
    \<and> (\<exists>l'. get_leg lid d' = Some l' \<and> lg_state l' = L_failed)"
proof -
  have id: "lg_id l = lid" using assms(3) by (rule get_leg_key)
  let ?l = "l\<lparr>lg_state := L_submitting, lg_entityVersion := lg_entityVersion l + 1, lg_updatedAt := now\<rparr>"
  have b: "beginMarkSent pid lid False now d = (Inr (p, ?l), save_leg ?l d)"
    using assms by (simp add: beginMarkSent_def transaction_def find_leg_of_plan_def assertLiveNotHalted_def Let_def)
  have f: "find_leg_of_plan pid lid (save_leg ?l d) = Some ?l"
    using assms(4) id by (simp add: find_leg_of_plan_Some row_simps)
  have "\<exists>l'. get_leg lid (failSubmittingLeg pid lid c msg now2 (save_leg ?l d)) = Some l' \<and> lg_state l' = L_failed" for c msg
    using f id by (simp add: failSubmittingLeg_def Let_def row_simps)
  then show ?thesis using b assms(6,7) by (simp add: markSent_def)
qed

definition ex_bridge_plan :: plan where
  "ex_bridge_plan = \<lparr> pl_id = ''p1'', pl_correlationId = None, pl_state = P_executing, pl_capitalReservationId = None,
     pl_riskDecisionId = None, pl_routeKey = None, pl_entityVersion = 4, pl_playbookConfig = None, pl_costBreakdown = None,
     pl_createdAt = 0, pl_updatedAt = 0 \<rparr>"

definition ex_bridge_db :: exec_db where
  "ex_bridge_db = empty_exec\<lparr>ed_plans := [ex_bridge_plan],
     ed_legs := [mk_leg ''leg'' ''p1'' \<lparr> df_legIndex = 0, df_legType = bridge, df_chainId = Some 1, df_targetQuantity = 1 \<rparr> 0]\<rparr>"

theorem bridge_without_params_answers_503_witness:
  "\<exists>d'. markSent ''p1'' ''leg'' False (\<lambda>_ _. VOther ''down'') (\<lambda>_ _. VOther ''down'') ''m'' 1 id 2 ex_bridge_db
      = (Inl (ServiceUnavailableException ''Venue submitLeg failed; leg is submitting''), d')
    \<and> (\<exists>l'. get_leg ''leg'' d' = Some l' \<and> lg_state l' = L_failed)"
  by (rule bridge_without_params_answers_503 [where p = ex_bridge_plan and l = "mk_leg ''leg'' ''p1''
        \<lparr> df_legIndex = 0, df_legType = bridge, df_chainId = Some 1, df_targetQuantity = 1 \<rparr> 0"])
    (simp_all add: ex_bridge_db_def ex_bridge_plan_def get_plan_def get_leg_def get_row_def mk_leg_def extractBridgeParams_def)

text \<open>
  The kill switch stops exactly the live legs. While it is active, \<open>markSent\<close> of a created bridge
  leg or of a leg of a live venue is refused and changes nothing, so the leg stays created; for a
  paper leg the flag makes no difference at all.
\<close>

theorem kill_switch_blocks_live_legs:
  assumes "get_plan pid d = Some p" and "pl_state p = P_executing" and "get_leg lid d = Some l" and "lg_planId l = pid"
    and "lg_state l = L_created"
  shows "if lg_legType l = bridge \<or> isLiveVenueKey (extractVenueKey p l)
    then markSent pid lid True venue submitBridge m now env now2 d
       = (Inl (ConflictException ''DEX live execution is halted (kill switch active)''), d)
    else markSent pid lid True venue submitBridge m now env now2 d = markSent pid lid False venue submitBridge m now env now2 d"
proof -
  have b: "beginMarkSent pid lid h now d = (if (lg_legType l = bridge \<or> isLiveVenueKey (extractVenueKey p l)) \<and> h
      then (Inl (ConflictException ''DEX live execution is halted (kill switch active)''), d)
      else (let l' = l\<lparr>lg_state := L_submitting, lg_entityVersion := lg_entityVersion l + 1, lg_updatedAt := now\<rparr>
            in (Inr (p, l'), save_leg l' d)))" for h
    using assms by (simp add: beginMarkSent_def transaction_def find_leg_of_plan_def assertLiveNotHalted_def Let_def)
  show ?thesis by (simp add: markSent_def b)
qed

theorem kill_switch_blocks_live_legs_witness:
  "markSent ''p1'' ''leg'' True (\<lambda>_ _. VSent ''x'' None) (\<lambda>_ _. VSent ''x'' None) ''m'' 1 id 2 ex_bridge_db
    = (Inl (ConflictException ''DEX live execution is halted (kill switch active)''), ex_bridge_db)"
  using kill_switch_blocks_live_legs [where pid = "''p1''" and d = ex_bridge_db and p = ex_bridge_plan and lid = "''leg''"
      and l = "mk_leg ''leg'' ''p1'' \<lparr> df_legIndex = 0, df_legType = bridge, df_chainId = Some 1, df_targetQuantity = 1 \<rparr> 0"]
  by (simp add: ex_bridge_db_def ex_bridge_plan_def get_plan_def get_leg_def get_row_def mk_leg_def)

section \<open>Failed plans\<close>

text \<open>
  A failed plan is not closed. \<open>markFailed\<close> of an executing plan fails its created, submitting and
  partially filled legs and leaves an acknowledged leg as it is; a full fill of that leg still
  succeeds afterwards and starts its settlement, while the plan stays failed.
\<close>

theorem failed_plan_still_fills:
  assumes "exec_inv d" and "get_plan pid d = Some p" and "pl_state p = P_executing"
    and "get_leg lid d = Some l" and "lg_planId l = pid" and "lg_state l = L_acknowledged"
    and "af_mode dto = None" and "af_clientKnownVersion dto = None" and "given_key dto = None"
    and "markFailed pid reason m now d = (out, d1)" and "applyFill pid lid dto m' now' d1 = (out', d2)"
  shows "(\<exists>p1. get_plan pid d1 = Some p1 \<and> pl_state p1 = P_failed)
    \<and> (\<exists>l2 ctx. out' = Inr (l2, Some ctx) \<and> lg_state l2 = L_filled)
    \<and> (\<exists>p2. get_plan pid d2 = Some p2 \<and> pl_state p2 = P_failed)"
  using assms(10) exec_invD(2) [OF assms(1)]
proof (cases rule: markFailed_cases)
  case (refused r)
  with assms(2,3) show ?thesis by simp
next
  case (changed p0 saved ev a)
  then have k: "pl_id saved = pid" by (auto dest: get_plan_key)
  have p1: "get_plan pid d1 = Some saved" "pl_state saved = P_failed"
    using changed k by (simp_all add: get_plan_def row_simps)
  have l1: "get_leg lid d1 = Some l"
    using changed assms(4-6) by (simp add: get_leg_def row_simps sweep_leg_def swept_def)
  have n: "next_fill dto l = Inr (lg_targetQuantity l, L_filled)" using assms(7) by (simp add: next_fill_def)
  let ?s = "l\<lparr>lg_filledQuantity := lg_targetQuantity l, lg_state := L_filled, lg_entityVersion := lg_entityVersion l + 1, lg_updatedAt := now'\<rparr>"
  obtain l2 ctx d3 where c: "commit_fill pid lid dto m' now' saved ?s d1 = ((l2, ctx), d3)" by (metis surj_pair)
  have "fill_tx pid lid dto m' now' d1 = (Inr (l2, ctx), d3)"
    unfolding fill_tx_def using p1 l1 assms(5,6,8,9) n c by (simp add: find_leg_of_plan_def)
  then have o: "out' = Inr (l2, ctx)" "d2 = d3" using assms(11) by (simp_all add: applyFill_def transaction_def)
  from commit_fill_shape [OF c] have "lg_state l2 = L_filled" "\<exists>x. ctx = Some x" "get_plan pid d3 = get_plan pid d1"
    by (simp_all add: get_plan_def)
  with o p1 show ?thesis by auto
qed

definition ex_failed_dto :: apply_fill_dto where
  "ex_failed_dto = \<lparr> af_idempotencyKey = None, af_clientKnownVersion = None, af_mode = None, af_cumulativeFilled = None \<rparr>"

theorem failed_plan_still_fills_witness:
  "\<exists>p2. get_plan ''p1'' (snd (applyFill ''p1'' ''leg'' ex_failed_dto ''m9'' 9 (snd (markFailed ''p1'' manual ''m8'' 8 ex_acked))))
     = Some p2 \<and> pl_state p2 = P_failed"
proof -
  have "exec_step\<^sup>*\<^sup>* empty_exec ex_acked"
    using ex_run_to_started ex_steps(5-7) by (meson rtranclp.rtrancl_into_rtrancl)
  then have inv: "exec_inv ex_acked" using exec_run_inv by simp
  have "map_option pl_state (get_plan ''p1'' ex_acked) = Some P_executing"
    "map_option (\<lambda>l. (lg_planId l, lg_state l)) (get_leg ''leg'' ex_acked) = Some (''p1'', L_acknowledged)"
    by code_simp+
  then obtain p l where pl: "get_plan ''p1'' ex_acked = Some p" "pl_state p = P_executing"
      "get_leg ''leg'' ex_acked = Some l" "lg_planId l = ''p1''" "lg_state l = L_acknowledged" by auto
  have dto: "af_mode ex_failed_dto = None" "af_clientKnownVersion ex_failed_dto = None" "given_key ex_failed_dto = None"
    by (simp_all add: ex_failed_dto_def given_key_def)
  show ?thesis
    using failed_plan_still_fills [OF inv pl dto surjective_pairing surjective_pairing, of manual "''m8''" 8 "''m9''" 9] by blast
qed

section \<open>The pre-trade cost gate\<close>

lemma estimatePlanCost_cong:
  "pl_playbookConfig p' = pl_playbookConfig p \<Longrightarrow> estimatePlanCost est now p' = estimatePlanCost est now p"
  unfolding estimatePlanCost_def by (simp only: Let_def)


definition ex_live_plan :: plan where
  "ex_live_plan = ex_bridge_plan\<lparr>pl_state := P_armed, pl_playbookConfig := Some (JObj [(''venueKey'', JStr ''uniswap-v2'')])\<rparr>"

definition ex_live_db :: exec_db where
  "ex_live_db = empty_exec\<lparr>ed_plans := [ex_live_plan]\<rparr>"


text \<open>
  a live plan without playbook legs passes the gate unseen. If the playbook has no \<open>legs\<close> array and
  no gross profit, the estimate has no leg, costs nothing and counts as exact, so for every floor
  and whatever a leg would cost the plan begins execution with its default legs, also when its
  plan-level venue is live.
\<close>

theorem live_plan_without_legs_passes_gate:
  assumes "get_plan pid d = Some p" and "pl_state p = P_armed" and "legs_of_plan pid d = []"
    and "pl_playbookConfig p = Some (JObj kvs)" and "map_of kvs ''legs'' = None" and "map_of kvs ''dexSwaps'' = None"
    and "map_of kvs ''grossProfitUsd'' = None" and "map_of kvs ''venueKey'' = Some (JStr vk)" and "vk \<in> set DEX_VENUE_KEYS"
  shows "\<exists>p2 legs' d'. beginExecution pid newId cnt est minNet now d = (Inr (p2, legs'), d') \<and> legs' \<noteq> []
    \<and> (\<forall>l \<in> set legs'. isLiveVenueKey (extractVenueKey p2 l))"
proof -
  define p1 where "p1 = p\<lparr>pl_state := P_executing, pl_entityVersion := pl_entityVersion p + 1, pl_updatedAt := now\<rparr>"
  define dfs where "dfs = map (\<lambda>i. \<lparr> df_legIndex = int i, df_legType = dex, df_chainId = None, df_targetQuantity = 10 \<rparr>)
                [0..<readBeginLegCount cnt]"
  define ls where "ls = map (\<lambda>(i, df). mk_leg (newId i) (pl_id p1) df now) (enumerate 0 dfs)"
  have "length ls = readBeginLegCount cnt" by (simp add: ls_def dfs_def)
  then have ne: "ls \<noteq> []" using readBeginLegCount_bounds [of cnt] by auto
  have bd: "begin_leg_defs (pl_playbookConfig p1) cnt = Inr dfs"
    using assms(4,5) by (simp add: begin_leg_defs_def parsePlaybookConfig_def p1_def dfs_def jis_object_def)
  obtain b where b: "estimatePlanCost est now p1 = Inr b" "pc_legs b = []" "evaluatePlanGate minNet b = []"
    using assms(4,5,7)
    by (simp add: estimatePlanCost_def p1_def extractGrossProfitUsd_def aggregateConfidence_def evaluatePlanGate_def)
  define p2 where "p2 = p1\<lparr>pl_costBreakdown := Some (plan_cost_json b), pl_updatedAt := now\<rparr>"
  have cc: "map (cost_columns b now) ls = ls" using b(2) by (simp add: cost_columns_def find_cost_def map_idI)
  have live: "isLiveVenueKey (extractVenueKey p2 l)" for l
  proof -
    have "vk \<noteq> []" using assms(9) by (auto simp: DEX_VENUE_KEYS_def)
    then show ?thesis
      using assms(4-6,8,9) by (simp add: extractVenueKey_def p2_def p1_def jis_object_def array_entry_def obj_field_def
        jnonempty_str_def isLiveVenueKey_def)
  qed
  have "fst (applyPlanCostGate est minNet now p1 ls (fold save_leg ls (save_plan p1 d))) = Inr (p2, ls)"
    using b cc by (simp add: applyPlanCostGate_def Let_def p2_def)
  then obtain d3 where d3: "applyPlanCostGate est minNet now p1 ls (fold save_leg ls (save_plan p1 d)) = (Inr (p2, ls), d3)"
    by (metis prod.collapse)
  have "\<exists>d'. begin_tx pid newId cnt est minNet now d = (Inr (p2, ls), d')"
    using assms(1-3) unfolding begin_tx_def by (simp add: Let_def p1_def [symmetric] bd ls_def [symmetric] d3)
  with ne live show ?thesis by (auto simp: beginExecution_def)
qed

theorem live_plan_without_legs_passes_gate_witness:
  "\<exists>p2 l ls d'. beginExecution ''p1'' ex_ids None ex_est 1000000 3 ex_live_db = (Inr (p2, l # ls), d')
    \<and> isLiveVenueKey (extractVenueKey p2 l)"
proof -
  have "\<exists>p2 legs' d'. beginExecution ''p1'' ex_ids None ex_est 1000000 3 ex_live_db = (Inr (p2, legs'), d') \<and> legs' \<noteq> []
      \<and> (\<forall>l \<in> set legs'. isLiveVenueKey (extractVenueKey p2 l))"
    by (rule live_plan_without_legs_passes_gate [where p = ex_live_plan and kvs = "[(''venueKey'', JStr ''uniswap-v2'')]" and vk = "''uniswap-v2''"])
      (simp_all add: get_plan_def get_row_def ex_live_db_def ex_live_plan_def ex_bridge_plan_def legs_of_plan_def empty_exec_def
        DEX_VENUE_KEYS_def)
  then obtain p2 legs' d' where "beginExecution ''p1'' ex_ids None ex_est 1000000 3 ex_live_db = (Inr (p2, legs'), d')"
    "legs' \<noteq> []" "\<forall>l \<in> set legs'. isLiveVenueKey (extractVenueKey p2 l)" by blast
  then show ?thesis by (cases legs') auto
qed

end
