(* ===== verification/Risk.thy ===== *)
theory Risk
  imports Outbox
begin

text \<open>
  \<open>apps/risk-service\<close>: the notional policy (\<open>risk.policy.ts\<close>), the adaptive multiplier
  (\<open>adaptive-risk.service.ts\<close>) and the single writer of risk decisions and risk window
  reservations (\<open>risk.service.ts\<close>, \<open>risk-window-reservation-expiry.ts\<close>).
\<close>

section \<open>Policy\<close>

datatype risk_mode = fast | standard | conservative

datatype risk_outcome = approved | rejected | deferred

fun thresholds_usd :: "risk_mode \<Rightarrow> rat" where
  "thresholds_usd fast = 5000000"
| "thresholds_usd standard = 1000000"
| "thresholds_usd conservative = 250000"

definition utc_hour :: "int \<Rightarrow> int" where
  "utc_hour now = (now div 3600000) mod 24"

fun mode_name :: "risk_mode \<Rightarrow> string" where
  "mode_name fast = ''fast''"
| "mode_name standard = ''standard''"
| "mode_name conservative = ''conservative''"

fun outcome_name :: "risk_outcome \<Rightarrow> string" where
  "outcome_name approved = ''approved''"
| "outcome_name rejected = ''rejected''"
| "outcome_name deferred = ''deferred''"

definition evaluateRiskPolicy :: "rat \<Rightarrow> risk_mode \<Rightarrow> int \<Rightarrow> rat option \<Rightarrow> risk_outcome \<times> string list" where
  "evaluateRiskPolicy notionalUsd mode now profileCap =
     (let hourUtc = utc_hour now
      in if mode = conservative \<and> (hourUtc < 8 \<or> hourUtc > 20)
         then (deferred, [''Conservative mode: deferred outside UTC window [8, 20] (current hour UTC: ''
                 @ string_of_int hourUtc @ '')''])
         else
           (let modeLimit = thresholds_usd mode;
                effectiveLimit = (case profileCap of None \<Rightarrow> modeLimit | Some c \<Rightarrow> min modeLimit c)
            in if notionalUsd > effectiveLimit
               then (rejected, [''Notional '' @ js_number_string notionalUsd @ '' exceeds '' @
                 (case profileCap of
                    None \<Rightarrow> mode_name mode @ '' threshold '' @ js_number_string modeLimit @ '' USD''
                  | Some c \<Rightarrow> ''effective cap '' @ js_number_string effectiveLimit @ '' USD (mode ''
                      @ js_number_string modeLimit @ '' USD, profile '' @ js_number_string c @ '' USD)'')])
               else (approved, [
                 (case profileCap of
                    None \<Rightarrow> ''Within '' @ mode_name mode @ '' notional limit ('' @ js_number_string modeLimit @ '' USD)''
                  | Some c \<Rightarrow> ''Within '' @ mode_name mode @ '' limit and profile cap (''
                      @ js_number_string effectiveLimit @ '' USD)'')])))"

definition multiplierFor :: "int \<Rightarrow> risk_mode \<Rightarrow> rat" where
  "multiplierFor now mode =
     (let h = utc_hour now; inPeak = (h \<ge> 12 \<and> h \<le> 20)
      in case mode of
           conservative \<Rightarrow> if inPeak then 3 / 4 else 9 / 10
         | fast \<Rightarrow> if inPeak then 17 / 20 else 1
         | standard \<Rightarrow> if inPeak then 9 / 10 else 1)"

definition describeMultiplier :: "int \<Rightarrow> risk_mode \<Rightarrow> string" where
  "describeMultiplier now mode =
     (let h = utc_hour now; peak = (h \<ge> 12 \<and> h \<le> 20)
      in ''Adaptive risk: UTC hour '' @ string_of_int h @ '', peak='' @ (if peak then ''true'' else ''false'')
         @ '', multiplier='' @ js_number_string (multiplierFor now mode) @ '' ('' @ mode_name mode @ '')'')"

section \<open>State\<close>

datatype window_state = W_reserved | W_consumed | W_expired | W_released

record risk_window =
  rw_id :: string
  rw_windowKey :: string
  rw_correlationId :: string
  rw_planReference :: string
  rw_notionalUsd :: rat
  rw_state :: window_state
  rw_entityVersion :: int
  rw_expiresAt :: int

record risk_decision =
  rk_id :: string
  rk_correlationId :: string
  rk_planReference :: string
  rk_outcome :: risk_outcome
  rk_reasons :: "string list"
  rk_snapshotVersion :: int
  rk_riskMode :: risk_mode
  rk_notionalUsd :: rat
  rk_idempotencyKey :: "string option"
  rk_windowId :: "string option"
  rk_instrumentKey :: "string option"
  rk_routeKey :: "string option"
  rk_entityVersion :: int
  rk_createdAt :: int

record risk_db =
  kd_decisions :: "risk_decision list"
  kd_windows :: "risk_window list"
  kd_tokenProfiles :: "(string \<times> string) list"   \<comment> \<open>instrument key and \<open>maxNotionalUsd\<close>\<close>
  kd_routeProfiles :: "(string \<times> string) list"   \<comment> \<open>route key and \<open>maxNotionalUsd\<close>\<close>
  kd_outbox :: "outbox_row list"
  kd_audit :: "audit_entry list"

definition get_window :: "string \<Rightarrow> risk_db \<Rightarrow> risk_window option" where
  "get_window i d = get_row rw_id i (kd_windows d)"

definition save_window :: "risk_window \<Rightarrow> risk_db \<Rightarrow> risk_db" where
  "save_window w d = d\<lparr>kd_windows := save_row rw_id w (kd_windows d)\<rparr>"

interpretation windows: row_store get_window save_window rw_id
  by unfold_locales (simp_all add: get_window_def save_window_def row_simps)

definition get_decision :: "string \<Rightarrow> risk_db \<Rightarrow> risk_decision option" where
  "get_decision i d = get_row rk_id i (kd_decisions d)"

section \<open>Operations\<close>

record reserve_window_dto =
  wd_windowKey :: string
  wd_correlationId :: string
  wd_planReference :: string
  wd_notionalUsd :: rat
  wd_ttlSeconds :: "int option"

definition risk_audit :: "string \<Rightarrow> string \<Rightarrow> string \<Rightarrow> string \<Rightarrow> json \<Rightarrow> audit_entry" where
  "risk_audit action resourceType rid correlationId payload =
     \<lparr> au_idempotencyKey = Some (''risk:'' @ action @ '':'' @ rid), au_correlationId = Some correlationId,
       au_actor = ''risk-service'', au_action = action, au_resourceType = resourceType, au_resourceId = rid,
       au_payload = payload \<rparr>"

definition reserveRiskWindow :: "reserve_window_dto \<Rightarrow> string \<Rightarrow> int \<Rightarrow> risk_db \<Rightarrow> risk_window \<times> risk_db" where
  "reserveRiskWindow dto newId now d =
     (let ttl = (case wd_ttlSeconds dto of None \<Rightarrow> 900 | Some t \<Rightarrow> t);
          row = \<lparr> rw_id = newId, rw_windowKey = wd_windowKey dto, rw_correlationId = wd_correlationId dto,
            rw_planReference = wd_planReference dto, rw_notionalUsd = wd_notionalUsd dto, rw_state = W_reserved,
            rw_entityVersion = 1, rw_expiresAt = now + ttl * 1000 \<rparr>;
          d1 = save_window row d
      in (row, d1\<lparr>kd_audit := kd_audit d1 @ [risk_audit ''ReserveRiskWindow'' ''RiskWindowReservation'' newId (wd_correlationId dto)
            (JObj [(''windowKey'', JStr (wd_windowKey dto)), (''planReference'', JStr (wd_planReference dto)),
               (''notionalUsd'', JNum (wd_notionalUsd dto))])]\<rparr>))"

definition materializeRiskWindowReservationExpiryIfNeeded :: "risk_window \<Rightarrow> int \<Rightarrow> bool \<times> risk_window" where
  "materializeRiskWindowReservationExpiryIfNeeded row now =
     (if rw_state row \<noteq> W_reserved then (False, row)
      else if rw_expiresAt row > now then (False, row)
      else (True, row\<lparr>rw_state := W_expired, rw_entityVersion := rw_entityVersion row + 1\<rparr>))"

record evaluate_dto =
  ev_idempotencyKey :: "string option"
  ev_correlationId :: string
  ev_planReference :: string
  ev_notionalUsd :: rat
  ev_snapshotVersion :: int
  ev_riskMode :: "risk_mode option"
  ev_windowId :: "string option"
  ev_instrumentKey :: "string option"
  ev_routeKey :: "string option"
  ev_adaptiveRisk :: "bool option"

definition request_mode :: "evaluate_dto \<Rightarrow> risk_mode" where
  "request_mode q = (case ev_riskMode q of None \<Rightarrow> standard | Some m \<Rightarrow> m)"

definition profile_cap :: "(string \<times> string) list \<Rightarrow> string option \<Rightarrow> rat option" where
  "profile_cap profiles key =
     (case map_option js_trim key of
        None \<Rightarrow> None
      | Some k \<Rightarrow> if k = [] then None
          else (case map_of profiles k of None \<Rightarrow> None
                | Some raw \<Rightarrow> (case js_Number raw of Fin n \<Rightarrow> if n > 0 then Some n else None | _ \<Rightarrow> None)))"

definition loadProfileCapsUsd :: "evaluate_dto \<Rightarrow> int \<Rightarrow> risk_db \<Rightarrow> rat option" where
  "loadProfileCapsUsd q now d =
     (let cap1 = profile_cap (kd_tokenProfiles d) (ev_instrumentKey q);
          cap = (case profile_cap (kd_routeProfiles d) (ev_routeKey q) of
                   None \<Rightarrow> cap1
                 | Some n \<Rightarrow> (case cap1 of None \<Rightarrow> Some n | Some c \<Rightarrow> Some (min c n)))
      in if ev_adaptiveRisk q = Some True then map_option (\<lambda>c. c * multiplierFor now (request_mode q)) cap else cap)"

definition assertSameEvaluateRequest :: "risk_decision \<Rightarrow> evaluate_dto \<Rightarrow> exn + unit" where
  "assertSameEvaluateRequest row q =
     (if rk_correlationId row = ev_correlationId q \<and> rk_planReference row = ev_planReference q
         \<and> rk_snapshotVersion row = ev_snapshotVersion q \<and> rk_riskMode row = request_mode q
         \<and> \<bar>rk_notionalUsd row - ev_notionalUsd q\<bar> < 1 / 100000000
         \<and> rk_windowId row = ev_windowId q
         \<and> rk_instrumentKey row = map_option js_trim (ev_instrumentKey q)
         \<and> rk_routeKey row = map_option js_trim (ev_routeKey q)
         \<and> (ev_adaptiveRisk q = Some True) = (\<exists>r \<in> set (rk_reasons row). starts_with r ''Adaptive risk:'')
      then Inr () else Inl (ConflictException ''Risk idempotency key conflicts with request payload''))"

definition consume_window :: "evaluate_dto \<Rightarrow> int \<Rightarrow> risk_db \<Rightarrow> (string option, risk_db) outcome" where
  "consume_window q now d =
     (case ev_windowId q of
        None \<Rightarrow> (Inr None, d)
      | Some wid \<Rightarrow>
          (case get_window wid d of
             None \<Rightarrow> (Inl (BadRequestException ''Unknown risk window reservation''), d)
           | Some resv0 \<Rightarrow>
               (let resv = snd (materializeRiskWindowReservationExpiryIfNeeded resv0 now)
                in if rw_state resv \<noteq> W_reserved then (Inl (BadRequestException ''Risk window reservation not usable''), d)
                   else if rw_correlationId resv \<noteq> ev_correlationId q
                   then (Inl (ConflictException ''Risk window reservation correlationId mismatch''), d)
                   else if rw_planReference resv \<noteq> ev_planReference q
                   then (Inl (ConflictException ''Risk window reservation planReference mismatch''), d)
                   else if \<bar>rw_notionalUsd resv - ev_notionalUsd q\<bar> > 1 / 100000000
                   then (Inl (ConflictException ''Risk window reservation notionalUsd mismatch''), d)
                   else (Inr (Some (rw_id resv)),
                     save_window (resv\<lparr>rw_state := W_consumed, rw_entityVersion := rw_entityVersion resv + 1\<rparr>) d))))"

text \<open>The row and the outbox row of a new decision.\<close>

definition new_decision :: "evaluate_dto \<Rightarrow> string option \<Rightarrow> string \<Rightarrow> int \<Rightarrow> int \<Rightarrow> risk_db \<Rightarrow> risk_decision" where
  "new_decision q windowId newId now createdAt d =
     (let profileMax = loadProfileCapsUsd q now d
      in case evaluateRiskPolicy (ev_notionalUsd q) (request_mode q) now profileMax of
           (out, reasons) \<Rightarrow>
             \<lparr> rk_id = newId, rk_correlationId = ev_correlationId q, rk_planReference = ev_planReference q,
               rk_outcome = out,
               rk_reasons = (if ev_adaptiveRisk q = Some True
                  then reasons @ [describeMultiplier now (request_mode q)
                    @ (if profileMax = None then '' (no profile cap applied)'' else [])]
                  else reasons),
               rk_snapshotVersion = ev_snapshotVersion q, rk_riskMode = request_mode q,
               rk_notionalUsd = ev_notionalUsd q, rk_idempotencyKey = ev_idempotencyKey q, rk_windowId = windowId,
               rk_instrumentKey = map_option js_trim (ev_instrumentKey q),
               rk_routeKey = map_option js_trim (ev_routeKey q), rk_entityVersion = 1, rk_createdAt = createdAt \<rparr>)"

definition decision_event :: "risk_decision \<Rightarrow> string \<Rightarrow> outbox_row" where
  "decision_event row messageId =
     (let payload = JObj [(''decisionId'', JStr (rk_id row)), (''outcome'', JStr (outcome_name (rk_outcome row))),
            (''planReference'', JStr (rk_planReference row)), (''notionalUsd'', JNum (rk_notionalUsd row)),
            (''snapshotVersion'', JNum (of_int (rk_snapshotVersion row))), (''riskMode'', JStr (mode_name (rk_riskMode row))),
            (''reasons'', JArr (map JStr (rk_reasons row)))]
      in mk_outbox messageId riskDecisionIssued ''RiskDecision'' (rk_id row) 1 payload
           (mk_envelope messageId (rk_correlationId row) ''RiskDecision'' (rk_id row) 1 ''risk-service'' (rk_createdAt row)
              riskDecisionIssued payload) (rk_createdAt row))"

text \<open>The transaction of \<open>evaluateRisk\<close>; the flag is \<open>replay\<close>. The three times are the three
  \<open>new Date()\<close> of the code: the expiry check, the policy and \<open>createdAt\<close>.\<close>

definition evaluate_tx ::
  "evaluate_dto \<Rightarrow> string \<Rightarrow> string \<Rightarrow> int \<Rightarrow> int \<Rightarrow> int \<Rightarrow> risk_db \<Rightarrow> (risk_decision \<times> bool, risk_db) outcome" where
  "evaluate_tx q newId messageId now now2 now3 d =
     (case (if ev_idempotencyKey q = None then None
            else find (\<lambda>r. rk_idempotencyKey r = ev_idempotencyKey q) (kd_decisions d)) of
        Some existing \<Rightarrow>
          (case assertSameEvaluateRequest existing q of
             Inl e \<Rightarrow> (Inl e, d)
           | Inr _ \<Rightarrow> (Inr (existing, True), d))
      | None \<Rightarrow>
          (case consume_window q now d of
             (Inl e, d1) \<Rightarrow> (Inl e, d1)
           | (Inr windowId, d1) \<Rightarrow>
               (let row = new_decision q windowId newId now2 now3 d1
                in (Inr (row, False),
                    d1\<lparr>kd_decisions := kd_decisions d1 @ [row],
                       kd_outbox := save_outbox (decision_event row messageId) (kd_outbox d1)\<rparr>))))"

definition evaluateRisk ::
  "evaluate_dto \<Rightarrow> string \<Rightarrow> string \<Rightarrow> int \<Rightarrow> int \<Rightarrow> int \<Rightarrow> risk_db \<Rightarrow> (risk_decision \<times> bool, risk_db) outcome" where
  "evaluateRisk q newId messageId now now2 now3 d =
     (case transaction (evaluate_tx q newId messageId now now2 now3) d of
        (Inl e, d1) \<Rightarrow> (Inl e, d1)
      | (Inr (row, replay), d1) \<Rightarrow>
          (Inr (row, replay), if replay then d1
             else d1\<lparr>kd_audit := kd_audit d1 @ [risk_audit ''EvaluateRisk'' ''RiskDecision'' (rk_id row) (ev_correlationId q)
               (JObj [(''outcome'', JStr (outcome_name (rk_outcome row))), (''planReference'', JStr (rk_planReference row)),
                  (''snapshotVersion'', JNum (of_int (rk_snapshotVersion row)))])]\<rparr>))"

definition getRiskDecision :: "string \<Rightarrow> risk_db \<Rightarrow> exn + risk_decision" where
  "getRiskDecision i d = (case get_decision i d of None \<Rightarrow> Inl (NotFoundException ''Risk decision not found'') | Some r \<Rightarrow> Inr r)"

text \<open>The body of \<open>GET /risk-decisions/:id\<close>.\<close>

definition risk_view :: "risk_decision \<Rightarrow> json" where
  "risk_view r = JObj [(''id'', JStr (rk_id r)), (''correlationId'', JStr (rk_correlationId r)),
     (''planReference'', JStr (rk_planReference r)), (''outcome'', JStr (outcome_name (rk_outcome r))),
     (''reasons'', JArr (map JStr (rk_reasons r))), (''notionalUsd'', JNum (rk_notionalUsd r)),
     (''snapshotVersion'', JNum (of_int (rk_snapshotVersion r))), (''riskMode'', JStr (mode_name (rk_riskMode r))),
     (''createdAtIso'', JIso (rk_createdAt r)), (''entityVersion'', JNum (of_int (rk_entityVersion r)))]"

declare reserveRiskWindow_def [op_defs] consume_window_def [op_defs] evaluate_tx_def [op_defs] evaluateRisk_def [op_defs]

section \<open>Steps and life cycle of a window\<close>

inductive risk_step :: "risk_db \<Rightarrow> risk_db \<Rightarrow> bool" where
  rs_reserve: "reserveRiskWindow dto newId now d = (w, d') \<Longrightarrow> get_window newId d = None \<Longrightarrow> risk_step d d'"
| rs_evaluate: "evaluateRisk q newId m now now2 now3 d = (out, d') \<Longrightarrow> get_decision newId d = None \<Longrightarrow> risk_step d d'"

lemma get_window_key: "get_window i d = Some w \<Longrightarrow> rw_id w = i"
  by (auto simp: get_window_def dest: get_row_key)

lemma consume_window_cases:
  assumes "consume_window q now d = (Inr wo, d1)"
  obtains (none) "ev_windowId q = None" "wo = None" "d1 = d"
  | (some) wid w where "ev_windowId q = Some wid" "wo = Some wid" "get_window wid d = Some w" "rw_state w = W_reserved"
      "now < rw_expiresAt w" "rw_correlationId w = ev_correlationId q" "rw_planReference w = ev_planReference q"
      "d1 = save_window (w\<lparr>rw_state := W_consumed, rw_entityVersion := rw_entityVersion w + 1\<rparr>) d"
proof (cases "ev_windowId q")
  case None
  with assms none show thesis by (simp add: consume_window_def)
next
  case (Some wid)
  then obtain w where w: "get_window wid d = Some w" using assms by (auto simp: consume_window_def split: option.splits)
  have "rw_id w = wid" using w by (rule get_window_key)
  then show thesis
    using assms Some w some
    by (auto simp: consume_window_def materializeRiskWindowReservationExpiryIfNeeded_def Let_def split: if_splits)
qed

lemma evaluateRisk_cases:
  assumes "evaluateRisk q newId m now now2 now3 d = (out, d')"
  obtains (refused) e where "out = Inl e" "d' = d"
  | (replayed) r k where "ev_idempotencyKey q = Some k" "r \<in> set (kd_decisions d)" "rk_idempotencyKey r = Some k"
      "assertSameEvaluateRequest r q = Inr ()" "out = Inr (r, True)" "d' = d"
  | (decided) wo d1 row where "\<forall>k. ev_idempotencyKey q = Some k \<longrightarrow> (\<forall>r \<in> set (kd_decisions d). rk_idempotencyKey r \<noteq> Some k)"
      "consume_window q now d = (Inr wo, d1)" "row = new_decision q wo newId now2 now3 d1" "out = Inr (row, False)"
      "kd_decisions d' = kd_decisions d @ [row]" "kd_windows d' = kd_windows d1"
      "kd_outbox d' = save_outbox (decision_event row m) (kd_outbox d)"
proof -
  let ?f = "(if ev_idempotencyKey q = None then None
            else find (\<lambda>r. rk_idempotencyKey r = ev_idempotencyKey q) (kd_decisions d))"
  show thesis
  proof (cases ?f)
    case (Some r)
    then obtain k where k: "ev_idempotencyKey q = Some k" "r \<in> set (kd_decisions d)" "rk_idempotencyKey r = Some k"
      by (auto simp: find_Some_iff split: if_splits)
    show thesis
    proof (cases "assertSameEvaluateRequest r q")
      case (Inl e)
      with Some assms refused show thesis
        by (auto simp: evaluateRisk_def evaluate_tx_def transaction_def)
    next
      case (Inr u)
      with Some assms k show thesis
        by (intro replayed [of k r]) (auto simp: evaluateRisk_def evaluate_tx_def transaction_def)
    qed
  next
    case None
    then have fresh: "\<forall>k. ev_idempotencyKey q = Some k \<longrightarrow> (\<forall>r \<in> set (kd_decisions d). rk_idempotencyKey r \<noteq> Some k)"
      by (auto simp: find_None_iff)
    obtain co d1 where c: "consume_window q now d = (co, d1)" by (cases "consume_window q now d")
    show thesis
    proof (cases co)
      case (Inl e)
      with None c assms refused show thesis
        by (auto simp: evaluateRisk_def evaluate_tx_def transaction_def)
    next
      case (Inr wo)
      have keep: "kd_decisions d1 = kd_decisions d" "kd_outbox d1 = kd_outbox d"
        using c Inr by (auto simp: save_window_def elim!: consume_window_cases)
      have t: "evaluate_tx q newId m now now2 now3 d = (Inr (new_decision q wo newId now2 now3 d1, False),
          d1\<lparr>kd_decisions := kd_decisions d1 @ [new_decision q wo newId now2 now3 d1],
             kd_outbox := save_outbox (decision_event (new_decision q wo newId now2 now3 d1) m) (kd_outbox d1)\<rparr>)"
        unfolding evaluate_tx_def None using c Inr by (simp add: Let_def)
      then show thesis
        using assms fresh c Inr keep
        by (intro decided [of wo d1 "new_decision q wo newId now2 now3 d1"]) (auto simp: evaluateRisk_def transaction_def)
    qed
  qed
qed

definition window_allowed :: "window_state \<Rightarrow> window_state \<Rightarrow> bool" where
  "window_allowed s s' \<longleftrightarrow> s = W_reserved \<and> s' = W_consumed"

lemma get_window_cong: "kd_windows d' = kd_windows d \<Longrightarrow> get_window k d' = get_window k d"
  by (simp add: get_window_def)

lemma risk_step_row:
  assumes "risk_step d d'" and "get_window k d = Some w"
  shows "\<exists>w'. get_window k d' = Some w' \<and> (rw_state w' = rw_state w \<and> rw_entityVersion w' = rw_entityVersion w
     \<or> rw_entityVersion w' = rw_entityVersion w + 1 \<and> window_allowed (rw_state w) (rw_state w'))"
  using assms(1)
proof cases
  case (rs_reserve dto newId now w0)
  then have "get_window k d' = get_window k (save_window w0 d)" and "rw_id w0 = newId"
    by (auto simp: reserveRiskWindow_def Let_def get_window_def save_window_def)
  with rs_reserve(2) assms(2) show ?thesis by (auto simp: windows.get_save)
next
  case (rs_evaluate q newId m now now2 now3 out)
  from rs_evaluate(1) show ?thesis
  proof (cases rule: evaluateRisk_cases)
    case (refused e)
    with assms(2) show ?thesis by simp
  next
    case (replayed r k')
    with assms(2) show ?thesis by simp
  next
    case (decided wo d1 row)
    have g: "get_window k d' = get_window k d1" using get_window_cong [OF decided(6)] .
    from decided(2) show ?thesis
    proof (cases rule: consume_window_cases)
      case none
      with g assms(2) show ?thesis by simp
    next
      case (some wid w0)
      then have "rw_id w0 = wid" by (auto dest: get_window_key)
      with some g assms(2) show ?thesis by (auto simp: windows.get_save window_allowed_def)
    qed
  qed
qed

interpretation windowlife: lifecycle risk_step get_window rw_state rw_entityVersion window_allowed
  by unfold_locales (rule risk_step_row)

end
