(* ===== verification/Risk_Props.thy ===== *)
theory Risk_Props
  imports Risk
begin

text \<open>
  What the risk service promises: which notionals it approves, that a window reservation pays
  for one decision only, and that a repeated evaluation returns the stored decision.
\<close>

section \<open>Decisions are appended and never change\<close>

definition empty_risk :: "risk_db" where
  "empty_risk = \<lparr> kd_decisions = [], kd_windows = [], kd_tokenProfiles = [], kd_routeProfiles = [],
     kd_outbox = [], kd_audit = [] \<rparr>"

lemma risk_step_decisions:
  assumes "risk_step d d'"
  shows "\<exists>rs. kd_decisions d' = kd_decisions d @ rs"
  using assms
proof cases
  case (rs_reserve dto newId now w)
  then show ?thesis by (auto simp: reserveRiskWindow_def Let_def save_window_def)
next
  case (rs_evaluate q newId m now now2 now3 out)
  from rs_evaluate(1) show ?thesis by (cases rule: evaluateRisk_cases) auto
qed

lemma risk_run_decisions:
  "risk_step\<^sup>*\<^sup>* d d' \<Longrightarrow> \<exists>rs. kd_decisions d' = kd_decisions d @ rs"
proof (induction rule: rtranclp_induct)
  case base
  then show ?case by simp
next
  case (step y z)
  from step.IH risk_step_decisions [OF step.hyps(2)] show ?case by auto
qed

lemma get_decision_run:
  "risk_step\<^sup>*\<^sup>* d d' \<Longrightarrow> get_decision k d = Some r \<Longrightarrow> get_decision k d' = Some r"
  by (drule risk_run_decisions) (auto simp: get_decision_def row_simps)

section \<open>The policy\<close>

lemma policy_outcome:
  "fst (evaluateRiskPolicy n m now cap) =
     (if m = conservative \<and> \<not> (8 \<le> utc_hour now \<and> utc_hour now \<le> 20) then deferred
      else if n \<le> thresholds_usd m \<and> (\<forall>c. cap = Some c \<longrightarrow> n \<le> c) then approved else rejected)"
  by (auto simp: evaluateRiskPolicy_def Let_def split: option.splits)

lemma policy_reasons_not_adaptive:
  "r \<in> set (snd (evaluateRiskPolicy n m now cap)) \<Longrightarrow> \<not> starts_with r ''Adaptive risk:''"
  by (auto simp: evaluateRiskPolicy_def Let_def split: option.splits if_splits)

lemma describe_adaptive: "starts_with (describeMultiplier now m @ x) ''Adaptive risk:''"
  by (simp add: describeMultiplier_def Let_def)

lemma new_decision_fields:
  "rk_id (new_decision q w i now c d) = i"
  "rk_correlationId (new_decision q w i now c d) = ev_correlationId q"
  "rk_planReference (new_decision q w i now c d) = ev_planReference q"
  "rk_snapshotVersion (new_decision q w i now c d) = ev_snapshotVersion q"
  "rk_riskMode (new_decision q w i now c d) = request_mode q"
  "rk_notionalUsd (new_decision q w i now c d) = ev_notionalUsd q"
  "rk_idempotencyKey (new_decision q w i now c d) = ev_idempotencyKey q"
  "rk_windowId (new_decision q w i now c d) = w"
  "rk_instrumentKey (new_decision q w i now c d) = map_option js_trim (ev_instrumentKey q)"
  "rk_routeKey (new_decision q w i now c d) = map_option js_trim (ev_routeKey q)"
  "rk_outcome (new_decision q w i now c d)
     = fst (evaluateRiskPolicy (ev_notionalUsd q) (request_mode q) now (loadProfileCapsUsd q now d))"
  by (simp_all add: new_decision_def Let_def split: prod.splits)

lemma new_decision_adaptive:
  "(\<exists>r \<in> set (rk_reasons (new_decision q w i now c d)). starts_with r ''Adaptive risk:'')
     = (ev_adaptiveRisk q = Some True)"
  using policy_reasons_not_adaptive [of _ "ev_notionalUsd q" "request_mode q" now "loadProfileCapsUsd q now d"]
    describe_adaptive [of now "request_mode q"] describe_adaptive [of now "request_mode q" "[]"]
  by (auto simp: new_decision_def Let_def split: prod.splits)

lemma same_request_new_decision:
  "w = ev_windowId q \<Longrightarrow> assertSameEvaluateRequest (new_decision q w i now c d) q = Inr ()"
  using new_decision_adaptive [of q w i now c d]
  by (simp add: assertSameEvaluateRequest_def new_decision_fields)

lemma consume_window_keeps:
  assumes "consume_window q now d = (Inr wo, d1)"
  shows "wo = ev_windowId q \<and> kd_decisions d1 = kd_decisions d \<and> kd_tokenProfiles d1 = kd_tokenProfiles d
    \<and> kd_routeProfiles d1 = kd_routeProfiles d"
  using assms by (cases rule: consume_window_cases) (auto simp: save_window_def)

lemma loadProfileCaps_le:
  assumes "profile_cap (kd_tokenProfiles d) (ev_instrumentKey q) = Some c
    \<or> profile_cap (kd_routeProfiles d) (ev_routeKey q) = Some c"
  shows "\<exists>b. b \<le> c \<and> loadProfileCapsUsd q now d = Some (if ev_adaptiveRisk q = Some True then b * multiplierFor now (request_mode q) else b)"
proof -
  obtain b where "(case profile_cap (kd_routeProfiles d) (ev_routeKey q) of
        None \<Rightarrow> profile_cap (kd_tokenProfiles d) (ev_instrumentKey q)
      | Some n \<Rightarrow> (case profile_cap (kd_tokenProfiles d) (ev_instrumentKey q) of None \<Rightarrow> Some n | Some c \<Rightarrow> Some (min c n))) = Some b"
    "b \<le> c"
    using assms by (force split: option.splits)
  then show ?thesis by (intro exI [of _ b]) (simp add: loadProfileCapsUsd_def Let_def)
qed

text \<open>
  C22: An approval is bounded. When \<open>evaluateRisk\<close> answers a new decision that is approved, the
  notional is within the threshold of the risk mode, within the positive caps of the token and
  the route profile (scaled by the adaptive multiplier, which never exceeds 1, when the request
  asks for it), and in conservative mode the UTC hour lies in the window. A cap that is zero, negative or
  not a number is no cap.
\<close>

theorem approval_bounded:
  "evaluateRisk q newId m now now2 now3 d = (Inr (row, False), d') \<Longrightarrow> rk_outcome row = approved
   \<Longrightarrow> ev_notionalUsd q \<le> thresholds_usd (request_mode q)
     \<and> (request_mode q = conservative \<longrightarrow> 8 \<le> utc_hour now2 \<and> utc_hour now2 \<le> 20)
     \<and> (\<forall>c. profile_cap (kd_tokenProfiles d) (ev_instrumentKey q) = Some c
           \<or> profile_cap (kd_routeProfiles d) (ev_routeKey q) = Some c
         \<longrightarrow> 0 < c \<and> ev_notionalUsd q \<le> (if ev_adaptiveRisk q = Some True then c * multiplierFor now2 (request_mode q) else c)
            \<and> multiplierFor now2 (request_mode q) \<le> 1 \<and> ev_notionalUsd q \<le> c)"
proof -
  assume e: "evaluateRisk q newId m now now2 now3 d = (Inr (row, False), d')" and a: "rk_outcome row = approved"
  from e obtain wo d1 where c: "consume_window q now d = (Inr wo, d1)" and row: "row = new_decision q wo newId now2 now3 d1"
    by (cases rule: evaluateRisk_cases) auto
  let ?n = "ev_notionalUsd q" and ?m = "multiplierFor now2 (request_mode q)"
  have caps: "loadProfileCapsUsd q now2 d1 = loadProfileCapsUsd q now2 d"
    using consume_window_keeps [OF c] by (simp add: loadProfileCapsUsd_def)
  have o: "fst (evaluateRiskPolicy ?n (request_mode q) now2 (loadProfileCapsUsd q now2 d)) = approved"
    using a row caps by (simp add: new_decision_fields)
  have mult: "0 < ?m" "?m \<le> 1" by (simp_all add: multiplierFor_def Let_def split: risk_mode.splits)
  have pos: "0 < c" if "profile_cap ps k = Some c" for ps k c
    using that by (auto simp: profile_cap_def split: option.splits if_splits jsnum.splits)
  have bnd: "?n \<le> (if ev_adaptiveRisk q = Some True then c * ?m else c)"
    if "profile_cap (kd_tokenProfiles d) (ev_instrumentKey q) = Some c
        \<or> profile_cap (kd_routeProfiles d) (ev_routeKey q) = Some c" for c
  proof -
    from loadProfileCaps_le [OF that] obtain b where b: "b \<le> c"
      "loadProfileCapsUsd q now2 d = Some (if ev_adaptiveRisk q = Some True then b * ?m else b)" by blast
    define x where "x = (if ev_adaptiveRisk q = Some True then b * ?m else b)"
    have x: "loadProfileCapsUsd q now2 d = Some x" "x \<le> (if ev_adaptiveRisk q = Some True then c * ?m else c)"
      using b mult by (simp_all add: x_def)
    from o x(1) have "?n \<le> x" by (auto simp: policy_outcome split: if_splits)
    with x(2) show ?thesis by simp
  qed
  have all: "0 < c \<and> ?n \<le> (if ev_adaptiveRisk q = Some True then c * ?m else c) \<and> ?m \<le> 1 \<and> ?n \<le> c"
    if h: "profile_cap (kd_tokenProfiles d) (ev_instrumentKey q) = Some c
        \<or> profile_cap (kd_routeProfiles d) (ev_routeKey q) = Some c" for c
  proof -
    have p: "0 < c" using h pos by blast
    then have "c * ?m \<le> c" using mult by simp
    with bnd [OF h] have "?n \<le> c" by (simp split: if_splits)
    with p mult(2) bnd [OF h] show ?thesis by blast
  qed
  have "?n \<le> thresholds_usd (request_mode q)" "request_mode q = conservative \<longrightarrow> 8 \<le> utc_hour now2 \<and> utc_hour now2 \<le> 20"
    using o by (auto simp: policy_outcome split: if_splits)
  with all show ?thesis by blast
qed

definition ex_eval :: evaluate_dto where
  "ex_eval = \<lparr> ev_idempotencyKey = Some ''k1'', ev_correlationId = ''corr'', ev_planReference = ''plan'',
     ev_notionalUsd = 900, ev_snapshotVersion = 1, ev_riskMode = None, ev_windowId = Some ''w1'',
     ev_instrumentKey = Some ''ETH'', ev_routeKey = None, ev_adaptiveRisk = Some True \<rparr>"

definition ex_wdto :: reserve_window_dto where
  "ex_wdto = \<lparr> wd_windowKey = ''wk'', wd_correlationId = ''corr'', wd_planReference = ''plan'',
     wd_notionalUsd = 900, wd_ttlSeconds = None \<rparr>"

definition ex_risk0 :: risk_db where
  "ex_risk0 = empty_risk\<lparr>kd_tokenProfiles := [(''ETH'', ''1000'')]\<rparr>"

definition ex_risk1 :: risk_db where "ex_risk1 = snd (reserveRiskWindow ex_wdto ''w1'' 0 ex_risk0)"
definition ex_risk_consumed :: risk_db where "ex_risk_consumed = snd (consume_window ex_eval 1 ex_risk1)"
definition ex_row :: risk_decision where "ex_row = new_decision ex_eval (Some ''w1'') ''d1'' 43200000 3 ex_risk_consumed"
definition ex_risk2 :: risk_db where "ex_risk2 = snd (evaluateRisk ex_eval ''d1'' ''m1'' 1 43200000 3 ex_risk1)"

lemma ex_consumed:
  "fst (consume_window ex_eval 1 ex_risk1) = Inr (Some ''w1'')"
  "get_decision ''d1'' ex_risk1 = None" "get_window ''w1'' ex_risk0 = None"
  "kd_decisions ex_risk1 = []" "request_mode ex_eval = standard" "ev_notionalUsd ex_eval = 900"
  "loadProfileCapsUsd ex_eval 43200000 ex_risk_consumed = Some 900"
  by code_simp+

lemma ex_eval_eq: "evaluateRisk ex_eval ''d1'' ''m1'' 1 43200000 3 ex_risk1 = (Inr (ex_row, False), ex_risk2)"
proof -
  have c: "consume_window ex_eval 1 ex_risk1 = (Inr (Some ''w1''), ex_risk_consumed)"
    using ex_consumed(1) unfolding ex_risk_consumed_def by (metis prod.collapse)
  have "fst (evaluateRisk ex_eval ''d1'' ''m1'' 1 43200000 3 ex_risk1) = Inr (ex_row, False)"
    by (simp add: evaluateRisk_def evaluate_tx_def transaction_def ex_consumed(4) c ex_row_def Let_def)
  then show ?thesis unfolding ex_risk2_def by (metis prod.collapse)
qed

lemma ex_eval_approved: "rk_outcome ex_row = approved"
  by (simp add: ex_row_def new_decision_fields ex_consumed policy_outcome)

theorem approval_bounded_witness:
  "ev_notionalUsd ex_eval \<le> 900 \<and> profile_cap (kd_tokenProfiles ex_risk1) (ev_instrumentKey ex_eval) = Some 1000
   \<and> ev_notionalUsd ex_eval \<le> 1000 * (9 / 10)"
proof -
  have c: "profile_cap (kd_tokenProfiles ex_risk1) (ev_instrumentKey ex_eval) = Some 1000"
    "multiplierFor 43200000 (request_mode ex_eval) = 9 / 10" "ev_adaptiveRisk ex_eval = Some True" by code_simp+
  from approval_bounded [OF ex_eval_eq ex_eval_approved] c
  have "ev_notionalUsd ex_eval \<le> 1000 * (9 / 10)" by auto
  with c(1) show ?thesis by simp
qed

section \<open>Replays\<close>

lemma evaluate_replay:
  assumes "find (\<lambda>r. rk_idempotencyKey r = Some k) (kd_decisions d) = Some row" and "ev_idempotencyKey q = Some k"
  shows "evaluateRisk q i m t1 t2 t3 d =
     (case assertSameEvaluateRequest row q of Inl e \<Rightarrow> (Inl e, d) | Inr _ \<Rightarrow> (Inr (row, True), d))"
  using assms by (simp add: evaluateRisk_def evaluate_tx_def transaction_def split: sum.splits)

lemma find_decided:
  assumes "evaluateRisk q newId m now now2 now3 d = (Inr (row, False), d')" and k: "ev_idempotencyKey q = Some k"
    and run: "risk_step\<^sup>*\<^sup>* d' d''"
  shows "find (\<lambda>r. rk_idempotencyKey r = Some k) (kd_decisions d'') = Some row"
  using assms(1)
proof (cases rule: evaluateRisk_cases)
  case (decided wo d1 row')
  with risk_run_decisions [OF run] obtain rs where "kd_decisions d'' = kd_decisions d @ row # rs" by auto
  moreover have "rk_idempotencyKey row = Some k" using decided k by (simp add: new_decision_fields)
  moreover have "find (\<lambda>r. rk_idempotencyKey r = Some k) (kd_decisions d) = None"
    using decided(1) k by (simp add: find_None_iff)
  ultimately show ?thesis by (simp add: find_append)
qed simp_all

text \<open>
  \<open>evaluateRisk\<close> is idempotent per key. Once a request with an idempotency key has been
  decided, however many operations follow, the same request gets the same decision back, marked
  as a replay, at any later time and even though its window is consumed, and nothing is
  written; a request that reuses the key with another correlation id, plan, snapshot, mode,
  window, notional or adaptive flag gets a 409 and nothing is written.
\<close>

theorem evaluate_idempotent:
  "evaluateRisk q newId m now now2 now3 d = (Inr (row, False), d') \<Longrightarrow> ev_idempotencyKey q = Some k
   \<Longrightarrow> risk_step\<^sup>*\<^sup>* d' d''
   \<Longrightarrow> evaluateRisk q i2 m2 t1 t2 t3 d'' = (Inr (row, True), d'')
     \<and> (\<forall>q2. ev_idempotencyKey q2 = Some k \<longrightarrow>
          ev_correlationId q2 \<noteq> ev_correlationId q \<or> ev_planReference q2 \<noteq> ev_planReference q
          \<or> ev_snapshotVersion q2 \<noteq> ev_snapshotVersion q \<or> request_mode q2 \<noteq> request_mode q
          \<or> ev_windowId q2 \<noteq> ev_windowId q \<or> \<bar>ev_notionalUsd q - ev_notionalUsd q2\<bar> \<ge> 1 / 100000000
          \<or> (ev_adaptiveRisk q2 = Some True) \<noteq> (ev_adaptiveRisk q = Some True)
        \<longrightarrow> (\<exists>msg. evaluateRisk q2 i2 m2 t1 t2 t3 d'' = (Inl (ConflictException msg), d'')))"
proof -
  assume e: "evaluateRisk q newId m now now2 now3 d = (Inr (row, False), d')" and k: "ev_idempotencyKey q = Some k"
    and run: "risk_step\<^sup>*\<^sup>* d' d''"
  note f = find_decided [OF e k run]
  from e obtain wo d1 where c: "consume_window q now d = (Inr wo, d1)"
    and row: "row = new_decision q wo newId now2 now3 d1" by (cases rule: evaluateRisk_cases) auto
  have w: "wo = ev_windowId q" using consume_window_keeps [OF c] by simp
  have same: "assertSameEvaluateRequest row q = Inr ()" unfolding row by (rule same_request_new_decision [OF w])
  have "evaluateRisk q i2 m2 t1 t2 t3 d'' = (Inr (row, True), d'')"
    by (simp add: evaluate_replay [OF f k] same)
  moreover have "\<exists>msg. evaluateRisk q2 i2 m2 t1 t2 t3 d'' = (Inl (ConflictException msg), d'')"
    if k2: "ev_idempotencyKey q2 = Some k" and diff: "ev_correlationId q2 \<noteq> ev_correlationId q
          \<or> ev_planReference q2 \<noteq> ev_planReference q
          \<or> ev_snapshotVersion q2 \<noteq> ev_snapshotVersion q \<or> request_mode q2 \<noteq> request_mode q
          \<or> ev_windowId q2 \<noteq> ev_windowId q \<or> \<bar>ev_notionalUsd q - ev_notionalUsd q2\<bar> \<ge> 1 / 100000000
          \<or> (ev_adaptiveRisk q2 = Some True) \<noteq> (ev_adaptiveRisk q = Some True)" for q2
  proof -
    have "assertSameEvaluateRequest row q2 \<noteq> Inr ()"
      using diff new_decision_adaptive [of q wo newId now2 now3 d1]
      by (auto simp: assertSameEvaluateRequest_def row new_decision_fields w)
    then have "\<exists>msg. assertSameEvaluateRequest row q2 = Inl (ConflictException msg)"
      by (auto simp: assertSameEvaluateRequest_def split: if_splits)
    then show ?thesis by (auto simp: evaluate_replay [OF f k2])
  qed
  ultimately show ?thesis by blast
qed

lemma ex_eval_step: "risk_step ex_risk1 ex_risk2"
  by (rule rs_evaluate [OF ex_eval_eq ex_consumed(2)])

lemma ex_reserve_step: "risk_step ex_risk0 ex_risk1"
  by (rule rs_reserve [OF _ ex_consumed(3)]) (simp add: ex_risk1_def prod_eq_iff)

theorem evaluate_idempotent_witness:
  "evaluateRisk ex_eval ''d2'' ''m2'' 9000000 9000000 9000000 ex_risk2 = (Inr (ex_row, True), ex_risk2)"
proof -
  have "ev_idempotencyKey ex_eval = Some ''k1''" by (simp add: ex_eval_def)
  from evaluate_idempotent [OF ex_eval_eq this rtranclp.rtrancl_refl] show ?thesis by blast
qed

section \<open>Windows\<close>

text \<open>What the decisions of the table say about the windows they used.\<close>

definition window_inv :: "risk_db \<Rightarrow> bool" where
  "window_inv d \<longleftrightarrow> distinct (List.map_filter rk_windowId (kd_decisions d))
     \<and> (\<forall>r \<in> set (kd_decisions d). \<forall>w. rk_windowId r = Some w \<longrightarrow>
          (\<exists>x. get_window w d = Some x \<and> rw_state x = W_consumed \<and> rw_correlationId x = rk_correlationId r
             \<and> rw_planReference x = rk_planReference r))"

lemma set_map_filter: "set (List.map_filter f xs) = {y. \<exists>x \<in> set xs. f x = Some y}"
  by (induction xs) (auto simp: List.map_filter_simps split: option.splits)

lemma distinct_map_filter_eq:
  "distinct (List.map_filter f xs) \<Longrightarrow> x \<in> set xs \<Longrightarrow> y \<in> set xs \<Longrightarrow> f x = Some k \<Longrightarrow> f y = Some k \<Longrightarrow> x = y"
  by (induction xs) (auto simp: List.map_filter_simps set_map_filter split: option.splits)

lemma map_filter_append: "List.map_filter f (xs @ ys) = List.map_filter f xs @ List.map_filter f ys"
  by (induction xs) (auto simp: List.map_filter_simps split: option.splits)

lemma get_window_save: "get_window i (save_window w d) = (if rw_id w = i then Some w else get_window i d)"
  by (simp add: windows.get_save)

lemma window_inv_step:
  assumes "risk_step d d'" and inv: "window_inv d"
  shows "window_inv d'"
  using assms(1)
proof cases
  case (rs_reserve dto newId now w0)
  then have k: "kd_decisions d' = kd_decisions d" and g: "get_window i d' = get_window i (save_window w0 d)"
    and i0: "rw_id w0 = newId" for i
    by (auto simp: reserveRiskWindow_def Let_def get_window_def save_window_def)
  have "get_window i d' = get_window i d" if "get_window i d \<noteq> None" for i
    using that rs_reserve(2) by (auto simp: g get_window_save i0)
  then show ?thesis using inv by (fastforce simp: window_inv_def k)
next
  case (rs_evaluate q newId m now now2 now3 out)
  from rs_evaluate(1) show ?thesis
  proof (cases rule: evaluateRisk_cases)
    case (decided wo d1 row)
    note g = get_window_cong [OF decided(6)]
    from decided(2) show ?thesis
    proof (cases rule: consume_window_cases)
      case none
      then show ?thesis using inv decided g
        by (auto simp: window_inv_def map_filter_append List.map_filter_simps new_decision_fields)
    next
      case (some wid w)
      have idw: "rw_id w = wid" using some(3) by (rule get_window_key)
      have unused: "rk_windowId r \<noteq> Some wid" if "r \<in> set (kd_decisions d)" for r
        using inv that some(3,4) by (auto simp: window_inv_def)
      then have "distinct (List.map_filter rk_windowId (kd_decisions d'))"
        using inv decided(3,5) some(2)
        by (auto simp: window_inv_def map_filter_append List.map_filter_simps new_decision_fields set_map_filter)
      moreover have "get_window i d' = (if i = wid then Some (w\<lparr>rw_state := W_consumed, rw_entityVersion := rw_entityVersion w + 1\<rparr>)
          else get_window i d)" for i
        using g [of i] some(8) idw by (auto simp: get_window_save)
      ultimately show ?thesis using inv unused decided(3,5) some
        by (auto simp: window_inv_def new_decision_fields)
    qed
  qed (use inv in simp_all)
qed

lemma window_inv_run: "risk_step\<^sup>*\<^sup>* d d' \<Longrightarrow> window_inv d \<Longrightarrow> window_inv d'"
  by (induction rule: rtranclp_induct) (auto intro: window_inv_step)

text \<open>
  C23: A risk window reservation pays for one decision. In every run that starts without
  decisions, two decisions that name the same window are the same row, and the window they
  name is consumed and was reserved for the same correlation id and plan.
\<close>

theorem window_pays_once:
  "risk_step\<^sup>*\<^sup>* d0 d \<Longrightarrow> kd_decisions d0 = [] \<Longrightarrow> r \<in> set (kd_decisions d) \<Longrightarrow> s \<in> set (kd_decisions d)
   \<Longrightarrow> rk_windowId r = Some w \<Longrightarrow> rk_windowId s = Some w
   \<Longrightarrow> r = s \<and> (\<exists>x. get_window w d = Some x \<and> rw_state x = W_consumed
         \<and> rw_correlationId x = rk_correlationId r \<and> rw_planReference x = rk_planReference r)"
proof -
  assume run: "risk_step\<^sup>*\<^sup>* d0 d" and e: "kd_decisions d0 = []"
    and m: "r \<in> set (kd_decisions d)" "s \<in> set (kd_decisions d)" "rk_windowId r = Some w" "rk_windowId s = Some w"
  have "window_inv d0" by (simp add: window_inv_def e List.map_filter_simps)
  with window_inv_run [OF run] have "window_inv d" .
  with m distinct_map_filter_eq [of rk_windowId "kd_decisions d" r s w] show ?thesis by (auto simp: window_inv_def)
qed

theorem window_pays_once_witness:
  "\<exists>x. get_window ''w1'' ex_risk2 = Some x \<and> rw_state x = W_consumed"
proof -
  have run: "risk_step\<^sup>*\<^sup>* ex_risk0 ex_risk2" using ex_reserve_step ex_eval_step by auto
  from ex_eval_eq have "ex_row \<in> set (kd_decisions ex_risk2)" by (cases rule: evaluateRisk_cases) auto
  moreover have "rk_windowId ex_row = Some ''w1''" by (simp add: ex_row_def new_decision_fields)
  moreover have "kd_decisions ex_risk0 = []" by (simp add: ex_risk0_def empty_risk_def)
  ultimately show ?thesis using window_pays_once [OF run, of ex_row ex_row] by blast
qed

text \<open>
  A lapsed window is never stored as expired. \<open>evaluateRisk\<close> marks it so in memory and
  throws inside the same transaction: the request is refused with a 400 and the row is
  unchanged. Since nothing else writes the table, in no run does a window reach the states
  \<open>expired\<close> or \<open>released\<close> of its type: each is \<open>reserved\<close> or \<open>consumed\<close>, and a consumed
  one stays consumed.
\<close>

theorem windows_never_expire:
  "risk_step\<^sup>*\<^sup>* empty_risk d
   \<Longrightarrow> (\<forall>i w. get_window i d = Some w \<longrightarrow> rw_state w = W_reserved \<or> rw_state w = W_consumed)
     \<and> (\<forall>i w d'. get_window i d = Some w \<and> rw_state w = W_consumed \<and> risk_step\<^sup>*\<^sup>* d d'
          \<longrightarrow> (\<exists>w'. get_window i d' = Some w' \<and> rw_state w' = W_consumed))
     \<and> (\<forall>q i w newId m now t2 t3. ev_idempotencyKey q = None \<and> ev_windowId q = Some i \<and> get_window i d = Some w
          \<and> rw_expiresAt w \<le> now \<longrightarrow> (\<exists>msg. evaluateRisk q newId m now t2 t3 d = (Inl (BadRequestException msg), d)))"
proof -
  assume run: "risk_step\<^sup>*\<^sup>* empty_risk d"
  have step: "\<forall>i w. get_window i z = Some w \<longrightarrow> rw_state w = W_reserved \<or> rw_state w = W_consumed"
    if st: "risk_step y z" and iy: "\<forall>i w. get_window i y = Some w \<longrightarrow> rw_state w = W_reserved \<or> rw_state w = W_consumed" for y z
    using st
  proof cases
    case (rs_reserve dto newId now w0)
    then have "get_window i z = get_window i (save_window w0 y)" and "rw_state w0 = W_reserved" for i
      by (auto simp: reserveRiskWindow_def Let_def get_window_def save_window_def)
    with iy show ?thesis by (auto simp: get_window_save split: if_splits)
  next
    case (rs_evaluate q newId m now now2 now3 out)
    from rs_evaluate(1) show ?thesis
    proof (cases rule: evaluateRisk_cases)
      case (decided wo d1 row)
      from decided(2) show ?thesis
        by (cases rule: consume_window_cases)
          (use iy in \<open>auto simp: get_window_cong [OF decided(6)] get_window_save split: if_splits\<close>)
    qed (use iy in simp_all)
  qed
  have "\<forall>i w. get_window i d = Some w \<longrightarrow> rw_state w = W_reserved \<or> rw_state w = W_consumed"
    using run
  proof (induction rule: rtranclp_induct)
    case base
    then show ?case by (simp add: get_window_def empty_risk_def get_row_def)
  qed (use step in blast)
  moreover have "\<exists>w'. get_window i d' = Some w' \<and> rw_state w' = W_consumed"
    if "get_window i d = Some w" "rw_state w = W_consumed" "risk_step\<^sup>*\<^sup>* d d'" for i w d'
    using windowlife.run_terminal [OF that(3,1)] that(2) by (auto simp: window_allowed_def)
  moreover have "\<exists>msg. evaluateRisk q newId m now t2 t3 d = (Inl (BadRequestException msg), d)"
    if "ev_idempotencyKey q = None" "ev_windowId q = Some i" "get_window i d = Some w" "rw_expiresAt w \<le> now"
    for q i w newId m now t2 t3
    using that by (auto simp: evaluateRisk_def evaluate_tx_def transaction_def consume_window_def
      materializeRiskWindowReservationExpiryIfNeeded_def Let_def)
  ultimately show ?thesis by blast
qed

theorem windows_never_expire_witness:
  "\<exists>msg. evaluateRisk (ex_eval\<lparr>ev_idempotencyKey := None\<rparr>) ''d9'' ''m9'' 900000 900000 900000
      (snd (reserveRiskWindow ex_wdto ''w1'' 0 empty_risk))
     = (Inl (BadRequestException msg), snd (reserveRiskWindow ex_wdto ''w1'' 0 empty_risk))"
proof -
  let ?d = "snd (reserveRiskWindow ex_wdto ''w1'' 0 empty_risk)"
  have "risk_step empty_risk ?d"
    by (rule rs_reserve [of ex_wdto "''w1''" 0 _ "fst (reserveRiskWindow ex_wdto ''w1'' 0 empty_risk)"])
      (simp_all add: get_window_def empty_risk_def get_row_def)
  then have run: "risk_step\<^sup>*\<^sup>* empty_risk ?d" ..
  have w: "\<exists>w. get_window ''w1'' ?d = Some w \<and> rw_expiresAt w \<le> 900000"
    by (simp add: reserveRiskWindow_def Let_def save_window_def get_window_def empty_risk_def save_row_def get_row_def ex_wdto_def)
  have q: "ev_idempotencyKey (ex_eval\<lparr>ev_idempotencyKey := None\<rparr>) = None"
    "ev_windowId (ex_eval\<lparr>ev_idempotencyKey := None\<rparr>) = Some ''w1''" by (simp_all add: ex_eval_def)
  from w q windows_never_expire [OF run] show ?thesis by blast
qed

end
