(* ===== verification/System.thy ===== *)
theory System
  imports Capital Exec_Props Risk_Props
begin

text \<open>
  The arming of a plan across the three services that own its data: the orchestrator reads the
  reservation from the capital service (twice) and the decision from the risk service, over
  HTTP, and then commits its own row. The responses are built here from the models of the two
  services and read by the orchestrator's own parsers.
\<close>

section \<open>GET views\<close>

fun cr_status_text :: "cr_status \<Rightarrow> string" where
  "cr_status_text active = ''active''"
| "cr_status_text released = ''released''"
| "cr_status_text expired = ''expired''"

text \<open>A column of type \<open>decimal(24, 8)\<close> as the driver returns it.\<close>

definition decimal8_text :: "rat \<Rightarrow> string" where
  "decimal8_text q =
     (let u = \<lfloor>\<bar>q\<bar> * 100000000\<rfloor>; f = digits_of_nat (nat (u mod 100000000))
      in (if q < 0 then ''-'' else []) @ digits_of_nat (nat (u div 100000000)) @ ''.'' @ replicate (8 - length f) CHR ''0'' @ f)"

definition reservation_view :: "reservation \<Rightarrow> json" where
  "reservation_view r = JObj [(''id'', JStr (cr_id r)), (''state'', JStr (cr_status_text (cr_state r))),
     (''correlationId'', JStr (cr_correlationId r)), (''planId'', jstr_or_null (cr_planId r)),
     (''amountUsd'', JStr (decimal8_text (cr_amountUsd r))), (''expiresAt'', JIso (cr_expiresAt r)),
     (''entityVersion'', JNum (of_int (cr_entityVersion r)))]"

text \<open>\<open>GET /capital/reservations/:id\<close> commits a lapsed lease as it answers.\<close>

definition get_reservation_route :: "string \<Rightarrow> int \<Rightarrow> capital_db \<Rightarrow> http_response \<times> capital_db" where
  "get_reservation_route i now d =
     (case getById i now d of
        (Inl _, d') \<Rightarrow> (Response 404 None, d')
      | (Inr row, d') \<Rightarrow> (Response 200 (Some (reservation_view row)), d'))"

definition get_decision_route :: "string \<Rightarrow> risk_db \<Rightarrow> http_response" where
  "get_decision_route i d =
     (case getRiskDecision i d of
        Inl _ \<Rightarrow> Response 404 None
      | Inr row \<Rightarrow> Response 200 (Some (risk_view row)))"

section \<open>Arming over the services\<close>

record system =
  sy_capital :: capital_db
  sy_risk :: risk_db
  sy_exec :: exec_db

text \<open>
  \<open>PlansService.arm\<close> with the two reads of the reservation at \<open>t1\<close> and \<open>t2\<close>, which happen once the
  plan is reserved and its decision approved, and the check of the lease at \<open>t3\<close>; \<open>env\<close> is what the orchestrator commits between the checks and the transaction.
\<close>

definition arm_over_services ::
  "string \<Rightarrow> int \<Rightarrow> int \<Rightarrow> int \<Rightarrow> (exec_db \<Rightarrow> exec_db) \<Rightarrow> string \<Rightarrow> int \<Rightarrow> system \<Rightarrow> (plan, system) outcome" where
  "arm_over_services planId t1 t2 t3 env messageId now s =
     (let cap1 = (\<lambda>crid. get_reservation_route crid t1 (sy_capital s));
          cap2 = (\<lambda>crid. get_reservation_route crid t2 (snd (cap1 crid)));
          read = (case get_plan planId (sy_exec s) of
              Some p \<Rightarrow> if pl_state p = P_reserved \<and> assertApprovedRiskViaHttp (\<lambda>i. get_decision_route i (sy_risk s)) p = Inr ()
                then pl_capitalReservationId p else None
            | None \<Rightarrow> None)
      in case arm planId (\<lambda>i. get_decision_route i (sy_risk s)) (\<lambda>i. fst (cap1 i)) (\<lambda>i. fst (cap2 i)) t3 env messageId now (sy_exec s) of
           (out, e') \<Rightarrow> (out, s\<lparr>sy_exec := e', sy_capital := (case read of None \<Rightarrow> sy_capital s | Some i \<Rightarrow> snd (cap2 i))\<rparr>))"

lemma getReservation_route:
  assumes "getReservation (fst (get_reservation_route i now d)) = Inr snap"
  shows "\<exists>row. get_res i (snd (get_reservation_route i now d)) = Some row \<and> cs_id snap = i
    \<and> cs_state snap = cr_status_text (cr_state row) \<and> cs_planId snap = cr_planId row
    \<and> cs_correlationId snap = Some (cr_correlationId row) \<and> cs_expiresAtIso snap = JIso (cr_expiresAt row)
    \<and> (cr_state row = active \<longrightarrow> now < cr_expiresAt row)"
proof (cases "get_res i d")
  case None
  with assms show ?thesis
    by (simp add: get_reservation_route_def getById_def transaction_def getReservation_def)
next
  case (Some r)
  then have "cr_id r = i" by (rule get_res_key)
  with Some assms show ?thesis
    by (cases "cr_state r = active \<and> cr_expiresAt r \<le> now")
      (auto simp: get_reservation_route_def getById_def transaction_def getReservation_def res.get_save
        materializeCapitalReservationExpiryIfNeeded_def http_ok_def parseCapitalSnapshot_def reservation_view_def
        is_string_json_def string_or_null_def jstr_or_null_def split: option.splits if_splits)
qed

lemma status_text_active: "cr_status_text st = ''active'' \<longleftrightarrow> st = active"
  by (cases st) auto

lemma outcome_text_approved: "outcome_name out = ''approved'' \<longleftrightarrow> out = approved"
  by (cases out) auto

lemma decision_route:
  assumes "getRiskDecisionHttp (get_decision_route i d) = Inr snap"
  shows "\<exists>row. get_decision i d = Some row \<and> rs_outcome snap = outcome_name (rk_outcome row)
    \<and> rs_correlationId snap = rk_correlationId row"
  using assms
  by (auto simp: get_decision_route_def getRiskDecision_def getRiskDecisionHttp_def http_ok_def parseRiskSnapshot_def
      risk_view_def split: option.splits sum.splits)

lemma reservation_checks_cases:
  assumes "reservation_checks riskHttp res1 res2 mc now peek = Inr ()"
  obtains rid risk cap where "pl_riskDecisionId peek = Some rid" "getRiskDecisionHttp (riskHttp rid) = Inr risk"
    "rs_outcome risk = ''approved''" "pl_correlationId peek \<noteq> None \<longrightarrow> Some (rs_correlationId risk) = pl_correlationId peek"
    "getReservation res2 = Inr cap" "cs_state cap = ''active''"
    "\<And>ms. cs_expiresAtIso cap = JIso ms \<Longrightarrow> now < ms" "cs_planId cap = Some (pl_id peek)"
    "pl_correlationId peek \<noteq> None \<longrightarrow> cs_correlationId cap = pl_correlationId peek"
proof -
  from assms have a: "assertApprovedRiskViaHttp riskHttp peek = Inr ()"
    by (auto simp: reservation_checks_def split: sum.splits)
  from assms obtain cap where l: "loadReservationSnapshotTwice res1 res2 mc = Inr cap"
    and act: "assertReservationActive now cap = Inr ()" and mt: "assertReservationMatchesPlan peek cap = Inr ()"
    by (auto simp: reservation_checks_def split: sum.splits)
  from a obtain rid risk where r: "pl_riskDecisionId peek = Some rid" "getRiskDecisionHttp (riskHttp rid) = Inr risk"
    "rs_outcome risk = ''approved''" "pl_correlationId peek \<noteq> None \<longrightarrow> Some (rs_correlationId risk) = pl_correlationId peek"
    by (auto simp: assertApprovedRiskViaHttp_def split: option.splits sum.splits exn.splits if_splits)
  from l have c: "getReservation res2 = Inr cap"
    by (auto simp: loadReservationSnapshotTwice_def split: sum.splits exn.splits if_splits)
  from act have x: "cs_state cap = ''active''" "cs_expiresAtIso cap = JIso ms \<Longrightarrow> now < ms" for ms
    by (auto simp: assertReservationActive_def split: if_splits)
  from mt have y: "cs_planId cap = Some (pl_id peek)"
    "pl_correlationId peek \<noteq> None \<longrightarrow> cs_correlationId cap = pl_correlationId peek"
    by (auto simp: assertReservationMatchesPlan_def split: option.splits if_splits)
  from that [OF r c x y] show thesis by blast
qed

lemma arm_cases:
  assumes "arm i riskHttp cap1 cap2 t env m now d = (Inr p', d')"
  obtains peek crid where "get_plan i d = Some peek" "pl_state peek = P_reserved" "pl_capitalReservationId peek = Some crid"
    "reservation_checks riskHttp (cap1 crid) (cap2 crid) True t peek = Inr ()"
    "transaction (arm_tx i m now) (env d) = (Inr p', d')"
  using assms by (auto simp: arm_def split: option.splits if_splits sum.splits)

lemma arm_over_services_backed:
  assumes "arm_over_services pid t1 t2 t3 env m now s = (Inr p', s')"
  shows "pl_state p' = P_armed \<and> get_plan pid (sy_exec s') = Some p' \<and>
    (\<exists>peek crid row rid dec. get_plan pid (sy_exec s) = Some peek \<and> pl_capitalReservationId peek = Some crid
       \<and> get_res crid (sy_capital s') = Some row \<and> cr_state row = active \<and> t2 < cr_expiresAt row \<and> t3 < cr_expiresAt row
       \<and> cr_planId row = Some pid
       \<and> pl_riskDecisionId peek = Some rid \<and> get_decision rid (sy_risk s') = Some dec \<and> rk_outcome dec = approved
       \<and> (pl_correlationId peek \<noteq> None \<longrightarrow> pl_correlationId peek = Some (cr_correlationId row)
            \<and> pl_correlationId peek = Some (rk_correlationId dec))
       \<and> (\<forall>t. t < cr_expiresAt row \<longrightarrow>
            (\<exists>r. fst (release crid t (sy_capital s')) = Inr r \<and> cr_state r = released)))"
proof -
  let ?risk = "\<lambda>i. get_decision_route i (sy_risk s)"
  let ?cap1 = "\<lambda>i. get_reservation_route i t1 (sy_capital s)"
  let ?cap2 = "\<lambda>i. get_reservation_route i t2 (snd (?cap1 i))"
  obtain e' where a: "arm pid ?risk (\<lambda>i. fst (?cap1 i)) (\<lambda>i. fst (?cap2 i)) t3 env m now (sy_exec s) = (Inr p', e')"
    and s': "sy_exec s' = e'" "sy_risk s' = sy_risk s"
      "sy_capital s' = (case (case get_plan pid (sy_exec s) of
           Some p \<Rightarrow> if pl_state p = P_reserved \<and> assertApprovedRiskViaHttp ?risk p = Inr () then pl_capitalReservationId p else None
         | None \<Rightarrow> None) of None \<Rightarrow> sy_capital s | Some i \<Rightarrow> snd (?cap2 i))"
    using assms by (auto simp: arm_over_services_def Let_def split: prod.splits)
  from a obtain peek crid where peek: "get_plan pid (sy_exec s) = Some peek" "pl_capitalReservationId peek = Some crid"
    "pl_state peek = P_reserved"
    and chk: "reservation_checks ?risk (fst (?cap1 crid)) (fst (?cap2 crid)) True t3 peek = Inr ()"
    and tx: "transaction (arm_tx pid m now) (env (sy_exec s)) = (Inr p', e')" by (rule arm_cases)
  have "assertApprovedRiskViaHttp ?risk peek = Inr ()" using chk by (simp add: reservation_checks_def split: sum.splits)
  then have cap': "sy_capital s' = snd (?cap2 crid)" using s'(3) peek by simp
  from chk obtain rid risk cap where c: "pl_riskDecisionId peek = Some rid" "getRiskDecisionHttp (?risk rid) = Inr risk"
    "rs_outcome risk = ''approved''" "pl_correlationId peek \<noteq> None \<longrightarrow> Some (rs_correlationId risk) = pl_correlationId peek"
    "getReservation (fst (?cap2 crid)) = Inr cap" "cs_state cap = ''active''"
    "\<And>ms. cs_expiresAtIso cap = JIso ms \<Longrightarrow> t3 < ms" "cs_planId cap = Some (pl_id peek)"
    "pl_correlationId peek \<noteq> None \<longrightarrow> cs_correlationId cap = pl_correlationId peek"
    by (rule reservation_checks_cases) blast
  from getReservation_route [OF c(5)] obtain row where row: "get_res crid (sy_capital s') = Some row"
    "cs_state cap = cr_status_text (cr_state row)" "cs_planId cap = cr_planId row"
    "cs_correlationId cap = Some (cr_correlationId row)" "cs_expiresAtIso cap = JIso (cr_expiresAt row)"
    "cr_state row = active \<longrightarrow> t2 < cr_expiresAt row" unfolding cap' by blast
  from decision_route [OF c(2)] obtain dec where dec: "get_decision rid (sy_risk s) = Some dec"
    "rs_outcome risk = outcome_name (rk_outcome dec)" "rs_correlationId risk = rk_correlationId dec" by blast
  have idp: "pl_id peek = pid" using peek(1) by (rule get_plan_key)
  have act: "cr_state row = active" using c(6) row(2) by (simp add: status_text_active)
  have rel: "\<exists>r. fst (release crid t (sy_capital s')) = Inr r \<and> cr_state r = released" if "t < cr_expiresAt row" for t
    using that row(1) act
    by (simp add: release_def release_tx_def transaction_def materializeCapitalReservationExpiryIfNeeded_def Let_def)
  have plan: "pl_state p' = P_armed \<and> get_plan pid e' = Some p'"
    using tx
  proof (cases rule: arm_tx_cases)
    case (armed p crid2 saved ev a)
    moreover have "pl_id p = pid" using armed(1) by (rule get_plan_key)
    ultimately show ?thesis by (simp add: db_row_simps)
  qed simp
  show ?thesis
    using plan s' peek row act idp c dec rel by (auto simp: outcome_text_approved)
qed

text \<open>
  C24: an armed plan was backed by its services. When \<open>arm\<close> succeeds over the models of the capital
  and the risk service, the plan is armed, the reservation the plan was linked to is active in the
  capital service, its lease runs beyond the second read and the check, it belongs to this plan, the plan's risk
  decision exists and is approved, and both carry the plan's correlation id. But nothing holds the
  reservation: any release of it before the lease ends succeeds afterwards, with the plan still
  armed.
\<close>

theorem armed_plan_is_backed:
  assumes "arm_over_services pid t1 t2 t3 env m now s = (Inr p', s')"
  shows "pl_state p' = P_armed \<and> get_plan pid (sy_exec s') = Some p' \<and>
    (\<exists>peek crid row rid dec. get_plan pid (sy_exec s) = Some peek \<and> pl_capitalReservationId peek = Some crid
       \<and> get_res crid (sy_capital s') = Some row \<and> cr_state row = active \<and> t2 < cr_expiresAt row \<and> t3 < cr_expiresAt row
       \<and> cr_planId row = Some pid
       \<and> pl_riskDecisionId peek = Some rid \<and> get_decision rid (sy_risk s') = Some dec \<and> rk_outcome dec = approved
       \<and> (pl_correlationId peek \<noteq> None \<longrightarrow> pl_correlationId peek = Some (cr_correlationId row)
            \<and> pl_correlationId peek = Some (rk_correlationId dec))
       \<and> (\<forall>t. t < cr_expiresAt row \<longrightarrow>
            (\<exists>r. fst (release crid t (sy_capital s')) = Inr r \<and> cr_state r = released)))"
  using assms by (rule arm_over_services_backed)

definition ex_decision :: risk_decision where
  "ex_decision = \<lparr> rk_id = ''d1'', rk_correlationId = ''c'', rk_planReference = ''plan'', rk_outcome = approved,
     rk_reasons = [], rk_snapshotVersion = 1, rk_riskMode = standard, rk_notionalUsd = 500, rk_idempotencyKey = None,
     rk_windowId = None, rk_instrumentKey = None, rk_routeKey = None, rk_entityVersion = 1, rk_createdAt = 0 \<rparr>"

definition ex_system :: system where
  "ex_system = \<lparr>
     sy_capital = snd (attemptReserve (Inr 1000) (dto_example\<lparr>rd_correlationId := ''c'', rd_planId := Some ''p1''\<rparr>)
        ''r1'' ''m1'' 0 empty_capital_db),
     sy_risk = empty_risk\<lparr>kd_decisions := [ex_decision]\<rparr>,
     sy_exec = snd (transaction (link_tx ''p1'' ''r1'' 1)
        (snd (create_plan (ex_cdto\<lparr>cp_correlationId := Some ''c'', cp_riskDecisionId := Some ''d1''\<rparr>) ''p1'' 0 empty_exec))) \<rparr>"

theorem armed_plan_is_backed_witness:
  "\<exists>p' s' row. arm_over_services ''p1'' 5 6 7 id ''m2'' 8 ex_system = (Inr p', s') \<and> pl_state p' = P_armed
    \<and> get_res ''r1'' (sy_capital s') = Some row \<and> cr_state row = active"
proof -
  have "case fst (arm_over_services ''p1'' 5 6 7 id ''m2'' 8 ex_system) of Inr _ \<Rightarrow> True | Inl _ \<Rightarrow> False" by code_simp
  then obtain p' s' where a: "arm_over_services ''p1'' 5 6 7 id ''m2'' 8 ex_system = (Inr p', s')"
    by (cases "arm_over_services ''p1'' 5 6 7 id ''m2'' 8 ex_system") (auto split: sum.splits)
  have "map_option pl_capitalReservationId (get_plan ''p1'' (sy_exec ex_system)) = Some (Some ''r1'')" by code_simp
  with armed_plan_is_backed [OF a] show ?thesis using a by auto
qed

end
