(* ===== verification/Portfolio.thy ===== *)
theory Portfolio
  imports Svc_Base
begin

text \<open>
  \<open>apps/portfolio-service\<close>: exact addition of decimal strings (\<open>add-decimal-string.ts\<close>), the
  positions with their two idempotency tables (\<open>positions.service.ts\<close>) and the validation of
  \<open>ConfirmFillDto\<close>. A numeric column holds the string written to it; the columns keep 18 and 8
  decimals, more are rounded by the database, which is not modelled.
\<close>

section \<open>Decimal strings\<close>

definition int_part :: "string \<Rightarrow> string" where
  "int_part s = takeWhile (\<lambda>c. c \<noteq> CHR ''.'') s"

definition frac_part :: "string \<Rightarrow> string" where
  "frac_part s = tl (dropWhile (\<lambda>c. c \<noteq> CHR ''.'') s)"

text \<open>The pattern \<open>\d+(\.\d+)?\<close> over the whole string.\<close>

definition is_decimal :: "string \<Rightarrow> bool" where
  "is_decimal s \<longleftrightarrow> int_part s \<noteq> [] \<and> list_all is_digit (int_part s)
     \<and> (dropWhile (\<lambda>c. c \<noteq> CHR ''.'') s = [] \<or> frac_part s \<noteq> [] \<and> list_all is_digit (frac_part s))"

definition normalize_decimal :: "string \<Rightarrow> exn + string" where
  "normalize_decimal raw =
     (let t = js_trim raw; s = (if t \<noteq> [] \<and> hd t = CHR ''+'' then tl t else t)
      in if is_decimal s then Inr s else Inl (PlainError ''Invalid non-negative decimal string''))"

definition pad_end :: "string \<Rightarrow> nat \<Rightarrow> string" where
  "pad_end s n = s @ replicate (n - length s) CHR ''0''"

function pad_zeros :: "nat \<Rightarrow> string \<Rightarrow> string" where
  "pad_zeros scale digits = (if length digits \<le> scale then pad_zeros scale (CHR ''0'' # digits) else digits)"
  by pat_completeness auto
termination by (relation "measure (\<lambda>(scale, digits). Suc scale - length digits)") auto

declare pad_zeros.simps [simp del]

definition strip_zeros :: "string \<Rightarrow> string" where
  "strip_zeros f = rev (dropWhile (\<lambda>c. c = CHR ''0'') (rev f))"

definition formatScaledUnsignedInteger :: "nat \<Rightarrow> nat \<Rightarrow> string" where
  "formatScaledUnsignedInteger total_units scale =
     (if scale = 0 then digits_of_nat total_units
      else (let digits = pad_zeros scale (digits_of_nat total_units);
                intPart = take (length digits - scale) digits;
                fracPart = drop (length digits - scale) digits;
                trimmedFrac = strip_zeros fracPart
            in if length trimmedFrac > 0 then intPart @ ''.'' @ trimmedFrac else intPart))"

definition addNonNegativeDecimalStrings :: "string \<Rightarrow> string \<Rightarrow> exn + string" where
  "addNonNegativeDecimalStrings a b =
     (case normalize_decimal a of Inl e \<Rightarrow> Inl e
      | Inr A \<Rightarrow> (case normalize_decimal b of Inl e \<Rightarrow> Inl e
      | Inr B \<Rightarrow>
          (let scale = max (length (frac_part A)) (length (frac_part B));
               aDigits = int_part A @ pad_end (frac_part A) scale;
               bDigits = int_part B @ pad_end (frac_part B) scale;
               total_units = nat_of_digits 0 aDigits + nat_of_digits 0 bDigits
           in Inr (formatScaledUnsignedInteger total_units scale))))"

text \<open>The number a decimal string denotes.\<close>

definition dec_value :: "string \<Rightarrow> rat" where
  "dec_value s = of_nat (nat_of_digits 0 (int_part s @ frac_part s)) / 10 ^ length (frac_part s)"

subsection \<open>It adds\<close>

lemma digit_not_dot: "is_digit c \<Longrightarrow> c \<noteq> CHR ''.''"
  by (auto simp: is_digit_def)

lemma parts_join:
  assumes "list_all is_digit i"
  shows "int_part (i @ ''.'' @ f) = i" "frac_part (i @ ''.'' @ f) = f" "int_part i = i" "frac_part i = []"
    "dropWhile (\<lambda>c. c \<noteq> CHR ''.'') i = []"
proof -
  have p: "\<And>c. c \<in> set i \<Longrightarrow> c \<noteq> CHR ''.''" using assms digit_not_dot by (auto simp: list_all_iff)
  then have d: "dropWhile (\<lambda>c. c \<noteq> CHR ''.'') i = []" by (simp add: dropWhile_eq_Nil_conv)
  show "int_part (i @ ''.'' @ f) = i" "frac_part (i @ ''.'' @ f) = f" "int_part i = i" "frac_part i = []"
    "dropWhile (\<lambda>c. c \<noteq> CHR ''.'') i = []"
    using p by (simp_all add: int_part_def frac_part_def takeWhile_append2 dropWhile_append2 d)
qed

lemma is_decimal_join:
  "list_all is_digit i \<Longrightarrow> i \<noteq> [] \<Longrightarrow> is_decimal i"
  "list_all is_digit i \<Longrightarrow> i \<noteq> [] \<Longrightarrow> list_all is_digit f \<Longrightarrow> f \<noteq> [] \<Longrightarrow> is_decimal (i @ ''.'' @ f)"
  using parts_join [of i] by (auto simp: is_decimal_def)

lemma nat_of_zeros: "nat_of_digits acc (replicate n CHR ''0'') = acc * 10 ^ n"
  by (induction n arbitrary: acc) (auto simp: digit_val_def)

lemma value_pad:
  assumes "length f \<le> n"
  shows "(of_nat (nat_of_digits 0 (i @ pad_end f n)) :: rat) / 10 ^ n = of_nat (nat_of_digits 0 (i @ f)) / 10 ^ length f"
proof -
  have e: "n = length f + (n - length f)" using assms by simp
  have "i @ pad_end f n = (i @ f) @ replicate (n - length f) CHR ''0''" by (simp add: pad_end_def)
  then have "nat_of_digits 0 (i @ pad_end f n) = nat_of_digits 0 (i @ f) * 10 ^ (n - length f)"
    by (simp only: nat_of_digits_append nat_of_zeros)
  moreover have "(10::rat) ^ n = 10 ^ length f * 10 ^ (n - length f)" by (metis e power_add)
  ultimately show ?thesis by simp
qed

lemma pad_zeros_eq: "pad_zeros n d = replicate (Suc n - length d) CHR ''0'' @ d"
proof (induction n d rule: pad_zeros.induct)
  case (1 n d)
  show ?case
  proof (cases "length d \<le> n")
    case True
    then obtain k where "Suc n - length d = Suc k" "n - length d = k" by (metis Suc_diff_le)
    with 1 True show ?thesis by (simp add: pad_zeros.simps [of n d] replicate_append_same [symmetric])
  next
    case False
    then show ?thesis by (simp add: pad_zeros.simps [of n d])
  qed
qed

lemma strip_zeros_split: "\<exists>k. f = strip_zeros f @ replicate k CHR ''0''"
proof -
  have "rev f = takeWhile (\<lambda>c. c = CHR ''0'') (rev f) @ dropWhile (\<lambda>c. c = CHR ''0'') (rev f)" by simp
  then have "f = strip_zeros f @ rev (takeWhile (\<lambda>c. c = CHR ''0'') (rev f))"
    unfolding strip_zeros_def by (metis rev_append rev_rev_ident)
  moreover have "\<forall>c \<in> set (takeWhile (\<lambda>c. c = CHR ''0'') (rev f)). c = CHR ''0''" by (metis set_takeWhileD)
  then obtain k where "rev (takeWhile (\<lambda>c. c = CHR ''0'') (rev f)) = replicate k CHR ''0''"
    by (metis replicate_length_same set_rev)
  ultimately show ?thesis by metis
qed

lemma strip_zeros_last: "strip_zeros f \<noteq> [] \<Longrightarrow> last (strip_zeros f) \<noteq> CHR ''0''"
  unfolding strip_zeros_def by (metis (mono_tags) hd_dropWhile last_rev rev.simps(1) rev_rev_ident)

lemma nat_of_digits_strip: "nat_of_digits 0 (i @ f) = nat_of_digits 0 (i @ strip_zeros f) * 10 ^ (length f - length (strip_zeros f))"
proof -
  obtain k where k: "f = strip_zeros f @ replicate k CHR ''0''" using strip_zeros_split by blast
  then have "nat_of_digits 0 (i @ f) = nat_of_digits 0 (i @ strip_zeros f @ replicate k CHR ''0'')" by simp
  also have "\<dots> = nat_of_digits 0 (i @ strip_zeros f) * 10 ^ k" by (simp only: nat_of_digits_append nat_of_zeros)
  finally show ?thesis using k by (metis add_diff_cancel_left' length_append length_replicate)
qed

lemma format_scaled:
  "is_decimal (formatScaledUnsignedInteger n scale) \<and> dec_value (formatScaledUnsignedInteger n scale) = of_nat n / 10 ^ scale
    \<and> (frac_part (formatScaledUnsignedInteger n scale) = [] \<or> last (frac_part (formatScaledUnsignedInteger n scale)) \<noteq> CHR ''0'')"
proof (cases "scale = 0")
  case True
  have d: "list_all is_digit (digits_of_nat n)" using digits_of_nat_digits by (simp add: list_all_iff)
  show ?thesis using True parts_join [OF d] is_decimal_join(1) [OF d]
    by (simp add: formatScaledUnsignedInteger_def dec_value_def)
next
  case False
  define D where "D = pad_zeros scale (digits_of_nat n)"
  define i where "i = take (length D - scale) D"
  define f where "f = drop (length D - scale) D"
  have len: "length D > scale" by (simp add: D_def pad_zeros_eq)
  then have lf: "length f = scale" and ne: "i \<noteq> []" by (auto simp: i_def f_def)
  have D: "D = i @ f" by (simp add: i_def f_def)
  have "list_all is_digit D"
    using digits_of_nat_digits [of n] by (auto simp: D_def pad_zeros_eq list_all_iff is_digit_def)
  then have di: "list_all is_digit i" and df: "list_all is_digit f" unfolding D by auto
  have "nat_of_digits 0 D = nat_of_digits (nat_of_digits 0 (replicate (Suc scale - length (digits_of_nat n)) CHR ''0'')) (digits_of_nat n)"
    unfolding D_def pad_zeros_eq by (rule nat_of_digits_append)
  then have v: "nat_of_digits 0 (i @ f) = n" by (simp add: nat_of_zeros D [symmetric])
  have ds: "list_all is_digit (strip_zeros f)"
    using strip_zeros_split [of f] df by (metis list_all_append)
  let ?s = "strip_zeros f"
  have ls: "length ?s \<le> scale" using strip_zeros_split [of f] lf by (metis le_add1 length_append)
  have "(10::rat) ^ scale = 10 ^ length ?s * 10 ^ (scale - length ?s)" using ls by (simp add: power_add [symmetric])
  moreover have "n = nat_of_digits 0 (i @ ?s) * 10 ^ (scale - length ?s)" using nat_of_digits_strip [of i f] v lf by simp
  then have "(of_nat n :: rat) = of_nat (nat_of_digits 0 (i @ ?s)) * 10 ^ (scale - length ?s)"
    by (metis of_nat_mult of_nat_numeral of_nat_power)
  ultimately have val: "(of_nat (nat_of_digits 0 (i @ ?s)) :: rat) / 10 ^ length ?s = of_nat n / 10 ^ scale" by simp
  have F: "formatScaledUnsignedInteger n scale = (if ?s \<noteq> [] then i @ ''.'' @ ?s else i)"
    using False by (simp add: formatScaledUnsignedInteger_def Let_def D_def [symmetric] i_def [symmetric] f_def [symmetric])
  show ?thesis
    using F val parts_join [OF di] is_decimal_join [OF di ne] ds strip_zeros_last [of f]
    by (auto simp: dec_value_def)
qed

lemma normalize_value:
  assumes "normalize_decimal raw = Inr s"
  shows "is_decimal s"
  using assms by (auto simp: normalize_decimal_def Let_def split: if_splits)

lemma add_exact:
  "case addNonNegativeDecimalStrings a b of
     Inl _ \<Rightarrow> (\<exists>e. normalize_decimal a = Inl e) \<or> (\<exists>e. normalize_decimal b = Inl e)
   | Inr s \<Rightarrow> (\<exists>A B. normalize_decimal a = Inr A \<and> normalize_decimal b = Inr B \<and> dec_value s = dec_value A + dec_value B)
       \<and> is_decimal s \<and> (frac_part s = [] \<or> last (frac_part s) \<noteq> CHR ''0'')"
proof -
  {
    fix A B
    assume n: "normalize_decimal a = Inr A" "normalize_decimal b = Inr B"
    let ?n = "max (length (frac_part A)) (length (frac_part B))"
    let ?a = "nat_of_digits 0 (int_part A @ pad_end (frac_part A) ?n)"
    let ?b = "nat_of_digits 0 (int_part B @ pad_end (frac_part B) ?n)"
    have r: "addNonNegativeDecimalStrings a b = Inr (formatScaledUnsignedInteger (?a + ?b) ?n)"
      using n by (simp add: addNonNegativeDecimalStrings_def Let_def)
    have "(of_nat (?a + ?b) :: rat) / 10 ^ ?n = dec_value A + dec_value B"
      using value_pad [of "frac_part A" ?n "int_part A"] value_pad [of "frac_part B" ?n "int_part B"]
      by (simp add: dec_value_def add_divide_distrib)
    with format_scaled [of "?a + ?b" ?n] n r have ?thesis by simp
  }
  then show ?thesis
    by (auto simp: addNonNegativeDecimalStrings_def Let_def split: sum.splits)
qed

text \<open>
  The addition of decimal strings is exact. It succeeds exactly when both inputs are
  non-negative decimals (after trimming and dropping one plus sign); the result denotes the
  exact sum, is itself a valid input, and its fraction never ends in a zero.
\<close>

theorem decimal_addition_exact:
  "case addNonNegativeDecimalStrings a b of
     Inl _ \<Rightarrow> (\<exists>e. normalize_decimal a = Inl e) \<or> (\<exists>e. normalize_decimal b = Inl e)
   | Inr s \<Rightarrow> (\<exists>A B. normalize_decimal a = Inr A \<and> normalize_decimal b = Inr B \<and> dec_value s = dec_value A + dec_value B)
       \<and> is_decimal s \<and> (frac_part s = [] \<or> last (frac_part s) \<noteq> CHR ''0'')"
  by (rule add_exact)

theorem decimal_addition_exact_witness:
  "addNonNegativeDecimalStrings ''0.1'' '' +0.20 '' = Inr ''0.3'' \<and> last (frac_part ''0.3'') \<noteq> CHR ''0''"
proof -
  have r: "addNonNegativeDecimalStrings ''0.1'' '' +0.20 '' = Inr ''0.3''" "frac_part ''0.3'' = ''3''" by code_simp+
  with decimal_addition_exact [of "''0.1''" "'' +0.20 ''"] show ?thesis by simp
qed

end
