(* ===== verification/Positions.thy ===== *)
theory Positions
  imports Portfolio
begin

text \<open>
  The positions of the portfolio service (\<open>positions.service.ts\<close>) with the tables that
  deduplicate fills and closes, and the route that validates a fill confirmation.
\<close>

section \<open>State\<close>

record position =
  po_id :: string
  po_planId :: "string option"
  po_instrumentKey :: string
  po_quantity :: string
  po_notionalUsd :: string
  po_entityVersion :: int
  po_updatedAt :: int

record portfolio_db =
  pf_positions :: "position list"
  pf_fillKeys :: "(string \<times> string) list"   \<comment> \<open>leg id and idempotency key\<close>
  pf_closeKeys :: "(string \<times> string) list"  \<comment> \<open>position id and idempotency key\<close>
  pf_audit :: "audit_entry list"

definition get_pos :: "string \<Rightarrow> portfolio_db \<Rightarrow> position option" where
  "get_pos i d = get_row po_id i (pf_positions d)"

definition save_pos :: "position \<Rightarrow> portfolio_db \<Rightarrow> portfolio_db" where
  "save_pos p d = d\<lparr>pf_positions := save_row po_id p (pf_positions d)\<rparr>"

interpretation positions: row_store get_pos save_pos po_id
  by unfold_locales (simp_all add: get_pos_def save_pos_def row_simps)

definition find_pos :: "string \<Rightarrow> string \<Rightarrow> portfolio_db \<Rightarrow> position option" where
  "find_pos planId instr d = find (\<lambda>p. po_planId p = Some planId \<and> po_instrumentKey p = instr) (pf_positions d)"

section \<open>Operations\<close>

definition isZeroQuantity :: "string \<Rightarrow> bool" where
  "isZeroQuantity q = (case js_Number q of Fin n \<Rightarrow> n = 0 | _ \<Rightarrow> True)"

definition list_positions :: "portfolio_db \<Rightarrow> position list" where
  "list_positions d = take 200 (sort_key (\<lambda>p. - po_updatedAt p) (pf_positions d))"

record confirm_fill_dto =
  cf_planId :: string
  cf_legId :: string
  cf_instrumentKey :: string
  cf_quantity :: string
  cf_notionalUsd :: "string option"
  cf_idempotencyKey :: string

definition fill_key :: "confirm_fill_dto \<Rightarrow> string \<times> string" where
  "fill_key q = (cf_legId q, cf_idempotencyKey q)"

text \<open>The position of the fill, created and saved first if it does not exist.\<close>

definition pos_for_fill :: "confirm_fill_dto \<Rightarrow> string \<Rightarrow> int \<Rightarrow> portfolio_db \<Rightarrow> position \<times> portfolio_db" where
  "pos_for_fill q newId now d =
     (case find_pos (cf_planId q) (cf_instrumentKey q) d of
        Some p \<Rightarrow> (p, d)
      | None \<Rightarrow>
          (let p = \<lparr> po_id = newId, po_planId = Some (cf_planId q), po_instrumentKey = cf_instrumentKey q,
             po_quantity = ''0'', po_notionalUsd = ''0'', po_entityVersion = 1, po_updatedAt = now \<rparr>
           in (p, save_pos p d)))"

definition confirm_tx :: "confirm_fill_dto \<Rightarrow> string \<Rightarrow> int \<Rightarrow> portfolio_db \<Rightarrow> (unit, portfolio_db) outcome" where
  "confirm_tx q newId now d =
     (if fill_key q \<in> set (pf_fillKeys d) then (Inr (), d)
      else case pos_for_fill q newId now d of
        (p, d1) \<Rightarrow>
          (case addNonNegativeDecimalStrings (po_quantity p) (cf_quantity q) of
             Inl e \<Rightarrow> (Inl e, d1)
           | Inr quantity \<Rightarrow>
               (case addNonNegativeDecimalStrings (po_notionalUsd p)
                       (case cf_notionalUsd q of None \<Rightarrow> ''0'' | Some n \<Rightarrow> n) of
                  Inl e \<Rightarrow> (Inl e, d1)
                | Inr notional \<Rightarrow>
                    (let p' = p\<lparr>po_quantity := quantity, po_notionalUsd := notional,
                            po_entityVersion := po_entityVersion p + 1, po_updatedAt := now\<rparr>;
                         d2 = save_pos p' d1
                     in (Inr (), d2\<lparr>pf_fillKeys := pf_fillKeys d2 @ [fill_key q]\<rparr>)))))"

definition confirmFill :: "confirm_fill_dto \<Rightarrow> string \<Rightarrow> int \<Rightarrow> portfolio_db \<Rightarrow> (unit, portfolio_db) outcome" where
  "confirmFill q newId now = transaction (confirm_tx q newId now)"

record close_dto =
  cl_operatorId :: string
  cl_idempotencyKey :: "string option"
  cl_approveReason :: "string option"
  cl_expectedEntityVersion :: "int option"

definition close_audit :: "close_dto \<Rightarrow> string option \<Rightarrow> string \<Rightarrow> string \<Rightarrow> (string \<times> json) \<Rightarrow> audit_entry" where
  "close_audit q idem action positionId extra =
     \<lparr> au_idempotencyKey = idem, au_correlationId = None, au_actor = cl_operatorId q, au_action = action,
       au_resourceType = ''portfolio_position'', au_resourceId = positionId,
       au_payload = JObj [(''approveReason'', jstr_or_null (cl_approveReason q)), extra] \<rparr>"

text \<open>
  \<open>close\<close>: \<open>auditOk\<close> says whether the audit service accepts the entry, which is awaited inside
  the transaction.
\<close>

definition audited_close :: "bool \<Rightarrow> audit_entry \<Rightarrow> position \<Rightarrow> portfolio_db \<Rightarrow> (position, portfolio_db) outcome" where
  "audited_close auditOk a p d =
     (if auditOk then (Inr p, d\<lparr>pf_audit := pf_audit d @ [a]\<rparr>) else (Inl (PlainError ''audit append failed''), d))"

definition close_tx :: "string \<Rightarrow> close_dto \<Rightarrow> bool \<Rightarrow> int \<Rightarrow> portfolio_db \<Rightarrow> (position, portfolio_db) outcome" where
  "close_tx positionId q auditOk now d =
     (let idem = map_option js_trim (cl_idempotencyKey q);
          key = (case idem of Some k \<Rightarrow> if k = [] then None else Some k | None \<Rightarrow> None)
      in if (\<exists>k \<in> set_option key. (positionId, k) \<in> set (pf_closeKeys d))
         then (case get_pos positionId d of
                 None \<Rightarrow> (Inl (NotFoundException ''Position not found''), d)
               | Some row \<Rightarrow> (Inr row, d))
         else case get_pos positionId d of
           None \<Rightarrow> (Inl (NotFoundException ''Position not found''), d)
         | Some p \<Rightarrow>
             (if cl_expectedEntityVersion q \<noteq> None \<and> cl_expectedEntityVersion q \<noteq> Some (po_entityVersion p)
              then (Inl (ConflictException ''entity version mismatch''), d)
              else if isZeroQuantity (po_quantity p)
              then audited_close auditOk
                     (close_audit q idem ''PORTFOLIO_POSITION_CLOSE_IDEMPOTENT'' positionId (''note'', JStr ''already_zero'')) p d
              else
                (let p' = p\<lparr>po_quantity := ''0'', po_entityVersion := po_entityVersion p + 1, po_updatedAt := now\<rparr>;
                     d1 = save_pos p' d;
                     d2 = (case key of None \<Rightarrow> d1 | Some k \<Rightarrow> d1\<lparr>pf_closeKeys := pf_closeKeys d1 @ [(positionId, k)]\<rparr>)
                 in audited_close auditOk
                      (close_audit q idem ''PORTFOLIO_POSITION_CLOSED'' positionId
                         (''newEntityVersion'', JNum (of_int (po_entityVersion p')))) p' d2)))"

definition close_position :: "string \<Rightarrow> close_dto \<Rightarrow> bool \<Rightarrow> int \<Rightarrow> portfolio_db \<Rightarrow> (position, portfolio_db) outcome" where
  "close_position positionId q auditOk now = transaction (close_tx positionId q auditOk now)"

declare confirm_tx_def [op_defs] confirmFill_def [op_defs] close_tx_def [op_defs] close_position_def [op_defs]

section \<open>The route of a fill confirmation\<close>

definition valid_confirm_fill :: "confirm_fill_dto \<Rightarrow> bool" where
  "valid_confirm_fill q \<longleftrightarrow> is_uuid4 (cf_planId q) \<and> is_uuid4 (cf_legId q)
     \<and> 1 \<le> length (cf_instrumentKey q) \<and> length (cf_instrumentKey q) \<le> 512
     \<and> 1 \<le> length (cf_quantity q) \<and> length (cf_quantity q) \<le> 64
     \<and> (case cf_notionalUsd q of None \<Rightarrow> True | Some n \<Rightarrow> is_decimal n \<and> length n \<le> 64)
     \<and> is_uuid4 (cf_idempotencyKey q)"

text \<open>\<open>POST /positions/confirm-fill\<close>: the status of the answer.\<close>

definition confirm_fill_route :: "confirm_fill_dto \<Rightarrow> string \<Rightarrow> int \<Rightarrow> portfolio_db \<Rightarrow> int \<times> portfolio_db" where
  "confirm_fill_route q newId now d =
     (if \<not> valid_confirm_fill q then (400, d)
      else case confirmFill q newId now d of
        (Inl _, d') \<Rightarrow> (500, d')
      | (Inr _, d') \<Rightarrow> (204, d'))"

end
