(* ===== verification/Positions_Props.thy ===== *)
theory Positions_Props
  imports Positions
begin

text \<open>
  What the positions promise: each confirmed fill counts once, for any sequence of deliveries
  and redeliveries.
\<close>

section \<open>The stored decimals\<close>

lemma decimal_chars:
  assumes "is_decimal s" "c \<in> set s"
  shows "is_digit c \<or> c = CHR ''.''"
proof -
  have s: "s = int_part s @ dropWhile (\<lambda>c. c \<noteq> CHR ''.'') s" by (simp add: int_part_def)
  show ?thesis
  proof (cases "dropWhile (\<lambda>c. c \<noteq> CHR ''.'') s")
    case Nil
    with s assms show ?thesis by (auto simp: is_decimal_def list_all_iff)
  next
    case (Cons x xs)
    then have "x = CHR ''.''" by (metis (mono_tags) hd_dropWhile list.discI list.sel(1))
    moreover have "frac_part s = xs" using Cons by (simp add: frac_part_def)
    moreover have "c \<in> set (int_part s) \<or> c \<in> set (dropWhile (\<lambda>c. c \<noteq> CHR ''.'') s)"
      using assms(2) s by (metis Un_iff set_append)
    ultimately show ?thesis using assms(1) Cons by (auto simp: is_decimal_def list_all_iff)
  qed
qed

lemma normalize_decimal_id:
  assumes "is_decimal s"
  shows "normalize_decimal s = Inr s"
proof -
  have "\<not> is_ws c" if "c \<in> set s" for c
    using decimal_chars [OF assms that] digit_not_ws [of c] by (auto simp: is_ws_def)
  then have "\<forall>c \<in> set s. \<not> is_ws c" by blast
  then have t: "js_trim s = s" by (rule js_trim_no_ws)
  have "\<not> is_decimal []" by (simp add: is_decimal_def int_part_def)
  then have "s \<noteq> []" using assms by metis
  moreover have "\<not> is_digit CHR ''+''" by (simp add: is_digit_def)
  then have "CHR ''+'' \<notin> set s" using decimal_chars [OF assms, of "CHR ''+''"] by auto
  then have "hd s \<noteq> CHR ''+''" using \<open>s \<noteq> []\<close> hd_in_set by metis
  ultimately show ?thesis using t assms by (simp add: normalize_decimal_def)
qed

lemma add_to_decimal:
  assumes "is_decimal a"
  shows "case normalize_decimal b of
      Inl _ \<Rightarrow> \<exists>e. addNonNegativeDecimalStrings a b = Inl e
    | Inr B \<Rightarrow> \<exists>s. addNonNegativeDecimalStrings a b = Inr s \<and> is_decimal s \<and> dec_value s = dec_value a + dec_value B"
proof -
  have "\<exists>s. addNonNegativeDecimalStrings a b = Inr s" if "normalize_decimal b = Inr B" for B
    using that by (simp add: addNonNegativeDecimalStrings_def normalize_decimal_id [OF assms] Let_def)
  moreover have "\<exists>e. addNonNegativeDecimalStrings a b = Inl e" if "normalize_decimal b = Inl e" for e
    using that by (simp add: addNonNegativeDecimalStrings_def normalize_decimal_id [OF assms])
  moreover have "is_decimal s \<and> (\<exists>B. normalize_decimal b = Inr B \<and> dec_value s = dec_value a + dec_value B)"
    if "addNonNegativeDecimalStrings a b = Inr s" for s
    using add_exact [of a b] that by (auto simp: normalize_decimal_id [OF assms])
  ultimately show ?thesis by (force split: sum.splits)
qed

section \<open>The totals of a plan and an instrument\<close>

definition pos_total :: "(position \<Rightarrow> string) \<Rightarrow> string \<Rightarrow> string \<Rightarrow> portfolio_db \<Rightarrow> rat" where
  "pos_total f planId instr d = (case find_pos planId instr d of None \<Rightarrow> 0 | Some p \<Rightarrow> dec_value (f p))"

definition positions_inv :: "portfolio_db \<Rightarrow> bool" where
  "positions_inv d \<longleftrightarrow> distinct (map po_id (pf_positions d))
     \<and> (\<forall>p \<in> set (pf_positions d). is_decimal (po_quantity p) \<and> is_decimal (po_notionalUsd p))"

definition dec_in :: "string \<Rightarrow> rat" where
  "dec_in s = (case normalize_decimal s of Inl _ \<Rightarrow> 0 | Inr n \<Rightarrow> dec_value n)"

definition notional_of :: "confirm_fill_dto \<Rightarrow> string" where
  "notional_of q = (case cf_notionalUsd q of None \<Rightarrow> ''0'' | Some n \<Rightarrow> n)"

definition acceptable :: "confirm_fill_dto \<Rightarrow> bool" where
  "acceptable q \<longleftrightarrow> (\<exists>s. normalize_decimal (cf_quantity q) = Inr s) \<and> (\<exists>s. normalize_decimal (notional_of q) = Inr s)"

text \<open>Replacing the row that was found, or appending a new one, changes one search only.\<close>

lemma find_replace_hit:
  assumes "find P xs = Some p" and "key p' = key p" and "P p'" and "distinct (map key xs)"
  shows "find P (save_row key p' xs) = Some p'"
proof -
  have "find P (map (\<lambda>x. if key x = key p' then p' else x) xs) = Some p'"
    using assms
  proof (induction xs)
    case (Cons x xs)
    then show ?case by (auto simp: find_Some_iff split: if_splits)
  qed simp
  moreover have "\<exists>x \<in> set xs. key x = key p'" using assms(1,2) by (auto simp: find_Some_iff)
  ultimately show ?thesis by (simp add: save_row_def)
qed

lemma find_replace_miss:
  assumes "\<And>x. x \<in> set xs \<Longrightarrow> key x = key p' \<Longrightarrow> \<not> P x" and "\<not> P p'"
  shows "find P (save_row key p' xs) = find P xs"
proof -
  have "find P (map (\<lambda>x. if key x = key p' then p' else x) xs) = find P xs" using assms by (induction xs) auto
  then show ?thesis using assms(2) by (simp add: save_row_def find_append split: option.splits)
qed

lemma confirm_fill_cases:
  assumes "confirmFill q newId now d = (out, d')" and inv: "positions_inv d" and fresh: "get_pos newId d = None"
  obtains (skip) "d' = d" "fill_key q \<in> set (pf_fillKeys d) \<or> \<not> acceptable q"
  | (booked) p p' where "fill_key q \<notin> set (pf_fillKeys d)" "acceptable q"
      "p = fst (pos_for_fill q newId now d)" "po_id p' = po_id p" "po_planId p' = Some (cf_planId q)"
      "po_instrumentKey p' = cf_instrumentKey q" "is_decimal (po_quantity p')" "is_decimal (po_notionalUsd p')"
      "dec_value (po_quantity p') = pos_total po_quantity (cf_planId q) (cf_instrumentKey q) d + dec_in (cf_quantity q)"
      "dec_value (po_notionalUsd p') = pos_total po_notionalUsd (cf_planId q) (cf_instrumentKey q) d + dec_in (notional_of q)"
      "pf_positions d' = save_row po_id p' (pf_positions d)" "pf_fillKeys d' = pf_fillKeys d @ [fill_key q]"
proof (cases "fill_key q \<in> set (pf_fillKeys d)")
  case True
  with assms(1) skip show thesis by (simp add: confirmFill_def confirm_tx_def transaction_def)
next
  case new: False
  obtain p d1 where p: "pos_for_fill q newId now d = (p, d1)" by (cases "pos_for_fill q newId now d")
  have z: "is_decimal ''0''" "dec_value ''0'' = 0" by code_simp+
  have P: "is_decimal (po_quantity p)" "is_decimal (po_notionalUsd p)" "po_planId p = Some (cf_planId q)"
     "po_instrumentKey p = cf_instrumentKey q" "pf_fillKeys d1 = pf_fillKeys d"
     "dec_value (po_quantity p) = pos_total po_quantity (cf_planId q) (cf_instrumentKey q) d"
     "dec_value (po_notionalUsd p) = pos_total po_notionalUsd (cf_planId q) (cf_instrumentKey q) d"
     "pf_positions d1 = pf_positions d \<or> pf_positions d1 = save_row po_id p (pf_positions d)"
  proof -
    show "is_decimal (po_quantity p)" "is_decimal (po_notionalUsd p)" "po_planId p = Some (cf_planId q)"
     "po_instrumentKey p = cf_instrumentKey q" "pf_fillKeys d1 = pf_fillKeys d"
     "dec_value (po_quantity p) = pos_total po_quantity (cf_planId q) (cf_instrumentKey q) d"
     "dec_value (po_notionalUsd p) = pos_total po_notionalUsd (cf_planId q) (cf_instrumentKey q) d"
     "pf_positions d1 = pf_positions d \<or> pf_positions d1 = save_row po_id p (pf_positions d)"
      using p inv z
      by (cases "find_pos (cf_planId q) (cf_instrumentKey q) d";
          auto simp: pos_for_fill_def pos_total_def Let_def positions_inv_def save_pos_def;
          auto simp: find_pos_def dest!: find_SomeD)+
  qed
  have s: "save_row po_id p'' (pf_positions d1) = save_row po_id p'' (pf_positions d)" if "po_id p'' = po_id p" for p''
    using P(8) that by auto
  have aq: "case normalize_decimal (cf_quantity q) of
      Inl _ \<Rightarrow> \<exists>e. addNonNegativeDecimalStrings (po_quantity p) (cf_quantity q) = Inl e
    | Inr B \<Rightarrow> \<exists>s. addNonNegativeDecimalStrings (po_quantity p) (cf_quantity q) = Inr s \<and> is_decimal s
         \<and> dec_value s = dec_value (po_quantity p) + dec_value B" by (rule add_to_decimal [OF P(1)])
  have an: "case normalize_decimal (notional_of q) of
      Inl _ \<Rightarrow> \<exists>e. addNonNegativeDecimalStrings (po_notionalUsd p) (notional_of q) = Inl e
    | Inr B \<Rightarrow> \<exists>s. addNonNegativeDecimalStrings (po_notionalUsd p) (notional_of q) = Inr s \<and> is_decimal s
         \<and> dec_value s = dec_value (po_notionalUsd p) + dec_value B" by (rule add_to_decimal [OF P(2)])
  show thesis
  proof (cases "acceptable q")
    case False
    then have "\<exists>e. confirm_tx q newId now d = (Inl e, d1)"
      using new p aq an
      by (auto simp: confirm_tx_def acceptable_def notional_of_def [symmetric] split: sum.splits)
    with assms(1) False skip show thesis by (auto simp: confirmFill_def transaction_def)
  next
    case True
    then obtain B1 B2 where B: "normalize_decimal (cf_quantity q) = Inr B1" "normalize_decimal (notional_of q) = Inr B2"
      by (auto simp: acceptable_def)
    obtain s1 where s1: "addNonNegativeDecimalStrings (po_quantity p) (cf_quantity q) = Inr s1" "is_decimal s1"
        "dec_value s1 = dec_value (po_quantity p) + dec_value B1" using aq B by auto
    obtain s2 where s2: "addNonNegativeDecimalStrings (po_notionalUsd p) (notional_of q) = Inr s2" "is_decimal s2"
        "dec_value s2 = dec_value (po_notionalUsd p) + dec_value B2" using an B by auto
    define p' where "p' = p\<lparr>po_quantity := s1, po_notionalUsd := s2, po_entityVersion := po_entityVersion p + 1, po_updatedAt := now\<rparr>"
    have "confirm_tx q newId now d
        = (Inr (), (save_pos p' d1)\<lparr>pf_fillKeys := pf_fillKeys (save_pos p' d1) @ [fill_key q]\<rparr>)"
      using new p s1 s2 by (simp add: confirm_tx_def notional_of_def [symmetric] p'_def Let_def)
    then have d': "d' = (save_pos p' d1)\<lparr>pf_fillKeys := pf_fillKeys (save_pos p' d1) @ [fill_key q]\<rparr>"
      using assms(1) by (simp add: confirmFill_def transaction_def)
    show thesis
      by (rule booked [of p p'])
        (use new True p P B s1 s2 s [of p'] in \<open>simp_all add: d' p'_def save_pos_def dec_in_def\<close>)
  qed
qed

lemma confirm_fill_step:
  assumes c: "confirmFill q newId now d = (out, d')" and inv: "positions_inv d" and fresh: "get_pos newId d = None"
  shows "positions_inv d' \<and> po_id ` set (pf_positions d') \<subseteq> insert newId (po_id ` set (pf_positions d))
    \<and> (if fill_key q \<in> set (pf_fillKeys d) \<or> \<not> acceptable q then d' = d
       else pf_fillKeys d' = pf_fillKeys d @ [fill_key q]
         \<and> (\<forall>pid ik. pos_total po_quantity pid ik d' = pos_total po_quantity pid ik d
              + (if pid = cf_planId q \<and> ik = cf_instrumentKey q then dec_in (cf_quantity q) else 0)
            \<and> pos_total po_notionalUsd pid ik d' = pos_total po_notionalUsd pid ik d
              + (if pid = cf_planId q \<and> ik = cf_instrumentKey q then dec_in (notional_of q) else 0)))"
  using assms
proof (cases rule: confirm_fill_cases)
  case skip
  with inv show ?thesis by auto
next
  case (booked p p')
  let ?P = "\<lambda>pid ik p. po_planId p = Some pid \<and> po_instrumentKey p = ik"
  have dist: "distinct (map po_id (pf_positions d))" using inv by (simp add: positions_inv_def)
  have nomem: "newId \<notin> po_id ` set (pf_positions d)"
    using fresh by (auto simp: get_pos_def get_row_def find_None_iff)
  have pq: "?P (cf_planId q) (cf_instrumentKey q) p"
    using booked(3) by (cases "find_pos (cf_planId q) (cf_instrumentKey q) d")
      (auto simp: pos_for_fill_def Let_def find_pos_def dest!: find_SomeD)
  have hit: "find_pos (cf_planId q) (cf_instrumentKey q) d' = Some p'"
  proof (cases "find_pos (cf_planId q) (cf_instrumentKey q) d")
    case None
    then have "po_id p' = newId" using booked(3,4) by (simp add: pos_for_fill_def Let_def)
    then have "save_row po_id p' (pf_positions d) = pf_positions d @ [p']"
      using nomem by (force simp: save_row_def image_iff)
    with None booked(5,6,11) show ?thesis by (simp add: find_pos_def find_append)
  next
    case (Some r)
    then have "r = p" using booked(3) by (simp add: pos_for_fill_def)
    with Some have f: "find (?P (cf_planId q) (cf_instrumentKey q)) (pf_positions d) = Some p" by (simp add: find_pos_def)
    show ?thesis unfolding find_pos_def booked(11)
      by (rule find_replace_hit [OF f booked(4) _ dist]) (use booked(5,6) in simp)
  qed
  have uniq: "x = p" if "x \<in> set (pf_positions d)" "po_id x = po_id p'" for x
  proof (cases "find_pos (cf_planId q) (cf_instrumentKey q) d")
    case None
    then have "po_id p' = newId" using booked(3,4) by (simp add: pos_for_fill_def Let_def)
    with that nomem show ?thesis by auto
  next
    case (Some r)
    then have "r = p" "r \<in> set (pf_positions d)" using booked(3) by (auto simp: pos_for_fill_def find_pos_def dest: find_SomeD)
    with that booked(4) dist show ?thesis by (auto simp: distinct_map inj_on_def)
  qed
  have miss: "find_pos pid ik d' = find_pos pid ik d" if "\<not> (pid = cf_planId q \<and> ik = cf_instrumentKey q)" for pid ik
    unfolding find_pos_def booked(11)
    by (rule find_replace_miss) (use that booked(5,6) uniq pq in auto)
  have "positions_inv d'" using inv booked(7,8,11) by (auto simp: positions_inv_def dest: set_save_row)
  moreover have "po_id ` set (pf_positions d') \<subseteq> insert newId (po_id ` set (pf_positions d))"
  proof -
    have "po_id p' = newId \<or> po_id p' \<in> po_id ` set (pf_positions d)"
      using booked(3,4) by (cases "find_pos (cf_planId q) (cf_instrumentKey q) d")
        (auto simp: pos_for_fill_def Let_def find_pos_def dest!: find_SomeD)
    then show ?thesis using booked(11) by (auto dest: set_save_row)
  qed
  ultimately show ?thesis
    using booked(1,2,9,10,12) hit miss by (auto simp: pos_total_def)
qed

section \<open>Each fill counts once\<close>

text \<open>A sequence of deliveries; each comes with the id of the row it may create and its time.\<close>

definition deliver_fills :: "(confirm_fill_dto \<times> string \<times> int) list \<Rightarrow> portfolio_db \<Rightarrow> portfolio_db" where
  "deliver_fills evs d = fold (\<lambda>(q, i, t) d. snd (confirmFill q i t d)) evs d"

text \<open>What the deliveries amount to: the first acceptable one of every key counts.\<close>

fun booked_sum :: "(confirm_fill_dto \<Rightarrow> string) \<Rightarrow> string \<Rightarrow> string \<Rightarrow> (string \<times> string) list \<Rightarrow> confirm_fill_dto list \<Rightarrow> rat" where
  "booked_sum amount pid ik seen [] = 0"
| "booked_sum amount pid ik seen (q # qs) =
     (if fill_key q \<in> set seen \<or> \<not> acceptable q then booked_sum amount pid ik seen qs
      else (if pid = cf_planId q \<and> ik = cf_instrumentKey q then dec_in (amount q) else 0)
         + booked_sum amount pid ik (seen @ [fill_key q]) qs)"

lemma get_pos_None: "get_pos i d = None \<longleftrightarrow> i \<notin> po_id ` set (pf_positions d)"
  by (auto simp: get_pos_def get_row_def find_None_iff)

lemma deliver_fills_sum:
  assumes "positions_inv d" and "distinct (map (\<lambda>(q, i, t). i) evs)"
    and "(\<lambda>(q, i, t). i) ` set evs \<inter> po_id ` set (pf_positions d) = {}"
  shows "positions_inv (deliver_fills evs d)
    \<and> pos_total po_quantity pid ik (deliver_fills evs d)
      = pos_total po_quantity pid ik d + booked_sum cf_quantity pid ik (pf_fillKeys d) (map fst evs)
    \<and> pos_total po_notionalUsd pid ik (deliver_fills evs d)
      = pos_total po_notionalUsd pid ik d + booked_sum notional_of pid ik (pf_fillKeys d) (map fst evs)"
  using assms
proof (induction evs arbitrary: d)
  case Nil
  then show ?case by (simp add: deliver_fills_def)
next
  case (Cons ev evs)
  obtain q i t where ev: "ev = (q, i, t)" by (cases ev)
  obtain out d1 where c: "confirmFill q i t d = (out, d1)" by (cases "confirmFill q i t d")
  have fresh: "get_pos i d = None" using Cons.prems(3) by (auto simp: ev get_pos_None)
  note st = confirm_fill_step [OF c Cons.prems(1) fresh]
  have "(\<lambda>(q, i, t). i) ` set evs \<inter> po_id ` set (pf_positions d1) = {}"
  proof -
    have "po_id ` set (pf_positions d1) \<subseteq> insert i (po_id ` set (pf_positions d))" using st by (elim conjE)
    moreover have "i \<notin> (\<lambda>(q, i, t). i) ` set evs" using Cons.prems(2) by (simp add: ev)
    moreover have "(\<lambda>(q, i, t). i) ` set evs \<inter> po_id ` set (pf_positions d) = {}" using Cons.prems(3) by (simp add: ev)
    ultimately show ?thesis by blast
  qed
  moreover have "positions_inv d1" using st by (elim conjE)
  moreover have "distinct (map (\<lambda>(q, i, t). i) evs)" using Cons.prems(2) by simp
  ultimately have "positions_inv (deliver_fills evs d1)
    \<and> pos_total po_quantity pid ik (deliver_fills evs d1)
      = pos_total po_quantity pid ik d1 + booked_sum cf_quantity pid ik (pf_fillKeys d1) (map fst evs)
    \<and> pos_total po_notionalUsd pid ik (deliver_fills evs d1)
      = pos_total po_notionalUsd pid ik d1 + booked_sum notional_of pid ik (pf_fillKeys d1) (map fst evs)"
    using Cons.IH [of d1] by blast
  then have ih: "positions_inv (deliver_fills evs d1)"
    "pos_total po_quantity pid ik (deliver_fills evs d1)
      = pos_total po_quantity pid ik d1 + booked_sum cf_quantity pid ik (pf_fillKeys d1) (map fst evs)"
    "pos_total po_notionalUsd pid ik (deliver_fills evs d1)
      = pos_total po_notionalUsd pid ik d1 + booked_sum notional_of pid ik (pf_fillKeys d1) (map fst evs)" by blast+
  have D: "deliver_fills ((q, i, t) # evs) d = deliver_fills evs d1" by (simp add: deliver_fills_def c)
  show ?case
  proof (cases "fill_key q \<in> set (pf_fillKeys d) \<or> \<not> acceptable q")
    case True
    with st have "d1 = d" by argo
    with ih True show ?thesis by (simp add: D ev)
  next
    case False
    with st have k: "pf_fillKeys d1 = pf_fillKeys d @ [fill_key q]"
      and v: "pos_total po_quantity pid ik d1 = pos_total po_quantity pid ik d
              + (if pid = cf_planId q \<and> ik = cf_instrumentKey q then dec_in (cf_quantity q) else 0)"
        "pos_total po_notionalUsd pid ik d1 = pos_total po_notionalUsd pid ik d
              + (if pid = cf_planId q \<and> ik = cf_instrumentKey q then dec_in (notional_of q) else 0)" by metis+
    from ih show ?thesis using False by (simp only: D ev list.map fst_conv booked_sum.simps k v if_False add.assoc)
  qed
qed

text \<open>
  C26: each confirmed fill counts once. Whatever fills are delivered, in whatever order and however
  often, the quantity and the notional of every plan and instrument grow by exactly the sum of the first
  acceptable delivery of every (leg, key) pair that was not known before: repetitions, and
  deliveries with an unreadable number, change nothing.
\<close>

theorem fills_counted_once:
  assumes "positions_inv d" and "distinct (map (\<lambda>(q, i, t). i) evs)"
    and "(\<lambda>(q, i, t). i) ` set evs \<inter> po_id ` set (pf_positions d) = {}"
  shows "pos_total po_quantity pid ik (deliver_fills evs d)
      = pos_total po_quantity pid ik d + booked_sum cf_quantity pid ik (pf_fillKeys d) (map fst evs)
    \<and> pos_total po_notionalUsd pid ik (deliver_fills evs d)
      = pos_total po_notionalUsd pid ik d + booked_sum notional_of pid ik (pf_fillKeys d) (map fst evs)"
  using deliver_fills_sum [OF assms] by blast

definition empty_portfolio :: portfolio_db where
  "empty_portfolio = \<lparr> pf_positions = [], pf_fillKeys = [], pf_closeKeys = [], pf_audit = [] \<rparr>"

definition ex_confirm :: "string \<Rightarrow> string \<Rightarrow> confirm_fill_dto" where
  "ex_confirm leg quantity = \<lparr> cf_planId = ''p1'', cf_legId = leg, cf_instrumentKey = ''k'', cf_quantity = quantity,
     cf_notionalUsd = Some ''2.5'', cf_idempotencyKey = leg \<rparr>"

theorem fills_counted_once_witness:
  "pos_total po_quantity ''p1'' ''k''
     (deliver_fills [(ex_confirm ''l1'' ''1.5'', ''a'', 1), (ex_confirm ''l1'' ''1.5'', ''b'', 2),
        (ex_confirm ''l2'' ''2'', ''c'', 3), (ex_confirm ''l3'' ''x'', ''d'', 4)] empty_portfolio) = 7 / 2"
proof -
  let ?evs = "[(ex_confirm ''l1'' ''1.5'', ''a'', 1), (ex_confirm ''l1'' ''1.5'', ''b'', 2),
        (ex_confirm ''l2'' ''2'', ''c'', 3), (ex_confirm ''l3'' ''x'', ''d'', 4::int)]"
  have n: "normalize_decimal ''1.5'' = Inr ''1.5''" "normalize_decimal ''2'' = Inr ''2''" "normalize_decimal ''2.5'' = Inr ''2.5''"
    "normalize_decimal ''x'' = Inl (PlainError ''Invalid non-negative decimal string'')"
    "dec_value ''1.5'' = 3 / 2" "dec_value ''2'' = 2" by code_simp+
  have "booked_sum cf_quantity ''p1'' ''k'' [] (map fst ?evs) = 7 / 2"
    by (simp add: ex_confirm_def fill_key_def acceptable_def notional_of_def dec_in_def n)
  moreover have "positions_inv empty_portfolio" by (simp add: positions_inv_def empty_portfolio_def)
  ultimately show ?thesis
    using fills_counted_once [of empty_portfolio ?evs "''p1''" "''k''"]
    by (simp add: empty_portfolio_def pos_total_def find_pos_def)
qed

section \<open>A position that is closed and filled again\<close>

text \<open>
  A reopened position counts its closed notional again. \<open>close\<close> sets the quantity to zero and
  leaves the accumulated notional; a later fill of the same plan and instrument adds to both. The
  quantity is then the new fill's alone, but the notional, which the capital service adds up over
  open positions for its ceiling, still contains all that was closed.
\<close>

theorem reopened_position_keeps_closed_notional:
  assumes inv: "positions_inv d" and p: "find_pos pid ik d = Some p" and nz: "\<not> isZeroQuantity (po_quantity p)"
    and cl: "close_position (po_id p) c True now d = (Inr p1, d1)" and key: "cl_idempotencyKey c = None"
    and cf: "confirmFill q newId now' d1 = (out, d2)" and q: "cf_planId q = pid" "cf_instrumentKey q = ik"
    and new: "fill_key q \<notin> set (pf_fillKeys d)" "acceptable q" "get_pos newId d1 = None"
  shows "pos_total po_quantity pid ik d2 = dec_in (cf_quantity q)
    \<and> pos_total po_notionalUsd pid ik d2 = dec_value (po_notionalUsd p) + dec_in (notional_of q)"
proof -
  have mem: "p \<in> set (pf_positions d)" and pk: "po_planId p = Some pid" "po_instrumentKey p = ik"
    using p by (auto simp: find_pos_def dest: find_SomeD)
  have dist: "distinct (map po_id (pf_positions d))" using inv by (simp add: positions_inv_def)
  have g: "get_pos (po_id p) d = Some p" using distinct_get_row [OF dist mem] by (simp add: get_pos_def)
  have d1: "pf_positions d1 = save_row po_id (p\<lparr>po_quantity := ''0'', po_entityVersion := po_entityVersion p + 1,
      po_updatedAt := now\<rparr>) (pf_positions d)" "pf_fillKeys d1 = pf_fillKeys d"
    using cl g nz key
    by (auto simp: close_position_def close_tx_def audited_close_def transaction_def Let_def save_pos_def split: if_splits)
  have z: "is_decimal ''0''" "dec_value ''0'' = 0" by code_simp+
  have f: "find_pos pid ik d1 = Some (p\<lparr>po_quantity := ''0'', po_entityVersion := po_entityVersion p + 1, po_updatedAt := now\<rparr>)"
    unfolding find_pos_def d1(1)
    by (rule find_replace_hit [OF p [unfolded find_pos_def] _ _ dist]) (use pk in simp_all)
  have inv1: "positions_inv d1"
    using inv mem z d1(1) by (auto simp: positions_inv_def dest: set_save_row)
  from confirm_fill_step [OF cf inv1 new(3)] new(1,2) q d1(2) f z show ?thesis
    by (simp add: pos_total_def)
qed

theorem reopened_position_keeps_closed_notional_witness:
  "pos_total po_notionalUsd ''p1'' ''k''
     (snd (confirmFill (ex_confirm ''l2'' ''2'') ''b'' 3
        (snd (close_position ''a'' \<lparr> cl_operatorId = ''op'', cl_idempotencyKey = None, cl_approveReason = None,
            cl_expectedEntityVersion = None \<rparr> True 2 (snd (confirmFill (ex_confirm ''l1'' ''1.5'') ''a'' 1 empty_portfolio)))))) = 5"
proof -
  define d where "d = snd (confirmFill (ex_confirm ''l1'' ''1.5'') ''a'' 1 empty_portfolio)"
  define c where "c = \<lparr> cl_operatorId = ''op'', cl_idempotencyKey = None, cl_approveReason = None, cl_expectedEntityVersion = None :: int option \<rparr>"
  define p where "p = \<lparr> po_id = ''a'', po_planId = Some ''p1'', po_instrumentKey = ''k'', po_quantity = ''1.5'',
     po_notionalUsd = ''2.5'', po_entityVersion = 2, po_updatedAt = 1 \<rparr>"
  define d1 where "d1 = snd (close_position ''a'' c True 2 d)"
  have p: "find_pos ''p1'' ''k'' d = Some p" "pf_positions d = [p]" "pf_fillKeys d = [(''l1'', ''l1'')]"
    unfolding d_def p_def by code_simp+
  have inv: "positions_inv d"
  proof -
    have "is_decimal ''1.5''" "is_decimal ''2.5''" by code_simp+
    then show ?thesis by (simp add: positions_inv_def p(2)) (simp add: p_def)
  qed
  have nz: "\<not> isZeroQuantity (po_quantity p)" unfolding p_def by code_simp
  have "case fst (close_position ''a'' c True 2 d) of Inr _ \<Rightarrow> True | Inl _ \<Rightarrow> False" unfolding d_def c_def by code_simp
  then obtain p1 where cl: "close_position (po_id p) c True 2 d = (Inr p1, d1)"
    unfolding d1_def by (cases "close_position ''a'' c True 2 d") (auto simp: p_def split: sum.splits)
  have fr: "get_pos ''b'' d1 = None" unfolding d1_def d_def c_def by code_simp
  have n: "normalize_decimal ''2'' = Inr ''2''" "normalize_decimal ''2.5'' = Inr ''2.5''" "dec_value ''2.5'' = 5 / 2" by code_simp+
  have a: "acceptable (ex_confirm ''l2'' ''2'')" "dec_in (notional_of (ex_confirm ''l2'' ''2'')) = 5 / 2"
    by (simp_all add: acceptable_def ex_confirm_def notional_of_def n dec_in_def)
  obtain out d2 where cf: "confirmFill (ex_confirm ''l2'' ''2'') ''b'' 3 d1 = (out, d2)"
    by (cases "confirmFill (ex_confirm ''l2'' ''2'') ''b'' 3 d1")
  have k: "cl_idempotencyKey c = None" by (simp add: c_def)
  have q: "cf_planId (ex_confirm ''l2'' ''2'') = ''p1''" "cf_instrumentKey (ex_confirm ''l2'' ''2'') = ''k''"
    "fill_key (ex_confirm ''l2'' ''2'') \<notin> set (pf_fillKeys d)" by (simp_all add: ex_confirm_def p(3) fill_key_def)
  from reopened_position_keeps_closed_notional [OF inv p(1) nz cl k cf q(1,2,3) a(1) fr] a(2) n(3)
  have "pos_total po_notionalUsd ''p1'' ''k'' d2 = 5" by (simp add: p_def)
  with cf show ?thesis by (simp add: d1_def d_def c_def)
qed

section \<open>Redelivery\<close>

text \<open>A confirmation that has succeeded may be delivered again: the contract of an idempotent operation.\<close>

lemma confirm_again:
  assumes "confirmFill q i t d = (Inr v, d')"
  shows "\<exists>v'. confirmFill q i t d' = (Inr v', d')"
proof -
  have "fill_key q \<in> set (pf_fillKeys d')"
    using assms by (auto simp: confirmFill_def confirm_tx_def Let_def split: if_splits prod.splits sum.splits)
  then show ?thesis by (simp add: confirmFill_def confirm_tx_def transaction_def)
qed

interpretation confirm: idempotent_op "\<lambda>(q, i, t). confirmFill q i t"
  by unfold_locales (auto dest: confirm_again)

end
