(* ===== verification/Settlement.thy ===== *)
theory Settlement
  imports Fills Positions Capital
begin

text \<open>
  The settlement relay of the orchestrator (\<open>settlement-relay.worker.ts\<close>, \<open>fill-outbound.service.ts\<close>):
  it drains the \<open>LegFilled\<close>, \<open>PlanCompleted\<close> and \<open>PlanFailed\<close> outbox rows into HTTP calls of
  the portfolio and the capital service. The two services answer as modelled in \<open>Positions\<close> and
  \<open>Capital\<close>; the transport may fail at any attempt.
\<close>

section \<open>Transport\<close>

text \<open>
  What happens to one attempt of a request: it reaches the service, it fails (\<open>fetch\<close> rejects), or
  something on the way answers with a status.
\<close>

datatype transport = Reaches | Rejects | Answers int

definition TRANSIENT_HTTP :: "int list" where
  "TRANSIENT_HTTP = [429, 502, 503, 504]"

definition status_ok :: "int \<Rightarrow> bool" where
  "status_ok st \<longleftrightarrow> 200 \<le> st \<and> st \<le> 299"

text \<open>The loop of \<open>fetchWithRetry\<close>: \<open>None\<close> is a rejected \<open>fetch\<close>, which leaves the loop.\<close>

fun fetch_loop :: "(nat \<Rightarrow> transport) \<Rightarrow> ('w \<Rightarrow> int \<times> 'w) \<Rightarrow> nat \<Rightarrow> nat \<Rightarrow> int option \<Rightarrow> 'w \<Rightarrow> int option \<times> 'w" where
  "fetch_loop net call attempt 0 prev w = (prev, w)"
| "fetch_loop net call attempt (Suc n) prev w =
     (case (case net attempt of
              Reaches \<Rightarrow> (case call w of (st, w') \<Rightarrow> (Some st, w'))
            | Rejects \<Rightarrow> (None, w)
            | Answers st \<Rightarrow> (Some st, w)) of
        (None, w') \<Rightarrow> (None, w')
      | (Some st, w') \<Rightarrow>
          (if status_ok st then (Some st, w')
           else if st \<notin> set TRANSIENT_HTTP then (Some st, w')
           else fetch_loop net call (attempt + 1) n (Some st) w'))"

definition fetchWithRetry :: "(nat \<Rightarrow> transport) \<Rightarrow> ('w \<Rightarrow> int \<times> 'w) \<Rightarrow> 'w \<Rightarrow> int option \<times> 'w" where
  "fetchWithRetry net call w = fetch_loop net call 0 4 None w"

section \<open>The world around the relay\<close>

record settle_world =
  sw_portfolio :: portfolio_db
  sw_capital :: capital_db
  sw_notified :: "(string \<times> string) list"   \<comment> \<open>callbacks sent: route and plan id\<close>

text \<open>
  The environment of one delivery: the variables read, the price oracle, the clock of the services,
  the id a new position gets, and the transport of the portfolio and the capital request.
\<close>

record settle_env =
  se_simulateFailure :: "string option"
  se_portfolioUrl :: "string option"
  se_opportunityUrl :: "string option"
  se_price :: "int \<Rightarrow> string \<Rightarrow> rat option"
  se_decimals :: "int \<Rightarrow> string \<Rightarrow> nat option"
  se_now :: int
  se_newId :: string
  se_portfolioNet :: "nat \<Rightarrow> transport"
  se_capitalNet :: "nat \<Rightarrow> transport"

definition readSimulatedPortfolioFailureLegIndexes :: "string option \<Rightarrow> int list" where
  "readSimulatedPortfolioFailureLegIndexes env =
     (let raw = (case env of None \<Rightarrow> [] | Some s \<Rightarrow> js_trim s)
      in if raw = [] then []
         else List.map_filter (\<lambda>part. case js_parseInt10 (js_trim part) of
                 Some n \<Rightarrow> if n \<ge> 0 then Some n else None | None \<Rightarrow> None) (js_split (CHR '','') raw))"

text \<open>\<open>toFixed(8)\<close> of a positive number below \<open>10 ^ 21\<close>.\<close>

definition toFixed8 :: "rat \<Rightarrow> string" where
  "toFixed8 q =
     (let u = nat \<lfloor>q * 100000000 + 1 / 2\<rfloor>; f = digits_of_nat (u mod 100000000)
      in digits_of_nat (u div 100000000) @ ''.'' @ replicate (8 - length f) CHR ''0'' @ f)"

record settlement_args =
  sa_planId :: string
  sa_legId :: string
  sa_legIndex :: rat
  sa_filledQuantity :: rat
  sa_instrumentKey :: string
  sa_correlationId :: "string option"
  sa_chainId :: "int option"
  sa_tokenIn :: "string option"

definition priceFillNotional :: "settle_env \<Rightarrow> settlement_args \<Rightarrow> string" where
  "priceFillNotional e a =
     (case (sa_chainId a, sa_tokenIn a) of
        (Some c, Some t) \<Rightarrow>
          (case se_price e c t of
             None \<Rightarrow> ''0''
           | Some priceUsd \<Rightarrow>
               (case se_decimals e c t of
                  None \<Rightarrow> ''0''
                | Some decimals \<Rightarrow>
                    (let notionalUsd = sa_filledQuantity a / 10 ^ decimals * priceUsd
                     in if notionalUsd > 0 then toFixed8 notionalUsd else ''0'')))
      | _ \<Rightarrow> ''0'')"

definition confirm_body :: "settle_env \<Rightarrow> settlement_args \<Rightarrow> confirm_fill_dto" where
  "confirm_body e a = \<lparr> cf_planId = sa_planId a, cf_legId = sa_legId a, cf_instrumentKey = sa_instrumentKey a,
     cf_quantity = js_number_string (sa_filledQuantity a), cf_notionalUsd = Some (priceFillNotional e a),
     cf_idempotencyKey = ''portfolio:fill:'' @ sa_legId a \<rparr>"

definition confirmPortfolio :: "settle_env \<Rightarrow> settlement_args \<Rightarrow> settle_world \<Rightarrow> (unit, settle_world) outcome" where
  "confirmPortfolio e a w =
     (if sa_legIndex a \<in> of_int ` set (readSimulatedPortfolioFailureLegIndexes (se_simulateFailure e))
      then (Inl (PlainError ''Simulated portfolio confirm-fill failure''), w)
      else if se_portfolioUrl e = None \<or> se_portfolioUrl e = Some []
      then (Inl (PlainError ''refusing silent skip of portfolio confirm-fill''), w)
      else case fetchWithRetry (se_portfolioNet e)
             (\<lambda>w. case confirm_fill_route (confirm_body e a) (se_newId e) (se_now e) (sw_portfolio w) of
                (st, p) \<Rightarrow> (st, w\<lparr>sw_portfolio := p\<rparr>)) w of
        (None, w') \<Rightarrow> (Inl (PlainError ''fetch failed''), w')
      | (Some st, w') \<Rightarrow> if status_ok st then (Inr (), w') else (Inl (PlainError ''Portfolio confirm-fill failed''), w'))"

text \<open>\<open>POST /capital/reservations/:id/release\<close>: the status of the answer.\<close>

definition release_route :: "string \<Rightarrow> int \<Rightarrow> capital_db \<Rightarrow> int \<times> capital_db" where
  "release_route i now d =
     (if \<not> is_uuid4 i then (400, d)
      else case release i now d of
        (Inr _, d') \<Rightarrow> (200, d')
      | (Inl e, d') \<Rightarrow> (case e of NotFoundException _ \<Rightarrow> 404 | ConflictException _ \<Rightarrow> 409 | _ \<Rightarrow> 500, d'))"

definition releaseCapital :: "settle_env \<Rightarrow> string \<Rightarrow> settle_world \<Rightarrow> (unit, settle_world) outcome" where
  "releaseCapital e i w =
     (case fetchWithRetry (se_capitalNet e)
             (\<lambda>w. case release_route i (se_now e) (sw_capital w) of (st, c) \<Rightarrow> (st, w\<lparr>sw_capital := c\<rparr>)) w of
        (None, w') \<Rightarrow> (Inl (PlainError ''fetch failed''), w')
      | (Some st, w') \<Rightarrow> if status_ok st \<or> st = 409 then (Inr (), w') else (Inl (PlainError ''Capital release failed''), w'))"

section \<open>Delivery\<close>

definition json_str :: "json option \<Rightarrow> string" where
  "json_str v = (case v of Some (JStr s) \<Rightarrow> s | _ \<Rightarrow> [])"

definition json_num :: "json option \<Rightarrow> rat" where
  "json_num v = (case v of Some (JNum q) \<Rightarrow> q | _ \<Rightarrow> 0)"

definition args_of_row :: "outbox_row \<Rightarrow> settlement_args" where
  "args_of_row row =
     (let p = ob_payload row
      in \<lparr> sa_planId = json_str (jget p ''planId''), sa_legId = json_str (jget p ''legId''),
           sa_legIndex = json_num (jget p ''legIndex''), sa_filledQuantity = json_num (jget p ''filledQuantity''),
           sa_instrumentKey = json_str (jget p ''instrumentKey''),
           sa_correlationId = (case jget (ob_envelope row) ''correlationId'' of Some (JStr c) \<Rightarrow> Some c | _ \<Rightarrow> None),
           sa_chainId = json_int (jget p ''chainId''),
           sa_tokenIn = (case jget p ''tokenIn'' of Some (JStr t) \<Rightarrow> Some t | _ \<Rightarrow> None) \<rparr>)"

definition confirmPortfolioFromOutbox :: "settle_env \<Rightarrow> outbox_row \<Rightarrow> settle_world \<Rightarrow> (unit, settle_world) outcome" where
  "confirmPortfolioFromOutbox e row w = confirmPortfolio e (args_of_row row) w"

definition releaseCapitalFromOutbox :: "settle_env \<Rightarrow> outbox_row \<Rightarrow> settle_world \<Rightarrow> (unit, settle_world) outcome" where
  "releaseCapitalFromOutbox e row w =
     (case jget (ob_payload row) ''capitalReservationId'' of
        Some (JStr i) \<Rightarrow> if i = [] then (Inr (), w) else releaseCapital e i w
      | _ \<Rightarrow> (Inr (), w))"

text \<open>
  The callbacks to the opportunity service are best effort: whatever comes of the request, the
  delivery goes on.
\<close>

definition notify_opportunity :: "settle_env \<Rightarrow> string \<Rightarrow> outbox_row \<Rightarrow> settle_world \<Rightarrow> settle_world" where
  "notify_opportunity e route row w =
     (case map_option js_trim (se_opportunityUrl e) of
        None \<Rightarrow> w
      | Some base \<Rightarrow> if base = [] then w else w\<lparr>sw_notified := sw_notified w @ [(route, ob_entityId row)]\<rparr>)"

definition deliver :: "settle_env \<Rightarrow> outbox_row \<Rightarrow> settle_world \<Rightarrow> bool \<times> settle_world" where
  "deliver e row w =
     (if ob_eventType row = legFilled
      then (case confirmPortfolioFromOutbox e row w of (Inl _, w') \<Rightarrow> (False, w') | (Inr _, w') \<Rightarrow> (True, w'))
      else if ob_eventType row = planCompleted
      then (case releaseCapitalFromOutbox e row w of
              (Inl _, w') \<Rightarrow> (False, w') | (Inr _, w') \<Rightarrow> (True, notify_opportunity e ''live-completed'' row w'))
      else if ob_eventType row = planFailed
      then (case releaseCapitalFromOutbox e row w of
              (Inl _, w') \<Rightarrow> (False, w') | (Inr _, w') \<Rightarrow> (True, notify_opportunity e ''live-failed'' row w'))
      else (True, w))"

definition SETTLEMENT_EVENT_TYPES :: "string list" where
  "SETTLEMENT_EVENT_TYPES = [legFilled, planCompleted, planFailed]"

definition settlement_batch :: "nat \<Rightarrow> outbox_row list \<Rightarrow> outbox_row list" where
  "settlement_batch limit rows =
     take limit (sort_key ob_createdAt (filter (\<lambda>r. ob_eventType r \<in> set SETTLEMENT_EVENT_TYPES \<and> ob_processedAt r = None) rows))"

text \<open>The loop over the batch; \<open>env k\<close> is the environment of the k-th delivery.\<close>

fun drain_rows :: "(nat \<Rightarrow> settle_env) \<Rightarrow> nat \<Rightarrow> outbox_row list \<Rightarrow> nat \<Rightarrow> outbox_row list \<times> settle_world \<Rightarrow> nat \<times> outbox_row list \<times> settle_world" where
  "drain_rows env k [] n s = (n, s)"
| "drain_rows env k (r # rs) n (rows, w) =
     (case deliver (env k) r w of
        (True, w') \<Rightarrow> drain_rows env (k + 1) rs (n + 1) (mark_processed (se_now (env k)) (ob_id r) rows, w')
      | (False, w') \<Rightarrow> drain_rows env (k + 1) rs n (rows, w'))"

definition drainBatch :: "(nat \<Rightarrow> settle_env) \<Rightarrow> nat \<Rightarrow> bool \<Rightarrow> outbox_row list \<times> settle_world \<Rightarrow> nat \<times> outbox_row list \<times> settle_world" where
  "drainBatch env limit shuttingDown s =
     (if shuttingDown then (0, s) else drain_rows env 0 (settlement_batch limit (fst s)) 0 s)"

declare confirmPortfolio_def [op_defs] releaseCapital_def [op_defs] deliver_def [op_defs]
  confirmPortfolioFromOutbox_def [op_defs] releaseCapitalFromOutbox_def [op_defs]

end
