(* ===== verification/Settlement_Props.thy ===== *)
theory Settlement_Props
  imports Settlement Exec_Run
begin

text \<open>
  What the relay achieves: completed and failed plans release their capital, and no filled leg
  ever reaches the portfolio.
\<close>

section \<open>Requests\<close>

lemma fetch_loop_inv:
  assumes "\<And>w. P w \<Longrightarrow> P (snd (call w))"
  shows "P w \<Longrightarrow> P (snd (fetch_loop net call k n prev w))"
proof (induction n arbitrary: k prev w)
  case (Suc n)
  have "P (snd (call w))" using assms Suc.prems by blast
  then show ?case using Suc by (auto split: transport.splits prod.splits)
qed simp

lemma fetch_loop_refused:
  assumes "\<And>w. \<not> status_ok (fst (call w)) \<and> snd (call w) = w"
    and "\<And>k st. net k = Answers st \<Longrightarrow> \<not> status_ok st"
    and "\<And>st. prev = Some st \<Longrightarrow> \<not> status_ok st"
  shows "\<exists>r. fetch_loop net call k n prev w = (r, w) \<and> (\<forall>st. r = Some st \<longrightarrow> \<not> status_ok st)"
  using assms(3)
proof (induction n arbitrary: k prev)
  case (Suc n)
  obtain st where c: "call w = (st, w)" "\<not> status_ok st"
    using assms(1) [of w] by (cases "call w") auto
  show ?case
  proof (cases "net k")
    case Reaches
    with c Suc.IH [of "Some st" "k + 1"] show ?thesis by auto
  next
    case (Answers st')
    then have "\<not> status_ok st'" by (rule assms(2))
    with Answers Suc.IH [of "Some st'" "k + 1"] show ?thesis by auto
  qed auto
qed auto

lemma portfolio_key_no_uuid: "\<not> is_uuid4 (''portfolio:fill:'' @ s)"
proof
  assume "is_uuid4 (''portfolio:fill:'' @ s)"
  moreover have "[0..<36::nat] = 0 # [1..<36]" by (simp add: upt_conv_Cons)
  moreover have "\<not> is_hex CHR ''p''" by code_simp
  ultimately show False by (simp add: is_uuid4_def)
qed

lemma confirm_body_refused: "confirm_fill_route (confirm_body e a) i t d = (400, d)"
  using portfolio_key_no_uuid by (simp add: confirm_fill_route_def valid_confirm_fill_def confirm_body_def)

lemma confirmPortfolio_refused:
  assumes "\<And>k st. se_portfolioNet e k = Answers st \<Longrightarrow> \<not> status_ok st"
  shows "\<exists>x. confirmPortfolio e a w = (Inl x, w)"
proof -
  let ?call = "\<lambda>w. case confirm_fill_route (confirm_body e a) (se_newId e) (se_now e) (sw_portfolio w) of
                (st, p) \<Rightarrow> (st, w\<lparr>sw_portfolio := p\<rparr>)"
  obtain r where r: "fetchWithRetry (se_portfolioNet e) ?call w = (r, w)" "\<forall>st. r = Some st \<longrightarrow> \<not> status_ok st"
    using fetch_loop_refused [of ?call "se_portfolioNet e" None 0 4 w] assms
    by (auto simp: fetchWithRetry_def confirm_body_refused status_ok_def)
  then show ?thesis by (auto simp: confirmPortfolio_def split: option.splits)
qed

lemma leg_filled_refused:
  assumes "ob_eventType row = legFilled"
    and "\<And>k st. se_portfolioNet e k = Answers st \<Longrightarrow> \<not> status_ok st"
  shows "deliver e row w = (False, w)
    \<and> confirm_fill_route (confirm_body e (args_of_row row)) (se_newId e) (se_now e) (sw_portfolio w) = (400, sw_portfolio w)"
  using confirmPortfolio_refused [of e "args_of_row row" w] assms
  by (auto simp: deliver_def confirmPortfolioFromOutbox_def confirm_body_refused)

text \<open>
  No filled leg ever reaches the portfolio. The relay sends the idempotency key
  \<open>portfolio:fill:<legId>\<close>, the portfolio service accepts only UUIDs there: every delivery of
  every \<open>LegFilled\<close> row is refused with 400 and changes nothing, however the transport behaves
  (unless something on the way forges a success), so the row is never marked processed.
\<close>

theorem leg_filled_never_settles:
  assumes "ob_eventType row = legFilled"
    and "\<And>k st. se_portfolioNet e k = Answers st \<Longrightarrow> \<not> status_ok st"
  shows "deliver e row w = (False, w)
    \<and> confirm_fill_route (confirm_body e (args_of_row row)) (se_newId e) (se_now e) (sw_portfolio w) = (400, sw_portfolio w)"
  by (rule leg_filled_refused [OF assms])

definition ex_env :: settle_env where
  "ex_env = \<lparr> se_simulateFailure = None, se_portfolioUrl = Some ''http://portfolio'', se_opportunityUrl = None,
     se_price = (\<lambda>_ _. None), se_decimals = (\<lambda>_ _. None), se_now = 5, se_newId = ''pos'',
     se_portfolioNet = (\<lambda>_. Reaches), se_capitalNet = (\<lambda>_. Reaches) \<rparr>"

theorem leg_filled_never_settles_witness:
  "\<forall>w. deliver ex_env (hd (events legFilled ''leg'' ex_completed)) w = (False, w)"
proof
  fix w
  have "ob_eventType (hd (events legFilled ''leg'' ex_completed)) = legFilled" by code_simp
  then show "deliver ex_env (hd (events legFilled ''leg'' ex_completed)) w = (False, w)"
    using leg_filled_never_settles [of _ ex_env w] by (simp add: ex_env_def)
qed

section \<open>The head of the line\<close>

lemma drain_rows_refused:
  assumes "\<And>r k. r \<in> set batch \<Longrightarrow> deliver (env k) r w = (False, w)"
  shows "drain_rows env k batch n (rows, w) = (n, rows, w)"
  using assms by (induction batch arbitrary: k) auto

text \<open>
  The relay starves. When at least as many \<open>LegFilled\<close> rows as a batch holds are unprocessed
  and older than every unprocessed \<open>PlanCompleted\<close> and \<open>PlanFailed\<close> row, then however often the
  relay drains, under any conditions that forge no success, it delivers nothing and changes
  nothing: the capital of those plans is never released and no callback is sent.
\<close>

theorem relay_starves:
  assumes "limit \<le> length (filter (\<lambda>r. ob_createdAt r < t) (filter (\<lambda>r. ob_eventType r \<in> set SETTLEMENT_EVENT_TYPES
        \<and> ob_processedAt r = None) rows))"
    and "\<And>r. r \<in> set rows \<Longrightarrow> ob_processedAt r = None \<Longrightarrow> ob_eventType r \<in> {planCompleted, planFailed} \<Longrightarrow> t \<le> ob_createdAt r"
    and "\<And>env k j st. env \<in> set envs \<Longrightarrow> se_portfolioNet (env k) j = Answers st \<Longrightarrow> \<not> status_ok st"
  shows "fold (\<lambda>env s. snd (drainBatch env limit False s)) envs (rows, w) = (rows, w)"
  using assms(3)
proof (induction envs)
  case (Cons env envs)
  have "deliver (env k) r w = (False, w)" if r: "r \<in> set (settlement_batch limit rows)" for r k
  proof -
    have old: "ob_createdAt r < t" "r \<in> set rows" "ob_eventType r \<in> set SETTLEMENT_EVENT_TYPES" "ob_processedAt r = None"
      using batch_head [OF assms(1), of r] r by (auto simp: settlement_batch_def)
    have "ob_eventType r \<notin> {planCompleted, planFailed}" using assms(2) [OF old(2,4)] old(1) by fastforce
    then have lf: "ob_eventType r = legFilled" using old(3) by (auto simp: SETTLEMENT_EVENT_TYPES_def)
    have "\<not> status_ok st" if "se_portfolioNet (env k) j = Answers st" for j st
      by (rule Cons.prems [of env k j]) (use that in simp_all)
    from leg_filled_refused [OF lf this] show ?thesis by simp
  qed
  then have "drainBatch env limit False (rows, w) = (0, rows, w)"
    using drain_rows_refused [of "settlement_batch limit rows" env w 0 0 rows] by (simp add: drainBatch_def)
  moreover have "fold (\<lambda>env s. snd (drainBatch env limit False s)) envs (rows, w) = (rows, w)"
    by (rule Cons.IH) (rule Cons.prems, simp_all)
  ultimately show ?case by simp
qed simp

definition ex_rows :: "outbox_row list" where
  "ex_rows = [(hd (events legFilled ''leg'' ex_completed))\<lparr>ob_id := 1, ob_createdAt := 1\<rparr>,
     (hd (events planCompleted ''p1'' ex_completed))\<lparr>ob_id := 2, ob_createdAt := 2\<rparr>]"

theorem relay_starves_witness:
  "\<forall>w. fold (\<lambda>env s. snd (drainBatch env 1 False s)) [\<lambda>_. ex_env, \<lambda>_. ex_env] (ex_rows, w) = (ex_rows, w)"
proof
  fix w
  have r: "map ob_eventType ex_rows = [legFilled, planCompleted]" "map ob_processedAt ex_rows = [None, None]"
    "map ob_createdAt ex_rows = [1, 2]" by code_simp+
  obtain a b where ab: "ex_rows = [a, b]" by (simp add: ex_rows_def)
  have ne: "planFailed \<noteq> legFilled" "planCompleted \<noteq> legFilled" by code_simp+
  have f: "ob_eventType a = legFilled" "ob_eventType b = planCompleted" "ob_processedAt a = None" "ob_processedAt b = None"
    "ob_createdAt a = 1" "ob_createdAt b = 2" using r by (simp_all add: ab)
  show "fold (\<lambda>env s. snd (drainBatch env 1 False s)) [\<lambda>_. ex_env, \<lambda>_. ex_env] (ex_rows, w) = (ex_rows, w)"
    by (rule relay_starves [where t = 2]) (use f ne in \<open>auto simp: ab ex_env_def SETTLEMENT_EVENT_TYPES_def\<close>)
qed

section \<open>Plans that end release their capital\<close>

definition settled :: "string \<Rightarrow> int \<Rightarrow> capital_db \<Rightarrow> bool" where
  "settled i now c \<longleftrightarrow> (\<exists>res. get_res i c = Some res \<and> (cr_state res \<noteq> active \<or> cr_expiresAt res \<le> now))"

lemma get_res_cong: "cd_reservations d' = cd_reservations d \<Longrightarrow> get_res i d' = get_res i d"
  by (simp add: get_res_def)

lemma release_keeps:
  assumes "release j t d = (out, d')" and "get_res i d = Some res"
  shows "\<exists>res'. get_res i d' = Some res' \<and> cr_expiresAt res' = cr_expiresAt res
    \<and> (cr_state res' = cr_state res \<or> cr_state res' = released)"
  using release_cases [OF assms(1)] assms(2)
  by (auto simp: get_res_def row_simps)

lemma release_settles:
  assumes "get_res i d = Some res"
  shows "settled i t (snd (release i t d)) \<and> (\<exists>r. fst (release i t d) = Inr r \<or> (\<exists>m. fst (release i t d) = Inl (ConflictException m)))"
  using assms get_res_key [OF assms]
  by (auto simp: release_def release_tx_def transaction_def materializeCapitalReservationExpiryIfNeeded_def settled_def
      get_res_def save_res_def row_simps Let_def)

lemma release_route_keeps:
  "get_res i c = Some res \<Longrightarrow> \<exists>res'. get_res i (snd (release_route j t c)) = Some res'"
  "settled i now c \<Longrightarrow> settled i now (snd (release_route j t c))"
  by (cases "release j t c"; force simp: release_route_def settled_def dest: release_keeps split: if_splits sum.splits)+

lemma deliver_capital_inv:
  assumes "\<And>c j t. P c \<Longrightarrow> P (snd (release_route j t c))" and "P (sw_capital w)"
  shows "P (sw_capital (snd (deliver e r w)))"
proof -
  have n: "sw_capital (notify_opportunity e x r w) = sw_capital w" for x w
    by (simp add: notify_opportunity_def split: option.splits)
  have rel: "P (sw_capital (snd (releaseCapital e j w)))" for j
  proof -
    have "P (sw_capital (snd (fetch_loop (se_capitalNet e)
        (\<lambda>w. case release_route j (se_now e) (sw_capital w) of (st, c) \<Rightarrow> (st, w\<lparr>sw_capital := c\<rparr>)) 0 4 None w)))"
      by (rule fetch_loop_inv [where P = "\<lambda>w. P (sw_capital w)"])
        (use assms in \<open>auto split: prod.splits, metis snd_conv\<close>)
    then show ?thesis
      by (auto simp: releaseCapital_def fetchWithRetry_def split: prod.splits option.splits)
  qed
  have con: "P (sw_capital (snd (confirmPortfolio e a w)))" for a
  proof -
    have "P (sw_capital (snd (fetch_loop (se_portfolioNet e)
        (\<lambda>w. case confirm_fill_route (confirm_body e a) (se_newId e) (se_now e) (sw_portfolio w) of
                (st, p) \<Rightarrow> (st, w\<lparr>sw_portfolio := p\<rparr>)) 0 4 None w)))"
      by (rule fetch_loop_inv [where P = "\<lambda>w. P (sw_capital w)"]) (use assms in \<open>auto split: prod.splits\<close>)
    then show ?thesis
      using assms(2) by (auto simp: confirmPortfolio_def fetchWithRetry_def split: prod.splits option.splits)
  qed
  show ?thesis
    using rel con assms(2) n
    by (auto simp: deliver_def confirmPortfolioFromOutbox_def releaseCapitalFromOutbox_def
        split: prod.splits sum.splits option.splits json.splits; metis snd_conv)
qed

lemma release_route_settles:
  assumes "get_res i c = Some res" and "is_uuid4 i"
  shows "fst (release_route i t c) \<in> {200, 409} \<and> settled i t (snd (release_route i t c))"
  using release_settles [OF assms(1), of t] assms(2)
  by (cases "release i t c") (auto simp: release_route_def split: sum.splits)

lemma plan_row_delivered:
  assumes "ob_eventType r \<in> {planCompleted, planFailed}" and "jget (ob_payload r) ''capitalReservationId'' = Some (JStr i)"
    and "is_uuid4 i" and "get_res i (sw_capital w) = Some res" and "se_capitalNet e 0 = Reaches"
  shows "fst (deliver e r w) \<and> settled i (se_now e) (sw_capital (snd (deliver e r w)))"
proof -
  let ?call = "\<lambda>w. case release_route i (se_now e) (sw_capital w) of (st, c) \<Rightarrow> (st, w\<lparr>sw_capital := c\<rparr>)"
  obtain st c where rr: "release_route i (se_now e) (sw_capital w) = (st, c)" by (cases "release_route i (se_now e) (sw_capital w)")
  with release_route_settles [OF assms(4,3), of "se_now e"] have st: "st \<in> {200, 409}" "settled i (se_now e) c" by simp_all
  have "fetchWithRetry (se_capitalNet e) ?call w = (Some st, w\<lparr>sw_capital := c\<rparr>)"
    using assms(5) rr st by (auto simp: fetchWithRetry_def eval_nat_numeral status_ok_def TRANSIENT_HTTP_def)
  then have rel: "releaseCapital e i w = (Inr (), w\<lparr>sw_capital := c\<rparr>)"
    using st by (auto simp: releaseCapital_def status_ok_def)
  have "i \<noteq> []" using assms(3) by (auto simp: is_uuid4_def)
  moreover have "planCompleted \<noteq> legFilled" "planFailed \<noteq> legFilled" "planFailed \<noteq> planCompleted" by code_simp+
  ultimately show ?thesis
    using assms(1,2) rel st(2)
    by (auto simp: deliver_def releaseCapitalFromOutbox_def notify_opportunity_def split: option.splits)
qed

lemma mark_keeps_processed:
  "\<forall>x \<in> set rows. ob_id x = i \<longrightarrow> ob_processedAt x \<noteq> None
   \<Longrightarrow> \<forall>x \<in> set (mark_processed t j rows). ob_id x = i \<longrightarrow> ob_processedAt x \<noteq> None"
  by (auto simp: mark_processed_def update_outbox_def)

lemma drain_rows_settled:
  assumes "settled i now (sw_capital w)" and "\<forall>x \<in> set rows. ob_id x = j \<longrightarrow> ob_processedAt x \<noteq> None"
    and "drain_rows env k batch n (rows, w) = (n', rows', w')"
  shows "settled i now (sw_capital w') \<and> (\<forall>x \<in> set rows'. ob_id x = j \<longrightarrow> ob_processedAt x \<noteq> None)"
  using assms
proof (induction batch arbitrary: k n rows w)
  case (Cons r rs)
  have s: "settled i now (sw_capital (snd (deliver (env k) r w)))"
    by (rule deliver_capital_inv [OF release_route_keeps(2) Cons.prems(1)])
  obtain b w1 where d: "deliver (env k) r w = (b, w1)" by (cases "deliver (env k) r w")
  show ?case
  proof (cases b)
    case True
    show ?thesis
      by (rule Cons.IH [OF _ mark_keeps_processed [OF Cons.prems(2)]]) (use s d True Cons.prems(3) in simp_all)
  next
    case False
    show ?thesis
      by (rule Cons.IH [OF _ Cons.prems(2)]) (use s d False Cons.prems(3) in simp_all)
  qed
qed auto

lemma drain_rows_progress:
  assumes "r \<in> set batch" and "ob_eventType r \<in> {planCompleted, planFailed}"
    and "jget (ob_payload r) ''capitalReservationId'' = Some (JStr i)" and "is_uuid4 i"
    and "\<And>k. se_capitalNet (env k) 0 = Reaches \<and> se_now (env k) = now"
    and "\<exists>res. get_res i (sw_capital w) = Some res"
    and "drain_rows env k batch n (rows, w) = (n', rows', w')"
  shows "settled i now (sw_capital w') \<and> (\<forall>x \<in> set rows'. ob_id x = ob_id r \<longrightarrow> ob_processedAt x \<noteq> None)"
  using assms(1,6,7)
proof (induction batch arbitrary: k n rows w)
  case (Cons x rs)
  obtain b w1 where d: "deliver (env k) x w = (b, w1)" by (cases "deliver (env k) x w")
  show ?case
  proof (cases "x = r")
    case True
    from Cons.prems(2) obtain res where g: "get_res i (sw_capital w) = Some res" by blast
    have n: "se_now (env k) = now" "se_capitalNet (env k) 0 = Reaches" using assms(5) by simp_all
    from plan_row_delivered [OF assms(2,3,4) g n(2)] d n have b: "b" "settled i now (sw_capital w1)" by (simp_all add: True)
    have m: "\<forall>y \<in> set (mark_processed now (ob_id r) rows). ob_id y = ob_id r \<longrightarrow> ob_processedAt y \<noteq> None"
      by (auto simp: mark_processed_def update_outbox_def)
    show ?thesis
      by (rule drain_rows_settled [OF b(2) m, of env "k + 1" rs "n + 1" n']) (use Cons.prems(3) d b n True in simp)
  next
    case False
    have "\<exists>res. get_res i (sw_capital (snd (deliver (env k) x w))) = Some res"
      by (rule deliver_capital_inv [where P = "\<lambda>c. \<exists>res. get_res i c = Some res"])
        (use release_route_keeps(1) Cons.prems(2) in blast)+
    with d have "\<exists>res. get_res i (sw_capital w1) = Some res" by simp
    moreover have "r \<in> set rs" using Cons.prems(1) False by simp
    ultimately show ?thesis using Cons.IH Cons.prems(3) d by (cases b) auto
  qed
qed simp


definition ex_uuid :: string where
  "ex_uuid = ''0f8fad5b-d9cb-469f-a165-70867728950e''"

definition ex_done_row :: outbox_row where
  "ex_done_row = mk_outbox ''m'' planCompleted ''ExecutionPlan'' ''p1'' 1
     (JObj [(''planId'', JStr ''p1''), (''capitalReservationId'', JStr ex_uuid)]) JNull 1"

definition ex_world :: settle_world where
  "ex_world = \<lparr> sw_portfolio = \<lparr> pf_positions = [], pf_fillKeys = [], pf_closeKeys = [], pf_audit = [] \<rparr>,
     sw_capital = snd (attemptReserve (Inr 1000) dto_example ex_uuid ''m1'' 0 empty_capital_db), sw_notified = [] \<rparr>"


end
