(* ===== verification/Opportunity.thy ===== *)
theory Opportunity
  imports Plans Risk
begin

text \<open>
  \<open>apps/opportunity-service\<close>, the single writer of the opportunities
  (\<open>opportunities.service.ts\<close>, \<open>risk-client.service.ts\<close>): creation, enrichment, the risk
  evaluation in three phases, the callbacks that end a live plan, the enqueueing of paper
  candidates, the filter preview and the marker of the live worker.
\<close>

section \<open>State\<close>

datatype opp_state = O_detected | O_enriched | O_risk_checked | O_live_completed | O_live_failed

record opportunity =
  op_id :: string
  op_correlationId :: "string option"
  op_state :: opp_state
  op_riskDecisionId :: "string option"
  op_livePlanId :: "string option"
  op_payload :: "(string \<times> json) list"
  op_entityVersion :: int
  op_createdAt :: int
  op_updatedAt :: int

record opp_db =
  od_opps :: "opportunity list"
  od_outbox :: "outbox_row list"
  od_inbox :: inbox

definition get_opp :: "string \<Rightarrow> opp_db \<Rightarrow> opportunity option" where
  "get_opp i d = get_row op_id i (od_opps d)"

text \<open>\<open>em.save\<close> of a changed row sets \<open>updatedAt\<close>.\<close>

definition save_opp :: "int \<Rightarrow> opportunity \<Rightarrow> opp_db \<Rightarrow> opp_db" where
  "save_opp now x d = d\<lparr>od_opps := save_row op_id (x\<lparr>op_updatedAt := now\<rparr>) (od_opps d)\<rparr>"

lemma get_save_opp [row_simps]:
  "get_opp k (save_opp now x d) = (if k = op_id x then Some (x\<lparr>op_updatedAt := now\<rparr>) else get_opp k d)"
  by (simp add: get_opp_def save_opp_def get_row_save_row)

lemma save_opp_frame [simp]:
  "od_outbox (save_opp now x d) = od_outbox d" "od_inbox (save_opp now x d) = od_inbox d"
  by (simp_all add: save_opp_def)

lemma get_opp_frame [simp]:
  "get_opp k (d\<lparr>od_outbox := rs\<rparr>) = get_opp k d" "get_opp k (d\<lparr>od_inbox := ib\<rparr>) = get_opp k d"
  by (simp_all add: get_opp_def)

lemma get_opp_key: "get_opp k d = Some x \<Longrightarrow> op_id x = k"
  unfolding get_opp_def by (rule get_row_key)

section \<open>Creation, reads and enrichment\<close>

record create_opportunity_dto =
  co_correlationId :: "string option"
  co_payload :: "(string \<times> json) list option"

definition create_opportunity :: "create_opportunity_dto \<Rightarrow> string \<Rightarrow> int \<Rightarrow> opp_db \<Rightarrow> (opportunity, opp_db) outcome" where
  "create_opportunity dto newId now d =
     (let row = \<lparr> op_id = newId, op_correlationId = co_correlationId dto, op_state = O_detected,
                  op_riskDecisionId = None, op_livePlanId = None,
                  op_payload = (case co_payload dto of None \<Rightarrow> [] | Some p \<Rightarrow> p),
                  op_entityVersion = 1, op_createdAt = now, op_updatedAt = now \<rparr>
      in (Inr row, save_opp now row d))"

definition list_opportunities :: "opp_db \<Rightarrow> opportunity list" where
  "list_opportunities d = take 100 (rev (sort_key op_createdAt (od_opps d)))"

definition enrich :: "string \<Rightarrow> (string \<times> json) list option \<Rightarrow> int \<Rightarrow> opp_db \<Rightarrow> (opportunity, opp_db) outcome" where
  "enrich i payloadPatch now = transaction (\<lambda>d.
     (case get_opp i d of
        None \<Rightarrow> (Inl (NotFoundException ''Opportunity not found''), d)
      | Some opp \<Rightarrow>
          (if op_state opp \<noteq> O_detected then (Inl (ConflictException ''Enrich requires state detected''), d)
           else let opp' = opp\<lparr>op_state := O_enriched,
                  op_payload := (case payloadPatch of None \<Rightarrow> op_payload opp | Some p \<Rightarrow> js_spread (op_payload opp) p),
                  op_entityVersion := op_entityVersion opp + 1\<rparr>
                in (Inr (opp'\<lparr>op_updatedAt := now\<rparr>), save_opp now opp' d))))"

section \<open>The end of a live plan\<close>

definition find_by_plan :: "string \<Rightarrow> opp_db \<Rightarrow> opportunity option" where
  "find_by_plan planId d = find (\<lambda>x. op_livePlanId x = Some planId) (od_opps d)"

record live_result =
  lr_opportunityId :: string
  lr_state :: opp_state
  lr_updated :: bool

definition markLiveCompleted :: "string \<Rightarrow> int \<Rightarrow> opp_db \<Rightarrow> (live_result, opp_db) outcome" where
  "markLiveCompleted planId now = transaction (\<lambda>d.
     (case find_by_plan planId d of
        None \<Rightarrow> (Inl (NotFoundException ''No opportunity with live_execution_plan_id''), d)
      | Some opp \<Rightarrow>
          (if op_state opp = O_live_completed
           then (Inr \<lparr> lr_opportunityId = op_id opp, lr_state = op_state opp, lr_updated = False \<rparr>, d)
           else (Inr \<lparr> lr_opportunityId = op_id opp, lr_state = O_live_completed, lr_updated = True \<rparr>,
                 save_opp now (opp\<lparr>op_state := O_live_completed, op_entityVersion := op_entityVersion opp + 1\<rparr>) d))))"

definition markLiveFailed :: "string \<Rightarrow> int \<Rightarrow> opp_db \<Rightarrow> (live_result, opp_db) outcome" where
  "markLiveFailed planId now = transaction (\<lambda>d.
     (case find_by_plan planId d of
        None \<Rightarrow> (Inl (NotFoundException ''No opportunity with live_execution_plan_id''), d)
      | Some opp \<Rightarrow>
          (if op_state opp \<noteq> O_risk_checked
           then (Inr \<lparr> lr_opportunityId = op_id opp, lr_state = op_state opp, lr_updated = False \<rparr>, d)
           else (Inr \<lparr> lr_opportunityId = op_id opp, lr_state = O_live_failed, lr_updated = True \<rparr>,
                 save_opp now (opp\<lparr>op_state := O_live_failed, op_livePlanId := None,
                   op_entityVersion := op_entityVersion opp + 1\<rparr>) d))))"

section \<open>Risk evaluation\<close>

record risk_answer =
  ra_riskDecisionId :: string
  ra_outboxMessageId :: "string option"
  ra_outcome :: string
  ra_notionalUsd :: rat
  ra_entityVersion :: rat
  ra_riskMode :: string

definition throwForRiskHttpStatus :: "int \<Rightarrow> exn" where
  "throwForRiskHttpStatus st =
     (if st = 400 then BadRequestException ''Risk service rejected request''
      else if st = 404 then NotFoundException ''Risk service: not found''
      else if st = 409 then ConflictException ''Risk service conflict / idempotency mismatch''
      else if st \<ge> 500 then ServiceUnavailableException ''Risk service error''
      else HttpException st)"

definition json_str_or :: "string \<Rightarrow> json option \<Rightarrow> string" where
  "json_str_or deflt v = (case v of Some (JStr s) \<Rightarrow> s | _ \<Rightarrow> deflt)"

definition json_num_or :: "rat \<Rightarrow> json option \<Rightarrow> rat" where
  "json_num_or deflt v = (case v of Some (JNum q) \<Rightarrow> q | _ \<Rightarrow> deflt)"

text \<open>
  \<open>RiskClientService.evaluateRisk\<close> on the answer of the request. An empty body is read as
  \<open>{}\<close>; a body that is not JSON is \<open>None\<close>; reading a property of \<open>null\<close> throws.
\<close>

definition evaluateRiskHttp :: "evaluate_dto \<Rightarrow> http_response \<Rightarrow> exn + risk_answer" where
  "evaluateRiskHttp body res =
     (case res of
        Unreachable \<Rightarrow> Inl (ServiceUnavailableException ''Risk service unreachable (network error)'')
      | Response st json \<Rightarrow>
          (case json of
             None \<Rightarrow> Inl (ServiceUnavailableException ''Risk service returned non-JSON'')
           | Some j \<Rightarrow>
               (if \<not> http_ok st then Inl (throwForRiskHttpStatus st)
                else if j = JNull then Inl (PlainError ''TypeError'')
                else case jget j ''riskDecisionId'' of
                  Some (JStr i) \<Rightarrow> Inr \<lparr> ra_riskDecisionId = i, ra_outboxMessageId = string_or_null (jget j ''outboxMessageId''),
                     ra_outcome = json_str_or ''unknown'' (jget j ''outcome''),
                     ra_notionalUsd = json_num_or (ev_notionalUsd body) (jget j ''notionalUsd''),
                     ra_entityVersion = json_num_or 1 (jget j ''entityVersion''),
                     ra_riskMode = json_str_or ''standard'' (jget j ''riskMode'') \<rparr>
                | _ \<Rightarrow> Inl (ServiceUnavailableException ''Risk response missing riskDecisionId''))))"

definition is_hex_dash :: "char \<Rightarrow> bool" where
  "is_hex_dash c \<longleftrightarrow> hex_val c \<noteq> None \<or> c = CHR ''-''"

definition correlationIdForOpportunity :: "string option \<Rightarrow> string \<Rightarrow> string" where
  "correlationIdForOpportunity stored newUuid =
     (case stored of
        Some s \<Rightarrow> if length s = 36 \<and> list_all is_hex_dash s then s else newUuid
      | None \<Rightarrow> newUuid)"

record request_risk_dto =
  rr_correlationId :: "string option"
  rr_idempotencyKey :: "string option"
  rr_notionalUsd :: rat
  rr_snapshotVersion :: int
  rr_riskMode :: "risk_mode option"
  rr_windowId :: "string option"

record risk_eval_result =
  rq_opportunity :: opportunity
  rq_riskDecisionId :: string
  rq_riskOutcome :: string
  rq_idempotentReplay :: bool

text \<open>The first transaction: the opportunity becomes \<open>enriched\<close> and gets a correlation id.\<close>

definition prepare_tx :: "string \<Rightarrow> request_risk_dto \<Rightarrow> string \<Rightarrow> int \<Rightarrow> opp_db \<Rightarrow> (unit, opp_db) outcome" where
  "prepare_tx i dto correlationId now d =
     (case get_opp i d of
        None \<Rightarrow> (Inl (NotFoundException ''Opportunity not found''), d)
      | Some opp \<Rightarrow>
          (if op_state opp = O_risk_checked then (Inr (), d)
           else
             (let opp1 = (if op_state opp = O_detected
                          then opp\<lparr>op_state := O_enriched, op_entityVersion := op_entityVersion opp + 1\<rparr> else opp);
                  opp2 = (if op_correlationId opp1 \<noteq> None then opp1
                          else case rr_correlationId dto of
                            Some c \<Rightarrow> opp1\<lparr>op_correlationId := Some c\<rparr>
                          | None \<Rightarrow> if correlationId \<noteq> [] then opp1\<lparr>op_correlationId := Some correlationId\<rparr> else opp1);
                  d' = (if opp2 = opp then d else save_opp now opp2 d)
              in if op_state opp2 \<noteq> O_enriched
                 then (Inl (ConflictException ''Risk evaluation requires state enriched''), d')
                 else (Inr (), d'))))"

text \<open>The last transaction: the decision is written, whatever its outcome is.\<close>

definition decide_tx :: "string \<Rightarrow> risk_answer \<Rightarrow> int \<Rightarrow> opp_db \<Rightarrow> (risk_eval_result, opp_db) outcome" where
  "decide_tx i risk now d =
     (case get_opp i d of
        None \<Rightarrow> (Inl (NotFoundException ''Opportunity not found''), d)
      | Some opp \<Rightarrow>
          (if op_state opp = O_risk_checked \<and> op_riskDecisionId opp = Some (ra_riskDecisionId risk)
           then (Inr \<lparr> rq_opportunity = opp, rq_riskDecisionId = ra_riskDecisionId risk, rq_riskOutcome = ra_outcome risk,
                       rq_idempotentReplay = True \<rparr>, d)
           else if op_state opp = O_risk_checked
           then (Inl (ConflictException ''Opportunity already risk_checked with a different risk decision''), d)
           else if op_state opp \<noteq> O_enriched
           then (Inl (ConflictException ''Risk evaluation requires state enriched''), d)
           else let opp' = opp\<lparr>op_state := O_risk_checked, op_riskDecisionId := Some (ra_riskDecisionId risk),
                  op_entityVersion := op_entityVersion opp + 1\<rparr>
                in (Inr \<lparr> rq_opportunity = opp'\<lparr>op_updatedAt := now\<rparr>, rq_riskDecisionId = ra_riskDecisionId risk,
                          rq_riskOutcome = ra_outcome risk, rq_idempotentReplay = False \<rparr>,
                    save_opp now opp' d)))"

definition risk_request :: "string \<Rightarrow> request_risk_dto \<Rightarrow> string \<Rightarrow> evaluate_dto" where
  "risk_request i dto correlationId =
     \<lparr> ev_idempotencyKey = rr_idempotencyKey dto, ev_correlationId = correlationId, ev_planReference = i,
       ev_notionalUsd = rr_notionalUsd dto, ev_snapshotVersion = rr_snapshotVersion dto, ev_riskMode = rr_riskMode dto,
       ev_windowId = rr_windowId dto, ev_instrumentKey = None, ev_routeKey = None, ev_adaptiveRisk = None \<rparr>"

text \<open>
  \<open>http\<close> is the answer of the risk service; \<open>env 0\<close>, \<open>env 1\<close> and \<open>env 2\<close> are what others commit
  between the first read, the preparation, the second read and the decision.
\<close>

definition requestRiskEvaluation ::
  "string \<Rightarrow> request_risk_dto \<Rightarrow> string \<Rightarrow> (evaluate_dto \<Rightarrow> http_response) \<Rightarrow> (nat \<Rightarrow> opp_db \<Rightarrow> opp_db) \<Rightarrow> int \<Rightarrow> int
     \<Rightarrow> opp_db \<Rightarrow> (risk_eval_result, opp_db) outcome" where
  "requestRiskEvaluation i dto newUuid http env now now2 d =
     (case get_opp i d of
        None \<Rightarrow> (Inl (NotFoundException ''Opportunity not found''), d)
      | Some existing \<Rightarrow>
          (if op_state existing = O_risk_checked
           then (case op_riskDecisionId existing of
                   None \<Rightarrow> (Inl (ConflictException ''Opportunity is risk_checked but risk_decision_id is missing''), d)
                 | Some k \<Rightarrow> (Inr \<lparr> rq_opportunity = existing, rq_riskDecisionId = k, rq_riskOutcome = ''skipped'',
                                    rq_idempotentReplay = True \<rparr>, d))
           else
             (let correlationId = (case rr_correlationId dto of Some c \<Rightarrow> c
                    | None \<Rightarrow> correlationIdForOpportunity (op_correlationId existing) newUuid)
              in case transaction (prepare_tx i dto correlationId now) (env 0 d) of
                   (Inl e, d1) \<Rightarrow> (Inl e, d1)
                 | (Inr _, d1) \<Rightarrow>
                     (let d2 = env 1 d1
                      in case (case get_opp i d2 of
                                 Some a \<Rightarrow> if op_state a = O_risk_checked then map_option (\<lambda>k. (a, k)) (op_riskDecisionId a) else None
                               | None \<Rightarrow> None) of
                           Some (a, k) \<Rightarrow> (Inr \<lparr> rq_opportunity = a, rq_riskDecisionId = k, rq_riskOutcome = ''skipped'',
                                               rq_idempotentReplay = True \<rparr>, d2)
                         | None \<Rightarrow>
                             (let q = risk_request i dto correlationId
                              in case evaluateRiskHttp q (http q) of
                                   Inl e \<Rightarrow> (Inl e, env 2 d2)
                                 | Inr risk \<Rightarrow> transaction (decide_tx i risk now2) (env 2 d2))))))"

section \<open>Paper candidates\<close>

definition readStringFromPayload :: "(string \<times> json) list \<Rightarrow> string \<Rightarrow> string option" where
  "readStringFromPayload payload key = jnonempty_str (map_of payload key)"

definition readNumberFromPayload :: "(string \<times> json) list \<Rightarrow> string \<Rightarrow> rat option" where
  "readNumberFromPayload payload key = (case map_of payload key of Some (JNum q) \<Rightarrow> Some q | _ \<Rightarrow> None)"

record paper_enqueue_dto =
  pe_instrumentKey :: "string option"
  pe_score :: "rat option"
  pe_driftBps :: "rat option"
  pe_evidence :: "(string \<times> json) list option"

record enqueue_result =
  eq_enqueued :: bool
  eq_paperServiceConfigured :: bool
  eq_deduplicated :: "bool option"

text \<open>\<open>PaperClientService.isEnabled\<close> on \<open>PAPER_TRADING_SERVICE_URL\<close>.\<close>

definition paper_enabled :: "string option \<Rightarrow> bool" where
  "paper_enabled url = (case map_option js_trim url of None \<Rightarrow> False | Some u \<Rightarrow> u \<noteq> [])"

definition pending_enqueue :: "string \<Rightarrow> outbox_row list \<Rightarrow> bool" where
  "pending_enqueue key rows = list_ex (\<lambda>r. ob_eventType r = paperPromotionCandidateRequested
     \<and> ob_paperEnqueueKey r = Some key \<and> ob_processedAt r = None \<and> ob_deadLetterAt r = None) rows"

definition enqueue_instrument :: "paper_enqueue_dto \<Rightarrow> opportunity \<Rightarrow> string" where
  "enqueue_instrument dto opp =
     (case pe_instrumentKey dto of Some k \<Rightarrow> k
      | None \<Rightarrow> (case readStringFromPayload (op_payload opp) ''instrumentKey'' of Some k \<Rightarrow> k
      | None \<Rightarrow> (case readStringFromPayload (op_payload opp) ''routeKey'' of Some k \<Rightarrow> k
      | None \<Rightarrow> ''arb:opportunity:'' @ op_id opp)))"

definition enqueue_payload :: "paper_enqueue_dto \<Rightarrow> opportunity \<Rightarrow> string \<Rightarrow> string \<Rightarrow> json" where
  "enqueue_payload dto opp instrumentKey key =
     JObj ([(''opportunityId'', JStr (op_id opp)), (''instrumentKey'', JStr instrumentKey),
        (''source'', JStr ''opportunity_hook''), (''enqueueIdempotencyKey'', JStr key)]
      @ opt_field ''score'' JNum (pe_score dto) @ opt_field ''driftBps'' JNum (pe_driftBps dto)
      @ [(''evidence'', JObj (case pe_evidence dto of None \<Rightarrow> [] | Some e \<Rightarrow> e))]
      @ opt_field ''netProfitUsd'' JNum (readNumberFromPayload (op_payload opp) ''netProfitUsd'')
      @ opt_field ''spreadBps'' JNum (readNumberFromPayload (op_payload opp) ''spreadBps'')
      @ opt_field ''buyVenue'' JStr (readStringFromPayload (op_payload opp) ''buyVenue'')
      @ opt_field ''sellVenue'' JStr (readStringFromPayload (op_payload opp) ''sellVenue''))"

definition enqueue_row :: "paper_enqueue_dto \<Rightarrow> opportunity \<Rightarrow> string \<Rightarrow> int \<Rightarrow> outbox_row" where
  "enqueue_row dto opp messageId now =
     (let instrumentKey = enqueue_instrument dto opp;
          key = op_id opp @ '':'' @ instrumentKey;
          payload = enqueue_payload dto opp instrumentKey key;
          correlationId = (case op_correlationId opp of Some c \<Rightarrow> if c = [] then op_id opp else c | None \<Rightarrow> op_id opp);
          envelope = JObj [(''messageId'', JStr messageId), (''correlationId'', JStr correlationId),
            (''causationId'', JStr (op_id opp)), (''entityType'', JStr ''ArbitrageOpportunity''),
            (''entityId'', JStr (op_id opp)), (''version'', JNum 1), (''sourceModule'', JStr ''opportunity-service''),
            (''eventTs'', JIso now), (''eventName'', JStr paperPromotionCandidateRequested), (''payload'', payload)]
      in (mk_outbox messageId paperPromotionCandidateRequested ''ArbitrageOpportunity'' (op_id opp) 1 payload envelope now)
           \<lparr>ob_paperEnqueueKey := Some key\<rparr>)"

text \<open>
  \<open>env\<close> is what others commit between the lookup of a pending row and the insert, which the
  partial unique index of migration 018 refuses when a pending row has the key by then.
\<close>

definition paperEnqueue :: "string option \<Rightarrow> string \<Rightarrow> paper_enqueue_dto \<Rightarrow> string \<Rightarrow> (opp_db \<Rightarrow> opp_db) \<Rightarrow> int \<Rightarrow> opp_db
    \<Rightarrow> (enqueue_result, opp_db) outcome" where
  "paperEnqueue url i dto messageId env now d =
     (if \<not> paper_enabled url
      then (Inr \<lparr> eq_enqueued = False, eq_paperServiceConfigured = False, eq_deduplicated = None \<rparr>, d)
      else case get_opp i d of
        None \<Rightarrow> (Inl (NotFoundException ''Opportunity not found''), d)
      | Some opp \<Rightarrow>
          (let row = enqueue_row dto opp messageId now; key = op_id opp @ '':'' @ enqueue_instrument dto opp
           in if pending_enqueue key (od_outbox d)
              then (Inr \<lparr> eq_enqueued = True, eq_paperServiceConfigured = True, eq_deduplicated = Some True \<rparr>, d)
              else let d' = env d
                   in if pending_enqueue key (od_outbox d')
                      then (Inr \<lparr> eq_enqueued = True, eq_paperServiceConfigured = True, eq_deduplicated = Some True \<rparr>, d')
                      else (Inr \<lparr> eq_enqueued = True, eq_paperServiceConfigured = True, eq_deduplicated = None \<rparr>,
                            d'\<lparr>od_outbox := save_outbox row (od_outbox d')\<rparr>)))"

section \<open>The marker of the live worker\<close>

text \<open>The conditional \<open>UPDATE\<close> of \<open>LiveAutoDriveWorker\<close>; the version is left alone.\<close>

definition stamp_live_plan :: "string \<Rightarrow> string \<Rightarrow> int \<Rightarrow> opp_db \<Rightarrow> opp_db" where
  "stamp_live_plan planId i now d =
     d\<lparr>od_opps := map (\<lambda>x. if op_id x = i \<and> op_livePlanId x = None
        then x\<lparr>op_livePlanId := Some planId, op_updatedAt := now\<rparr> else x) (od_opps d)\<rparr>"

text \<open>The slots in use and the rows a tick looks at.\<close>

definition live_in_flight :: "opp_db \<Rightarrow> nat" where
  "live_in_flight d = length (filter (\<lambda>x. op_state x = O_risk_checked \<and> op_livePlanId x \<noteq> None) (od_opps d))"

definition undispatched :: "nat \<Rightarrow> opp_db \<Rightarrow> opportunity list" where
  "undispatched batchSize d =
     filter (\<lambda>x. op_livePlanId x = None)
       (take batchSize (rev (sort_key op_createdAt (filter (\<lambda>x. op_state x = O_risk_checked) (od_opps d)))))"

section \<open>Filters\<close>

record dex_filters =
  df_enabled :: bool
  df_minSpreadPct :: "bool \<times> rat"
  df_minProfitUsd :: "bool \<times> rat"
  df_maxFeesUsd :: "bool \<times> rat"
  df_volumeRange :: "bool \<times> rat \<times> rat"
  df_blacklistTokens :: "bool \<times> string list"
  df_allowedChains :: "bool \<times> string list"
  df_quoteAssets :: "bool \<times> string list"
  df_highRisk :: "bool \<times> string"

definition risk_order :: "string \<Rightarrow> nat option" where
  "risk_order s = (if s = ''low'' then Some 1 else if s = ''medium'' then Some 2 else if s = ''high'' then Some 3 else None)"

text \<open>The filters one payload trips, in the order of the breakdown.\<close>

definition tripped :: "dex_filters \<Rightarrow> (string \<times> json) list \<Rightarrow> bool list" where
  "tripped f p =
     (let num = (\<lambda>k. json_num_or 0 (map_of p k)); str = (\<lambda>k. json_str_or [] (map_of p k));
          level = (case risk_order (json_str_or ''low'' (map_of p ''riskLevel'')) of None \<Rightarrow> 1 | Some n \<Rightarrow> n);
          maxLevel = (case risk_order (snd (df_highRisk f)) of None \<Rightarrow> 3 | Some n \<Rightarrow> n)
      in map (\<lambda>b. df_enabled f \<and> b)
           [fst (df_minSpreadPct f) \<and> num ''spreadPct'' < snd (df_minSpreadPct f),
            fst (df_minProfitUsd f) \<and> num ''profitUsd'' < snd (df_minProfitUsd f),
            fst (df_maxFeesUsd f) \<and> num ''feesUsd'' > snd (df_maxFeesUsd f),
            fst (df_volumeRange f) \<and> (num ''volumeUsd'' < fst (snd (df_volumeRange f)) \<or> num ''volumeUsd'' > snd (snd (df_volumeRange f))),
            fst (df_blacklistTokens f) \<and> str ''token'' \<in> set (snd (df_blacklistTokens f)),
            fst (df_allowedChains f) \<and> str ''chain'' \<notin> set (snd (df_allowedChains f)),
            fst (df_quoteAssets f) \<and> str ''quoteAsset'' \<notin> set (snd (df_quoteAssets f)),
            fst (df_highRisk f) \<and> level > maxLevel])"

record filters_preview =
  fp_totalOpportunities :: nat
  fp_filteredOut :: nat
  fp_filteredPercentage :: rat
  fp_breakdown :: "(nat \<times> rat) list"

fun preview_loop :: "dex_filters \<Rightarrow> opportunity list \<Rightarrow> nat list \<Rightarrow> nat \<Rightarrow> nat list \<times> nat" where
  "preview_loop f [] counts out = (counts, out)"
| "preview_loop f (x # xs) counts out =
     (let t = tripped f (op_payload x)
      in preview_loop f xs (map2 (\<lambda>c b. if b then c + 1 else c) counts t) (if list_ex id t then out + 1 else out))"

definition percent :: "nat \<Rightarrow> nat \<Rightarrow> rat" where
  "percent n total_n = (if total_n > 0 then of_nat n / of_nat total_n * 100 else 0)"

definition previewFilters :: "dex_filters \<Rightarrow> opp_db \<Rightarrow> filters_preview" where
  "previewFilters f d =
     (let opps = take 1000 (rev (sort_key op_createdAt (od_opps d)));
          n = length opps; (counts, out) = preview_loop f opps (replicate 8 0) 0
      in \<lparr> fp_totalOpportunities = n, fp_filteredOut = out, fp_filteredPercentage = percent out n,
           fp_breakdown = map (\<lambda>c. (c, percent c n)) counts \<rparr>)"

record period_metrics =
  pm_totalOpportunities :: nat
  pm_passedFilters :: int
  pm_rejectedByFilters :: int
  pm_breakdown :: "int list"

definition createPeriodMetrics :: "nat \<Rightarrow> period_metrics" where
  "createPeriodMetrics n =
     (let breakdown = map (\<lambda>q. \<lfloor>of_nat n * q\<rfloor>) [3/100, 5/100, 2/100, 4/100, 1/100, 1/100, 2/100, 1/100 :: rat];
          rejectedByFilters = sum_list breakdown
      in \<lparr> pm_totalOpportunities = n, pm_passedFilters = int n - rejectedByFilters,
           pm_rejectedByFilters = rejectedByFilters, pm_breakdown = breakdown \<rparr>)"

definition getMetrics :: "int \<Rightarrow> opp_db \<Rightarrow> period_metrics \<times> period_metrics \<times> period_metrics" where
  "getMetrics now d =
     (let count = (\<lambda>t. length (filter (\<lambda>x. op_createdAt x \<ge> t) (od_opps d)))
      in (createPeriodMetrics (count (now - 3600000)), createPeriodMetrics (count (now - 86400000)),
          createPeriodMetrics (count (now - 604800000))))"

end
