(* ===== verification/Opp_Relay.thy ===== *)
theory Opp_Relay
  imports Opportunity
begin

text \<open>
  \<open>apps/opportunity-service/src/outbox-relay.service.ts\<close>: the relay drains the
  \<open>RiskDecisionIssued\<close> and \<open>PaperPromotionCandidateRequested\<close> rows, one per transaction, into the
  opportunities and into the paper trading service. \<open>relayGate\<close> serializes the batches of the
  process, so nothing runs between the steps of one batch.
\<close>

section \<open>Payloads\<close>

record paper_body =
  pb_instrumentKey :: string
  pb_opportunityId :: string
  pb_source :: string
  pb_score :: "rat option"
  pb_driftBps :: "rat option"
  pb_evidence :: "(string \<times> json) list"
  pb_enqueueIdempotencyKey :: string
  pb_netProfitUsd :: "rat option"
  pb_spreadBps :: "rat option"
  pb_buyVenue :: "string option"
  pb_sellVenue :: "string option"

definition json_num_opt :: "json option \<Rightarrow> rat option" where
  "json_num_opt v = (case v of Some (JNum q) \<Rightarrow> Some q | _ \<Rightarrow> None)"

text \<open>The decision id and the plan reference, which is the id of the opportunity.\<close>

definition parseRiskDecisionIssuedPayload :: "json \<Rightarrow> (string \<times> string) option" where
  "parseRiskDecisionIssuedPayload p =
     (case (jnonempty_str (jget p ''decisionId''), jnonempty_str (jget p ''planReference'')) of
        (Some k, Some r) \<Rightarrow> Some (k, r) | _ \<Rightarrow> None)"

definition parsePaperPromotionCandidateRequestedPayload :: "json \<Rightarrow> paper_body option" where
  "parsePaperPromotionCandidateRequestedPayload p =
     (case (jnonempty_str (jget p ''opportunityId''), jnonempty_str (jget p ''instrumentKey''),
            jnonempty_str (jget p ''source''), jnonempty_str (jget p ''enqueueIdempotencyKey''), jget p ''evidence'') of
        (Some opp, Some ins, Some src, Some key, Some (JObj ev)) \<Rightarrow>
          Some \<lparr> pb_instrumentKey = ins, pb_opportunityId = opp, pb_source = src,
            pb_score = json_num_opt (jget p ''score''), pb_driftBps = json_num_opt (jget p ''driftBps''),
            pb_evidence = ev, pb_enqueueIdempotencyKey = key,
            pb_netProfitUsd = json_num_opt (jget p ''netProfitUsd''), pb_spreadBps = json_num_opt (jget p ''spreadBps''),
            pb_buyVenue = jnonempty_str (jget p ''buyVenue''), pb_sellVenue = jnonempty_str (jget p ''sellVenue'') \<rparr>
      | _ \<Rightarrow> None)"

section \<open>One step\<close>

record relay_env =
  rv_paperUrl :: "string option"         \<comment> \<open>\<open>PAPER_TRADING_SERVICE_URL\<close>\<close>
  rv_maxOpportunity :: "string option"   \<comment> \<open>\<open>OUTBOX_RELAY_MAX_OPPORTUNITY_ATTEMPTS\<close>\<close>
  rv_maxPaper :: "string option"         \<comment> \<open>\<open>OUTBOX_RELAY_MAX_PAPER_PROMOTION_ATTEMPTS\<close>\<close>

definition RELAY_OUTBOX_EVENT_TYPES :: "string list" where
  "RELAY_OUTBOX_EVENT_TYPES = [riskDecisionIssued, paperPromotionCandidateRequested]"

definition max_opportunity_attempts :: "relay_env \<Rightarrow> jsnum" where
  "max_opportunity_attempts e = js_Number (case rv_maxOpportunity e of None \<Rightarrow> ''25'' | Some s \<Rightarrow> s)"

definition max_paper_attempts :: "relay_env \<Rightarrow> jsnum" where
  "max_paper_attempts e =
     js_Number (case rv_maxPaper e of Some s \<Rightarrow> s
       | None \<Rightarrow> (case rv_maxOpportunity e of Some s \<Rightarrow> s | None \<Rightarrow> ''25''))"

definition markDeadLetter :: "nat \<Rightarrow> string \<Rightarrow> int \<Rightarrow> opp_db \<Rightarrow> opp_db" where
  "markDeadLetter i reason now d =
     d\<lparr>od_outbox := update_outbox i (\<lambda>r. r\<lparr>ob_deadLetterAt := Some now, ob_deadLetterReason := Some (take 4000 reason)\<rparr>) (od_outbox d)\<rparr>"

definition set_attempts :: "nat \<Rightarrow> nat \<Rightarrow> opp_db \<Rightarrow> opp_db" where
  "set_attempts i n d = d\<lparr>od_outbox := update_outbox i (\<lambda>r. r\<lparr>ob_attempts := n\<rparr>) (od_outbox d)\<rparr>"

text \<open>A row whose opportunity is missing: one more attempt, dead letter at the bound.\<close>

definition missing_opportunity :: "relay_env \<Rightarrow> string \<Rightarrow> string \<Rightarrow> outbox_row \<Rightarrow> int \<Rightarrow> opp_db \<Rightarrow> opp_db" where
  "missing_opportunity e what opportunityId row now d =
     (let maxAttempts = max_opportunity_attempts e; attempts = ob_attempts row + 1; d' = set_attempts (ob_id row) attempts d
      in if js_geq (Fin (of_nat attempts)) maxAttempts
         then markDeadLetter (ob_id row) (what @ opportunityId @ '':max_attempts='' @ jsnum_string maxAttempts) now d'
         else d')"

fun opp_state_text :: "opp_state \<Rightarrow> string" where
  "opp_state_text O_detected = ''detected''"
| "opp_state_text O_enriched = ''enriched''"
| "opp_state_text O_risk_checked = ''risk_checked''"
| "opp_state_text O_live_completed = ''live_completed''"
| "opp_state_text O_live_failed = ''live_failed''"

text \<open>The flag says whether the row is to be marked processed.\<close>

definition finishDuplicateInboxDelivery ::
  "relay_env \<Rightarrow> outbox_row \<Rightarrow> string \<Rightarrow> string \<Rightarrow> int \<Rightarrow> opp_db \<Rightarrow> bool \<times> opp_db" where
  "finishDuplicateInboxDelivery e row decisionId opportunityId now d =
     (case get_opp opportunityId d of
        None \<Rightarrow> (False, missing_opportunity e ''duplicate_inbox_opportunity_missing:'' opportunityId row now d)
      | Some opp \<Rightarrow>
          (if op_state opp = O_risk_checked \<and> op_riskDecisionId opp = Some decisionId then (True, d)
           else (False, markDeadLetter (ob_id row) (''duplicate_inbox_domain_mismatch:opportunity='' @ opportunityId
              @ '':expectedDecision='' @ decisionId @ '':state='' @ opp_state_text (op_state opp)) now d)))"

definition dispatchLockedRow :: "relay_env \<Rightarrow> outbox_row \<Rightarrow> int \<Rightarrow> opp_db \<Rightarrow> bool \<times> opp_db" where
  "dispatchLockedRow e row now d =
     (if ob_eventType row \<noteq> riskDecisionIssued
      then (False, markDeadLetter (ob_id row) (''unsupported_event_type:'' @ ob_eventType row) now d)
      else case parseRiskDecisionIssuedPayload (ob_payload row) of
        None \<Rightarrow> (False, markDeadLetter (ob_id row) ''invalid_payload:RiskDecisionIssued'' now d)
      | Some (decisionId, opportunityId) \<Rightarrow>
          (case tryClaimInboxMessage ''opportunity-service'' (ob_messageId row) (od_inbox d) of
             (False, _) \<Rightarrow> finishDuplicateInboxDelivery e row decisionId opportunityId now d
           | (True, inbox') \<Rightarrow>
               (let d1 = d\<lparr>od_inbox := inbox'\<rparr>
                in case get_opp opportunityId d1 of
                     None \<Rightarrow> (False, missing_opportunity e ''opportunity_not_found:planReference='' opportunityId row now
                        (d1\<lparr>od_inbox := releaseInboxClaim ''opportunity-service'' (ob_messageId row) inbox'\<rparr>))
                   | Some opp \<Rightarrow>
                       (if op_state opp = O_risk_checked \<and> op_riskDecisionId opp = Some decisionId then (True, d1)
                        else (True, save_opp now (opp\<lparr>op_state := O_risk_checked, op_riskDecisionId := Some decisionId,
                                op_entityVersion := op_entityVersion opp + 1\<rparr>) d1)))))"

datatype relay_step = R_empty | R_handled | R_paper nat paper_body

text \<open>The transaction that locks one row; \<open>locked\<close> are the rows of other transactions.\<close>

definition relay_lock_tx :: "relay_env \<Rightarrow> nat set \<Rightarrow> int \<Rightarrow> opp_db \<Rightarrow> relay_step \<times> opp_db" where
  "relay_lock_tx e locked now d =
     (case fetchLockedOutboxBatch locked 1 RELAY_OUTBOX_EVENT_TYPES (od_outbox d) of
        [] \<Rightarrow> (R_empty, d)
      | row # _ \<Rightarrow>
          (if ob_eventType row = paperPromotionCandidateRequested
           then (case parsePaperPromotionCandidateRequestedPayload (ob_payload row) of
                   None \<Rightarrow> (R_handled, markDeadLetter (ob_id row) ''invalid_payload:PaperPromotionCandidateRequested'' now d)
                 | Some payload \<Rightarrow> (R_paper (ob_id row) payload, d))
           else (case dispatchLockedRow e row now d of
                   (True, d') \<Rightarrow> (R_handled, d'\<lparr>od_outbox := mark_processed now (ob_id row) (od_outbox d')\<rparr>)
                 | (False, d') \<Rightarrow> (R_handled, d'))))"

text \<open>
  \<open>PaperClientService.enqueuePromotionCandidate\<close>: \<open>post\<close> is the signed \<open>fetch\<close>, \<open>None\<close> when it
  rejects; nothing here catches the rejection.
\<close>

definition enqueuePromotionCandidate ::
  "string option \<Rightarrow> (paper_body \<Rightarrow> 'w \<Rightarrow> int option \<times> 'w) \<Rightarrow> paper_body \<Rightarrow> 'w \<Rightarrow> (exn + bool) \<times> 'w" where
  "enqueuePromotionCandidate url post body w =
     (if \<not> paper_enabled url then (Inr False, w)
      else case post body w of
        (None, w') \<Rightarrow> (Inl (PlainError ''fetch failed''), w')
      | (Some st, w') \<Rightarrow> (Inr (http_ok st), w'))"

definition is_open :: "nat \<Rightarrow> outbox_row \<Rightarrow> bool" where
  "is_open i r \<longleftrightarrow> ob_id r = i \<and> ob_processedAt r = None \<and> ob_deadLetterAt r = None"

text \<open>
  \<open>finalizePaperPromotionRelayAttempt\<close>. \<open>driver\<close> is what \<open>em.query\<close> answers for an
  \<open>UPDATE ... RETURNING\<close> with the given rows; the code reads \<open>raw[0]?.attempts ?? 0\<close> from it.
\<close>

definition attempts_read :: "json \<Rightarrow> rat" where
  "attempts_read raw =
     (case raw of
        JArr xs \<Rightarrow> json_num_or 0 (case jidx xs 0 of None \<Rightarrow> None | Some x \<Rightarrow> jget x ''attempts'')
      | _ \<Rightarrow> 0)"

definition finalizePaperPromotionRelayAttempt ::
  "relay_env \<Rightarrow> (json list \<Rightarrow> json) \<Rightarrow> nat \<Rightarrow> bool \<Rightarrow> int \<Rightarrow> opp_db \<Rightarrow> opp_db" where
  "finalizePaperPromotionRelayAttempt e driver rowId httpOk now d =
     (if httpOk
      then d\<lparr>od_outbox := map (\<lambda>r. if is_open rowId r then r\<lparr>ob_processedAt := Some now\<rparr> else r) (od_outbox d)\<rparr>
      else
        (let rows = map (\<lambda>r. if is_open rowId r then r\<lparr>ob_attempts := ob_attempts r + 1\<rparr> else r) (od_outbox d);
             raw = driver (map (\<lambda>r. JObj [(''attempts'', JNum (of_nat (ob_attempts r)))]) (filter (is_open rowId) rows));
             d' = d\<lparr>od_outbox := rows\<rparr>; maxAttempts = max_paper_attempts e
         in if js_geq (Fin (attempts_read raw)) maxAttempts
            then markDeadLetter rowId (''paper_promotion_http_failed:max_attempts='' @ jsnum_string maxAttempts) now d'
            else d'))"

section \<open>The batch\<close>

text \<open>
  \<open>processBatchInner\<close> with \<open>n\<close> iterations left (\<open>OUTBOX_RELAY_BATCH\<close>, 25 by default); \<open>now k\<close> is
  the clock and \<open>post k\<close> the paper service in the k-th iteration. \<open>Inl\<close> is a rejected promise.
\<close>

fun relay_loop ::
  "relay_env \<Rightarrow> (json list \<Rightarrow> json) \<Rightarrow> nat set \<Rightarrow> (nat \<Rightarrow> int) \<Rightarrow> (nat \<Rightarrow> paper_body \<Rightarrow> 'w \<Rightarrow> int option \<times> 'w)
     \<Rightarrow> nat \<Rightarrow> nat \<Rightarrow> opp_db \<Rightarrow> 'w \<Rightarrow> (exn + unit) \<times> opp_db \<times> 'w" where
  "relay_loop e driver locked now post k 0 d w = (Inr (), d, w)"
| "relay_loop e driver locked now post k (Suc n) d w =
     (case relay_lock_tx e locked (now k) d of
        (R_empty, d') \<Rightarrow> (Inr (), d', w)
      | (R_handled, d') \<Rightarrow> relay_loop e driver locked now post (k + 1) n d' w
      | (R_paper rowId payload, d') \<Rightarrow>
          (case enqueuePromotionCandidate (rv_paperUrl e) (post k) payload w of
             (Inl x, w') \<Rightarrow> (Inl x, d', w')
           | (Inr ok, w') \<Rightarrow>
               relay_loop e driver locked now post (k + 1) n
                 (finalizePaperPromotionRelayAttempt e driver rowId ok (now k) d') w'))"

definition processBatchInner ::
  "relay_env \<Rightarrow> (json list \<Rightarrow> json) \<Rightarrow> nat set \<Rightarrow> (nat \<Rightarrow> int) \<Rightarrow> (nat \<Rightarrow> paper_body \<Rightarrow> 'w \<Rightarrow> int option \<times> 'w)
     \<Rightarrow> nat \<Rightarrow> opp_db \<Rightarrow> 'w \<Rightarrow> (exn + unit) \<times> opp_db \<times> 'w" where
  "processBatchInner e driver locked now post maxRows d w = relay_loop e driver locked now post 0 maxRows d w"

text \<open>
  The ticks of the timer, one after the other; an error is logged and the next tick starts from
  what was committed.
\<close>

fun ticks ::
  "relay_env \<Rightarrow> (json list \<Rightarrow> json) \<Rightarrow> (nat \<Rightarrow> nat \<Rightarrow> int) \<Rightarrow> (nat \<Rightarrow> nat \<Rightarrow> paper_body \<Rightarrow> 'w \<Rightarrow> int option \<times> 'w)
     \<Rightarrow> nat \<Rightarrow> nat \<Rightarrow> nat \<Rightarrow> opp_db \<times> 'w \<Rightarrow> opp_db \<times> 'w" where
  "ticks e driver now post maxRows t 0 s = s"
| "ticks e driver now post maxRows t (Suc m) s =
     ticks e driver now post maxRows (t + 1) m (snd (processBatchInner e driver {} (now t) (post t) maxRows (fst s) (snd s)))"

end
