(* ===== verification/Opp_Props.thy ===== *)
theory Opp_Props
  imports Opp_Relay
begin

text \<open>
  What holds of the opportunities in every run of their service, and of the relay that feeds
  them.
\<close>

section \<open>Steps and life cycle\<close>

inductive opp_step :: "opp_db \<Rightarrow> opp_db \<Rightarrow> bool" where
  os_create: "create_opportunity cdto i now d = (cout, d') \<Longrightarrow> get_opp i d = None \<Longrightarrow> opp_step d d'"
| os_enrich: "enrich i patch now d = (eout, d') \<Longrightarrow> opp_step d d'"
| os_prepare: "transaction (prepare_tx i dto corr now) d = (pout, d') \<Longrightarrow> opp_step d d'"
| os_decide: "transaction (decide_tx i risk now) d = (dout, d') \<Longrightarrow> opp_step d d'"
| os_completed: "markLiveCompleted planId now d = (lout, d') \<Longrightarrow> opp_step d d'"
| os_failed: "markLiveFailed planId now d = (lout, d') \<Longrightarrow> opp_step d d'"
| os_paper: "paperEnqueue url i pdto m id now d = (qout, d') \<Longrightarrow> opp_step d d'"
| os_stamp: "d' = stamp_live_plan planId i now d \<Longrightarrow> opp_step d d'"
| os_relay: "relay_lock_tx e locked now d = (s, d') \<Longrightarrow> opp_step d d'"
| os_finalize: "d' = finalizePaperPromotionRelayAttempt e driver rowId ok now d \<Longrightarrow> opp_step d d'"

definition opp_allowed :: "opp_state \<Rightarrow> opp_state \<Rightarrow> bool" where
  "opp_allowed s s' \<longleftrightarrow> s = O_detected \<and> s' = O_enriched \<or> s' = O_risk_checked
     \<or> s \<noteq> O_live_completed \<and> s' = O_live_completed \<or> s = O_risk_checked \<and> s' = O_live_failed"

text \<open>What one row may go through in a step.\<close>

definition opp_moves :: "opportunity \<Rightarrow> opportunity \<Rightarrow> bool" where
  "opp_moves r r' \<longleftrightarrow> op_state r' = op_state r \<and> op_entityVersion r' = op_entityVersion r
     \<or> op_entityVersion r' = op_entityVersion r + 1 \<and> opp_allowed (op_state r) (op_state r')"

lemma opp_moves_refl [simp]: "opp_moves r r"
  by (simp add: opp_moves_def)

definition opps_move :: "opp_db \<Rightarrow> opp_db \<Rightarrow> bool" where
  "opps_move d d' \<longleftrightarrow> (\<forall>k r. get_opp k d = Some r \<longrightarrow> (\<exists>r'. get_opp k d' = Some r' \<and> opp_moves r r'))"

lemma opps_move_same: "od_opps d' = od_opps d \<Longrightarrow> opps_move d d'"
  by (auto simp: opps_move_def get_opp_def intro: exI)

lemma opps_move_save:
  assumes "get_opp (op_id x) d = Some r0" and "opp_moves r0 x" and "od_opps d1 = od_opps d"
  shows "opps_move d (save_opp now x d1)"
proof -
  have "get_opp k d1 = get_opp k d" for k using assms(3) by (simp add: get_opp_def)
  with assms(1,2) show ?thesis by (auto simp: opps_move_def get_save_opp opp_moves_def)
qed

lemma opps_move_update:
  assumes "get_opp i d = Some r0" and "op_id x = op_id r0" and "opp_moves r0 x" and "od_opps d1 = od_opps d"
  shows "opps_move d (save_opp now x d1)"
  using opps_move_save [of x d r0 d1 now] assms get_opp_key [OF assms(1)] by simp

lemma opps_move_new: "get_opp (op_id x) d = None \<Longrightarrow> opps_move d (save_opp now x d)"
  by (auto simp: opps_move_def get_save_opp)

lemma transaction_cases:
  assumes "transaction b d = (out, d')"
  obtains (rolled_back) e where "out = Inl e" "d' = d" | (committed) v where "out = Inr v" "b d = (Inr v, d')"
  using assms by (cases out) (auto dest: transaction_Inl)

lemma find_by_plan_get:
  assumes "find_by_plan p d = Some x" and "distinct (map op_id (od_opps d))"
  shows "get_opp (op_id x) d = Some x"
proof -
  from assms(1) have "x \<in> set (od_opps d)" unfolding find_by_plan_def by (blast dest: find_SomeD)
  with assms(2) show ?thesis unfolding get_opp_def by (rule distinct_get_row)
qed

text \<open>Ids stay unique; so the row found by its marker is the row with its id.\<close>

lemma distinct_save_opp: "distinct (map op_id (od_opps d)) \<Longrightarrow> distinct (map op_id (od_opps (save_opp now x d)))"
  by (simp add: save_opp_def)

lemma outbox_updates_opps [simp]:
  "od_opps (markDeadLetter i reason now d) = od_opps d" "od_opps (set_attempts i n d) = od_opps d"
  "od_opps (missing_opportunity e what opp row now d) = od_opps d"
  "od_opps (finalizePaperPromotionRelayAttempt e driver rowId ok now d) = od_opps d"
  by (simp_all add: markDeadLetter_def set_attempts_def missing_opportunity_def finalizePaperPromotionRelayAttempt_def Let_def)

text \<open>What the lock transaction of the relay does to the opportunities.\<close>

lemma relay_lock_opps:
  assumes "relay_lock_tx e locked now d = (s, d')"
  obtains (same) "od_opps d' = od_opps d"
  | (decided) i opp k d1 where "get_opp i d = Some opp" "od_opps d1 = od_opps d"
      "od_opps d' = od_opps (save_opp now (opp\<lparr>op_state := O_risk_checked, op_riskDecisionId := Some k,
         op_entityVersion := op_entityVersion opp + 1\<rparr>) d1)"
proof (cases "fetchLockedOutboxBatch locked 1 RELAY_OUTBOX_EVENT_TYPES (od_outbox d)")
  case Nil
  with assms same show thesis by (simp add: relay_lock_tx_def)
next
  case (Cons row rs)
  have d': "od_opps d' = od_opps d \<or> od_opps d' = od_opps (snd (dispatchLockedRow e row now d))"
    using assms Cons by (auto simp: relay_lock_tx_def split: if_splits option.splits prod.splits bool.splits)
  show thesis
  proof (cases "od_opps (snd (dispatchLockedRow e row now d)) = od_opps d")
    case True
    with d' same show thesis by simp
  next
    case False
    then obtain k i opp where "get_opp i d = Some opp" "od_opps (snd (dispatchLockedRow e row now d)) =
        od_opps (save_opp now (opp\<lparr>op_state := O_risk_checked, op_riskDecisionId := Some k,
          op_entityVersion := op_entityVersion opp + 1\<rparr>) (d\<lparr>od_inbox := od_inbox d @ [(''opportunity-service'', ob_messageId row)]\<rparr>))"
      by (auto simp: dispatchLockedRow_def finishDuplicateInboxDelivery_def tryClaimInboxMessage_def Let_def
          split: if_splits option.splits)
    with d' same decided [of i opp "d\<lparr>od_inbox := od_inbox d @ [(''opportunity-service'', ob_messageId row)]\<rparr>" k]
    show thesis by auto
  qed
qed

lemma opp_step_distinct:
  assumes "opp_step d d'" and "distinct (map op_id (od_opps d))"
  shows "distinct (map op_id (od_opps d'))"
  using assms(1)
proof cases
  case (os_create cdto i now cout)
  with assms(2) show ?thesis by (auto simp: create_opportunity_def Let_def intro: distinct_save_opp)
next
  case (os_enrich i patch now eout)
  with assms(2) show ?thesis
    by (auto simp: enrich_def transaction_def Let_def split: option.splits if_splits intro!: distinct_save_opp)
next
  case (os_prepare i dto corr now pout)
  with assms(2) show ?thesis
    by (auto simp: prepare_tx_def transaction_def Let_def split: option.splits if_splits sum.splits intro!: distinct_save_opp)
next
  case (os_decide i risk now dout)
  with assms(2) show ?thesis
    by (auto simp: decide_tx_def transaction_def Let_def split: option.splits if_splits intro!: distinct_save_opp)
next
  case (os_completed planId now lout)
  with assms(2) show ?thesis
    by (auto simp: markLiveCompleted_def transaction_def split: option.splits if_splits intro!: distinct_save_opp)
next
  case (os_failed planId now lout)
  with assms(2) show ?thesis
    by (auto simp: markLiveFailed_def transaction_def split: option.splits if_splits intro!: distinct_save_opp)
next
  case (os_paper url i pdto m now qout)
  with assms(2) show ?thesis by (auto simp: paperEnqueue_def Let_def split: option.splits if_splits)
next
  case (os_stamp planId i now)
  have "map op_id (od_opps d') = map op_id (od_opps d)" using os_stamp by (auto simp: stamp_live_plan_def)
  with assms(2) show ?thesis by simp
next
  case (os_relay e locked now s)
  then show ?thesis
  proof (cases rule: relay_lock_opps)
    case (decided i opp k d1)
    with assms(2) show ?thesis using distinct_save_opp [of d1] by simp
  qed (use assms(2) in simp)
next
  case (os_finalize e driver rowId ok now)
  with assms(2) show ?thesis by simp
qed

lemma opp_step_moves:
  assumes "opp_step d d'" and "distinct (map op_id (od_opps d))"
  shows "opps_move d d'"
  using assms(1)
proof cases
  case (os_create cdto i now cout)
  then show ?thesis by (auto simp: create_opportunity_def Let_def intro!: opps_move_new)
next
  case (os_enrich i patch now eout)
  from os_enrich(1) show ?thesis unfolding enrich_def
  proof (cases rule: transaction_cases)
    case (committed v)
    then show ?thesis
      by (auto simp: Let_def opp_moves_def opp_allowed_def split: option.splits if_splits intro!: opps_move_update)
  qed (simp add: opps_move_same)
next
  case (os_prepare i dto corr now pout)
  from os_prepare(1) show ?thesis
  proof (cases rule: transaction_cases)
    case (committed v)
    then show ?thesis
      by (auto simp: prepare_tx_def Let_def opp_moves_def opp_allowed_def opps_move_same 
        split: option.splits if_splits intro!: opps_move_update)
  qed (simp add: opps_move_same)
next
  case (os_decide i risk now dout)
  from os_decide(1) show ?thesis
  proof (cases rule: transaction_cases)
    case (committed v)
    then show ?thesis
      by (auto simp: decide_tx_def Let_def opp_moves_def opp_allowed_def opps_move_same 
        split: option.splits if_splits intro!: opps_move_update)
  qed (simp add: opps_move_same)
next
  case (os_completed planId now lout)
  with assms(2) show ?thesis
    by (auto simp: markLiveCompleted_def transaction_def opps_move_same opp_moves_def opp_allowed_def dest: find_by_plan_get
      split: option.splits if_splits intro!: opps_move_save)
next
  case (os_failed planId now lout)
  with assms(2) show ?thesis
    by (auto simp: markLiveFailed_def transaction_def opps_move_same opp_moves_def opp_allowed_def dest: find_by_plan_get
      split: option.splits if_splits intro!: opps_move_save)
next
  case (os_paper url i pdto m now qout)
  then have "od_opps d' = od_opps d" by (auto simp: paperEnqueue_def Let_def split: option.splits if_splits)
  then show ?thesis by (rule opps_move_same)
next
  case (os_stamp planId i now)
  have "get_opp k d' = map_option (\<lambda>x. if op_id x = i \<and> op_livePlanId x = None
      then x\<lparr>op_livePlanId := Some planId, op_updatedAt := now\<rparr> else x) (get_opp k d)" for k
    unfolding os_stamp stamp_live_plan_def get_opp_def by (simp add: get_row_map)
  then show ?thesis by (auto simp: opps_move_def opp_moves_def)
next
  case (os_relay e locked now s)
  then show ?thesis
  proof (cases rule: relay_lock_opps)
    case (decided i opp k d1)
    let ?x = "opp\<lparr>op_state := O_risk_checked, op_riskDecisionId := Some k, op_entityVersion := op_entityVersion opp + 1\<rparr>"
    have "opps_move d (save_opp now ?x d1)"
      using decided(1,2) get_opp_key [OF decided(1)] by (intro opps_move_save [of _ _ opp]) (auto simp: opp_moves_def opp_allowed_def)
    then show ?thesis using decided(3) by (simp add: opps_move_def get_opp_def)
  qed (simp add: opps_move_same)
next
  case (os_finalize e driver rowId ok now)
  then show ?thesis by (simp add: opps_move_same)
qed

definition opp_run_step :: "opp_db \<Rightarrow> opp_db \<Rightarrow> bool" where
  "opp_run_step d d' \<longleftrightarrow> opp_step d d' \<and> distinct (map op_id (od_opps d))"

lemma opp_runs:
  assumes "opp_step\<^sup>*\<^sup>* d d'" and "distinct (map op_id (od_opps d))"
  shows "opp_run_step\<^sup>*\<^sup>* d d'"
proof -
  from assms have "opp_run_step\<^sup>*\<^sup>* d d' \<and> distinct (map op_id (od_opps d'))"
  proof (induction rule: rtranclp_induct)
    case (step y z)
    then show ?case by (auto simp: opp_run_step_def intro: opp_step_distinct rtranclp.rtrancl_into_rtrancl)
  qed simp
  then show ?thesis ..
qed

interpretation opplife: lifecycle opp_run_step get_opp op_state op_entityVersion opp_allowed
proof
  fix d d' k r
  assume "opp_run_step d d'" and r: "get_opp k d = Some r"
  then have "opps_move d d'" by (auto simp: opp_run_step_def intro: opp_step_moves)
  with r show "\<exists>r'. get_opp k d' = Some r' \<and> (op_state r' = op_state r \<and> op_entityVersion r' = op_entityVersion r
      \<or> op_entityVersion r' = op_entityVersion r + 1 \<and> opp_allowed (op_state r) (op_state r'))"
    by (auto simp: opps_move_def opp_moves_def)
qed

section \<open>Life of an opportunity\<close>

text \<open>
  C27: in every run of the opportunity service, opportunities are never lost and their versions
  never decrease; an unchanged version means an unchanged state; an opportunity that has left
  \<open>detected\<close> never returns to it, and one that has reached \<open>risk_checked\<close> or the end of a live
  plan never leaves these three states: nothing brings it back before its risk evaluation.
\<close>

theorem opportunity_lifecycle:
  assumes "opp_step\<^sup>*\<^sup>* d d'" and "distinct (map op_id (od_opps d))" and "get_opp i d = Some r"
  shows "\<exists>r'. get_opp i d' = Some r' \<and> op_entityVersion r \<le> op_entityVersion r'
    \<and> (op_entityVersion r' = op_entityVersion r \<longrightarrow> op_state r' = op_state r)
    \<and> (op_state r \<noteq> O_detected \<longrightarrow> op_state r' \<noteq> O_detected)
    \<and> (op_state r \<in> {O_risk_checked, O_live_completed, O_live_failed}
         \<longrightarrow> op_state r' \<in> {O_risk_checked, O_live_completed, O_live_failed})"
proof -
  note run = opp_runs [OF assms(1,2)]
  from opplife.run_row [OF run assms(3)] obtain r' where r': "get_opp i d' = Some r'"
    "op_entityVersion r \<le> op_entityVersion r'" "op_entityVersion r' = op_entityVersion r \<longrightarrow> op_state r' = op_state r" by blast
  have "op_state r' \<noteq> O_detected" if "op_state r \<noteq> O_detected"
    using opplife.run_closed [OF run assms(3), of "- {O_detected}"] that r'(1) by (auto simp: opp_allowed_def)
  moreover have "op_state r' \<in> {O_risk_checked, O_live_completed, O_live_failed}"
    if "op_state r \<in> {O_risk_checked, O_live_completed, O_live_failed}"
    using opplife.run_closed [OF run assms(3), of "{O_risk_checked, O_live_completed, O_live_failed}"] that r'(1)
    by (auto simp: opp_allowed_def)
  ultimately show ?thesis using r' by blast
qed

definition empty_opps :: opp_db where
  "empty_opps = \<lparr> od_opps = [], od_outbox = [], od_inbox = [] \<rparr>"

definition ex_opps :: opp_db where
  "ex_opps = snd (create_opportunity \<lparr> co_correlationId = Some ''c'', co_payload = Some [(''buyVenue'', JStr ''uni'')] \<rparr> ''o1'' 1 empty_opps)"

definition ex_answer :: risk_answer where
  "ex_answer = \<lparr> ra_riskDecisionId = ''k1'', ra_outboxMessageId = None, ra_outcome = ''approved'', ra_notionalUsd = 10,
     ra_entityVersion = 1, ra_riskMode = ''fast'' \<rparr>"

text \<open>An opportunity that is evaluated, dispatched and whose live plan fails.\<close>

definition ex_failed :: opp_db where
  "ex_failed = snd (markLiveFailed ''p1'' 5 (stamp_live_plan ''p1'' ''o1'' 4
     (snd (transaction (decide_tx ''o1'' ex_answer 3) (snd (enrich ''o1'' None 2 ex_opps))))))"

theorem opportunity_lifecycle_witness:
  "\<exists>r'. get_opp ''o1'' ex_failed = Some r' \<and> 1 \<le> op_entityVersion r'"
proof -
  let ?d1 = "snd (enrich ''o1'' None 2 ex_opps)"
  let ?d2 = "snd (transaction (decide_tx ''o1'' ex_answer 3) ?d1)"
  let ?d3 = "stamp_live_plan ''p1'' ''o1'' 4 ?d2"
  have run: "opp_step\<^sup>*\<^sup>* ex_opps ex_failed"
  proof -
    have "opp_step ex_opps ?d1" by (rule os_enrich [of "''o1''" None 2 _ "fst (enrich ''o1'' None 2 ex_opps)"]) simp
    moreover have "opp_step ?d1 ?d2"
      by (rule os_decide [of "''o1''" ex_answer 3 _ "fst (transaction (decide_tx ''o1'' ex_answer 3) ?d1)"]) (rule prod.collapse [symmetric])
    moreover have "opp_step ?d2 ?d3" by (rule os_stamp) (rule refl)
    moreover have "opp_step ?d3 ex_failed"
      by (rule os_failed [of "''p1''" 5 _ "fst (markLiveFailed ''p1'' 5 ?d3)"]) (simp add: ex_failed_def)
    ultimately show ?thesis by (meson converse_rtranclp_into_rtranclp rtranclp.rtrancl_refl)
  qed
  have "distinct (map op_id (od_opps ex_opps))" by code_simp
  moreover obtain r where "get_opp ''o1'' ex_opps = Some r" "op_entityVersion r = 1"
    by (simp add: ex_opps_def create_opportunity_def empty_opps_def get_save_opp Let_def)
  ultimately show ?thesis using opportunity_lifecycle [OF run] by fastforce
qed

section \<open>Late decisions\<close>

lemma relay_lock_decision:
  assumes "fetchLockedOutboxBatch locked 1 RELAY_OUTBOX_EVENT_TYPES (od_outbox d) = [row]"
    and "ob_eventType row = riskDecisionIssued" and "parseRiskDecisionIssuedPayload (ob_payload row) = Some (k, i)"
    and "(''opportunity-service'', ob_messageId row) \<notin> set (od_inbox d)" and "get_opp i d = Some opp"
    and "op_state opp \<noteq> O_risk_checked"
  shows "relay_lock_tx e locked now d = (R_handled, (save_opp now (opp\<lparr>op_state := O_risk_checked, op_riskDecisionId := Some k,
      op_entityVersion := op_entityVersion opp + 1\<rparr>) (d\<lparr>od_inbox := od_inbox d @ [(''opportunity-service'', ob_messageId row)]\<rparr>))
      \<lparr>od_outbox := mark_processed now (ob_id row) (od_outbox d)\<rparr>)"
proof -
  have "riskDecisionIssued \<noteq> paperPromotionCandidateRequested" by code_simp
  with assms show ?thesis by (simp add: relay_lock_tx_def dispatchLockedRow_def tryClaimInboxMessage_def)
qed

text \<open>
  The relay does not look at the state of the opportunity. A decision that is relayed after
  the live plan of its opportunity has ended takes the opportunity back to \<open>risk_checked\<close>: an
  opportunity whose plan failed, whose marker was cleared and which the callback declared final, is
  dispatched again by the live worker; one whose plan completed counts as a plan in flight again.
\<close>

theorem late_decision_reopens:
  assumes "fetchLockedOutboxBatch locked 1 RELAY_OUTBOX_EVENT_TYPES (od_outbox d) = [row]"
    and "ob_eventType row = riskDecisionIssued" and "parseRiskDecisionIssuedPayload (ob_payload row) = Some (k, i)"
    and "(''opportunity-service'', ob_messageId row) \<notin> set (od_inbox d)" and "get_opp i d = Some opp"
    and "op_state opp \<in> {O_live_completed, O_live_failed}"
  shows "\<exists>d' opp'. relay_lock_tx e locked now d = (R_handled, d') \<and> get_opp i d' = Some opp'
    \<and> op_state opp' = O_risk_checked \<and> op_livePlanId opp' = op_livePlanId opp
    \<and> (op_livePlanId opp = None \<longrightarrow> (\<exists>n. opp' \<in> set (undispatched n d')))
    \<and> (op_livePlanId opp \<noteq> None \<and> distinct (map op_id (od_opps d)) \<longrightarrow> live_in_flight d' = live_in_flight d + 1)"
proof -
  let ?x = "opp\<lparr>op_state := O_risk_checked, op_riskDecisionId := Some k, op_entityVersion := op_entityVersion opp + 1\<rparr>"
  let ?y = "?x\<lparr>op_updatedAt := now\<rparr>"
  let ?d' = "(save_opp now ?x (d\<lparr>od_inbox := od_inbox d @ [(''opportunity-service'', ob_messageId row)]\<rparr>))
      \<lparr>od_outbox := mark_processed now (ob_id row) (od_outbox d)\<rparr>"
  have i: "op_id opp = i" using assms(5) by (rule get_opp_key)
  have r: "relay_lock_tx e locked now d = (R_handled, ?d')" using relay_lock_decision [OF assms(1-5)] assms(6) by auto
  have g: "get_opp i ?d' = Some ?y" by (simp add: get_save_opp i)
  have opps: "od_opps ?d' = save_row op_id ?y (od_opps d)" by (simp add: save_opp_def)
  have mem: "?y \<in> set (od_opps ?d')" using g unfolding get_opp_def by (rule get_row_in_set)
  have "?y \<in> set (undispatched (length (od_opps ?d')) ?d')" if "op_livePlanId opp = None"
    using mem that by (simp add: undispatched_def)
  moreover have "live_in_flight ?d' = live_in_flight d + 1"
    if "op_livePlanId opp \<noteq> None" and dis: "distinct (map op_id (od_opps d))"
  proof -
    have g0: "get_row op_id (op_id ?y) (od_opps d) = Some opp" using assms(5) i by (simp add: get_opp_def)
    from count_save_row [OF dis g0, of "\<lambda>z. op_state z = O_risk_checked \<and> op_livePlanId z \<noteq> None"] that(1) assms(6)
    show ?thesis unfolding live_in_flight_def opps by auto
  qed
  ultimately show ?thesis using r g by (intro exI [of _ ?d'] exI [of _ ?y]) auto
qed

text \<open>The row of the decision \<open>k1\<close> on the opportunity \<open>o1\<close>, still to be relayed.\<close>

definition ex_decision_row :: outbox_row where
  "ex_decision_row = (mk_outbox ''m1'' riskDecisionIssued ''RiskDecision'' ''k1'' 1
     (JObj [(''decisionId'', JStr ''k1''), (''planReference'', JStr ''o1'')]) JNull 3)\<lparr>ob_id := 1\<rparr>"

theorem late_decision_reopens_witness:
  "\<exists>d' opp' n. relay_lock_tx \<lparr> rv_paperUrl = None, rv_maxOpportunity = None, rv_maxPaper = None \<rparr> {} 9
      (ex_failed\<lparr>od_outbox := [ex_decision_row]\<rparr>) = (R_handled, d')
    \<and> opp' \<in> set (undispatched n d') \<and> op_state opp' = O_risk_checked"
proof -
  let ?d = "ex_failed\<lparr>od_outbox := [ex_decision_row]\<rparr>"
  have f: "fetchLockedOutboxBatch {} 1 RELAY_OUTBOX_EVENT_TYPES (od_outbox ?d) = [ex_decision_row]"
    by (simp add: fetchLockedOutboxBatch_def RELAY_OUTBOX_EVENT_TYPES_def ex_decision_row_def mk_outbox_def)
  have p: "ob_eventType ex_decision_row = riskDecisionIssued"
    "parseRiskDecisionIssuedPayload (ob_payload ex_decision_row) = Some (''k1'', ''o1'')" by code_simp+
  have c: "(''opportunity-service'', ob_messageId ex_decision_row) \<notin> set (od_inbox ?d)" by code_simp
  have "map_option op_state (get_opp ''o1'' ?d) = Some O_live_failed" "map_option op_livePlanId (get_opp ''o1'' ?d) = Some None"
    by code_simp+
  then obtain opp where o: "get_opp ''o1'' ?d = Some opp" "op_state opp = O_live_failed" "op_livePlanId opp = None" by auto
  from late_decision_reopens [OF f p c o(1), of _ 9] o(2,3) show ?thesis by blast
qed

end
