(* ===== verification/Paper.thy ===== *)
theory Paper
  imports Svc_Base
begin

text \<open>
  \<open>apps/paper-trading-service\<close>: paper trades (\<open>paper-trades.service.ts\<close>) and the virtual capital
  they reserve (\<open>paper-capital.service.ts\<close>). A reservation and the change of state of its trade are
  written in one transaction. Numeric columns hold the number that was written.
\<close>

section \<open>State\<close>

datatype trade_state = T_draft | T_active | T_settled | T_canceled

record trade =
  td_id :: string
  td_opportunityId :: "string option"
  td_instrumentKey :: string
  td_routeKey :: "string option"
  td_state :: trade_state
  td_notional :: string
  td_summary :: "(string \<times> json) list"
  td_entryPrice :: "rat option"
  td_exitPrice :: "rat option"
  td_profitUsd :: "rat option"
  td_settledAt :: "int option"
  td_entityVersion :: int
  td_idempotencyKey :: "string option"
  td_createdAt :: int
  td_updatedAt :: int

datatype paper_res_state = R_active | R_expired

record paper_reservation =
  pr_id :: string
  pr_instrumentKey :: string
  pr_notional :: string
  pr_state :: paper_res_state
  pr_expiresAt :: int
  pr_tradeId :: "string option"
  pr_entityVersion :: int
  pr_createdAt :: int
  pr_updatedAt :: int

datatype promo_status = Q_queued | Q_under_review | Q_promoted | Q_rejected | Q_expired

record candidate =
  pc_id :: string
  pc_instrumentKey :: string
  pc_opportunityId :: "string option"
  pc_source :: string
  pc_status :: promo_status
  pc_score :: "rat option"
  pc_driftBps :: "rat option"
  pc_evidence :: "(string \<times> json) list"
  pc_entityVersion :: int
  pc_qualityScore :: "rat option"
  pc_qualityTier :: "string option"
  pc_enqueueIdempotencyKey :: "string option"
  pc_createdAt :: int
  pc_updatedAt :: int

record paper_db =
  pd_trades :: "trade list"
  pd_reservations :: "paper_reservation list"
  pd_candidates :: "candidate list"
  pd_audit :: "audit_entry list"

definition get_trade :: "string \<Rightarrow> paper_db \<Rightarrow> trade option" where
  "get_trade i d = get_row td_id i (pd_trades d)"

definition save_trade :: "int \<Rightarrow> trade \<Rightarrow> paper_db \<Rightarrow> paper_db" where
  "save_trade now t d = d\<lparr>pd_trades := save_row td_id (t\<lparr>td_updatedAt := now\<rparr>) (pd_trades d)\<rparr>"

definition get_pres :: "string \<Rightarrow> paper_db \<Rightarrow> paper_reservation option" where
  "get_pres i d = get_row pr_id i (pd_reservations d)"

definition save_pres :: "int \<Rightarrow> paper_reservation \<Rightarrow> paper_db \<Rightarrow> paper_db" where
  "save_pres now r d = d\<lparr>pd_reservations := save_row pr_id (r\<lparr>pr_updatedAt := now\<rparr>) (pd_reservations d)\<rparr>"

lemma get_save_trade [row_simps]:
  "get_trade k (save_trade now x d) = (if k = td_id x then Some (x\<lparr>td_updatedAt := now\<rparr>) else get_trade k d)"
  by (simp add: get_trade_def save_trade_def get_row_save_row)

lemma get_save_pres [row_simps]:
  "get_pres k (save_pres now x d) = (if k = pr_id x then Some (x\<lparr>pr_updatedAt := now\<rparr>) else get_pres k d)"
  by (simp add: get_pres_def save_pres_def get_row_save_row)

lemma get_trade_key: "get_trade k d = Some x \<Longrightarrow> td_id x = k"
  unfolding get_trade_def by (rule get_row_key)

lemma paper_frame [simp]:
  "pd_reservations (save_trade now x d) = pd_reservations d" "pd_candidates (save_trade now x d) = pd_candidates d"
  "pd_audit (save_trade now x d) = pd_audit d" "pd_trades (save_pres now r d) = pd_trades d"
  "pd_candidates (save_pres now r d) = pd_candidates d" "pd_audit (save_pres now r d) = pd_audit d"
  by (simp_all add: save_trade_def save_pres_def)

lemma get_trade_frame [simp]:
  "get_trade k (save_pres now r d) = get_trade k d" "get_trade k (d\<lparr>pd_audit := a\<rparr>) = get_trade k d"
  "get_trade k (d\<lparr>pd_candidates := c\<rparr>) = get_trade k d" "get_trade k (d\<lparr>pd_reservations := rs\<rparr>) = get_trade k d"
  by (simp_all add: get_trade_def)

definition paper_audit :: "string \<Rightarrow> string \<Rightarrow> string \<Rightarrow> string \<Rightarrow> json \<Rightarrow> paper_db \<Rightarrow> paper_db" where
  "paper_audit actor action resourceType rid payload d =
     d\<lparr>pd_audit := pd_audit d @ [\<lparr> au_idempotencyKey = None, au_correlationId = None, au_actor = actor, au_action = action,
        au_resourceType = resourceType, au_resourceId = rid, au_payload = payload \<rparr>]\<rparr>"

lemma paper_audit_frame [simp]:
  "pd_trades (paper_audit a b c r p d) = pd_trades d" "pd_reservations (paper_audit a b c r p d) = pd_reservations d"
  "pd_candidates (paper_audit a b c r p d) = pd_candidates d" "get_trade k (paper_audit a b c r p d) = get_trade k d"
  by (simp_all add: paper_audit_def)

section \<open>Virtual capital\<close>

text \<open>The partial unique index of migration 050: one active reservation per instrument.\<close>

definition active_instrument :: "string \<Rightarrow> paper_db \<Rightarrow> bool" where
  "active_instrument ins d \<longleftrightarrow> list_ex (\<lambda>r. pr_state r = R_active \<and> pr_instrumentKey r = ins) (pd_reservations d)"

definition reserveCapital :: "string \<Rightarrow> string \<Rightarrow> string \<Rightarrow> string \<Rightarrow> int \<Rightarrow> paper_db \<Rightarrow> (paper_reservation, paper_db) outcome" where
  "reserveCapital tradeId instrumentKey notional newId now d =
     (let r = \<lparr> pr_id = newId, pr_instrumentKey = instrumentKey, pr_notional = notional, pr_state = R_active,
                pr_expiresAt = now + 3600000, pr_tradeId = Some tradeId, pr_entityVersion = 1,
                pr_createdAt = now, pr_updatedAt = now \<rparr>
      in if active_instrument instrumentKey d
         then (Inl (UniqueViolation ''uniq_paper_capital_res_active_per_instrument''), d)
         else (Inr r, save_pres now r d))"

definition getActiveReservation :: "string \<Rightarrow> paper_db \<Rightarrow> paper_reservation option" where
  "getActiveReservation tradeId d =
     (case rev (sort_key pr_createdAt (filter (\<lambda>r. pr_tradeId r = Some tradeId \<and> pr_state r = R_active) (pd_reservations d))) of
        [] \<Rightarrow> None | r # _ \<Rightarrow> Some r)"

definition expireReservation :: "string \<Rightarrow> int \<Rightarrow> paper_db \<Rightarrow> paper_reservation option \<times> paper_db" where
  "expireReservation i now d =
     (case get_pres i d of
        None \<Rightarrow> (None, d)
      | Some r \<Rightarrow>
          (if pr_state r \<noteq> R_active then (Some r, d)
           else let r' = r\<lparr>pr_state := R_expired, pr_entityVersion := pr_entityVersion r + 1\<rparr>
                in (Some (r'\<lparr>pr_updatedAt := now\<rparr>), save_pres now r' d)))"

text \<open>The bulk expiry; nothing under \<open>src/\<close> calls it.\<close>

definition expireReservations :: "int \<Rightarrow> paper_db \<Rightarrow> nat \<times> paper_db" where
  "expireReservations now d =
     (let due = (\<lambda>r. pr_state r = R_active \<and> pr_expiresAt r \<le> now)
      in (length (filter due (pd_reservations d)),
          d\<lparr>pd_reservations := map (\<lambda>r. if due r
             then r\<lparr>pr_state := R_expired, pr_entityVersion := pr_entityVersion r + 1, pr_updatedAt := now\<rparr> else r)
             (pd_reservations d)\<rparr>))"

section \<open>Trades\<close>

fun TRADE_STATE_ALLOWED :: "trade_state \<Rightarrow> trade_state list" where
  "TRADE_STATE_ALLOWED T_draft = [T_active, T_canceled]"
| "TRADE_STATE_ALLOWED T_active = [T_settled, T_canceled]"
| "TRADE_STATE_ALLOWED T_settled = []"
| "TRADE_STATE_ALLOWED T_canceled = []"

definition assertTradeStateTransition :: "trade_state \<Rightarrow> trade_state \<Rightarrow> exn + unit" where
  "assertTradeStateTransition from_st to_st =
     (if to_st \<in> set (TRADE_STATE_ALLOWED from_st) then Inr ()
      else Inl (ConflictException ''Invalid paper trade transition''))"

definition clampHistoryLimit :: "jsnum option \<Rightarrow> nat" where
  "clampHistoryLimit limit =
     (case limit of Some (Fin q) \<Rightarrow> nat (max 1 (min 500 \<lfloor>q\<rfloor>)) | _ \<Rightarrow> 100)"

definition list_trades :: "paper_db \<Rightarrow> trade list" where
  "list_trades d = take 200 (rev (sort_key td_updatedAt (pd_trades d)))"

definition in_window :: "int option \<Rightarrow> int option \<Rightarrow> trade \<Rightarrow> bool" where
  "in_window from_t to_t t \<longleftrightarrow> td_state t = T_settled
     \<and> (case from_t of None \<Rightarrow> True | Some a \<Rightarrow> (case td_settledAt t of None \<Rightarrow> False | Some s \<Rightarrow> a \<le> s))
     \<and> (case to_t of None \<Rightarrow> True | Some b \<Rightarrow> (case td_settledAt t of None \<Rightarrow> False | Some s \<Rightarrow> s \<le> b))"

text \<open>Descending order puts the missing \<open>settled_at\<close> first, as the database does.\<close>

definition history :: "int option \<Rightarrow> int option \<Rightarrow> jsnum option \<Rightarrow> paper_db \<Rightarrow> trade list" where
  "history from_t to_t limit d =
     (let rows = filter (in_window from_t to_t) (pd_trades d)
      in take (clampHistoryLimit limit)
           (filter (\<lambda>t. td_settledAt t = None) rows
            @ rev (sort_key (\<lambda>t. case td_settledAt t of None \<Rightarrow> 0 | Some s \<Rightarrow> s) (filter (\<lambda>t. td_settledAt t \<noteq> None) rows))))"

record trade_stats =
  ts_total :: nat
  ts_wins :: nat
  ts_losses :: nat
  ts_winRate :: rat
  ts_totalProfitUsd :: rat
  ts_avgProfitUsd :: rat
  ts_avgSpreadBps :: "rat option"

definition average :: "rat list \<Rightarrow> rat option" where
  "average xs = (if xs = [] then None else Some (sum_list xs / of_nat (length xs)))"

text \<open>
  \<open>stats\<close>; the texts of the answer are the numbers here. \<open>(summary->>'spreadBps')::numeric\<close> is
  modelled for summaries whose \<open>spreadBps\<close> is a number, \<open>null\<close> or missing.
\<close>

definition stats :: "int option \<Rightarrow> int option \<Rightarrow> paper_db \<Rightarrow> trade_stats" where
  "stats from_t to_t d =
     (let rows = filter (in_window from_t to_t) (pd_trades d); profits = List.map_filter td_profitUsd rows;
          wins = length (filter (\<lambda>p. p > 0) profits)
      in \<lparr> ts_total = length rows, ts_wins = wins, ts_losses = length (filter (\<lambda>p. p \<le> 0) profits),
           ts_winRate = (if length rows > 0 then of_nat wins / of_nat (length rows) else 0),
           ts_totalProfitUsd = sum_list profits,
           ts_avgProfitUsd = (case average profits of None \<Rightarrow> 0 | Some a \<Rightarrow> a),
           ts_avgSpreadBps = average (List.map_filter (\<lambda>t. case map_of (td_summary t) ''spreadBps'' of
              Some (JNum q) \<Rightarrow> Some q | _ \<Rightarrow> None) rows) \<rparr>)"

record create_trade_dto =
  ct_opportunityId :: "string option"
  ct_instrumentKey :: string
  ct_routeKey :: "string option"
  ct_notional :: "string option"
  ct_summary :: "(string \<times> json) list option"
  ct_idempotencyKey :: "string option"

definition trade_by_key :: "string \<Rightarrow> paper_db \<Rightarrow> trade option" where
  "trade_by_key k d = find (\<lambda>t. td_idempotencyKey t = Some k) (pd_trades d)"

definition new_trade :: "create_trade_dto \<Rightarrow> string \<Rightarrow> int \<Rightarrow> trade" where
  "new_trade dto newId now =
     \<lparr> td_id = newId, td_opportunityId = ct_opportunityId dto, td_instrumentKey = ct_instrumentKey dto,
       td_routeKey = ct_routeKey dto, td_state = T_draft,
       td_notional = (case ct_notional dto of None \<Rightarrow> ''0'' | Some n \<Rightarrow> n),
       td_summary = (case ct_summary dto of None \<Rightarrow> [] | Some s \<Rightarrow> s),
       td_entryPrice = None, td_exitPrice = None, td_profitUsd = None, td_settledAt = None,
       td_entityVersion = 1, td_idempotencyKey = ct_idempotencyKey dto, td_createdAt = now, td_updatedAt = now \<rparr>"

text \<open>\<open>env\<close> is what others commit between the lookup and the insert.\<close>

definition create_trade :: "create_trade_dto \<Rightarrow> string \<Rightarrow> (paper_db \<Rightarrow> paper_db) \<Rightarrow> int \<Rightarrow> paper_db \<Rightarrow> (trade, paper_db) outcome" where
  "create_trade dto newId env now d =
     (case Option.bind (ct_idempotencyKey dto) (\<lambda>k. trade_by_key k d) of
        Some existing \<Rightarrow> (Inr existing, d)
      | None \<Rightarrow>
          (let d' = env d
           in case Option.bind (ct_idempotencyKey dto) (\<lambda>k. trade_by_key k d') of
                Some replay \<Rightarrow> (Inr replay, d')
              | None \<Rightarrow> (Inr (new_trade dto newId now), save_trade now (new_trade dto newId now) d')))"

lemma new_trade_simps [simp]:
  "td_id (new_trade dto i now) = i" "td_state (new_trade dto i now) = T_draft"
  "td_instrumentKey (new_trade dto i now) = ct_instrumentKey dto"
  by (simp_all add: new_trade_def)

record patch_trade_dto =
  pt_expectedVersion :: int
  pt_notional :: "string option"
  pt_state :: "trade_state option"

definition patch_trade :: "string \<Rightarrow> patch_trade_dto \<Rightarrow> int \<Rightarrow> paper_db \<Rightarrow> (trade, paper_db) outcome" where
  "patch_trade i dto now = transaction (\<lambda>d.
     (case get_trade i d of
        None \<Rightarrow> (Inl (NotFoundException ''Paper trade not found''), d)
      | Some row \<Rightarrow>
          (if td_entityVersion row \<noteq> pt_expectedVersion dto then (Inl (ConflictException ''Version mismatch''), d)
           else if pt_state dto = None \<and> pt_notional dto = None
           then (Inl (BadRequestException ''Provide state and/or notional to patch''), d)
           else case (case pt_state dto of None \<Rightarrow> Inr () | Some s \<Rightarrow> assertTradeStateTransition (td_state row) s) of
             Inl e \<Rightarrow> (Inl e, d)
           | Inr _ \<Rightarrow>
               (let row' = row\<lparr>td_state := (case pt_state dto of None \<Rightarrow> td_state row | Some s \<Rightarrow> s),
                      td_notional := (case pt_notional dto of None \<Rightarrow> td_notional row | Some n \<Rightarrow> n),
                      td_entityVersion := td_entityVersion row + 1\<rparr>
                in (Inr (row'\<lparr>td_updatedAt := now\<rparr>), save_trade now row' d)))))"

text \<open>The part that \<open>approve\<close>, \<open>cancel\<close> and \<open>settle\<close> share: lock, version check, transition check.\<close>

definition locked_trade :: "string \<Rightarrow> int \<Rightarrow> trade_state \<Rightarrow> paper_db \<Rightarrow> exn + trade" where
  "locked_trade i ver to_st d =
     (case get_trade i d of
        None \<Rightarrow> Inl (NotFoundException ''Paper trade not found'')
      | Some row \<Rightarrow>
          (if td_entityVersion row \<noteq> ver then Inl (ConflictException ''Version mismatch'')
           else case assertTradeStateTransition (td_state row) to_st of Inl e \<Rightarrow> Inl e | Inr _ \<Rightarrow> Inr row))"

definition transitionToActive :: "string \<Rightarrow> int \<Rightarrow> trade \<Rightarrow> string \<Rightarrow> int \<Rightarrow> paper_db \<Rightarrow> (trade, paper_db) outcome" where
  "transitionToActive i ver before newId now d =
     (case locked_trade i ver T_active d of
        Inl e \<Rightarrow> (Inl e, d)
      | Inr row \<Rightarrow>
          (case reserveCapital i (td_instrumentKey before) (td_notional before) newId now d of
             (Inl e, d1) \<Rightarrow> (Inl e, d1)
           | (Inr _, d1) \<Rightarrow>
               (let row' = row\<lparr>td_state := T_active, td_entityVersion := td_entityVersion row + 1\<rparr>
                in (Inr (row'\<lparr>td_updatedAt := now\<rparr>), save_trade now row' d1))))"

fun trade_state_text :: "trade_state \<Rightarrow> string" where
  "trade_state_text T_draft = ''draft''"
| "trade_state_text T_active = ''active''"
| "trade_state_text T_settled = ''settled''"
| "trade_state_text T_canceled = ''canceled''"

definition trade_audit_payload :: "trade \<Rightarrow> trade \<Rightarrow> (string \<times> json) list" where
  "trade_audit_payload before after =
     [(''instrumentKey'', JStr (td_instrumentKey before)), (''notional'', JStr (td_notional before)),
      (''fromState'', JStr (trade_state_text (td_state before))), (''toState'', JStr (trade_state_text (td_state after)))]"

text \<open>\<open>env\<close> is what others commit between the first read and the transaction.\<close>

definition approve :: "string \<Rightarrow> string \<Rightarrow> string \<Rightarrow> (paper_db \<Rightarrow> paper_db) \<Rightarrow> int \<Rightarrow> paper_db \<Rightarrow> (trade, paper_db) outcome" where
  "approve i operatorId newId env now d =
     (case get_trade i d of
        None \<Rightarrow> (Inl (NotFoundException ''Paper trade not found''), d)
      | Some before \<Rightarrow>
          (if td_state before \<noteq> T_draft then (Inl (BadRequestException ''Cannot approve paper trade''), d)
           else case transaction (transitionToActive i (td_entityVersion before) before newId now) (env d) of
             (Inl e, d1) \<Rightarrow> (Inl (case e of UniqueViolation _ \<Rightarrow> ConflictException ''duplicate key: active reservation already exists''
                                   | _ \<Rightarrow> e), d1)
           | (Inr after, d1) \<Rightarrow>
               (Inr after, paper_audit operatorId ''paper_trade_approved'' ''PaperTrade'' i (JObj (trade_audit_payload before after)) d1)))"

definition reject :: "string \<Rightarrow> string \<Rightarrow> (paper_db \<Rightarrow> paper_db) \<Rightarrow> int \<Rightarrow> paper_db \<Rightarrow> (trade, paper_db) outcome" where
  "reject i operatorId env now d =
     (case get_trade i d of
        None \<Rightarrow> (Inl (NotFoundException ''Paper trade not found''), d)
      | Some before \<Rightarrow>
          (if td_state before \<noteq> T_draft then (Inl (BadRequestException ''Cannot reject paper trade''), d)
           else case patch_trade i \<lparr> pt_expectedVersion = td_entityVersion before, pt_notional = None, pt_state = Some T_canceled \<rparr> now (env d) of
             (Inl e, d1) \<Rightarrow> (Inl e, d1)
           | (Inr after, d1) \<Rightarrow>
               (Inr after, paper_audit operatorId ''paper_trade_rejected'' ''PaperTrade'' i (JObj (trade_audit_payload before after)) d1)))"

definition expire_of_trade :: "string \<Rightarrow> int \<Rightarrow> paper_db \<Rightarrow> paper_db" where
  "expire_of_trade i now d =
     (case getActiveReservation i d of None \<Rightarrow> d | Some r \<Rightarrow> snd (expireReservation (pr_id r) now d))"

definition cancel_tx :: "string \<Rightarrow> int \<Rightarrow> int \<Rightarrow> paper_db \<Rightarrow> (trade, paper_db) outcome" where
  "cancel_tx i ver now d =
     (case locked_trade i ver T_canceled d of
        Inl e \<Rightarrow> (Inl e, d)
      | Inr row \<Rightarrow>
          (let row' = row\<lparr>td_state := T_canceled, td_entityVersion := td_entityVersion row + 1\<rparr>
           in (Inr (row'\<lparr>td_updatedAt := now\<rparr>), save_trade now row' (expire_of_trade i now d))))"

definition cancel :: "string \<Rightarrow> string \<Rightarrow> (paper_db \<Rightarrow> paper_db) \<Rightarrow> int \<Rightarrow> paper_db \<Rightarrow> (trade, paper_db) outcome" where
  "cancel i operatorId env now d =
     (case get_trade i d of
        None \<Rightarrow> (Inl (NotFoundException ''Paper trade not found''), d)
      | Some before \<Rightarrow>
          (if td_state before \<noteq> T_active then (Inl (BadRequestException ''Cannot cancel paper trade''), d)
           else case transaction (cancel_tx i (td_entityVersion before) now) (env d) of
             (Inl e, d1) \<Rightarrow> (Inl e, d1)
           | (Inr after, d1) \<Rightarrow>
               (Inr after, paper_audit operatorId ''paper_trade_canceled'' ''PaperTrade'' i (JObj (trade_audit_payload before after)) d1)))"

record settle_dto =
  sd_entryPrice :: rat
  sd_exitPrice :: rat
  sd_profitUsd :: rat
  sd_spreadBps :: "rat option"
  sd_expectedVersion :: int

definition settle_tx :: "string \<Rightarrow> settle_dto \<Rightarrow> int \<Rightarrow> paper_db \<Rightarrow> (trade, paper_db) outcome" where
  "settle_tx i dto now d =
     (case locked_trade i (sd_expectedVersion dto) T_settled d of
        Inl e \<Rightarrow> (Inl e, d)
      | Inr row \<Rightarrow>
          (let row' = row\<lparr>td_state := T_settled, td_entryPrice := Some (sd_entryPrice dto), td_exitPrice := Some (sd_exitPrice dto),
                 td_profitUsd := Some (sd_profitUsd dto), td_settledAt := Some now,
                 td_summary := (case sd_spreadBps dto of None \<Rightarrow> td_summary row
                    | Some q \<Rightarrow> js_spread (td_summary row) [(''spreadBps'', JNum q)]),
                 td_entityVersion := td_entityVersion row + 1\<rparr>
           in (Inr (row'\<lparr>td_updatedAt := now\<rparr>), save_trade now row' (expire_of_trade i now d))))"

definition settle :: "string \<Rightarrow> settle_dto \<Rightarrow> string \<Rightarrow> (paper_db \<Rightarrow> paper_db) \<Rightarrow> int \<Rightarrow> paper_db \<Rightarrow> (trade, paper_db) outcome" where
  "settle i dto operatorId env now d =
     (case get_trade i d of
        None \<Rightarrow> (Inl (NotFoundException ''Paper trade not found''), d)
      | Some before \<Rightarrow>
          (if td_state before = T_settled then (Inr before, d)
           else if td_state before \<noteq> T_active then (Inl (BadRequestException ''Cannot settle paper trade''), d)
           else case transaction (settle_tx i dto now) (env d) of
             (Inl e, d1) \<Rightarrow> (Inl e, d1)
           | (Inr after, d1) \<Rightarrow>
               (Inr after, paper_audit operatorId ''paper_trade_settled'' ''PaperTrade'' i
                  (JObj (trade_audit_payload before after @ [(''entryPrice'', JNum (sd_entryPrice dto)),
                     (''exitPrice'', JNum (sd_exitPrice dto)), (''profitUsd'', JNum (sd_profitUsd dto))]
                     @ opt_field ''spreadBps'' JNum (sd_spreadBps dto))) d1)))"

end
