(* ===== verification/Promotion.thy ===== *)
theory Promotion
  imports Paper
begin

text \<open>
  \<open>paper-promotion.service.ts\<close>: the promotion candidates that the relay of the opportunity service
  enqueues, the gates of a promotion and its two ways, by an operator and by the worker.
\<close>

section \<open>Quality and eligibility\<close>

text \<open>\<open>promotionQualityFor\<close>: the tier and the score rounded to three decimals.\<close>

definition promotionQualityFor :: "candidate \<Rightarrow> string \<times> rat" where
  "promotionQualityFor row =
     (let rawScore = (case pc_score row of None \<Rightarrow> 0 | Some s \<Rightarrow> s);
          drift = (case pc_driftBps row of None \<Rightarrow> 0 | Some b \<Rightarrow> \<bar>b\<bar>);
          driftPenalty = min (drift / 100) 2;
          score = max 0 (min 10 (rawScore + 2 - driftPenalty))
      in (if score \<ge> 7 then ''high'' else if score \<ge> 4 then ''medium'' else ''low'', of_int (js_round (score * 1000)) / 1000))"

record promo_env =
  pv_maxDriftBps :: "string option"   \<comment> \<open>\<open>PAPER_PROMOTION_MAX_DRIFT_BPS\<close>\<close>
  pv_minScore :: "string option"      \<comment> \<open>\<open>PAPER_PROMOTION_MIN_SCORE\<close>\<close>

definition getPromotionCriteria :: "promo_env \<Rightarrow> rat \<times> jsnum option" where
  "getPromotionCriteria e =
     ((case js_Number (case pv_maxDriftBps e of None \<Rightarrow> ''50'' | Some s \<Rightarrow> s) of Fin q \<Rightarrow> q | _ \<Rightarrow> 50),
      (case map_option js_trim (pv_minScore e) of
         None \<Rightarrow> None
       | Some m \<Rightarrow> if m \<noteq> [] \<and> js_Number m \<noteq> NaN then Some (js_Number m) else None))"

text \<open>The reasons against a promotion; none means eligible.\<close>

definition evaluatePromotionEligibility :: "promo_env \<Rightarrow> rat option \<Rightarrow> rat option \<Rightarrow> string list" where
  "evaluatePromotionEligibility e driftBps score =
     (let (maxDriftBps, minScore) = getPromotionCriteria e
      in (case driftBps of None \<Rightarrow> []
          | Some b \<Rightarrow> if b > maxDriftBps then [''drift_bps '' @ js_number_string b @ '' exceeds max '' @ js_number_string maxDriftBps] else [])
       @ (case minScore of None \<Rightarrow> []
          | Some m \<Rightarrow> if score = None \<or> js_less (Fin (the score)) m
              then [''score below minimum '' @ jsnum_string m] else []))"

section \<open>Candidates\<close>

definition get_cand :: "string \<Rightarrow> paper_db \<Rightarrow> candidate option" where
  "get_cand i d = get_row pc_id i (pd_candidates d)"

definition save_cand :: "int \<Rightarrow> candidate \<Rightarrow> paper_db \<Rightarrow> paper_db" where
  "save_cand now c d = d\<lparr>pd_candidates := save_row pc_id (c\<lparr>pc_updatedAt := now\<rparr>) (pd_candidates d)\<rparr>"

lemma get_save_cand [row_simps]:
  "get_cand k (save_cand now x d) = (if k = pc_id x then Some (x\<lparr>pc_updatedAt := now\<rparr>) else get_cand k d)"
  by (simp add: get_cand_def save_cand_def get_row_save_row)

lemma get_cand_key: "get_cand k d = Some x \<Longrightarrow> pc_id x = k"
  unfolding get_cand_def by (rule get_row_key)

lemma get_cand_frame [simp]: "get_cand k (paper_audit a b c r p d) = get_cand k d"
  by (simp add: get_cand_def paper_audit_def)

fun promo_status_text :: "promo_status \<Rightarrow> string" where
  "promo_status_text Q_queued = ''queued''"
| "promo_status_text Q_under_review = ''under_review''"
| "promo_status_text Q_promoted = ''promoted''"
| "promo_status_text Q_rejected = ''rejected''"
| "promo_status_text Q_expired = ''expired''"

definition list_candidates :: "string option \<Rightarrow> paper_db \<Rightarrow> exn + candidate list" where
  "list_candidates status d =
     (let wanted = (case status of None \<Rightarrow> None | Some s \<Rightarrow> if s = [] then None else Some s)
      in if wanted \<noteq> None \<and> the wanted \<notin> set (map promo_status_text [Q_queued, Q_under_review, Q_promoted, Q_rejected, Q_expired])
         then Inl (BadRequestException ''Invalid status filter'')
         else Inr (take 200 (rev (sort_key pc_updatedAt
           (filter (\<lambda>c. wanted = None \<or> wanted = Some (promo_status_text (pc_status c))) (pd_candidates d))))))"

record create_candidate_dto =
  cc_instrumentKey :: string
  cc_opportunityId :: "string option"
  cc_source :: "string option"
  cc_score :: "rat option"
  cc_driftBps :: "rat option"
  cc_evidence :: "(string \<times> json) list option"
  cc_enqueueIdempotencyKey :: "string option"
  cc_netProfitUsd :: "rat option"
  cc_spreadBps :: "rat option"
  cc_buyVenue :: "string option"
  cc_sellVenue :: "string option"

definition cand_by_key :: "string \<Rightarrow> paper_db \<Rightarrow> candidate option" where
  "cand_by_key k d = find (\<lambda>c. pc_enqueueIdempotencyKey c = Some k) (pd_candidates d)"

text \<open>The idempotency key that counts: trimmed and not empty.\<close>

definition idem_key :: "create_candidate_dto \<Rightarrow> string option" where
  "idem_key dto = (case map_option js_trim (cc_enqueueIdempotencyKey dto) of None \<Rightarrow> None | Some k \<Rightarrow> if k = [] then None else Some k)"

definition put_if :: "string \<Rightarrow> json option \<Rightarrow> (string \<times> json) list \<Rightarrow> (string \<times> json) list" where
  "put_if k v ev = (case v of None \<Rightarrow> ev | Some x \<Rightarrow> js_spread ev [(k, x)])"

definition nonempty :: "string option \<Rightarrow> json option" where
  "nonempty v = (case v of Some s \<Rightarrow> if s = [] then None else Some (JStr s) | None \<Rightarrow> None)"

definition new_candidate :: "create_candidate_dto \<Rightarrow> string \<Rightarrow> int \<Rightarrow> candidate" where
  "new_candidate dto newId now =
     (let evidence = (case cc_evidence dto of None \<Rightarrow> [] | Some e \<Rightarrow> e);
          evidence = put_if ''netProfitUsd'' (map_option JNum (cc_netProfitUsd dto)) evidence;
          evidence = put_if ''spreadBps'' (map_option JNum (cc_spreadBps dto)) evidence;
          evidence = put_if ''buyVenue'' (nonempty (cc_buyVenue dto)) evidence;
          evidence = put_if ''sellVenue'' (nonempty (cc_sellVenue dto)) evidence
      in \<lparr> pc_id = newId, pc_instrumentKey = cc_instrumentKey dto, pc_opportunityId = cc_opportunityId dto,
           pc_source = (case cc_source dto of None \<Rightarrow> ''paper_discovery'' | Some s \<Rightarrow> s), pc_status = Q_queued,
           pc_score = cc_score dto, pc_driftBps = cc_driftBps dto, pc_evidence = evidence, pc_entityVersion = 1,
           pc_qualityScore = None, pc_qualityTier = None, pc_enqueueIdempotencyKey = idem_key dto,
           pc_createdAt = now, pc_updatedAt = now \<rparr>)"

text \<open>\<open>env\<close> is what others commit between the lookup and the insert.\<close>

definition create_candidate :: "create_candidate_dto \<Rightarrow> string \<Rightarrow> (paper_db \<Rightarrow> paper_db) \<Rightarrow> int \<Rightarrow> paper_db \<Rightarrow> (candidate, paper_db) outcome" where
  "create_candidate dto newId env now d =
     (case Option.bind (idem_key dto) (\<lambda>k. cand_by_key k d) of
        Some existing \<Rightarrow> (Inr existing, d)
      | None \<Rightarrow>
          (let d' = env d
           in case Option.bind (idem_key dto) (\<lambda>k. cand_by_key k d') of
                Some replay \<Rightarrow> (Inr replay, d')
              | None \<Rightarrow> (Inr (new_candidate dto newId now), save_cand now (new_candidate dto newId now) d')))"

fun PROMOTION_ALLOWED :: "promo_status \<Rightarrow> promo_status list" where
  "PROMOTION_ALLOWED Q_queued = [Q_under_review, Q_rejected, Q_expired]"
| "PROMOTION_ALLOWED Q_under_review = [Q_promoted, Q_rejected]"
| "PROMOTION_ALLOWED Q_promoted = []"
| "PROMOTION_ALLOWED Q_rejected = []"
| "PROMOTION_ALLOWED Q_expired = []"

definition assertTransition :: "promo_status \<Rightarrow> promo_status \<Rightarrow> exn + unit" where
  "assertTransition from_st to_st =
     (if to_st \<in> set (PROMOTION_ALLOWED from_st) then Inr () else Inl (ConflictException ''Invalid promotion transition''))"

definition patch_candidate :: "string \<Rightarrow> int \<Rightarrow> promo_status \<Rightarrow> int \<Rightarrow> paper_db \<Rightarrow> (candidate, paper_db) outcome" where
  "patch_candidate i expectedVersion status now = transaction (\<lambda>d.
     (case get_cand i d of
        None \<Rightarrow> (Inl (NotFoundException ''Promotion candidate not found''), d)
      | Some row \<Rightarrow>
          (if pc_entityVersion row \<noteq> expectedVersion then (Inl (ConflictException ''Version mismatch''), d)
           else case assertTransition (pc_status row) status of
             Inl e \<Rightarrow> (Inl e, d)
           | Inr _ \<Rightarrow>
               (let row' = row\<lparr>pc_status := status, pc_entityVersion := pc_entityVersion row + 1\<rparr>
                in (Inr (row'\<lparr>pc_updatedAt := now\<rparr>), save_cand now row' d)))))"

definition num_or_null :: "rat option \<Rightarrow> json" where
  "num_or_null v = (case v of None \<Rightarrow> JNull | Some q \<Rightarrow> JNum q)"

definition approve_candidate ::
  "promo_env \<Rightarrow> string \<Rightarrow> string \<Rightarrow> (paper_db \<Rightarrow> paper_db) \<Rightarrow> int \<Rightarrow> paper_db \<Rightarrow> (candidate, paper_db) outcome" where
  "approve_candidate e i operatorId env now d =
     (case get_cand i d of
        None \<Rightarrow> (Inl (NotFoundException ''Promotion candidate not found''), d)
      | Some before \<Rightarrow>
          (if pc_status before \<noteq> Q_queued \<and> pc_status before \<noteq> Q_under_review
           then (Inl (BadRequestException ''Cannot approve promotion candidate''), d)
           else if evaluatePromotionEligibility e (pc_driftBps before) (pc_score before) \<noteq> []
           then (Inl (BadRequestException ''Candidate not eligible for promotion''), d)
           else case patch_candidate i (pc_entityVersion before) Q_promoted now (env d) of
             (Inl x, d1) \<Rightarrow> (Inl x, d1)
           | (Inr after, d1) \<Rightarrow>
               (Inr after, paper_audit operatorId ''paper_promotion_candidate_approved'' ''PaperPromotionCandidate'' i
                  (JObj [(''instrumentKey'', JStr (pc_instrumentKey before)), (''opportunityId'', jstr_or_null (pc_opportunityId before)),
                     (''score'', num_or_null (pc_score before)), (''driftBps'', num_or_null (pc_driftBps before)),
                     (''fromState'', JStr (promo_status_text (pc_status before))),
                     (''toState'', JStr (promo_status_text (pc_status after)))]) d1)))"

definition reject_candidate ::
  "string \<Rightarrow> string \<Rightarrow> (paper_db \<Rightarrow> paper_db) \<Rightarrow> int \<Rightarrow> paper_db \<Rightarrow> (candidate, paper_db) outcome" where
  "reject_candidate i operatorId env now d =
     (case get_cand i d of
        None \<Rightarrow> (Inl (NotFoundException ''Promotion candidate not found''), d)
      | Some before \<Rightarrow>
          (if pc_status before \<noteq> Q_queued \<and> pc_status before \<noteq> Q_under_review
           then (Inl (BadRequestException ''Cannot reject promotion candidate''), d)
           else case patch_candidate i (pc_entityVersion before) Q_rejected now (env d) of
             (Inl x, d1) \<Rightarrow> (Inl x, d1)
           | (Inr after, d1) \<Rightarrow>
               (Inr after, paper_audit operatorId ''paper_promotion_candidate_rejected'' ''PaperPromotionCandidate'' i
                  (JObj [(''instrumentKey'', JStr (pc_instrumentKey before)), (''opportunityId'', jstr_or_null (pc_opportunityId before)),
                     (''fromState'', JStr (promo_status_text (pc_status before))),
                     (''toState'', JStr (promo_status_text (pc_status after)))]) d1)))"

datatype auto_outcome = auto_promoted | auto_rejected | auto_skipped

text \<open>The transaction of \<open>autoPromote\<close>: two legal transitions in one, each with its version.\<close>

definition auto_promote_tx :: "promo_env \<Rightarrow> string \<Rightarrow> int \<Rightarrow> paper_db \<Rightarrow> (candidate \<times> auto_outcome, paper_db) outcome" where
  "auto_promote_tx e i now d =
     (case get_cand i d of
        None \<Rightarrow> (Inl (NotFoundException ''Promotion candidate not found''), d)
      | Some c \<Rightarrow>
          (if pc_status c \<noteq> Q_queued then (Inr (c, auto_skipped), d)
           else case assertTransition (pc_status c) Q_under_review of
             Inl x \<Rightarrow> (Inl x, d)
           | Inr _ \<Rightarrow>
               (let c1 = c\<lparr>pc_entityVersion := pc_entityVersion c + 1, pc_status := Q_under_review\<rparr>; d1 = save_cand now c1 d;
                    target = (if evaluatePromotionEligibility e (pc_driftBps c) (pc_score c) = [] then Q_promoted else Q_rejected)
                in case assertTransition (pc_status c1) target of
                     Inl x \<Rightarrow> (Inl x, d1)
                   | Inr _ \<Rightarrow>
                       (let c2 = c1\<lparr>pc_entityVersion := pc_entityVersion c1 + 1, pc_status := target\<rparr>
                        in (Inr (c2\<lparr>pc_updatedAt := now\<rparr>, if target = Q_promoted then auto_promoted else auto_rejected),
                            save_cand now c2 d1)))))"

definition autoPromote :: "promo_env \<Rightarrow> string \<Rightarrow> string \<Rightarrow> int \<Rightarrow> paper_db \<Rightarrow> (candidate \<times> auto_outcome, paper_db) outcome" where
  "autoPromote e i actor now d =
     (case transaction (auto_promote_tx e i now) d of
        (Inl x, d1) \<Rightarrow> (Inl x, d1)
      | (Inr (row, out), d1) \<Rightarrow>
          (let payload = [(''instrumentKey'', JStr (pc_instrumentKey row)), (''opportunityId'', jstr_or_null (pc_opportunityId row)),
                 (''score'', num_or_null (pc_score row)), (''driftBps'', num_or_null (pc_driftBps row)),
                 (''toState'', JStr (promo_status_text (pc_status row)))]
           in (Inr (row, out),
               case out of
                 auto_promoted \<Rightarrow> paper_audit actor ''paper_promotion_candidate_auto_promoted'' ''PaperPromotionCandidate'' i (JObj payload) d1
               | auto_rejected \<Rightarrow> paper_audit actor ''paper_promotion_candidate_auto_rejected'' ''PaperPromotionCandidate'' i
                   (JObj (payload @ [(''reasons'', JArr (map JStr (evaluatePromotionEligibility e (pc_driftBps row) (pc_score row))))])) d1
               | auto_skipped \<Rightarrow> d1)))"

text \<open>\<open>refreshPersistedQualitySnapshots\<close>: the 500 oldest open candidates; \<open>repo.update\<close> keeps the version.\<close>

definition refreshPersistedQualitySnapshots :: "int \<Rightarrow> paper_db \<Rightarrow> nat \<times> paper_db" where
  "refreshPersistedQualitySnapshots now d =
     (let rows = take 500 (sort_key pc_updatedAt (filter (\<lambda>c. pc_status c = Q_queued \<or> pc_status c = Q_under_review) (pd_candidates d)));
          ids = map pc_id rows
      in (length rows,
          d\<lparr>pd_candidates := map (\<lambda>c. if pc_id c \<in> set ids
             then (case promotionQualityFor c of (tier, score) \<Rightarrow> c\<lparr>pc_qualityScore := Some score, pc_qualityTier := Some tier, pc_updatedAt := now\<rparr>)
             else c) (pd_candidates d)\<rparr>))"

section \<open>Who may promote\<close>

text \<open>
  The approval of an operator succeeds exactly on a candidate that is under review and passes the
  gates. The service accepts queued candidates in its first check, but the transition from
  \<open>queued\<close> to \<open>promoted\<close> is not in the list: approving a queued candidate always ends in 409.
\<close>

theorem approval_needs_review:
  "(\<exists>c' d'. approve_candidate e i operatorId id now d = (Inr c', d')) \<longleftrightarrow>
     (\<exists>c. get_cand i d = Some c \<and> pc_status c = Q_under_review
        \<and> evaluatePromotionEligibility e (pc_driftBps c) (pc_score c) = [])"
proof (cases "get_cand i d")
  case None
  then show ?thesis by (simp add: approve_candidate_def)
next
  case (Some c)
  then show ?thesis
    by (cases "pc_status c") (simp_all add: approve_candidate_def patch_candidate_def transaction_def assertTransition_def Let_def)
qed

end
