(* ===== verification/Relay_Props.thy ===== *)
theory Relay_Props
  imports Opp_Props
begin

text \<open>
  The queue of the opportunity relay: when it drains, how fast it gives up, and what blocks it.
\<close>

section \<open>What one step does to the queue\<close>

definition open_relay :: "outbox_row \<Rightarrow> bool" where
  "open_relay r \<longleftrightarrow> ob_processedAt r = None \<and> ob_deadLetterAt r = None \<and> ob_eventType r \<in> set RELAY_OUTBOX_EVENT_TYPES"

lemma fetch_head:
  assumes "fetchLockedOutboxBatch locked 1 RELAY_OUTBOX_EVENT_TYPES rows = row # rs"
  shows "rs = [] \<and> row \<in> set rows \<and> open_relay row"
proof -
  have "length (row # rs) \<le> 1" using fetch_batch_length [of locked 1 RELAY_OUTBOX_EVENT_TYPES rows] assms by simp
  moreover have "row \<in> set (fetchLockedOutboxBatch locked 1 RELAY_OUTBOX_EVENT_TYPES rows)" using assms by simp
  ultimately show ?thesis unfolding open_relay_def by (auto dest: fetch_batch_open)
qed

lemma fetch_empty:
  assumes "fetchLockedOutboxBatch {} 1 RELAY_OUTBOX_EVENT_TYPES rows = []"
  shows "\<forall>r \<in> set rows. \<not> open_relay r"
proof -
  have "sort_key ob_id (filter open_relay rows) = []"
    using assms by (simp add: fetchLockedOutboxBatch_def RELAY_OUTBOX_EVENT_TYPES_def open_relay_def [abs_def])
  then have "set (filter open_relay rows) = {}" using set_sort [of ob_id "filter open_relay rows"] by simp
  then show ?thesis by (auto simp only: set_filter)
qed

lemma update_outbox_twice:
  "(\<And>r. ob_id (g r) = ob_id r) \<Longrightarrow> update_outbox i f (update_outbox i g rows) = update_outbox i (f \<circ> g) rows"
  by (simp add: update_outbox_def)

text \<open>Every step rewrites the head row only: it closes it or counts one more attempt below the bound.\<close>

definition row_rewrite :: "jsnum \<Rightarrow> outbox_row \<Rightarrow> (outbox_row \<Rightarrow> outbox_row) \<Rightarrow> bool" where
  "row_rewrite bound row f \<longleftrightarrow> (\<forall>r. ob_id (f r) = ob_id r \<and> ob_eventType (f r) = ob_eventType r)
     \<and> (ob_processedAt (f row) \<noteq> None \<or> ob_deadLetterAt (f row) \<noteq> None
        \<or> ob_attempts (f row) = ob_attempts row + 1 \<and> \<not> js_geq (Fin (of_nat (ob_attempts row + 1))) bound)"

definition row_bound :: "relay_env \<Rightarrow> outbox_row \<Rightarrow> jsnum" where
  "row_bound e row = (if ob_eventType row = paperPromotionCandidateRequested then max_paper_attempts e else max_opportunity_attempts e)"

lemma missing_opportunity_outbox:
  "\<exists>f. od_outbox (missing_opportunity e what i row now d) = update_outbox (ob_id row) f (od_outbox d)
    \<and> row_rewrite (max_opportunity_attempts e) row f"
proof (cases "js_geq (Fin (of_nat (ob_attempts row + 1))) (max_opportunity_attempts e)")
  case True
  let ?f = "(\<lambda>r. r\<lparr>ob_deadLetterAt := Some now, ob_deadLetterReason :=
     Some (take 4000 (what @ i @ '':max_attempts='' @ jsnum_string (max_opportunity_attempts e)))\<rparr>) \<circ> (\<lambda>r. r\<lparr>ob_attempts := ob_attempts row + 1\<rparr>)"
  have "od_outbox (missing_opportunity e what i row now d) = update_outbox (ob_id row) ?f (od_outbox d)"
    using True by (simp add: missing_opportunity_def Let_def markDeadLetter_def set_attempts_def update_outbox_twice)
  moreover have "row_rewrite (max_opportunity_attempts e) row ?f" by (simp add: row_rewrite_def)
  ultimately show ?thesis by blast
next
  case False
  let ?f = "\<lambda>r. r\<lparr>ob_attempts := ob_attempts row + 1\<rparr>"
  have "od_outbox (missing_opportunity e what i row now d) = update_outbox (ob_id row) ?f (od_outbox d)"
    using False by (simp add: missing_opportunity_def Let_def set_attempts_def)
  moreover have "row_rewrite (max_opportunity_attempts e) row ?f" using False by (simp add: row_rewrite_def)
  ultimately show ?thesis by blast
qed

lemma dead_letter_outbox:
  "\<exists>f. od_outbox (markDeadLetter (ob_id row) reason now d) = update_outbox (ob_id row) f (od_outbox d) \<and> row_rewrite b row f"
  by (rule exI [of _ "\<lambda>r. r\<lparr>ob_deadLetterAt := Some now, ob_deadLetterReason := Some (take 4000 reason)\<rparr>"])
    (simp add: markDeadLetter_def row_rewrite_def)

lemma processed_outbox:
  "\<exists>f. mark_processed now (ob_id row) rows = update_outbox (ob_id row) f rows \<and> row_rewrite b row f"
  by (rule exI [of _ "\<lambda>r. r\<lparr>ob_processedAt := Some now\<rparr>"]) (simp add: mark_processed_def row_rewrite_def)

lemma dispatch_outbox:
  "dispatchLockedRow e row now d = (True, d1) \<Longrightarrow> od_outbox d1 = od_outbox d"
  "dispatchLockedRow e row now d = (False, d1) \<Longrightarrow>
     \<exists>f. od_outbox d1 = update_outbox (ob_id row) f (od_outbox d) \<and> row_rewrite (max_opportunity_attempts e) row f"
proof -
  assume "dispatchLockedRow e row now d = (True, d1)"
  then show "od_outbox d1 = od_outbox d"
    by (auto simp: dispatchLockedRow_def finishDuplicateInboxDelivery_def tryClaimInboxMessage_def Let_def split: if_splits option.splits)
next
  assume "dispatchLockedRow e row now d = (False, d1)"
  then show "\<exists>f. od_outbox d1 = update_outbox (ob_id row) f (od_outbox d) \<and> row_rewrite (max_opportunity_attempts e) row f"
    using missing_opportunity_outbox [of e _ _ row now "d\<lparr>od_inbox := releaseInboxClaim ''opportunity-service'' (ob_messageId row)
        (od_inbox d @ [(''opportunity-service'', ob_messageId row)])\<rparr>"]
      missing_opportunity_outbox [of e _ _ row now d] dead_letter_outbox [of row _ now d]
    by (auto simp: dispatchLockedRow_def finishDuplicateInboxDelivery_def tryClaimInboxMessage_def Let_def
        split: if_splits option.splits)
qed

lemma relay_lock_cases:
  assumes "relay_lock_tx e locked now d = (s, d')"
  obtains (idle) "s = R_empty" "d' = d" "fetchLockedOutboxBatch locked 1 RELAY_OUTBOX_EVENT_TYPES (od_outbox d) = []"
  | (paper) row body where "s = R_paper (ob_id row) body" "d' = d"
      "fetchLockedOutboxBatch locked 1 RELAY_OUTBOX_EVENT_TYPES (od_outbox d) = [row]"
      "ob_eventType row = paperPromotionCandidateRequested"
      "parsePaperPromotionCandidateRequestedPayload (ob_payload row) = Some body"
  | (handled) row f where "s = R_handled" "fetchLockedOutboxBatch locked 1 RELAY_OUTBOX_EVENT_TYPES (od_outbox d) = [row]"
      "od_outbox d' = update_outbox (ob_id row) f (od_outbox d)"
      "row_rewrite (row_bound e row) row f"
proof (cases "fetchLockedOutboxBatch locked 1 RELAY_OUTBOX_EVENT_TYPES (od_outbox d)")
  case Nil
  with assms idle show thesis by (simp add: relay_lock_tx_def)
next
  case (Cons row rs)
  then have rs: "rs = []" using fetch_head by blast
  show thesis
  proof (cases "ob_eventType row = paperPromotionCandidateRequested")
    case True
    show thesis
    proof (cases "parsePaperPromotionCandidateRequestedPayload (ob_payload row)")
      case None
      with assms Cons True have "s = R_handled"
        "d' = markDeadLetter (ob_id row) ''invalid_payload:PaperPromotionCandidateRequested'' now d"
        by (simp_all add: relay_lock_tx_def)
      with dead_letter_outbox Cons rs True show thesis by (metis handled)
    next
      case (Some body)
      with assms Cons True rs show thesis by (intro paper [of row body]) (simp_all add: relay_lock_tx_def)
    qed
  next
    case False
    show thesis
    proof (cases "fst (dispatchLockedRow e row now d)")
      case True
      then obtain d1 where d1: "dispatchLockedRow e row now d = (True, d1)" by (cases "dispatchLockedRow e row now d") auto
      with assms Cons False have "s = R_handled" "d' = d1\<lparr>od_outbox := mark_processed now (ob_id row) (od_outbox d1)\<rparr>"
        by (simp_all add: relay_lock_tx_def)
      then have "od_outbox d' = mark_processed now (ob_id row) (od_outbox d)" using dispatch_outbox(1) [OF d1] by simp
      with processed_outbox \<open>s = R_handled\<close> Cons rs show thesis by (metis handled)
    next
      case no: False
      then obtain d1 where d1: "dispatchLockedRow e row now d = (False, d1)" by (cases "dispatchLockedRow e row now d") auto
      with assms Cons False have "s = R_handled" "d' = d1" by (simp_all add: relay_lock_tx_def)
      with dispatch_outbox(2) [OF d1] Cons rs handled False show thesis by (auto simp: row_bound_def)
    qed
  qed
qed

lemma finalize_outbox:
  assumes "distinct (map ob_id (od_outbox d))" and "row \<in> set (od_outbox d)" and "open_relay row"
    and "\<And>rs. driver rs = JArr rs"
  shows "\<exists>f. od_outbox (finalizePaperPromotionRelayAttempt e driver (ob_id row) ok now d) = update_outbox (ob_id row) f (od_outbox d)
    \<and> row_rewrite (max_paper_attempts e) row f"
proof -
  let ?i = "ob_id row"
  have o: "is_open ?i row" using assms(3) by (simp add: is_open_def open_relay_def)
  have m: "map (\<lambda>r. if is_open ?i r then g r else r) rows = update_outbox ?i (\<lambda>r. if is_open ?i r then g r else r) rows"
    for g :: "outbox_row \<Rightarrow> outbox_row" and rows
    by (auto simp: update_outbox_def is_open_def)
  show ?thesis
  proof (cases ok)
    case True
    then show ?thesis
      by (intro exI [of _ "\<lambda>r. if is_open ?i r then r\<lparr>ob_processedAt := Some now\<rparr> else r"])
        (simp add: finalizePaperPromotionRelayAttempt_def m row_rewrite_def o)
  next
    case False
    let ?g = "\<lambda>r. if is_open ?i r then r\<lparr>ob_attempts := ob_attempts r + 1\<rparr> else r"
    let ?rows = "map ?g (od_outbox d)"
    have "filter (is_open ?i) rows = [row]" if "distinct (map ob_id rows)" "row \<in> set rows" for rows
      using that
    proof (induction rows)
      case (Cons r rs)
      show ?case
      proof (cases "r = row")
        case True
        with Cons.prems have "\<forall>x \<in> set rs. ob_id x \<noteq> ?i" by (blast dest: head_key_fresh)
        then have "filter (is_open ?i) rs = []" by (simp add: filter_empty_conv is_open_def)
        with True o show ?thesis by simp
      next
        case False
        with Cons.prems have "ob_id r \<noteq> ?i" by auto
        with False Cons show ?thesis by (simp add: is_open_def)
      qed
    qed simp
    moreover have "is_open ?i (?g r) = is_open ?i r" for r by (simp add: is_open_def)
    ultimately have "filter (is_open ?i) ?rows = [row\<lparr>ob_attempts := ob_attempts row + 1\<rparr>]"
      using assms(1,2) o by (simp add: filter_map comp_def)
    then have raw: "attempts_read (driver (map (\<lambda>r. JObj [(''attempts'', JNum (of_nat (ob_attempts r)))]) (filter (is_open ?i) ?rows)))
        = of_nat (ob_attempts row + 1)"
      by (simp add: assms(4) attempts_read_def jidx_def json_num_or_def)
    show ?thesis
    proof (cases "js_geq (Fin (of_nat (ob_attempts row + 1))) (max_paper_attempts e)")
      case True
      let ?f = "(\<lambda>r. r\<lparr>ob_deadLetterAt := Some now, ob_deadLetterReason :=
         Some (take 4000 (''paper_promotion_http_failed:max_attempts='' @ jsnum_string (max_paper_attempts e)))\<rparr>) \<circ> ?g"
      have "od_outbox (finalizePaperPromotionRelayAttempt e driver ?i ok now d) = update_outbox ?i ?f (od_outbox d)"
        using False True unfolding finalizePaperPromotionRelayAttempt_def Let_def raw
        by (simp add: markDeadLetter_def m update_outbox_twice)
      moreover have "row_rewrite (max_paper_attempts e) row ?f" by (simp add: row_rewrite_def)
      ultimately show ?thesis by blast
    next
      case below: False
      have "od_outbox (finalizePaperPromotionRelayAttempt e driver ?i ok now d) = update_outbox ?i ?g (od_outbox d)"
        using False below unfolding finalizePaperPromotionRelayAttempt_def Let_def raw by (simp add: m)
      moreover have "row_rewrite (max_paper_attempts e) row ?g" using below o by (simp add: row_rewrite_def)
      ultimately show ?thesis by blast
    qed
  qed
qed

section \<open>The queue drains\<close>

text \<open>The attempts an open row has left.\<close>

definition attempts_bound :: "jsnum \<Rightarrow> nat" where
  "attempts_bound b = (case b of Fin k \<Rightarrow> nat \<lceil>k\<rceil> | _ \<Rightarrow> 0)"

definition attempts_left :: "relay_env \<Rightarrow> outbox_row \<Rightarrow> nat" where
  "attempts_left e r = (if open_relay r then max 1 (attempts_bound (row_bound e r) - ob_attempts r) else 0)"

definition queue_weight :: "relay_env \<Rightarrow> outbox_row list \<Rightarrow> nat" where
  "queue_weight e rows = sum_list (map (attempts_left e) rows)"

lemma rewrite_decreases:
  assumes "row_rewrite (row_bound e row) row f" and "row_bound e row = Fin k" and "open_relay row"
  shows "attempts_left e (f row) < attempts_left e row"
proof (cases "open_relay (f row)")
  case False
  with assms(3) show ?thesis by (simp add: attempts_left_def)
next
  case True
  then have a: "ob_attempts (f row) = ob_attempts row + 1" "\<not> js_geq (Fin (of_nat (ob_attempts row + 1))) (Fin k)"
    using assms(1,2) by (auto simp: row_rewrite_def open_relay_def)
  have "row_bound e (f row) = Fin k" using assms(1,2) by (simp add: row_rewrite_def row_bound_def)
  moreover have "ob_attempts row + 1 < nat \<lceil>k\<rceil>"
  proof -
    have "of_nat (ob_attempts row + 1) < k" using a(2) by (simp add: js_geq_def)
    then have "int (ob_attempts row + 1) < \<lceil>k\<rceil>" by (simp add: less_ceiling_iff)
    then show ?thesis by linarith
  qed
  ultimately show ?thesis using a(1) assms(2,3) True by (simp add: attempts_left_def attempts_bound_def)
qed

lemma sum_update_outbox:
  fixes c :: "outbox_row \<Rightarrow> nat"
  assumes "distinct (map ob_id rows)" and "row \<in> set rows" and "c (f row) < c row"
  shows "sum_list (map c (update_outbox (ob_id row) f rows)) < sum_list (map c rows)"
  using assms(1,2)
proof (induction rows)
  case (Cons r rs)
  show ?case
  proof (cases "r = row")
    case True
    with Cons.prems have "\<forall>x \<in> set rs. ob_id x \<noteq> ob_id row" by (blast dest: head_key_fresh)
    then have "update_outbox (ob_id row) f rs = rs" by (auto simp: update_outbox_def intro!: map_idI)
    with True assms(3) show ?thesis by (simp add: update_outbox_def)
  next
    case False
    with Cons.prems have "ob_id r \<noteq> ob_id row" by auto
    with False Cons show ?thesis by (simp add: update_outbox_def)
  qed
qed simp

lemma update_outbox_ids: "(\<And>r. ob_id (f r) = ob_id r) \<Longrightarrow> map ob_id (update_outbox i f rows) = map ob_id rows"
  by (simp add: update_outbox_def)

lemma step_decreases:
  assumes "distinct (map ob_id (od_outbox d))" and "row \<in> set (od_outbox d)" and "open_relay row"
    and "row_rewrite (row_bound e row) row f" and "row_bound e row = Fin k"
    and "od_outbox d' = update_outbox (ob_id row) f (od_outbox d)"
  shows "queue_weight e (od_outbox d') < queue_weight e (od_outbox d) \<and> distinct (map ob_id (od_outbox d'))"
proof
  show "queue_weight e (od_outbox d') < queue_weight e (od_outbox d)"
    unfolding queue_weight_def assms(6)
    by (rule sum_update_outbox [OF assms(1,2)]) (rule rewrite_decreases [OF assms(4,5,3)])
  show "distinct (map ob_id (od_outbox d'))" using assms(1,4) by (simp add: assms(6) update_outbox_ids row_rewrite_def)
qed

lemma relay_loop_drains:
  assumes "max_opportunity_attempts e = Fin ko" and "max_paper_attempts e = Fin kp" and "\<And>rs. driver rs = JArr rs"
    and "\<And>k b w. fst (post k b w) \<noteq> None" and "distinct (map ob_id (od_outbox d))" and "queue_weight e (od_outbox d) \<le> n"
  shows "\<exists>d' w'. relay_loop e driver {} now post k n d w = (Inr (), d', w') \<and> (\<forall>r \<in> set (od_outbox d'). \<not> open_relay r)"
  using assms(5,6)
proof (induction n arbitrary: k d w)
  case 0
  then have "\<forall>r \<in> set (od_outbox d). attempts_left e r = 0" by (simp add: queue_weight_def)
  then show ?case by (auto simp: attempts_left_def split: if_splits)
next
  case (Suc n)
  have bound: "\<exists>b. row_bound e row = Fin b" for row using assms(1,2) by (simp add: row_bound_def)
  obtain s d1 where l: "relay_lock_tx e {} (now k) d = (s, d1)" by (cases "relay_lock_tx e {} (now k) d")
  then show ?case
  proof (cases rule: relay_lock_cases)
    case idle
    with l fetch_empty show ?thesis by simp
  next
    case (handled row f)
    from handled(2) have h: "row \<in> set (od_outbox d)" "open_relay row" using fetch_head by blast+
    from bound obtain b where b: "row_bound e row = Fin b" ..
    from step_decreases [OF Suc.prems(1) h handled(4) b handled(3)] Suc.prems(2)
    have "distinct (map ob_id (od_outbox d1))" "queue_weight e (od_outbox d1) \<le> n" by auto
    from Suc.IH [OF this] l handled(1) show ?thesis by simp
  next
    case (paper row body)
    from paper(3) have h: "row \<in> set (od_outbox d)" "open_relay row" using fetch_head by blast+
    have b: "row_bound e row = Fin kp" using paper(4) assms(2) by (simp add: row_bound_def)
    obtain ok w' where w': "enqueuePromotionCandidate (rv_paperUrl e) (post k) body w = (Inr ok, w')"
    proof (cases "paper_enabled (rv_paperUrl e)")
      case True
      obtain st w1 where "post k body w = (Some st, w1)" using assms(4) [of k body w] by (cases "post k body w") auto
      with True that show thesis by (simp add: enqueuePromotionCandidate_def)
    qed (simp add: that enqueuePromotionCandidate_def)
    let ?d2 = "finalizePaperPromotionRelayAttempt e driver (ob_id row) ok (now k) d"
    from finalize_outbox [OF Suc.prems(1) h, of driver] assms(3) obtain f where
      f: "od_outbox ?d2 = update_outbox (ob_id row) f (od_outbox d)" "row_rewrite (row_bound e row) row f"
      using b assms(2) by metis
    from step_decreases [OF Suc.prems(1) h f(2) b f(1)] Suc.prems(2)
    have "distinct (map ob_id (od_outbox ?d2))" "queue_weight e (od_outbox ?d2) \<le> n" by auto
    from Suc.IH [OF this, of "k + 1" w'] l paper(1,2) w' show ?thesis by simp
  qed
qed


text \<open>A paper candidate and a decision on an unknown opportunity, in a database of their own.\<close>

definition ex_paper_row :: outbox_row where
  "ex_paper_row = (mk_outbox ''m2'' paperPromotionCandidateRequested ''ArbitrageOpportunity'' ''o1'' 1
     (JObj [(''opportunityId'', JStr ''o1''), (''instrumentKey'', JStr ''ETH''), (''source'', JStr ''opportunity_hook''),
        (''enqueueIdempotencyKey'', JStr ''o1:ETH''), (''evidence'', JObj [])]) JNull 4)\<lparr>ob_id := 2\<rparr>"

definition ex_queue :: opp_db where
  "ex_queue = empty_opps\<lparr>od_outbox := [ex_decision_row, ex_paper_row]\<rparr>"

definition ex_relay_env :: relay_env where
  "ex_relay_env = \<lparr> rv_paperUrl = Some ''http://paper'', rv_maxOpportunity = Some ''2'', rv_maxPaper = Some ''3'' \<rparr>"

lemma ex_bounds: "max_opportunity_attempts ex_relay_env = Fin 2" "max_paper_attempts ex_relay_env = Fin 3"
  by code_simp+

lemma ex_rows_open:
  "ob_attempts ex_decision_row = 0" "ob_attempts ex_paper_row = 0" "open_relay ex_decision_row" "open_relay ex_paper_row"
  "ob_eventType ex_decision_row = riskDecisionIssued" "ob_eventType ex_paper_row = paperPromotionCandidateRequested"
  "ob_id ex_decision_row = 1" "ob_id ex_paper_row = 2"
  by code_simp+


section \<open>Attempts without a pause\<close>

lemma insort_key_map:
  "(\<And>x. g (f x) = g x) \<Longrightarrow> insort_key g (f x) (map f xs) = map f (insort_key g x xs)"
  by (induction xs) auto

lemma sort_key_map_same: "(\<And>x. g (f x) = g x) \<Longrightarrow> sort_key g (map f xs) = map f (sort_key g xs)"
  by (induction xs) (simp_all add: insort_key_map)

text \<open>Counting attempts does not change which row is at the head.\<close>

lemma fetch_attempts:
  assumes "\<And>r. ob_id (f r) = ob_id r \<and> ob_processedAt (f r) = ob_processedAt r
      \<and> ob_deadLetterAt (f r) = ob_deadLetterAt r \<and> ob_eventType (f r) = ob_eventType r"
  shows "fetchLockedOutboxBatch {} n ts (update_outbox i f rows)
    = map (\<lambda>r. if ob_id r = i then f r else r) (fetchLockedOutboxBatch {} n ts rows)"
proof -
  let ?g = "\<lambda>r. if ob_id r = i then f r else r"
  let ?P = "\<lambda>r. ob_processedAt r = None \<and> ob_deadLetterAt r = None \<and> ob_eventType r \<in> set ts"
  have "?P \<circ> ?g = ?P" using assms by (auto simp: fun_eq_iff)
  then have "filter ?P (map ?g rows) = map ?g (filter ?P rows)" by (simp add: filter_map)
  moreover have "sort_key ob_id (map ?g xs) = map ?g (sort_key ob_id xs)" for xs
    by (rule sort_key_map_same) (simp add: assms)
  ultimately show ?thesis by (simp add: fetchLockedOutboxBatch_def update_outbox_def take_map)
qed

lemma closed_stays:
  assumes "r \<in> set rows" and "\<not> open_relay r" and "open_relay row" and "row \<in> set rows" and "distinct (map ob_id rows)"
  shows "r \<in> set (update_outbox (ob_id row) f rows)"
proof -
  have "ob_id r \<noteq> ob_id row" using assms by (metis eq_key_imp_eq_value distinct_get_row option.inject)
  with assms(1) show ?thesis by (force simp: update_outbox_def)
qed

lemma relay_loop_keeps_closed:
  assumes "\<And>rs. driver rs = JArr rs" and "distinct (map ob_id (od_outbox d))" and "r \<in> set (od_outbox d)" and "\<not> open_relay r"
  shows "r \<in> set (od_outbox (fst (snd (relay_loop e driver {} now post k n d w))))"
  using assms(2,3)
proof (induction n arbitrary: k d w)
  case (Suc n)
  obtain s d1 where l: "relay_lock_tx e {} (now k) d = (s, d1)" by (cases "relay_lock_tx e {} (now k) d")
  have keep: "r \<in> set (od_outbox d2) \<and> distinct (map ob_id (od_outbox d2))"
    if "row \<in> set (od_outbox d)" "open_relay row" "od_outbox d2 = update_outbox (ob_id row) f (od_outbox d)" "row_rewrite b row f"
    for row f b d2
    using that closed_stays [OF Suc.prems(2) assms(4) that(2,1) Suc.prems(1)] Suc.prems(1)
    by (simp add: update_outbox_ids row_rewrite_def)
  from l show ?case
  proof (cases rule: relay_lock_cases)
    case idle
    with l Suc.prems show ?thesis by simp
  next
    case (handled row f)
    from handled(2) have h: "row \<in> set (od_outbox d)" "open_relay row" using fetch_head by blast+
    from keep [OF h handled(3,4)] Suc.IH l handled(1) show ?thesis by simp
  next
    case (paper row body)
    from paper(3) have h: "row \<in> set (od_outbox d)" "open_relay row" using fetch_head by blast+
    have "r \<in> set (od_outbox d2) \<and> distinct (map ob_id (od_outbox d2))"
      if "d2 = finalizePaperPromotionRelayAttempt e driver (ob_id row) ok (now k) d" for ok d2
      using finalize_outbox [OF Suc.prems(1) h assms(1)] keep [OF h] that by metis
    with Suc.IH Suc.prems l paper(1,2) show ?thesis by (auto split: prod.splits sum.splits)
  qed
qed (use assms in simp)

text \<open>One look at a decision whose opportunity is missing.\<close>

lemma relay_lock_missing:
  assumes "fetchLockedOutboxBatch locked 1 RELAY_OUTBOX_EVENT_TYPES (od_outbox d) = [row]"
    and "ob_eventType row = riskDecisionIssued" and "parseRiskDecisionIssuedPayload (ob_payload row) = Some (k, i)"
    and "(''opportunity-service'', ob_messageId row) \<notin> set (od_inbox d)" and "get_opp i d = None"
  shows "relay_lock_tx e locked now d =
    (R_handled, missing_opportunity e ''opportunity_not_found:planReference='' i row now d)"
proof -
  have "riskDecisionIssued \<noteq> paperPromotionCandidateRequested" by code_simp
  moreover have "filter (\<lambda>x. x \<noteq> (''opportunity-service'', ob_messageId row)) (od_inbox d) = od_inbox d"
    using assms(4) by (auto simp: filter_id_conv)
  ultimately show ?thesis using assms
    by (simp add: relay_lock_tx_def dispatchLockedRow_def tryClaimInboxMessage_def releaseInboxClaim_def Let_def)
qed

lemma missing_loop_dies:
  assumes "parseRiskDecisionIssuedPayload p = Some (k, i)" and "max_opportunity_attempts e = Fin b" and "\<And>rs. driver rs = JArr rs"
    and "distinct (map ob_id (od_outbox d))" and "fetchLockedOutboxBatch {} 1 RELAY_OUTBOX_EVENT_TYPES (od_outbox d) = [row]"
    and "ob_eventType row = riskDecisionIssued" and "ob_payload row = p"
    and "(''opportunity-service'', ob_messageId row) \<notin> set (od_inbox d)" and "get_opp i d = None"
    and "b \<le> of_nat (ob_attempts row + n)" and "0 < n"
  shows "\<exists>r. r \<in> set (od_outbox (fst (snd (relay_loop e driver {} now post t n d w)))) \<and> ob_id r = ob_id row
    \<and> ob_deadLetterAt r \<noteq> None \<and> ob_processedAt r = None"
  using assms(4-11)
proof (induction n arbitrary: t d w row)
  case 0
  then show ?case by simp
next
  case (Suc n)
  let ?d1 = "missing_opportunity e ''opportunity_not_found:planReference='' i row (now t) d"
  have "parseRiskDecisionIssuedPayload (ob_payload row) = Some (k, i)" using assms(1) Suc.prems(4) by simp
  from relay_lock_missing [OF Suc.prems(2,3) this Suc.prems(5,6)]
  have l: "relay_lock_tx e {} (now t) d = (R_handled, ?d1)" .
  from Suc.prems(2) have h: "row \<in> set (od_outbox d)" "open_relay row" using fetch_head by blast+
  show ?case
  proof (cases "js_geq (Fin (of_nat (ob_attempts row + 1))) (Fin b)")
    case True
    let ?f = "(\<lambda>r. r\<lparr>ob_deadLetterAt := Some (now t), ob_deadLetterReason := Some (take 4000
        (''opportunity_not_found:planReference='' @ i @ '':max_attempts='' @ jsnum_string (Fin b)))\<rparr>) \<circ> (\<lambda>r. r\<lparr>ob_attempts := ob_attempts row + 1\<rparr>)"
    have o1: "od_outbox ?d1 = update_outbox (ob_id row) ?f (od_outbox d)"
      using True assms(2) by (simp add: missing_opportunity_def Let_def markDeadLetter_def set_attempts_def update_outbox_twice)
    have "distinct (map ob_id (od_outbox ?d1))" using Suc.prems(1) by (simp add: o1 update_outbox_ids)
    moreover have mem: "?f row \<in> set (od_outbox ?d1)" using h(1) by (force simp: o1 update_outbox_def)
    moreover have "\<not> open_relay (?f row)" by (simp add: open_relay_def)
    ultimately have "?f row \<in> set (od_outbox (fst (snd (relay_loop e driver {} now post (t + 1) n ?d1 w))))"
      by (rule relay_loop_keeps_closed [OF assms(3)])
    moreover have "ob_id (?f row) = ob_id row \<and> ob_deadLetterAt (?f row) \<noteq> None \<and> ob_processedAt (?f row) = None"
      using h(2) by (simp add: open_relay_def)
    moreover have "relay_loop e driver {} now post t (Suc n) d w = relay_loop e driver {} now post (t + 1) n ?d1 w"
      using l by simp
    ultimately show ?thesis by (intro exI [of _ "?f row"]) (simp only: simp_thms)
  next
    case False
    let ?row = "row\<lparr>ob_attempts := ob_attempts row + 1\<rparr>"
    have o1: "od_outbox ?d1 = update_outbox (ob_id row) (\<lambda>r. r\<lparr>ob_attempts := ob_attempts row + 1\<rparr>) (od_outbox d)"
      and i1: "od_inbox ?d1 = od_inbox d" and g1: "get_opp i ?d1 = None"
      using False assms(2) Suc.prems(6) by (simp_all add: missing_opportunity_def Let_def set_attempts_def get_opp_def)
    have "fetchLockedOutboxBatch {} 1 RELAY_OUTBOX_EVENT_TYPES (od_outbox ?d1) = [?row]"
      unfolding o1 by (subst fetch_attempts) (simp_all only: Suc.prems(2), simp_all)
    moreover have "b \<le> of_nat (ob_attempts ?row + n)" using Suc.prems(7) by simp
    moreover have "0 < n"
    proof (rule ccontr)
      assume "\<not> 0 < n"
      with Suc.prems(7) False show False by (simp add: js_geq_def)
    qed
    moreover have "distinct (map ob_id (od_outbox ?d1))" using Suc.prems(1) by (simp add: o1 update_outbox_ids)
    ultimately have "\<exists>r. r \<in> set (od_outbox (fst (snd (relay_loop e driver {} now post (t + 1) n ?d1 w)))) \<and> ob_id r = ob_id ?row
        \<and> ob_deadLetterAt r \<noteq> None \<and> ob_processedAt r = None"
      using Suc.prems(3-5) i1 g1 by (intro Suc.IH) simp_all
    then show ?thesis using l by simp
  qed
qed

text \<open>
  The attempts on a missing opportunity are spent without a pause. The batch takes one row at a
  time and the row just left open is again the oldest one, so when the batch may take as many rows
  as there are attempts (both default to 25), a single tick turns the decision on an opportunity that
  is not visible yet into a dead letter, never to be processed.
\<close>

theorem retries_spent_in_one_tick:
  assumes "fetchLockedOutboxBatch {} 1 RELAY_OUTBOX_EVENT_TYPES (od_outbox d) = [row]"
    and "ob_eventType row = riskDecisionIssued" and "parseRiskDecisionIssuedPayload (ob_payload row) = Some (k, i)"
    and "(''opportunity-service'', ob_messageId row) \<notin> set (od_inbox d)" and "get_opp i d = None"
    and "max_opportunity_attempts e = Fin b" and "b \<le> of_nat (ob_attempts row + maxRows)" and "0 < maxRows"
    and "\<And>rs. driver rs = JArr rs" and "distinct (map ob_id (od_outbox d))"
  shows "\<exists>r. r \<in> set (od_outbox (fst (snd (processBatchInner e driver {} now post maxRows d w)))) \<and> ob_id r = ob_id row
    \<and> ob_deadLetterAt r \<noteq> None \<and> ob_processedAt r = None"
  unfolding processBatchInner_def
  by (rule missing_loop_dies [OF assms(3,6,9,10,1,2) refl assms(4,5,7,8)])

definition default_relay_env :: relay_env where
  "default_relay_env = \<lparr> rv_paperUrl = None, rv_maxOpportunity = None, rv_maxPaper = None \<rparr>"

theorem retries_spent_in_one_tick_witness:
  "\<exists>r. r \<in> set (od_outbox (fst (snd (processBatchInner default_relay_env JArr {} (\<lambda>_. 9) (\<lambda>_ _ n. (None, n)) 25
      (empty_opps\<lparr>od_outbox := [ex_decision_row]\<rparr>) (0 :: nat))))) \<and> ob_id r = 1 \<and> ob_deadLetterAt r \<noteq> None"
proof -
  let ?d = "empty_opps\<lparr>od_outbox := [ex_decision_row]\<rparr>"
  have f: "fetchLockedOutboxBatch {} 1 RELAY_OUTBOX_EVENT_TYPES (od_outbox ?d) = [ex_decision_row]"
    by (simp add: fetchLockedOutboxBatch_def RELAY_OUTBOX_EVENT_TYPES_def ex_decision_row_def mk_outbox_def)
  have p: "parseRiskDecisionIssuedPayload (ob_payload ex_decision_row) = Some (''k1'', ''o1'')" by code_simp
  have c: "(''opportunity-service'', ob_messageId ex_decision_row) \<notin> set (od_inbox ?d)" by code_simp
  have g: "get_opp ''o1'' ?d = None" by code_simp
  have b: "max_opportunity_attempts default_relay_env = Fin 25" by code_simp
  have "distinct (map ob_id (od_outbox ?d))" by simp
  with retries_spent_in_one_tick [OF f ex_rows_open(5) p c g b, of 25 JArr "\<lambda>_. 9" "\<lambda>_ _ n. (None, n)" 0]
  show ?thesis by (auto simp: ex_rows_open)
qed

section \<open>What blocks the queue\<close>

text \<open>
  An unreachable paper service blocks the relay. \<open>fetch\<close> rejects, nothing catches it before the
  batch ends, no attempt is counted and the row stays the oldest one: with a paper candidate at
  the head of the queue no tick changes anything, so decisions of the risk service that were
  issued after it never reach their opportunities.
\<close>

theorem paper_outage_blocks_relay:
  assumes "fetchLockedOutboxBatch {} 1 RELAY_OUTBOX_EVENT_TYPES (od_outbox d) = [row]"
    and "ob_eventType row = paperPromotionCandidateRequested"
    and "parsePaperPromotionCandidateRequestedPayload (ob_payload row) = Some body"
    and "paper_enabled (rv_paperUrl e)" and "\<And>t k b w. fst (post t k b w) = None"
  shows "fst (ticks e driver now post maxRows t m (d, w)) = d"
proof (induction m arbitrary: t w)
  case (Suc m)
  have "fst (snd (processBatchInner e driver {} (now t) (post t) maxRows d w)) = d"
  proof (cases maxRows)
    case (Suc n)
    obtain w' where "post t 0 body w = (None, w')" using assms(5) [of t 0 body w] by (cases "post t 0 body w") auto
    with Suc assms(1-4) show ?thesis by (simp add: processBatchInner_def relay_lock_tx_def enqueuePromotionCandidate_def)
  qed (simp add: processBatchInner_def)
  with Suc.IH show ?case by (metis fst_conv snd_conv surj_pair ticks.simps(2))
qed simp

definition ex_blocked :: opp_db where
  "ex_blocked = empty_opps\<lparr>od_outbox := [ex_paper_row, ex_decision_row\<lparr>ob_id := 3\<rparr>]\<rparr>"

lemma ex_blocked_head: "fetchLockedOutboxBatch {} 1 RELAY_OUTBOX_EVENT_TYPES (od_outbox ex_blocked) = [ex_paper_row]"
  by (simp add: fetchLockedOutboxBatch_def RELAY_OUTBOX_EVENT_TYPES_def ex_blocked_def ex_decision_row_def ex_paper_row_def mk_outbox_def)

lemma ex_blocked_body: "parsePaperPromotionCandidateRequestedPayload (ob_payload ex_paper_row)
    = Some (the (parsePaperPromotionCandidateRequestedPayload (ob_payload ex_paper_row)))"
  by code_simp

theorem paper_outage_blocks_relay_witness:
  "fst (ticks ex_relay_env JArr (\<lambda>_ _. 9) (\<lambda>_ _ _ n. (None, n)) 25 0 1000 (ex_blocked, 0 :: nat)) = ex_blocked"
proof (rule paper_outage_blocks_relay [OF ex_blocked_head ex_rows_open(6) ex_blocked_body])
  show "paper_enabled (rv_paperUrl ex_relay_env)" by code_simp
qed simp

text \<open>One refusal on such a driver.\<close>

lemma refused_finalize:
  assumes "max_paper_attempts e = Fin b" and "0 < b" and "\<And>rs. driver rs = JArr [JArr rs, JNum (of_nat (length rs))]"
    and "distinct (map ob_id (od_outbox d))" and "row \<in> set (od_outbox d)" and "open_relay row"
  shows "finalizePaperPromotionRelayAttempt e driver (ob_id row) False now d
    = d\<lparr>od_outbox := update_outbox (ob_id row) (\<lambda>r. r\<lparr>ob_attempts := ob_attempts r + 1\<rparr>) (od_outbox d)\<rparr>"
proof -
  have same: "is_open (ob_id row) r = (ob_id r = ob_id row)" if "r \<in> set (od_outbox d)" for r
  proof
    assume "ob_id r = ob_id row"
    then have "r = row" using that assms(4,5) by (metis distinct_get_row option.inject)
    with assms(6) show "is_open (ob_id row) r" by (simp add: is_open_def open_relay_def)
  qed (simp add: is_open_def)
  have rows: "map (\<lambda>r. if is_open (ob_id row) r then r\<lparr>ob_attempts := ob_attempts r + 1\<rparr> else r) (od_outbox d)
      = update_outbox (ob_id row) (\<lambda>r. r\<lparr>ob_attempts := ob_attempts r + 1\<rparr>) (od_outbox d)"
    unfolding update_outbox_def by (rule map_cong) (auto simp: same)
  have "attempts_read (driver rs) = 0" for rs by (simp add: assms(3) attempts_read_def jidx_def json_num_or_def)
  then show ?thesis using assms(1,2) by (simp add: finalizePaperPromotionRelayAttempt_def Let_def rows js_geq_def)
qed

lemma refused_loop:
  assumes "max_paper_attempts e = Fin b" and "0 < b" and "\<And>rs. driver rs = JArr [JArr rs, JNum (of_nat (length rs))]"
    and "\<And>k b w. \<exists>st w'. post k b w = (Some st, w') \<and> \<not> http_ok st" and "distinct (map ob_id (od_outbox d))"
    and "fetchLockedOutboxBatch {} 1 RELAY_OUTBOX_EVENT_TYPES (od_outbox d) = [row]"
    and "ob_eventType row = paperPromotionCandidateRequested" and "ob_payload row = p"
    and "parsePaperPromotionCandidateRequestedPayload p = Some body"
  shows "\<exists>w'. relay_loop e driver {} now post k n d w =
    (Inr (), d\<lparr>od_outbox := update_outbox (ob_id row) (\<lambda>r. r\<lparr>ob_attempts := ob_attempts r + n\<rparr>) (od_outbox d)\<rparr>, w')"
  using assms(5-8)
proof (induction n arbitrary: k d w row)
  case 0
  have "update_outbox (ob_id row) (\<lambda>r. r\<lparr>ob_attempts := ob_attempts r + 0\<rparr>) (od_outbox d) = od_outbox d"
    by (simp add: update_outbox_def)
  then show ?case by simp
next
  case (Suc n)
  let ?rows = "update_outbox (ob_id row) (\<lambda>r. r\<lparr>ob_attempts := ob_attempts r + 1\<rparr>) (od_outbox d)"
  let ?d1 = "d\<lparr>od_outbox := ?rows\<rparr>" and ?row = "row\<lparr>ob_attempts := ob_attempts row + 1\<rparr>"
  from Suc.prems(2) have h: "row \<in> set (od_outbox d)" "open_relay row" using fetch_head by blast+
  obtain w1 where post: "enqueuePromotionCandidate (rv_paperUrl e) (post k) body w = (Inr False, w1)"
  proof (cases "paper_enabled (rv_paperUrl e)")
    case True
    obtain st w1 where "post k body w = (Some st, w1)" "\<not> http_ok st" using assms(4) by blast
    with True that show thesis by (simp add: enqueuePromotionCandidate_def)
  qed (simp add: that enqueuePromotionCandidate_def)
  have step: "relay_loop e driver {} now post k (Suc n) d w = relay_loop e driver {} now post (k + 1) n ?d1 w1"
    using Suc.prems(2-4) assms(9) post refused_finalize [OF assms(1-3) Suc.prems(1) h]
    by (simp add: relay_lock_tx_def)
  have "fetchLockedOutboxBatch {} 1 RELAY_OUTBOX_EVENT_TYPES (od_outbox ?d1) = [?row]"
    by (simp, subst fetch_attempts) (simp_all add: Suc.prems(2) [simplified])
  moreover have "distinct (map ob_id (od_outbox ?d1))" using Suc.prems(1) by (simp add: update_outbox_ids)
  ultimately have "\<exists>w'. relay_loop e driver {} now post (k + 1) n ?d1 w1 = (Inr (), ?d1\<lparr>od_outbox :=
      update_outbox (ob_id ?row) (\<lambda>r. r\<lparr>ob_attempts := ob_attempts r + n\<rparr>) (od_outbox ?d1)\<rparr>, w')"
    using Suc.prems(3,4) by (intro Suc.IH) simp_all
  moreover have "update_outbox (ob_id row) (\<lambda>r. r\<lparr>ob_attempts := ob_attempts r + n\<rparr>) ?rows
      = update_outbox (ob_id row) (\<lambda>r. r\<lparr>ob_attempts := ob_attempts r + Suc n\<rparr>) (od_outbox d)"
    by (simp add: update_outbox_def)
  ultimately show ?case unfolding step by simp
qed

text \<open>
  Refusals of the paper service are never dead letters on a driver that answers an
  \<open>UPDATE ... RETURNING\<close> with the pair of the rows and their number, as the Postgres driver of the
  ORM does. The code reads \<open>raw[0]?.attempts\<close>, finds the list of the rows there and takes 0: the
  counter in the database grows with every iteration, the bound is never reached, and the rows
  behind are never looked at.
\<close>

theorem paper_refusals_never_dead_letter:
  assumes "fetchLockedOutboxBatch {} 1 RELAY_OUTBOX_EVENT_TYPES (od_outbox d) = [row]"
    and "ob_eventType row = paperPromotionCandidateRequested"
    and "parsePaperPromotionCandidateRequestedPayload (ob_payload row) = Some body"
    and "max_paper_attempts e = Fin b" and "0 < b"
    and "\<And>rs. driver rs = JArr [JArr rs, JNum (of_nat (length rs))]"
    and "\<And>k b w. \<exists>st w'. post k b w = (Some st, w') \<and> \<not> http_ok st"
    and "distinct (map ob_id (od_outbox d))"
  shows "\<exists>w'. processBatchInner e driver {} now post n d w =
    (Inr (), d\<lparr>od_outbox := update_outbox (ob_id row) (\<lambda>r. r\<lparr>ob_attempts := ob_attempts r + n\<rparr>) (od_outbox d)\<rparr>, w')"
  unfolding processBatchInner_def by (rule refused_loop [OF assms(4-8,1,2) refl assms(3)])

theorem paper_refusals_never_dead_letter_witness:
  "\<exists>w'. processBatchInner ex_relay_env (\<lambda>rs. JArr [JArr rs, JNum (of_nat (length rs))]) {} (\<lambda>_. 9) (\<lambda>_ _ n. (Some 500, Suc n)) 1000
      ex_blocked (0 :: nat)
    = (Inr (), ex_blocked\<lparr>od_outbox := update_outbox 2 (\<lambda>r. r\<lparr>ob_attempts := ob_attempts r + 1000\<rparr>) (od_outbox ex_blocked)\<rparr>, w')"
proof -
  have "\<exists>b. max_paper_attempts ex_relay_env = Fin b \<and> 0 < b" by (simp add: ex_bounds)
  moreover have "\<not> http_ok 500" by (simp add: http_ok_def)
  moreover have "distinct (map ob_id (od_outbox ex_blocked))" by (simp add: ex_blocked_def ex_rows_open)
  ultimately show ?thesis
    using paper_refusals_never_dead_letter [OF ex_blocked_head ex_rows_open(6) ex_blocked_body, of ex_relay_env _
        "\<lambda>rs. JArr [JArr rs, JNum (of_nat (length rs))]" "\<lambda>_ _ n. (Some 500, Suc n)" "\<lambda>_. 9" 1000 0]
    by (auto simp: ex_rows_open)
qed

end
