(* ===== verification/Promotion_Delivery.thy ===== *)
theory Promotion_Delivery
  imports Promotion Relay_Props
begin

text \<open>
  From the opportunity service to the paper trading service: the relay posts a candidate at least
  once, the paper service creates it at most once.
\<close>

section \<open>The route of a candidate\<close>

text \<open>The body that \<open>PaperClientService\<close> sends.\<close>

definition promotion_dto :: "paper_body \<Rightarrow> create_candidate_dto" where
  "promotion_dto b =
     \<lparr> cc_instrumentKey = pb_instrumentKey b, cc_opportunityId = Some (pb_opportunityId b), cc_source = Some (pb_source b),
       cc_score = pb_score b, cc_driftBps = pb_driftBps b, cc_evidence = Some (pb_evidence b),
       cc_enqueueIdempotencyKey = Some (pb_enqueueIdempotencyKey b), cc_netProfitUsd = pb_netProfitUsd b,
       cc_spreadBps = pb_spreadBps b, cc_buyVenue = pb_buyVenue b, cc_sellVenue = pb_sellVenue b \<rparr>"

definition opt_ok :: "('a \<Rightarrow> bool) \<Rightarrow> 'a option \<Rightarrow> bool" where
  "opt_ok P v = (case v of None \<Rightarrow> True | Some x \<Rightarrow> P x)"

definition valid_candidate :: "create_candidate_dto \<Rightarrow> bool" where
  "valid_candidate q \<longleftrightarrow> 1 \<le> length (cc_instrumentKey q) \<and> length (cc_instrumentKey q) \<le> 512
     \<and> opt_ok is_uuid4 (cc_opportunityId q) \<and> opt_ok (\<lambda>s. length s \<le> 128) (cc_source q)
     \<and> opt_ok (\<lambda>k. 8 \<le> length k \<and> length k \<le> 512) (cc_enqueueIdempotencyKey q)
     \<and> opt_ok (\<lambda>s. length s \<le> 128) (cc_buyVenue q) \<and> opt_ok (\<lambda>s. length s \<le> 128) (cc_sellVenue q)"

text \<open>\<open>POST /paper/promotion-candidates\<close>: the status of the answer.\<close>

definition promotion_route :: "paper_body \<Rightarrow> string \<Rightarrow> int \<Rightarrow> paper_db \<Rightarrow> int \<times> paper_db" where
  "promotion_route b newId now d =
     (if \<not> valid_candidate (promotion_dto b) then (400, d)
      else case create_candidate (promotion_dto b) newId id now d of (Inl _, d') \<Rightarrow> (500, d') | (Inr _, d') \<Rightarrow> (201, d'))"

text \<open>What may happen to one POST: lost on its way, answered, or its answer lost; a gateway may refuse it.\<close>

datatype delivery = D_lost | D_answered | D_answer_lost | D_refused int

definition deliver_post :: "delivery \<Rightarrow> string \<Rightarrow> int \<Rightarrow> paper_body \<Rightarrow> paper_db \<Rightarrow> int option \<times> paper_db" where
  "deliver_post how newId now b w =
     (case how of
        D_lost \<Rightarrow> (None, w)
      | D_answered \<Rightarrow> (case promotion_route b newId now w of (st, w') \<Rightarrow> (Some st, w'))
      | D_answer_lost \<Rightarrow> (None, snd (promotion_route b newId now w))
      | D_refused st \<Rightarrow> (Some st, w))"

section \<open>Keys\<close>

definition with_key :: "string \<Rightarrow> paper_db \<Rightarrow> candidate list" where
  "with_key k d = filter (\<lambda>c. pc_enqueueIdempotencyKey c = Some k) (pd_candidates d)"

lemma cand_by_key_None: "cand_by_key k d = None \<longleftrightarrow> with_key k d = []"
  by (auto simp: cand_by_key_def with_key_def find_None_iff filter_empty_conv)

lemma new_candidate_simps [simp]:
  "pc_id (new_candidate q i now) = i" "pc_enqueueIdempotencyKey (new_candidate q i now) = idem_key q"
  "pc_status (new_candidate q i now) = Q_queued"
  by (simp_all add: new_candidate_def Let_def)

lemma route_cases:
  assumes "promotion_route b i now d = (st, d')"
  obtains (invalid) "\<not> valid_candidate (promotion_dto b)" "st = 400" "d' = d"
  | (existing) k where "idem_key (promotion_dto b) = Some k" "with_key k d \<noteq> []" "st = 201" "d' = d"
  | (created) "st = 201" "d' = save_cand now (new_candidate (promotion_dto b) i now) d"
      "\<And>k. idem_key (promotion_dto b) = Some k \<Longrightarrow> with_key k d = []"
proof (cases "valid_candidate (promotion_dto b)")
  case False
  with assms invalid show thesis by (simp add: promotion_route_def)
next
  case True
  let ?e = "Option.bind (idem_key (promotion_dto b)) (\<lambda>k. cand_by_key k d)"
  show thesis
  proof (cases ?e)
    case None
    have "with_key k d = []" if "idem_key (promotion_dto b) = Some k" for k
      using None that cand_by_key_None [of k d] by simp
    moreover have "(st, d') = (201, save_cand now (new_candidate (promotion_dto b) i now) d)"
      using assms True None unfolding promotion_route_def create_candidate_def by (simp add: Let_def)
    ultimately show thesis using created by blast
  next
    case (Some x)
    then obtain k where k: "idem_key (promotion_dto b) = Some k" "cand_by_key k d = Some x" by (auto simp: bind_eq_Some_conv)
    then have "with_key k d \<noteq> []" using cand_by_key_None [of k d] by auto
    moreover have "(st, d') = (201, d)"
      using assms True Some unfolding promotion_route_def create_candidate_def by simp
    ultimately show thesis using k existing by blast
  qed
qed

text \<open>Every key has at most one candidate; a key that has one keeps it. New ids are fresh.\<close>

definition keys_unique :: "paper_db \<Rightarrow> bool" where
  "keys_unique d \<longleftrightarrow> (\<forall>k. length (with_key k d) \<le> 1)"

lemma route_keys:
  assumes "promotion_route b i now d = (st, d')" and "get_cand i d = None"
  shows "(keys_unique d \<longrightarrow> keys_unique d') \<and> (\<forall>k. with_key k d \<noteq> [] \<longrightarrow> with_key k d' \<noteq> [])
    \<and> (\<forall>k. idem_key (promotion_dto b) = Some k \<and> http_ok st \<longrightarrow> with_key k d' \<noteq> [])"
  using assms(1)
proof (cases rule: route_cases)
  case invalid
  then show ?thesis by (simp add: http_ok_def)
next
  case (existing k)
  then show ?thesis by auto
next
  case created
  let ?c = "(new_candidate (promotion_dto b) i now)\<lparr>pc_updatedAt := now\<rparr>"
  have d': "pd_candidates d' = pd_candidates d @ [?c]"
    using created(2) assms(2) by (simp add: save_cand_def save_row_new get_cand_def)
  then have "with_key k d' = with_key k d @ (if idem_key (promotion_dto b) = Some k then [?c] else [])" for k
    by (simp add: with_key_def)
  with created(3) show ?thesis by (auto simp: keys_unique_def)
qed

section \<open>The relay and the route together\<close>

text \<open>Where a paper row of the outbox comes from: nothing but a 2xx answer marks one processed.\<close>

definition same_paper :: "outbox_row \<Rightarrow> outbox_row \<Rightarrow> bool" where
  "same_paper r r' \<longleftrightarrow> ob_id r' = ob_id r \<and> ob_payload r' = ob_payload r \<and> ob_eventType r' = ob_eventType r
     \<and> ob_processedAt r' = ob_processedAt r"

lemma same_paper_refl [simp]: "same_paper r r"
  by (simp add: same_paper_def)

lemma relay_lock_papers:
  assumes l: "relay_lock_tx e {} now d = (s, d')" and dis: "distinct (map ob_id (od_outbox d))"
    and r': "r' \<in> set (od_outbox d')" "ob_eventType r' = paperPromotionCandidateRequested"
  shows "\<exists>r \<in> set (od_outbox d). same_paper r r'"
  using l
proof (cases rule: relay_lock_cases)
  case idle
  with r' show ?thesis by (auto intro: bexI [of _ r'])
next
  case (paper row body)
  with r' show ?thesis by (auto intro: bexI [of _ r'])
next
  case (handled row f)
  from handled(2) have row: "row \<in> set (od_outbox d)" using fetch_head by blast
  show ?thesis
  proof (cases "ob_eventType row = paperPromotionCandidateRequested")
    case True
    have "d' = markDeadLetter (ob_id row) ''invalid_payload:PaperPromotionCandidateRequested'' now d"
      using l handled(1,2) True by (auto simp: relay_lock_tx_def split: option.splits)
    with r' obtain r where "r \<in> set (od_outbox d)" "same_paper r r'"
      by (auto simp: markDeadLetter_def update_outbox_def same_paper_def split: if_splits)
    then show ?thesis ..
  next
    case False
    from r'(1) obtain r where r: "r \<in> set (od_outbox d)" "r' = (if ob_id r = ob_id row then f r else r)"
      by (auto simp: handled(3) update_outbox_def)
    have "ob_id r \<noteq> ob_id row"
    proof
      assume id: "ob_id r = ob_id row"
      then have "r = row" using dis r(1) row by (metis distinct_get_row option.inject)
      with r(2) r'(2) handled(4) False show False by (simp add: row_rewrite_def)
    qed
    with r show ?thesis by (auto intro: bexI [of _ r])
  qed
qed

lemma finalize_papers:
  assumes "r' \<in> set (od_outbox (finalizePaperPromotionRelayAttempt e driver i ok now d))"
  shows "\<exists>r \<in> set (od_outbox d). same_paper r r'
    \<or> ok \<and> is_open i r \<and> ob_payload r' = ob_payload r \<and> ob_id r' = ob_id r \<and> ob_eventType r' = ob_eventType r"
proof (cases ok)
  case True
  with assms obtain r where r: "r \<in> set (od_outbox d)" "r' = (if is_open i r then r\<lparr>ob_processedAt := Some now\<rparr> else r)"
    by (auto simp: finalizePaperPromotionRelayAttempt_def)
  show ?thesis by (rule bexI [OF _ r(1)]) (use r(2) True in \<open>simp add: same_paper_def\<close>)
next
  case False
  let ?g = "\<lambda>r. if is_open i r then r\<lparr>ob_attempts := ob_attempts r + 1\<rparr> else r"
  have "\<exists>f. (\<forall>r. same_paper r (f r)) \<and> r' \<in> f ` set (od_outbox d)"
  proof (cases "od_outbox (finalizePaperPromotionRelayAttempt e driver i ok now d) = map ?g (od_outbox d)")
    case True
    with assms show ?thesis by (intro exI [of _ ?g]) (auto simp: same_paper_def)
  next
    case no: False
    let ?h = "\<lambda>r. if ob_id r = i then r\<lparr>ob_deadLetterAt := Some now, ob_deadLetterReason :=
       Some (take 4000 (''paper_promotion_http_failed:max_attempts='' @ jsnum_string (max_paper_attempts e)))\<rparr> else r"
    have "od_outbox (finalizePaperPromotionRelayAttempt e driver i ok now d) = map (?h \<circ> ?g) (od_outbox d)"
      using False no by (simp add: finalizePaperPromotionRelayAttempt_def Let_def markDeadLetter_def update_outbox_def split: if_splits)
    with assms show ?thesis by (intro exI [of _ "?h \<circ> ?g"]) (auto simp: same_paper_def)
  qed
  then show ?thesis by auto
qed

text \<open>
  \<open>delivered D d w\<close>: every paper row processed so far, but for those with an id in \<open>D\<close>, has its
  candidate in the paper service.
\<close>

definition key_of :: "paper_body \<Rightarrow> string" where
  "key_of b = js_trim (pb_enqueueIdempotencyKey b)"

definition delivered :: "nat set \<Rightarrow> opp_db \<Rightarrow> paper_db \<Rightarrow> bool" where
  "delivered D d w \<longleftrightarrow> (\<forall>r \<in> set (od_outbox d). ob_eventType r = paperPromotionCandidateRequested \<and> ob_processedAt r \<noteq> None
     \<and> ob_id r \<notin> D \<longrightarrow> (\<exists>b. parsePaperPromotionCandidateRequestedPayload (ob_payload r) = Some b
        \<and> (key_of b \<noteq> [] \<longrightarrow> with_key (key_of b) w \<noteq> [])))"

lemma idem_key_promotion: "idem_key (promotion_dto b) = (if key_of b = [] then None else Some (key_of b))"
  by (simp add: idem_key_def promotion_dto_def key_of_def)

text \<open>The transport: a gateway in between never invents a success.\<close>

fun honest :: "delivery \<Rightarrow> bool" where
  "honest (D_refused st) = (\<not> http_ok st)"
| "honest _ = True"

lemma deliver_post_keys:
  assumes "deliver_post how (gen w) now b w = (res, w')" and "\<And>w. get_cand (gen w) w = None" and "honest how"
  shows "(keys_unique w \<longrightarrow> keys_unique w') \<and> (\<forall>k. with_key k w \<noteq> [] \<longrightarrow> with_key k w' \<noteq> [])
    \<and> (\<forall>st. res = Some st \<and> http_ok st \<and> key_of b \<noteq> [] \<longrightarrow> with_key (key_of b) w' \<noteq> [])"
proof -
  obtain st d where rt: "promotion_route b (gen w) now w = (st, d)" by (cases "promotion_route b (gen w) now w")
  from route_keys [OF rt assms(2)] assms(1,3) rt show ?thesis
    by (cases how) (auto simp: deliver_post_def idem_key_promotion)
qed

lemma delivered_mono:
  assumes "delivered D d w" and "\<And>k. with_key k w \<noteq> [] \<Longrightarrow> with_key k w' \<noteq> []"
    and "\<And>r'. r' \<in> set (od_outbox d') \<Longrightarrow> ob_eventType r' = paperPromotionCandidateRequested \<Longrightarrow> \<exists>r \<in> set (od_outbox d). same_paper r r'"
  shows "delivered D d' w'"
  unfolding delivered_def
proof (intro ballI impI, elim conjE)
  fix r' assume r': "r' \<in> set (od_outbox d')" "ob_eventType r' = paperPromotionCandidateRequested" "ob_processedAt r' \<noteq> None" "ob_id r' \<notin> D"
  from assms(3) [OF r'(1,2)] obtain r where "r \<in> set (od_outbox d)" "same_paper r r'" ..
  then show "\<exists>b. parsePaperPromotionCandidateRequestedPayload (ob_payload r') = Some b \<and> (key_of b \<noteq> [] \<longrightarrow> with_key (key_of b) w' \<noteq> [])"
    using assms(1,2) r' by (fastforce simp: delivered_def same_paper_def)
qed

lemma relay_loop_delivers:
  assumes gen: "\<And>w. get_cand (gen w) w = None" and hon: "\<And>k. honest (how k)"
  shows "distinct (map ob_id (od_outbox d)) \<Longrightarrow> delivered D d w \<Longrightarrow> keys_unique w \<Longrightarrow>
    (case relay_loop e driver {} now (\<lambda>k b w. deliver_post (how k) (gen w) (clk k) b w) k n d w of (_, d', w') \<Rightarrow>
      distinct (map ob_id (od_outbox d')) \<and> delivered D d' w' \<and> keys_unique w')"
proof (induction n arbitrary: k d w)
  case (Suc n)
  let ?post = "\<lambda>k b w. deliver_post (how k) (gen w) (clk k) b w"
  obtain s d1 where l: "relay_lock_tx e {} (now k) d = (s, d1)" by (cases "relay_lock_tx e {} (now k) d")
  from l show ?case
  proof (cases rule: relay_lock_cases)
    case idle
    with l Suc.prems show ?thesis by simp
  next
    case (handled row f)
    have "delivered D d1 w"
      using Suc.prems(2) by (rule delivered_mono) (use relay_lock_papers [OF l Suc.prems(1)] in auto)
    moreover have "distinct (map ob_id (od_outbox d1))"
      using Suc.prems(1) handled(3,4) by (simp add: update_outbox_ids row_rewrite_def)
    ultimately show ?thesis using Suc.IH [of d1 w "k + 1"] Suc.prems(3) l handled(1) by simp
  next
    case (paper row body)
    obtain out w1 where q: "enqueuePromotionCandidate (rv_paperUrl e) (?post k) body w = (out, w1)"
      by (cases "enqueuePromotionCandidate (rv_paperUrl e) (?post k) body w")
    have w1: "keys_unique w1 \<and> (\<forall>k. with_key k w \<noteq> [] \<longrightarrow> with_key k w1 \<noteq> [])
        \<and> (out = Inr True \<and> key_of body \<noteq> [] \<longrightarrow> with_key (key_of body) w1 \<noteq> [])"
    proof (cases "paper_enabled (rv_paperUrl e)")
      case True
      obtain res w2 where p: "deliver_post (how k) (gen w) (clk k) body w = (res, w2)"
        by (cases "deliver_post (how k) (gen w) (clk k) body w")
      from deliver_post_keys [OF p gen hon] q p True Suc.prems(3) show ?thesis
        by (cases res) (auto simp: enqueuePromotionCandidate_def)
    qed (use q Suc.prems(3) in \<open>auto simp: enqueuePromotionCandidate_def\<close>)
    show ?thesis
    proof (cases out)
      case (Inl x)
      have "delivered D d w1"
        using Suc.prems(2)
      proof (rule delivered_mono)
        show "\<exists>r \<in> set (od_outbox d). same_paper r r'" if "r' \<in> set (od_outbox d)" for r'
          using that same_paper_refl by blast
      qed (use w1 in blast)
      with Inl q l paper(1,2) w1 Suc.prems(1) show ?thesis by simp
    next
      case (Inr ok)
      let ?d2 = "finalizePaperPromotionRelayAttempt e driver (ob_id row) ok (now k) d"
      have row: "row \<in> set (od_outbox d)" using paper(3) fetch_head by blast
      have same: "r = row" if "r \<in> set (od_outbox d)" "ob_id r = ob_id row" for r
        using that row Suc.prems(1) by (metis distinct_get_row option.inject)
      have ids: "map ob_id (od_outbox ?d2) = map ob_id (od_outbox d)"
        by (auto simp: finalizePaperPromotionRelayAttempt_def Let_def markDeadLetter_def update_outbox_def is_open_def)
      have "delivered D ?d2 w1"
        unfolding delivered_def
      proof (intro ballI impI, elim conjE)
        fix r' assume r': "r' \<in> set (od_outbox ?d2)" "ob_eventType r' = paperPromotionCandidateRequested"
          "ob_processedAt r' \<noteq> None" "ob_id r' \<notin> D"
        from finalize_papers [OF r'(1)] obtain r where r: "r \<in> set (od_outbox d)"
          "same_paper r r' \<or> ok \<and> is_open (ob_id row) r \<and> ob_payload r' = ob_payload r" by blast
        show "\<exists>b. parsePaperPromotionCandidateRequestedPayload (ob_payload r') = Some b \<and> (key_of b \<noteq> [] \<longrightarrow> with_key (key_of b) w1 \<noteq> [])"
        proof (cases "same_paper r r'")
          case True
          then have eq: "ob_payload r = ob_payload r'" and "ob_eventType r = paperPromotionCandidateRequested"
            "ob_processedAt r \<noteq> None" "ob_id r \<notin> D" using r' by (auto simp: same_paper_def)
          with Suc.prems(2) r(1) obtain b where "parsePaperPromotionCandidateRequestedPayload (ob_payload r) = Some b"
            "key_of b \<noteq> [] \<longrightarrow> with_key (key_of b) w \<noteq> []" unfolding delivered_def by blast
          with w1 eq show ?thesis by auto
        next
          case False
          with r(2) have "ok" "is_open (ob_id row) r" "ob_payload r' = ob_payload r" by blast+
          with same r(1) have "ob_payload r' = ob_payload row" "ok" by (auto simp: is_open_def)
          with paper(5) w1 Inr show ?thesis by simp
        qed
      qed
      moreover have "distinct (map ob_id (od_outbox ?d2))" using Suc.prems(1) ids by simp
      ultimately show ?thesis using Suc.IH [of ?d2 w1 "k + 1"] Inr q l paper(1,2) w1 by simp
    qed
  qed
qed simp

lemma ticks_deliver:
  assumes gen: "\<And>w. get_cand (gen w) w = None" and hon: "\<And>t k. honest (how t k)"
    and "distinct (map ob_id (od_outbox (fst s)))" and "delivered D (fst s) (snd s)" and "keys_unique (snd s)"
  shows "case ticks e driver now (\<lambda>t k b w. deliver_post (how t k) (gen w) (clk t k) b w) maxRows t m s of (d', w') \<Rightarrow>
    delivered D d' w' \<and> keys_unique w'"
  using assms(3-5)
proof (induction m arbitrary: t s)
  case (Suc m)
  let ?post = "\<lambda>k b w. deliver_post (how t k) (gen w) (clk t k) b w"
  let ?s = "snd (processBatchInner e driver {} (now t) ?post maxRows (fst s) (snd s))"
  have "distinct (map ob_id (od_outbox (fst ?s))) \<and> delivered D (fst ?s) (snd ?s) \<and> keys_unique (snd ?s)"
    using relay_loop_delivers [of gen "how t", OF gen hon Suc.prems, of e driver "now t" "clk t" 0 maxRows]
    by (auto simp: processBatchInner_def split: prod.splits)
  with Suc.IH [of ?s "t + 1"] show ?case by simp
qed (auto split: prod.splits)

text \<open>
  C29: a paper candidate is delivered exactly once. The transport may lose requests and answers and
  the relay may repeat a POST in any number of ticks; still every enqueue key has at most one
  candidate in the paper service, and a row that has been marked processed has exactly one.
\<close>

theorem candidate_delivered_once:
  assumes "\<And>w. get_cand (gen w) w = None" and "\<And>t k. honest (how t k)"
    and "distinct (map ob_id (od_outbox d))" and "keys_unique w"
    and "ticks e driver now (\<lambda>t k b w. deliver_post (how t k) (gen w) (clk t k) b w) maxRows 0 m (d, w) = (d', w')"
    and "r \<in> set (od_outbox d')" and "ob_eventType r = paperPromotionCandidateRequested" and "ob_processedAt r \<noteq> None"
    and "\<forall>r0 \<in> set (od_outbox d). ob_id r0 = ob_id r \<longrightarrow> ob_processedAt r0 = None"
  shows "keys_unique w' \<and> (\<exists>b. parsePaperPromotionCandidateRequestedPayload (ob_payload r) = Some b
    \<and> (key_of b \<noteq> [] \<longrightarrow> length (with_key (key_of b) w') = 1))"
proof -
  let ?D = "{ob_id r0 | r0. r0 \<in> set (od_outbox d) \<and> ob_processedAt r0 \<noteq> None}"
  have "delivered ?D d w" by (auto simp: delivered_def)
  with ticks_deliver [of gen how "(d, w)" ?D e driver now clk maxRows 0 m] assms(1-5)
  have del: "delivered ?D d' w'" and u: "keys_unique w'" by auto
  have "ob_id r \<notin> ?D" using assms(9) by auto
  with del assms(6-8) obtain b where b: "parsePaperPromotionCandidateRequestedPayload (ob_payload r) = Some b"
    "key_of b \<noteq> [] \<longrightarrow> with_key (key_of b) w' \<noteq> []" by (auto simp: delivered_def)
  have "length (with_key (key_of b) w') = 1" if "key_of b \<noteq> []"
  proof -
    have "with_key (key_of b) w' \<noteq> []" using b(2) that by blast
    moreover have "length (with_key (key_of b) w') \<le> 1" using u by (simp add: keys_unique_def)
    ultimately show ?thesis by (simp add: le_Suc_eq)
  qed
  with b u show ?thesis by blast
qed

text \<open>A generator of ids for the example: longer than every id in use.\<close>

definition long_id :: "paper_db \<Rightarrow> string" where
  "long_id w = replicate (Suc (sum_list (map (\<lambda>c. length (pc_id c)) (pd_candidates w)))) (CHR ''a'')"

lemma long_id_fresh: "get_cand (long_id w) w = None"
proof (rule ccontr)
  assume "get_cand (long_id w) w \<noteq> None"
  then obtain c where c: "c \<in> set (pd_candidates w)" "pc_id c = long_id w"
    unfolding get_cand_def by (auto dest: get_row_in_set get_row_key)
  have "length (pc_id c) \<le> sum_list (map (\<lambda>c. length (pc_id c)) (pd_candidates w))"
    using c(1) by (intro member_le_sum_list) auto
  with c(2) show False by (simp add: long_id_def)
qed

text \<open>A valid candidate in the queue; the first POST is lost, the answer of the second too.\<close>

definition ex_uuid_o :: string where "ex_uuid_o = ''11111111-1111-4111-8111-111111111111''"

definition ex_post_row :: outbox_row where
  "ex_post_row = (mk_outbox ''m2'' paperPromotionCandidateRequested ''ArbitrageOpportunity'' ex_uuid_o 1
     (JObj [(''opportunityId'', JStr ex_uuid_o), (''instrumentKey'', JStr ''ETH''), (''source'', JStr ''opportunity_hook''),
        (''enqueueIdempotencyKey'', JStr (ex_uuid_o @ '':ETH'')), (''evidence'', JObj [])]) JNull 4)\<lparr>ob_id := 1\<rparr>"

fun ex_how :: "nat \<Rightarrow> nat \<Rightarrow> delivery" where
  "ex_how t k = (if t = 0 then D_lost else if t = 1 then D_answer_lost else D_answered)"

definition ex_delivery :: "opp_db \<times> paper_db" where
  "ex_delivery = ticks ex_relay_env JArr (\<lambda>_ _. 9) (\<lambda>t k b w. deliver_post (ex_how t k) (long_id w) 9 b w) 25 0 3
     (\<lparr> od_opps = [], od_outbox = [ex_post_row], od_inbox = [] \<rparr>, \<lparr> pd_trades = [], pd_reservations = [], pd_candidates = [], pd_audit = [] \<rparr>)"

lemma ex_delivery_row:
  "map (\<lambda>r. (ob_eventType r = paperPromotionCandidateRequested, ob_processedAt r,
      map_option key_of (parsePaperPromotionCandidateRequestedPayload (ob_payload r)))) (od_outbox (fst ex_delivery))
    = [(True, Some 9, Some (ex_uuid_o @ '':ETH''))]"
  by code_simp

theorem candidate_delivered_once_witness:
  "length (with_key (ex_uuid_o @ '':ETH'') (snd ex_delivery)) = 1"
proof -
  obtain d' w' where s: "ex_delivery = (d', w')" by (cases ex_delivery)
  obtain r where d': "od_outbox d' = [r]" and r: "ob_eventType r = paperPromotionCandidateRequested" "ob_processedAt r \<noteq> None"
    "map_option key_of (parsePaperPromotionCandidateRequestedPayload (ob_payload r)) = Some (ex_uuid_o @ '':ETH'')"
    using ex_delivery_row unfolding s fst_conv map_eq_Cons_conv by auto
  have h: "honest (ex_how t k)" for t k by simp
  have k: "keys_unique \<lparr> pd_trades = [], pd_reservations = [], pd_candidates = [], pd_audit = [] \<rparr>"
    by (simp add: keys_unique_def with_key_def)
  have o: "\<forall>r0 \<in> set (od_outbox \<lparr> od_opps = [], od_outbox = [ex_post_row], od_inbox = [] \<rparr>). ob_id r0 = ob_id r \<longrightarrow> ob_processedAt r0 = None"
    by (simp add: ex_post_row_def)
  have m: "r \<in> set (od_outbox d')" by (simp add: d')
  from candidate_delivered_once [of long_id ex_how, OF long_id_fresh h _ k s [unfolded ex_delivery_def] m r(1,2) o] r(3)
  show ?thesis by (auto simp: s ex_uuid_o_def)
qed

end
