(* ===== verification/Paper_Props.thy ===== *)
theory Paper_Props
  imports Paper
begin

text \<open>
  Paper trades and the virtual capital behind them: what holds in every run of the operations that
  keep the two together, and what the generic patch does to it.
\<close>

section \<open>Steps\<close>

text \<open>
  The operations that keep trade and reservation together. An instrument is never rewritten, so the
  instrument that \<open>approve\<close> read before its transaction is the instrument of the locked row.
\<close>

inductive paper_step :: "paper_db \<Rightarrow> paper_db \<Rightarrow> bool" where
  ps_create: "create_trade dto i id now d = (out, d') \<Longrightarrow> get_trade i d = None \<Longrightarrow> paper_step d d'"
| ps_activate: "transaction (transitionToActive i ver before rid now) d = (out, d') \<Longrightarrow> get_pres rid d = None \<Longrightarrow>
     (\<And>row. get_trade i d = Some row \<Longrightarrow> td_instrumentKey row = td_instrumentKey before) \<Longrightarrow> paper_step d d'"
| ps_reject: "patch_trade i \<lparr> pt_expectedVersion = ver, pt_notional = None, pt_state = Some T_canceled \<rparr> now d = (out, d') \<Longrightarrow>
     (\<And>row. get_trade i d = Some row \<Longrightarrow> td_state row \<noteq> T_active) \<Longrightarrow> paper_step d d'"
| ps_cancel: "transaction (cancel_tx i ver now) d = (out, d') \<Longrightarrow> paper_step d d'"
| ps_settle: "transaction (settle_tx i sdto now) d = (out, d') \<Longrightarrow> paper_step d d'"

text \<open>
  What else writes the tables: \<open>PATCH /paper/trades/:id\<close>, and the worker's saves of drafts it has
  read before, which overwrite the state whatever it is by then.
\<close>

inductive paper_any_step :: "paper_db \<Rightarrow> paper_db \<Rightarrow> bool" where
  pa_step: "paper_step d d' \<Longrightarrow> paper_any_step d d'"
| pa_patch: "patch_trade i pdto now d = (out, d') \<Longrightarrow> paper_any_step d d'"
| pa_overwrite: "get_trade i d = Some t \<Longrightarrow>
     d' = save_trade now (t\<lparr>td_state := T_canceled, td_entityVersion := v\<rparr>) d \<Longrightarrow> paper_any_step d d'"

section \<open>Facts of the operations\<close>

lemma locked_tradeD:
  assumes "locked_trade i ver to_st d = Inr row"
  shows "get_trade i d = Some row \<and> td_entityVersion row = ver \<and> to_st \<in> set (TRADE_STATE_ALLOWED (td_state row))"
  using assms by (auto simp: locked_trade_def assertTradeStateTransition_def split: option.splits if_splits)

lemma getActiveReservationD:
  assumes "getActiveReservation i d = Some r"
  shows "r \<in> set (pd_reservations d) \<and> pr_tradeId r = Some i \<and> pr_state r = R_active"
proof -
  let ?s = "sort_key pr_createdAt (filter (\<lambda>r. pr_tradeId r = Some i \<and> pr_state r = R_active) (pd_reservations d))"
  from assms obtain rs where "rev ?s = r # rs" by (auto simp: getActiveReservation_def split: list.splits)
  then have "r \<in> set (rev ?s)" by (simp only: list.set_intros)
  then show ?thesis by simp
qed

lemma getActiveReservation_None:
  assumes "getActiveReservation i d = None" and "r \<in> set (pd_reservations d)" and "pr_tradeId r = Some i"
  shows "pr_state r \<noteq> R_active"
proof
  assume a: "pr_state r = R_active"
  let ?s = "sort_key pr_createdAt (filter (\<lambda>r. pr_tradeId r = Some i \<and> pr_state r = R_active) (pd_reservations d))"
  from assms(1) have "rev ?s = []" by (auto simp: getActiveReservation_def split: list.splits)
  then have "set ?s = {}" by simp
  with a assms(2,3) show False by auto
qed

lemma expire_of_trade_frame [simp]:
  "pd_trades (expire_of_trade i now d) = pd_trades d" "get_trade k (expire_of_trade i now d) = get_trade k d"
  by (auto simp: expire_of_trade_def expireReservation_def Let_def get_trade_def split: option.splits)

text \<open>What expiring the reservation of a trade does to the reservations, ids being unique.\<close>

lemma expire_of_trade_reservations:
  assumes "distinct (map pr_id (pd_reservations d))"
  obtains (none) "expire_of_trade i now d = d" "\<forall>r \<in> set (pd_reservations d). pr_tradeId r = Some i \<longrightarrow> pr_state r \<noteq> R_active"
  | (one) r where "r \<in> set (pd_reservations d)" "pr_tradeId r = Some i" "pr_state r = R_active"
      "expire_of_trade i now d = save_pres now (r\<lparr>pr_state := R_expired, pr_entityVersion := pr_entityVersion r + 1\<rparr>) d"
proof (cases "getActiveReservation i d")
  case None
  with getActiveReservation_None [OF None] none show thesis by (auto simp: expire_of_trade_def)
next
  case (Some r)
  then have r: "r \<in> set (pd_reservations d)" "pr_tradeId r = Some i" "pr_state r = R_active"
    by (auto dest: getActiveReservationD)
  then have "get_pres (pr_id r) d = Some r" using assms unfolding get_pres_def by (intro distinct_get_row)
  with Some r one show thesis by (simp add: expire_of_trade_def expireReservation_def Let_def)
qed

lemma patch_trade_cases:
  assumes "patch_trade i pdto now d = (out, d')"
  obtains (refused) e where "out = Inl e" "d' = d"
  | (patched) row st n where "get_trade i d = Some row" "td_entityVersion row = pt_expectedVersion pdto"
      "st = td_state row \<or> st \<in> set (TRADE_STATE_ALLOWED (td_state row))" "pt_state pdto \<noteq> None \<longrightarrow> pt_state pdto = Some st"
      "pt_state pdto = None \<longrightarrow> st = td_state row"
      "d' = save_trade now (row\<lparr>td_state := st, td_notional := n, td_entityVersion := td_entityVersion row + 1\<rparr>) d"
      "out = Inr (row\<lparr>td_state := st, td_notional := n, td_entityVersion := td_entityVersion row + 1, td_updatedAt := now\<rparr>)"
proof (cases out)
  case (Inl e)
  with assms refused show thesis by (auto simp: patch_trade_def dest: transaction_Inl)
next
  case (Inr v)
  with assms obtain row where row: "get_trade i d = Some row" by (auto simp: patch_trade_def split: option.splits)
  let ?st = "case pt_state pdto of None \<Rightarrow> td_state row | Some s \<Rightarrow> s"
  let ?n = "case pt_notional pdto of None \<Rightarrow> td_notional row | Some n \<Rightarrow> n"
  have "?st = td_state row \<or> ?st \<in> set (TRADE_STATE_ALLOWED (td_state row))" "td_entityVersion row = pt_expectedVersion pdto"
    "d' = save_trade now (row\<lparr>td_state := ?st, td_notional := ?n, td_entityVersion := td_entityVersion row + 1\<rparr>) d"
    "out = Inr (row\<lparr>td_state := ?st, td_notional := ?n, td_entityVersion := td_entityVersion row + 1, td_updatedAt := now\<rparr>)"
    using assms Inr row
    by (auto simp: patch_trade_def assertTradeStateTransition_def Let_def split: if_splits option.splits)
  with row show thesis by (intro patched [of row ?st ?n]) auto
qed

lemma activate_cases:
  assumes "transaction (transitionToActive i ver before rid now) d = (out, d')"
  obtains (refused) e where "out = Inl e" "d' = d"
  | (activated) row r where "get_trade i d = Some row" "td_state row = T_draft" "\<not> active_instrument (td_instrumentKey before) d"
      "r = \<lparr> pr_id = rid, pr_instrumentKey = td_instrumentKey before, pr_notional = td_notional before, pr_state = R_active,
             pr_expiresAt = now + 3600000, pr_tradeId = Some i, pr_entityVersion = 1, pr_createdAt = now, pr_updatedAt = now \<rparr>"
      "d' = save_trade now (row\<lparr>td_state := T_active, td_entityVersion := td_entityVersion row + 1\<rparr>) (save_pres now r d)"
proof (cases out)
  case (Inl e)
  with assms refused show thesis by (auto dest: transaction_Inl)
next
  case (Inr v)
  with assms obtain row where l: "locked_trade i ver T_active d = Inr row"
    by (auto simp: transitionToActive_def split: sum.splits)
  then have g: "get_trade i d = Some row" "T_active \<in> set (TRADE_STATE_ALLOWED (td_state row))" by (auto dest: locked_tradeD)
  from g(2) have st: "td_state row = T_draft" by (cases "td_state row") auto
  have na: "\<not> active_instrument (td_instrumentKey before) d"
    using assms Inr l by (auto simp: transitionToActive_def reserveCapital_def Let_def split: if_splits)
  show thesis
    by (rule activated [OF g(1) st na refl]) (use assms Inr l in \<open>auto simp: transitionToActive_def reserveCapital_def Let_def split: if_splits\<close>)
qed

lemma cancel_cases:
  assumes "transaction (cancel_tx i ver now) d = (out, d')"
  obtains (refused) e where "out = Inl e" "d' = d"
  | (ended) row where "get_trade i d = Some row" "td_state row = T_draft \<or> td_state row = T_active"
      "d' = save_trade now (row\<lparr>td_state := T_canceled, td_entityVersion := td_entityVersion row + 1\<rparr>) (expire_of_trade i now d)"
proof (cases out)
  case (Inl e)
  with assms refused show thesis by (auto dest: transaction_Inl)
next
  case (Inr v)
  with assms obtain row where l: "locked_trade i ver T_canceled d = Inr row"
    by (auto simp: cancel_tx_def split: sum.splits)
  then have "get_trade i d = Some row" "T_canceled \<in> set (TRADE_STATE_ALLOWED (td_state row))" by (auto dest: locked_tradeD)
  moreover from this(2) have "td_state row = T_draft \<or> td_state row = T_active" by (cases "td_state row") auto
  ultimately show thesis using assms Inr l by (auto simp: cancel_tx_def Let_def intro: ended)
qed

lemma settle_cases:
  assumes "transaction (settle_tx i dto now) d = (out, d')"
  obtains (refused) e where "out = Inl e" "d' = d"
  | (ended) row row' where "get_trade i d = Some row" "td_state row = T_active" "td_id row' = td_id row"
      "td_instrumentKey row' = td_instrumentKey row" "td_state row' = T_settled" "td_entityVersion row' = td_entityVersion row + 1"
      "td_profitUsd row' = Some (sd_profitUsd dto)" "d' = save_trade now row' (expire_of_trade i now d)"
proof (cases out)
  case (Inl e)
  with assms refused show thesis by (auto dest: transaction_Inl)
next
  case (Inr v)
  with assms obtain row where l: "locked_trade i (sd_expectedVersion dto) T_settled d = Inr row"
    by (auto simp: settle_tx_def split: sum.splits)
  then have g: "get_trade i d = Some row" "T_settled \<in> set (TRADE_STATE_ALLOWED (td_state row))" by (auto dest: locked_tradeD)
  from g(2) have "td_state row = T_active" by (cases "td_state row") auto
  let ?row' = "row\<lparr>td_state := T_settled, td_entryPrice := Some (sd_entryPrice dto), td_exitPrice := Some (sd_exitPrice dto),
     td_profitUsd := Some (sd_profitUsd dto), td_settledAt := Some now,
     td_summary := (case sd_spreadBps dto of None \<Rightarrow> td_summary row | Some q \<Rightarrow> js_spread (td_summary row) [(''spreadBps'', JNum q)]),
     td_entityVersion := td_entityVersion row + 1\<rparr>"
  show thesis
    by (rule ended [of row ?row']) (use assms Inr l g(1) \<open>td_state row = T_active\<close> in \<open>simp_all add: settle_tx_def Let_def\<close>)
qed

section \<open>Trades and reservations go together\<close>

text \<open>
  Ids are unique; every active reservation belongs to an active trade on its instrument, every active
  trade has one, and active reservations differ in trade and instrument.
\<close>

definition res_backed :: "paper_db \<Rightarrow> paper_reservation \<Rightarrow> bool" where
  "res_backed d r \<longleftrightarrow> (\<exists>i t. pr_tradeId r = Some i \<and> get_trade i d = Some t \<and> td_state t = T_active
     \<and> td_instrumentKey t = pr_instrumentKey r)"

definition active_res :: "paper_db \<Rightarrow> paper_reservation list" where
  "active_res d = filter (\<lambda>r. pr_state r = R_active) (pd_reservations d)"

definition paper_inv :: "paper_db \<Rightarrow> bool" where
  "paper_inv d \<longleftrightarrow> distinct (map pr_id (pd_reservations d))
     \<and> (\<forall>r \<in> set (active_res d). res_backed d r)
     \<and> (\<forall>i t. get_trade i d = Some t \<and> td_state t = T_active \<longrightarrow> (\<exists>r \<in> set (active_res d). pr_tradeId r = Some i))
     \<and> distinct (map pr_instrumentKey (active_res d)) \<and> distinct (map pr_tradeId (active_res d))"

lemma active_res_frame [simp]: "active_res (save_trade now t d) = active_res d"
  by (simp add: active_res_def)

lemma res_backed_save:
  assumes "res_backed d r" and "\<And>t. get_trade (td_id x) d = Some t \<Longrightarrow> td_state t \<noteq> T_active"
  shows "res_backed (save_trade now x d) r"
proof -
  from assms(1) obtain i t where it: "pr_tradeId r = Some i" "get_trade i d = Some t" "td_state t = T_active"
    "td_instrumentKey t = pr_instrumentKey r" by (auto simp: res_backed_def)
  with assms(2) have "i \<noteq> td_id x" by blast
  with it show ?thesis unfolding res_backed_def by (intro exI [of _ i] exI [of _ t]) (simp add: get_save_trade)
qed

lemma active_res_expire:
  assumes "distinct (map pr_id (pd_reservations d))" and "r \<in> set (pd_reservations d)" and "pr_state r' \<noteq> R_active" and "pr_id r' = pr_id r"
  shows "active_res (save_pres now r' d) = filter (\<lambda>x. pr_id x \<noteq> pr_id r) (active_res d)"
proof -
  have g: "get_row pr_id (pr_id r) (pd_reservations d) = Some r" using assms(1,2) by (rule distinct_get_row)
  have f: "filter (\<lambda>x. pr_state x = R_active) (map (\<lambda>y. if pr_id y = pr_id r then z else y) rs)
      = filter (\<lambda>x. pr_id x \<noteq> pr_id r) (filter (\<lambda>x. pr_state x = R_active) rs)" if "pr_state z \<noteq> R_active" for z rs
    using that by (induction rs) auto
  show ?thesis using g assms(3,4) save_row_existing [of pr_id "r'\<lparr>pr_updatedAt := now\<rparr>" "pd_reservations d" r]
    by (simp add: active_res_def save_pres_def f)
qed

lemma active_res_reserve:
  assumes "get_pres (pr_id r) d = None" and "pr_state r = R_active"
  shows "active_res (save_pres now r d) = active_res d @ [r\<lparr>pr_updatedAt := now\<rparr>]"
  using assms save_row_new [of pr_id "r\<lparr>pr_updatedAt := now\<rparr>" "pd_reservations d"]
  by (simp add: active_res_def save_pres_def get_pres_def)

lemma distinct_save_pres: "distinct (map pr_id (pd_reservations d)) \<Longrightarrow> distinct (map pr_id (pd_reservations (save_pres now r d)))"
  by (simp add: save_pres_def)

text \<open>A trade that ends takes its reservation with it.\<close>

lemma paper_inv_end:
  assumes inv: "paper_inv d" and row: "get_trade i d = Some row" and t: "td_id row' = i" "td_state row' \<noteq> T_active"
  shows "paper_inv (save_trade now row' (expire_of_trade i now d))"
proof -
  have dis: "distinct (map pr_id (pd_reservations d))" using inv by (simp add: paper_inv_def)
  define A where "A = active_res (expire_of_trade i now d)"
  have A: "A = filter (\<lambda>r. pr_tradeId r \<noteq> Some i) (active_res d)" and disA: "distinct (map pr_id (pd_reservations (expire_of_trade i now d)))"
  proof -
    from dis have "A = filter (\<lambda>r. pr_tradeId r \<noteq> Some i) (active_res d) \<and> distinct (map pr_id (pd_reservations (expire_of_trade i now d)))"
    proof (cases rule: expire_of_trade_reservations [of d i now])
      case none
      then have "filter (\<lambda>r. pr_tradeId r \<noteq> Some i) (active_res d) = active_res d"
        unfolding active_res_def filter_filter by (intro filter_cong) auto
      with none dis show ?thesis by (simp add: A_def)
    next
      case (one r)
      have "pr_id x \<noteq> pr_id r \<longleftrightarrow> pr_tradeId x \<noteq> Some i" if "x \<in> set (active_res d)" for x
      proof -
        have m: "distinct (map pr_tradeId (active_res d))" using inv by (simp add: paper_inv_def)
        have r: "r \<in> set (active_res d)" using one by (simp add: active_res_def)
        have "x = r" if "pr_tradeId x = Some i"
          using m r \<open>x \<in> set (active_res d)\<close> that one(2) by (metis inj_onD distinct_map)
        moreover have "x = r" if "pr_id x = pr_id r"
          using dis one(1) \<open>x \<in> set (active_res d)\<close> that by (metis (mono_tags, lifting) active_res_def distinct_map filter_is_subset inj_onD subset_iff)
        ultimately show ?thesis using one(2) by auto
      qed
      then have "filter (\<lambda>x. pr_id x \<noteq> pr_id r) (active_res d) = filter (\<lambda>x. pr_tradeId x \<noteq> Some i) (active_res d)"
        by (rule filter_cong [OF refl])
      with one active_res_expire [OF dis one(1), of "r\<lparr>pr_state := R_expired, pr_entityVersion := pr_entityVersion r + 1\<rparr>" now]
        distinct_save_pres [OF dis]
      show ?thesis by (simp add: A_def)
    qed
    then show "A = filter (\<lambda>r. pr_tradeId r \<noteq> Some i) (active_res d)"
      "distinct (map pr_id (pd_reservations (expire_of_trade i now d)))" by blast+
  qed
  have "res_backed (save_trade now row' (expire_of_trade i now d)) r" if "r \<in> set A" for r
  proof -
    have "r \<in> set (active_res d)" "pr_tradeId r \<noteq> Some i" using that by (simp_all add: A)
    then have "res_backed d r" using inv by (simp add: paper_inv_def)
    with \<open>pr_tradeId r \<noteq> Some i\<close> t(1) show ?thesis by (auto simp: res_backed_def get_save_trade)
  qed
  moreover have "\<exists>r \<in> set A. pr_tradeId r = Some k"
    if "get_trade k (save_trade now row' (expire_of_trade i now d)) = Some z" "td_state z = T_active" for k z
  proof -
    have k: "k \<noteq> i \<and> get_trade k d = Some z" using that t by (auto simp: get_save_trade split: if_splits)
    then obtain r where "r \<in> set (active_res d)" "pr_tradeId r = Some k"
      using inv \<open>td_state z = T_active\<close> by (auto simp: paper_inv_def)
    with k show ?thesis by (auto simp: A)
  qed
  moreover have "distinct (map pr_instrumentKey A)" "distinct (map pr_tradeId A)"
    using inv by (auto simp: A paper_inv_def distinct_map_filter)
  ultimately show ?thesis using disA by (simp add: paper_inv_def A_def [symmetric])
qed

lemma paper_step_inv:
  assumes "paper_step d d'" and inv: "paper_inv d"
  shows "paper_inv d'"
  using assms(1)
proof cases
  case (ps_create dto i now out)
  have "d' = d \<or> d' = save_trade now (new_trade dto i now) d"
    using ps_create(1) by (auto simp: create_trade_def Let_def split: option.splits)
  then have "d' = d \<or> (\<exists>t. td_id t = i \<and> td_state t = T_draft \<and> d' = save_trade now t d)"
    by (metis new_trade_simps(1,2))
  then show ?thesis
  proof
    assume "\<exists>t. td_id t = i \<and> td_state t = T_draft \<and> d' = save_trade now t d"
    then obtain t where t: "td_id t = i" "td_state t = T_draft" "d' = save_trade now t d" by blast
    have "res_backed d' r" if "r \<in> set (active_res d)" for r
      using that inv ps_create(2) t by (auto simp: paper_inv_def intro: res_backed_save)
    with inv t show ?thesis by (auto simp: paper_inv_def get_save_trade split: if_splits)
  qed (use inv in simp)
next
  case (ps_activate i ver before rid now out)
  from ps_activate(1) show ?thesis
  proof (cases rule: activate_cases)
    case (refused e)
    with inv show ?thesis by simp
  next
    case (activated row r)
    let ?row' = "row\<lparr>td_state := T_active, td_entityVersion := td_entityVersion row + 1\<rparr>"
    have id: "td_id row = i" using activated(1) by (rule get_trade_key)
    have ins: "td_instrumentKey row = td_instrumentKey before" using ps_activate(3) activated(1) .
    have r: "pr_id r = rid" "pr_state r = R_active" "pr_tradeId r = Some i" "pr_instrumentKey r = td_instrumentKey before"
      using activated(4) by simp_all
    have ar: "active_res d' = active_res d @ [r\<lparr>pr_updatedAt := now\<rparr>]"
      using active_res_reserve [of r d now] ps_activate(2) r by (simp add: activated(5))
    have noi: "pr_tradeId x \<noteq> Some i" if "x \<in> set (active_res d)" for x
    proof
      assume "pr_tradeId x = Some i"
      with that inv activated(1,2) show False by (auto simp: paper_inv_def res_backed_def)
    qed
    have nins: "pr_instrumentKey x \<noteq> td_instrumentKey before" if "x \<in> set (active_res d)" for x
      using that activated(3) by (auto simp: active_instrument_def active_res_def list_ex_iff)
    have gt: "get_trade k d' = (if k = i then Some (?row'\<lparr>td_updatedAt := now\<rparr>) else get_trade k d)" for k
      by (simp add: activated(5) get_save_trade id)
    have "res_backed d' x" if "x \<in> set (active_res d')" for x
    proof (cases "x = r\<lparr>pr_updatedAt := now\<rparr>")
      case True
      with r ins show ?thesis by (auto simp: res_backed_def gt)
    next
      case False
      with that have x: "x \<in> set (active_res d)" by (simp add: ar)
      with inv have "res_backed (save_pres now r d) x" by (simp add: paper_inv_def res_backed_def)
      then show ?thesis unfolding activated(5) using activated(1,2) id by (intro res_backed_save) auto
    qed
    moreover have "\<exists>x \<in> set (active_res d'). pr_tradeId x = Some k" if "get_trade k d' = Some z" "td_state z = T_active" for k z
    proof (cases "k = i")
      case True
      with r show ?thesis by (auto simp: ar)
    next
      case False
      with that inv show ?thesis by (auto simp: gt ar paper_inv_def)
    qed
    moreover have "distinct (map pr_id (pd_reservations d'))"
      using inv by (simp add: activated(5) paper_inv_def save_pres_def)
    moreover have "td_instrumentKey before \<notin> pr_instrumentKey ` set (active_res d)" "Some i \<notin> pr_tradeId ` set (active_res d)"
      using noi nins by (metis imageE)+
    then have "distinct (map pr_instrumentKey (active_res d'))" "distinct (map pr_tradeId (active_res d'))"
      using inv r by (simp_all add: ar paper_inv_def)
    ultimately show ?thesis by (simp add: paper_inv_def)
  qed
next
  case (ps_reject i ver now out)
  from ps_reject(1) show ?thesis
  proof (cases rule: patch_trade_cases)
    case (refused e)
    with inv show ?thesis by simp
  next
    case (patched row st n)
    have id: "td_id row = i" using patched(1) by (rule get_trade_key)
    have na: "td_state row \<noteq> T_active" using ps_reject(2) patched(1) .
    have st: "st = T_canceled" using patched(4) by simp
    have "res_backed d' r" if "r \<in> set (active_res d)" for r
      using that inv na patched(1) id by (auto simp: patched(6) paper_inv_def intro!: res_backed_save)
    with inv id show ?thesis by (auto simp: patched(6) paper_inv_def get_save_trade st split: if_splits)
  qed
next
  case (ps_cancel i ver now out)
  from ps_cancel(1) show ?thesis
  proof (cases rule: cancel_cases)
    case (ended row)
    with paper_inv_end [OF inv ended(1)] get_trade_key [OF ended(1)] show ?thesis by simp
  qed (use inv in simp)
next
  case (ps_settle i sdto now out)
  from ps_settle(1) show ?thesis
  proof (cases rule: settle_cases)
    case (ended row row')
    with paper_inv_end [OF inv ended(1), of row'] get_trade_key [OF ended(1)] show ?thesis by simp
  qed (use inv in simp)
qed

lemma paper_run_inv: "paper_step\<^sup>*\<^sup>* d d' \<Longrightarrow> paper_inv d \<Longrightarrow> paper_inv d'"
  by (induction rule: rtranclp_induct) (auto intro: paper_step_inv)

definition empty_paper :: paper_db where
  "empty_paper = \<lparr> pd_trades = [], pd_reservations = [], pd_candidates = [], pd_audit = [] \<rparr>"

lemma paper_inv_empty: "paper_inv empty_paper"
  by (simp add: paper_inv_def empty_paper_def active_res_def get_trade_def get_row_def)


definition ex_ct :: "string \<Rightarrow> create_trade_dto" where
  "ex_ct ins = \<lparr> ct_opportunityId = None, ct_instrumentKey = ins, ct_routeKey = None, ct_notional = Some ''100'', ct_summary = None,
     ct_idempotencyKey = None \<rparr>"

definition ex_trades :: paper_db where
  "ex_trades = snd (create_trade (ex_ct ''ETH'') ''t2'' id 2 (snd (create_trade (ex_ct ''ETH'') ''t1'' id 1 empty_paper)))"

definition ex_active :: paper_db where
  "ex_active = snd (transaction (transitionToActive ''t1'' 1 (the (get_trade ''t1'' ex_trades)) ''r1'' 3) ex_trades)"

lemma ex_active_run: "paper_step\<^sup>*\<^sup>* empty_paper ex_active"
proof -
  let ?d1 = "snd (create_trade (ex_ct ''ETH'') ''t1'' id 1 empty_paper)"
  have "paper_step empty_paper ?d1"
    by (rule ps_create [of "ex_ct ''ETH''" "''t1''" 1 _ "fst (create_trade (ex_ct ''ETH'') ''t1'' id 1 empty_paper)"])
      (rule prod.collapse [symmetric], code_simp)
  moreover have "paper_step ?d1 ex_trades"
    by (rule ps_create [of "ex_ct ''ETH''" "''t2''" 2 _ "fst (create_trade (ex_ct ''ETH'') ''t2'' id 2 ?d1)"])
      (simp add: ex_trades_def, code_simp)
  moreover have "paper_step ex_trades ex_active"
  proof (rule ps_activate)
    show "transaction (transitionToActive ''t1'' 1 (the (get_trade ''t1'' ex_trades)) ''r1'' 3) ex_trades
        = (fst (transaction (transitionToActive ''t1'' 1 (the (get_trade ''t1'' ex_trades)) ''r1'' 3) ex_trades), ex_active)"
      unfolding ex_active_def by (rule prod.collapse [symmetric])
    show "get_pres ''r1'' ex_trades = None" by code_simp
  qed simp
  ultimately show ?thesis by (meson converse_rtranclp_into_rtranclp rtranclp.rtrancl_refl)
qed

lemma ex_active_facts:
  "map_option td_state (get_trade ''t1'' ex_active) = Some T_active" "map_option td_instrumentKey (get_trade ''t1'' ex_active) = Some ''ETH''"
  "map_option td_entityVersion (get_trade ''t1'' ex_active) = Some 2"
  "map pr_tradeId (active_res ex_active) = [Some ''t1'']"
  by code_simp+


section \<open>A patch leaves the reservation behind\<close>

text \<open>The reservation \<open>r\<close> of a trade that has ended.\<close>

definition orphan :: "string \<Rightarrow> paper_reservation \<Rightarrow> paper_db \<Rightarrow> bool" where
  "orphan i r d \<longleftrightarrow> distinct (map pr_id (pd_reservations d)) \<and> r \<in> set (pd_reservations d) \<and> pr_state r = R_active
     \<and> pr_tradeId r = Some i \<and> (\<exists>t. get_trade i d = Some t \<and> td_state t \<in> {T_settled, T_canceled})"

lemma orphan_frame:
  assumes "orphan i r d" and "td_id x \<noteq> i \<or> td_state x \<in> {T_settled, T_canceled}"
  shows "orphan i r (save_trade now x d)"
  using assms by (auto simp: orphan_def get_save_trade)

lemma orphan_expire:
  assumes "orphan i r d" and "j \<noteq> i"
  shows "orphan i r (expire_of_trade j now d)"
proof -
  have dis: "distinct (map pr_id (pd_reservations d))" using assms(1) by (simp add: orphan_def)
  then show ?thesis
  proof (cases rule: expire_of_trade_reservations [of d j now])
    case none
    with assms(1) show ?thesis by simp
  next
    case (one s)
    let ?s = "s\<lparr>pr_state := R_expired, pr_entityVersion := pr_entityVersion s + 1\<rparr>"
    have r: "r \<in> set (pd_reservations d)" "pr_tradeId r = Some i" using assms(1) by (simp_all add: orphan_def)
    have "r \<noteq> s" using r(2) one(2) assms(2) by auto
    then have ne: "pr_id r \<noteq> pr_id s" using dis r(1) one(1) by (metis distinct_get_row option.inject)
    have "get_pres (pr_id s) d = Some s" unfolding get_pres_def using dis one(1) by (rule distinct_get_row)
    then have "pd_reservations (save_pres now ?s d) = map (\<lambda>y. if pr_id y = pr_id s then ?s\<lparr>pr_updatedAt := now\<rparr> else y) (pd_reservations d)"
      using save_row_existing [of pr_id "?s\<lparr>pr_updatedAt := now\<rparr>" "pd_reservations d" s] by (simp add: save_pres_def get_pres_def)
    then have "r \<in> set (pd_reservations (save_pres now ?s d))" using r(1) ne by force
    with one assms(1) distinct_save_pres [OF dis, of now ?s] show ?thesis
      by (auto simp: orphan_def)
  qed
qed

lemma orphan_step:
  assumes "paper_step d d'" and o: "orphan i r d"
  shows "orphan i r d'"
proof -
  from o obtain t where t: "get_trade i d = Some t" "td_state t \<in> {T_settled, T_canceled}" by (auto simp: orphan_def)
  show ?thesis
    using assms(1)
  proof cases
    case (ps_create dto j now out)
    then have "d' = d \<or> d' = save_trade now (new_trade dto j now) d" "j \<noteq> i"
      using t by (auto simp: create_trade_def Let_def split: option.splits)
    with o show ?thesis by (auto intro: orphan_frame)
  next
    case (ps_activate j ver before rid now out)
    from ps_activate(1) show ?thesis
    proof (cases rule: activate_cases)
      case (activated row s)
      have j: "j \<noteq> i" "td_id row = j" using activated(1,2) t get_trade_key by auto
      have "pr_id s = rid" using activated(4) by simp
      then have "save_row pr_id (s\<lparr>pr_updatedAt := now\<rparr>) (pd_reservations d) = pd_reservations d @ [s\<lparr>pr_updatedAt := now\<rparr>]"
        using ps_activate(2) by (simp add: save_row_new get_pres_def)
      then have "orphan i r (save_pres now s d)"
        using o distinct_save_pres [of d now s] by (simp add: orphan_def save_pres_def get_trade_def)
      with j show ?thesis by (simp add: activated(5) orphan_frame)
    qed (use o in simp)
  next
    case (ps_reject j ver now out)
    from ps_reject(1) show ?thesis
    proof (cases rule: patch_trade_cases)
      case (patched row st n)
      with o show ?thesis by (auto intro!: orphan_frame)
    qed (use o in simp)
  next
    case (ps_cancel j ver now out)
    from ps_cancel(1) show ?thesis
    proof (cases rule: cancel_cases)
      case (ended row)
      then have "j \<noteq> i" using t by auto
      from orphan_expire [OF o this] get_trade_key [OF ended(1)] show ?thesis
        by (simp add: ended(3)) (rule orphan_frame, auto)
    qed (use o in simp)
  next
    case (ps_settle j sdto now out)
    from ps_settle(1) show ?thesis
    proof (cases rule: settle_cases)
      case (ended row row')
      then have "j \<noteq> i" using t by auto
      from orphan_expire [OF o this] ended(5) show ?thesis
        by (simp add: ended(8)) (rule orphan_frame, auto)
    qed (use o in simp)
  qed
qed

lemma orphan_any_step:
  assumes "paper_any_step d d'" and o: "orphan i r d"
  shows "orphan i r d'"
  using assms(1)
proof cases
  case pa_step
  then show ?thesis using o by (rule orphan_step)
next
  case (pa_patch j pdto now out)
  from o obtain t where t: "get_trade i d = Some t" "td_state t \<in> {T_settled, T_canceled}" by (auto simp: orphan_def)
  from pa_patch show ?thesis
  proof (cases rule: patch_trade_cases)
    case (patched row st n)
    have "td_id row = j" using patched(1) by (rule get_trade_key)
    have "st \<in> {T_settled, T_canceled}" if "j = i" using that patched(1,3) t by auto
    with o \<open>td_id row = j\<close> show ?thesis by (auto simp: patched(6) intro!: orphan_frame)
  qed (use o in simp)
next
  case (pa_overwrite j t v now)
  with o show ?thesis by (auto intro!: orphan_frame)
qed

lemma orphan_run: "paper_any_step\<^sup>*\<^sup>* d d' \<Longrightarrow> orphan i r d \<Longrightarrow> orphan i r d'"
  by (induction rule: rtranclp_induct) (auto intro: orphan_any_step)

lemma approve_blocked:
  assumes "active_instrument ins d" and "get_trade j d = Some t" and "td_state t = T_draft" and "td_instrumentKey t = ins"
  shows "approve j op rid id now d = (Inl (ConflictException ''duplicate key: active reservation already exists''), d)"
  using assms by (simp add: approve_def transaction_def transitionToActive_def locked_trade_def assertTradeStateTransition_def
    reserveCapital_def Let_def)

text \<open>
  A trade that leaves \<open>active\<close> through the generic patch keeps its reservation, and nothing
  ever expires it (the bulk expiry by time has no caller). Whatever runs afterwards, every draft on the
  instrument is refused with 409 when it is approved: the instrument is blocked for good.
\<close>

theorem patched_trade_blocks_instrument:
  assumes "get_trade i d = Some t" and "td_state t = T_active" and "r \<in> set (active_res d)" and "pr_tradeId r = Some i"
    and "distinct (map pr_id (pd_reservations d))"
    and "pt_state q \<in> {Some T_settled, Some T_canceled}" and "patch_trade i q now d = (Inr t', d1)"
    and "paper_any_step\<^sup>*\<^sup>* d1 d2" and "get_trade j d2 = Some u" and "td_state u = T_draft"
    and "td_instrumentKey u = pr_instrumentKey r"
  shows "td_state t' \<noteq> T_active \<and> r \<in> set (active_res d2)
    \<and> approve j op rid id now2 d2 = (Inl (ConflictException ''duplicate key: active reservation already exists''), d2)"
proof -
  from assms(7) have "orphan i r d1 \<and> td_state t' \<noteq> T_active"
  proof (cases rule: patch_trade_cases)
    case (patched row st n)
    have "td_id row = i" using patched(1) by (rule get_trade_key)
    with patched assms(3-6) show ?thesis by (auto simp: orphan_def active_res_def get_save_trade)
  qed simp
  then have o: "orphan i r d2" and t': "td_state t' \<noteq> T_active" using assms(8) by (auto intro: orphan_run)
  then have "active_instrument (pr_instrumentKey r) d2" by (auto simp: orphan_def active_instrument_def list_ex_iff)
  from approve_blocked [OF this assms(9,10,11)] o t' show ?thesis by (simp add: orphan_def active_res_def)
qed

definition ex_patch :: patch_trade_dto where
  "ex_patch = \<lparr> pt_expectedVersion = 2, pt_notional = None, pt_state = Some T_settled \<rparr>"

theorem patched_trade_blocks_instrument_witness:
  "approve ''t2'' ''op'' ''r2'' id 9 (snd (patch_trade ''t1'' ex_patch 5 ex_active))
    = (Inl (ConflictException ''duplicate key: active reservation already exists''), snd (patch_trade ''t1'' ex_patch 5 ex_active))"
proof -
  let ?d1 = "snd (patch_trade ''t1'' ex_patch 5 ex_active)"
  from ex_active_facts(1) obtain t where t: "get_trade ''t1'' ex_active = Some t" "td_state t = T_active" by auto
  from ex_active_facts(4) obtain r where r: "r \<in> set (active_res ex_active)" "pr_tradeId r = Some ''t1''" by (cases "active_res ex_active") auto
  have ins: "map pr_instrumentKey (active_res ex_active) = [''ETH'']" by code_simp
  with ex_active_facts(4) r(1) have ri: "pr_instrumentKey r = ''ETH''" by (cases "active_res ex_active") auto
  have dis: "distinct (map pr_id (pd_reservations ex_active))" by code_simp
  have "case fst (patch_trade ''t1'' ex_patch 5 ex_active) of Inr _ \<Rightarrow> True | Inl _ \<Rightarrow> False" by code_simp
  then obtain t' where p: "patch_trade ''t1'' ex_patch 5 ex_active = (Inr t', ?d1)"
    by (cases "patch_trade ''t1'' ex_patch 5 ex_active") (auto split: sum.splits)
  have "map_option td_state (get_trade ''t2'' ?d1) = Some T_draft" "map_option td_instrumentKey (get_trade ''t2'' ?d1) = Some ''ETH''"
    by code_simp+
  then obtain u where u: "get_trade ''t2'' ?d1 = Some u" "td_state u = T_draft" "td_instrumentKey u = ''ETH''" by auto
  have q: "pt_state ex_patch \<in> {Some T_settled, Some T_canceled}" by (simp add: ex_patch_def)
  from patched_trade_blocks_instrument [OF t r dis q p rtranclp.rtrancl_refl u(1,2)] u(3) ri show ?thesis by simp
qed

end
