(* ===== verification/Token_Bucket.thy ===== *)
theory Token_Bucket
  imports Svc_Base
begin

text \<open>
  \<open>apps/scanner-service/src/scanner/token-bucket.ts\<close>: the budget of outbound RPC calls of one
  chain. Numbers are exact rationals, the clock is in milliseconds and may also step back.
\<close>

section \<open>Operations\<close>

record bucket =
  tb_ratePerSecond :: rat
  tb_capacity :: rat
  tb_tokens :: rat
  tb_lastRefillMs :: int

definition check_rates :: "jsnum \<Rightarrow> jsnum \<Rightarrow> exn + rat \<times> rat" where
  "check_rates rate cap =
     (case rate of
        Fin r \<Rightarrow> (if r \<le> 0 then Inl (PlainError ''TokenBucket ratePerSecond must be > 0'')
          else case cap of
            Fin c \<Rightarrow> if c \<le> 0 then Inl (PlainError ''TokenBucket capacity must be > 0'') else Inr (r, c)
          | _ \<Rightarrow> Inl (PlainError ''TokenBucket capacity must be > 0''))
      | _ \<Rightarrow> Inl (PlainError ''TokenBucket ratePerSecond must be > 0''))"

definition new_bucket :: "jsnum \<Rightarrow> jsnum option \<Rightarrow> int \<Rightarrow> exn + bucket" where
  "new_bucket rate cap now =
     (case check_rates rate (case cap of None \<Rightarrow> rate | Some c \<Rightarrow> c) of
        Inl e \<Rightarrow> Inl e
      | Inr (r, c) \<Rightarrow> Inr \<lparr> tb_ratePerSecond = r, tb_capacity = c, tb_tokens = c, tb_lastRefillMs = now \<rparr>)"

definition refill :: "int \<Rightarrow> bucket \<Rightarrow> bucket" where
  "refill now b =
     (let elapsedSec = of_int (now - tb_lastRefillMs b) / 1000 :: rat
      in if elapsedSec \<le> 0 then b
         else b\<lparr>tb_tokens := min (tb_capacity b) (tb_tokens b + elapsedSec * tb_ratePerSecond b), tb_lastRefillMs := now\<rparr>)"

definition tryConsume :: "rat \<Rightarrow> int \<Rightarrow> bucket \<Rightarrow> bool \<times> bucket" where
  "tryConsume cost now b =
     (let b' = refill now b
      in if tb_tokens b' < cost then (False, b') else (True, b'\<lparr>tb_tokens := tb_tokens b' - cost\<rparr>))"

definition availableTokens :: "int \<Rightarrow> bucket \<Rightarrow> rat \<times> bucket" where
  "availableTokens now b = (let b' = refill now b in (tb_tokens b', b'))"

definition setRate :: "jsnum \<Rightarrow> jsnum option \<Rightarrow> int \<Rightarrow> bucket \<Rightarrow> (unit, bucket) outcome" where
  "setRate rate cap now b =
     (case check_rates rate (case cap of None \<Rightarrow> rate | Some c \<Rightarrow> c) of
        Inl e \<Rightarrow> (Inl e, b)
      | Inr (r, c) \<Rightarrow>
          (let b' = refill now b
           in (Inr (), b'\<lparr>tb_capacity := c, tb_ratePerSecond := r, tb_tokens := min (tb_tokens b') c\<rparr>)))"

section \<open>The budget\<close>

definition bucket_ok :: "bucket \<Rightarrow> bool" where
  "bucket_ok b \<longleftrightarrow> 0 < tb_ratePerSecond b \<and> 0 < tb_capacity b \<and> 0 \<le> tb_tokens b \<and> tb_tokens b \<le> tb_capacity b"

lemma new_bucket_ok: "new_bucket rate cap now = Inr b \<Longrightarrow> bucket_ok b"
  by (auto simp: new_bucket_def check_rates_def bucket_ok_def split: jsnum.splits if_splits option.splits)

lemma refill_ok: "bucket_ok b \<Longrightarrow> bucket_ok (refill now b)"
  by (auto simp: refill_def bucket_ok_def Let_def min_def)

lemma refill_frame [simp]:
  "tb_ratePerSecond (refill now b) = tb_ratePerSecond b" "tb_capacity (refill now b) = tb_capacity b"
  by (simp_all add: refill_def Let_def)

lemma refill_last: "tb_lastRefillMs (refill now b) = max (tb_lastRefillMs b) now"
  by (simp add: refill_def Let_def max_def)

text \<open>What the rate earns between two instants.\<close>

definition accrued :: "rat \<Rightarrow> int \<Rightarrow> int \<Rightarrow> rat" where
  "accrued r a b = of_int (b - a) / 1000 * r"

lemma accrued_add: "accrued r a c = accrued r b c + accrued r a b"
  by (simp add: accrued_def algebra_simps add_divide_distrib diff_divide_distrib)

lemma accrued_mono: "0 < r \<Longrightarrow> b \<le> c \<Longrightarrow> accrued r a b \<le> accrued r a c"
  unfolding accrued_def by (intro mult_right_mono divide_right_mono) simp_all

lemma refill_gain:
  "tb_tokens (refill now b) \<le> tb_tokens b + accrued (tb_ratePerSecond b) (tb_lastRefillMs b) (tb_lastRefillMs (refill now b))"
  by (simp add: refill_def Let_def accrued_def min_le_iff_disj)

lemma setRate_ok: "bucket_ok b \<Longrightarrow> setRate rate cap now b = (r, b') \<Longrightarrow> bucket_ok b'"
  using refill_ok [of b now]
  by (auto simp: setRate_def check_rates_def bucket_ok_def Let_def split: jsnum.splits if_splits option.splits)

text \<open>A sequence of requests, each with its time and cost: what is granted in all.\<close>

fun consume_all :: "(int \<times> rat) list \<Rightarrow> bucket \<Rightarrow> rat \<times> bucket" where
  "consume_all [] b = (0, b)"
| "consume_all ((now, cost) # qs) b =
     (case tryConsume cost now b of (ok, b1) \<Rightarrow>
        (case consume_all qs b1 of (g, b2) \<Rightarrow> ((if ok then cost else 0) + g, b2)))"

lemma consume_all_bound:
  assumes "bucket_ok b" and "\<forall>(t, c) \<in> set qs. 0 \<le> c"
  shows "bucket_ok (snd (consume_all qs b)) \<and> tb_lastRefillMs b \<le> tb_lastRefillMs (snd (consume_all qs b))
    \<and> (\<forall>T. tb_lastRefillMs b \<le> T \<longrightarrow> (\<forall>(t, c) \<in> set qs. t \<le> T) \<longrightarrow> tb_lastRefillMs (snd (consume_all qs b)) \<le> T)
    \<and> fst (consume_all qs b) + tb_tokens (snd (consume_all qs b))
        \<le> tb_tokens b + accrued (tb_ratePerSecond b) (tb_lastRefillMs b) (tb_lastRefillMs (snd (consume_all qs b)))
    \<and> tb_ratePerSecond (snd (consume_all qs b)) = tb_ratePerSecond b"
  using assms
proof (induction qs arbitrary: b)
  case Nil
  then show ?case by (simp add: accrued_def)
next
  case (Cons q qs)
  obtain t c where q: "q = (t, c)" by (cases q)
  define ok b1 where "ok = fst (tryConsume c t b)" and "b1 = snd (tryConsume c t b)"
  have c0: "0 \<le> c" using Cons.prems(2) q by simp
  have b1: "bucket_ok b1" "tb_lastRefillMs b1 = max (tb_lastRefillMs b) t" "tb_ratePerSecond b1 = tb_ratePerSecond b"
    "(if ok then c else 0) + tb_tokens b1 = tb_tokens (refill t b)"
    using refill_ok [OF Cons.prems(1), of t] refill_last [of t b] c0
    by (auto simp: ok_def b1_def tryConsume_def Let_def bucket_ok_def)
  have g: "tb_tokens (refill t b) \<le> tb_tokens b + accrued (tb_ratePerSecond b) (tb_lastRefillMs b) (tb_lastRefillMs b1)"
    using refill_gain [of t b] b1(2) by (simp add: refill_last)
  have qs: "\<forall>(t, c) \<in> set qs. 0 \<le> c" using Cons.prems(2) by simp
  define g2 b2 where "g2 = fst (consume_all qs b1)" and "b2 = snd (consume_all qs b1)"
  note ih = Cons.IH [OF b1(1) qs, folded g2_def b2_def, unfolded b1(3)]
  note i1 = ih [THEN conjunct1] and i2 = ih [THEN conjunct2, THEN conjunct1]
    and i3 = ih [THEN conjunct2, THEN conjunct2, THEN conjunct1, THEN spec, THEN mp, THEN mp]
    and i4 = ih [THEN conjunct2, THEN conjunct2, THEN conjunct2, THEN conjunct1]
    and i5 = ih [THEN conjunct2, THEN conjunct2, THEN conjunct2, THEN conjunct2]
  have e: "consume_all (q # qs) b = ((if ok then c else 0) + g2, b2)"
    by (simp add: q ok_def b1_def g2_def b2_def split: prod.splits)
  have "(if ok then c else 0) + g2 + tb_tokens b2
      \<le> tb_tokens b + accrued (tb_ratePerSecond b) (tb_lastRefillMs b) (tb_lastRefillMs b2)"
    using i4 g b1(4) accrued_add [of "tb_ratePerSecond b" "tb_lastRefillMs b" "tb_lastRefillMs b2" "tb_lastRefillMs b1"]
    by linarith
  moreover have "\<forall>T. tb_lastRefillMs b \<le> T \<longrightarrow> (\<forall>(t, c) \<in> set (q # qs). t \<le> T) \<longrightarrow> tb_lastRefillMs b2 \<le> T"
  proof (intro allI impI)
    fix T assume T: "tb_lastRefillMs b \<le> T" "\<forall>(t, c) \<in> set (q # qs). t \<le> T"
    then have "tb_lastRefillMs b1 \<le> T" unfolding b1(2) q by simp
    moreover have "\<forall>(t, c) \<in> set qs. t \<le> T" using T(2) by simp
    ultimately show "tb_lastRefillMs b2 \<le> T" by (rule i3)
  qed
  moreover have "tb_lastRefillMs b \<le> tb_lastRefillMs b2" using i2 b1(2) by linarith
  ultimately show ?case using i1 i5 unfolding e fst_conv snd_conv by (intro conjI)
qed

text \<open>
  C31: the budget holds in every window. However the requests are spread and even if the clock steps
  back, what a bucket grants until \<open>T\<close> costs at most its capacity plus the rate times the time since
  its last refill, and the tokens stay between 0 and the capacity.
\<close>

theorem budget_bounded:
  assumes "bucket_ok b" and "\<forall>(t, c) \<in> set qs. 0 \<le> c \<and> t \<le> T" and "tb_lastRefillMs b \<le> T"
  shows "fst (consume_all qs b) \<le> tb_capacity b + accrued (tb_ratePerSecond b) (tb_lastRefillMs b) T
    \<and> bucket_ok (snd (consume_all qs b))"
proof -
  define g b' where "g = fst (consume_all qs b)" and "b' = snd (consume_all qs b)"
  have "\<forall>(t, c) \<in> set qs. 0 \<le> c" "\<forall>(t, c) \<in> set qs. t \<le> T" using assms(2) by auto
  note h = consume_all_bound [OF assms(1) this(1), folded g_def b'_def] this(2)
  have l: "tb_lastRefillMs b' \<le> T"
    by (rule h(1) [THEN conjunct2, THEN conjunct2, THEN conjunct1, THEN spec, THEN mp, THEN mp, OF assms(3) h(2)])
  have r: "0 < tb_ratePerSecond b" "tb_tokens b \<le> tb_capacity b" "0 \<le> tb_tokens b'"
    using assms(1) h by (simp_all add: bucket_ok_def)
  have "accrued (tb_ratePerSecond b) (tb_lastRefillMs b) (tb_lastRefillMs b') \<le> accrued (tb_ratePerSecond b) (tb_lastRefillMs b) T"
    using r(1) l by (rule accrued_mono)
  moreover have "g + tb_tokens b' \<le> tb_tokens b + accrued (tb_ratePerSecond b) (tb_lastRefillMs b) (tb_lastRefillMs b')"
    using h by blast
  ultimately have "g \<le> tb_capacity b + accrued (tb_ratePerSecond b) (tb_lastRefillMs b) T" using r by linarith
  with h show ?thesis unfolding g_def [symmetric] b'_def [symmetric] by blast
qed

definition ex_bucket :: bucket where
  "ex_bucket = \<lparr> tb_ratePerSecond = 10, tb_capacity = 10, tb_tokens = 10, tb_lastRefillMs = 0 \<rparr>"

theorem budget_bounded_witness:
  "fst (consume_all [(0, 6), (0, 6), (500, 6), (400, 3)] ex_bucket) \<le> 10 + accrued 10 0 500
    \<and> fst (consume_all [(0, 6), (0, 6), (500, 6), (400, 3)] ex_bucket) = 15"
proof -
  have b: "bucket_ok ex_bucket" "\<forall>(t, c) \<in> set [(0 :: int, 6 :: rat), (0, 6), (500, 6), (400, 3)]. 0 \<le> c \<and> t \<le> 500"
    "tb_lastRefillMs ex_bucket \<le> 500" by (simp_all add: bucket_ok_def ex_bucket_def)
  have "fst (consume_all [(0, 6), (0, 6), (500, 6), (400, 3)] ex_bucket) = 15"
    by (simp add: ex_bucket_def tryConsume_def refill_def Let_def)
  with budget_bounded [OF b] show ?thesis by (simp add: ex_bucket_def)
qed

end
