(* ===== verification/Scanner.thy ===== *)
theory Scanner
  imports Token_Bucket Opportunity
begin

text \<open>
  \<open>apps/scanner-service\<close>, the detector at the head of the pipeline: pool snapshots, the spread
  between two venues, filters, the cooldown, the findings and their publication to the
  opportunity service. What a pool contract answers is an argument, numbers are exact rationals.
\<close>

section \<open>Prices\<close>

definition pow10 :: "int \<Rightarrow> rat" where "pow10 e = js_scale10 1 e"

definition v3PriceRaw :: "int \<Rightarrow> rat" where
  "v3PriceRaw sqrtPriceX96 = of_int (sqrtPriceX96 * sqrtPriceX96 * 10 ^ 18 div 2 ^ 192) / 10 ^ 18"

definition v3Price :: "int \<Rightarrow> int \<Rightarrow> int \<Rightarrow> rat" where
  "v3Price sqrtPriceX96 decimals0 decimals1 = v3PriceRaw sqrtPriceX96 * pow10 (decimals0 - decimals1)"

definition v2Price :: "int \<Rightarrow> int \<Rightarrow> int \<Rightarrow> int \<Rightarrow> rat" where
  "v2Price reserve0 reserve1 decimals0 decimals1 =
     (if reserve0 = 0 then 0
      else of_int (reserve1 * 10 ^ 18 div reserve0) / 10 ^ 18 * pow10 (decimals0 - decimals1))"

definition spreadBps :: "rat \<Rightarrow> rat \<Rightarrow> int" where
  "spreadBps buyPrice sellPrice =
     (if buyPrice \<le> 0 then 0 else js_round ((sellPrice - buyPrice) / buyPrice * 10000))"

section \<open>Pools\<close>

datatype pool_family = fam_v2 | fam_v3

record factory_mapping =
  fm_venueKey :: string
  fm_family :: pool_family
  fm_defaultFeeBps :: rat

definition mapping_of :: "string \<Rightarrow> pool_family \<Rightarrow> rat \<Rightarrow> factory_mapping" where
  "mapping_of v f b = \<lparr> fm_venueKey = v, fm_family = f, fm_defaultFeeBps = b \<rparr>"

definition FACTORY_MAPPING :: "(string \<times> factory_mapping) list" where
  "FACTORY_MAPPING =
    [(''42161:0xf1d7cc64fb745938252f3b21e12e7c8398ce848e'', mapping_of ''uniswap-v2'' fam_v2 30),
     (''42161:0x1f98431c8ad98523631ae4a59f267346ea31f984'', mapping_of ''uniswap-v3'' fam_v3 0),
     (''42161:0xc35dadb65012ec5796536bd9864ed8773abc74c4'', mapping_of ''sushiswap'' fam_v2 30),
     (''1:0x5c69bee701ef814a2b6a3edd4b1652cb9cc5aa6f'', mapping_of ''uniswap-v2'' fam_v2 30),
     (''1:0x1f98431c8ad98523631ae4a59f267346ea31f984'', mapping_of ''uniswap-v3'' fam_v3 0),
     (''1:0xc0aee478e3658e2610c5f7a4a2e1777ce9e4f2ac'', mapping_of ''sushiswap'' fam_v2 30),
     (''8453:0x33128a8fc17869897dce68ed026d594dd274d2f3'', mapping_of ''uniswap-v3'' fam_v3 0),
     (''8453:0x7dae51ae332a0e1f979b1b1d01ed6d68468e41ec'', mapping_of ''sushiswap'' fam_v2 30),
     (''56:0xca143ce32fe78f1f7019d7d551a6402fc5350c73'', mapping_of ''pancakeswap-v2'' fam_v2 25),
     (''56:0x0bfbcf9fa4f9c56b0f40a671ad40e0805a091865'', mapping_of ''pancakeswap-v3'' fam_v3 0),
     (''56:0xdb1d10011ad0ff90774d0c6bb92e5c5c8b4461f7'', mapping_of ''uniswap-v3'' fam_v3 0),
     (''56:0xc35dadb65012ec5796536bd9864ed8773abc74c4'', mapping_of ''sushiswap'' fam_v2 30),
     (''56:0x858e3312ed3a876947ae49e6a8a2fa7a6b7819e8'', mapping_of ''biswap'' fam_v2 20),
     (''10:0xf1046053aa5682b4f9a81b5481394da16be5ff5a'', mapping_of ''velodrome'' fam_v2 30),
     (''10:0x1f98431c8ad98523631ae4a59f267346ea31f984'', mapping_of ''uniswap-v3'' fam_v3 0)]"

definition resolveFactory :: "int \<Rightarrow> string \<Rightarrow> factory_mapping option" where
  "resolveFactory chainId factoryAddress = map_of FACTORY_MAPPING (string_of_int chainId @ '':'' @ js_lower factoryAddress)"

record pool_snapshot =
  ps_chainId :: int
  ps_poolAddress :: string
  ps_venueKey :: string
  ps_family :: pool_family
  ps_token0 :: string
  ps_token1 :: string
  ps_decimals0 :: int
  ps_decimals1 :: int
  ps_feeBps :: rat
  ps_quotePerBase :: rat
  ps_liquidityUsd :: "rat option"
  ps_reserve0 :: "int option"
  ps_reserve1 :: "int option"
  ps_readAt :: int

text \<open>What the contract of a pool answers; \<open>None\<close> is a call that fails.\<close>

record pool_view =
  pv_token0 :: "string option"
  pv_token1 :: "string option"
  pv_reserves :: "(int \<times> int) option"
  pv_factory :: "string option"
  pv_fee :: "int option"
  pv_sqrtPriceX96 :: "int option"
  pv_liquidity :: "int option"
  pv_decimals :: "string \<Rightarrow> int option"

definition decimals_of :: "pool_view \<Rightarrow> string \<Rightarrow> int" where
  "decimals_of v token = (case pv_decimals v token of None \<Rightarrow> 18 | Some n \<Rightarrow> n)"

definition tryV2 :: "int \<Rightarrow> string \<Rightarrow> pool_view \<Rightarrow> int \<Rightarrow> pool_snapshot option" where
  "tryV2 chainId poolAddress v now =
     (case (pv_token0 v, pv_token1 v, pv_reserves v, Option.bind (pv_factory v) (resolveFactory chainId)) of
        (Some t0, Some t1, Some (r0, r1), Some m) \<Rightarrow>
          (if fm_family m \<noteq> fam_v2 then None
           else let d0 = decimals_of v t0; d1 = decimals_of v t1
             in Some \<lparr> ps_chainId = chainId, ps_poolAddress = poolAddress, ps_venueKey = fm_venueKey m, ps_family = fam_v2,
               ps_token0 = t0, ps_token1 = t1, ps_decimals0 = d0, ps_decimals1 = d1, ps_feeBps = fm_defaultFeeBps m,
               ps_quotePerBase = v2Price r0 r1 d0 d1, ps_liquidityUsd = None, ps_reserve0 = Some r0,
               ps_reserve1 = Some r1, ps_readAt = now \<rparr>)
      | _ \<Rightarrow> None)"

definition tryV3 :: "int \<Rightarrow> string \<Rightarrow> pool_view \<Rightarrow> int \<Rightarrow> pool_snapshot option" where
  "tryV3 chainId poolAddress v now =
     (case (pv_token0 v, pv_token1 v, pv_fee v, pv_sqrtPriceX96 v, pv_liquidity v,
            Option.bind (pv_factory v) (resolveFactory chainId)) of
        (Some t0, Some t1, Some fee, Some s, Some liq, Some m) \<Rightarrow>
          (if fm_family m \<noteq> fam_v3 then None
           else let d0 = decimals_of v t0; d1 = decimals_of v t1
             in Some \<lparr> ps_chainId = chainId, ps_poolAddress = poolAddress, ps_venueKey = fm_venueKey m, ps_family = fam_v3,
               ps_token0 = t0, ps_token1 = t1, ps_decimals0 = d0, ps_decimals1 = d1, ps_feeBps = of_int fee / 100,
               ps_quotePerBase = v3Price s d0 d1, ps_liquidityUsd = None, ps_reserve0 = Some liq,
               ps_reserve1 = Some liq, ps_readAt = now \<rparr>)
      | _ \<Rightarrow> None)"

definition STABLE_QUOTE_ADDRESSES :: "string list" where
  "STABLE_QUOTE_ADDRESSES =
    [''0xaf88d065e77c8cc2239327c5edb3a432268e5831'', ''0xff970a61a04b1ca14834a43f5de4533ebddb5cc8'',
     ''0xfd086bc7cd5c481dcc9c85ebe478a1c0b69fcbb9'', ''0xda10009cbd5d07dd0cecc66161fc93d7c9000da1'',
     ''0x833589fcd6edb6e08f4c7c32d4f71b54bda02913'', ''0x036cbd53842c5426634e7929541ec2318f3dcf7e'',
     ''0x8ac76a51cc950d9822d68b83fe1ad97b32cd580d'', ''0x55d398326f99059ff775485246999027b3197955'']"

definition resolveQuoteUsd :: "string \<Rightarrow> string \<Rightarrow> jsnum \<Rightarrow> jsnum" where
  "resolveQuoteUsd token0 token1 nativeUsd =
     (if js_lower token0 \<in> set STABLE_QUOTE_ADDRESSES \<or> js_lower token1 \<in> set STABLE_QUOTE_ADDRESSES then Fin 1 else nativeUsd)"

definition computePoolLiquidityUsd :: "pool_snapshot \<Rightarrow> jsnum \<Rightarrow> rat option" where
  "computePoolLiquidityUsd p quoteUsd =
     (if ps_family p = fam_v3 then None
      else case (ps_reserve0 p, ps_reserve1 p) of
        (Some r0, Some r1) \<Rightarrow>
          (if ps_decimals0 p \<le> 0 \<or> ps_decimals1 p \<le> 0 \<or> ps_quotePerBase p \<le> 0 then Some 0
           else case quoteUsd of
             Fin q \<Rightarrow> (if q \<le> 0 then Some 0
               else Some ((of_int r0 / pow10 (ps_decimals0 p) * ps_quotePerBase p + of_int r1 / pow10 (ps_decimals1 p)) * q))
           | _ \<Rightarrow> Some 0)
      | _ \<Rightarrow> Some 0)"

definition withLiquidityUsd :: "jsnum \<Rightarrow> pool_snapshot \<Rightarrow> pool_snapshot" where
  "withLiquidityUsd nativeUsd p =
     (if ps_family p = fam_v3 then p
      else p\<lparr>ps_liquidityUsd := computePoolLiquidityUsd p (resolveQuoteUsd (ps_token0 p) (ps_token1 p) nativeUsd)\<rparr>)"

definition fetchPool :: "jsnum \<Rightarrow> int \<Rightarrow> string \<Rightarrow> pool_view \<Rightarrow> int \<Rightarrow> pool_snapshot option" where
  "fetchPool nativeUsd chainId poolAddress v now =
     (case tryV2 chainId poolAddress v now of
        Some p \<Rightarrow> Some (withLiquidityUsd nativeUsd p)
      | None \<Rightarrow> map_option (withLiquidityUsd nativeUsd) (tryV3 chainId poolAddress v now))"

text \<open>\<open>readPool\<close>: the cache with its expiry, and the budget of the chain (no bucket, no budget).\<close>

record pool_reader =
  pr_cache :: "string \<Rightarrow> (pool_snapshot \<times> int) option"
  pr_buckets :: "int \<Rightarrow> bucket option"

definition tryAcquire :: "int \<Rightarrow> int \<Rightarrow> pool_reader \<Rightarrow> bool \<times> pool_reader" where
  "tryAcquire chainId now s =
     (case pr_buckets s chainId of
        None \<Rightarrow> (False, s)
      | Some b \<Rightarrow> (case tryConsume 1 now b of (ok, b') \<Rightarrow> (ok, s\<lparr>pr_buckets := (pr_buckets s)(chainId := Some b')\<rparr>)))"

definition readPool :: "jsnum \<Rightarrow> int \<Rightarrow> int \<Rightarrow> string \<Rightarrow> pool_view \<Rightarrow> int \<Rightarrow> pool_reader \<Rightarrow> pool_snapshot option \<times> pool_reader" where
  "readPool nativeUsd ttlMs chainId poolAddress v now s =
     (let cacheKey = string_of_int chainId @ '':'' @ js_lower poolAddress
      in case pr_cache s cacheKey of
           Some (p, expiresAt) \<Rightarrow>
             (if expiresAt > now then (Some p, s)
              else case tryAcquire chainId now s of
                (False, s1) \<Rightarrow> (None, s1)
              | (True, s1) \<Rightarrow>
                  (case fetchPool nativeUsd chainId poolAddress v now of
                     None \<Rightarrow> (None, s1)
                   | Some q \<Rightarrow> (Some q, s1\<lparr>pr_cache := (pr_cache s1)(cacheKey := Some (q, now + ttlMs))\<rparr>)))
         | None \<Rightarrow>
             (case tryAcquire chainId now s of
                (False, s1) \<Rightarrow> (None, s1)
              | (True, s1) \<Rightarrow>
                  (case fetchPool nativeUsd chainId poolAddress v now of
                     None \<Rightarrow> (None, s1)
                   | Some q \<Rightarrow> (Some q, s1\<lparr>pr_cache := (pr_cache s1)(cacheKey := Some (q, now + ttlMs))\<rparr>))))"

section \<open>Spreads\<close>

record cross_spread =
  xs_chainId :: int
  xs_canonicalToken :: string
  xs_token0 :: string
  xs_token1 :: string
  xs_buyVenue :: string
  xs_buyPoolAddress :: string
  xs_buyPrice :: rat
  xs_sellVenue :: string
  xs_sellPoolAddress :: string
  xs_sellPrice :: rat
  xs_spreadBps :: int
  xs_feesUsd :: rat
  xs_gasUsd :: rat
  xs_grossProfitUsd :: rat
  xs_netProfitUsd :: rat

definition pair_key :: "pool_snapshot \<Rightarrow> string" where
  "pair_key p = js_lower (ps_token0 p) @ '':'' @ js_lower (ps_token1 p)"

text \<open>The pools of one pair in their order, the pairs in the order of their first pool.\<close>

definition groupByPair :: "pool_snapshot list \<Rightarrow> pool_snapshot list list" where
  "groupByPair pools =
     map (\<lambda>k. filter (\<lambda>p. pair_key p = k) pools) (rev (remdups (rev (map pair_key pools))))"

definition filter_on :: "rat option \<Rightarrow> jsnum \<Rightarrow> (rat \<times> rat) option" where
  "filter_on minPoolLiquidityUsd quoteUsd =
     (case (minPoolLiquidityUsd, quoteUsd) of
        (Some m, Fin q) \<Rightarrow> if m > 0 \<and> q > 0 then Some (m, q) else None
      | _ \<Rightarrow> None)"

definition eligible_pools :: "rat option \<Rightarrow> jsnum \<Rightarrow> pool_snapshot list \<Rightarrow> pool_snapshot list" where
  "eligible_pools minPoolLiquidityUsd quoteUsd pools =
     (case filter_on minPoolLiquidityUsd quoteUsd of
        None \<Rightarrow> pools
      | Some (m, q) \<Rightarrow> filter (\<lambda>p. case computePoolLiquidityUsd p (Fin q) of None \<Rightarrow> True | Some liq \<Rightarrow> \<not> liq < m) pools)"

definition bestSpreadForPair :: "pool_snapshot list \<Rightarrow> rat \<Rightarrow> rat \<Rightarrow> rat option \<Rightarrow> jsnum \<Rightarrow> cross_spread option" where
  "bestSpreadForPair pairPools gasUsd notionalUsd minPoolLiquidityUsd quoteUsd =
     (let eligible = eligible_pools minPoolLiquidityUsd quoteUsd pairPools
      in if length eligible < 2 then None
         else
           (let sorted = sort_key ps_quotePerBase eligible; buy = hd sorted; sell = last sorted
            in if ps_venueKey buy = ps_venueKey sell \<or> ps_quotePerBase buy \<le> 0 \<or> ps_quotePerBase sell \<le> 0 then None
               else
                 (let bps = spreadBps (ps_quotePerBase buy) (ps_quotePerBase sell)
                  in if bps \<le> 0 then None
                     else
                       (let gross = notionalUsd * of_int bps / 10000;
                            fees = notionalUsd * (ps_feeBps buy + ps_feeBps sell) / 10000
                        in Some \<lparr> xs_chainId = ps_chainId buy, xs_canonicalToken = ps_token1 buy, xs_token0 = ps_token0 buy,
                             xs_token1 = ps_token1 buy, xs_buyVenue = ps_venueKey buy, xs_buyPoolAddress = ps_poolAddress buy,
                             xs_buyPrice = ps_quotePerBase buy, xs_sellVenue = ps_venueKey sell,
                             xs_sellPoolAddress = ps_poolAddress sell, xs_sellPrice = ps_quotePerBase sell,
                             xs_spreadBps = bps, xs_feesUsd = fees, xs_gasUsd = gasUsd, xs_grossProfitUsd = gross,
                             xs_netProfitUsd = gross - fees - gasUsd \<rparr>))))"

text \<open>The loop over the pairs of \<open>detect\<close>.\<close>

fun best_of :: "cross_spread option \<Rightarrow> (pool_snapshot list \<Rightarrow> cross_spread option) \<Rightarrow> pool_snapshot list list \<Rightarrow> cross_spread option" where
  "best_of best f [] = best"
| "best_of best f (g # gs) =
     (if length g < 2 then best_of best f gs
      else case f g of
        None \<Rightarrow> best_of best f gs
      | Some c \<Rightarrow>
          (case best of
             None \<Rightarrow> best_of (Some c) f gs
           | Some b \<Rightarrow> best_of (if xs_netProfitUsd c > xs_netProfitUsd b then Some c else best) f gs))"

definition detect :: "pool_snapshot list \<Rightarrow> rat \<Rightarrow> rat \<Rightarrow> rat option \<Rightarrow> jsnum \<Rightarrow> cross_spread option" where
  "detect pools gasUsd notionalUsd minPoolLiquidityUsd quoteUsd =
     (if length pools < 2 then None
      else best_of None (\<lambda>g. bestSpreadForPair g gasUsd notionalUsd minPoolLiquidityUsd quoteUsd) (groupByPair pools))"

section \<open>Filters and cooldown\<close>

record volume_range =
  vr_enabled :: "bool option"
  vr_min1hUsd :: "rat option"
  vr_max24hUsd :: "rat option"

record scanner_filters =
  sf_minSpreadBps :: "rat option"
  sf_minPoolLiquidityUsd :: "rat option"
  sf_minLiquidityUsd :: "rat option"
  sf_volumeRange :: "volume_range option"
  sf_blacklistTokens :: "string list option"
  sf_allowedChains :: "int list option"
  sf_quoteAssets :: "string list option"

datatype filter_reason = R_minSpreadBps | R_minLiquidityUsd | R_volumeRange | R_blacklistTokens | R_allowedChains | R_quoteAssets

definition isBlacklisted :: "string \<Rightarrow> string list \<Rightarrow> bool" where
  "isBlacklisted token blacklist \<longleftrightarrow> list_ex (\<lambda>b. js_lower b = js_lower token) blacklist"

definition isQuoteAsset :: "string \<Rightarrow> string list \<Rightarrow> bool" where
  "isQuoteAsset token quoteAssets \<longleftrightarrow>
     list_ex (\<lambda>q. if starts_with (js_lower q) ''0x'' then js_lower q = js_lower token else True) quoteAssets"

definition volume_fails :: "volume_range \<Rightarrow> rat option \<Rightarrow> bool" where
  "volume_fails vr volumeUsd \<longleftrightarrow> vr_enabled vr = Some True \<and>
     (case volumeUsd of None \<Rightarrow> True
      | Some v \<Rightarrow> v < (case vr_min1hUsd vr of None \<Rightarrow> 0 | Some m \<Rightarrow> m)
          \<or> (case vr_max24hUsd vr of None \<Rightarrow> False | Some m \<Rightarrow> v > m))"

text \<open>\<open>volumeUsd\<close> is \<open>volume?.volumeUsd ?? null\<close>.\<close>

definition firstFailing :: "cross_spread \<Rightarrow> rat option \<Rightarrow> scanner_filters \<Rightarrow> filter_reason option" where
  "firstFailing x volumeUsd f =
     (if (case sf_minSpreadBps f of None \<Rightarrow> False | Some m \<Rightarrow> of_int (xs_spreadBps x) < m) then Some R_minSpreadBps
      else if (case sf_minLiquidityUsd f of None \<Rightarrow> False | Some m \<Rightarrow> max 0 (xs_netProfitUsd x) < m) then Some R_minLiquidityUsd
      else if (case sf_volumeRange f of None \<Rightarrow> False | Some vr \<Rightarrow> volume_fails vr volumeUsd) then Some R_volumeRange
      else if (case sf_blacklistTokens f of None \<Rightarrow> False | Some bl \<Rightarrow> bl \<noteq> [] \<and> isBlacklisted (xs_canonicalToken x) bl)
      then Some R_blacklistTokens
      else if (case sf_allowedChains f of None \<Rightarrow> False | Some cs \<Rightarrow> cs \<noteq> [] \<and> xs_chainId x \<notin> set cs) then Some R_allowedChains
      else if (case sf_quoteAssets f of None \<Rightarrow> False | Some qs \<Rightarrow> qs \<noteq> [] \<and> \<not> isQuoteAsset (xs_token1 x) qs)
      then Some R_quoteAssets
      else None)"

definition resolveCooldownMs :: "string option \<Rightarrow> rat" where
  "resolveCooldownMs raw =
     (case raw of None \<Rightarrow> 60000 | Some s \<Rightarrow> (case js_Number s of Fin n \<Rightarrow> if n \<ge> 0 then n else 60000 | _ \<Rightarrow> 60000))"

definition dedup_key :: "cross_spread \<Rightarrow> string" where
  "dedup_key x = js_lower (xs_canonicalToken x) @ '':'' @ xs_buyVenue x @ '':'' @ xs_sellVenue x"

type_synonym emitted = "string \<Rightarrow> int option"

definition shouldEmit :: "rat \<Rightarrow> cross_spread \<Rightarrow> int \<Rightarrow> emitted \<Rightarrow> bool \<times> emitted" where
  "shouldEmit cooldown x now m =
     (if (case m (dedup_key x) of None \<Rightarrow> False | Some t \<Rightarrow> of_int (now - t) < cooldown) then (False, m)
      else (True, m(dedup_key x := Some now)))"

end
