(* ===== verification/Findings.thy ===== *)
theory Findings
  imports Scanner
begin

text \<open>
  The findings of the scanner (\<open>scanner-pipeline\<close>, \<open>scanner-publisher\<close>, \<open>scanner-orphan-worker\<close>,
  \<open>scanner-retention-worker\<close>, \<open>scanner-findings\<close>): the detection cycle writes a row and posts it to the
  opportunity service, the orphan worker posts again what has not been published.
\<close>

section \<open>Rows\<close>

datatype publish_status = F_pending | F_published | F_failed

record finding =
  fd_id :: string
  fd_instanceId :: string
  fd_opportunityId :: "string option"
  fd_publishStatus :: publish_status
  fd_publishAttempts :: nat
  fd_canonicalToken :: string
  fd_chainId :: int
  fd_buyVenue :: string
  fd_sellVenue :: string
  fd_buyPoolAddr :: string
  fd_sellPoolAddr :: string
  fd_spreadBps :: int
  fd_grossProfitUsd :: rat
  fd_netProfitUsd :: rat
  fd_feesUsd :: rat
  fd_volume1hUsd :: "rat option"
  fd_observedAt :: int

definition get_finding :: "string \<Rightarrow> finding list \<Rightarrow> finding option" where
  "get_finding i fs = get_row fd_id i fs"

text \<open>\<open>toFixed(n)\<close>, read back as a number: halves go away from zero.\<close>

definition js_toFixed :: "nat \<Rightarrow> rat \<Rightarrow> rat" where
  "js_toFixed n q = (if q < 0 then - (of_int \<lfloor>- q * 10 ^ n + 1 / 2\<rfloor> / 10 ^ n) else of_int \<lfloor>q * 10 ^ n + 1 / 2\<rfloor> / 10 ^ n)"

definition writeFinding :: "string \<Rightarrow> cross_spread \<Rightarrow> rat option \<Rightarrow> string \<Rightarrow> int \<Rightarrow> finding" where
  "writeFinding instanceId x volume1hUsd newId now =
     \<lparr> fd_id = newId, fd_instanceId = instanceId, fd_opportunityId = None, fd_publishStatus = F_pending,
       fd_publishAttempts = 0, fd_canonicalToken = xs_canonicalToken x, fd_chainId = xs_chainId x,
       fd_buyVenue = xs_buyVenue x, fd_sellVenue = xs_sellVenue x, fd_buyPoolAddr = xs_buyPoolAddress x,
       fd_sellPoolAddr = xs_sellPoolAddress x, fd_spreadBps = xs_spreadBps x,
       fd_grossProfitUsd = js_toFixed 6 (xs_grossProfitUsd x), fd_netProfitUsd = js_toFixed 6 (xs_netProfitUsd x),
       fd_feesUsd = js_toFixed 6 (xs_feesUsd x), fd_volume1hUsd = map_option (js_toFixed 8) volume1hUsd,
       fd_observedAt = now \<rparr>"

section \<open>Publication\<close>

definition deriveInstrumentKey :: "cross_spread \<Rightarrow> string" where
  "deriveInstrumentKey x = ''arb:'' @ string_of_int (xs_chainId x) @ '':'' @ xs_token0 x @ ''-'' @ xs_token1 x"

definition buildPayload :: "finding \<Rightarrow> cross_spread \<Rightarrow> (string \<times> json) list" where
  "buildPayload f x =
     [(''opportunityId'', JStr (fd_id f)), (''instrumentKey'', JStr (deriveInstrumentKey x)), (''routeKey'', JNull),
      (''sourceModule'', JStr ''scanner-service''), (''spreadBps'', JNum (of_int (xs_spreadBps x))),
      (''grossProfitUsd'', JNum (xs_grossProfitUsd x)), (''netProfitUsd'', JNum (xs_netProfitUsd x)),
      (''feesUsd'', JNum (xs_feesUsd x)),
      (''volumeUsd'', case fd_volume1hUsd f of None \<Rightarrow> JNull | Some v \<Rightarrow> JNum v),
      (''buyVenue'', JStr (xs_buyVenue x)), (''sellVenue'', JStr (xs_sellVenue x)),
      (''chainId'', JNum (of_int (xs_chainId x))), (''token'', JStr (xs_canonicalToken x)),
      (''quoteAsset'', JStr (xs_token1 x)),
      (''evidence'', JObj [(''buyPoolAddress'', JStr (xs_buyPoolAddress x)), (''sellPoolAddress'', JStr (xs_sellPoolAddress x)),
         (''buyPrice'', JNum (xs_buyPrice x)), (''sellPrice'', JNum (xs_sellPrice x)), (''gasUsd'', JNum (xs_gasUsd x))])]"

definition markPublished :: "string \<Rightarrow> finding \<Rightarrow> finding" where
  "markPublished oppId f = f\<lparr>fd_opportunityId := Some oppId, fd_publishStatus := F_published, fd_publishAttempts := fd_publishAttempts f + 1\<rparr>"

definition markFindingFailed :: "finding \<Rightarrow> finding" where
  "markFindingFailed f = f\<lparr>fd_publishStatus := F_failed, fd_publishAttempts := fd_publishAttempts f + 1\<rparr>"

text \<open>
  \<open>publish\<close>: \<open>post\<close> sends the body to the opportunity service and gives its answer. The row is saved
  either way; \<open>None\<close> is a failure.
\<close>

definition publish ::
  "string option \<Rightarrow> (create_opportunity_dto \<Rightarrow> 'w \<Rightarrow> http_response \<times> 'w) \<Rightarrow> string \<Rightarrow> finding \<Rightarrow> cross_spread
     \<Rightarrow> finding list \<Rightarrow> 'w \<Rightarrow> string option \<times> finding list \<times> 'w" where
  "publish base post correlationId f x fs w =
     (let failed = save_row fd_id (markFindingFailed f) fs
      in if (case map_option js_trim base of None \<Rightarrow> True | Some b \<Rightarrow> b = []) then (None, failed, w)
         else case post \<lparr> co_correlationId = Some correlationId, co_payload = Some (buildPayload f x) \<rparr> w of
           (Unreachable, w') \<Rightarrow> (None, failed, w')
         | (Response st body, w') \<Rightarrow>
             (if \<not> http_ok st then (None, failed, w')
              else case Option.bind body (\<lambda>b. jnonempty_str (jget b ''id'')) of
                None \<Rightarrow> (None, failed, w')
              | Some i \<Rightarrow> (Some i, save_row fd_id (markPublished i f) fs, w')))"

section \<open>The detection cycle\<close>

record scan_instance =
  si_id :: string
  si_network :: string
  si_filters :: "scanner_filters option"
  si_poolWhitelist :: "string list"

definition resolveChainId :: "string \<Rightarrow> int option" where
  "resolveChainId network =
     (let n = js_lower network
      in if n = ''arbitrum'' then Some 42161 else if n = ''base'' then Some 8453
         else if n = ''bnb'' \<or> n = ''bsc'' then Some 56
         else if n = ''ethereum'' \<or> n = ''eth'' \<or> n = ''mainnet'' then Some 1
         else if n = ''optimism'' \<or> n = ''op'' then Some 10 else None)"

text \<open>\<open>readInstancePools\<close>; \<open>read\<close> is \<open>readPool\<close> of a chain and an address.\<close>

definition readInstancePools :: "(int \<Rightarrow> string \<Rightarrow> pool_snapshot option) \<Rightarrow> scan_instance \<Rightarrow> pool_snapshot list" where
  "readInstancePools read inst =
     (case resolveChainId (si_network inst) of
        None \<Rightarrow> []
      | Some chainId \<Rightarrow> List.map_filter (read chainId) (si_poolWhitelist inst))"

definition no_filters :: scanner_filters where
  "no_filters = \<lparr> sf_minSpreadBps = None, sf_minPoolLiquidityUsd = None, sf_minLiquidityUsd = None, sf_volumeRange = None,
     sf_blacklistTokens = None, sf_allowedChains = None, sf_quoteAssets = None \<rparr>"

definition filters_of :: "scan_instance \<Rightarrow> scanner_filters" where
  "filters_of inst = (case si_filters inst of None \<Rightarrow> no_filters | Some f \<Rightarrow> f)"

text \<open>
  \<open>readVolume\<close> as the cycle calls it: the argument is the spread, which has no \<open>family\<close>, so neither
  of the two ways of reading a volume is taken and the volume is \<open>null\<close>.
\<close>

definition readVolume :: "pool_family option \<Rightarrow> (pool_family \<Rightarrow> rat option) \<Rightarrow> rat option" where
  "readVolume family by_family = (case family of None \<Rightarrow> None | Some f \<Rightarrow> by_family f)"

record scan_state =
  ss_findings :: "finding list"
  ss_emitted :: emitted

record scan_result =
  cy_spreadsDetected :: nat
  cy_findingsWritten :: nat
  cy_findingsFiltered :: nat

record scan_env =
  sn_nativeUsd :: jsnum              \<comment> \<open>\<open>SCANNER_NATIVE_USD\<close>\<close>
  sn_cooldown :: "string option"     \<comment> \<open>\<open>SCANNER_DEDUP_COOLDOWN_MS\<close>\<close>
  sn_baseUrl :: "string option"      \<comment> \<open>\<open>OPPORTUNITY_SERVICE_URL\<close>\<close>
  sn_now :: "nat \<Rightarrow> int"             \<comment> \<open>the clock at the k-th pair\<close>
  sn_newId :: "nat \<Rightarrow> string"
  sn_correlationId :: "nat \<Rightarrow> string"
  sn_volume :: "nat \<Rightarrow> pool_family \<Rightarrow> rat option"

text \<open>The loop over the pairs from the k-th one on.\<close>

fun cycle_pairs ::
  "scan_env \<Rightarrow> (nat \<Rightarrow> create_opportunity_dto \<Rightarrow> 'w \<Rightarrow> http_response \<times> 'w) \<Rightarrow> scan_instance \<Rightarrow> nat \<Rightarrow> pool_snapshot list list
     \<Rightarrow> scan_result \<Rightarrow> scan_state \<Rightarrow> 'w \<Rightarrow> scan_result \<times> scan_state \<times> 'w" where
  "cycle_pairs e post inst k [] r s w = (r, s, w)"
| "cycle_pairs e post inst k (g # gs) r s w =
     (let f = filters_of inst;
          quoteUsd = (case g of [] \<Rightarrow> sn_nativeUsd e | p # _ \<Rightarrow> resolveQuoteUsd (ps_token0 p) (ps_token1 p) (sn_nativeUsd e))
      in case detect g 0 1000 (sf_minPoolLiquidityUsd f) quoteUsd of
           None \<Rightarrow> cycle_pairs e post inst (k + 1) gs r s w
         | Some x \<Rightarrow>
             (let r1 = r\<lparr>cy_spreadsDetected := cy_spreadsDetected r + 1\<rparr>;
                  volumeEnabled = (case sf_volumeRange f of None \<Rightarrow> False | Some vr \<Rightarrow> vr_enabled vr = Some True);
                  volume = (if volumeEnabled then readVolume None (sn_volume e k) else None)
              in if firstFailing x volume f \<noteq> None
                 then cycle_pairs e post inst (k + 1) gs (r1\<lparr>cy_findingsFiltered := cy_findingsFiltered r1 + 1\<rparr>) s w
                 else case shouldEmit (resolveCooldownMs (sn_cooldown e)) x (sn_now e k) (ss_emitted s) of
                   (False, m) \<Rightarrow> cycle_pairs e post inst (k + 1) gs r1 (s\<lparr>ss_emitted := m\<rparr>) w
                 | (True, m) \<Rightarrow>
                     (let row = writeFinding (si_id inst) x volume (sn_newId e k) (sn_now e k);
                          fs = save_row fd_id row (ss_findings s)
                      in case publish (sn_baseUrl e) (post k) (sn_correlationId e k) row x fs w of
                           (_, fs', w') \<Rightarrow>
                             cycle_pairs e post inst (k + 1) gs (r1\<lparr>cy_findingsWritten := cy_findingsWritten r1 + 1\<rparr>)
                               \<lparr> ss_findings = fs', ss_emitted = m \<rparr> w')))"

definition runScanCycle ::
  "scan_env \<Rightarrow> (nat \<Rightarrow> create_opportunity_dto \<Rightarrow> 'w \<Rightarrow> http_response \<times> 'w) \<Rightarrow> (int \<Rightarrow> string \<Rightarrow> pool_snapshot option)
     \<Rightarrow> scan_instance \<Rightarrow> scan_state \<Rightarrow> 'w \<Rightarrow> scan_result \<times> scan_state \<times> 'w" where
  "runScanCycle e post read inst s w =
     (let pools = readInstancePools read inst; r = \<lparr> cy_spreadsDetected = 0, cy_findingsWritten = 0, cy_findingsFiltered = 0 \<rparr>
      in if pools = [] then (r, s, w) else cycle_pairs e post inst 0 (groupByPair pools) r s w)"

section \<open>Orphans, retention, reads\<close>

text \<open>The spread of a stored row: the pool stands in for the base token, the prices are gone.\<close>

definition reconstructSpread :: "finding \<Rightarrow> cross_spread" where
  "reconstructSpread f =
     \<lparr> xs_chainId = fd_chainId f, xs_canonicalToken = fd_canonicalToken f, xs_token0 = fd_buyPoolAddr f,
       xs_token1 = fd_canonicalToken f, xs_buyVenue = fd_buyVenue f, xs_buyPoolAddress = fd_buyPoolAddr f, xs_buyPrice = 0,
       xs_sellVenue = fd_sellVenue f, xs_sellPoolAddress = fd_sellPoolAddr f, xs_sellPrice = 0,
       xs_spreadBps = fd_spreadBps f, xs_feesUsd = fd_feesUsd f, xs_gasUsd = 0,
       xs_grossProfitUsd = fd_grossProfitUsd f, xs_netProfitUsd = fd_netProfitUsd f \<rparr>"

definition resolveMaxAttempts :: "string option \<Rightarrow> rat" where
  "resolveMaxAttempts raw =
     (case raw of None \<Rightarrow> 5 | Some s \<Rightarrow> (case js_Number s of Fin n \<Rightarrow> if n \<ge> 0 then n else 5 | _ \<Rightarrow> 5))"

definition orphan_batch :: "finding list \<Rightarrow> finding list" where
  "orphan_batch fs = take 50 (sort_key fd_observedAt (filter (\<lambda>f. fd_publishStatus f \<noteq> F_published) fs))"

fun orphan_loop ::
  "string option \<Rightarrow> rat \<Rightarrow> (nat \<Rightarrow> create_opportunity_dto \<Rightarrow> 'w \<Rightarrow> http_response \<times> 'w) \<Rightarrow> (nat \<Rightarrow> string) \<Rightarrow> nat
     \<Rightarrow> finding list \<Rightarrow> finding list \<Rightarrow> 'w \<Rightarrow> nat \<times> finding list \<times> 'w" where
  "orphan_loop base maxAttempts post corr k [] fs w = (0, fs, w)"
| "orphan_loop base maxAttempts post corr k (f # todo) fs w =
     (if of_nat (fd_publishAttempts f) \<ge> maxAttempts then orphan_loop base maxAttempts post corr (k + 1) todo fs w
      else case publish base (post k) (corr k) f (reconstructSpread f) fs w of
        (r, fs1, w1) \<Rightarrow>
          (case orphan_loop base maxAttempts post corr (k + 1) todo fs1 w1 of
             (n, fs2, w2) \<Rightarrow> ((case r of None \<Rightarrow> n | Some _ \<Rightarrow> n + 1), fs2, w2)))"

definition orphan_cycle ::
  "string option \<Rightarrow> string option \<Rightarrow> (nat \<Rightarrow> create_opportunity_dto \<Rightarrow> 'w \<Rightarrow> http_response \<times> 'w) \<Rightarrow> (nat \<Rightarrow> string)
     \<Rightarrow> finding list \<Rightarrow> 'w \<Rightarrow> nat \<times> finding list \<times> 'w" where
  "orphan_cycle base maxEnv post corr fs w =
     orphan_loop base (resolveMaxAttempts maxEnv) post corr 0 (orphan_batch fs) fs w"

definition republishFinding ::
  "string option \<Rightarrow> (create_opportunity_dto \<Rightarrow> 'w \<Rightarrow> http_response \<times> 'w) \<Rightarrow> string \<Rightarrow> string \<Rightarrow> finding list \<Rightarrow> 'w
     \<Rightarrow> (exn + string option) \<times> finding list \<times> 'w" where
  "republishFinding base post corr i fs w =
     (case get_finding i fs of
        None \<Rightarrow> (Inl (NotFoundException ''Scanner finding not found''), fs, w)
      | Some f \<Rightarrow> (case publish base post corr f (reconstructSpread f) fs w of (r, fs', w') \<Rightarrow> (Inr r, fs', w')))"

definition retention_cycle :: "rat \<Rightarrow> int \<Rightarrow> finding list \<Rightarrow> nat \<times> finding list" where
  "retention_cycle retentionDays now fs =
     (let old = (\<lambda>f. of_int (fd_observedAt f) < of_int now - retentionDays * 86400000)
      in (length (filter old fs), filter (\<lambda>f. \<not> old f) fs))"

definition list_findings :: "string option \<Rightarrow> publish_status option \<Rightarrow> rat \<Rightarrow> finding list \<Rightarrow> finding list" where
  "list_findings instanceId st limit fs =
     take (nat \<lfloor>min 500 (max 1 limit)\<rfloor>) (rev (sort_key fd_observedAt (filter (\<lambda>f.
       (case instanceId of None \<Rightarrow> True | Some i \<Rightarrow> i = [] \<or> fd_instanceId f = i)
       \<and> (case st of None \<Rightarrow> True | Some x \<Rightarrow> fd_publishStatus f = x)) fs)))"

section \<open>The opportunity service behind the publisher\<close>

definition opportunity_view :: "opportunity \<Rightarrow> json" where
  "opportunity_view opp = JObj [(''id'', JStr (op_id opp)), (''state'', JStr ''detected''),
     (''correlationId'', jstr_or_null (op_correlationId opp)), (''riskDecisionId'', jstr_or_null (op_riskDecisionId opp)),
     (''entityVersion'', JNum (of_int (op_entityVersion opp))), (''createdAt'', JIso (op_createdAt opp))]"

text \<open>\<open>POST /opportunities\<close>.\<close>

definition create_opportunity_route :: "string \<Rightarrow> int \<Rightarrow> create_opportunity_dto \<Rightarrow> opp_db \<Rightarrow> http_response \<times> opp_db" where
  "create_opportunity_route newId now dto d =
     (if (case co_correlationId dto of None \<Rightarrow> False | Some c \<Rightarrow> \<not> is_uuid4 c) then (Response 400 None, d)
      else case create_opportunity dto newId now d of
        (Inl _, d') \<Rightarrow> (Response 500 None, d')
      | (Inr opp, d') \<Rightarrow> (Response 201 (Some (opportunity_view opp)), d'))"

end
