(* ===== verification/Scanner_Props.thy ===== *)
theory Scanner_Props
  imports Findings
begin

text \<open>
  Properties of the scanner: what a reported spread is, how often it is reported, and what
  becomes of its finding when the opportunity service does not answer.
\<close>

section \<open>Spreads\<close>

lemma in_groupByPair: "g \<in> set (groupByPair pools) \<longleftrightarrow> (\<exists>p \<in> set pools. g = filter (\<lambda>q. pair_key q = pair_key p) pools)"
  by (auto simp: groupByPair_def)

lemma best_of_maximal:
  "best_of best f gs = Some x \<Longrightarrow>
     (best = Some x \<or> (\<exists>g \<in> set gs. f g = Some x))
     \<and> (\<forall>b. best = Some b \<longrightarrow> xs_netProfitUsd b \<le> xs_netProfitUsd x)
     \<and> (\<forall>g \<in> set gs. \<forall>y. 2 \<le> length g \<longrightarrow> f g = Some y \<longrightarrow> xs_netProfitUsd y \<le> xs_netProfitUsd x)"
  by (induction best f gs rule: best_of.induct) (force split: if_splits option.splits)+

lemma eligible_subset: "set (eligible_pools m q ps) \<subseteq> set ps" "length (eligible_pools m q ps) \<le> length ps"
  by (auto simp: eligible_pools_def split: option.splits)

lemma sort_key_ends:
  assumes "ps \<noteq> []"
  shows "hd (sort_key f ps) \<in> set ps" "last (sort_key f ps) \<in> set ps"
    "p \<in> set ps \<Longrightarrow> f (hd (sort_key f ps)) \<le> f p" "p \<in> set ps \<Longrightarrow> f p \<le> f (last (sort_key f ps))"
proof -
  let ?s = "sort_key f ps"
  have ne: "?s \<noteq> []" using assms by (metis length_0_conv length_sort)
  show "hd ?s \<in> set ps" "last ?s \<in> set ps" using hd_in_set [OF ne] last_in_set [OF ne] by simp_all
  have s: "sorted (map f ?s)" by simp
  obtain a as where c: "?s = a # as" using ne by (cases ?s) auto
  obtain b bs where d: "?s = bs @ [b]" using ne by (cases ?s rule: rev_cases) auto
  assume p: "p \<in> set ps"
  then have "p \<in> set ?s" by simp
  then show "f (hd ?s) \<le> f p" using s unfolding c by auto
  from \<open>p \<in> set ?s\<close> show "f p \<le> f (last ?s)" using s unfolding d by (auto simp: sorted_append)
qed

definition spread_between :: "rat \<Rightarrow> rat \<Rightarrow> pool_snapshot \<Rightarrow> pool_snapshot \<Rightarrow> cross_spread \<Rightarrow> bool" where
  "spread_between gasUsd notionalUsd buy sell x \<longleftrightarrow>
     ps_venueKey buy \<noteq> ps_venueKey sell \<and> 0 < ps_quotePerBase buy \<and> ps_quotePerBase buy < ps_quotePerBase sell
     \<and> xs_chainId x = ps_chainId buy \<and> xs_token0 x = ps_token0 buy \<and> xs_token1 x = ps_token1 buy
     \<and> (xs_buyVenue x, xs_buyPoolAddress x, xs_buyPrice x) = (ps_venueKey buy, ps_poolAddress buy, ps_quotePerBase buy)
     \<and> (xs_sellVenue x, xs_sellPoolAddress x, xs_sellPrice x) = (ps_venueKey sell, ps_poolAddress sell, ps_quotePerBase sell)
     \<and> 0 < xs_spreadBps x
     \<and> \<bar>of_int (xs_spreadBps x) - (ps_quotePerBase sell - ps_quotePerBase buy) / ps_quotePerBase buy * 10000\<bar> \<le> 1 / 2
     \<and> xs_netProfitUsd x = notionalUsd * of_int (xs_spreadBps x) / 10000
         - notionalUsd * (ps_feeBps buy + ps_feeBps sell) / 10000 - gasUsd"

lemma js_round_near: "\<bar>of_int (js_round q) - q\<bar> \<le> 1 / 2"
  unfolding js_round_def by linarith

lemma js_round_zero: "js_round 0 = 0"
  by (simp add: js_round_def floor_eq_iff)

lemma best_spread_cases:
  assumes "bestSpreadForPair ps gasUsd notionalUsd m q = Some x"
  shows "\<exists>buy \<in> set (eligible_pools m q ps). \<exists>sell \<in> set (eligible_pools m q ps). spread_between gasUsd notionalUsd buy sell x
    \<and> (\<forall>p \<in> set (eligible_pools m q ps). ps_quotePerBase buy \<le> ps_quotePerBase p \<and> ps_quotePerBase p \<le> ps_quotePerBase sell)"
proof -
  let ?e = "eligible_pools m q ps"
  define buy sell where "buy = hd (sort_key ps_quotePerBase ?e)" and "sell = last (sort_key ps_quotePerBase ?e)"
  define bps where "bps = spreadBps (ps_quotePerBase buy) (ps_quotePerBase sell)"
  have ne: "?e \<noteq> []" using assms by (auto simp: bestSpreadForPair_def Let_def)
  note ends = sort_key_ends [where f = ps_quotePerBase, OF ne, folded buy_def sell_def]
  have g: "ps_venueKey buy \<noteq> ps_venueKey sell" "0 < ps_quotePerBase buy" "0 < ps_quotePerBase sell" "0 < bps"
    and x: "x = \<lparr> xs_chainId = ps_chainId buy, xs_canonicalToken = ps_token1 buy, xs_token0 = ps_token0 buy,
        xs_token1 = ps_token1 buy, xs_buyVenue = ps_venueKey buy, xs_buyPoolAddress = ps_poolAddress buy,
        xs_buyPrice = ps_quotePerBase buy, xs_sellVenue = ps_venueKey sell, xs_sellPoolAddress = ps_poolAddress sell,
        xs_sellPrice = ps_quotePerBase sell, xs_spreadBps = bps,
        xs_feesUsd = notionalUsd * (ps_feeBps buy + ps_feeBps sell) / 10000, xs_gasUsd = gasUsd,
        xs_grossProfitUsd = notionalUsd * of_int bps / 10000,
        xs_netProfitUsd = notionalUsd * of_int bps / 10000 - notionalUsd * (ps_feeBps buy + ps_feeBps sell) / 10000 - gasUsd \<rparr>"
    using assms by (auto simp: bestSpreadForPair_def Let_def buy_def sell_def bps_def split: if_splits)
  have "ps_quotePerBase buy \<noteq> ps_quotePerBase sell"
    using g(4) js_round_zero by (auto simp: bps_def spreadBps_def split: if_splits)
  then have lt: "ps_quotePerBase buy < ps_quotePerBase sell" using ends(3) [OF ends(2)] by simp
  have "bps = js_round ((ps_quotePerBase sell - ps_quotePerBase buy) / ps_quotePerBase buy * 10000)"
    using g(2) by (simp add: bps_def spreadBps_def)
  then have near: "\<bar>of_int bps - (ps_quotePerBase sell - ps_quotePerBase buy) / ps_quotePerBase buy * 10000\<bar> \<le> 1 / 2"
    using js_round_near by metis
  have "spread_between gasUsd notionalUsd buy sell x" using g lt near by (simp add: spread_between_def x)
  then show ?thesis using ends by blast
qed


definition ex_pool :: "string \<Rightarrow> string \<Rightarrow> rat \<Rightarrow> pool_snapshot" where
  "ex_pool venue addr price = \<lparr> ps_chainId = 42161, ps_poolAddress = addr, ps_venueKey = venue, ps_family = fam_v2,
     ps_token0 = ''0xa'', ps_token1 = ''0xb'', ps_decimals0 = 18, ps_decimals1 = 6, ps_feeBps = 30, ps_quotePerBase = price,
     ps_liquidityUsd = None, ps_reserve0 = Some 1, ps_reserve1 = Some 1, ps_readAt = 0 \<rparr>"

abbreviation ex_pools :: "pool_snapshot list" where
  "ex_pools \<equiv> [ex_pool ''uniswap-v2'' ''p1'' 2040, ex_pool ''sushiswap'' ''p2'' 2000]"

lemma ex_detect:
  "detect ex_pools 0 1000 None (Fin 0) = Some \<lparr> xs_chainId = 42161, xs_canonicalToken = ''0xb'', xs_token0 = ''0xa'', xs_token1 = ''0xb'',
     xs_buyVenue = ''sushiswap'', xs_buyPoolAddress = ''p2'', xs_buyPrice = 2000, xs_sellVenue = ''uniswap-v2'',
     xs_sellPoolAddress = ''p1'', xs_sellPrice = 2040, xs_spreadBps = 200, xs_feesUsd = 6, xs_gasUsd = 0,
     xs_grossProfitUsd = 20, xs_netProfitUsd = 14 \<rparr>"
  by (simp add: detect_def groupByPair_def ex_pool_def pair_key_def bestSpreadForPair_def eligible_pools_def filter_on_def
      spreadBps_def js_round_def Let_def floor_eq_iff)


section \<open>The cooldown\<close>

text \<open>The spreads a detector sees, each with its time: the times of those it emits, by key.\<close>

fun emissions :: "rat \<Rightarrow> (cross_spread \<times> int) list \<Rightarrow> emitted \<Rightarrow> (string \<times> int) list \<times> emitted" where
  "emissions cooldown [] m = ([], m)"
| "emissions cooldown ((x, now) # xs) m =
     (case shouldEmit cooldown x now m of (ok, m1) \<Rightarrow>
        (case emissions cooldown xs m1 of (es, m2) \<Rightarrow> ((if ok then [(dedup_key x, now)] else []) @ es, m2)))"

definition spaced :: "rat \<Rightarrow> string \<times> int \<Rightarrow> string \<times> int \<Rightarrow> bool" where
  "spaced cooldown e e' \<longleftrightarrow> (fst e = fst e' \<longrightarrow> cooldown \<le> of_int (snd e' - snd e))"

lemma emissions_after:
  assumes "0 \<le> cooldown"
  shows "(\<forall>e \<in> set (fst (emissions cooldown xs m)). \<forall>t0. m (fst e) = Some t0 \<longrightarrow> spaced cooldown (fst e, t0) e)
    \<and> sorted_wrt (spaced cooldown) (fst (emissions cooldown xs m))"
proof (induction xs arbitrary: m)
  case (Cons a xs)
  obtain x now where a: "a = (x, now)" by (rule prod.exhaust)
  show ?case
  proof (cases "fst (shouldEmit cooldown x now m)")
    case False
    then have "shouldEmit cooldown x now m = (False, m)" by (auto simp: shouldEmit_def split: if_splits)
    then have "fst (emissions cooldown (a # xs) m) = fst (emissions cooldown xs m)" by (simp add: a split: prod.split)
    with Cons.IH [of m] show ?thesis by simp
  next
    case True
    let ?k = "dedup_key x" and ?m = "m(dedup_key x \<mapsto> now)"
    from True have e: "shouldEmit cooldown x now m = (True, ?m)"
      and c: "\<And>t0. m ?k = Some t0 \<Longrightarrow> cooldown \<le> of_int (now - t0)"
      by (auto simp: shouldEmit_def split: if_splits option.splits)
    define es where "es = fst (emissions cooldown xs ?m)"
    have f: "fst (emissions cooldown (a # xs) m) = (?k, now) # es" by (simp add: a e es_def split: prod.split)
    note ih = Cons.IH [of ?m, folded es_def, THEN conjunct1, THEN bspec, THEN spec, THEN mp]
    have later: "spaced cooldown (?k, now) e" if "e \<in> set es" for e
    proof (cases "fst e = ?k")
      case True
      then show ?thesis using ih [OF that, of now] by (simp add: spaced_def)
    qed (simp add: spaced_def)
    have before: "spaced cooldown (fst e, t0) e" if "e \<in> set es" "m (fst e) = Some t0" for e t0
    proof (cases "fst e = ?k")
      case True
      with later [OF that(1)] c [of t0] that(2) assms show ?thesis by (simp add: spaced_def)
    next
      case False
      then show ?thesis using ih [OF that(1), of t0] that(2) by simp
    qed
    have here: "spaced cooldown (?k, t0) (?k, now)" if "m ?k = Some t0" for t0 using c [OF that] by (simp add: spaced_def)
    show ?thesis unfolding f using later before here Cons.IH [of ?m, folded es_def] by simp
  qed
qed simp

lemma resolveCooldownMs_nonneg: "0 \<le> resolveCooldownMs raw"
  by (auto simp: resolveCooldownMs_def split: option.split jsnum.split)

text \<open>
  One spread is not reported twice within the cooldown. Whatever the detector sees and however
  the clock moves, two emissions with the same key lie at least the configured cooldown apart.
\<close>

theorem emissions_spaced:
  "sorted_wrt (spaced (resolveCooldownMs raw)) (fst (emissions (resolveCooldownMs raw) xs (\<lambda>_. None)))"
  using emissions_after [OF resolveCooldownMs_nonneg, of raw xs "\<lambda>_. None"] by blast

text \<open>The key names neither the chain nor the base token, so a different pair is held back too.\<close>

lemma dedup_suppresses_other_pair:
  assumes "xs_canonicalToken y = xs_canonicalToken x" "xs_buyVenue y = xs_buyVenue x" "xs_sellVenue y = xs_sellVenue x"
    and "fst (shouldEmit cooldown x t m)" and "of_int (t' - t) < cooldown"
  shows "\<not> fst (shouldEmit cooldown y t' (snd (shouldEmit cooldown x t m)))"
  using assms by (auto simp: shouldEmit_def dedup_key_def split: if_splits)

section \<open>Filters\<close>

text \<open>With the volume filter on, the volume is never known and every spread is filtered.\<close>

lemma volume_filter_blocks:
  assumes "sf_volumeRange f = Some vr" "vr_enabled vr = Some True"
  shows "firstFailing x None f \<noteq> None"
  using assms by (simp add: firstFailing_def volume_fails_def)

lemma volume_filter_blocks_all:
  assumes "sf_volumeRange (filters_of inst) = Some vr" "vr_enabled vr = Some True"
  shows "\<exists>r. runScanCycle e post read inst s w = (r, s, w) \<and> cy_findingsWritten r = 0"
proof -
  have "\<exists>r'. cycle_pairs e post inst k gs r s w = (r', s, w) \<and> cy_findingsWritten r' = cy_findingsWritten r" for k gs r
  proof (induction gs arbitrary: k r)
    case (Cons g gs)
    show ?case using volume_filter_blocks [OF assms]
        Cons.IH [of "Suc k" r]
        Cons.IH [of "Suc k" "r\<lparr>cy_spreadsDetected := Suc (cy_spreadsDetected r),
           cy_findingsFiltered := Suc (cy_findingsFiltered r)\<rparr>"]
      by (simp add: Let_def readVolume_def split: option.split)
  qed simp
  from this [where r = "\<lparr> cy_spreadsDetected = 0, cy_findingsWritten = 0, cy_findingsFiltered = 0 \<rparr>"]
  show ?thesis by (fastforce simp: runScanCycle_def Let_def)
qed

definition stored_from :: "scan_env \<Rightarrow> scan_instance \<Rightarrow> pool_snapshot list \<Rightarrow> finding \<Rightarrow> bool" where
  "stored_from e inst pools f \<longleftrightarrow>
     (\<exists>g \<in> set (groupByPair pools). \<exists>q x volume. detect g 0 1000 (sf_minPoolLiquidityUsd (filters_of inst)) q = Some x
        \<and> firstFailing x volume (filters_of inst) = None \<and> fd_instanceId f = si_id inst \<and> fd_chainId f = xs_chainId x
        \<and> fd_spreadBps f = xs_spreadBps x \<and> fd_buyPoolAddr f = xs_buyPoolAddress x \<and> fd_sellPoolAddr f = xs_sellPoolAddress x)"

lemma in_save_rowD: "f \<in> set (save_row key r rs) \<Longrightarrow> f = r \<or> f \<in> set rs"
  by (auto simp: save_row_def split: if_splits)

lemma publish_rows:
  assumes "publish base post corr row x fs w = (res, fs', w')" and "f \<in> set fs'"
  shows "f \<in> set fs \<or> f = markFindingFailed row \<or> (\<exists>i. f = markPublished i row)"
  using assms
  by (auto simp: publish_def Let_def dest!: in_save_rowD split: if_splits option.splits http_response.splits prod.splits)

lemma cycle_pairs_rows:
  assumes "cycle_pairs e post inst k gs r s w = (r', s', w')" and "set gs \<subseteq> set (groupByPair pools)" and "f \<in> set (ss_findings s')"
  shows "f \<in> set (ss_findings s) \<or> stored_from e inst pools f"
  using assms
proof (induction gs arbitrary: k r s w)
  case (Cons g gs)
  let ?f = "filters_of inst" and ?m = "sf_minPoolLiquidityUsd (filters_of inst)"
  have sub: "g \<in> set (groupByPair pools)" "set gs \<subseteq> set (groupByPair pools)" using Cons.prems(2) by auto
  note ih = Cons.IH [OF _ sub(2) Cons.prems(3)]
  define q where "q = (case g of [] \<Rightarrow> sn_nativeUsd e | p # _ \<Rightarrow> resolveQuoteUsd (ps_token0 p) (ps_token1 p) (sn_nativeUsd e))"
  show ?case
  proof (cases "detect g 0 1000 ?m q")
    case None
    with Cons.prems(1) ih show ?thesis by (auto simp: q_def Let_def)
  next
    case (Some x)
    define volume where "volume = (if (case sf_volumeRange ?f of None \<Rightarrow> False | Some vr \<Rightarrow> vr_enabled vr = Some True)
      then readVolume None (sn_volume e k) else None)"
    note d = Some [unfolded q_def]
    show ?thesis
    proof (cases "firstFailing x volume ?f = None")
      case False
      with Cons.prems(1) d ih show ?thesis by (auto simp: volume_def Let_def)
    next
      case pass: True
      obtain ok m where sh: "shouldEmit (resolveCooldownMs (sn_cooldown e)) x (sn_now e k) (ss_emitted s) = (ok, m)" by (rule prod.exhaust)
      define row where "row = writeFinding (si_id inst) x volume (sn_newId e k) (sn_now e k)"
      define fs where "fs = save_row fd_id row (ss_findings s)"
      obtain res fs' w1 where pub: "publish (sn_baseUrl e) (post k) (sn_correlationId e k) row x fs w = (res, fs', w1)" by (rule prod_cases3)
      show ?thesis
      proof (cases ok)
        case False
        with Cons.prems(1) d pass sh ih [of "k + 1" _ "s\<lparr>ss_emitted := m\<rparr>" w] show ?thesis
          by (simp add: volume_def [symmetric] Let_def)
      next
        case True
        have "f \<in> set fs' \<or> stored_from e inst pools f"
          using Cons.prems(1) d pass sh True pub ih [of "k + 1" _ "\<lparr> ss_findings = fs', ss_emitted = m \<rparr>" w1]
          by (simp add: volume_def [symmetric] row_def [symmetric] fs_def [symmetric] Let_def)
        moreover have "stored_from e inst pools f" if "f \<in> {row, markFindingFailed row} \<or> (\<exists>i. f = markPublished i row)"
        proof -
          have "fd_instanceId f = si_id inst" "fd_chainId f = xs_chainId x" "fd_spreadBps f = xs_spreadBps x"
            "fd_buyPoolAddr f = xs_buyPoolAddress x" "fd_sellPoolAddr f = xs_sellPoolAddress x"
            using that by (auto simp: row_def writeFinding_def markFindingFailed_def markPublished_def)
          with Some pass sub(1) show ?thesis unfolding stored_from_def by blast
        qed
        moreover have "set fs \<subseteq> insert row (set (ss_findings s))" unfolding fs_def by (auto dest: in_save_rowD)
        ultimately show ?thesis using publish_rows [OF pub, of f] by blast
      qed
    qed
  qed
qed simp

text \<open>
  What a cycle stores. Every finding that a cycle adds comes from a spread that was detected in
  one pair of the pools it read and that passed every filter of the instance.
\<close>

theorem findings_pass_filters:
  assumes "runScanCycle e post read inst s w = (r, s', w')" and "f \<in> set (ss_findings s')" and "f \<notin> set (ss_findings s)"
  shows "stored_from e inst (readInstancePools read inst) f"
  using assms cycle_pairs_rows [of e post inst 0 "groupByPair (readInstancePools read inst)" _ s w r s' w' "readInstancePools read inst" f]
  by (auto simp: runScanCycle_def Let_def split: if_splits)

definition ex_inst :: scan_instance where
  "ex_inst = \<lparr> si_id = ''i'', si_network = ''arbitrum'', si_filters = None, si_poolWhitelist = [''p1'', ''p2''] \<rparr>"

definition ex_scan_env :: scan_env where
  "ex_scan_env = \<lparr> sn_nativeUsd = Fin 0, sn_cooldown = None, sn_baseUrl = None, sn_now = (\<lambda>_. 0), sn_newId = (\<lambda>_. ''f''),
     sn_correlationId = (\<lambda>_. ''c''), sn_volume = (\<lambda>_ _. None) \<rparr>"

definition ex_read :: "int \<Rightarrow> string \<Rightarrow> pool_snapshot option" where
  "ex_read chainId addr = map_of (map (\<lambda>p. (ps_poolAddress p, p)) ex_pools) addr"

lemma ex_reads: "readInstancePools ex_read ex_inst = ex_pools"
  by (simp add: readInstancePools_def ex_inst_def resolveChainId_def js_lower_def ex_read_def ex_pool_def List.map_filter_def)

lemma ex_groups: "groupByPair ex_pools = [ex_pools]"
  by (simp add: groupByPair_def ex_pool_def pair_key_def)

theorem findings_pass_filters_witness:
  "\<exists>r s' f. runScanCycle ex_scan_env (\<lambda>_ _ w. (Unreachable, w)) ex_read ex_inst \<lparr> ss_findings = [], ss_emitted = (\<lambda>_. None) \<rparr> () = (r, s', ())
    \<and> f \<in> set (ss_findings s') \<and> stored_from ex_scan_env ex_inst ex_pools f"
proof -
  let ?s = "\<lparr> ss_findings = [], ss_emitted = (\<lambda>_. None) \<rparr>"
  obtain r s' w' where run: "runScanCycle ex_scan_env (\<lambda>_ _ w. (Unreachable, w)) ex_read ex_inst ?s () = (r, s', w')"
    by (rule prod_cases3)
  have q: "resolveQuoteUsd (ps_token0 (ex_pool v a p)) (ps_token1 (ex_pool v a p)) (Fin 0) = Fin 0" for v a p
    by (simp add: ex_pool_def resolveQuoteUsd_def STABLE_QUOTE_ADDRESSES_def js_lower_def)
  have "ss_findings s' \<noteq> []"
    using run unfolding runScanCycle_def ex_reads Let_def
    by (auto simp: ex_groups q ex_detect ex_scan_env_def filters_of_def ex_inst_def no_filters_def firstFailing_def
        shouldEmit_def publish_def save_row_def markFindingFailed_def Let_def)
  then obtain f where "f \<in> set (ss_findings s')" by (cases "ss_findings s'") auto
  with findings_pass_filters [OF run this] run show ?thesis by (auto simp: ex_reads)
qed

section \<open>Orphans\<close>

lemma orphan_loop_exhausted:
  "(\<And>f. f \<in> set todo \<Longrightarrow> maxAttempts \<le> of_nat (fd_publishAttempts f))
     \<Longrightarrow> orphan_loop base maxAttempts post corr k todo fs w = (0, fs, w)"
  by (induction todo arbitrary: k) auto

text \<open>
  Exhausted findings block the queue. Once fifty findings older than \<open>t\<close> are unpublished and out
  of attempts, a cycle of the orphan worker posts nothing and changes nothing, whatever the
  opportunity service would answer: findings from \<open>t\<close> on are never published again.
\<close>

theorem orphan_starves:
  assumes "50 \<le> length (filter (\<lambda>f. fd_observedAt f < t) (filter (\<lambda>f. fd_publishStatus f \<noteq> F_published) fs))"
    and "\<And>f. f \<in> set fs \<Longrightarrow> fd_observedAt f < t \<Longrightarrow> fd_publishStatus f \<noteq> F_published
           \<Longrightarrow> resolveMaxAttempts maxEnv \<le> of_nat (fd_publishAttempts f)"
  shows "orphan_cycle base maxEnv post corr fs w = (0, fs, w)"
  unfolding orphan_cycle_def orphan_batch_def
  by (rule orphan_loop_exhausted) (use assms(2) batch_head [OF assms(1)] in blast)

definition ex_finding :: "nat \<Rightarrow> finding" where
  "ex_finding n = \<lparr> fd_id = [char_of n], fd_instanceId = ''i'', fd_opportunityId = None, fd_publishStatus = F_failed,
     fd_publishAttempts = (if n < 50 then 5 else 1), fd_canonicalToken = ''0xb'', fd_chainId = 42161, fd_buyVenue = ''uniswap-v2'',
     fd_sellVenue = ''sushiswap'', fd_buyPoolAddr = ''0xp1'', fd_sellPoolAddr = ''0xp2'', fd_spreadBps = 200,
     fd_grossProfitUsd = 20, fd_netProfitUsd = 14, fd_feesUsd = 6, fd_volume1hUsd = None, fd_observedAt = int n \<rparr>"

lemma ex_batch_size:
  "length (filter (\<lambda>f. fd_observedAt f < 50) (filter (\<lambda>f. fd_publishStatus f \<noteq> F_published) (map ex_finding [0..<51]))) = 50"
  by code_simp

theorem orphan_starves_witness:
  "\<forall>base post corr w. orphan_cycle base None post corr (map ex_finding [0..<51]) w = (0, map ex_finding [0..<51], w)
    \<and> fd_publishAttempts (ex_finding 50) = 1"
proof (intro allI conjI)
  fix base corr and w :: 'w and post :: "nat \<Rightarrow> create_opportunity_dto \<Rightarrow> 'w \<Rightarrow> http_response \<times> 'w"
  show "orphan_cycle base None post corr (map ex_finding [0..<51]) w = (0, map ex_finding [0..<51], w)"
  proof (rule orphan_starves [where t = 50])
    fix f assume "f \<in> set (map ex_finding [0..<51])" "fd_observedAt f < 50"
    then obtain n where "f = ex_finding n" by (simp only: set_map) blast
    with \<open>fd_observedAt f < 50\<close> show "resolveMaxAttempts None \<le> of_nat (fd_publishAttempts f)"
      by (simp add: ex_finding_def resolveMaxAttempts_def)
  qed (simp only: ex_batch_size order_refl)
  show "fd_publishAttempts (ex_finding 50) = 1" by (simp add: ex_finding_def)
qed

section \<open>A lost answer\<close>

text \<open>The request arrives and the answer does not.\<close>

definition answer_lost :: "(create_opportunity_dto \<Rightarrow> opp_db \<Rightarrow> http_response \<times> opp_db) \<Rightarrow> create_opportunity_dto \<Rightarrow> opp_db \<Rightarrow> http_response \<times> opp_db" where
  "answer_lost post dto d = (Unreachable, snd (post dto d))"

abbreviation of_finding :: "string \<Rightarrow> opportunity \<Rightarrow> bool" where
  "of_finding i opp \<equiv> map_of (op_payload opp) ''opportunityId'' = Some (JStr i)"

lemma route_creates:
  assumes "co_correlationId dto = Some c" "is_uuid4 c" "get_opp i d = None"
  shows "\<exists>row. create_opportunity_route i now dto d = (Response 201 (Some (opportunity_view row)), d\<lparr>od_opps := od_opps d @ [row]\<rparr>)
    \<and> op_id row = i \<and> op_payload row = (case co_payload dto of None \<Rightarrow> [] | Some p \<Rightarrow> p)"
  using assms
  by (auto simp: create_opportunity_route_def create_opportunity_def save_opp_def get_opp_def save_row_new Let_def)

text \<open>
  A lost answer duplicates the opportunity. When the first request reaches the opportunity
  service and its answer is lost, the next cycle of the orphan worker posts the finding again: the
  service then holds two opportunities for one finding, and the instrument key of the second has
  the address of the buy pool for the base token.
\<close>

theorem lost_answer_duplicates:
  assumes "js_trim base \<noteq> []" and "is_uuid4 c1" "is_uuid4 c2" and "get_opp i1 d = None" "get_opp i2 d = None"
    and "i1 \<noteq> i2" "i2 \<noteq> []" and "1 < resolveMaxAttempts maxEnv"
    and "row = writeFinding inst x volume findingId t0"
    and "publish (Some base) (answer_lost (create_opportunity_route i1 t1)) c1 row x [row] d = (r, fs1, d1)"
    and "orphan_cycle (Some base) maxEnv (\<lambda>_. create_opportunity_route i2 t2) (\<lambda>_. c2) fs1 d1 = (n, fs2, d2)"
  shows "r = None \<and> n = 1 \<and> map fd_opportunityId fs2 = [Some i2]
    \<and> (\<exists>p1 p2. od_opps d2 = od_opps d @ [p1, p2] \<and> op_id p1 = i1 \<and> op_id p2 = i2 \<and> of_finding findingId p1 \<and> of_finding findingId p2
        \<and> map_of (op_payload p1) ''instrumentKey''
            = Some (JStr (''arb:'' @ string_of_int (xs_chainId x) @ '':'' @ xs_token0 x @ ''-'' @ xs_token1 x))
        \<and> map_of (op_payload p2) ''instrumentKey''
            = Some (JStr (''arb:'' @ string_of_int (xs_chainId x) @ '':'' @ xs_buyPoolAddress x @ ''-'' @ xs_canonicalToken x)))"
proof -
  define row' where "row' = markFindingFailed row"
  let ?dto1 = "\<lparr> co_correlationId = Some c1, co_payload = Some (buildPayload row x) \<rparr>"
  let ?dto2 = "\<lparr> co_correlationId = Some c2, co_payload = Some (buildPayload row' (reconstructSpread row')) \<rparr>"
  obtain p1 where p1: "create_opportunity_route i1 t1 ?dto1 d = (Response 201 (Some (opportunity_view p1)), d\<lparr>od_opps := od_opps d @ [p1]\<rparr>)"
    "op_id p1 = i1" "op_payload p1 = buildPayload row x"
    using route_creates [of ?dto1 c1 i1 d t1] assms(2,4) by auto
  have first: "r = None" "fs1 = [row']" "d1 = d\<lparr>od_opps := od_opps d @ [p1]\<rparr>"
    using assms(1,10) p1(1) by (auto simp: publish_def answer_lost_def row'_def markFindingFailed_def save_row_def Let_def)
  have new: "get_opp i2 d1 = None" using assms(5,6) p1(2) first(3) by (simp add: get_opp_def row_simps)
  obtain p2 where p2: "create_opportunity_route i2 t2 ?dto2 d1 = (Response 201 (Some (opportunity_view p2)), d1\<lparr>od_opps := od_opps d1 @ [p2]\<rparr>)"
    "op_id p2 = i2" "op_payload p2 = buildPayload row' (reconstructSpread row')"
    using route_creates [of ?dto2 c2 i2 d1 t2] assms(3) new by auto
  have row': "fd_publishStatus row' = F_failed" "fd_publishAttempts row' = 1" "fd_id row' = findingId"
    "fd_chainId row' = xs_chainId x" "fd_buyPoolAddr row' = xs_buyPoolAddress x" "fd_canonicalToken row' = xs_canonicalToken x"
    by (simp_all add: row'_def assms(9) writeFinding_def markFindingFailed_def)
  have id: "jnonempty_str (jget (opportunity_view p2) ''id'') = Some i2"
    using assms(7) p2(2) by (auto simp: opportunity_view_def jnonempty_str_def)
  have pub: "publish (Some base) (create_opportunity_route i2 t2) c2 row' (reconstructSpread row') [row'] d1
      = (Some i2, [markPublished i2 row'], d1\<lparr>od_opps := od_opps d1 @ [p2]\<rparr>)"
    using assms(1) p2(1) id by (simp add: publish_def http_ok_def markPublished_def save_row_def Let_def)
  have "n = 1" "fs2 = [markPublished i2 row']" "d2 = d1\<lparr>od_opps := od_opps d1 @ [p2]\<rparr>"
    using assms(8,11) row' pub by (simp_all add: orphan_cycle_def orphan_batch_def first(2))
  with first p1 p2 row' show ?thesis
    by (simp add: markPublished_def buildPayload_def deriveInstrumentKey_def reconstructSpread_def assms(9) writeFinding_def)
qed

definition ex_spread :: cross_spread where
  "ex_spread = \<lparr> xs_chainId = 42161, xs_canonicalToken = ''0xb'', xs_token0 = ''0xa'', xs_token1 = ''0xb'',
     xs_buyVenue = ''sushiswap'', xs_buyPoolAddress = ''0xp2'', xs_buyPrice = 2000, xs_sellVenue = ''uniswap-v2'',
     xs_sellPoolAddress = ''0xp1'', xs_sellPrice = 2040, xs_spreadBps = 200, xs_feesUsd = 6, xs_gasUsd = 0,
     xs_grossProfitUsd = 20, xs_netProfitUsd = 14 \<rparr>"

abbreviation ex_scan_uuid :: string where
  "ex_scan_uuid \<equiv> ''11111111-1111-4111-8111-111111111111''"

theorem lost_answer_duplicates_witness:
  "\<exists>fs1 d1 fs2 d2.
     publish (Some ''http://o'') (answer_lost (create_opportunity_route ''o1'' 1)) ex_scan_uuid (writeFinding ''i'' ex_spread None ''f1'' 0)
       ex_spread [writeFinding ''i'' ex_spread None ''f1'' 0] \<lparr> od_opps = [], od_outbox = [], od_inbox = [] \<rparr> = (None, fs1, d1)
     \<and> orphan_cycle (Some ''http://o'') None (\<lambda>_. create_opportunity_route ''o2'' 2) (\<lambda>_. ex_scan_uuid) fs1 d1 = (1, fs2, d2)
     \<and> map op_id (od_opps d2) = [''o1'', ''o2'']"
proof -
  let ?d = "\<lparr> od_opps = [], od_outbox = [], od_inbox = [] \<rparr>" and ?row = "writeFinding ''i'' ex_spread None ''f1'' 0"
  have u: "is_uuid4 ex_scan_uuid" "js_trim ''http://o'' \<noteq> []" by code_simp+
  obtain r fs1 d1 where 1: "publish (Some ''http://o'') (answer_lost (create_opportunity_route ''o1'' 1)) ex_scan_uuid ?row ex_spread [?row] ?d
    = (r, fs1, d1)" by (rule prod_cases3)
  obtain n fs2 d2 where 2: "orphan_cycle (Some ''http://o'') None (\<lambda>_. create_opportunity_route ''o2'' 2) (\<lambda>_. ex_scan_uuid) fs1 d1 = (n, fs2, d2)"
    by (rule prod_cases3)
  have "1 < resolveMaxAttempts None" by (simp add: resolveMaxAttempts_def)
  from lost_answer_duplicates [OF u(2,1,1) _ _ _ _ this refl 1 2]
  show ?thesis using 1 2 by (auto simp: get_opp_def get_row_def)
qed

end
