(* ===== verification/Config_Service.thy ===== *)
theory Config_Service
  imports Plans
begin

text \<open>
  The configuration service (\<open>apps/config-service\<close>): versioned rows of \<open>policy_configurations\<close> in
  scopes, the reads through the Redis cache (\<open>configurations.service.ts\<close>), and the view and the
  functions of the database they query (migrations 020, 024 and 037). An operation runs without
  interleaving. Cache entries are values, not their JSON text, and the three families of cache keys
  (one configuration, lists, promotions) are kept apart.
\<close>

section \<open>State\<close>

datatype scope_type = S_global | S_environment | S_tenant

fun scope_text :: "scope_type \<Rightarrow> string" where
  "scope_text S_global = ''global''"
| "scope_text S_environment = ''environment''"
| "scope_text S_tenant = ''tenant''"

record cfg_row =
  cg_id :: string
  cg_configKey :: string
  cg_configValue :: string
  cg_isSensitive :: bool
  cg_entityVersion :: int
  cg_createdAt :: int
  cg_updatedAt :: int
  cg_updatedBy :: "string option"
  cg_scopeType :: scope_type
  cg_scopeValue :: "string option"
  cg_isActive :: bool

record cfg_dto =
  cd_id :: string
  cd_configKey :: string
  cd_configValue :: string
  cd_isSensitive :: bool
  cd_entityVersion :: int
  cd_createdAt :: int
  cd_updatedAt :: int
  cd_updatedBy :: "string option"
  cd_scopeType :: scope_type
  cd_scopeValue :: "string option"

definition entityToDto :: "cfg_row \<Rightarrow> cfg_dto" where
  "entityToDto r = \<lparr> cd_id = cg_id r, cd_configKey = cg_configKey r, cd_configValue = cg_configValue r,
     cd_isSensitive = cg_isSensitive r, cd_entityVersion = cg_entityVersion r, cd_createdAt = cg_createdAt r,
     cd_updatedAt = cg_updatedAt r, cd_updatedBy = cg_updatedBy r, cd_scopeType = cg_scopeType r, cd_scopeValue = cg_scopeValue r \<rparr>"

datatype cache_base = B_all | B_effective string | B_key string

text \<open>The text of a cache key determines these parts as long as keys and scope values have no colon.\<close>

datatype cache_key = Plain cache_base | Scoped scope_type string cache_base

text \<open>
  \<open>cw_rank\<close> is the order in which the database returns rows that the query does not order. A cache
  entry carries the time at which it expires.
\<close>

record config_world =
  cw_rows :: "cfg_row list"
  cw_rank :: "string \<Rightarrow> nat"
  cw_collate :: "string \<Rightarrow> nat"           \<comment> \<open>the position of a key in the collation\<close>
  cw_client :: bool                        \<comment> \<open>the service has a Redis client\<close>
  cw_one :: "cache_key \<rightharpoonup> cfg_dto \<times> int"
  cw_many :: "cache_key \<rightharpoonup> cfg_dto list \<times> int"
  cw_promoted :: "string \<rightharpoonup> cfg_dto option \<times> int"
  cw_audit :: "audit_entry list"

text \<open>The surroundings of one operation: which Redis commands and audit calls are answered, the time and the ids.\<close>

record cfg_env =
  ce_redis :: "nat \<Rightarrow> bool"
  ce_audit :: "nat \<Rightarrow> bool"
  ce_now :: int
  ce_newId :: string
  ce_correlationId :: string

section \<open>Database\<close>

text \<open>SQL equality with \<open>NULL\<close>, and \<open>IS NOT DISTINCT FROM\<close> is equality of the options.\<close>

definition sql_eq :: "string option \<Rightarrow> string option \<Rightarrow> bool" where
  "sql_eq a b = (case (a, b) of (Some x, Some y) \<Rightarrow> x = y | _ \<Rightarrow> False)"

definition first_by :: "(string \<Rightarrow> nat) \<Rightarrow> cfg_row list \<Rightarrow> cfg_row option" where
  "first_by rank rs = find (\<lambda>r. \<forall>x \<in> set rs. rank (cg_id r) \<le> rank (cg_id x)) rs"

definition in_scope :: "string \<Rightarrow> scope_type \<Rightarrow> string option \<Rightarrow> cfg_row \<Rightarrow> bool" where
  "in_scope k st sv r \<longleftrightarrow> cg_configKey r = k \<and> cg_scopeType r = st \<and> cg_scopeValue r = sv"

text \<open>The row of a scope in \<open>v_policy_configurations_latest\<close>, and the view.\<close>

definition latest_of :: "(string \<Rightarrow> nat) \<Rightarrow> cfg_row list \<Rightarrow> string \<Rightarrow> scope_type \<Rightarrow> string option \<Rightarrow> cfg_row option" where
  "latest_of rank rs k st sv =
     (let act = filter (\<lambda>r. cg_isActive r \<and> in_scope k st sv r) rs
      in first_by rank (filter (\<lambda>r. \<forall>x \<in> set act. cg_entityVersion x \<le> cg_entityVersion r) act))"

definition v_latest :: "(string \<Rightarrow> nat) \<Rightarrow> cfg_row list \<Rightarrow> cfg_row list" where
  "v_latest rank rs = filter (\<lambda>r. latest_of rank rs (cg_configKey r) (cg_scopeType r) (cg_scopeValue r) = Some r) rs"

definition get_effective_config_value ::
  "(string \<Rightarrow> nat) \<Rightarrow> string \<Rightarrow> string option \<Rightarrow> string option \<Rightarrow> cfg_row list \<Rightarrow> cfg_row option" where
  "get_effective_config_value rank k env tenant rs =
     (let of_scope = (\<lambda>P. first_by rank (filter (\<lambda>r. cg_configKey r = k \<and> P r) (v_latest rank rs)))
      in case of_scope (\<lambda>r. cg_scopeType r = S_tenant \<and> sql_eq (cg_scopeValue r) tenant) of
           Some r \<Rightarrow> Some r
         | None \<Rightarrow>
         (case of_scope (\<lambda>r. cg_scopeType r = S_environment \<and> sql_eq (cg_scopeValue r) env) of
           Some r \<Rightarrow> Some r
         | None \<Rightarrow> of_scope (\<lambda>r. cg_scopeType r = S_global)))"

definition max_version :: "cfg_row list \<Rightarrow> int" where
  "max_version rs = (if rs = [] then 0 else Max (set (map cg_entityVersion rs)))"

text \<open>\<open>INSERT\<close> under the unique index on key, version and scope, in which \<open>NULL\<close>s are distinct.\<close>

definition insert_row :: "cfg_row \<Rightarrow> config_world \<Rightarrow> (unit, config_world) outcome" where
  "insert_row r w =
     (if \<exists>x \<in> set (cw_rows w). cg_id x = cg_id r
      then (Inl (UniqueViolation ''policy_configurations_pkey''), w)
      else if \<exists>x \<in> set (cw_rows w). cg_configKey x = cg_configKey r \<and> cg_entityVersion x = cg_entityVersion r \<and> cg_scopeType x = cg_scopeType r
          \<and> sql_eq (cg_scopeValue x) (cg_scopeValue r)
      then (Inl (UniqueViolation ''policy_configurations_scope_key_version_unique''), w)
      else (Inr (), w\<lparr>cw_rows := cw_rows w @ [r]\<rparr>))"

definition deactivate :: "(cfg_row \<Rightarrow> bool) \<Rightarrow> int \<Rightarrow> string \<Rightarrow> cfg_row list \<Rightarrow> cfg_row list" where
  "deactivate P now operatorId rs =
     map (\<lambda>r. if P r then r\<lparr>cg_isActive := False, cg_updatedAt := now, cg_updatedBy := Some operatorId\<rparr> else r) rs"

text \<open>\<open>rollback_configuration\<close>; the exception it raises undoes it.\<close>

definition rollback_configuration ::
  "string \<Rightarrow> int \<Rightarrow> string \<Rightarrow> scope_type \<Rightarrow> string option \<Rightarrow> cfg_env \<Rightarrow> config_world \<Rightarrow> (string, config_world) outcome" where
  "rollback_configuration k toVersion operatorId st sv e w =
     (case first_by (cw_rank w) (filter (\<lambda>r. in_scope k st sv r \<and> cg_entityVersion r = toVersion \<and> cg_isActive r) (cw_rows w)) of
        None \<Rightarrow> (Inl (PlainError ''Target version not found for key in scope''), w)
      | Some target \<Rightarrow>
          (let w1 = w\<lparr>cw_rows := deactivate (\<lambda>r. in_scope k st sv r \<and> cg_entityVersion r > toVersion \<and> cg_isActive r)
                        (ce_now e) operatorId (cw_rows w)\<rparr>
           in case insert_row \<lparr> cg_id = ce_newId e, cg_configKey = k, cg_configValue = cg_configValue target,
                    cg_isSensitive = cg_isSensitive target,
                    cg_entityVersion = max_version (filter (in_scope k st sv) (cw_rows w1)) + 1,
                    cg_createdAt = ce_now e, cg_updatedAt = ce_now e, cg_updatedBy = Some operatorId,
                    cg_scopeType = st, cg_scopeValue = sv, cg_isActive = True \<rparr> w1 of
                (Inl err, _) \<Rightarrow> (Inl err, w)
              | (Inr _, w2) \<Rightarrow> (Inr (ce_newId e), w2)))"

section \<open>Cache\<close>

definition scope_value_text :: "string option \<Rightarrow> string" where
  "scope_value_text sv = (case sv of Some s \<Rightarrow> if s = [] then ''global'' else s | None \<Rightarrow> ''global'')"

definition buildCacheKey :: "cache_base \<Rightarrow> scope_type option \<Rightarrow> string option \<Rightarrow> cache_key" where
  "buildCacheKey base st sv = (case st of None \<Rightarrow> Plain base | Some t \<Rightarrow> Scoped t (scope_value_text sv) base)"

definition fresh :: "cfg_env \<Rightarrow> ('v \<times> int) option \<Rightarrow> 'v option" where
  "fresh e entry = (case entry of Some (v, expiry) \<Rightarrow> if ce_now e < expiry then Some v else None | None \<Rightarrow> None)"

text \<open>
  The shape of \<open>getByKey\<close> and \<open>getEffective\<close>: the cache, then the row that is loaded, which is
  cached for sixty seconds. \<open>n\<close> is the number of the first Redis command.
\<close>

definition read_through :: "cfg_env \<Rightarrow> nat \<Rightarrow> cache_key \<Rightarrow> cfg_row option \<Rightarrow> config_world \<Rightarrow> cfg_dto option \<times> config_world" where
  "read_through e n cacheKey loaded w =
     (case (if cw_client w \<and> ce_redis e n then fresh e (cw_one w cacheKey) else None) of
        Some v \<Rightarrow> (Some v, w)
      | None \<Rightarrow>
          (case loaded of
             None \<Rightarrow> (None, w)
           | Some r \<Rightarrow> (Some (entityToDto r),
               if cw_client w \<and> ce_redis e (n + 1) then w\<lparr>cw_one := (cw_one w)(cacheKey \<mapsto> (entityToDto r, ce_now e + 60000))\<rparr> else w)))"

definition query_by_key :: "string \<Rightarrow> scope_type option \<Rightarrow> string option option \<Rightarrow> config_world \<Rightarrow> cfg_row option" where
  "query_by_key k st sv w =
     first_by (cw_rank w) (filter (\<lambda>r. cg_configKey r = k \<and> (case st of None \<Rightarrow> True | Some t \<Rightarrow> cg_scopeType r = t)
        \<and> (case sv of None \<Rightarrow> True | Some v \<Rightarrow> sql_eq (cg_scopeValue r) v)) (v_latest (cw_rank w) (cw_rows w)))"

text \<open>The scope value is \<open>None\<close> when it is undefined and \<open>Some None\<close> when it is null.\<close>

definition getByKey ::
  "cfg_env \<Rightarrow> nat \<Rightarrow> string \<Rightarrow> scope_type option \<Rightarrow> string option option \<Rightarrow> config_world \<Rightarrow> cfg_dto option \<times> config_world" where
  "getByKey e n configKey scopeType scopeValue w =
     read_through e n (buildCacheKey (B_key configKey) scopeType (case scopeValue of None \<Rightarrow> None | Some v \<Rightarrow> v))
       (query_by_key configKey scopeType scopeValue w) w"

definition getEffective ::
  "cfg_env \<Rightarrow> nat \<Rightarrow> string \<Rightarrow> string option \<Rightarrow> string option \<Rightarrow> config_world \<Rightarrow> cfg_dto option \<times> config_world" where
  "getEffective e n configKey environment tenantId w =
     read_through e n (buildCacheKey (B_effective configKey) None None)
       (get_effective_config_value (cw_rank w) configKey (js_or_null environment) (js_or_null tenantId) (cw_rows w)) w"

record query_dto =
  qc_scopeType :: "scope_type option"
  qc_scopeValue :: "string option"
  qc_environment :: "string option"
  qc_tenantId :: "string option"

definition js_or :: "string option \<Rightarrow> string option \<Rightarrow> string option" where
  "js_or a b = (case js_or_null a of Some s \<Rightarrow> Some s | None \<Rightarrow> b)"

text \<open>The scope that \<open>getAll\<close> asks for: the type, and the value when there is a condition on it.\<close>

definition query_scope :: "query_dto \<Rightarrow> scope_type option \<times> string option option" where
  "query_scope q =
     (let st = (case qc_scopeType q of Some t \<Rightarrow> Some t
          | None \<Rightarrow> if js_or_null (qc_environment q) \<noteq> None then Some S_environment
             else if js_or_null (qc_tenantId q) \<noteq> None then Some S_tenant else None)
      in (st, case js_or (qc_scopeValue q) (js_or (qc_environment q) (js_or_null (qc_tenantId q))) of
                Some s \<Rightarrow> Some (Some s)
              | None \<Rightarrow> if st = Some S_global then Some None else None))"

definition getAll :: "cfg_env \<Rightarrow> query_dto \<Rightarrow> config_world \<Rightarrow> cfg_dto list \<times> config_world" where
  "getAll e q w =
     (case query_scope q of (st, sv) \<Rightarrow>
       (let cacheKey = buildCacheKey B_all st (case sv of None \<Rightarrow> None | Some v \<Rightarrow> v)
        in case (if cw_client w \<and> ce_redis e 0 then fresh e (cw_many w cacheKey) else None) of
             Some vs \<Rightarrow> (vs, w)
           | None \<Rightarrow>
               (let found = filter (\<lambda>r. (case st of None \<Rightarrow> True | Some t \<Rightarrow> cg_scopeType r = t)
                      \<and> (case sv of None \<Rightarrow> True | Some v \<Rightarrow> sql_eq (cg_scopeValue r) v)) (v_latest (cw_rank w) (cw_rows w));
                    result = map entityToDto (sort_key (\<lambda>r. cw_collate w (cg_configKey r)) (sort_key (\<lambda>r. cw_rank w (cg_id r)) found))
                in (result, if cw_client w \<and> ce_redis e 1 then w\<lparr>cw_many := (cw_many w)(cacheKey \<mapsto> (result, ce_now e + 60000))\<rparr> else w))))"

definition getHistory :: "string \<Rightarrow> scope_type \<Rightarrow> string option \<Rightarrow> config_world \<Rightarrow> cfg_row list" where
  "getHistory configKey scopeType scopeValue w =
     rev (sort_key cg_entityVersion (filter (in_scope configKey scopeType (js_or_null scopeValue)) (cw_rows w)))"

text \<open>The commands of \<open>invalidateCache\<close> run on their own; an unanswered one leaves its entry.\<close>

definition invalidateCache :: "cfg_env \<Rightarrow> nat \<Rightarrow> string \<Rightarrow> scope_type \<Rightarrow> string option \<Rightarrow> config_world \<Rightarrow> config_world" where
  "invalidateCache e n configKey st sv w =
     (if \<not> cw_client w then w
      else let del = (\<lambda>i key m. if ce_redis e (n + i) then m(key := None) else m);
               one = del 2 (buildCacheKey (B_effective configKey) None None)
                       (del 0 (buildCacheKey (B_key configKey) (Some st) sv) (cw_one w))
           in w\<lparr>cw_one := (if st = S_global then one else del 3 (buildCacheKey (B_effective configKey) (Some st) sv) one),
                cw_many := (if ce_redis e (n + 1) then (cw_many w)(buildCacheKey B_all (Some st) sv := None) else cw_many w)\<rparr>)"

section \<open>Writes\<close>

definition SENSITIVE_KEYS_PATTERN :: "string \<Rightarrow> bool" where
  "SENSITIVE_KEYS_PATTERN k \<longleftrightarrow> starts_with k ''risk.'' \<or> starts_with k ''execution.'' \<or> starts_with k ''capital.''"

text \<open>\<open>dto.isSensitive ?? pattern\<close>, and \<open>!dto.approveReason\<close>.\<close>

definition is_sensitive :: "bool option \<Rightarrow> string \<Rightarrow> bool" where
  "is_sensitive given k = (case given of Some b \<Rightarrow> b | None \<Rightarrow> SENSITIVE_KEYS_PATTERN k)"

definition missing :: "string option \<Rightarrow> bool" where
  "missing reason \<longleftrightarrow> js_or_null reason = None"

record config_dto =
  dc_configValue :: string
  dc_isSensitive :: "bool option"
  dc_scopeType :: "scope_type option"
  dc_scopeValue :: "string option"
  dc_approveReason :: "string option"
  dc_active :: bool                       \<comment> \<open>\<open>status ?? active\<close>\<close>

definition appendEntry :: "cfg_env \<Rightarrow> nat \<Rightarrow> string \<Rightarrow> string \<Rightarrow> string \<Rightarrow> string \<Rightarrow> json \<Rightarrow> config_world \<Rightarrow> (unit, config_world) outcome" where
  "appendEntry e n actor action resourceType resourceId payload w =
     (if ce_audit e n
      then (Inr (), w\<lparr>cw_audit := cw_audit w @ [\<lparr> au_idempotencyKey = None, au_correlationId = Some (ce_correlationId e), au_actor = actor,
         au_action = action, au_resourceType = resourceType, au_resourceId = resourceId, au_payload = payload \<rparr>]\<rparr>)
      else (Inl (PlainError ''audit''), w))"

definition scope_json :: "scope_type \<Rightarrow> string option \<Rightarrow> (string \<times> json) list" where
  "scope_json st sv = [(''scopeType'', JStr (scope_text st)), (''scopeValue'', jstr_or_null sv)]"

definition status_json :: "bool \<Rightarrow> json" where
  "status_json act = JStr (if act then ''active'' else ''draft'')"

text \<open>
  The end of \<open>create\<close> and \<open>update\<close>: the row, the cache, the audit record, and the answer, which
  for an active row is read again.
\<close>

definition write_version ::
  "cfg_env \<Rightarrow> nat \<Rightarrow> cfg_row \<Rightarrow> string \<Rightarrow> string \<Rightarrow> json \<Rightarrow> config_world \<Rightarrow> (cfg_dto option, config_world) outcome" where
  "write_version e n row operatorId action payload w =
     (case insert_row row w of
        (Inl err, w1) \<Rightarrow> (Inl err, w1)
      | (Inr _, w1) \<Rightarrow>
          (case appendEntry e 0 operatorId action ''policy_configuration'' (cg_id row) payload
                  (invalidateCache e n (cg_configKey row) (cg_scopeType row) (cg_scopeValue row) w1) of
             (Inl err, w2) \<Rightarrow> (Inl err, w2)
           | (Inr _, w2) \<Rightarrow>
               (if \<not> cg_isActive row then (Inr (Some (entityToDto row)), w2)
                else case getByKey e (n + 4) (cg_configKey row) (Some (cg_scopeType row)) (Some (cg_scopeValue row)) w2 of
                  (v, w3) \<Rightarrow> (Inr v, w3))))"

definition create_config :: "cfg_env \<Rightarrow> string \<Rightarrow> config_dto \<Rightarrow> string \<Rightarrow> config_world \<Rightarrow> (cfg_dto option, config_world) outcome" where
  "create_config e configKey dto operatorId w =
     (let scopeType = (case dc_scopeType dto of Some t \<Rightarrow> t
            | None \<Rightarrow> if js_or_null (dc_scopeValue dto) \<noteq> None then S_tenant else S_global);
          scopeValue = js_or_null (dc_scopeValue dto);
          isSensitive = is_sensitive (dc_isSensitive dto) configKey;
          nextVersion = max_version (filter (\<lambda>r. cg_configKey r = configKey \<and> cg_scopeType r = scopeType
            \<and> sql_eq (cg_scopeValue r) scopeValue) (cw_rows w)) + 1
      in if isSensitive \<and> missing (dc_approveReason dto)
         then (Inl (BadRequestException ''Config key is sensitive and requires approve_reason''), w)
         else write_version e 0 \<lparr> cg_id = ce_newId e, cg_configKey = configKey, cg_configValue = dc_configValue dto,
                cg_isSensitive = isSensitive, cg_entityVersion = nextVersion, cg_createdAt = ce_now e, cg_updatedAt = ce_now e,
                cg_updatedBy = Some operatorId, cg_scopeType = scopeType, cg_scopeValue = scopeValue, cg_isActive = dc_active dto \<rparr>
              operatorId ''CONFIG_CREATED''
              (JObj ([(''configKey'', JStr configKey), (''isSensitive'', JBool isSensitive)] @ scope_json scopeType scopeValue
                 @ opt_field ''approveReason'' JStr (dc_approveReason dto) @ [(''status'', status_json (dc_active dto))])) w)"

definition update_config :: "cfg_env \<Rightarrow> nat \<Rightarrow> string \<Rightarrow> config_dto \<Rightarrow> string \<Rightarrow> config_world \<Rightarrow> (cfg_dto option, config_world) outcome" where
  "update_config e n configKey dto operatorId w =
     (let scopeType = (case dc_scopeType dto of Some t \<Rightarrow> t | None \<Rightarrow> S_global);
          scopeValue = dc_scopeValue dto;
          isSensitive = is_sensitive (dc_isSensitive dto) configKey
      in case getByKey e n configKey (Some scopeType) (Some scopeValue) w of
           (None, w1) \<Rightarrow> (Inl (NotFoundException ''Configuration not found''), w1)
         | (Some existing, w1) \<Rightarrow>
             (if isSensitive \<and> missing (dc_approveReason dto)
              then (Inl (BadRequestException ''Config key is sensitive and requires approve_reason''), w1)
              else write_version e (n + 2) \<lparr> cg_id = ce_newId e, cg_configKey = configKey, cg_configValue = dc_configValue dto,
                     cg_isSensitive = isSensitive, cg_entityVersion = cd_entityVersion existing + 1, cg_createdAt = ce_now e,
                     cg_updatedAt = ce_now e, cg_updatedBy = Some operatorId, cg_scopeType = scopeType, cg_scopeValue = scopeValue,
                     cg_isActive = dc_active dto \<rparr>
                   operatorId ''CONFIG_UPDATED''
                   (JObj ([(''configKey'', JStr configKey), (''previousVersion'', JNum (of_int (cd_entityVersion existing))),
                        (''newVersion'', JNum (of_int (cd_entityVersion existing + 1))), (''isSensitive'', JBool isSensitive)]
                      @ scope_json scopeType scopeValue @ opt_field ''approveReason'' JStr (dc_approveReason dto)
                      @ [(''status'', status_json (dc_active dto))])) w1))"

record promote_dto =
  dp_fromScopeType :: scope_type
  dp_fromScopeValue :: "string option"
  dp_toScopeType :: scope_type
  dp_toScopeValue :: "string option"
  dp_approveReason :: "string option"
  dp_idempotencyKey :: "string option"

definition promote_key :: "promote_dto \<Rightarrow> string option" where
  "promote_key dto = map_option (\<lambda>s. ''arb:config:v1:promote:idemp:'' @ s) (js_or_null (map_option js_trim (dp_idempotencyKey dto)))"

text \<open>From the new row on: the two scopes, the audit record, the answer and its idempotency entry.\<close>

definition promote_commit ::
  "cfg_env \<Rightarrow> string \<Rightarrow> promote_dto \<Rightarrow> string \<Rightarrow> cfg_dto \<Rightarrow> config_world \<Rightarrow> (cfg_dto option, config_world) outcome" where
  "promote_commit e configKey dto operatorId source w =
     (let to = dp_toScopeType dto; toValue = dp_toScopeValue dto; from = dp_fromScopeType dto; fromValue = dp_fromScopeValue dto;
          nextVersion = max_version (filter (in_scope configKey to toValue) (cw_rows w)) + 1
      in case insert_row \<lparr> cg_id = ce_newId e, cg_configKey = configKey, cg_configValue = cd_configValue source,
             cg_isSensitive = cd_isSensitive source, cg_entityVersion = nextVersion, cg_createdAt = ce_now e, cg_updatedAt = ce_now e,
             cg_updatedBy = Some operatorId, cg_scopeType = to, cg_scopeValue = toValue, cg_isActive = True \<rparr> w of
           (Inl err, w1) \<Rightarrow> (Inl err, w1)
         | (Inr _, w1) \<Rightarrow>
             (let w2 = w1\<lparr>cw_rows := deactivate (\<lambda>r. cg_id r = cd_id source) (ce_now e) operatorId (cw_rows w1)\<rparr>;
                  w3 = invalidateCache e 9 configKey to toValue (invalidateCache e 5 configKey from fromValue w2)
              in case appendEntry e 0 operatorId ''CONFIG_PROMOTED'' ''policy_configuration'' (ce_newId e)
                     (JObj ([(''configKey'', JStr configKey), (''fromScopeType'', JStr (scope_text from)), (''fromScopeValue'', jstr_or_null fromValue),
                        (''toScopeType'', JStr (scope_text to)), (''toScopeValue'', jstr_or_null toValue),
                        (''sourceVersion'', JNum (of_int (cd_entityVersion source))), (''targetVersion'', JNum (of_int nextVersion))]
                        @ opt_field ''approveReason'' JStr (dp_approveReason dto))) w3 of
                   (Inl err, w4) \<Rightarrow> (Inl err, w4)
                 | (Inr _, w4) \<Rightarrow>
                     (case getByKey e 13 configKey (Some to) (Some toValue) w4 of
                        (result, w5) \<Rightarrow>
                          (Inr result, case promote_key dto of
                             Some key \<Rightarrow> if cw_client w5 \<and> ce_redis e 15
                               then w5\<lparr>cw_promoted := (cw_promoted w5)(key \<mapsto> (result, ce_now e + 86400000))\<rparr> else w5
                           | None \<Rightarrow> w5))))"

definition promote :: "cfg_env \<Rightarrow> string \<Rightarrow> promote_dto \<Rightarrow> string \<Rightarrow> config_world \<Rightarrow> (cfg_dto option, config_world) outcome" where
  "promote e configKey dto operatorId w =
     (if dp_fromScopeType dto = dp_toScopeType dto \<and> dp_fromScopeValue dto = dp_toScopeValue dto
      then (Inl (BadRequestException ''Promotion requires different source and target scopes''), w)
      else if SENSITIVE_KEYS_PATTERN configKey \<and> missing (dp_approveReason dto)
      then (Inl (BadRequestException ''Config key is sensitive and requires approve_reason for promotion''), w)
      else case (case promote_key dto of
             Some key \<Rightarrow> if cw_client w \<and> ce_redis e 0 then fresh e (cw_promoted w key) else None
           | None \<Rightarrow> None) of
        Some answer \<Rightarrow> (Inr answer, w)
      | None \<Rightarrow>
          (case getByKey e 1 configKey (Some (dp_fromScopeType dto)) (Some (dp_fromScopeValue dto)) w of
             (None, w1) \<Rightarrow> (Inl (NotFoundException ''Source configuration not found''), w1)
           | (Some source, w1) \<Rightarrow>
               (case getByKey e 3 configKey (Some (dp_toScopeType dto)) (Some (dp_toScopeValue dto)) w1 of
                  (Some _, w2) \<Rightarrow> (Inl (ConflictException ''Target scope already has an active configuration''), w2)
                | (None, w2) \<Rightarrow> promote_commit e configKey dto operatorId source w2)))"

text \<open>The newest row of a scope, active or not.\<close>

definition newest_row :: "string \<Rightarrow> scope_type \<Rightarrow> string option \<Rightarrow> config_world \<Rightarrow> cfg_row option" where
  "newest_row k st sv w =
     (let rows = filter (in_scope k st sv) (cw_rows w)
      in first_by (cw_rank w) (filter (\<lambda>r. cg_entityVersion r = max_version rows) rows))"

record status_dto =
  du_active :: bool
  du_scopeType :: "scope_type option"
  du_scopeValue :: "string option"
  du_approveReason :: "string option"

definition updateStatus :: "cfg_env \<Rightarrow> string \<Rightarrow> status_dto \<Rightarrow> string \<Rightarrow> config_world \<Rightarrow> (cfg_dto option, config_world) outcome" where
  "updateStatus e configKey dto operatorId w =
     (let scopeType = (case du_scopeType dto of Some t \<Rightarrow> t | None \<Rightarrow> S_global); scopeValue = du_scopeValue dto
      in if \<not> du_active dto then (Inl (BadRequestException ''Only activation is supported via this endpoint''), w)
         else if SENSITIVE_KEYS_PATTERN configKey \<and> missing (du_approveReason dto)
         then (Inl (BadRequestException ''Config key is sensitive and requires approve_reason for activation''), w)
         else case newest_row configKey scopeType scopeValue w of
           None \<Rightarrow> (Inl (NotFoundException ''Configuration not found''), w)
         | Some latest \<Rightarrow>
             (if cg_isActive latest
              then (case getByKey e 0 configKey (Some scopeType) (Some scopeValue) w of (v, w1) \<Rightarrow> (Inr v, w1))
              else let w1 = w\<lparr>cw_rows := deactivate (\<lambda>r. in_scope configKey scopeType scopeValue r \<and> cg_isActive r) (ce_now e) operatorId (cw_rows w)\<rparr>;
                       nextVersion = max_version (filter (in_scope configKey scopeType scopeValue) (cw_rows w1)) + 1
                   in write_version e 0 \<lparr> cg_id = ce_newId e, cg_configKey = configKey, cg_configValue = cg_configValue latest,
                        cg_isSensitive = cg_isSensitive latest, cg_entityVersion = nextVersion, cg_createdAt = ce_now e,
                        cg_updatedAt = ce_now e, cg_updatedBy = Some operatorId, cg_scopeType = scopeType, cg_scopeValue = scopeValue,
                        cg_isActive = True \<rparr>
                      operatorId ''CONFIG_STATUS_ACTIVATED''
                      (JObj ([(''configKey'', JStr configKey)] @ scope_json scopeType scopeValue
                         @ [(''previousDraftVersion'', JNum (of_int (cg_entityVersion latest))), (''newVersion'', JNum (of_int nextVersion))]
                         @ opt_field ''approveReason'' JStr (du_approveReason dto))) w1))"

record rollback_dto =
  dr_toVersion :: int
  dr_scopeType :: "scope_type option"
  dr_scopeValue :: "string option"
  dr_isSensitive :: "bool option"
  dr_approveReason :: "string option"

definition rollback :: "cfg_env \<Rightarrow> string \<Rightarrow> rollback_dto \<Rightarrow> string \<Rightarrow> config_world \<Rightarrow> (string, config_world) outcome" where
  "rollback e configKey dto operatorId w =
     (let scopeType = (case dr_scopeType dto of Some t \<Rightarrow> t | None \<Rightarrow> S_global); scopeValue = dr_scopeValue dto;
          isSensitive = is_sensitive (dr_isSensitive dto) configKey
      in if isSensitive \<and> missing (dr_approveReason dto)
         then (Inl (BadRequestException ''Config key is sensitive and requires approve_reason for rollback''), w)
         else case rollback_configuration configKey (dr_toVersion dto) operatorId scopeType scopeValue e w of
           (Inl err, w1) \<Rightarrow> (Inl err, w1)
         | (Inr rollbackId, w1) \<Rightarrow>
             (case appendEntry e 0 operatorId ''CONFIG_ROLLBACK'' ''policy_configuration'' rollbackId
                 (JObj ([(''configKey'', JStr configKey), (''toVersion'', JNum (of_int (dr_toVersion dto)))] @ scope_json scopeType scopeValue
                    @ [(''isSensitive'', JBool isSensitive)] @ opt_field ''approveReason'' JStr (dr_approveReason dto)))
                 (invalidateCache e 0 configKey scopeType scopeValue w1) of
                (Inl err, w2) \<Rightarrow> (Inl err, w2)
              | (Inr _, w2) \<Rightarrow> (Inr rollbackId, snd (getByKey e 4 configKey (Some scopeType) (Some scopeValue) w2))))"

section \<open>Routes\<close>

definition dto_json :: "cfg_dto \<Rightarrow> json" where
  "dto_json v = JObj ([(''id'', JStr (cd_id v)), (''configKey'', JStr (cd_configKey v)), (''configValue'', JStr (cd_configValue v)),
     (''isSensitive'', JBool (cd_isSensitive v)), (''entityVersion'', JNum (of_int (cd_entityVersion v))),
     (''createdAt'', JIso (cd_createdAt v)), (''updatedAt'', JIso (cd_updatedAt v)), (''updatedBy'', jstr_or_null (cd_updatedBy v))]
     @ scope_json (cd_scopeType v) (cd_scopeValue v))"

definition effective_route :: "cfg_env \<Rightarrow> string \<Rightarrow> string option \<Rightarrow> string option \<Rightarrow> config_world \<Rightarrow> http_response \<times> config_world" where
  "effective_route e configKey environment tenantId w =
     (case getEffective e 0 configKey environment tenantId w of
        (None, w1) \<Rightarrow> (Response 404 None, w1) | (Some v, w1) \<Rightarrow> (Response 200 (Some (dto_json v)), w1))"

definition by_key_route :: "cfg_env \<Rightarrow> string \<Rightarrow> scope_type option \<Rightarrow> string option \<Rightarrow> config_world \<Rightarrow> http_response \<times> config_world" where
  "by_key_route e configKey scopeType scopeValue w =
     (case getByKey e 0 configKey scopeType (Some (js_or_null scopeValue)) w of
        (None, w1) \<Rightarrow> (Response 404 None, w1) | (Some v, w1) \<Rightarrow> (Response 200 (Some (dto_json v)), w1))"

section \<open>Panic button\<close>

record panic_dto =
  dq_operatorId :: string
  dq_reason :: "string option"

record panic_result =
  pn_killSwitchBefore :: "bool option"
  pn_killSwitchAfter :: bool
  pn_alreadyHalted :: bool

text \<open>\<open>readKillSwitch\<close>: whatever it throws on a missing or malformed value becomes null.\<close>

definition readKillSwitch :: "(string \<Rightarrow> json option) \<Rightarrow> cfg_env \<Rightarrow> config_world \<Rightarrow> bool option \<times> config_world" where
  "readKillSwitch JSON_parse e w =
     (case getEffective e 0 ''dex.limits'' None None w of
        (None, w1) \<Rightarrow> (None, w1)
      | (Some v, w1) \<Rightarrow>
          (case JSON_parse (cd_configValue v) of
             None \<Rightarrow> (None, w1)
           | Some p \<Rightarrow> (case jget p ''killSwitch'' of Some (JBool b) \<Rightarrow> Some b | _ \<Rightarrow> None, w1)))"

text \<open>
  \<open>setKillSwitch\<close>. A property cannot be set on null or on a primitive; on an array it can, and
  \<open>JSON.stringify\<close> leaves it out.
\<close>

definition with_kill_switch :: "bool \<Rightarrow> json \<Rightarrow> json option" where
  "with_kill_switch b v =
     (case v of JObj kvs \<Rightarrow> Some (JObj (js_spread kvs [(''killSwitch'', JBool b)])) | JArr xs \<Rightarrow> Some (JArr xs) | _ \<Rightarrow> None)"

definition setKillSwitch ::
  "(string \<Rightarrow> json option) \<Rightarrow> (json \<Rightarrow> string) \<Rightarrow> cfg_env \<Rightarrow> bool \<Rightarrow> string \<Rightarrow> string option \<Rightarrow> config_world \<Rightarrow> (unit, config_world) outcome" where
  "setKillSwitch JSON_parse JSON_stringify e b operatorId reason w =
     (case getByKey e 2 ''dex.limits'' (Some S_global) None w of
        (None, w1) \<Rightarrow> (Inl (BadRequestException ''dex.limits configuration not found''), w1)
      | (Some current, w1) \<Rightarrow>
          (case (case JSON_parse (cd_configValue current) of None \<Rightarrow> None | Some p \<Rightarrow> with_kill_switch b p) of
             None \<Rightarrow> (Inl (PlainError ''configValue''), w1)
           | Some p \<Rightarrow>
               (case update_config e 4 ''dex.limits'' \<lparr> dc_configValue = JSON_stringify p, dc_isSensitive = Some True, dc_scopeType = Some S_global,
                    dc_scopeValue = None, dc_approveReason = Some (case reason of Some s \<Rightarrow> s
                      | None \<Rightarrow> ''panic-button '' @ (if b then ''STOP'' else ''RECOVER'') @ '' (D4-C-3-PANIC)''), dc_active = True \<rparr> operatorId w1 of
                  (Inl err, w2) \<Rightarrow> (Inl err, w2) | (Inr _, w2) \<Rightarrow> (Inr (), w2))))"

definition panic_audit :: "cfg_env \<Rightarrow> panic_dto \<Rightarrow> string \<Rightarrow> bool \<Rightarrow> string option \<Rightarrow> config_world \<Rightarrow> (unit, config_world) outcome" where
  "panic_audit e dto action after reason w =
     appendEntry e 1 (dq_operatorId dto) action ''system'' ''panic-button''
       (JObj [(''killSwitchAfter'', JBool after), (''reason'', jstr_or_null reason), (''source'', JStr ''ui'')]) w"

definition panicStop ::
  "(string \<Rightarrow> json option) \<Rightarrow> (json \<Rightarrow> string) \<Rightarrow> cfg_env \<Rightarrow> panic_dto \<Rightarrow> config_world \<Rightarrow> (panic_result, config_world) outcome" where
  "panicStop JSON_parse JSON_stringify e dto w =
     (case readKillSwitch JSON_parse e w of
        (before, w1) \<Rightarrow>
          (if before = Some True
           then (case panic_audit e dto ''PANIC_STOP_NOOP'' True None w1 of
                   (Inl err, w2) \<Rightarrow> (Inl err, w2)
                 | (Inr _, w2) \<Rightarrow> (Inr \<lparr> pn_killSwitchBefore = Some True, pn_killSwitchAfter = True, pn_alreadyHalted = True \<rparr>, w2))
           else case setKillSwitch JSON_parse JSON_stringify e True (dq_operatorId dto) (dq_reason dto) w1 of
             (Inl err, w2) \<Rightarrow> (Inl err, w2)
           | (Inr _, w2) \<Rightarrow>
               (case panic_audit e dto ''PANIC_STOP_TRIGGERED'' True (dq_reason dto) w2 of
                  (Inl err, w3) \<Rightarrow> (Inl err, w3)
                | (Inr _, w3) \<Rightarrow> (Inr \<lparr> pn_killSwitchBefore = before, pn_killSwitchAfter = True, pn_alreadyHalted = False \<rparr>, w3))))"

definition PANIC_RECOVER_CONFIRM_PHRASE :: string where
  "PANIC_RECOVER_CONFIRM_PHRASE = ''I UNDERSTAND THIS RESUMES TRADING''"

definition panicRecover ::
  "(string \<Rightarrow> json option) \<Rightarrow> (json \<Rightarrow> string) \<Rightarrow> cfg_env \<Rightarrow> panic_dto \<Rightarrow> string \<Rightarrow> config_world \<Rightarrow> (panic_result, config_world) outcome" where
  "panicRecover JSON_parse JSON_stringify e dto confirm w =
     (if confirm \<noteq> PANIC_RECOVER_CONFIRM_PHRASE
      then (Inl (BadRequestException ''Confirmation phrase required''), w)
      else case readKillSwitch JSON_parse e w of
        (before, w1) \<Rightarrow>
          (if before = Some False
           then (case panic_audit e dto ''PANIC_RECOVER_NOOP'' False None w1 of
                   (Inl err, w2) \<Rightarrow> (Inl err, w2)
                 | (Inr _, w2) \<Rightarrow> (Inr \<lparr> pn_killSwitchBefore = Some False, pn_killSwitchAfter = False, pn_alreadyHalted = False \<rparr>, w2))
           else case setKillSwitch JSON_parse JSON_stringify e False (dq_operatorId dto) (dq_reason dto) w1 of
             (Inl err, w2) \<Rightarrow> (Inl err, w2)
           | (Inr _, w2) \<Rightarrow>
               (case panic_audit e dto ''PANIC_RECOVER_CONFIRMED'' False (dq_reason dto) w2 of
                  (Inl err, w3) \<Rightarrow> (Inl err, w3)
                | (Inr _, w3) \<Rightarrow> (Inr \<lparr> pn_killSwitchBefore = before, pn_killSwitchAfter = False, pn_alreadyHalted = False \<rparr>, w3))))"

end
