(* ===== verification/Token_Resolver.thy ===== *)
theory Token_Resolver
  imports Scanner
begin

text \<open>
  \<open>apps/opportunity-service/src/opportunities/token-resolver.service.ts\<close>: from the instrument key
  of an opportunity to token addresses, decimals and the pre-quoted input amounts of the two legs.
\<close>

section \<open>Instrument keys\<close>

text \<open>\<open>indexOf\<close> with the two slices around it.\<close>

definition split_at :: "char \<Rightarrow> string \<Rightarrow> (string \<times> string) option" where
  "split_at c s = (if c \<in> set s then Some (takeWhile (\<lambda>x. x \<noteq> c) s, tl (dropWhile (\<lambda>x. x \<noteq> c) s)) else None)"

definition parseInstrumentKey :: "string \<Rightarrow> (int \<times> string \<times> string) option" where
  "parseInstrumentKey instrumentKey =
     (case split_at CHR '':'' instrumentKey of
        None \<Rightarrow> None
      | Some (venue, r) \<Rightarrow>
          (if venue = [] then None
           else case split_at CHR '':'' r of
             None \<Rightarrow> None
           | Some (chainStr, pair) \<Rightarrow>
               (if chainStr = [] \<or> venue \<noteq> ''arb'' then None
                else case js_parseInt10 chainStr of
                  None \<Rightarrow> None
                | Some chainId \<Rightarrow>
                    (if chainId \<le> 0 then None
                     else case split_at CHR ''-'' pair of
                       None \<Rightarrow> None
                     | Some (left, right) \<Rightarrow> if left = [] \<or> right = [] then None else Some (chainId, left, right)))))"

section \<open>Tokens\<close>

definition ADDRESS_RE :: "string \<Rightarrow> bool" where
  "ADDRESS_RE s \<longleftrightarrow> length s = 42 \<and> starts_with s ''0x'' \<and> list_all (\<lambda>c. hex_val c \<noteq> None) (drop 2 s)"

record address_book =
  ab_weth :: "string option"
  ab_usdc :: "string option"
  ab_usdt :: "string option"

definition pickAddressBook :: "int \<Rightarrow> address_book option" where
  "pickAddressBook chainId =
     (if chainId = 42161 then Some \<lparr> ab_weth = Some ''0x82aF49447D8a07e3bd95BD0d56f35241523fBab1'',
        ab_usdc = Some ''0xaf88d065e77c8cC2239327C5EDb3A432268e5831'', ab_usdt = Some ''0xFd086bC7CD5C481DCC9C85ebE478A1C0b69FCbb9'' \<rparr>
      else if chainId = 8453 then Some \<lparr> ab_weth = Some ''0x4200000000000000000000000000000000000006'',
        ab_usdc = Some ''0x833589fCD6eDb6E08f4c7C32D4f71b54bdA02913'', ab_usdt = Some ''0xFdEbec2Fcc5819D3b0a2499f5Cc2B2b2aa1A806E'' \<rparr>
      else if chainId = 56 then Some \<lparr> ab_weth = None,
        ab_usdc = Some ''0x8AC76a51cc950d9822D68b83fE1Ad97B32Cd580d'', ab_usdt = Some ''0x55d398326f99059fF775485246999027B3197955'' \<rparr>
      else if chainId = 10 then Some \<lparr> ab_weth = Some ''0x4200000000000000000000000000000000000006'',
        ab_usdc = Some ''0x0b2C639c533813f4Aa9D7837CAf62653d097Ff85'', ab_usdt = Some ''0x94b008aA00579c1307B0EF2c499aD98a8ceB58nE'' \<rparr>
      else None)"

definition nonempty_str :: "string option \<Rightarrow> string option" where
  "nonempty_str v = (case v of Some s \<Rightarrow> if s = [] then None else Some s | None \<Rightarrow> None)"

definition tickerToAddress :: "string \<Rightarrow> address_book \<Rightarrow> string option" where
  "tickerToAddress ticker book =
     (let t = js_upper ticker
      in if t = ''WETH'' then nonempty_str (ab_weth book) else if t = ''USDC'' then nonempty_str (ab_usdc book)
         else if t = ''USDT'' then nonempty_str (ab_usdt book) else None)"

definition STAPLE_DECIMALS :: "(string \<times> int) list" where
  "STAPLE_DECIMALS = [(''WETH'', 18), (''USDC'', 6), (''USDT'', 6)]"

definition KNOWN_DECIMALS_BY_ADDRESS :: "(string \<times> int) list" where
  "KNOWN_DECIMALS_BY_ADDRESS =
    [(''0x82af49447d8a07e3bd95bd0d56f35241523fbab1'', 18), (''0xaf88d065e77c8cc2239327c5edb3a432268e5831'', 6),
     (''0xff970a61a04b1ca14834a43f5de4533ebddb5cc8'', 6), (''0xfd086bc7cd5c481dcc9c85ebe478a1c0b69fcbb9'', 6),
     (''0x912ce59144191c1204e64859c7384b37e22328d5'', 18), (''0xfc5a1a6eb076a2c7ad06ed22c90d7e710e35ad0a'', 18),
     (''0x539bde0d7dbd336b79148aa742883198bbf60342'', 18), (''0x2f2a2543b76a4166549f7aab2e75bef0aefc5b0f'', 8),
     (''0xf97f4df75117a78c1a5a0dbb814af92458539fb4'', 18), (''0xfa7f8980b0f1e64a2062791cc3b0871572f1f7f0'', 18),
     (''0xda10009cbd5d07dd0cecc66161fc93d7c9000da1'', 18), (''0x11cdb42b0eb46d95f990bedd4695a6e3fa034978'', 18),
     (''0x13ad51ed4f1b7e9dc168d8a00cb3f4ddd85efa60'', 18)]"

definition tickerToDecimals :: "string \<Rightarrow> int option" where
  "tickerToDecimals ticker = map_of STAPLE_DECIMALS (js_upper ticker)"

record resolved_tokens =
  rt_token0Address :: string
  rt_token1Address :: string
  rt_decimals0 :: int
  rt_decimals1 :: int
  rt_chainId :: int

definition resolveAddress :: "string \<Rightarrow> address_book \<Rightarrow> string option" where
  "resolveAddress token book = (if ADDRESS_RE token then Some token else tickerToAddress token book)"

definition resolveDecimals :: "string \<Rightarrow> int option" where
  "resolveDecimals token =
     (if ADDRESS_RE token then map_of KNOWN_DECIMALS_BY_ADDRESS (js_lower token) else tickerToDecimals token)"

definition resolveTokens :: "string \<Rightarrow> resolved_tokens option" where
  "resolveTokens instrumentKey =
     (case parseInstrumentKey instrumentKey of
        None \<Rightarrow> None
      | Some (chainId, left, right) \<Rightarrow>
          (case pickAddressBook chainId of
             None \<Rightarrow> None
           | Some book \<Rightarrow>
               (case (resolveAddress left book, resolveAddress right book) of
                  (Some a0, Some a1) \<Rightarrow>
                    (case (resolveDecimals left, resolveDecimals right) of
                       (Some d0, Some d1) \<Rightarrow>
                         Some \<lparr> rt_token0Address = a0, rt_token1Address = a1, rt_decimals0 = d0, rt_decimals1 = d1, rt_chainId = chainId \<rparr>
                     | _ \<Rightarrow> None)
                | _ \<Rightarrow> None)))"

section \<open>Amounts\<close>

text \<open>\<open>evidence?.buyPrice\<close> is the argument; the amounts are the integers whose digits are sent.\<close>

definition computeAmountIns :: "resolved_tokens \<Rightarrow> rat \<Rightarrow> json option \<Rightarrow> rat \<Rightarrow> (int \<times> int) option" where
  "computeAmountIns tokens notionalUsd buyPrice quoteUsd =
     (if notionalUsd \<le> 0 \<or> quoteUsd \<le> 0 then None
      else case buyPrice of
        Some (JNum p) \<Rightarrow>
          (if p \<le> 0 then None
           else let quoteAmount = notionalUsd / quoteUsd
             in Some (js_round (quoteAmount * 10 ^ nat (rt_decimals1 tokens)), js_round (quoteAmount / p * 10 ^ nat (rt_decimals0 tokens))))
      | _ \<Rightarrow> None)"

section \<open>The key of a finding\<close>

lemma split_at_first: "c \<notin> set a \<Longrightarrow> split_at c (a @ c # b) = Some (a, b)"
  by (induction a) (auto simp: split_at_def)

lemma digits_plain: "c \<in> set (digits_of_nat n) \<Longrightarrow> c \<noteq> CHR '':'' \<and> c \<noteq> CHR ''-'' \<and> c \<noteq> CHR ''+''"
  using digits_of_nat_digits [of n] by (auto simp: is_digit_def)

lemma parse_key:
  assumes "0 < chainId" and "a \<noteq> []" "b \<noteq> []" and "CHR ''-'' \<notin> set a"
  shows "parseInstrumentKey (''arb:'' @ string_of_int chainId @ '':'' @ a @ ''-'' @ b) = Some (chainId, a, b)"
proof -
  let ?n = "digits_of_nat (nat chainId)"
  have "split_at CHR '':'' (''arb'' @ CHR '':'' # (?n @ CHR '':'' # (a @ CHR ''-'' # b)))
      = Some (''arb'', ?n @ CHR '':'' # (a @ CHR ''-'' # b))" by (rule split_at_first) simp
  moreover have "split_at CHR '':'' (?n @ CHR '':'' # (a @ CHR ''-'' # b)) = Some (?n, a @ CHR ''-'' # b)"
    by (rule split_at_first) (use digits_plain in blast)
  moreover have "split_at CHR ''-'' (a @ CHR ''-'' # b) = Some (a, b)" by (rule split_at_first) (rule assms(4))
  ultimately show ?thesis
    using assms(1-3) by (simp add: parseInstrumentKey_def string_of_int_def js_parseInt_digits)
qed

end
