(* ===== verification/Plan_Setup.thy ===== *)
theory Plan_Setup
  imports System Settlement_Props Token_Resolver Plan_Builder
begin

text \<open>
  \<open>plan-setup-orchestrator.service.ts\<close>: the saga by which the opportunity service creates a plan,
  reserves its capital, links, arms and begins it over the capital service and the orchestrator, and
  releases the reservation when a step fails. Every call may be lost, answered, or carried out with
  its answer lost.
\<close>

section \<open>Calls\<close>

datatype fate = Lost | Answered | Answer_lost

fun status_of_exn :: "exn \<Rightarrow> int" where
  "status_of_exn (NotFoundException _) = 404"
| "status_of_exn (ConflictException _) = 409"
| "status_of_exn (BadRequestException _) = 400"
| "status_of_exn (UnprocessableEntityException _) = 422"
| "status_of_exn (ServiceUnavailableException _) = 503"
| "status_of_exn (BadGatewayException _) = 502"
| "status_of_exn (CapitalCeilingExceededError _ _ _) = 422"
| "status_of_exn (UniqueViolation _) = 500"
| "status_of_exn (HttpException n) = n"
| "status_of_exn (PlainError _) = 500"

definition signedPost :: "fate \<Rightarrow> ('s \<Rightarrow> http_response \<times> 's) \<Rightarrow> 's \<Rightarrow> (json, 's) outcome" where
  "signedPost f route s =
     (case f of
        Lost \<Rightarrow> (Inl (ServiceUnavailableException ''upstream unreachable''), s)
      | Answer_lost \<Rightarrow> (Inl (ServiceUnavailableException ''upstream unreachable''), snd (route s))
      | Answered \<Rightarrow>
          (case route s of
             (Unreachable, s') \<Rightarrow> (Inl (ServiceUnavailableException ''upstream unreachable''), s')
           | (Response st body, s') \<Rightarrow>
               (if \<not> http_ok st then (Inl (HttpException st), s')
                else (Inr (case body of None \<Rightarrow> JObj [] | Some b \<Rightarrow> b), s'))))"

section \<open>Routes\<close>

definition len_in :: "nat \<Rightarrow> nat \<Rightarrow> string option \<Rightarrow> bool" where
  "len_in a b v = (case v of None \<Rightarrow> True | Some s \<Rightarrow> a \<le> length s \<and> length s \<le> b)"

definition at_least :: "int \<Rightarrow> int option \<Rightarrow> bool" where
  "at_least a v = (case v of None \<Rightarrow> True | Some n \<Rightarrow> a \<le> n)"

text \<open>The validators of \<open>LegDescriptorDto\<close>; \<open>MinLength\<close> on \<open>path\<close>, an array, holds for no value.\<close>

definition valid_leg :: "leg_descriptor \<Rightarrow> bool" where
  "valid_leg l \<longleftrightarrow> 1 \<le> ld_chainId l
     \<and> (case ld_targetQuantity l of None \<Rightarrow> True | Some q \<Rightarrow> 1 \<le> q \<and> q = of_int \<lfloor>q\<rfloor>)
     \<and> len_in 1 64 (ld_venueKey l) \<and> len_in 1 66 (ld_tokenIn l) \<and> len_in 1 66 (ld_tokenOut l)
     \<and> len_in 1 128 (ld_amountIn l) \<and> ld_path l = None \<and> at_least 0 (ld_slippageBps l)
     \<and> len_in 1 66 (ld_recipient l) \<and> at_least 1 (ld_deadlineSeconds l)
     \<and> len_in 1 128 (ld_amountOutExpected l) \<and> at_least 0 (ld_fee l) \<and> len_in 1 128 (ld_sqrtPriceLimitX96 l)
     \<and> len_in 1 64 (ld_bridgeKey l) \<and> at_least 1 (ld_destinationChainId l) \<and> len_in 1 66 (ld_token l)
     \<and> len_in 1 66 (ld_destinationToken l) \<and> len_in 1 128 (ld_amount l) \<and> len_in 1 66 (ld_recipientAddress l)"

definition opt_uuid :: "string option \<Rightarrow> bool" where
  "opt_uuid v = (case v of None \<Rightarrow> True | Some s \<Rightarrow> is_uuid4 s)"

definition valid_multi_leg :: "multi_leg_dto \<Rightarrow> bool" where
  "valid_multi_leg q \<longleftrightarrow> opt_uuid (ml_correlationId q) \<and> opt_uuid (ml_riskDecisionId q)
     \<and> len_in 1 512 (ml_routeKey q) \<and> list_all valid_leg (ml_legs q)"

fun plan_state_text :: "plan_state \<Rightarrow> string" where
  "plan_state_text P_planned = ''planned''"
| "plan_state_text P_reserved = ''reserved''"
| "plan_state_text P_armed = ''armed''"
| "plan_state_text P_executing = ''executing''"
| "plan_state_text P_completed = ''completed''"
| "plan_state_text P_failed = ''failed''"

fun tx_status_text :: "tx_status \<Rightarrow> string" where
  "tx_status_text tx_pending = ''pending''"
| "tx_status_text tx_confirmed = ''confirmed''"
| "tx_status_text tx_failed = ''failed''"
| "tx_status_text tx_reverted = ''reverted''"

definition planView :: "plan \<Rightarrow> dex_enrichment \<Rightarrow> json" where
  "planView p x = JObj [(''id'', JStr (pl_id p)), (''state'', JStr (plan_state_text (pl_state p))),
     (''correlationId'', jstr_or_null (pl_correlationId p)),
     (''capitalReservationId'', jstr_or_null (pl_capitalReservationId p)),
     (''riskDecisionId'', jstr_or_null (pl_riskDecisionId p)), (''routeKey'', jstr_or_null (pl_routeKey p)),
     (''entityVersion'', JNum (of_int (pl_entityVersion p))),
     (''venueType'', if de_isDex x then JStr ''dex'' else JNull),
     (''chainId'', case de_chainId x of None \<Rightarrow> JNull | Some c \<Rightarrow> JNum (of_int c)), (''dexAdapter'', JNull),
     (''txHash'', jstr_or_null (de_txHash x)),
     (''txStatus'', jstr_or_null (map_option tx_status_text (de_txStatus x))),
     (''gasUsedWei'', jstr_or_null (de_gasUsedWei x)), (''gasCostUsd'', JNull),
     (''createdAt'', JIso (pl_createdAt p)), (''updatedAt'', JIso (pl_updatedAt p))]"

definition plan_answer :: "int \<Rightarrow> (plan, system) outcome \<Rightarrow> http_response \<times> system" where
  "plan_answer ok out =
     (case out of
        (Inl e, s) \<Rightarrow> (Response (status_of_exn e) None, s)
      | (Inr p, s) \<Rightarrow> (Response ok (Some (planView p (getDexEnrichment (pl_id p) (sy_exec s)))), s))"

definition multi_leg_route :: "adapters \<Rightarrow> string \<Rightarrow> int \<Rightarrow> multi_leg_dto \<Rightarrow> system \<Rightarrow> http_response \<times> system" where
  "multi_leg_route ad newId now dto s =
     (if \<not> valid_multi_leg dto then (Response 400 None, s)
      else case buildMultiLegPlan ad dto newId now (sy_exec s) of
        (out, x) \<Rightarrow> plan_answer 201 (out, s\<lparr>sy_exec := x\<rparr>))"

definition valid_reserve :: "reserve_dto \<Rightarrow> bool" where
  "valid_reserve q \<longleftrightarrow> is_uuid4 (rd_correlationId q) \<and> opt_uuid (rd_planId q)
     \<and> rd_amountUsd q * 10 ^ 8 = of_int \<lfloor>rd_amountUsd q * 10 ^ 8\<rfloor> \<and> 0 \<le> rd_amountUsd q
     \<and> (case rd_ttlSeconds q of None \<Rightarrow> True | Some t \<Rightarrow> 30 \<le> t \<and> t \<le> 86400)"

definition reserve_route :: "exn + rat \<Rightarrow> string \<Rightarrow> string \<Rightarrow> int \<Rightarrow> reserve_dto \<Rightarrow> capital_db \<Rightarrow> http_response \<times> capital_db" where
  "reserve_route ceilingR rid mid now dto c =
     (if \<not> valid_reserve dto then (Response 400 None, c)
      else case reserve ceilingR ceilingR dto rid mid rid mid now now id c of
        (Inl e, c') \<Rightarrow> (Response (status_of_exn e) None, c')
      | (Inr row, c') \<Rightarrow> (Response 201 (Some (reservation_view row)), c'))"

text \<open>\<open>linkReservation\<close> with the two reads of the reservation at \<open>t1\<close> and \<open>t2\<close>.\<close>

definition link_over_services ::
  "string \<Rightarrow> string \<Rightarrow> int \<Rightarrow> int \<Rightarrow> int \<Rightarrow> int \<Rightarrow> system \<Rightarrow> (plan, system) outcome" where
  "link_over_services planId rid t1 t2 t3 now s =
     (let risk = (\<lambda>i. get_decision_route i (sy_risk s));
          cap1 = get_reservation_route rid t1 (sy_capital s);
          cap2 = get_reservation_route rid t2 (snd cap1);
          read = (case get_plan planId (sy_exec s) of
              Some p \<Rightarrow> pl_state p = P_planned \<and> assertApprovedRiskViaHttp risk p = Inr ()
            | None \<Rightarrow> False)
      in case linkReservation planId rid risk (fst cap1) (fst cap2) t3 id now (sy_exec s) of
           (out, x) \<Rightarrow> (out, s\<lparr>sy_exec := x, sy_capital := (if read then snd cap2 else sy_capital s)\<rparr>))"

definition link_route :: "string \<Rightarrow> string \<Rightarrow> int \<Rightarrow> system \<Rightarrow> http_response \<times> system" where
  "link_route planId rid now s =
     (if \<not> is_uuid4 planId \<or> \<not> is_uuid4 rid then (Response 400 None, s)
      else plan_answer 200 (link_over_services planId rid now now now now s))"

definition arm_route :: "string \<Rightarrow> string \<Rightarrow> int \<Rightarrow> system \<Rightarrow> http_response \<times> system" where
  "arm_route planId messageId now s =
     (if \<not> is_uuid4 planId then (Response 400 None, s)
      else plan_answer 200 (arm_over_services planId now now now id messageId now s))"

fun leg_state_text :: "leg_state \<Rightarrow> string" where
  "leg_state_text L_created = ''created''"
| "leg_state_text L_submitting = ''submitting''"
| "leg_state_text L_sent = ''sent''"
| "leg_state_text L_acknowledged = ''acknowledged''"
| "leg_state_text L_partiallyFilled = ''partiallyFilled''"
| "leg_state_text L_filled = ''filled''"
| "leg_state_text L_failed = ''failed''"

definition legView :: "leg \<Rightarrow> json" where
  "legView l = JObj [(''id'', JStr (lg_id l)), (''planId'', JStr (lg_planId l)), (''legIndex'', JNum (of_int (lg_legIndex l))),
     (''state'', JStr (leg_state_text (lg_state l))), (''venueRef'', jstr_or_null (lg_venueRef l)),
     (''targetQuantity'', JNum (lg_targetQuantity l)), (''filledQuantity'', JNum (lg_filledQuantity l)),
     (''entityVersion'', JNum (of_int (lg_entityVersion l))), (''createdAt'', JIso (lg_createdAt l)), (''updatedAt'', JIso (lg_updatedAt l))]"

definition planStateView :: "plan \<Rightarrow> json" where
  "planStateView p = JObj [(''id'', JStr (pl_id p)), (''state'', JStr (plan_state_text (pl_state p))),
     (''entityVersion'', JNum (of_int (pl_entityVersion p))), (''updatedAt'', JIso (pl_updatedAt p))]"

definition begin_route ::
  "string \<Rightarrow> (nat \<Rightarrow> string) \<Rightarrow> string option \<Rightarrow> (int \<Rightarrow> json \<Rightarrow> exn + leg_cost) \<Rightarrow> rat \<Rightarrow> int \<Rightarrow> system \<Rightarrow> http_response \<times> system" where
  "begin_route planId newId legCountEnv est minNet now s =
     (if \<not> is_uuid4 planId then (Response 400 None, s)
      else case beginExecution planId newId legCountEnv est minNet now (sy_exec s) of
        (Inl e, x) \<Rightarrow> (Response (status_of_exn e) None, s\<lparr>sy_exec := x\<rparr>)
      | (Inr (p, ls), x) \<Rightarrow>
          (Response 200 (Some (JObj [(''plan'', planStateView p), (''legs'', JArr (map legView ls))])),
           s\<lparr>sy_exec := x\<rparr>))"

definition release_http :: "string \<Rightarrow> int \<Rightarrow> system \<Rightarrow> http_response \<times> system" where
  "release_http rid now s = (case release_route rid now (sy_capital s) of (st, c) \<Rightarrow> (Response st None, s\<lparr>sy_capital := c\<rparr>))"

section \<open>The saga\<close>

record plan_setup_input =
  pi_correlationId :: string
  pi_riskDecisionId :: string
  pi_routeKey :: string
  pi_notionalUsd :: rat
  pi_slippageBps :: "int option"
  pi_tokens :: resolved_tokens
  pi_buyAmountIn :: int
  pi_sellAmountIn :: int
  pi_buyVenueKey :: string
  pi_sellVenueKey :: string
  pi_grossProfitUsd :: rat
  pi_buyFeeTier :: "int option"
  pi_sellFeeTier :: "int option"

text \<open>
  The surroundings of one run: the ids that are given out, the answers of the limits service, the
  leg costs, the floor of the cost gate, and the time and fate of each call.
\<close>

record setup_env =
  pe_planId :: string
  pe_reservationId :: string
  pe_reserveMessageId :: string
  pe_armMessageId :: string
  pe_legId :: "nat \<Rightarrow> string"
  pe_ceiling :: "exn + rat"
  pe_adapters :: adapters
  pe_legCount :: "string option"
  pe_est :: "int \<Rightarrow> json \<Rightarrow> exn + leg_cost"
  pe_minNet :: rat
  pe_now :: "nat \<Rightarrow> int"
  pe_fate :: "nat \<Rightarrow> fate"

definition setup_leg :: "int \<Rightarrow> string \<Rightarrow> string \<Rightarrow> string \<Rightarrow> int \<Rightarrow> int \<Rightarrow> int option \<Rightarrow> int \<Rightarrow> leg_descriptor" where
  "setup_leg chainId venueKey tokenIn tokenOut amountIn amountOut fee slippageBps =
     \<lparr> ld_legType = dex, ld_chainId = chainId, ld_targetQuantity = None, ld_venueKey = Some venueKey, ld_tokenIn = Some tokenIn,
       ld_tokenOut = Some tokenOut, ld_amountIn = Some (string_of_int amountIn), ld_path = None, ld_slippageBps = Some slippageBps,
       ld_recipient = None, ld_deadlineSeconds = None, ld_amountOutExpected = Some (string_of_int amountOut),
       ld_fee = Some (case fee of None \<Rightarrow> 3000 | Some f \<Rightarrow> f), ld_sqrtPriceLimitX96 = None, ld_bridgeKey = None,
       ld_destinationChainId = None, ld_token = None, ld_destinationToken = None, ld_amount = None, ld_recipientAddress = None \<rparr>"

definition plan_body :: "plan_setup_input \<Rightarrow> int \<Rightarrow> multi_leg_dto" where
  "plan_body i slippageBps =
     (let t = pi_tokens i
      in \<lparr> ml_correlationId = Some (pi_correlationId i), ml_riskDecisionId = Some (pi_riskDecisionId i),
           ml_routeKey = Some (pi_routeKey i), ml_notionalUsd = Some (pi_notionalUsd i), ml_grossProfitUsd = Some (pi_grossProfitUsd i),
           ml_legs = [setup_leg (rt_chainId t) (pi_buyVenueKey i) (rt_token1Address t) (rt_token0Address t)
                        (pi_buyAmountIn i) (pi_sellAmountIn i) (pi_buyFeeTier i) slippageBps,
                      setup_leg (rt_chainId t) (pi_sellVenueKey i) (rt_token0Address t) (rt_token1Address t)
                        (pi_sellAmountIn i) (pi_buyAmountIn i) (pi_sellFeeTier i) slippageBps] \<rparr>)"

definition createPlan :: "setup_env \<Rightarrow> plan_setup_input \<Rightarrow> int \<Rightarrow> system \<Rightarrow> (json, system) outcome" where
  "createPlan e i slippageBps = signedPost (pe_fate e 0) (multi_leg_route (pe_adapters e) (pe_planId e) (pe_now e 0) (plan_body i slippageBps))"

definition on_capital :: "(capital_db \<Rightarrow> http_response \<times> capital_db) \<Rightarrow> system \<Rightarrow> http_response \<times> system" where
  "on_capital route s = (case route (sy_capital s) of (r, c) \<Rightarrow> (r, s\<lparr>sy_capital := c\<rparr>))"

definition reserveCapital_setup :: "setup_env \<Rightarrow> plan_setup_input \<Rightarrow> string \<Rightarrow> system \<Rightarrow> (json, system) outcome" where
  "reserveCapital_setup e i planId = signedPost (pe_fate e 1)
     (on_capital (reserve_route (pe_ceiling e) (pe_reservationId e) (pe_reserveMessageId e) (pe_now e 1)
        \<lparr> rd_correlationId = pi_correlationId i, rd_planId = Some planId, rd_amountUsd = pi_notionalUsd i, rd_ttlSeconds = Some 300 \<rparr>))"

definition releaseReservation :: "setup_env \<Rightarrow> string \<Rightarrow> system \<Rightarrow> (json, system) outcome" where
  "releaseReservation e rid = signedPost (pe_fate e 5) (release_http rid (pe_now e 5))"

text \<open>\<open>plan.id\<close> of an answer, as a piece of the next URL.\<close>

definition view_id :: "json \<Rightarrow> string" where
  "view_id v = (case jget v ''id'' of Some (JStr i) \<Rightarrow> i | _ \<Rightarrow> ''undefined'')"

definition setup_steps :: "setup_env \<Rightarrow> string \<Rightarrow> string \<Rightarrow> system \<Rightarrow> (json, system) outcome" where
  "setup_steps e planId rid s =
     (case signedPost (pe_fate e 2) (link_route planId rid (pe_now e 2)) s of
        (Inl err, s1) \<Rightarrow> (Inl err, s1)
      | (Inr _, s1) \<Rightarrow>
          (case signedPost (pe_fate e 3) (arm_route planId (pe_armMessageId e) (pe_now e 3)) s1 of
             (Inl err, s2) \<Rightarrow> (Inl err, s2)
           | (Inr _, s2) \<Rightarrow>
               signedPost (pe_fate e 4) (begin_route planId (pe_legId e) (pe_legCount e) (pe_est e) (pe_minNet e) (pe_now e 4)) s2))"

definition orchestrate :: "setup_env \<Rightarrow> plan_setup_input \<Rightarrow> system \<Rightarrow> (string \<times> string, system) outcome" where
  "orchestrate e i s =
     (case createPlan e i (case pi_slippageBps i of None \<Rightarrow> 50 | Some n \<Rightarrow> n) s of
        (Inl err, s1) \<Rightarrow> (Inl err, s1)
      | (Inr plan, s1) \<Rightarrow>
          (case reserveCapital_setup e i (view_id plan) s1 of
             (Inl err, s2) \<Rightarrow> (Inl err, s2)
           | (Inr reservation, s2) \<Rightarrow>
               (case setup_steps e (view_id plan) (view_id reservation) s2 of
                  (Inr _, s3) \<Rightarrow> (Inr (view_id plan, view_id reservation), s3)
                | (Inl err, s3) \<Rightarrow> (Inl err, snd (releaseReservation e (view_id reservation) s3)))))"

end
