(* ===== verification/Config_Routes.thy ===== *)
theory Config_Routes
  imports Config_Service Plan_Setup
begin

text \<open>
  The routes of \<open>config.controller.ts\<close> that write, behind the validation pipe of the service.
  The pipe is a library; \<open>pipe\<close> is whether it accepts a body with the given field names for a
  class with the given properties, and \<open>whitelisting\<close> is what its documentation says of the
  option \<open>forbidNonWhitelisted\<close>.
\<close>

section \<open>Bodies\<close>

text \<open>
  The names of the fields of a body, its reading in the class of the route, and its \<open>operatorId\<close>,
  which the controllers take from the body on their own.
\<close>

record 'd body =
  by_fields :: "string list"
  by_dto :: 'd
  by_operatorId :: "string option"

definition whitelisting :: "(string list \<Rightarrow> string list \<Rightarrow> bool) \<Rightarrow> bool" where
  "whitelisting pipe \<longleftrightarrow> (\<forall>props fields. pipe props fields \<longrightarrow> set fields \<subseteq> set props)"

definition has_operator :: "'d body \<Rightarrow> bool" where
  "has_operator b \<longleftrightarrow> (by_operatorId b \<noteq> None \<longrightarrow> ''operatorId'' \<in> set (by_fields b))"

definition create_props :: "string list" where
  "create_props = [''configKey'', ''configValue'', ''isSensitive'', ''scopeType'', ''scopeValue'', ''approveReason'',
     ''status'', ''operatorId'']"

definition rollback_props :: "string list" where
  "rollback_props = [''toVersion'', ''scopeType'', ''scopeValue'', ''isSensitive'', ''approveReason'']"

definition promote_props :: "string list" where
  "promote_props = [''fromScopeType'', ''fromScopeValue'', ''toScopeType'', ''toScopeValue'', ''approveReason'', ''idempotencyKey'']"

definition status_props :: "string list" where
  "status_props = [''status'', ''scopeType'', ''scopeValue'', ''approveReason'']"

section \<open>Routes\<close>

text \<open>
  \<open>reply\<close> has no decorator, so the framework passes nothing for it: a body without an operator
  ends in a \<open>TypeError\<close>.
\<close>

definition with_operator :: "'d body \<Rightarrow> (string \<Rightarrow> 'w \<Rightarrow> ('a, 'w) outcome) \<Rightarrow> 'w \<Rightarrow> ('a, 'w) outcome" where
  "with_operator b run w =
     (case js_or_null (by_operatorId b) of
        None \<Rightarrow> (Inl (PlainError ''Cannot read properties of undefined''), w)
      | Some operatorId \<Rightarrow> run operatorId w)"

definition validated :: "bool \<Rightarrow> ('w \<Rightarrow> ('a, 'w) outcome) \<Rightarrow> 'w \<Rightarrow> ('a, 'w) outcome" where
  "validated accepted run w = (if \<not> accepted then (Inl (BadRequestException ''Validation failed''), w) else run w)"

definition create_route where
  "create_route pipe e configKey b =
     validated (pipe create_props (by_fields b)) (with_operator b (create_config e configKey (by_dto b)))"

text \<open>The body of \<open>update\<close> has no class to validate against.\<close>

definition update_route where
  "update_route e configKey b = with_operator b (update_config e 0 configKey (by_dto b))"

definition rollback_route where
  "rollback_route pipe e configKey b =
     validated (pipe rollback_props (by_fields b)) (with_operator b (rollback e configKey (by_dto b)))"

definition promote_route where
  "promote_route pipe e configKey b =
     validated (pipe promote_props (by_fields b)) (with_operator b (promote e configKey (by_dto b)))"

definition status_route where
  "status_route pipe e configKey b =
     validated (pipe status_props (by_fields b)) (with_operator b (updateStatus e configKey (by_dto b)))"

text \<open>The HTTP answer of a route.\<close>

definition answered_with :: "int \<Rightarrow> ('a \<Rightarrow> json) \<Rightarrow> ('a, 'w) outcome \<Rightarrow> http_response \<times> 'w" where
  "answered_with okStatus enc r =
     (case r of (Inl e, w) \<Rightarrow> (Response (status_of_exn e) None, w) | (Inr v, w) \<Rightarrow> (Response okStatus (Some (enc v)), w))"

definition opt_dto_json :: "cfg_dto option \<Rightarrow> json" where
  "opt_dto_json v = (case v of None \<Rightarrow> JNull | Some d \<Rightarrow> dto_json d)"

end
