(* ===== verification/Hermes.thy ===== *)
theory Hermes
  imports Config_Routes
begin

text \<open>
  \<open>apps/hermes-gateway\<close>: the gateway through which an external agent reads the services and asks
  for operator actions. Its guards (API key, rate limit, key allowlist), the forwarding of a
  mutation with its audit record, the pages of the plan list, the incident briefs and the safe
  mode. A body that is missing is the empty text; one that is not JSON arrives as the object the
  gateway makes of it. What an upstream service answers is an argument, except for the configuration service,
  whose routes are those of \<open>Config_Routes\<close>.
\<close>

section \<open>API keys\<close>

definition parseAllowedKeys :: "string option \<Rightarrow> string list" where
  "parseAllowedKeys raw =
     (case raw of
        None \<Rightarrow> []
      | Some s \<Rightarrow> if js_trim s = [] then []
          else filter (\<lambda>k. k \<noteq> []) (map js_trim (js_split (CHR '','') s)))"

definition safeKeyEquals :: "string \<Rightarrow> string list \<Rightarrow> bool" where
  "safeKeyEquals provided allowed =
     fold (\<lambda>key matched. if length key = length provided then (if provided = key then True else matched) else matched)
       allowed False"

datatype header = No_header | One_header string | Many_headers "string list"

fun first_header :: "header \<Rightarrow> string option" where
  "first_header No_header = Some []"
| "first_header (One_header s) = Some s"
| "first_header (Many_headers ss) = (case ss of [] \<Rightarrow> None | s # _ \<Rightarrow> Some s)"

definition hermes_auth :: "string option \<Rightarrow> header \<Rightarrow> exn + unit" where
  "hermes_auth keysEnv h =
     (let allowed = parseAllowedKeys keysEnv
      in if allowed = [] then Inl (HttpException 401)
         else case js_or_null (first_header h) of
           None \<Rightarrow> Inl (HttpException 401)
         | Some provided \<Rightarrow> if safeKeyEquals provided allowed then Inr () else Inl (HttpException 401))"

section \<open>Rate limit\<close>

record rate_env =
  re_windowMs :: "string option"
  re_max :: "string option"
  re_enabled :: "string option"

definition bounded_setting :: "int \<Rightarrow> int \<Rightarrow> string option \<Rightarrow> int" where
  "bounded_setting dflt cap raw =
     (case raw of
        None \<Rightarrow> dflt
      | Some s \<Rightarrow> if js_trim s = [] then dflt
          else case js_parseInt10 s of Some n \<Rightarrow> if n > 0 then min n cap else dflt | None \<Rightarrow> dflt)"

definition rate_windowMs :: "rate_env \<Rightarrow> int" where
  "rate_windowMs env = bounded_setting 60000 3600000 (re_windowMs env)"

definition maxPerWindow :: "rate_env \<Rightarrow> int" where
  "maxPerWindow env = bounded_setting 60 10000 (re_max env)"

type_synonym rate_buckets = "string \<rightharpoonup> int \<times> int"

definition rate_allow :: "rate_env \<Rightarrow> int \<Rightarrow> string \<Rightarrow> rate_buckets \<Rightarrow> bool \<times> rate_buckets" where
  "rate_allow env now apiKey buckets =
     (if re_enabled env = Some ''false'' then (True, buckets)
      else case buckets apiKey of
        None \<Rightarrow> (True, buckets(apiKey \<mapsto> (1, now)))
      | Some (count, windowStart) \<Rightarrow>
          (if now - windowStart \<ge> rate_windowMs env then (True, buckets(apiKey \<mapsto> (1, now)))
           else if count \<ge> maxPerWindow env then (False, buckets)
           else (True, buckets(apiKey \<mapsto> (count + 1, windowStart)))))"

definition rate_guard :: "rate_env \<Rightarrow> int \<Rightarrow> header \<Rightarrow> rate_buckets \<Rightarrow> (unit, rate_buckets) outcome" where
  "rate_guard env now h buckets =
     (let bucketKey = (case js_or_null (first_header h) of Some k \<Rightarrow> k | None \<Rightarrow> ''anonymous'')
      in case rate_allow env now bucketKey buckets of
           (True, b) \<Rightarrow> (Inr (), b) | (False, b) \<Rightarrow> (Inl (HttpException 429), b))"

section \<open>Allowlist of configuration keys\<close>

definition ALLOWED_CONFIG_KEY_PATTERNS :: "string list" where
  "ALLOWED_CONFIG_KEY_PATTERNS = [''intake.'', ''paper.'', ''opportunity.'', ''dex.'', ''features.'', ''scanner.'']"

definition isConfigKeyAllowed :: "string \<Rightarrow> bool" where
  "isConfigKeyAllowed k = list_ex (starts_with k) ALLOWED_CONFIG_KEY_PATTERNS"

definition assertConfigKeyAllowed :: "string \<Rightarrow> exn + unit" where
  "assertConfigKeyAllowed k = (if isConfigKeyAllowed k then Inr () else Inl (HttpException 403))"

section \<open>Safe mode\<close>

record safe_state =
  sf_enabled :: bool
  sf_updatedAt :: int
  sf_reason :: "string option"
  sf_operator :: "string option"

definition emptyState :: safe_state where
  "emptyState = \<lparr> sf_enabled = False, sf_updatedAt = 0, sf_reason = None, sf_operator = None \<rparr>"

text \<open>A value in Redis is the state and not its text; it may expire.\<close>

record gateway =
  gw_client :: bool
  gw_memory :: safe_state
  gw_stored :: "(safe_state \<times> int option) option"
  gw_buckets :: rate_buckets
  gw_audit :: "audit_entry list"

definition safe_ttlSeconds :: "string option \<Rightarrow> int" where
  "safe_ttlSeconds raw =
     (case js_or_null (map_option js_trim raw) of
        None \<Rightarrow> 0
      | Some s \<Rightarrow> (case js_parseInt10 s of Some n \<Rightarrow> if n > 0 then min n (86400 * 7) else 0 | None \<Rightarrow> 0))"

definition getState :: "bool \<Rightarrow> int \<Rightarrow> gateway \<Rightarrow> safe_state" where
  "getState redisOk now g =
     (if \<not> gw_client g then gw_memory g
      else if \<not> redisOk then emptyState
      else case gw_stored g of
        None \<Rightarrow> emptyState
      | Some (s, expiry) \<Rightarrow> (case expiry of Some t \<Rightarrow> if now < t then s else emptyState | None \<Rightarrow> s))"

definition set_safe :: "bool \<Rightarrow> string option \<Rightarrow> bool \<Rightarrow> int \<Rightarrow> string \<Rightarrow> string option \<Rightarrow> gateway \<Rightarrow> (safe_state, gateway) outcome" where
  "set_safe on ttlEnv redisOk now operatorId reason g =
     (let st = \<lparr> sf_enabled = on, sf_updatedAt = now, sf_reason = Some (case reason of Some r \<Rightarrow> r
              | None \<Rightarrow> if on then ''operator_enabled'' else ''operator_disabled''), sf_operator = Some operatorId \<rparr>;
          ttl = safe_ttlSeconds ttlEnv
      in if \<not> gw_client g then (Inr st, g\<lparr>gw_memory := st\<rparr>)
         else if \<not> redisOk then (Inl (PlainError ''redis''), g)
         else (Inr st, g\<lparr>gw_stored := Some (st, if ttl > 0 then Some (now + ttl * 1000) else None)\<rparr>))"

definition safe_json :: "safe_state \<Rightarrow> json" where
  "safe_json s = JObj [(''enabled'', JBool (sf_enabled s)), (''updatedAt'', JIso (sf_updatedAt s)),
     (''reason'', jstr_or_null (sf_reason s)), (''updatedByOperatorId'', jstr_or_null (sf_operator s))]"

section \<open>Mutations\<close>

record hermes_dto =
  hd_operatorId :: string
  hd_approveReason :: "string option"
  hd_idempotencyKey :: "string option"
  hd_expectedEntityVersion :: "int option"

text \<open>The surroundings of one mutation: what becomes of the call, whether the audit service answers.\<close>

record hermes_env =
  hn_fate :: fate
  hn_audit :: bool
  hn_correlationId :: "string option"

definition action_text :: "string \<Rightarrow> int \<Rightarrow> string" where
  "action_text action status = (if status < 400 then action @ ''_OK'' else action @ ''_HTTP_'' @ string_of_int status)"

definition gateway_entry :: "hermes_env \<Rightarrow> hermes_dto \<Rightarrow> string \<Rightarrow> string \<Rightarrow> string \<Rightarrow> (string \<times> json) list \<Rightarrow> int \<Rightarrow> audit_entry" where
  "gateway_entry n dto resourceType resourceId action extra status =
     \<lparr> au_idempotencyKey = hd_idempotencyKey dto, au_correlationId = hn_correlationId n, au_actor = hd_operatorId dto,
       au_action = action_text action status, au_resourceType = resourceType, au_resourceId = resourceId,
       au_payload = JObj ([(''approveReason'', jstr_or_null (hd_approveReason dto)), (''httpStatus'', JNum (of_int status))] @ extra) \<rparr>"

text \<open>
  The call, its audit record, and the answer. An audit service that does not answer makes the
  mutation fail after it has been carried out.
\<close>

definition hermes_forward ::
  "hermes_env \<Rightarrow> (int \<Rightarrow> audit_entry) \<Rightarrow> ('s \<Rightarrow> http_response \<times> 's) \<Rightarrow> gateway \<times> 's \<Rightarrow> (json, gateway \<times> 's) outcome" where
  "hermes_forward n entry route gs =
     (case gs of (g, s) \<Rightarrow>
       (case hn_fate n of
          Lost \<Rightarrow> (Inl (PlainError ''fetch failed''), (g, s))
        | Answer_lost \<Rightarrow> (Inl (PlainError ''fetch failed''), (g, snd (route s)))
        | Answered \<Rightarrow>
            (case route s of
               (Unreachable, s1) \<Rightarrow> (Inl (PlainError ''fetch failed''), (g, s1))
             | (Response st body, s1) \<Rightarrow>
                 (if \<not> hn_audit n then (Inl (PlainError ''audit''), (g, s1))
                  else
                    (let g1 = g\<lparr>gw_audit := gw_audit g @ [entry st]\<rparr>
                     in if st \<ge> 400 then (Inl (HttpException (if st \<ge> 500 then 502 else st)), (g1, s1))
                        else (Inr (case body of Some b \<Rightarrow> b | None \<Rightarrow> JNull), (g1, s1)))))))"

definition hermes_armPlan where
  "hermes_armPlan n dto planId route =
     hermes_forward n (gateway_entry n dto ''hermes_mutation'' planId ''HERMES_ARM_PLAN'' []) (route planId)"

definition hermes_beginExecution where
  "hermes_beginExecution n dto planId route =
     hermes_forward n (gateway_entry n dto ''hermes_mutation'' planId ''HERMES_BEGIN_EXECUTION'' []) (route planId)"

definition resolve_body :: "hermes_dto \<Rightarrow> json" where
  "resolve_body dto = JObj ([(''status'', JStr ''resolved'')]
     @ opt_field ''expectedEntityVersion'' (\<lambda>v. JNum (of_int v)) (hd_expectedEntityVersion dto))"

definition hermes_resolveIncident where
  "hermes_resolveIncident n dto mismatchId route =
     hermes_forward n (gateway_entry n dto ''hermes_mutation'' mismatchId ''HERMES_RESOLVE_INCIDENT'' [(''patchBody'', resolve_body dto)])
       (route mismatchId (resolve_body dto))"

definition close_body :: "hermes_dto \<Rightarrow> json" where
  "close_body dto = JObj ([(''operatorId'', JStr (hd_operatorId dto))] @ opt_field ''approveReason'' JStr (hd_approveReason dto)
     @ opt_field ''idempotencyKey'' JStr (hd_idempotencyKey dto)
     @ opt_field ''expectedEntityVersion'' (\<lambda>v. JNum (of_int v)) (hd_expectedEntityVersion dto))"

definition hermes_closePosition where
  "hermes_closePosition n dto positionId route =
     hermes_forward n (gateway_entry n dto ''hermes_mutation'' positionId ''HERMES_CLOSE_POSITION'' []) (route positionId (close_body dto))"

definition hermes_safe_mode ::
  "hermes_env \<Rightarrow> bool \<Rightarrow> string option \<Rightarrow> bool \<Rightarrow> int \<Rightarrow> hermes_dto \<Rightarrow> string option \<Rightarrow> gateway \<Rightarrow> (json, gateway) outcome" where
  "hermes_safe_mode n on ttlEnv redisOk now dto reason g =
     (case set_safe on ttlEnv redisOk now (hd_operatorId dto) reason g of
        (Inl e, g1) \<Rightarrow> (Inl e, g1)
      | (Inr st, g1) \<Rightarrow>
          (if \<not> hn_audit n then (Inl (PlainError ''audit''), g1)
           else (Inr (JObj [(''safeMode'', safe_json st)]),
             g1\<lparr>gw_audit := gw_audit g1 @ [\<lparr> au_idempotencyKey = hd_idempotencyKey dto, au_correlationId = hn_correlationId n,
               au_actor = hd_operatorId dto, au_action = (if on then ''HERMES_SAFE_MODE_ENABLE'' else ''HERMES_SAFE_MODE_DISABLE''),
               au_resourceType = ''safe_mode'', au_resourceId = ''global'',
               au_payload = JObj [(''reason'', jstr_or_null reason), (''state'', safe_json st)] \<rparr>]\<rparr>)))"

section \<open>Configuration through the gateway\<close>

definition given :: "string \<Rightarrow> 'a option \<Rightarrow> string list" where
  "given name v = (case v of None \<Rightarrow> [] | Some _ \<Rightarrow> [name])"

definition opt_json :: "string \<Rightarrow> string option \<Rightarrow> (string \<times> json) list" where
  "opt_json name v = opt_field name JStr v"

text \<open>The check of the key, then the call of the configuration service.\<close>

definition hermes_config_mutation ::
  "hermes_env \<Rightarrow> hermes_dto \<Rightarrow> string \<Rightarrow> string \<Rightarrow> (string \<times> json) list \<Rightarrow> (config_world \<Rightarrow> http_response \<times> config_world)
     \<Rightarrow> gateway \<times> config_world \<Rightarrow> (json, gateway \<times> config_world) outcome" where
  "hermes_config_mutation n dto configKey action extra route gs =
     (case assertConfigKeyAllowed configKey of
        Inl e \<Rightarrow> (Inl e, gs)
      | Inr _ \<Rightarrow> hermes_forward n (gateway_entry n dto ''policy_configuration'' configKey action extra) route gs)"

record config_update_dto = hermes_dto +
  hu_configValue :: string
  hu_scopeType :: "scope_type option"
  hu_scopeValue :: "string option"
  hu_active :: "bool option"

definition update_body :: "config_update_dto \<Rightarrow> config_dto body" where
  "update_body d = \<lparr> by_fields = [''configValue'', ''operatorId''] @ given ''scopeType'' (hu_scopeType d)
       @ given ''scopeValue'' (hu_scopeValue d) @ given ''status'' (hu_active d) @ given ''approveReason'' (hd_approveReason d),
     by_dto = \<lparr> dc_configValue = hu_configValue d, dc_isSensitive = None, dc_scopeType = hu_scopeType d,
       dc_scopeValue = hu_scopeValue d, dc_approveReason = hd_approveReason d,
       dc_active = (case hu_active d of None \<Rightarrow> True | Some b \<Rightarrow> b) \<rparr>,
     by_operatorId = Some (hd_operatorId d) \<rparr>"

definition hermes_updateConfig where
  "hermes_updateConfig n e configKey d =
     hermes_config_mutation n (hermes_dto.truncate d) configKey ''HERMES_CONFIG_UPDATE''
       ((case hu_scopeType d of None \<Rightarrow> [] | Some t \<Rightarrow> [(''scopeType'', JStr (scope_text t))]) @ opt_json ''scopeValue'' (hu_scopeValue d))
       (\<lambda>w. answered_with 200 opt_dto_json (update_route e configKey (update_body d) w))"

record config_rollback_dto = hermes_dto +
  hr_toVersion :: int
  hr_scopeType :: "scope_type option"
  hr_scopeValue :: "string option"

definition rollback_body :: "config_rollback_dto \<Rightarrow> rollback_dto body" where
  "rollback_body d = \<lparr> by_fields = [''toVersion'', ''operatorId''] @ given ''scopeType'' (hr_scopeType d)
       @ given ''scopeValue'' (hr_scopeValue d) @ given ''approveReason'' (hd_approveReason d),
     by_dto = \<lparr> dr_toVersion = hr_toVersion d, dr_scopeType = hr_scopeType d, dr_scopeValue = hr_scopeValue d,
       dr_isSensitive = None, dr_approveReason = hd_approveReason d \<rparr>,
     by_operatorId = Some (hd_operatorId d) \<rparr>"

definition hermes_rollbackConfig where
  "hermes_rollbackConfig pipe n e configKey d =
     hermes_config_mutation n (hermes_dto.truncate d) configKey ''HERMES_CONFIG_ROLLBACK'' [(''toVersion'', JNum (of_int (hr_toVersion d)))]
       (\<lambda>w. answered_with 201 JStr (rollback_route pipe e configKey (rollback_body d) w))"

record config_promote_dto = hermes_dto +
  hp_fromScopeType :: scope_type
  hp_fromScopeValue :: "string option"
  hp_toScopeType :: scope_type
  hp_toScopeValue :: "string option"

definition promote_body :: "config_promote_dto \<Rightarrow> promote_dto body" where
  "promote_body d = \<lparr> by_fields = [''fromScopeType'', ''toScopeType'', ''operatorId''] @ given ''fromScopeValue'' (hp_fromScopeValue d)
       @ given ''toScopeValue'' (hp_toScopeValue d) @ given ''approveReason'' (hd_approveReason d)
       @ given ''idempotencyKey'' (hd_idempotencyKey d),
     by_dto = \<lparr> dp_fromScopeType = hp_fromScopeType d, dp_fromScopeValue = hp_fromScopeValue d, dp_toScopeType = hp_toScopeType d,
       dp_toScopeValue = hp_toScopeValue d, dp_approveReason = hd_approveReason d, dp_idempotencyKey = hd_idempotencyKey d \<rparr>,
     by_operatorId = Some (hd_operatorId d) \<rparr>"

definition hermes_promoteConfig where
  "hermes_promoteConfig pipe n e configKey d =
     hermes_config_mutation n (hermes_dto.truncate d) configKey ''HERMES_CONFIG_PROMOTE''
       [(''fromScopeType'', JStr (scope_text (hp_fromScopeType d))), (''toScopeType'', JStr (scope_text (hp_toScopeType d)))]
       (\<lambda>w. answered_with 201 opt_dto_json (promote_route pipe e configKey (promote_body d) w))"

record config_status_dto = hermes_dto +
  ht_active :: bool
  ht_scopeType :: "scope_type option"
  ht_scopeValue :: "string option"

definition status_body :: "config_status_dto \<Rightarrow> status_dto body" where
  "status_body d = \<lparr> by_fields = [''status'', ''operatorId''] @ given ''scopeType'' (ht_scopeType d)
       @ given ''scopeValue'' (ht_scopeValue d) @ given ''approveReason'' (hd_approveReason d),
     by_dto = \<lparr> du_active = ht_active d, du_scopeType = ht_scopeType d, du_scopeValue = ht_scopeValue d,
       du_approveReason = hd_approveReason d \<rparr>,
     by_operatorId = Some (hd_operatorId d) \<rparr>"

definition hermes_activateConfig where
  "hermes_activateConfig pipe n e configKey d =
     hermes_config_mutation n (hermes_dto.truncate d) configKey ''HERMES_CONFIG_STATUS'' [(''status'', status_json (ht_active d))]
       (\<lambda>w. answered_with 200 opt_dto_json (status_route pipe e configKey (status_body d) w))"

text \<open>A read of the effective value; every key may be read.\<close>

definition hermes_proxyGet :: "fate \<Rightarrow> ('s \<Rightarrow> http_response \<times> 's) \<Rightarrow> 's \<Rightarrow> (json, 's) outcome" where
  "hermes_proxyGet f route s =
     (case f of
        Lost \<Rightarrow> (Inl (PlainError ''fetch failed''), s)
      | Answer_lost \<Rightarrow> (Inl (PlainError ''fetch failed''), snd (route s))
      | Answered \<Rightarrow>
          (case route s of
             (Unreachable, s1) \<Rightarrow> (Inl (PlainError ''fetch failed''), s1)
           | (Response st body, s1) \<Rightarrow>
               (if st \<ge> 400 then (Inl (HttpException (if st \<ge> 500 then 502 else st)), s1)
                else (Inr (case body of Some b \<Rightarrow> b | None \<Rightarrow> JNull), s1))))"

definition hermes_getEffective where
  "hermes_getEffective f e configKey environment tenantId =
     hermes_proxyGet f (effective_route e configKey (js_or_null environment) (js_or_null tenantId))"

section \<open>Pages of the plan list\<close>

definition planRowId :: "json option \<Rightarrow> string" where
  "planRowId v = (case v of Some (JStr s) \<Rightarrow> s | Some (JNum q) \<Rightarrow> js_number_string q
     | Some (JBool b) \<Rightarrow> if b then ''true'' else ''false'' | _ \<Rightarrow> [])"

definition clampLimit :: "string option \<Rightarrow> nat" where
  "clampLimit raw =
     (case js_or_null raw of
        None \<Rightarrow> 50
      | Some s \<Rightarrow> (case js_parseInt10 s of None \<Rightarrow> 50 | Some n \<Rightarrow> nat (min 100 (max 1 n))))"

fun find_index :: "('a \<Rightarrow> bool) \<Rightarrow> 'a list \<Rightarrow> nat option" where
  "find_index P [] = None"
| "find_index P (x # xs) = (if P x then Some 0 else map_option Suc (find_index P xs))"

definition paginatePlanItems :: "json list \<Rightarrow> nat \<Rightarrow> string option \<Rightarrow> exn + json list \<times> string option" where
  "paginatePlanItems items limit cursor =
     (case (case js_or_null cursor of
              None \<Rightarrow> Some 0
            | Some c \<Rightarrow> map_option Suc (find_index (\<lambda>it. planRowId (jget it ''id'') = c) items)) of
        None \<Rightarrow> Inl (HttpException 400)
      | Some start \<Rightarrow>
          (let page = take limit (drop start items);
               nextId = (if page = [] then [] else planRowId (jget (last page) ''id''));
               hasMore = start + length page < length items
           in Inr (page, if hasMore \<and> page \<noteq> [] \<and> nextId \<noteq> [] then Some nextId else None)))"

definition listPlans :: "http_response \<Rightarrow> string option \<Rightarrow> string option \<Rightarrow> exn + json list \<times> string option \<times> nat" where
  "listPlans answer limitStr cursor =
     (case answer of
        Unreachable \<Rightarrow> Inl (PlainError ''fetch failed'')
      | Response st body \<Rightarrow>
          (if st \<ge> 400 then Inl (HttpException st)
           else
             (let rawItems = (case body of Some b \<Rightarrow> (case jget b ''items'' of Some (JArr xs) \<Rightarrow> xs | _ \<Rightarrow> []) | None \<Rightarrow> []);
                  items = map (\<lambda>it. case it of JObj kvs \<Rightarrow> JObj kvs | _ \<Rightarrow> JObj []) rawItems;
                  limit = clampLimit limitStr
              in case paginatePlanItems items limit cursor of
                   Inl e \<Rightarrow> Inl e | Inr (page, nextCursor) \<Rightarrow> Inr (page, nextCursor, limit))))"

section \<open>Incident briefs\<close>

record brief =
  ib_id :: string
  ib_kind :: string
  ib_status :: string
  ib_summary :: string
  ib_updatedAt :: string

definition str_or :: "string \<Rightarrow> json option \<Rightarrow> string" where
  "str_or dflt v = (case v of Some (JStr s) \<Rightarrow> s | _ \<Rightarrow> dflt)"

text \<open>
  \<open>nowText\<close> is the rendering of the present instant, \<open>isoText\<close> of a given one; the bytes in the summary
  are those of a dash.
\<close>

definition brief_of :: "(int \<Rightarrow> string) \<Rightarrow> string \<Rightarrow> json \<Rightarrow> brief" where
  "brief_of isoText nowText r =
     (let kind = str_or ''unknown'' (jget r ''kind''); status = str_or ''open'' (jget r ''status'')
      in \<lparr> ib_id = str_or [] (jget r ''id''), ib_kind = kind, ib_status = status,
           ib_summary = (case jnonempty_str (obj_field (jget r ''details'') ''hint'') of
              Some h \<Rightarrow> h | None \<Rightarrow> kind @ '' '' @ [CHR 0xE2, CHR 0x80, CHR 0x94] @ '' '' @ status),
           ib_updatedAt = (case jget r ''updatedAt'' of Some (JStr s) \<Rightarrow> s | Some (JIso t) \<Rightarrow> isoText t | _ \<Rightarrow> nowText) \<rparr>)"

definition buildBriefs :: "(int \<Rightarrow> string) \<Rightarrow> string \<Rightarrow> http_response \<Rightarrow> exn + brief list" where
  "buildBriefs isoText nowText answer =
     (case answer of
        Unreachable \<Rightarrow> Inl (PlainError ''fetch failed'')
      | Response st body \<Rightarrow>
          (if st \<ge> 400 then Inr []
           else case body of
             Some JNull \<Rightarrow> Inl (PlainError ''Cannot read properties of null'')
           | None \<Rightarrow> Inl (PlainError ''Cannot read properties of null'')
           | Some b \<Rightarrow>
               (case jget b ''items'' of
                  Some (JArr xs) \<Rightarrow>
                    (if JNull \<in> set xs then Inl (PlainError ''Cannot read properties of null'')
                     else Inr (map (brief_of isoText nowText) xs))
                | _ \<Rightarrow> Inr [])))"

end
