(* ===== verification/Live_Gates.thy ===== *)
theory Live_Gates
  imports Live_Guards Plans
begin

text \<open>
  What the live auto-drive worker of the opportunity service asks before it makes a plan
  (\<open>live-auto-drive-config.service.ts\<close>, \<open>live-kill-switch.service.ts\<close> and the read-only clients of
  the orchestrator and the risk service). What these services answer is an argument.
\<close>

section \<open>Configuration\<close>

record live_config =
  lv_enabled :: bool
  lv_intervalMs :: int
  lv_minNetProfitUsd :: rat
  lv_maxConcurrentPlans :: int
  lv_notionalUsd :: rat
  lv_batchSize :: int
  lv_minRoundTripBps :: jsnum

record live_env =
  le_enabled :: "string option"             \<comment> \<open>\<open>LIVE_AUTO_DRIVE_ENABLED\<close>\<close>
  le_intervalMs :: "string option"
  le_minNetProfitUsd :: "string option"
  le_maxConcurrentPlans :: "string option"
  le_notionalUsd :: "string option"         \<comment> \<open>\<open>LIVE_NOTIONAL_USD\<close>\<close>
  le_batchSize :: "string option"
  le_minRoundTripBps :: "string option"
  le_cacheMs :: "string option"             \<comment> \<open>\<open>LIVE_AUTO_DRIVE_CONFIG_CACHE_MS\<close>\<close>
  le_configServiceUrl :: "string option"
  le_configApiBase :: "string option"

definition parseBooleanEnv :: "string option \<Rightarrow> bool \<Rightarrow> bool" where
  "parseBooleanEnv raw fallback =
     (case raw of None \<Rightarrow> fallback
      | Some s \<Rightarrow>
          (let v = js_lower (js_trim s)
           in if s = [] then fallback
              else if v \<in> {''1'', ''true'', ''yes'', ''on''} then True
              else if v \<in> {''0'', ''false'', ''no'', ''off''} then False
              else fallback))"

definition parsePositiveIntEnv :: "string option \<Rightarrow> int \<Rightarrow> int \<Rightarrow> int" where
  "parsePositiveIntEnv raw fallback least =
     (case raw of None \<Rightarrow> fallback
      | Some s \<Rightarrow> if s = [] then fallback
          else case js_parseInt10 s of None \<Rightarrow> fallback | Some n \<Rightarrow> max least n)"

definition parseFiniteNumberEnv :: "string option \<Rightarrow> rat \<Rightarrow> rat \<Rightarrow> rat" where
  "parseFiniteNumberEnv raw fallback least =
     (case raw of None \<Rightarrow> fallback
      | Some s \<Rightarrow> if s = [] then fallback
          else case js_Number s of Fin n \<Rightarrow> max least n | _ \<Rightarrow> fallback)"

definition loadConfigFromEnv :: "live_env \<Rightarrow> live_config" where
  "loadConfigFromEnv e =
     \<lparr> lv_enabled = parseBooleanEnv (le_enabled e) False,
       lv_intervalMs = parsePositiveIntEnv (le_intervalMs e) 10000 1000,
       lv_minNetProfitUsd = parseFiniteNumberEnv (le_minNetProfitUsd e) 5 0,
       lv_maxConcurrentPlans = parsePositiveIntEnv (le_maxConcurrentPlans e) 3 0,
       lv_notionalUsd = parseFiniteNumberEnv (le_notionalUsd e) 50 0,
       lv_batchSize = parsePositiveIntEnv (le_batchSize e) 1 1,
       lv_minRoundTripBps = (case js_Number (case le_minRoundTripBps e of None \<Rightarrow> ''0'' | Some s \<Rightarrow> s) of NaN \<Rightarrow> Fin 0 | n \<Rightarrow> n) \<rparr>"

definition buildConfigServiceBaseUrl :: "live_env \<Rightarrow> string option" where
  "buildConfigServiceBaseUrl e =
     (case map_option js_trim (le_configServiceUrl e) of
        Some (c # u) \<Rightarrow> Some (c # u)
      | _ \<Rightarrow> (case map_option js_trim (le_configApiBase e) of Some (c # u) \<Rightarrow> Some (c # u) | _ \<Rightarrow> None))"

text \<open>\<open>None\<close> is \<open>null\<close>, also when the request or the parsing of the answer throws.\<close>

definition fetchEffectiveLiveAutoDrive :: "(string \<Rightarrow> json option) \<Rightarrow> live_env \<Rightarrow> http_response \<Rightarrow> json option" where
  "fetchEffectiveLiveAutoDrive JSON_parse e resp =
     (if buildConfigServiceBaseUrl e = None then None
      else case resp of
        Response st (Some body) \<Rightarrow>
          (if \<not> http_ok st then None
           else case jget body ''configValue'' of Some (JStr s) \<Rightarrow> JSON_parse s | _ \<Rightarrow> None)
      | _ \<Rightarrow> None)"

definition applyRemoteJson :: "live_config \<Rightarrow> json option \<Rightarrow> live_config" where
  "applyRemoteJson base remote =
     (case remote of None \<Rightarrow> base
      | Some r \<Rightarrow>
          base\<lparr>lv_enabled := (case jget r ''enabled'' of Some (JBool b) \<Rightarrow> b | _ \<Rightarrow> lv_enabled base),
            lv_minNetProfitUsd := (case jget r ''minNetProfitUsd'' of Some (JNum q) \<Rightarrow> max 0 q | _ \<Rightarrow> lv_minNetProfitUsd base),
            lv_maxConcurrentPlans := (case jget r ''maxConcurrentPlans'' of Some (JNum q) \<Rightarrow> max 0 \<lfloor>q\<rfloor> | _ \<Rightarrow> lv_maxConcurrentPlans base),
            lv_notionalUsd := (case jget r ''notionalUsd'' of Some (JNum q) \<Rightarrow> max 0 q | _ \<Rightarrow> lv_notionalUsd base)\<rparr>)"

type_synonym live_cache = "(int \<times> json option) option"

definition ensureEffectiveConfigLoaded ::
  "(string \<Rightarrow> json option) \<Rightarrow> live_env \<Rightarrow> http_response \<Rightarrow> int \<Rightarrow> live_cache \<Rightarrow> live_config \<times> live_cache" where
  "ensureEffectiveConfigLoaded JSON_parse e resp now cache =
     (let ttlMs = parsePositiveIntEnv (le_cacheMs e) 15000 5000;
          base = loadConfigFromEnv e;
          fetched = (let remote = fetchEffectiveLiveAutoDrive JSON_parse e resp in (applyRemoteJson base remote, Some (now, remote)))
      in case cache of
           None \<Rightarrow> fetched
         | Some (fetchedAt, remote) \<Rightarrow> if now - fetchedAt < ttlMs then (applyRemoteJson base remote, cache) else fetched)"

section \<open>Kill switch\<close>

definition parseKillSwitch :: "(string \<Rightarrow> json option) \<Rightarrow> bool \<Rightarrow> json \<Rightarrow> bool option" where
  "parseKillSwitch JSON_parse ok body =
     (if \<not> ok \<or> \<not> jis_object (Some body) then None
      else case jnonempty_str (jget body ''configValue'') of
        None \<Rightarrow> None
      | Some raw \<Rightarrow>
          (case JSON_parse raw of
             None \<Rightarrow> None
           | Some parsed \<Rightarrow>
               if \<not> jis_object (Some parsed) then None
               else Some (case jget parsed ''killSwitch'' of Some (JBool b) \<Rightarrow> b | _ \<Rightarrow> False)))"

definition refresh_live_halt :: "(string \<Rightarrow> json option) \<Rightarrow> bool \<Rightarrow> json \<Rightarrow> int \<Rightarrow> halt_cache \<Rightarrow> halt_cache" where
  "refresh_live_halt JSON_parse ok body now cache =
     (case parseKillSwitch JSON_parse ok body of None \<Rightarrow> cache | Some v \<Rightarrow> Some (v, now))"

text \<open>\<open>LiveKillSwitchService.isLiveHalted\<close>; its time to live is a constant.\<close>

definition live_isLiveHalted ::
  "(string \<Rightarrow> json option) \<Rightarrow> halt_env \<Rightarrow> bool \<Rightarrow> json \<Rightarrow> int \<Rightarrow> halt_cache \<Rightarrow> bool \<times> halt_cache" where
  "live_isLiveHalted JSON_parse env ok body now cache =
     (case parseEnvOverride env of
        Some b \<Rightarrow> (b, cache)
      | None \<Rightarrow>
          (let cache' = (case cache of
                 None \<Rightarrow> refresh_live_halt JSON_parse ok body now cache
               | Some (_, fetchedAt) \<Rightarrow>
                   if now - fetchedAt > 30000 then refresh_live_halt JSON_parse ok body now cache else cache)
           in case cache' of Some (v, _) \<Rightarrow> (v, cache') | None \<Rightarrow> (he_production env, cache')))"

section \<open>Clients\<close>

definition getTokenPriceUsd :: "http_response \<Rightarrow> rat option" where
  "getTokenPriceUsd resp =
     (case resp of
        Response st (Some body) \<Rightarrow>
          (if \<not> http_ok st then None
           else case jget body ''priceUsd'' of Some (JNum q) \<Rightarrow> if q \<le> 0 then None else Some q | _ \<Rightarrow> None)
      | _ \<Rightarrow> None)"

definition getBestFeeTier :: "http_response \<Rightarrow> rat option" where
  "getBestFeeTier resp =
     (case resp of
        Response st (Some body) \<Rightarrow>
          (if \<not> http_ok st then None
           else case jget body ''fee'' of Some (JNum q) \<Rightarrow> if q < 0 then None else Some q | _ \<Rightarrow> None)
      | _ \<Rightarrow> None)"

text \<open>The two amounts of the answer are checked to be strings and are otherwise not used.\<close>

definition evaluateRoundTrip :: "http_response \<Rightarrow> rat option" where
  "evaluateRoundTrip resp =
     (case resp of
        Response st (Some body) \<Rightarrow>
          (if \<not> http_ok st \<or> jget body ''ok'' \<noteq> Some (JBool True) then None
           else case (jget body ''roundTripBps'', jget body ''buyOut'', jget body ''sellOut'') of
             (Some (JNum q), Some (JStr _), Some (JStr _)) \<Rightarrow> Some q
           | _ \<Rightarrow> None)
      | _ \<Rightarrow> None)"

text \<open>The correlation id of a risk decision.\<close>

definition getRiskDecision_live :: "string \<Rightarrow> http_response \<Rightarrow> string option" where
  "getRiskDecision_live i resp =
     (if i = [] then None
      else case resp of
        Response st (Some body) \<Rightarrow> if \<not> http_ok st then None else jnonempty_str (jget body ''correlationId'')
      | _ \<Rightarrow> None)"

section \<open>Properties\<close>

lemma refresh_agree:
  assumes "\<And>raw p. JSON_parse raw = Some p \<Longrightarrow> jis_object (Some p)"
  shows "refresh_live_halt JSON_parse ok body now cache = refresh_halt JSON_parse ok body now cache"
  using assms by (auto simp: refresh_live_halt_def parseKillSwitch_def refresh_halt_def split: option.splits)

text \<open>The answers to a sequence of polls, each with the reply of the config service and the time.\<close>

fun polls :: "(bool \<Rightarrow> json \<Rightarrow> int \<Rightarrow> halt_cache \<Rightarrow> bool \<times> halt_cache) \<Rightarrow> (bool \<times> json \<times> int) list \<Rightarrow> halt_cache \<Rightarrow> bool list" where
  "polls f [] cache = []"
| "polls f ((ok, body, now) # qs) cache = (case f ok body now cache of (b, cache') \<Rightarrow> b # polls f qs cache')"

text \<open>
  Both kill switches agree. With the default lifetime of the cache and configuration values that
  parse to objects, the opportunity service and the orchestrator give the same answers to every
  sequence of polls that sees the same replies, from the same cache and environment.
\<close>

theorem kill_switches_agree:
  assumes "\<And>raw p. JSON_parse raw = Some p \<Longrightarrow> jis_object (Some p)" and "cacheTtlMs env = 30000"
  shows "polls (live_isLiveHalted JSON_parse env) qs cache = polls (isLiveHalted JSON_parse env) qs cache"
proof -
  have refresh: "refresh_live_halt JSON_parse = refresh_halt JSON_parse"
    by (intro ext refresh_agree) (rule assms(1))
  have "live_isLiveHalted JSON_parse env ok body now c = isLiveHalted JSON_parse env ok body now c" for ok body now c
    unfolding live_isLiveHalted_def isLiveHalted_def refresh assms(2) by (rule refl)
  then have "live_isLiveHalted JSON_parse env = isLiveHalted JSON_parse env" by (intro ext)
  then show ?thesis by simp
qed

definition ex_halt_env :: halt_env where
  "ex_halt_env = \<lparr> he_override = None, he_cacheTtl = None, he_production = True \<rparr>"

definition ex_parse :: "string \<Rightarrow> json option" where
  "ex_parse raw = (if raw = ''halt'' then Some (JObj [(''killSwitch'', JBool True)])
     else if raw = ''go'' then Some (JObj [(''killSwitch'', JBool False)]) else None)"

abbreviation ex_polls :: "(bool \<times> json \<times> int) list" where
  "ex_polls \<equiv> [(False, JNull, 0), (True, JObj [(''configValue'', JStr ''go'')], 1),
     (True, JObj [(''configValue'', JStr ''halt'')], 20000), (True, JObj [(''configValue'', JStr ''halt'')], 40000)]"

theorem kill_switches_agree_witness:
  "polls (live_isLiveHalted ex_parse ex_halt_env) ex_polls None = polls (isLiveHalted ex_parse ex_halt_env) ex_polls None
    \<and> polls (isLiveHalted ex_parse ex_halt_env) ex_polls None = [True, False, False, True]"
proof
  have "\<And>raw p. ex_parse raw = Some p \<Longrightarrow> jis_object (Some p)"
    by (auto simp: ex_parse_def jis_object_def split: if_splits)
  moreover have "cacheTtlMs ex_halt_env = 30000" by (simp add: cacheTtlMs_def ex_halt_env_def)
  ultimately show "polls (live_isLiveHalted ex_parse ex_halt_env) ex_polls None = polls (isLiveHalted ex_parse ex_halt_env) ex_polls None"
    by (rule kill_switches_agree)
  show "polls (isLiveHalted ex_parse ex_halt_env) ex_polls None = [True, False, False, True]" by code_simp
qed

text \<open>A configuration value that is valid JSON and no object: one service goes on, the other stays halted.\<close>

lemma kill_switches_differ:
  assumes "parseEnvOverride env = None" "he_production env" "raw \<noteq> []" "JSON_parse raw = Some (JBool True)"
  shows "fst (live_isLiveHalted JSON_parse env True (JObj [(''configValue'', JStr raw)]) now None)"
    and "\<not> fst (isLiveHalted JSON_parse env True (JObj [(''configValue'', JStr raw)]) now None)"
  using assms by (simp_all add: live_isLiveHalted_def isLiveHalted_def refresh_live_halt_def refresh_halt_def parseKillSwitch_def
      jis_object_def jnonempty_str_def)

definition config_in_range :: "live_config \<Rightarrow> bool" where
  "config_in_range c \<longleftrightarrow> 0 \<le> lv_notionalUsd c \<and> 0 \<le> lv_minNetProfitUsd c \<and> 0 \<le> lv_maxConcurrentPlans c
     \<and> 1 \<le> lv_batchSize c \<and> 1000 \<le> lv_intervalMs c"

lemma env_in_range: "config_in_range (loadConfigFromEnv e)"
proof -
  have i: "fb \<ge> least \<Longrightarrow> parsePositiveIntEnv raw fb least \<ge> least" for raw fb least
    by (auto simp: parsePositiveIntEnv_def split: option.split)
  have q: "fb \<ge> least \<Longrightarrow> parseFiniteNumberEnv raw fb least \<ge> least" for raw fb least
    by (auto simp: parseFiniteNumberEnv_def split: option.split jsnum.split)
  show ?thesis unfolding config_in_range_def loadConfigFromEnv_def live_config.simps by (intro conjI i q) simp_all
qed

lemma remote_in_range: "config_in_range c \<Longrightarrow> config_in_range (applyRemoteJson c r)"
  by (cases r) (auto simp: config_in_range_def applyRemoteJson_def split: option.split json.split)

lemma remote_enabled:
  "lv_enabled (applyRemoteJson c r) =
     (case Option.bind r (\<lambda>r. jget r ''enabled'') of Some (JBool b) \<Rightarrow> b | _ \<Rightarrow> lv_enabled c)"
  by (cases r) (simp_all add: applyRemoteJson_def)

lemma ensure_cases:
  obtains t r where "ensureEffectiveConfigLoaded JSON_parse e resp now cache = (applyRemoteJson (loadConfigFromEnv e) r, Some (t, r))"
  by (cases cache; cases "now - fst (the cache) < parsePositiveIntEnv (le_cacheMs e) 15000 5000")
    (auto simp: ensureEffectiveConfigLoaded_def Let_def)

text \<open>
  Automation is opt-in. Whatever the environment, the config service and the cache hold, the
  worker is enabled exactly as the last answer says, or as the environment says when that answer is
  missing or does not say; the notional, the profit floor and the number of plans are not negative,
  a batch takes at least one row and the interval is at least a second.
\<close>

theorem live_config_safe:
  "\<exists>c t r. ensureEffectiveConfigLoaded JSON_parse e resp now cache = (c, Some (t, r)) \<and> config_in_range c
     \<and> lv_enabled c = (case Option.bind r (\<lambda>r. jget r ''enabled'') of Some (JBool b) \<Rightarrow> b | _ \<Rightarrow> parseBooleanEnv (le_enabled e) False)"
proof -
  obtain t r where "ensureEffectiveConfigLoaded JSON_parse e resp now cache = (applyRemoteJson (loadConfigFromEnv e) r, Some (t, r))"
    by (rule ensure_cases)
  moreover have "lv_enabled (loadConfigFromEnv e) = parseBooleanEnv (le_enabled e) False" by (simp add: loadConfigFromEnv_def)
  ultimately show ?thesis using remote_in_range [OF env_in_range]
    by (auto simp: remote_enabled split: option.splits json.splits)
qed

end
