(* ===== verification/Config_Props.thy ===== *)
theory Config_Props
  imports Config_Service Live_Gates
begin

text \<open>
  Properties of the configuration service: when its cache agrees with the database, what a scope
  blind cache entry and a missing Redis do to the readers, and what the panic button achieves
  in the orchestrator and the opportunity service.
\<close>

section \<open>Reading the database\<close>

lemma first_by_Some: "first_by rank rs = Some r \<Longrightarrow> r \<in> set rs"
  by (auto simp: first_by_def dest: find_SomeD)

lemma first_by_None: "first_by rank rs = None \<longleftrightarrow> rs = []"
proof
  assume n: "first_by rank rs = None"
  show "rs = []"
  proof (rule ccontr)
    assume "rs \<noteq> []"
    then have "finite ((\<lambda>r. rank (cg_id r)) ` set rs)" "(\<lambda>r. rank (cg_id r)) ` set rs \<noteq> {}" by simp_all
    from Min_in [OF this] obtain r where "r \<in> set rs" "rank (cg_id r) = Min ((\<lambda>r. rank (cg_id r)) ` set rs)" by auto
    then have "\<forall>x \<in> set rs. rank (cg_id r) \<le> rank (cg_id x)" by simp
    with n \<open>r \<in> set rs\<close> show False by (auto simp: first_by_def find_None_iff)
  qed
qed (simp add: first_by_def)

lemma first_by_single [simp]: "first_by rank [r] = Some r"
  by (simp add: first_by_def)

lemma filter_of_filter:
  assumes "\<And>r. P r \<Longrightarrow> Q r" and "filter Q rs = filter Q rs'"
  shows "filter P rs = filter P rs'"
proof -
  have "filter P xs = filter P (filter Q xs)" for xs using assms(1) by (auto intro: filter_cong)
  with assms(2) show ?thesis by metis
qed

lemma latest_of_cong:
  assumes "filter (\<lambda>r. cg_configKey r = k \<and> cg_scopeType r = st) rs = filter (\<lambda>r. cg_configKey r = k \<and> cg_scopeType r = st) rs'"
  shows "latest_of rank rs k st sv = latest_of rank rs' k st sv"
proof -
  have "filter (\<lambda>r. cg_isActive r \<and> in_scope k st sv r) rs = filter (\<lambda>r. cg_isActive r \<and> in_scope k st sv r) rs'"
    by (rule filter_of_filter [OF _ assms]) (simp add: in_scope_def)
  then show ?thesis by (simp add: latest_of_def)
qed

lemma v_latest_filter_cong:
  assumes eq: "filter (\<lambda>r. cg_configKey r = k \<and> cg_scopeType r \<in> T) rs = filter (\<lambda>r. cg_configKey r = k \<and> cg_scopeType r \<in> T) rs'"
    and P: "\<And>r. P r \<Longrightarrow> cg_configKey r = k \<and> cg_scopeType r \<in> T"
  shows "filter P (v_latest rank rs) = filter P (v_latest rank rs')"
proof -
  have l: "latest_of rank rs k st sv = latest_of rank rs' k st sv" if "st \<in> T" for st sv
    by (rule latest_of_cong) (rule filter_of_filter [OF _ eq], use that in auto)
  have "filter (\<lambda>r. P r \<and> latest_of rank rs (cg_configKey r) (cg_scopeType r) (cg_scopeValue r) = Some r) xs
      = filter (\<lambda>r. P r \<and> latest_of rank rs' (cg_configKey r) (cg_scopeType r) (cg_scopeValue r) = Some r) xs" for xs
    using P l by (intro filter_cong) auto
  moreover have "filter (\<lambda>r. P r \<and> latest_of rank rs' (cg_configKey r) (cg_scopeType r) (cg_scopeValue r) = Some r) rs
      = filter (\<lambda>r. P r \<and> latest_of rank rs' (cg_configKey r) (cg_scopeType r) (cg_scopeValue r) = Some r) rs'"
    by (rule filter_of_filter [OF _ eq]) (use P in auto)
  ultimately show ?thesis by (simp add: v_latest_def conj_commute)
qed

lemma effective_cong:
  assumes "filter (\<lambda>r. cg_configKey r = k) rs = filter (\<lambda>r. cg_configKey r = k) rs'"
  shows "get_effective_config_value rank k env ten rs = get_effective_config_value rank k env ten rs'"
proof -
  have "filter (\<lambda>r. cg_configKey r = k \<and> P r) (v_latest rank rs) = filter (\<lambda>r. cg_configKey r = k \<and> P r) (v_latest rank rs')" for P
    by (rule v_latest_filter_cong [where T = UNIV]) (use assms in auto)
  then show ?thesis by (simp add: get_effective_config_value_def)
qed

lemma v_latest_rows: "r \<in> set (v_latest rank rs) \<Longrightarrow> r \<in> set rs"
  by (simp add: v_latest_def)

section \<open>The cache is coherent\<close>

definition owned :: "cfg_row list \<Rightarrow> string \<Rightarrow> scope_type \<Rightarrow> string \<Rightarrow> bool" where
  "owned rs k st i \<longleftrightarrow> (\<exists>r \<in> set rs. cg_id r = i \<and> cg_configKey r = k \<and> cg_scopeType r = st)"

text \<open>
  \<open>ask\<close> gives the environment and the tenant with which the effective value of a key is asked for.
\<close>

definition effective_now :: "(string \<Rightarrow> string option \<times> string option) \<Rightarrow> string \<Rightarrow> config_world \<Rightarrow> cfg_dto option" where
  "effective_now ask k w = map_option entityToDto
     (get_effective_config_value (cw_rank w) k (js_or_null (fst (ask k))) (js_or_null (snd (ask k))) (cw_rows w))"

definition global_now :: "string \<Rightarrow> config_world \<Rightarrow> cfg_dto option" where
  "global_now k w = map_option entityToDto (query_by_key k (Some S_global) None w)"

definition config_inv :: "(string \<Rightarrow> string option \<times> string option) \<Rightarrow> config_world \<Rightarrow> bool" where
  "config_inv ask w \<longleftrightarrow> distinct (map cg_id (cw_rows w))
     \<and> (\<forall>r \<in> set (cw_rows w). cg_scopeType r = S_global \<longrightarrow> cg_scopeValue r = None)
     \<and> (\<forall>k v ex. cw_one w (Plain (B_effective k)) = Some (v, ex) \<longrightarrow> effective_now ask k w = Some v)
     \<and> (\<forall>k v ex. cw_one w (Scoped S_global ''global'' (B_key k)) = Some (v, ex) \<longrightarrow> global_now k w = Some v)
     \<and> (\<forall>st s k v ex. cw_one w (Scoped st s (B_key k)) = Some (v, ex) \<longrightarrow> owned (cw_rows w) k st (cd_id v))
     \<and> (\<not> cw_client w \<longrightarrow> cw_one w = Map.empty)"

lemma config_invD:
  assumes "config_inv ask w"
  shows "distinct (map cg_id (cw_rows w))"
    and "r \<in> set (cw_rows w) \<Longrightarrow> cg_scopeType r = S_global \<Longrightarrow> cg_scopeValue r = None"
    and "cw_one w (Plain (B_effective k)) = Some (v, ex) \<Longrightarrow> effective_now ask k w = Some v"
    and "cw_one w (Scoped S_global ''global'' (B_key k)) = Some (v, ex) \<Longrightarrow> global_now k w = Some v"
    and "cw_one w (Scoped st s (B_key k)) = Some (v, ex) \<Longrightarrow> owned (cw_rows w) k st (cd_id v)"
    and "\<not> cw_client w \<Longrightarrow> cw_one w = Map.empty"
  using assms unfolding config_inv_def by blast+

text \<open>What an operation on the key \<open>k\<close> in scopes of the types \<open>T\<close> may do to the rows.\<close>

definition key_change :: "string \<Rightarrow> scope_type set \<Rightarrow> cfg_row list \<Rightarrow> cfg_row list \<Rightarrow> bool" where
  "key_change k T rs rs' \<longleftrightarrow> distinct (map cg_id rs')
     \<and> (\<forall>r \<in> set rs'. cg_scopeType r = S_global \<longrightarrow> cg_scopeValue r = None)
     \<and> (\<forall>k st i. owned rs k st i \<longrightarrow> owned rs' k st i)
     \<and> filter (\<lambda>r. \<not> (cg_configKey r = k \<and> cg_scopeType r \<in> T)) rs' = filter (\<lambda>r. \<not> (cg_configKey r = k \<and> cg_scopeType r \<in> T)) rs"

lemma key_change_trans: "key_change k T rs rs1 \<Longrightarrow> key_change k T rs1 rs2 \<Longrightarrow> key_change k T rs rs2"
  by (simp add: key_change_def)

lemma key_change_mono:
  assumes "key_change k T rs rs'" and "T \<subseteq> T'"
  shows "key_change k T' rs rs'"
proof -
  have "filter (\<lambda>r. \<not> (cg_configKey r = k \<and> cg_scopeType r \<in> T')) rs' = filter (\<lambda>r. \<not> (cg_configKey r = k \<and> cg_scopeType r \<in> T')) rs"
    by (rule filter_of_filter [where Q = "\<lambda>r. \<not> (cg_configKey r = k \<and> cg_scopeType r \<in> T)"])
       (use assms in \<open>auto simp: key_change_def\<close>)
  with assms(1) show ?thesis by (simp add: key_change_def)
qed

lemma key_change_refl: "config_inv ask w \<Longrightarrow> key_change k T (cw_rows w) (cw_rows w)"
  by (simp add: key_change_def config_inv_def)

lemma key_change_insert:
  assumes "key_change k T rs0 rs" and "cg_id r \<notin> cg_id ` set rs" and "cg_configKey r = k" "cg_scopeType r \<in> T"
    and "cg_scopeType r = S_global \<longrightarrow> cg_scopeValue r = None"
  shows "key_change k T rs0 (rs @ [r])"
  using assms by (auto simp: key_change_def owned_def)

lemma key_change_deactivate:
  assumes "key_change k T rs0 rs" and "\<And>r. r \<in> set rs \<Longrightarrow> P r \<Longrightarrow> cg_configKey r = k \<and> cg_scopeType r \<in> T"
  shows "key_change k T rs0 (deactivate P now who rs)"
proof -
  let ?f = "\<lambda>r. if P r then r\<lparr>cg_isActive := False, cg_updatedAt := now, cg_updatedBy := Some who\<rparr> else r"
  have "map cg_id (map ?f rs) = map cg_id rs" by simp
  moreover have "owned (map ?f rs) j st i" if "owned rs j st i" for j st i
  proof -
    obtain r where "r \<in> set rs" "cg_id r = i" "cg_configKey r = j" "cg_scopeType r = st" using \<open>owned rs j st i\<close> by (auto simp: owned_def)
    then show ?thesis unfolding owned_def by (intro bexI [of _ "?f r"]) simp_all
  qed
  moreover have "filter (\<lambda>r. \<not> (cg_configKey r = k \<and> cg_scopeType r \<in> T)) (map ?f xs)
      = filter (\<lambda>r. \<not> (cg_configKey r = k \<and> cg_scopeType r \<in> T)) xs" if "set xs \<subseteq> set rs" for xs
    using that assms(2) by (induction xs) auto
  from this [of rs] have "filter (\<lambda>r. \<not> (cg_configKey r = k \<and> cg_scopeType r \<in> T)) (map ?f rs)
      = filter (\<lambda>r. \<not> (cg_configKey r = k \<and> cg_scopeType r \<in> T)) rs" by simp
  ultimately show ?thesis using assms(1) unfolding key_change_def deactivate_def by (fastforce simp del: map_map)
qed

lemma commit_inv:
  assumes inv: "config_inv ask w0" and kc: "key_change k T (cw_rows w0) (cw_rows w)"
    and same: "cw_rank w = cw_rank w0" "cw_client w = cw_client w0"
    and shrink: "\<And>x. cw_one w x = cw_one w0 x \<or> cw_one w x = None"
    and eff: "cw_one w (Plain (B_effective k)) = None"
    and glob: "S_global \<in> T \<Longrightarrow> cw_one w (Scoped S_global ''global'' (B_key k)) = None"
  shows "config_inv ask w"
proof -
  have old: "cw_one w0 x = Some y" if "cw_one w x = Some y" for x y using shrink [of x] that by auto
  note parts = kc [unfolded key_change_def]
  have rows: "filter P (cw_rows w) = filter P (cw_rows w0)" if "\<And>r. P r \<Longrightarrow> \<not> (cg_configKey r = k \<and> cg_scopeType r \<in> T)" for P
    by (rule filter_of_filter [OF that parts [THEN conjunct2, THEN conjunct2, THEN conjunct2]])
  have "effective_now ask j w = Some v" if "cw_one w (Plain (B_effective j)) = Some (v, ex)" for j v ex
  proof -
    have "j \<noteq> k" using that eff by auto
    then have "filter (\<lambda>r. cg_configKey r = j) (cw_rows w) = filter (\<lambda>r. cg_configKey r = j) (cw_rows w0)" by (intro rows) auto
    from effective_cong [OF this] have "effective_now ask j w = effective_now ask j w0" by (simp add: effective_now_def same)
    with inv old [OF that] show ?thesis by (simp add: config_inv_def)
  qed
  moreover have "global_now j w = Some v" if "cw_one w (Scoped S_global ''global'' (B_key j)) = Some (v, ex)" for j v ex
  proof -
    have "j \<noteq> k \<or> S_global \<notin> T" using that glob by auto
    then have "filter (\<lambda>r. cg_configKey r = j \<and> cg_scopeType r \<in> {S_global}) (cw_rows w)
        = filter (\<lambda>r. cg_configKey r = j \<and> cg_scopeType r \<in> {S_global}) (cw_rows w0)" by (intro rows) auto
    from v_latest_filter_cong [OF this, of "\<lambda>r. cg_configKey r = j \<and> cg_scopeType r = S_global"]
    have "global_now j w = global_now j w0" by (simp add: global_now_def query_by_key_def same)
    with inv old [OF that] show ?thesis by (simp add: config_inv_def)
  qed
  moreover have "cw_one w = Map.empty" if "\<not> cw_client w"
  proof
    fix x show "cw_one w x = None" using shrink [of x] inv that same(2) by (auto simp: config_inv_def)
  qed
  moreover have "owned (cw_rows w) j st (cd_id v)" if "cw_one w (Scoped st s (B_key j)) = Some (v, ex)" for st s j v ex
    using config_invD(5) [OF inv old [OF that]] parts by simp
  ultimately show ?thesis unfolding config_inv_def using parts by simp
qed

section \<open>Operations keep the cache coherent\<close>

definition answered :: "cfg_env \<Rightarrow> bool" where
  "answered e \<longleftrightarrow> (\<forall>n. ce_redis e n)"

lemma read_through_frame:
  "read_through e n key loaded w = (out, w') \<Longrightarrow>
    cw_rows w' = cw_rows w \<and> cw_rank w' = cw_rank w \<and> cw_client w' = cw_client w
    \<and> (\<forall>x. cw_one w' x = cw_one w x \<or> x = key \<and> cw_client w \<and> (\<exists>r. loaded = Some r \<and> cw_one w' x = Some (entityToDto r, ce_now e + 60000)))
    \<and> (out = map_option entityToDto loaded \<or> (\<exists>v ex. out = Some v \<and> cw_one w key = Some (v, ex)))"
  by (auto simp: read_through_def fresh_def split: option.splits if_splits)

lemma getEffective_inv:
  assumes "config_inv ask w" and "getEffective e n k (fst (ask k)) (snd (ask k)) w = (out, w')"
  shows "config_inv ask w'" and "out = effective_now ask k w"
proof -
  note f = read_through_frame [OF assms(2) [unfolded getEffective_def]]
  have key: "buildCacheKey (B_effective k) None None = Plain (B_effective k)" by (simp add: buildCacheKey_def)
  have now: "effective_now ask j w' = effective_now ask j w" "global_now j w' = global_now j w" for j
    using f by (simp_all add: effective_now_def global_now_def query_by_key_def)
  have entry: "cw_one w' x = cw_one w x \<or> x = Plain (B_effective k) \<and> cw_client w \<and> (\<exists>v ex. effective_now ask k w = Some v \<and> cw_one w' x = Some (v, ex))" for x
    using f unfolding key by (auto simp: effective_now_def)
  show "config_inv ask w'" unfolding config_inv_def now
  proof (intro conjI allI impI ballI)
    fix j v ex assume a: "cw_one w' (Plain (B_effective j)) = Some (v, ex)"
    with entry [of "Plain (B_effective j)"] config_invD(3) [OF assms(1)] show "effective_now ask j w = Some v" by fastforce
  next
    fix j v ex assume a: "cw_one w' (Scoped S_global ''global'' (B_key j)) = Some (v, ex)"
    with entry [of "Scoped S_global ''global'' (B_key j)"] config_invD(4) [OF assms(1)] show "global_now j w = Some v" by fastforce
  next
    fix st s j v ex assume a: "cw_one w' (Scoped st s (B_key j)) = Some (v, ex)"
    with entry [of "Scoped st s (B_key j)"] config_invD(5) [OF assms(1)] f show "owned (cw_rows w') j st (cd_id v)" by fastforce
  next
    assume "\<not> cw_client w'"
    then have "\<not> cw_client w" using f by simp
    then show "cw_one w' = Map.empty" using entry config_invD(6) [OF assms(1)] by (auto simp: fun_eq_iff)
  qed (use config_invD(1,2) [OF assms(1)] f in auto)
  have "out = effective_now ask k w \<or> (\<exists>v ex. out = Some v \<and> cw_one w (Plain (B_effective k)) = Some (v, ex))"
    using f unfolding key effective_now_def by blast
  then show "out = effective_now ask k w" using config_invD(3) [OF assms(1)] by fastforce
qed

text \<open>The scope of an operation: a global one has no value.\<close>

definition plain_scope :: "scope_type option \<Rightarrow> string option \<Rightarrow> bool" where
  "plain_scope st sv \<longleftrightarrow> (st = Some S_global \<longrightarrow> sv = None)"

lemma query_owned:
  "query_by_key k st sv w = Some r \<Longrightarrow> r \<in> set (cw_rows w) \<and> cg_configKey r = k \<and> (\<forall>t. st = Some t \<longrightarrow> cg_scopeType r = t)"
  by (auto simp: query_by_key_def dest!: first_by_Some v_latest_rows split: option.splits)

lemma sql_eq_None [simp]: "\<not> sql_eq a None" "\<not> sql_eq None b"
  by (auto simp: sql_eq_def split: option.splits)

lemma query_global_null: "query_by_key k (Some S_global) (Some None) w = None"
  by (simp add: query_by_key_def first_by_None)

lemma getByKey_inv:
  assumes "config_inv ask w" and "getByKey e n k st sv w = (out, w')" and "st = Some S_global \<Longrightarrow> sv = None \<or> sv = Some None"
  shows "config_inv ask w'" and "cw_rows w' = cw_rows w" and "cw_client w' = cw_client w" and "cw_rank w' = cw_rank w"
    and "out = Some v \<Longrightarrow> st = Some t \<Longrightarrow> owned (cw_rows w) k t (cd_id v)"
proof -
  let ?key = "buildCacheKey (B_key k) st (case sv of None \<Rightarrow> None | Some v \<Rightarrow> v)"
  note f = read_through_frame [OF assms(2) [unfolded getByKey_def]]
  show fr: "cw_rows w' = cw_rows w" "cw_client w' = cw_client w" "cw_rank w' = cw_rank w" using f by simp_all
  have now: "effective_now ask j w' = effective_now ask j w" "global_now j w' = global_now j w" for j
    using fr by (simp_all add: effective_now_def global_now_def query_by_key_def)
  have entry: "cw_one w' x = cw_one w x \<or> x = ?key \<and> cw_client w
      \<and> (\<exists>r ex. query_by_key k st sv w = Some r \<and> cw_one w' x = Some (entityToDto r, ex))" for x
    using f by auto
  have gkey: "query_by_key k st sv w = query_by_key k (Some S_global) None w \<and> j = k"
    if "Scoped S_global ''global'' (B_key j) = ?key" "query_by_key k st sv w = Some r" for j r
    using that assms(3) by (auto simp: buildCacheKey_def query_global_null split: option.splits)
  have okey: "owned (cw_rows w) j t (cd_id (entityToDto r))" if "Scoped t s (B_key j) = ?key" "query_by_key k st sv w = Some r" for t s j r
    using that query_owned [OF that(2)] by (auto simp: buildCacheKey_def owned_def entityToDto_def split: option.splits)
  show "config_inv ask w'" unfolding config_inv_def now fr
  proof (intro conjI allI impI ballI)
    fix j v ex assume "cw_one w' (Plain (B_effective j)) = Some (v, ex)"
    with entry [of "Plain (B_effective j)"] config_invD(3) [OF assms(1)] show "effective_now ask j w = Some v"
      by (fastforce simp: buildCacheKey_def split: option.splits)
  next
    fix j v ex assume "cw_one w' (Scoped S_global ''global'' (B_key j)) = Some (v, ex)"
    with entry [of "Scoped S_global ''global'' (B_key j)"] config_invD(4) [OF assms(1)] gkey show "global_now j w = Some v"
      by (fastforce simp: global_now_def)
  next
    fix t s j v ex assume "cw_one w' (Scoped t s (B_key j)) = Some (v, ex)"
    with entry [of "Scoped t s (B_key j)"] config_invD(5) [OF assms(1)] okey show "owned (cw_rows w) j t (cd_id v)" by fastforce
  next
    assume "\<not> cw_client w"
    then show "cw_one w' = Map.empty" using entry config_invD(6) [OF assms(1)] by (auto simp: fun_eq_iff)
  qed (use config_invD(1,2) [OF assms(1)] in auto)
  assume given: "out = Some v" "st = Some t"
  from f consider r where "query_by_key k st sv w = Some r" "v = entityToDto r" | ex where "cw_one w ?key = Some (v, ex)"
    using \<open>out = Some v\<close> by (cases "query_by_key k st sv w") auto
  then show "owned (cw_rows w) k t (cd_id v)"
  proof cases
    case (1 r)
    with query_owned [OF 1(1)] given show ?thesis by (auto simp: owned_def entityToDto_def)
  next
    case (2 ex)
    then show ?thesis using config_invD(5) [OF assms(1)] given(2) by (simp add: buildCacheKey_def)
  qed
qed


lemma invalidateCache_frame:
  assumes "answered e"
  shows "cw_rows (invalidateCache e n k st sv w) = cw_rows w" "cw_rank (invalidateCache e n k st sv w) = cw_rank w"
    "cw_client (invalidateCache e n k st sv w) = cw_client w"
    "cw_one (invalidateCache e n k st sv w) x = cw_one w x \<or> cw_one (invalidateCache e n k st sv w) x = None"
    "cw_client w \<Longrightarrow> cw_one (invalidateCache e n k st sv w) (Plain (B_effective k)) = None"
    "cw_client w \<Longrightarrow> st = S_global \<Longrightarrow> sv = None
      \<Longrightarrow> cw_one (invalidateCache e n k st sv w) (Scoped S_global ''global'' (B_key k)) = None"
  using assms by (auto simp: invalidateCache_def Let_def answered_def buildCacheKey_def scope_value_text_def)

lemma insert_row_Inr: "insert_row r w = (Inr (), w') \<Longrightarrow> w' = w\<lparr>cw_rows := cw_rows w @ [r]\<rparr> \<and> cg_id r \<notin> cg_id ` set (cw_rows w)"
  by (auto simp: insert_row_def split: if_splits)

lemma insert_row_Inl: "insert_row r w = (Inl err, w') \<Longrightarrow> w' = w"
  by (auto simp: insert_row_def split: if_splits)

lemma appendEntry_frame:
  "appendEntry e n actor action rt ri payload w = (out, w') \<Longrightarrow>
    cw_rows w' = cw_rows w \<and> cw_rank w' = cw_rank w \<and> cw_client w' = cw_client w \<and> cw_one w' = cw_one w"
  by (auto simp: appendEntry_def split: if_splits)

lemma config_inv_cong:
  assumes "config_inv ask w" and "cw_rows w' = cw_rows w" "cw_rank w' = cw_rank w" "cw_client w' = cw_client w" "cw_one w' = cw_one w"
  shows "config_inv ask w'"
  using assms by (simp add: config_inv_def effective_now_def global_now_def query_by_key_def)

lemma invalidated_inv:
  assumes "config_inv ask w0" and "key_change k {st} (cw_rows w0) (cw_rows w)" and "w = w0\<lparr>cw_rows := cw_rows w\<rparr>"
    and "answered e" and "plain_scope (Some st) sv"
  shows "config_inv ask (invalidateCache e n k st sv w)"
proof -
  have same: "cw_one w = cw_one w0" "cw_client w = cw_client w0" "cw_rank w = cw_rank w0" by (subst assms(3), simp)+
  note f = invalidateCache_frame(1-3,5,6) [OF assms(4), where n = n and k = k and st = st and sv = sv and w = w]
  have none: "\<not> cw_client w \<Longrightarrow> cw_one (invalidateCache e n k st sv w) x = None" for x
    using invalidateCache_frame(4) [OF assms(4), where n = n and k = k and st = st and sv = sv and w = w and x = x] config_invD(6) [OF assms(1)] same by auto
  show ?thesis
  proof (rule commit_inv [OF assms(1), where T = "{st}" and k = k])
    show "key_change k {st} (cw_rows w0) (cw_rows (invalidateCache e n k st sv w))" using assms(2) f by simp
    show "cw_one (invalidateCache e n k st sv w) x = cw_one w0 x \<or> cw_one (invalidateCache e n k st sv w) x = None" for x
      using invalidateCache_frame(4) [OF assms(4), where n = n and k = k and st = st and sv = sv and w = w and x = x] same by simp
    show "cw_one (invalidateCache e n k st sv w) (Plain (B_effective k)) = None" using f none by (cases "cw_client w") auto
    show "cw_one (invalidateCache e n k st sv w) (Scoped S_global ''global'' (B_key k)) = None" if "S_global \<in> {st}"
      using that f none assms(5) by (cases "cw_client w") (auto simp: plain_scope_def)
  qed (use f same in auto)
qed

lemma write_version_inv:
  assumes "config_inv ask w0" and kc: "key_change (cg_configKey row) {cg_scopeType row} (cw_rows w0) (cw_rows w)"
    and w: "w = w0\<lparr>cw_rows := cw_rows w\<rparr>" and e: "answered e" and sc: "plain_scope (Some (cg_scopeType row)) (cg_scopeValue row)"
    and fail: "\<And>err w1. insert_row row w = (Inl err, w1) \<Longrightarrow> w = w0"
    and run: "write_version e n row who action payload w = (out, w')"
  shows "config_inv ask w'"
proof (cases "insert_row row w")
  case (Pair r w1)
  show ?thesis
  proof (cases r)
    case (Inl err)
    with Pair run fail assms(1) insert_row_Inl show ?thesis by (fastforce simp: write_version_def)
  next
    case (Inr u)
    then have ok: "insert_row row w = (Inr (), w1)" using Pair by simp
    with insert_row_Inr have i: "w1 = w\<lparr>cw_rows := cw_rows w @ [row]\<rparr>" "cg_id row \<notin> cg_id ` set (cw_rows w)" by auto
    let ?inv = "invalidateCache e n (cg_configKey row) (cg_scopeType row) (cg_scopeValue row) w1"
    have "config_inv ask ?inv"
    proof (rule invalidated_inv [OF assms(1) _ _ e sc])
      show "key_change (cg_configKey row) {cg_scopeType row} (cw_rows w0) (cw_rows w1)"
        using key_change_insert [OF kc i(2)] i(1) sc by (simp add: plain_scope_def)
      show "w1 = w0\<lparr>cw_rows := cw_rows w1\<rparr>" unfolding i(1) by (subst w) simp
    qed
    moreover obtain a w2 where a: "appendEntry e 0 who action ''policy_configuration'' (cg_id row) payload ?inv = (a, w2)" by (rule prod.exhaust)
    ultimately have inv2: "config_inv ask w2" using config_inv_cong appendEntry_frame by blast
    obtain v w3 where g: "getByKey e (n + 4) (cg_configKey row) (Some (cg_scopeType row)) (Some (cg_scopeValue row)) w2 = (v, w3)" by (rule prod.exhaust)
    have "config_inv ask w3" by (rule getByKey_inv(1) [OF inv2 g]) (use sc in \<open>auto simp: plain_scope_def\<close>)
    moreover have "snd (write_version e n row who action payload w) \<in> {w2, w3}"
      by (cases a) (simp_all add: write_version_def ok a g)
    ultimately show ?thesis using inv2 run by auto
  qed
qed


lemma is_scope_change:
  assumes "config_inv ask w" and "st \<in> T"
  shows "key_change k T (cw_rows w) (deactivate (\<lambda>r. in_scope k st sv r \<and> P r) now who (cw_rows w))"
  using assms(2) by (intro key_change_deactivate key_change_refl [OF assms(1)]) (simp_all add: in_scope_def)

lemma create_inv:
  assumes inv: "config_inv ask w" and e: "answered e" and sc: "plain_scope (dc_scopeType dto) (js_or_null (dc_scopeValue dto))"
    and run: "create_config e k dto who w = (out, w')"
  shows "config_inv ask w'"
proof (cases "is_sensitive (dc_isSensitive dto) k \<and> missing (dc_approveReason dto)")
  case True
  with run inv show ?thesis by (simp add: create_config_def)
next
  case False
  then obtain row a p where r: "write_version e 0 row who a p w = (out, w')"
    and row: "cg_configKey row = k" "plain_scope (Some (cg_scopeType row)) (cg_scopeValue row)"
    using run sc by (fastforce simp: create_config_def Let_def plain_scope_def split: option.splits)
  show ?thesis by (rule write_version_inv [OF inv key_change_refl [OF inv] _ e row(2) _ r]) simp_all
qed

lemma update_inv:
  assumes inv: "config_inv ask w" and e: "answered e"
    and sc: "plain_scope (Some (case dc_scopeType dto of Some t \<Rightarrow> t | None \<Rightarrow> S_global)) (dc_scopeValue dto)"
    and run: "update_config e n k dto who w = (out, w')"
  shows "config_inv ask w'"
proof -
  let ?st = "case dc_scopeType dto of Some t \<Rightarrow> t | None \<Rightarrow> S_global"
  obtain x w1 where g: "getByKey e n k (Some ?st) (Some (dc_scopeValue dto)) w = (x, w1)" by (rule prod.exhaust)
  have inv1: "config_inv ask w1" by (rule getByKey_inv(1) [OF inv g]) (use sc in \<open>auto simp: plain_scope_def\<close>)
  show ?thesis
  proof (cases "x = None \<or> is_sensitive (dc_isSensitive dto) k \<and> missing (dc_approveReason dto)")
    case True
    with run g inv1 show ?thesis by (auto simp: update_config_def Let_def split: option.splits)
  next
    case False
    then obtain row a p where r: "write_version e (n + 2) row who a p w1 = (out, w')"
      and row: "cg_configKey row = k" "plain_scope (Some (cg_scopeType row)) (cg_scopeValue row)"
      using run g sc by (fastforce simp: update_config_def Let_def)
    show ?thesis by (rule write_version_inv [OF inv1 key_change_refl [OF inv1] _ e row(2) _ r]) simp_all
  qed
qed

lemma max_version_ge: "r \<in> set rs \<Longrightarrow> cg_entityVersion r \<le> max_version rs"
  by (auto simp: max_version_def)

lemma insert_next_version:
  assumes "cg_id row \<notin> cg_id ` set (cw_rows w)"
    and "cg_entityVersion row = max_version (filter (in_scope (cg_configKey row) (cg_scopeType row) (cg_scopeValue row)) (cw_rows w)) + 1"
  shows "insert_row row w \<noteq> (Inl err, w1)"
proof -
  have "\<not> (cg_configKey x = cg_configKey row \<and> cg_entityVersion x = cg_entityVersion row \<and> cg_scopeType x = cg_scopeType row
      \<and> sql_eq (cg_scopeValue x) (cg_scopeValue row))" if "x \<in> set (cw_rows w)" for x
  proof
    assume "cg_configKey x = cg_configKey row \<and> cg_entityVersion x = cg_entityVersion row \<and> cg_scopeType x = cg_scopeType row
      \<and> sql_eq (cg_scopeValue x) (cg_scopeValue row)"
    then have "x \<in> set (filter (in_scope (cg_configKey row) (cg_scopeType row) (cg_scopeValue row)) (cw_rows w))"
      and v: "cg_entityVersion x = cg_entityVersion row"
      using that by (auto simp: in_scope_def sql_eq_def split: option.splits)
    from max_version_ge [OF this(1)] v assms(2) show False by simp
  qed
  moreover have "cg_id x \<noteq> cg_id row" if "x \<in> set (cw_rows w)" for x using assms(1) that by (metis imageI)
  ultimately show ?thesis by (auto simp: insert_row_def)
qed

lemma status_inv:
  assumes inv: "config_inv ask w" and e: "answered e" and new: "ce_newId e \<notin> cg_id ` set (cw_rows w)"
    and sc: "plain_scope (Some (case du_scopeType dto of Some t \<Rightarrow> t | None \<Rightarrow> S_global)) (du_scopeValue dto)"
    and run: "updateStatus e k dto who w = (out, w')"
  shows "config_inv ask w'"
proof -
  let ?st = "case du_scopeType dto of Some t \<Rightarrow> t | None \<Rightarrow> S_global" and ?sv = "du_scopeValue dto"
  let ?latest = "newest_row k ?st ?sv w"
  show ?thesis
  proof (cases "\<not> du_active dto \<or> SENSITIVE_KEYS_PATTERN k \<and> missing (du_approveReason dto) \<or> ?latest = None")
    case True
    then have "w' = w" using run by (elim disjE) (simp_all add: updateStatus_def Let_def split: if_splits)
    with inv show ?thesis by simp
  next
    case False
    then obtain r where l: "?latest = Some r" by auto
    have ok: "du_active dto" "(SENSITIVE_KEYS_PATTERN k \<and> missing (du_approveReason dto)) = False" using False by blast+
    show ?thesis
    proof (cases "cg_isActive r")
      case True
      obtain v w1 where g: "getByKey e 0 k (Some ?st) (Some ?sv) w = (v, w1)" by (rule prod.exhaust)
      have "w' = w1" using run l True g by (simp add: updateStatus_def Let_def ok)
      then show ?thesis using getByKey_inv(1) [OF inv g] sc by (auto simp: plain_scope_def)
    next
      case inactive: False
      let ?w1 = "w\<lparr>cw_rows := deactivate (\<lambda>r. in_scope k ?st ?sv r \<and> cg_isActive r) (ce_now e) who (cw_rows w)\<rparr>"
      let ?row = "\<lparr> cg_id = ce_newId e, cg_configKey = k, cg_configValue = cg_configValue r, cg_isSensitive = cg_isSensitive r,
        cg_entityVersion = max_version (filter (in_scope k ?st ?sv) (cw_rows ?w1)) + 1, cg_createdAt = ce_now e, cg_updatedAt = ce_now e,
        cg_updatedBy = Some who, cg_scopeType = ?st, cg_scopeValue = ?sv, cg_isActive = True \<rparr>"
      obtain row a p where r: "write_version e 0 row who a p ?w1 = (out, w')" and eq: "row = ?row"
        using run l inactive by (simp add: updateStatus_def Let_def ok)
      then have row: "cg_configKey row = k" "cg_scopeType row = ?st" "cg_scopeValue row = ?sv" "cg_id row = ce_newId e"
        "cg_entityVersion row = max_version (filter (in_scope k ?st ?sv) (cw_rows ?w1)) + 1" by simp_all
      have kc: "key_change (cg_configKey row) {cg_scopeType row} (cw_rows w) (cw_rows ?w1)"
        unfolding row using is_scope_change [OF inv, of ?st "{?st}"] by simp
      have "cg_id row \<notin> cg_id ` set (cw_rows ?w1)" using new row(4) by (auto simp: deactivate_def)
      from insert_next_version [OF this] have fine: "insert_row row ?w1 \<noteq> (Inl err, w1)" for err w1 using row by simp
      show ?thesis by (rule write_version_inv [OF inv kc _ e _ _ r]) (use sc fine row in simp_all)
    qed
  qed
qed


lemma owned_unique:
  assumes "distinct (map cg_id rs)" and "owned rs k st i" and "r \<in> set rs" "cg_id r = i"
  shows "cg_configKey r = k \<and> cg_scopeType r = st"
  using assms by (auto simp: owned_def distinct_map inj_on_def)

lemma promote_commit_inv:
  assumes inv: "config_inv ask w" and e: "answered e" and own: "owned (cw_rows w) k (dp_fromScopeType dto) (cd_id source)"
    and sfrom: "plain_scope (Some (dp_fromScopeType dto)) (dp_fromScopeValue dto)"
    and sto: "plain_scope (Some (dp_toScopeType dto)) (dp_toScopeValue dto)"
    and run: "promote_commit e k dto who source w = (out, w')"
  shows "config_inv ask w'"
proof -
  let ?T = "{dp_fromScopeType dto, dp_toScopeType dto}"
  let ?row = "\<lparr> cg_id = ce_newId e, cg_configKey = k, cg_configValue = cd_configValue source, cg_isSensitive = cd_isSensitive source,
     cg_entityVersion = max_version (filter (in_scope k (dp_toScopeType dto) (dp_toScopeValue dto)) (cw_rows w)) + 1,
     cg_createdAt = ce_now e, cg_updatedAt = ce_now e, cg_updatedBy = Some who, cg_scopeType = dp_toScopeType dto,
     cg_scopeValue = dp_toScopeValue dto, cg_isActive = True \<rparr>"
  obtain x w1 where ins: "insert_row ?row w = (x, w1)" by (rule prod.exhaust)
  show ?thesis
  proof (cases x)
    case (Inl err)
    with ins run insert_row_Inl [of ?row w err w1] inv show ?thesis by (simp add: promote_commit_def Let_def)
  next
    case (Inr u)
    with ins have ok: "insert_row ?row w = (Inr (), w1)" by simp
    from insert_row_Inr [OF this] have w1: "w1 = w\<lparr>cw_rows := cw_rows w @ [?row]\<rparr>" "ce_newId e \<notin> cg_id ` set (cw_rows w)" by auto
    let ?w2 = "w1\<lparr>cw_rows := deactivate (\<lambda>r. cg_id r = cd_id source) (ce_now e) who (cw_rows w1)\<rparr>"
    let ?wf = "invalidateCache e 5 k (dp_fromScopeType dto) (dp_fromScopeValue dto) ?w2"
    let ?wt = "invalidateCache e 9 k (dp_toScopeType dto) (dp_toScopeValue dto) ?wf"
    have kc1: "key_change k ?T (cw_rows w) (cw_rows w1)"
      unfolding w1(1) using key_change_insert [OF key_change_refl [OF inv] _, of ?row k ?T] w1(2) sto by (simp add: plain_scope_def)
    have "cg_configKey r = k \<and> cg_scopeType r \<in> ?T" if "r \<in> set (cw_rows w1)" "cg_id r = cd_id source" for r
      using owned_unique [of "cw_rows w1" k "dp_fromScopeType dto" "cd_id source" r] kc1 own that by (simp add: key_change_def)
    from key_change_deactivate [OF kc1 this] have kc: "key_change k ?T (cw_rows w) (cw_rows ?w2)" by simp
    note ff = invalidateCache_frame [OF e, where n = 5 and k = k and st = "dp_fromScopeType dto" and sv = "dp_fromScopeValue dto" and w = ?w2]
    note ft = invalidateCache_frame [OF e, where n = 9 and k = k and st = "dp_toScopeType dto" and sv = "dp_toScopeValue dto" and w = ?wf]
    have same: "cw_one ?w2 = cw_one w" "cw_client ?w2 = cw_client w" "cw_rank ?w2 = cw_rank w" by (simp_all add: w1(1))
    have shrink: "cw_one ?wt y = cw_one w y \<or> cw_one ?wt y = None" for y using ff(4) [of y] ft(4) [of y] same by auto
    have none: "cw_one ?wt y = None" if "\<not> cw_client w" for y using shrink [of y] config_invD(6) [OF inv that] by auto
    have "config_inv ask ?wt"
    proof (rule commit_inv [OF inv, where T = ?T and k = k])
      show "key_change k ?T (cw_rows w) (cw_rows ?wt)" using kc ff(1) ft(1) by simp
      show "cw_one ?wt (Plain (B_effective k)) = None" using ft(5) ff(3) same none by (cases "cw_client w") auto
      show "cw_one ?wt (Scoped S_global ''global'' (B_key k)) = None" if "S_global \<in> ?T"
      proof (cases "cw_client w")
        case True
        from \<open>S_global \<in> ?T\<close> show ?thesis
        proof (elim insertE emptyE)
          assume "S_global = dp_fromScopeType dto"
          then have "cw_one ?wf (Scoped S_global ''global'' (B_key k)) = None" using ff(6) same True sfrom by (simp add: plain_scope_def)
          then show ?thesis using ft(4) [of "Scoped S_global ''global'' (B_key k)"] by simp
        next
          assume "S_global = dp_toScopeType dto"
          then show ?thesis using ft(6) ff(3) same True sto by (simp add: plain_scope_def)
        qed
      qed (rule none)
    qed (use ff(2,3) ft(2,3) same shrink in auto)
    then have wt: "config_inv ask w3" if "appendEntry e 0 who action rt ri payload ?wt = (a, w3)" for a w3 action rt ri payload
      using config_inv_cong appendEntry_frame [OF that] by blast
    have reread: "config_inv ask (snd (getByKey e 13 k (Some (dp_toScopeType dto)) (Some (dp_toScopeValue dto)) w3))" if "config_inv ask w3" for w3
      using getByKey_inv(1) [OF that] sto by (metis plain_scope_def prod.collapse option.inject)
    have promoted: "config_inv ask (w3\<lparr>cw_promoted := m\<rparr>)" if "config_inv ask w3" for w3 m by (rule config_inv_cong [OF that]) simp_all
    show ?thesis
      using run wt reread promoted
      by (fastforce simp: promote_commit_def Let_def ok split: prod.splits sum.splits option.splits if_splits)
  qed
qed


lemma promote_inv:
  assumes inv: "config_inv ask w" and e: "answered e"
    and sfrom: "plain_scope (Some (dp_fromScopeType dto)) (dp_fromScopeValue dto)"
    and sto: "plain_scope (Some (dp_toScopeType dto)) (dp_toScopeValue dto)"
    and run: "promote e k dto who w = (out, w')"
  shows "config_inv ask w'"
proof -
  let ?early = "case promote_key dto of Some key \<Rightarrow> if cw_client w \<and> ce_redis e 0 then fresh e (cw_promoted w key) else None | None \<Rightarrow> None"
  obtain x w1 where g1: "getByKey e 1 k (Some (dp_fromScopeType dto)) (Some (dp_fromScopeValue dto)) w = (x, w1)" by (rule prod.exhaust)
  obtain y w2 where g2: "getByKey e 3 k (Some (dp_toScopeType dto)) (Some (dp_toScopeValue dto)) w1 = (y, w2)" by (rule prod.exhaust)
  have inv1: "config_inv ask w1" by (rule getByKey_inv(1) [OF inv g1]) (use sfrom in \<open>auto simp: plain_scope_def\<close>)
  have inv2: "config_inv ask w2" by (rule getByKey_inv(1) [OF inv1 g2]) (use sto in \<open>auto simp: plain_scope_def\<close>)
  have r1: "cw_rows w1 = cw_rows w" by (rule getByKey_inv(2) [OF inv g1]) (use sfrom in \<open>auto simp: plain_scope_def\<close>)
  have r2: "cw_rows w2 = cw_rows w1" by (rule getByKey_inv(2) [OF inv1 g2]) (use sto in \<open>auto simp: plain_scope_def\<close>)
  have own: "owned (cw_rows w2) k (dp_fromScopeType dto) (cd_id s)" if "x = Some s" for s
    unfolding r2 r1 by (rule getByKey_inv(5) [OF inv g1 _ that]) (use sfrom in \<open>auto simp: plain_scope_def\<close>)
  consider "w' = w" | "w' = w1" | "w' = w2" | s where "x = Some s" "promote_commit e k dto who s w2 = (out, w')"
    using run by (cases x; cases y; cases ?early) (auto simp: promote_def g1 g2 simp del: One_nat_def split: if_splits)
  then show ?thesis
  proof cases
    case (4 s)
    then show ?thesis using promote_commit_inv [OF inv2 e own sfrom sto] by blast
  qed (use inv inv1 inv2 in simp_all)
qed

lemma rollback_inv:
  assumes inv: "config_inv ask w" and e: "answered e"
    and sc: "plain_scope (Some (case dr_scopeType dto of Some t \<Rightarrow> t | None \<Rightarrow> S_global)) (dr_scopeValue dto)"
    and run: "rollback e k dto who w = (out, w')"
  shows "config_inv ask w'"
proof -
  let ?st = "case dr_scopeType dto of Some t \<Rightarrow> t | None \<Rightarrow> S_global" and ?sv = "dr_scopeValue dto"
  obtain x w1 where r: "rollback_configuration k (dr_toVersion dto) who ?st ?sv e w = (x, w1)" by (rule prod.exhaust)
  show ?thesis
  proof (cases x)
    case (Inl err)
    then have "w1 = w" using r by (auto simp: rollback_configuration_def Let_def split: option.splits prod.splits sum.splits)
    then have "w' = w" using run Inl r by (auto simp: rollback_def Let_def split: if_splits)
    with inv show ?thesis by simp
  next
    case (Inr i)
    let ?w0 = "w\<lparr>cw_rows := deactivate (\<lambda>r. in_scope k ?st ?sv r \<and> (cg_entityVersion r > dr_toVersion dto \<and> cg_isActive r)) (ce_now e) who (cw_rows w)\<rparr>"
    from r Inr obtain row where ins: "insert_row row ?w0 = (Inr (), w1)" and row: "cg_configKey row = k" "cg_scopeType row = ?st" "cg_scopeValue row = ?sv"
      by (fastforce simp: rollback_configuration_def Let_def split: option.splits prod.splits sum.splits)
    from insert_row_Inr [OF ins] have w1: "w1 = ?w0\<lparr>cw_rows := cw_rows ?w0 @ [row]\<rparr>" "cg_id row \<notin> cg_id ` set (cw_rows ?w0)" by auto
    have kc: "key_change k {?st} (cw_rows w) (cw_rows ?w0)" using is_scope_change [OF inv, of ?st "{?st}"] by simp
    have "key_change k {?st} (cw_rows w) (cw_rows w1)"
      using key_change_insert [OF kc w1(2)] row sc by (simp add: w1(1) plain_scope_def)
    from invalidated_inv [OF inv this _ e sc] have invd: "config_inv ask (invalidateCache e 0 k ?st ?sv w1)" by (simp add: w1(1))
    have wt: "config_inv ask w2" if "appendEntry e 0 who action rt ri p (invalidateCache e 0 k ?st ?sv w1) = (a, w2)" for action rt ri p a w2
      using config_inv_cong [OF invd] appendEntry_frame [OF that] by blast
    have reread: "config_inv ask (snd (getByKey e 4 k (Some ?st) (Some ?sv) w2))" if "config_inv ask w2" for w2
      using getByKey_inv(1) [OF that] sc by (metis plain_scope_def prod.collapse option.inject)
    let ?sens = "is_sensitive (dr_isSensitive dto) k"
    let ?p = "JObj ([(''configKey'', JStr k), (''toVersion'', JNum (of_int (dr_toVersion dto)))] @ scope_json ?st ?sv
      @ [(''isSensitive'', JBool ?sens)] @ opt_field ''approveReason'' JStr (dr_approveReason dto))"
    obtain a w2 where a: "appendEntry e 0 who ''CONFIG_ROLLBACK'' ''policy_configuration'' i ?p (invalidateCache e 0 k ?st ?sv w1) = (a, w2)"
      by (rule prod.exhaust)
    have "w' \<in> {w, w2, snd (getByKey e 4 k (Some ?st) (Some ?sv) w2)}"
      using run a by (cases "?sens \<and> missing (dr_approveReason dto)"; cases a) (auto simp: rollback_def Let_def r Inr split: if_splits)
    with inv wt [OF a] reread [OF wt [OF a]] show ?thesis by auto
  qed
qed

lemma panic_audit_inv: "config_inv ask w \<Longrightarrow> panic_audit e dto action after reason w = (out, w') \<Longrightarrow> config_inv ask w'"
  unfolding panic_audit_def using config_inv_cong appendEntry_frame by blast

lemma readKillSwitch_inv:
  assumes "config_inv ask w" and "ask ''dex.limits'' = (None, None)" and "readKillSwitch JP e w = (b, w')"
  shows "config_inv ask w'"
    and "b = (case effective_now ask ''dex.limits'' w of None \<Rightarrow> None | Some v \<Rightarrow>
      (case JP (cd_configValue v) of None \<Rightarrow> None | Some p \<Rightarrow> (case jget p ''killSwitch'' of Some (JBool b) \<Rightarrow> Some b | _ \<Rightarrow> None)))"
proof -
  obtain x w1 where g: "getEffective e 0 ''dex.limits'' None None w = (x, w1)" by (rule prod.exhaust)
  from g assms(2) have "getEffective e 0 ''dex.limits'' (fst (ask ''dex.limits'')) (snd (ask ''dex.limits'')) w = (x, w1)" by simp
  note f = getEffective_inv [OF assms(1) this]
  have "w' = w1" using assms(3) g by (auto simp: readKillSwitch_def split: option.splits)
  with f show "config_inv ask w'" by simp
  show "b = (case effective_now ask ''dex.limits'' w of None \<Rightarrow> None | Some v \<Rightarrow>
      (case JP (cd_configValue v) of None \<Rightarrow> None | Some p \<Rightarrow> (case jget p ''killSwitch'' of Some (JBool b) \<Rightarrow> Some b | _ \<Rightarrow> None)))"
    using assms(3) g f(2) by (auto simp: readKillSwitch_def split: option.splits)
qed

lemma setKillSwitch_inv:
  assumes inv: "config_inv ask w" and e: "answered e" and run: "setKillSwitch JP JS e b who reason w = (out, w')"
  shows "config_inv ask w'"
proof -
  obtain x w1 where g: "getByKey e 2 ''dex.limits'' (Some S_global) None w = (x, w1)" by (rule prod.exhaust)
  have inv1: "config_inv ask w1" by (rule getByKey_inv(1) [OF inv g]) simp
  consider "w' = w1" | q x where "update_config e 4 ''dex.limits'' q who w1 = (x, w')" "dc_scopeType q = Some S_global" "dc_scopeValue q = None"
    using run g by (fastforce simp: setKillSwitch_def split: option.splits prod.splits sum.splits)
  then show ?thesis
  proof cases
    case (2 q x)
    then show ?thesis using update_inv [OF inv1 e _ 2(1)] by (simp add: plain_scope_def)
  qed (use inv1 in simp)
qed

lemma panic_inv:
  assumes inv: "config_inv ask w" and e: "answered e" and ask: "ask ''dex.limits'' = (None, None)"
  shows "config_inv ask (snd (panicStop JP JS e dto w))" and "config_inv ask (snd (panicRecover JP JS e dto confirm w))"
proof -
  obtain b w1 where r: "readKillSwitch JP e w = (b, w1)" by (rule prod.exhaust)
  note inv1 = readKillSwitch_inv(1) [OF inv ask r]
  have set: "config_inv ask w2" if "setKillSwitch JP JS e c who reason w1 = (out, w2)" for c who reason out w2
    by (rule setKillSwitch_inv [OF inv1 e that])
  have audit: "config_inv ask w3" if "panic_audit e dto action after reason w2 = (out, w3)" "config_inv ask w2" for action after reason w2 out w3
    by (rule panic_audit_inv [OF that(2,1)])
  show "config_inv ask (snd (panicStop JP JS e dto w))"
    using set audit inv1 by (auto simp: panicStop_def r split: prod.split sum.split)
  show "config_inv ask (snd (panicRecover JP JS e dto confirm w))"
    using set audit inv1 inv by (auto simp: panicRecover_def r split: prod.split sum.split)
qed


section \<open>Runs of the service\<close>

text \<open>
  The operations with every Redis command answered (if there is a client at all), new ids, global
  scopes without a value, and the effective value of a key always asked for with \<open>ask\<close>.
\<close>

definition given_scope :: "scope_type option \<Rightarrow> string option \<Rightarrow> bool" where
  "given_scope st sv \<longleftrightarrow> plain_scope (Some (case st of Some t \<Rightarrow> t | None \<Rightarrow> S_global)) sv"

inductive config_step ::
  "(string \<Rightarrow> string option \<times> string option) \<Rightarrow> (string \<Rightarrow> json option) \<Rightarrow> (json \<Rightarrow> string) \<Rightarrow> config_world \<Rightarrow> config_world \<Rightarrow> bool"
  for ask JP JS where
  effective: "answered e \<Longrightarrow> getEffective e 0 k (fst (ask k)) (snd (ask k)) w = (out, w') \<Longrightarrow> config_step ask JP JS w w'"
| by_key: "answered e \<Longrightarrow> getByKey e 0 k st sv w = (out, w') \<Longrightarrow> (st = Some S_global \<Longrightarrow> sv = None \<or> sv = Some None)
    \<Longrightarrow> config_step ask JP JS w w'"
| listing: "answered e \<Longrightarrow> getAll e q w = (out', w') \<Longrightarrow> config_step ask JP JS w w'"
| creation: "answered e \<Longrightarrow> create_config e k dto who w = (r, w') \<Longrightarrow> plain_scope (dc_scopeType dto) (js_or_null (dc_scopeValue dto))
    \<Longrightarrow> config_step ask JP JS w w'"
| updating: "answered e \<Longrightarrow> update_config e 0 k dto who w = (r, w') \<Longrightarrow> given_scope (dc_scopeType dto) (dc_scopeValue dto)
    \<Longrightarrow> config_step ask JP JS w w'"
| promotion: "answered e \<Longrightarrow> promote e k pdto who w = (r, w') \<Longrightarrow> plain_scope (Some (dp_fromScopeType pdto)) (dp_fromScopeValue pdto)
    \<Longrightarrow> plain_scope (Some (dp_toScopeType pdto)) (dp_toScopeValue pdto) \<Longrightarrow> config_step ask JP JS w w'"
| activation: "answered e \<Longrightarrow> ce_newId e \<notin> cg_id ` set (cw_rows w) \<Longrightarrow> updateStatus e k udto who w = (r, w')
    \<Longrightarrow> given_scope (du_scopeType udto) (du_scopeValue udto) \<Longrightarrow> config_step ask JP JS w w'"
| rolling_back: "answered e \<Longrightarrow> rollback e k rdto who w = (r', w') \<Longrightarrow> given_scope (dr_scopeType rdto) (dr_scopeValue rdto)
    \<Longrightarrow> config_step ask JP JS w w'"
| stopping: "answered e \<Longrightarrow> ask ''dex.limits'' = (None, None) \<Longrightarrow> panicStop JP JS e qdto w = (r'', w') \<Longrightarrow> config_step ask JP JS w w'"
| recovering: "answered e \<Longrightarrow> ask ''dex.limits'' = (None, None) \<Longrightarrow> panicRecover JP JS e qdto confirm w = (r'', w')
    \<Longrightarrow> config_step ask JP JS w w'"

lemma getAll_inv:
  assumes "config_inv ask w" and "getAll e q w = (out, w')"
  shows "config_inv ask w'"
proof -
  have "w' = w \<or> (\<exists>m. w' = w\<lparr>cw_many := m\<rparr>)"
    using assms(2) by (auto simp: getAll_def Let_def split: prod.splits option.splits if_splits)
  then show ?thesis using config_inv_cong [OF assms(1), of w'] assms(1) by auto
qed

lemma config_step_inv:
  assumes "config_step ask JP JS w w'" and "config_inv ask w"
  shows "config_inv ask w'"
  using assms
proof cases
  case (updating e k dto who r)
  then show ?thesis using update_inv [OF assms(2)] by (simp add: given_scope_def)
next
  case (activation e k udto who r)
  then show ?thesis using status_inv [OF assms(2)] by (simp add: given_scope_def)
next
  case (rolling_back e k rdto who r)
  then show ?thesis using rollback_inv [OF assms(2)] by (simp add: given_scope_def)
next
  case (stopping e qdto r)
  then show ?thesis using panic_inv(1) [OF assms(2)] by (metis snd_conv)
next
  case (recovering e qdto confirm r)
  then show ?thesis using panic_inv(2) [OF assms(2)] by (metis snd_conv)
next
  case (effective e k out)
  then show ?thesis using getEffective_inv(1) [OF assms(2)] by metis
next
  case (by_key e k st sv out)
  then show ?thesis using getByKey_inv(1) [OF assms(2)] by metis
next
  case (listing e q out)
  then show ?thesis using getAll_inv [OF assms(2)] by metis
next
  case (creation e k dto who r)
  then show ?thesis using create_inv [OF assms(2)] by metis
next
  case (promotion e k pdto who r)
  then show ?thesis using promote_inv [OF assms(2)] by metis
qed

text \<open>A service that has just started: the rows are migrated, the cache is empty.\<close>

definition config_start :: "config_world \<Rightarrow> bool" where
  "config_start w \<longleftrightarrow> distinct (map cg_id (cw_rows w)) \<and> (\<forall>r \<in> set (cw_rows w). cg_scopeType r = S_global \<longrightarrow> cg_scopeValue r = None)
     \<and> cw_one w = Map.empty"

abbreviation "config_run ask JP JS \<equiv> (config_step ask JP JS)\<^sup>*\<^sup>*"

lemma config_run_inv:
  assumes "config_run ask JP JS w w'" and "config_start w"
  shows "config_inv ask w'"
  using assms
proof (induction rule: rtranclp_induct)
  case base
  then show ?case by (simp add: config_inv_def config_start_def)
next
  case (step y z)
  then show ?case using config_step_inv by blast
qed


section \<open>The panic button\<close>

lemma newest_is_latest:
  assumes "in_scope k st sv row" and "cg_isActive row"
    and "\<And>x. x \<in> set rs \<Longrightarrow> cg_isActive x \<Longrightarrow> in_scope k st sv x \<Longrightarrow> cg_entityVersion x < cg_entityVersion row"
  shows "latest_of rank (rs @ [row]) k st sv = Some row"
proof -
  let ?act = "filter (\<lambda>r. cg_isActive r \<and> in_scope k st sv r) rs"
  have "filter (\<lambda>r. \<forall>x \<in> set (?act @ [row]). cg_entityVersion x \<le> cg_entityVersion r) ?act = []"
    using assms(3) by (auto simp: filter_empty_conv not_le)
  moreover have "\<forall>x \<in> set (?act @ [row]). cg_entityVersion x \<le> cg_entityVersion row" using assms(3) by fastforce
  ultimately have "filter (\<lambda>r. \<forall>x \<in> set (?act @ [row]). cg_entityVersion x \<le> cg_entityVersion r) (?act @ [row]) = [row]" by simp
  moreover have "filter (\<lambda>r. cg_isActive r \<and> in_scope k st sv r) (rs @ [row]) = ?act @ [row]" using assms(1,2) by simp
  ultimately show ?thesis unfolding latest_of_def Let_def by (simp only: first_by_single)
qed

lemma latest_max:
  assumes "latest_of rank rs k st sv = Some r" and "x \<in> set rs" "cg_isActive x" "in_scope k st sv x"
  shows "cg_entityVersion x \<le> cg_entityVersion r"
  using first_by_Some [OF assms(1) [unfolded latest_of_def Let_def]] assms(2-4) by simp

lemma effective_global:
  "get_effective_config_value rank k None None rs = first_by rank (filter (\<lambda>r. cg_configKey r = k \<and> cg_scopeType r = S_global) (v_latest rank rs))"
  by (simp add: get_effective_config_value_def first_by_None [THEN iffD2])

lemma global_query:
  assumes "config_inv ask w" and "ask k = (None, None)"
  shows "effective_now ask k w = global_now k w"
  using assms(2) by (simp add: effective_now_def global_now_def query_by_key_def effective_global js_or_null_def)

lemma query_latest:
  assumes "config_inv ask w" and "query_by_key k (Some S_global) None w = Some r"
  shows "latest_of (cw_rank w) (cw_rows w) k S_global None = Some r"
proof -
  have "r \<in> set (v_latest (cw_rank w) (cw_rows w))" "cg_configKey r = k" "cg_scopeType r = S_global"
    using first_by_Some [OF assms(2) [unfolded query_by_key_def]] by auto
  then show ?thesis using config_invD(2) [OF assms(1)] by (auto simp: v_latest_def)
qed

lemma effective_of_newest:
  assumes "config_inv ask w" and "ask k = (None, None)" and "cw_rows w = rs @ [row]"
    and "in_scope k S_global None row" "cg_isActive row"
    and "\<And>x. x \<in> set rs \<Longrightarrow> cg_isActive x \<Longrightarrow> in_scope k S_global None x \<Longrightarrow> cg_entityVersion x < cg_entityVersion row"
  shows "effective_now ask k w = Some (entityToDto row)"
proof -
  have l: "latest_of (cw_rank w) (rs @ [row]) k S_global None = Some row" by (rule newest_is_latest [OF assms(4-6)])
  have "row \<notin> set rs" using config_invD(1) [OF assms(1)] assms(3) by auto
  have old: "\<not> (cg_configKey r = k \<and> cg_scopeType r = S_global
      \<and> latest_of (cw_rank w) (rs @ [row]) (cg_configKey r) (cg_scopeType r) (cg_scopeValue r) = Some r)" if "r \<in> set rs" for r
  proof
    assume a: "cg_configKey r = k \<and> cg_scopeType r = S_global
      \<and> latest_of (cw_rank w) (rs @ [row]) (cg_configKey r) (cg_scopeType r) (cg_scopeValue r) = Some r"
    then have "cg_scopeValue r = None" using config_invD(2) [OF assms(1), of r] assms(3) that by simp
    with a l have "r = row" by (metis option.inject)
    with that \<open>row \<notin> set rs\<close> show False by simp
  qed
  have "filter (\<lambda>r. cg_configKey r = k \<and> cg_scopeType r = S_global) (v_latest (cw_rank w) (rs @ [row]))
      = filter (\<lambda>r. cg_configKey r = k \<and> cg_scopeType r = S_global
          \<and> latest_of (cw_rank w) (rs @ [row]) (cg_configKey r) (cg_scopeType r) (cg_scopeValue r) = Some r) (rs @ [row])"
    by (simp add: v_latest_def conj_ac)
  also have "\<dots> = filter (\<lambda>r. cg_configKey r = k \<and> cg_scopeType r = S_global
          \<and> latest_of (cw_rank w) (rs @ [row]) (cg_configKey r) (cg_scopeType r) (cg_scopeValue r) = Some r) [row]"
    unfolding filter_append using old by (simp add: filter_empty_conv)
  also have "\<dots> = [row]" using assms(4) l by (simp add: in_scope_def)
  finally have "filter (\<lambda>r. cg_configKey r = k \<and> cg_scopeType r = S_global) (v_latest (cw_rank w) (rs @ [row])) = [row]" .
  then show ?thesis using assms(2,3) by (simp add: effective_now_def effective_global js_or_null_def)
qed


lemma getByKey_rows: "getByKey e n k st sv w = (out, w') \<Longrightarrow> cw_rows w' = cw_rows w"
  unfolding getByKey_def using read_through_frame by blast

lemma write_version_rows:
  assumes ok: "insert_row row w = (Inr (), w1)" and run: "write_version e n row who action payload w = (out, w')"
  shows "cw_rows w' = cw_rows w @ [row]"
proof -
  let ?inv = "invalidateCache e n (cg_configKey row) (cg_scopeType row) (cg_scopeValue row) w1"
  have "cw_rows ?inv = cw_rows w @ [row]" using insert_row_Inr [OF ok] by (simp add: invalidateCache_def Let_def)
  moreover obtain a w2 where a: "appendEntry e 0 who action ''policy_configuration'' (cg_id row) payload ?inv = (a, w2)" by (rule prod.exhaust)
  moreover obtain v w3 where g: "getByKey e (n + 4) (cg_configKey row) (Some (cg_scopeType row)) (Some (cg_scopeValue row)) w2 = (v, w3)"
    by (rule prod.exhaust)
  moreover have "snd (write_version e n row who action payload w) \<in> {w2, w3}"
    by (cases a) (simp_all add: write_version_def ok a g)
  ultimately show ?thesis using run appendEntry_frame [OF a] getByKey_rows [OF g] by auto
qed

lemma global_read:
  assumes "config_inv ask w" and "cw_client w" "answered e" and "global_now k w = Some g"
  shows "\<exists>w1 ex. getByKey e n k (Some S_global) None w = (Some g, w1) \<and> cw_rows w1 = cw_rows w \<and> cw_client w1
    \<and> cw_one w1 (Scoped S_global ''global'' (B_key k)) = Some (g, ex) \<and> ce_now e < ex"
proof -
  obtain r where r: "query_by_key k (Some S_global) None w = Some r" "g = entityToDto r" using assms(4) by (auto simp: global_now_def)
  have key: "buildCacheKey (B_key k) (Some S_global) None = Scoped S_global ''global'' (B_key k)" by (simp add: buildCacheKey_def scope_value_text_def)
  show ?thesis
  proof (cases "fresh e (cw_one w (Scoped S_global ''global'' (B_key k)))")
    case None
    with r assms(2,3) show ?thesis by (simp add: getByKey_def read_through_def key answered_def)
  next
    case (Some v)
    then obtain ex where ex: "cw_one w (Scoped S_global ''global'' (B_key k)) = Some (v, ex)" "ce_now e < ex"
      by (auto simp: fresh_def split: option.splits if_splits)
    with config_invD(4) [OF assms(1)] assms(4) have "v = g" by fastforce
    with Some ex assms(2,3) show ?thesis by (simp add: getByKey_def read_through_def key answered_def)
  qed
qed

text \<open>Writing the switch: the read that precedes it leaves the entry that \<open>update\<close> then finds.\<close>

lemma setKillSwitch_writes:
  assumes inv: "config_inv ask w" and c: "cw_client w" "answered e" and new: "ce_newId e \<notin> cg_id ` set (cw_rows w)"
    and g: "global_now ''dex.limits'' w = Some g" and p: "JP (cd_configValue g) = Some v" "with_kill_switch b v = Some v'"
    and reason: "reason \<noteq> Some []" and run: "setKillSwitch JP JS e b who reason w = (out, w')"
  shows "\<exists>row. cw_rows w' = cw_rows w @ [row] \<and> in_scope ''dex.limits'' S_global None row \<and> cg_isActive row
    \<and> cg_configValue row = JS v' \<and> cg_entityVersion row = cd_entityVersion g + 1"
proof -
  obtain w1 ex where r1: "getByKey e 2 ''dex.limits'' (Some S_global) None w = (Some g, w1)" "cw_rows w1 = cw_rows w" "cw_client w1"
    "cw_one w1 (Scoped S_global ''global'' (B_key ''dex.limits'')) = Some (g, ex)" "ce_now e < ex"
    using global_read [OF inv c g] by blast
  have r2: "getByKey e 4 ''dex.limits'' (Some S_global) (Some None) w1 = (Some g, w1)"
    using r1(3-5) c(2) by (simp add: getByKey_def read_through_def buildCacheKey_def scope_value_text_def fresh_def answered_def)
  let ?row = "\<lparr> cg_id = ce_newId e, cg_configKey = ''dex.limits'', cg_configValue = JS v', cg_isSensitive = True,
     cg_entityVersion = cd_entityVersion g + 1, cg_createdAt = ce_now e, cg_updatedAt = ce_now e, cg_updatedBy = Some who,
     cg_scopeType = S_global, cg_scopeValue = None, cg_isActive = True \<rparr>"
  have "cg_id x \<noteq> ce_newId e" if "x \<in> set (cw_rows w)" for x using new that by (metis imageI)
  then have "insert_row ?row w1 = (Inr (), w1\<lparr>cw_rows := cw_rows w1 @ [?row]\<rparr>)" by (auto simp: insert_row_def r1(2))
  note rows = write_version_rows [OF this]
  have nm: "\<not> missing (Some (case reason of None \<Rightarrow> ''panic-button '' @ (if b then ''STOP'' else ''RECOVER'') @ '' (D4-C-3-PANIC)'' | Some s \<Rightarrow> s))"
    using reason by (auto simp: missing_def js_or_null_def split: option.splits)
  obtain a q x where "write_version e (4 + 2) ?row who a q w1 = (x, w')"
    using run nm by (auto simp: setKillSwitch_def r1(1) r2 p update_config_def Let_def is_sensitive_def split: prod.splits sum.splits)
  from rows [OF this] show ?thesis by (intro exI [of _ ?row]) (simp add: r1(2) in_scope_def)
qed

lemma switch_read: "map_of (js_spread kvs [(''killSwitch'', JBool b)]) ''killSwitch'' = Some (JBool b)"
  by (simp add: map_of_js_spread)

text \<open>What the two services conclude from an answer whose value has the switch on.\<close>

definition stale :: "halt_env \<Rightarrow> int \<Rightarrow> halt_cache \<Rightarrow> bool" where
  "stale he now cache = (case cache of None \<Rightarrow> True | Some (_, t) \<Rightarrow> now - t > cacheTtlMs he \<and> now - t > 30000)"

lemma halted_by_body:
  assumes "parseEnvOverride he = None" and "stale he now cache" and "jget body ''configValue'' = Some (JStr raw)" and "raw \<noteq> []"
    and "JP raw = Some v" "jget v ''killSwitch'' = Some (JBool True)"
  shows "fst (isLiveHalted JP he True body now cache)" and "fst (live_isLiveHalted JP he True body now cache)"
proof -
  have b: "jis_object (Some body)" using assms(3) by (cases body) (auto simp: jis_object_def)
  moreover have "jis_object (Some v)" using assms(6) by (cases v) (auto simp: jis_object_def)
  ultimately have r: "refresh_halt JP True body now c = Some (True, now)" "refresh_live_halt JP True body now c = Some (True, now)" for c
    using assms(3-6) by (simp_all add: refresh_halt_def refresh_live_halt_def parseKillSwitch_def jnonempty_str_def)
  show "fst (isLiveHalted JP he True body now cache)" using assms(1,2) r by (auto simp: isLiveHalted_def stale_def Let_def split: option.splits)
  show "fst (live_isLiveHalted JP he True body now cache)" using assms(1,2) r by (auto simp: live_isLiveHalted_def stale_def Let_def split: option.splits)
qed

lemma dto_json_value: "jget (dto_json v) ''configValue'' = Some (JStr (cd_configValue v))"
  by (simp add: dto_json_def)

lemma panicStop_rows:
  assumes "readKillSwitch JP e w = (b, w1)" and "b \<noteq> Some True" and "setKillSwitch JP JS e True (dq_operatorId dto) (dq_reason dto) w1 = (x, w2)"
    and "panicStop JP JS e dto w = (out, w')"
  shows "cw_rows w' = cw_rows w2 \<and> cw_rank w' = cw_rank w2"
  using assms by (auto simp: panicStop_def panic_audit_def dest: appendEntry_frame split: prod.splits sum.splits)



text \<open>
  Without Redis the panic button does nothing. The read before the write asks for an undefined
  scope value and the read of \<open>update\<close> for null, which no row equals in SQL: unless the first read has
  cached its row, the update is refused, and a stop or a recovery never writes a row.
\<close>

theorem panic_needs_redis:
  assumes "\<not> cw_client w" and "panicStop JP JS e dto w = (out, w')" and "panicRecover JP JS e dto confirm w = (out2, w2)"
  shows "cw_rows w' = cw_rows w \<and> cw_rows w2 = cw_rows w \<and> (\<forall>r. out = Inr r \<longrightarrow> pn_alreadyHalted r)
    \<and> (\<forall>r. out2 = Inr r \<longrightarrow> pn_killSwitchBefore r = Some False)"
proof -
  have nc: "read_through e n key l w = (map_option entityToDto l, w)" for n key l
    using assms(1) by (simp add: read_through_def split: option.split)
  obtain b w1 where r1: "readKillSwitch JP e w = (b, w1)" by (rule prod.exhaust)
  then have "w1 = w" by (auto simp: readKillSwitch_def getEffective_def nc split: option.splits)
  with r1 have r: "readKillSwitch JP e w = (b, w)" by simp
  have "\<exists>err. setKillSwitch JP JS e c who reason w = (Inl err, w)" for c who reason
    by (auto simp: setKillSwitch_def getByKey_def update_config_def Let_def nc query_global_null split: option.split prod.split)
  then obtain err where set: "setKillSwitch JP JS e c who reason w = (Inl (err c who reason), w)" for c who reason by metis
  have "cw_rows w' = cw_rows w \<and> (\<forall>r. out = Inr r \<longrightarrow> pn_alreadyHalted r)"
    using assms(2) by (auto simp: panicStop_def r set panic_audit_def appendEntry_def split: if_splits)
  moreover have "cw_rows w2 = cw_rows w \<and> (\<forall>r. out2 = Inr r \<longrightarrow> pn_killSwitchBefore r = Some False)"
    using assms(3) by (auto simp: panicRecover_def r set panic_audit_def appendEntry_def split: if_splits)
  ultimately show ?thesis by blast
qed


text \<open>
  The cache is blind to the scope. A read of \<open>dex.limits\<close> for one environment and tenant with the
  switch on is answered to everybody for a minute: a panic stop in that time reports that trading is
  already halted and writes nothing, whatever the global row says.
\<close>

theorem foreign_scope_disarms_panic:
  assumes "cw_client w" and "answered e" "answered e2" and "cw_one w (Plain (B_effective ''dex.limits'')) = None"
    and "getEffective e 0 ''dex.limits'' environment tenantId w = (Some v, w1)"
    and "JP (cd_configValue v) = Some p" "jget p ''killSwitch'' = Some (JBool True)"
    and "ce_now e2 < ce_now e + 60000" and "panicStop JP JS e2 dto w1 = (out, w2)"
  shows "cw_rows w2 = cw_rows w
    \<and> (\<forall>r. out = Inr r \<longrightarrow> r = \<lparr> pn_killSwitchBefore = Some True, pn_killSwitchAfter = True, pn_alreadyHalted = True \<rparr>)
    \<and> (\<forall>env2 tenant2. fst (getEffective e2 0 ''dex.limits'' env2 tenant2 w1) = Some v)"
proof -
  have key: "buildCacheKey (B_effective ''dex.limits'') None None = Plain (B_effective ''dex.limits'')" by (simp add: buildCacheKey_def)
  obtain r where "v = entityToDto r" and w1: "w1 = w\<lparr>cw_one := (cw_one w)(Plain (B_effective ''dex.limits'') \<mapsto> (v, ce_now e + 60000))\<rparr>"
    using assms(1,2,4,5) by (auto simp: getEffective_def read_through_def key fresh_def answered_def split: option.splits)
  then have hit: "getEffective e2 0 ''dex.limits'' env2 tenant2 w1 = (Some v, w1)" for env2 tenant2
    using assms(1,3,8) by (simp add: getEffective_def read_through_def key fresh_def answered_def)
  then have read: "readKillSwitch JP e2 w1 = (Some True, w1)" using assms(6,7) by (simp add: readKillSwitch_def)
  have "cw_rows w2 = cw_rows w1 \<and> (\<forall>r. out = Inr r \<longrightarrow> r = \<lparr> pn_killSwitchBefore = Some True, pn_killSwitchAfter = True, pn_alreadyHalted = True \<rparr>)"
    using assms(9) by (auto simp: panicStop_def read panic_audit_def appendEntry_def split: if_splits)
  with hit w1 show ?thesis by simp
qed

section \<open>Global rows\<close>

text \<open>A read of a global row over the route passes null as its scope value and finds nothing but a cache entry.\<close>

lemma global_route_misses:
  assumes "fresh e (cw_one w (buildCacheKey (B_key k) st None)) = None" and "st = None \<or> st = Some S_global"
  shows "by_key_route e k st None w = (Response 404 None, w)"
proof -
  have "query_by_key k st (Some None) w = None" by (simp add: query_by_key_def first_by_None)
  then show ?thesis using assms by (simp add: by_key_route_def getByKey_def js_or_null_def read_through_def)
qed

text \<open>
  \<open>create\<close> counts the versions of the scope with \<open>=\<close> as well: every global row it writes has version
  1, and of two of them the database may return either as the latest.
\<close>

lemma create_global_version:
  assumes "create_config e k dto who w = (Inr v, w')" and "dc_scopeType dto = Some S_global" "js_or_null (dc_scopeValue dto) = None"
  shows "\<exists>row. cw_rows w' = cw_rows w @ [row] \<and> cg_entityVersion row = 1"
proof -
  let ?sens = "is_sensitive (dc_isSensitive dto) k"
  let ?row = "\<lparr> cg_id = ce_newId e, cg_configKey = k, cg_configValue = dc_configValue dto, cg_isSensitive = ?sens, cg_entityVersion = 1,
     cg_createdAt = ce_now e, cg_updatedAt = ce_now e, cg_updatedBy = Some who, cg_scopeType = S_global, cg_scopeValue = None, cg_isActive = dc_active dto \<rparr>"
  obtain a p where run: "write_version e 0 ?row who a p w = (Inr v, w')"
    using assms by (auto simp: create_config_def Let_def max_version_def split: if_splits)
  then obtain w1 where "insert_row ?row w = (Inr (), w1)"
    by (cases "insert_row ?row w"; cases "fst (insert_row ?row w)") (auto simp: write_version_def)
  from write_version_rows [OF this run] show ?thesis by auto
qed

section \<open>Rollback\<close>

text \<open>
  A rollback restores. A rollback that is answered was given a version that is active in its
  scope; afterwards the latest row of the scope is a new one with the value of that version and a
  version above every earlier one of the scope, and the rows outside the scope are as they were.
\<close>

theorem rollback_restores:
  assumes "rollback e k dto who w = (Inr i, w')"
  shows "\<exists>target row. let st = (case dr_scopeType dto of Some t \<Rightarrow> t | None \<Rightarrow> S_global); sv = dr_scopeValue dto in
     target \<in> set (cw_rows w) \<and> in_scope k st sv target \<and> cg_isActive target \<and> cg_entityVersion target = dr_toVersion dto
     \<and> latest_of (cw_rank w') (cw_rows w') k st sv = Some row \<and> cg_id row = i
     \<and> cg_configValue row = cg_configValue target \<and> cg_isSensitive row = cg_isSensitive target
     \<and> (\<forall>x \<in> set (cw_rows w). in_scope k st sv x \<longrightarrow> cg_entityVersion x < cg_entityVersion row)
     \<and> filter (\<lambda>x. \<not> in_scope k st sv x) (cw_rows w') = filter (\<lambda>x. \<not> in_scope k st sv x) (cw_rows w)"
proof -
  let ?st = "case dr_scopeType dto of Some t \<Rightarrow> t | None \<Rightarrow> S_global" and ?sv = "dr_scopeValue dto"
  let ?w0 = "w\<lparr>cw_rows := deactivate (\<lambda>r. in_scope k ?st ?sv r \<and> cg_entityVersion r > dr_toVersion dto \<and> cg_isActive r) (ce_now e) who (cw_rows w)\<rparr>"
  obtain x w1 where r: "rollback_configuration k (dr_toVersion dto) who ?st ?sv e w = (x, w1)" by (rule prod.exhaust)
  have nm: "(is_sensitive (dr_isSensitive dto) k \<and> missing (dr_approveReason dto)) = False"
    using assms by (auto simp: rollback_def Let_def)
  have "x = Inr i \<and> cw_rows w' = cw_rows w1 \<and> cw_rank w' = cw_rank w1"
  proof (cases x)
    case (Inl err)
    with assms show ?thesis by (simp add: rollback_def Let_def r nm)
  next
    case (Inr j)
    let ?p = "JObj ([(''configKey'', JStr k), (''toVersion'', JNum (of_int (dr_toVersion dto)))] @ scope_json ?st ?sv
      @ [(''isSensitive'', JBool (is_sensitive (dr_isSensitive dto) k))] @ opt_field ''approveReason'' JStr (dr_approveReason dto))"
    obtain a w2 where a: "appendEntry e 0 who ''CONFIG_ROLLBACK'' ''policy_configuration'' j ?p (invalidateCache e 0 k ?st ?sv w1) = (a, w2)"
      by (rule prod.exhaust)
    have inv: "cw_rows (invalidateCache e 0 k ?st ?sv w1) = cw_rows w1" "cw_rank (invalidateCache e 0 k ?st ?sv w1) = cw_rank w1"
      by (simp_all add: invalidateCache_def Let_def)
    obtain v w3 where g: "getByKey e 4 k (Some ?st) (Some ?sv) w2 = (v, w3)" by (rule prod.exhaust)
    have "i = j \<and> w' = w3" using assms a g by (cases a) (simp_all add: rollback_def Let_def r Inr nm)
    with Inr appendEntry_frame [OF a] inv read_through_frame [OF g [unfolded getByKey_def]] show ?thesis by simp
  qed
  then have "x = Inr i" and rows': "cw_rows w' = cw_rows w1 \<and> cw_rank w' = cw_rank w1" by simp_all
  then obtain target where t: "first_by (cw_rank w) (filter (\<lambda>r. in_scope k ?st ?sv r \<and> cg_entityVersion r = dr_toVersion dto \<and> cg_isActive r) (cw_rows w)) = Some target"
    using r by (auto simp: rollback_configuration_def split: option.splits)
  let ?row = "\<lparr> cg_id = ce_newId e, cg_configKey = k, cg_configValue = cg_configValue target, cg_isSensitive = cg_isSensitive target,
     cg_entityVersion = max_version (filter (in_scope k ?st ?sv) (cw_rows ?w0)) + 1, cg_createdAt = ce_now e, cg_updatedAt = ce_now e,
     cg_updatedBy = Some who, cg_scopeType = ?st, cg_scopeValue = ?sv, cg_isActive = True \<rparr>"
  obtain y w2 where ins: "insert_row ?row ?w0 = (y, w2)" by (rule prod.exhaust)
  with r t \<open>x = Inr i\<close> have done': "ce_newId e = i" "w2 = w1" "insert_row ?row ?w0 = (Inr (), w1)"
    by (cases y; simp add: rollback_configuration_def Let_def)+
  from insert_row_Inr [OF done'(3)] have rows: "cw_rows w1 = cw_rows ?w0 @ [?row]" "cw_rank w1 = cw_rank w" by simp_all
  have below: "cg_entityVersion x < cg_entityVersion ?row" if "x \<in> set (cw_rows ?w0)" "in_scope k ?st ?sv x" for x
    using max_version_ge [of x "filter (in_scope k ?st ?sv) (cw_rows ?w0)"] that by simp
  have "latest_of (cw_rank w') (cw_rows w') k ?st ?sv = Some ?row"
    using newest_is_latest [of k ?st ?sv ?row "cw_rows ?w0"] below rows rows' by (simp add: in_scope_def)
  moreover have "cg_entityVersion x < cg_entityVersion ?row" if "x \<in> set (cw_rows w)" "in_scope k ?st ?sv x" for x
  proof -
    let ?f = "\<lambda>r. if in_scope k ?st ?sv r \<and> cg_entityVersion r > dr_toVersion dto \<and> cg_isActive r
      then r\<lparr>cg_isActive := False, cg_updatedAt := ce_now e, cg_updatedBy := Some who\<rparr> else r"
    have i: "?f x \<in> set (cw_rows ?w0)" using that by (simp add: deactivate_def)
    have s: "in_scope k ?st ?sv (?f x)" and v: "cg_entityVersion (?f x) = cg_entityVersion x"
      using that(2) by (simp_all add: in_scope_def)
    from below [OF i s] show ?thesis unfolding v .
  qed
  moreover have "filter (\<lambda>x. \<not> in_scope k ?st ?sv x) (deactivate (\<lambda>r. in_scope k ?st ?sv r \<and> P r) a b rs) = filter (\<lambda>x. \<not> in_scope k ?st ?sv x) rs"
    for P a b rs by (induction rs) (auto simp: deactivate_def in_scope_def)
  then have "filter (\<lambda>x. \<not> in_scope k ?st ?sv x) (cw_rows w') = filter (\<lambda>x. \<not> in_scope k ?st ?sv x) (cw_rows w)"
    using rows rows' by (simp add: in_scope_def)
  moreover have "target \<in> set (cw_rows w)" "in_scope k ?st ?sv target" "cg_isActive target" "cg_entityVersion target = dr_toVersion dto"
    using first_by_Some [OF t] by auto
  ultimately show ?thesis using done'(1) by (intro exI [of _ target] exI [of _ ?row]) (simp add: Let_def)
qed


section \<open>Examples\<close>

definition ex_cfg_row :: "string \<Rightarrow> string \<Rightarrow> scope_type \<Rightarrow> string option \<Rightarrow> int \<Rightarrow> cfg_row" where
  "ex_cfg_row i v st sv n = \<lparr> cg_id = i, cg_configKey = ''dex.limits'', cg_configValue = v, cg_isSensitive = True, cg_entityVersion = n,
     cg_createdAt = 0, cg_updatedAt = 0, cg_updatedBy = None, cg_scopeType = st, cg_scopeValue = sv, cg_isActive = True \<rparr>"

definition ex_config :: "bool \<Rightarrow> config_world" where
  "ex_config c = \<lparr> cw_rows = [ex_cfg_row ''a'' ''off'' S_global None 1, ex_cfg_row ''b'' ''on'' S_tenant (Some ''t'') 1],
     cw_rank = length, cw_collate = length, cw_client = c, cw_one = Map.empty, cw_many = Map.empty, cw_promoted = Map.empty, cw_audit = [] \<rparr>"

definition ex_cfg_env :: "string \<Rightarrow> int \<Rightarrow> cfg_env" where
  "ex_cfg_env i t = \<lparr> ce_redis = (\<lambda>_. True), ce_audit = (\<lambda>_. False), ce_now = t, ce_newId = i, ce_correlationId = ''c'' \<rparr>"

definition ex_json_parse :: "string \<Rightarrow> json option" where
  "ex_json_parse s = (if s = ''off'' then Some (JObj [(''killSwitch'', JBool False)])
     else if s = ''on'' then Some (JObj [(''killSwitch'', JBool True)]) else None)"

definition ex_json_text :: "json \<Rightarrow> string" where
  "ex_json_text v = (if jget v ''killSwitch'' = Some (JBool True) then ''on'' else ''off'')"

definition ex_panic :: panic_dto where
  "ex_panic = \<lparr> dq_operatorId = ''op'', dq_reason = None \<rparr>"

lemma ex_config_start: "config_start (ex_config c)"
  by (simp add: config_start_def ex_config_def ex_cfg_row_def)

lemma ex_answered: "answered (ex_cfg_env i t)"
  by (simp add: answered_def ex_cfg_env_def)

definition ex_stopped :: config_world where
  "ex_stopped = snd (panicStop ex_json_parse ex_json_text (ex_cfg_env ''n'' 5) ex_panic
     (snd (getEffective (ex_cfg_env ''m'' 3) 0 ''dex.limits'' None None (ex_config True))))"



theorem panic_needs_redis_witness:
  "(case panicStop ex_json_parse ex_json_text (ex_cfg_env ''n'' 5) ex_panic (ex_config False) of (out, w') \<Rightarrow>
      out = Inl (NotFoundException ''Configuration not found'') \<and> map cg_configValue (cw_rows w') = [''off'', ''on''])"
proof -
  let ?s = "panicStop ex_json_parse ex_json_text (ex_cfg_env ''n'' 5) ex_panic (ex_config False)"
  let ?r = "panicRecover ex_json_parse ex_json_text (ex_cfg_env ''n'' 5) ex_panic [] (ex_config False)"
  have "\<not> cw_client (ex_config False)" by (simp add: ex_config_def)
  from panic_needs_redis [OF this, of ex_json_parse ex_json_text "ex_cfg_env ''n'' 5" ex_panic "fst ?s" "snd ?s" "[]" "fst ?r" "snd ?r"]
  have "cw_rows (snd ?s) = cw_rows (ex_config False)" by simp
  moreover have "fst ?s = Inl (NotFoundException ''Configuration not found'')" by code_simp
  ultimately show ?thesis by (simp add: case_prod_beta ex_config_def ex_cfg_row_def)
qed

theorem foreign_scope_disarms_panic_witness:
  "map cg_configValue (cw_rows (snd (panicStop ex_json_parse ex_json_text (ex_cfg_env ''n'' 5) ex_panic
      (snd (getEffective (ex_cfg_env ''m'' 3) 0 ''dex.limits'' None (Some ''t'') (ex_config True)))))) = [''off'', ''on'']"
proof -
  let ?v = "entityToDto (ex_cfg_row ''b'' ''on'' S_tenant (Some ''t'') 1)"
  obtain x w1 where r: "getEffective (ex_cfg_env ''m'' 3) 0 ''dex.limits'' None (Some ''t'') (ex_config True) = (x, w1)" by (rule prod.exhaust)
  have "fst (getEffective (ex_cfg_env ''m'' 3) 0 ''dex.limits'' None (Some ''t'') (ex_config True)) = Some ?v" by code_simp
  with r have r: "getEffective (ex_cfg_env ''m'' 3) 0 ''dex.limits'' None (Some ''t'') (ex_config True) = (Some ?v, w1)" by simp
  obtain out w2 where s: "panicStop ex_json_parse ex_json_text (ex_cfg_env ''n'' 5) ex_panic w1 = (out, w2)" by (rule prod.exhaust)
  have "cw_rows w2 = cw_rows (ex_config True)"
    using foreign_scope_disarms_panic [OF _ ex_answered ex_answered _ r _ _ _ s, of "JObj [(''killSwitch'', JBool True)]"]
    by (simp add: ex_config_def ex_cfg_row_def entityToDto_def ex_json_parse_def ex_cfg_env_def)
  moreover have "map cg_configValue (cw_rows (ex_config True)) = [''off'', ''on'']" by (simp add: ex_config_def ex_cfg_row_def)
  ultimately show ?thesis by (simp add: r s)
qed

theorem rollback_restores_witness:
  "\<exists>row w'. rollback (ex_cfg_env ''n'' 5\<lparr>ce_audit := \<lambda>_. True\<rparr>) ''dex.limits'' \<lparr> dr_toVersion = 1, dr_scopeType = None, dr_scopeValue = None,
        dr_isSensitive = None, dr_approveReason = None \<rparr> ''op''
      (ex_config True\<lparr>cw_rows := [ex_cfg_row ''a'' ''off'' S_global None 1, ex_cfg_row ''b'' ''on'' S_global None 2]\<rparr>) = (Inr ''n'', w')
    \<and> latest_of (cw_rank w') (cw_rows w') ''dex.limits'' S_global None = Some row \<and> cg_configValue row = ''off''"
proof -
  let ?e = "ex_cfg_env ''n'' 5\<lparr>ce_audit := \<lambda>_. True\<rparr>" and ?w = "ex_config True\<lparr>cw_rows := [ex_cfg_row ''a'' ''off'' S_global None 1, ex_cfg_row ''b'' ''on'' S_global None 2]\<rparr>"
  let ?d = "\<lparr> dr_toVersion = 1, dr_scopeType = None, dr_scopeValue = None, dr_isSensitive = None, dr_approveReason = None \<rparr>"
  have "fst (rollback ?e ''dex.limits'' ?d ''op'' ?w) = Inr ''n''" by code_simp
  then obtain w' where r: "rollback ?e ''dex.limits'' ?d ''op'' ?w = (Inr ''n'', w')" by (metis prod.collapse)
  from rollback_restores [OF r] obtain target row where t: "target \<in> set (cw_rows ?w)" "cg_entityVersion target = 1"
    "latest_of (cw_rank w') (cw_rows w') ''dex.limits'' S_global None = Some row" "cg_configValue row = cg_configValue target"
    by (auto simp: Let_def)
  from t(1,2) have "cg_configValue target = ''off''" by (auto simp: ex_cfg_row_def)
  with r t show ?thesis by auto
qed

end
