(* ===== verification/Hermes_Props.thy ===== *)
theory Hermes_Props
  imports Hermes Config_Props
begin

text \<open>
  Properties of the write routes of the configuration service and of the gateway: which
  configurations a request can change at all, what a read with a tenant does to the kill switch,
  how many mutations the rate limit lets through, and that the pages of the plan list are complete.
\<close>

section \<open>Requests that cannot succeed\<close>

lemma refused_by_pipe:
  assumes "whitelisting pipe" "has_operator b" "''operatorId'' \<notin> set props"
  shows "\<exists>err. validated (pipe props (by_fields b)) (with_operator b run) w = (Inl err, w)"
proof (cases "by_operatorId b")
  case None
  then show ?thesis by (simp add: validated_def with_operator_def js_or_null_def)
next
  case (Some x)
  then have "\<not> pipe props (by_fields b)" using assms by (auto simp: whitelisting_def has_operator_def)
  then show ?thesis by (simp add: validated_def)
qed

text \<open>
  Three of the routes cannot succeed. The controllers take \<open>operatorId\<close> from the body, the
  classes of rollback, promotion and activation do not have it, and the pipe refuses unknown
  fields: whatever the body, these requests end in an error and change nothing.
\<close>

theorem write_routes_refuse:
  assumes "whitelisting pipe" and "has_operator rb" "has_operator pb" "has_operator sb"
  shows "(\<exists>err. rollback_route pipe e k rb w = (Inl err, w)) \<and> (\<exists>err. promote_route pipe e k pb w = (Inl err, w))
    \<and> (\<exists>err. status_route pipe e k sb w = (Inl err, w))"
  unfolding rollback_route_def promote_route_def status_route_def
  by (intro conjI refused_by_pipe assms) (simp_all add: rollback_props_def promote_props_def status_props_def)

section \<open>Global configurations\<close>

definition no_global_entry :: "config_world \<Rightarrow> bool" where
  "no_global_entry w \<longleftrightarrow> (\<forall>k. cw_one w (Scoped S_global ''global'' (B_key k)) = None)
     \<and> (\<forall>r \<in> set (cw_rows w). cg_scopeType r = S_global \<longrightarrow> cg_scopeValue r = None)"

lemma query_global_given:
  assumes "no_global_entry w" "sv \<noteq> None"
  shows "query_by_key k (Some S_global) sv w = None"
proof -
  obtain v where v: "sv = Some v" using assms(2) by blast
  have "\<not> sql_eq (cg_scopeValue r) v" if "r \<in> set (v_latest (cw_rank w) (cw_rows w))" "cg_scopeType r = S_global" for r
    using that v_latest_rows [of r] assms(1) by (auto simp: no_global_entry_def sql_eq_def)
  then show ?thesis by (auto simp: query_by_key_def v first_by_None filter_empty_conv)
qed

text \<open>A read caches nothing under the key of a global row.\<close>

lemma read_through_entry:
  assumes "read_through e n key loaded w = (out, w')" "no_global_entry w"
    and "\<And>k. key = Scoped S_global ''global'' (B_key k) \<Longrightarrow> loaded = None"
  shows "no_global_entry w' \<and> cw_rows w' = cw_rows w \<and> cw_rank w' = cw_rank w"
  using assms by (auto simp: read_through_def no_global_entry_def split: option.splits if_splits)

lemma getByKey_entry:
  assumes "getByKey e n k st (Some v) w = (out, w')" "no_global_entry w"
  shows "no_global_entry w' \<and> cw_rows w' = cw_rows w \<and> cw_rank w' = cw_rank w"
proof (rule read_through_entry [OF assms(1) [unfolded getByKey_def] assms(2)])
  fix k' assume "buildCacheKey (B_key k) st (case Some v of None \<Rightarrow> None | Some v \<Rightarrow> v) = Scoped S_global ''global'' (B_key k')"
  then have "st = Some S_global" by (cases st) (simp_all add: buildCacheKey_def)
  then show "query_by_key k st (Some v) w = None" using query_global_given [OF assms(2)] by simp
qed

lemma getEffective_entry:
  assumes "getEffective e n k env t w = (out, w')" "no_global_entry w"
  shows "no_global_entry w' \<and> cw_rows w' = cw_rows w \<and> cw_rank w' = cw_rank w"
  by (rule read_through_entry [OF assms(1) [unfolded getEffective_def] assms(2)]) (simp add: buildCacheKey_def)

lemma invalidate_entry:
  assumes "no_global_entry w"
  shows "no_global_entry (invalidateCache e n k st sv w) \<and> cw_rows (invalidateCache e n k st sv w) = cw_rows w"
  using assms by (auto simp: invalidateCache_def no_global_entry_def Let_def)

lemma write_version_entry:
  assumes "write_version e n row who action payload w = (out, w')" "no_global_entry w"
    and "cg_scopeType row = S_global \<longrightarrow> cg_scopeValue row = None"
  shows "no_global_entry w' \<and> (cw_rows w' = cw_rows w \<or> cw_rows w' = cw_rows w @ [row])"
proof (cases "insert_row row w")
  case (Pair r w1)
  show ?thesis
  proof (cases r)
    case (Inl err)
    with Pair assms insert_row_Inl [of row w err w1] show ?thesis by (simp add: write_version_def)
  next
    case (Inr u)
    then have w1: "w1 = w\<lparr>cw_rows := cw_rows w @ [row]\<rparr>" using Pair insert_row_Inr [of row w w1] by simp
    have e1: "no_global_entry w1" using assms(2,3) by (auto simp: w1 no_global_entry_def)
    let ?inv = "invalidateCache e n (cg_configKey row) (cg_scopeType row) (cg_scopeValue row) w1"
    have e2: "no_global_entry ?inv" "cw_rows ?inv = cw_rows w @ [row]" using invalidate_entry [OF e1] by (simp_all add: w1)
    obtain a w2 where a: "appendEntry e 0 who action ''policy_configuration'' (cg_id row) payload ?inv = (a, w2)" by (rule prod.exhaust)
    have e3: "no_global_entry w2" "cw_rows w2 = cw_rows w @ [row]"
      using a e2 by (auto simp: appendEntry_def no_global_entry_def split: if_splits)
    obtain v w3 where g: "getByKey e (n + 4) (cg_configKey row) (Some (cg_scopeType row)) (Some (cg_scopeValue row)) w2 = (v, w3)"
      by (rule prod.exhaust)
    have e4: "no_global_entry w3" "cw_rows w3 = cw_rows w @ [row]" using getByKey_entry [OF g e3(1)] e3(2) by simp_all
    have "w' = w2 \<or> w' = w3"
      using assms(1) Inr by (cases a) (auto simp: write_version_def Pair a g split: if_splits)
    with e3 e4 show ?thesis by auto
  qed
qed

lemma create_entry:
  assumes "create_config e k dto who w = (out, w')" "no_global_entry w"
    and "plain_scope (dc_scopeType dto) (js_or_null (dc_scopeValue dto))"
  shows "no_global_entry w'"
proof (cases "is_sensitive (dc_isSensitive dto) k \<and> missing (dc_approveReason dto)")
  case True
  with assms(1,2) show ?thesis by (simp add: create_config_def Let_def)
next
  case False
  let ?st = "case dc_scopeType dto of Some t \<Rightarrow> t | None \<Rightarrow> if js_or_null (dc_scopeValue dto) \<noteq> None then S_tenant else S_global"
  have sc: "?st = S_global \<longrightarrow> js_or_null (dc_scopeValue dto) = None"
    using assms(3) by (auto simp: plain_scope_def split: option.splits)
  obtain row a p where "write_version e 0 row who a p w = (out, w')" "cg_scopeType row = ?st" "cg_scopeValue row = js_or_null (dc_scopeValue dto)"
    using assms(1) False by (auto simp: create_config_def Let_def)
  with write_version_entry [OF _ assms(2)] sc show ?thesis by metis
qed

lemma update_entry:
  assumes "update_config e n k dto who w = (out, w')" "no_global_entry w" and "given_scope (dc_scopeType dto) (dc_scopeValue dto)"
  shows "no_global_entry w' \<and> (cw_rows w' = cw_rows w \<or> (\<exists>row. cg_configKey row = k \<and> cw_rows w' = cw_rows w @ [row]))"
proof -
  let ?st = "case dc_scopeType dto of Some t \<Rightarrow> t | None \<Rightarrow> S_global"
  obtain v w1 where g: "getByKey e n k (Some ?st) (Some (dc_scopeValue dto)) w = (v, w1)" by (rule prod.exhaust)
  note f = getByKey_entry [OF g assms(2)]
  show ?thesis
  proof (cases "v = None \<or> is_sensitive (dc_isSensitive dto) k \<and> missing (dc_approveReason dto)")
    case True
    have "w' = w1" using assms(1) True g by (cases v) (auto simp: update_config_def Let_def)
    with f show ?thesis by simp
  next
    case False
    then obtain x where v: "v = Some x" by (cases v) auto
    obtain row a p where wv: "write_version e (n + 2) row who a p w1 = (out, w')" "cg_scopeType row = ?st" "cg_configKey row = k"
      "cg_scopeValue row = dc_scopeValue dto"
      using assms(1) False g v by (auto simp: update_config_def Let_def)
    have "cg_scopeType row = S_global \<longrightarrow> cg_scopeValue row = None"
      using assms(3) wv(2,4) by (auto simp: given_scope_def plain_scope_def)
    from write_version_entry [OF wv(1) _ this] f wv(3) show ?thesis by auto
  qed
qed

text \<open>The requests of the HTTP interface, the panic button apart; Redis and audit may fail at any point.\<close>

inductive http_step :: "(string list \<Rightarrow> string list \<Rightarrow> bool) \<Rightarrow> config_world \<Rightarrow> config_world \<Rightarrow> bool" for pipe where
  hs_by_key: "by_key_route e k st sv w = (r, w') \<Longrightarrow> http_step pipe w w'"
| hs_effective: "effective_route e k env t w = (r, w') \<Longrightarrow> http_step pipe w w'"
| hs_listing: "getAll e q w = (l, w') \<Longrightarrow> http_step pipe w w'"
| hs_create: "create_route pipe e k cb w = (c, w') \<Longrightarrow> plain_scope (dc_scopeType (by_dto cb)) (js_or_null (dc_scopeValue (by_dto cb))) \<Longrightarrow>
     http_step pipe w w'"
| hs_update: "update_route e k cb w = (c, w') \<Longrightarrow> given_scope (dc_scopeType (by_dto cb)) (dc_scopeValue (by_dto cb)) \<Longrightarrow> http_step pipe w w'"
| hs_rollback: "rollback_route pipe e k rb w = (rr, w') \<Longrightarrow> has_operator rb \<Longrightarrow> http_step pipe w w'"
| hs_promote: "promote_route pipe e k pb w = (pr, w') \<Longrightarrow> has_operator pb \<Longrightarrow> http_step pipe w w'"
| hs_status: "status_route pipe e k sb w = (sr, w') \<Longrightarrow> has_operator sb \<Longrightarrow> http_step pipe w w'"

lemma http_step_entry:
  assumes "http_step pipe w w'" "whitelisting pipe" "no_global_entry w"
  shows "no_global_entry w'"
  using assms(1)
proof cases
  case (hs_by_key e k st sv r)
  obtain v w1 where g: "getByKey e 0 k st (Some (js_or_null sv)) w = (v, w1)" by (rule prod.exhaust)
  then have "w' = w1" using hs_by_key by (cases v) (auto simp: by_key_route_def)
  with getByKey_entry [OF g assms(3)] show ?thesis by simp
next
  case (hs_effective e k env t r)
  obtain v w1 where g: "getEffective e 0 k env t w = (v, w1)" by (rule prod.exhaust)
  then have "w' = w1" using hs_effective by (cases v) (auto simp: effective_route_def)
  with getEffective_entry [OF g assms(3)] show ?thesis by simp
next
  case (hs_listing e q l)
  then have "w' = w \<or> (\<exists>m. w' = w\<lparr>cw_many := m\<rparr>)"
    by (auto simp: getAll_def Let_def split: prod.splits option.splits if_splits)
  with assms(3) show ?thesis by (auto simp: no_global_entry_def)
next
  case (hs_create e k cb c)
  then have "w' = w \<or> (\<exists>who. create_config e k (by_dto cb) who w = (c, w'))"
    by (auto simp: create_route_def validated_def with_operator_def split: if_splits option.splits)
  with create_entry [OF _ assms(3)] hs_create(2) assms(3) show ?thesis by blast
next
  case (hs_update e k cb c)
  then have "w' = w \<or> (\<exists>who. update_config e 0 k (by_dto cb) who w = (c, w'))"
    by (auto simp: update_route_def with_operator_def split: option.splits)
  with update_entry [OF _ assms(3)] hs_update(2) assms(3) show ?thesis by blast
next
  case (hs_rollback e k rb rr)
  then show ?thesis
    using refused_by_pipe [OF assms(2) hs_rollback(2), of rollback_props "rollback e k (by_dto rb)" w] assms(3)
    by (auto simp: rollback_route_def rollback_props_def)
next
  case (hs_promote e k pb pr)
  then show ?thesis
    using refused_by_pipe [OF assms(2) hs_promote(2), of promote_props "promote e k (by_dto pb)" w] assms(3)
    by (auto simp: promote_route_def promote_props_def)
next
  case (hs_status e k sb sr)
  then show ?thesis
    using refused_by_pipe [OF assms(2) hs_status(2), of status_props "updateStatus e k (by_dto sb)" w] assms(3)
    by (auto simp: status_route_def status_props_def)
qed

lemma http_run_entry:
  assumes "(http_step pipe)\<^sup>*\<^sup>* w0 w" "whitelisting pipe" "config_start w0"
  shows "no_global_entry w"
  using assms(1)
proof (induction rule: rtranclp_induct)
  case base
  show ?case using assms(3) by (simp add: no_global_entry_def config_start_def)
next
  case (step y z)
  then show ?case using http_step_entry assms(2) by blast
qed

text \<open>
  A global configuration cannot be updated over HTTP. In every run of requests (the panic
  button apart), whatever Redis and the audit service do, an update in the global scope answers
  404 and changes nothing, although the row is in the database: the look-up compares its scope
  value with \<open>NULL\<close>.
\<close>

theorem http_update_misses_globals:
  assumes "(http_step pipe)\<^sup>*\<^sup>* w0 w" and "whitelisting pipe" and "config_start w0"
    and "dc_scopeType (by_dto b) = None \<or> dc_scopeType (by_dto b) = Some S_global" and "dc_scopeValue (by_dto b) = None"
    and "js_or_null (by_operatorId b) \<noteq> None"
  shows "update_route e k b w = (Inl (NotFoundException ''Configuration not found''), w)"
proof -
  note inv = http_run_entry [OF assms(1-3)]
  have st: "(case dc_scopeType (by_dto b) of Some t \<Rightarrow> t | None \<Rightarrow> S_global) = S_global" using assms(4) by auto
  have key: "buildCacheKey (B_key k) (Some S_global) None = Scoped S_global ''global'' (B_key k)"
    by (simp add: buildCacheKey_def scope_value_text_def)
  have q: "query_by_key k (Some S_global) (Some None) w = None" by (rule query_global_given [OF inv]) simp
  have "fresh e (cw_one w (Scoped S_global ''global'' (B_key k))) = None" using inv by (simp add: no_global_entry_def fresh_def)
  then have "getByKey e 0 k (Some S_global) (Some None) w = (None, w)"
    by (simp add: getByKey_def read_through_def key q)
  with assms(5,6) show ?thesis
    by (auto simp: update_route_def with_operator_def update_config_def Let_def st)
qed

section \<open>The allowlist of the gateway\<close>

lemma allowed_not_sensitive:
  assumes "isConfigKeyAllowed k"
  shows "\<not> SENSITIVE_KEYS_PATTERN k"
proof -
  have "k \<noteq> [] \<and> hd k \<in> set ''ipodfs'' \<and> (hd k = CHR ''s'' \<longrightarrow> k ! 1 = CHR ''c'')"
    using assms by (auto simp: isConfigKeyAllowed_def ALLOWED_CONFIG_KEY_PATTERNS_def starts_with_iff)
  then show ?thesis by (auto simp: SENSITIVE_KEYS_PATTERN_def starts_with_iff)
qed

definition sensitive_rows :: "config_world \<Rightarrow> cfg_row list" where
  "sensitive_rows w = filter (\<lambda>r. SENSITIVE_KEYS_PATTERN (cg_configKey r)) (cw_rows w)"

lemma forward_state:
  assumes "hermes_forward n entry route (g, s) = (out, (g', s'))"
  shows "s' = s \<or> s' = snd (route s)"
proof (cases "route s")
  case (Pair a s1)
  with assms show ?thesis
    by (cases a) (auto simp: hermes_forward_def Let_def split: fate.splits if_splits)
qed

lemma config_mutation_state:
  assumes "hermes_config_mutation n dto k action extra route (g, w) = (out, (g', w'))"
  shows "w' = w \<or> isConfigKeyAllowed k \<and> w' = snd (route w)"
proof (cases "isConfigKeyAllowed k")
  case True
  then have "hermes_forward n (gateway_entry n dto ''policy_configuration'' k action extra) route (g, w) = (out, (g', w'))"
    using assms by (simp add: hermes_config_mutation_def assertConfigKeyAllowed_def)
  from forward_state [OF this] True show ?thesis by blast
next
  case False
  with assms show ?thesis by (simp add: hermes_config_mutation_def assertConfigKeyAllowed_def)
qed

lemma snd_answered [simp]: "snd (answered_with st enc r) = snd r"
  by (cases r) (auto simp: answered_with_def split: sum.splits)

lemma write_version_appends:
  "cw_rows (snd (write_version e n row who action payload w)) \<in> {cw_rows w, cw_rows w @ [row]}"
proof (cases "insert_row row w")
  case (Pair r w1)
  show ?thesis
  proof (cases r)
    case (Inl err)
    with Pair insert_row_Inl [of row w err w1] show ?thesis by (simp add: write_version_def)
  next
    case (Inr u)
    then have "insert_row row w = (Inr (), w1)" using Pair by simp
    from write_version_rows [OF this surjective_pairing] show ?thesis by simp
  qed
qed

lemma update_config_rows:
  "\<exists>rs. cw_rows (snd (update_config e n k dto who w)) = cw_rows w @ rs \<and> (\<forall>r \<in> set rs. cg_configKey r = k)"
proof -
  let ?st = "case dc_scopeType dto of Some t \<Rightarrow> t | None \<Rightarrow> S_global"
  obtain v w1 where g: "getByKey e n k (Some ?st) (Some (dc_scopeValue dto)) w = (v, w1)" by (rule prod.exhaust)
  note f = getByKey_rows [OF g]
  show ?thesis
  proof (cases "v = None \<or> is_sensitive (dc_isSensitive dto) k \<and> missing (dc_approveReason dto)")
    case True
    with f g show ?thesis by (cases v) (auto simp: update_config_def Let_def)
  next
    case False
    then obtain x where v: "v = Some x" by (cases v) auto
    obtain row a p where "update_config e n k dto who w = write_version e (n + 2) row who a p w1" "cg_configKey row = k"
      using False g v by (auto simp: update_config_def Let_def)
    with write_version_appends [of e "n + 2" row who a p w1] f show ?thesis by auto
  qed
qed

text \<open>What the holder of an API key of the gateway can do to the configurations and to the safe mode.\<close>

inductive hermes_step ::
  "(string list \<Rightarrow> string list \<Rightarrow> bool) \<Rightarrow> gateway \<times> config_world \<Rightarrow> gateway \<times> config_world \<Rightarrow> bool" for pipe where
  hm_update: "hermes_updateConfig n e k ud (g, w) = (out, (g', w')) \<Longrightarrow> hermes_step pipe (g, w) (g', w')"
| hm_rollback: "hermes_rollbackConfig pipe n e k rd (g, w) = (out, (g', w')) \<Longrightarrow> hermes_step pipe (g, w) (g', w')"
| hm_promote: "hermes_promoteConfig pipe n e k pd (g, w) = (out, (g', w')) \<Longrightarrow> hermes_step pipe (g, w) (g', w')"
| hm_status: "hermes_activateConfig pipe n e k sd (g, w) = (out, (g', w')) \<Longrightarrow> hermes_step pipe (g, w) (g', w')"
| hm_effective: "hermes_getEffective f e k env t w = (out, w') \<Longrightarrow> hermes_step pipe (g, w) (g, w')"
| hm_safe: "hermes_safe_mode n on ttl ok now dto reason g = (out, g') \<Longrightarrow> hermes_step pipe (g, w) (g', w)"

lemma hermes_step_rows:
  assumes "hermes_step pipe (g, w) (g', w')" "whitelisting pipe"
  shows "sensitive_rows w' = sensitive_rows w"
  using assms(1)
proof cases
  case (hm_update n e k ud out)
  have "snd (update_route e k (update_body ud) w) = w
      \<or> (\<exists>who. snd (update_route e k (update_body ud) w) = snd (update_config e 0 k (by_dto (update_body ud)) who w))"
    by (auto simp: update_route_def with_operator_def split: option.splits)
  then obtain rs where "cw_rows (snd (update_route e k (update_body ud) w)) = cw_rows w @ rs" "\<forall>r \<in> set rs. cg_configKey r = k"
    using update_config_rows [of e 0 k "by_dto (update_body ud)" _ w] by fastforce
  moreover have "w' = w \<or> isConfigKeyAllowed k \<and> w' = snd (update_route e k (update_body ud) w)"
    using config_mutation_state [OF hm_update [unfolded hermes_updateConfig_def]] by simp
  ultimately show ?thesis
    using allowed_not_sensitive by (auto simp: sensitive_rows_def filter_empty_conv)
next
  case (hm_rollback n e k rd out)
  have "has_operator (rollback_body rd)" by (simp add: has_operator_def rollback_body_def)
  from refused_by_pipe [OF assms(2) this, of rollback_props "rollback e k (by_dto (rollback_body rd))" w]
  have "snd (rollback_route pipe e k (rollback_body rd) w) = w" by (auto simp: rollback_route_def rollback_props_def)
  with config_mutation_state [OF hm_rollback [unfolded hermes_rollbackConfig_def]] show ?thesis by auto
next
  case (hm_promote n e k pd out)
  have "has_operator (promote_body pd)" by (simp add: has_operator_def promote_body_def)
  from refused_by_pipe [OF assms(2) this, of promote_props "promote e k (by_dto (promote_body pd))" w]
  have "snd (promote_route pipe e k (promote_body pd) w) = w" by (auto simp: promote_route_def promote_props_def)
  with config_mutation_state [OF hm_promote [unfolded hermes_promoteConfig_def]] show ?thesis by auto
next
  case (hm_status n e k sd out)
  have "has_operator (status_body sd)" by (simp add: has_operator_def status_body_def)
  from refused_by_pipe [OF assms(2) this, of status_props "updateStatus e k (by_dto (status_body sd))" w]
  have "snd (status_route pipe e k (status_body sd) w) = w" by (auto simp: status_route_def status_props_def)
  with config_mutation_state [OF hm_status [unfolded hermes_activateConfig_def]] show ?thesis by auto
next
  case (hm_effective f e k env t out)
  obtain r w1 where x: "effective_route e k (js_or_null env) (js_or_null t) w = (r, w1)" by (rule prod.exhaust)
  have "cw_rows w1 = cw_rows w"
    using x read_through_frame by (auto simp: effective_route_def getEffective_def split: option.splits prod.splits)
  moreover have "w' = w \<or> w' = w1"
    using hm_effective(2) x by (cases r) (auto simp: hermes_getEffective_def hermes_proxyGet_def split: fate.splits if_splits)
  ultimately show ?thesis by (auto simp: sensitive_rows_def)
next
  case (hm_safe n on ttl ok now dto reason out)
  then show ?thesis by simp
qed

text \<open>
  C39: the keys of risk, execution and capital are out of reach of the gateway. Whatever sequence
  of requests the agent sends, whatever is lost on the way and whatever the audit service answers,
  the rows of these keys stay as they are.
\<close>

theorem gateway_spares_sensitive_keys:
  assumes "(hermes_step pipe)\<^sup>*\<^sup>* (g0, w0) (g, w)" and "whitelisting pipe"
  shows "sensitive_rows w = sensitive_rows w0"
proof -
  have "sensitive_rows (snd gs) = sensitive_rows w0" if "(hermes_step pipe)\<^sup>*\<^sup>* (g0, w0) gs" for gs
    using that
  proof (induction rule: rtranclp_induct)
    case (step y z)
    then show ?case using hermes_step_rows [OF _ assms(2)] by (cases y; cases z) auto
  qed simp
  from this [OF assms(1)] show ?thesis by simp
qed

section \<open>The rate limit\<close>

definition bucket_key :: "header \<Rightarrow> string" where
  "bucket_key h = (case js_or_null (first_header h) of Some k \<Rightarrow> k | None \<Rightarrow> ''anonymous'')"

text \<open>The mutations let through, with their times, of a sequence of requests.\<close>

fun let_through :: "rate_env \<Rightarrow> (int \<times> header) list \<Rightarrow> rate_buckets \<Rightarrow> (int \<times> string) list" where
  "let_through env [] b = []"
| "let_through env ((now, h) # reqs) b =
     (case rate_guard env now h b of
        (Inl _, b') \<Rightarrow> let_through env reqs b'
      | (Inr _, b') \<Rightarrow> (now, bucket_key h) # let_through env reqs b')"

definition counted_in :: "rate_env \<Rightarrow> string \<Rightarrow> int \<Rightarrow> (int \<times> string) list \<Rightarrow> int" where
  "counted_in env k T gs = int (length (filter (\<lambda>(t, k'). k' = k \<and> T \<le> t \<and> t < T + rate_windowMs env) gs))"

definition rate_ok :: "rate_env \<Rightarrow> rate_buckets \<Rightarrow> bool" where
  "rate_ok env b \<longleftrightarrow> (\<forall>k c s. b k = Some (c, s) \<longrightarrow> 1 \<le> c \<and> c \<le> maxPerWindow env)"

text \<open>How many more mutations of the key the window from \<open>T\<close> on can hold.\<close>

definition room :: "rate_env \<Rightarrow> string \<Rightarrow> int \<Rightarrow> rate_buckets \<Rightarrow> int" where
  "room env k T b = (case b k of None \<Rightarrow> maxPerWindow env
     | Some (c, s) \<Rightarrow> if T \<le> s then maxPerWindow env - c else 2 * maxPerWindow env - c)"

lemma max_pos: "1 \<le> maxPerWindow env"
  by (simp add: maxPerWindow_def bounded_setting_def split: option.splits)

lemma window_pos: "1 \<le> rate_windowMs env"
  by (simp add: rate_windowMs_def bounded_setting_def split: option.splits)

lemma counted_in_simps [simp]:
  "counted_in env k T [] = 0"
  "counted_in env k T ((t, k') # gs) =
     (if k' = k \<and> T \<le> t \<and> t < T + rate_windowMs env then 1 else 0) + counted_in env k T gs"
  by (auto simp: counted_in_def)

lemma guard_unfold:
  "rate_guard env now h b = (case rate_allow env now (bucket_key h) b of (True, b) \<Rightarrow> (Inr (), b)
     | (False, b) \<Rightarrow> (Inl (HttpException 429), b))"
  by (simp add: rate_guard_def bucket_key_def Let_def)

lemma guard_cases:
  assumes "re_enabled env \<noteq> Some ''false''"
  obtains (denied) err where "rate_guard env now h b = (Inl err, b)"
  | (opened) "rate_guard env now h b = (Inr (), b(bucket_key h \<mapsto> (1, now)))"
      "\<forall>c s. b (bucket_key h) = Some (c, s) \<longrightarrow> rate_windowMs env \<le> now - s"
  | (counted) c s where "rate_guard env now h b = (Inr (), b(bucket_key h \<mapsto> (c + 1, s)))"
      "b (bucket_key h) = Some (c, s)" "c < maxPerWindow env"
proof (cases "b (bucket_key h)")
  case None
  with assms opened show ?thesis by (simp add: guard_unfold rate_allow_def)
next
  case (Some cs)
  obtain c s where "cs = (c, s)" by (rule prod.exhaust)
  with Some assms opened denied counted show ?thesis
    by (cases "rate_windowMs env \<le> now - s"; cases "maxPerWindow env \<le> c") (simp_all add: guard_unfold rate_allow_def)
qed

lemma rate_ok_step:
  assumes "re_enabled env \<noteq> Some ''false''" "rate_ok env b" "rate_guard env now h b = (r, b')"
  shows "rate_ok env b'"
  using assms(1)
proof (cases rule: guard_cases [where now = now and h = h and b = b])
  case (counted c s)
  moreover have "1 \<le> c" using counted(2) assms(2) unfolding rate_ok_def by blast
  ultimately show ?thesis using assms(2,3) by (auto simp: rate_ok_def)
qed (use assms(2,3) max_pos [of env] in \<open>auto simp: rate_ok_def\<close>)

lemma none_after_window:
  assumes "\<forall>(t, h) \<in> set reqs. T + rate_windowMs env \<le> t"
  shows "counted_in env k T (let_through env reqs b) = 0"
  using assms by (induction env reqs b rule: let_through.induct) (auto split: prod.splits sum.splits)

lemma room_nonneg:
  assumes "rate_ok env b"
  shows "0 \<le> room env k T b"
  using assms max_pos [of env] by (fastforce simp: room_def rate_ok_def split: option.splits)

lemma window_room:
  assumes "re_enabled env \<noteq> Some ''false''" "rate_ok env b" "sorted (map fst reqs)" "\<forall>(t, h) \<in> set reqs. T \<le> t"
  shows "counted_in env k T (let_through env reqs b) \<le> room env k T b"
  using assms(2-)
proof (induction reqs arbitrary: b)
  case Nil
  then show ?case by (simp add: room_nonneg)
next
  case (Cons rq reqs)
  obtain t h where rq: "rq = (t, h)" by (rule prod.exhaust)
  obtain r b' where g: "rate_guard env t h b = (r, b')" by (rule prod.exhaust)
  note ok = rate_ok_step [OF assms(1) Cons.prems(1) g]
  have rest: "counted_in env k T (let_through env reqs b') \<le> room env k T b'"
    using Cons.IH [OF ok] Cons.prems rq by simp
  have t: "T \<le> t" using Cons.prems(3) rq by simp
  show ?case
  proof (cases "T + rate_windowMs env \<le> t")
    case True
    then have "\<forall>(t, h) \<in> set (rq # reqs). T + rate_windowMs env \<le> t"
      using Cons.prems(2) rq by fastforce
    from none_after_window [OF this] room_nonneg [OF Cons.prems(1)] show ?thesis by simp
  next
    case False
    from assms(1) show ?thesis
    proof (cases rule: guard_cases [where now = t and h = h and b = b])
      case (denied err)
      with rest g rq show ?thesis by auto
    next
      case opened
      have "c \<le> maxPerWindow env" if "b (bucket_key h) = Some (c, s)" for c s
        using Cons.prems(1) that by (auto simp: rate_ok_def)
      with opened rest g rq t False show ?thesis
        by (fastforce simp: room_def split: option.splits if_splits)
    next
      case (counted c s)
      with rest g rq t False show ?thesis by (auto simp: room_def split: if_splits)
    qed
  qed
qed

lemma room_bound:
  assumes "rate_ok env b"
  shows "room env k T b \<le> 2 * maxPerWindow env - 1"
  using assms max_pos [of env] by (fastforce simp: room_def rate_ok_def split: option.splits)

lemma window_bound:
  assumes "re_enabled env \<noteq> Some ''false''" "rate_ok env b" "sorted (map fst reqs)"
  shows "counted_in env k T (let_through env reqs b) \<le> 2 * maxPerWindow env - 1"
  using assms(2-)
proof (induction reqs arbitrary: b)
  case Nil
  then show ?case using max_pos [of env] by simp
next
  case (Cons rq reqs)
  obtain t h where rq: "rq = (t, h)" by (rule prod.exhaust)
  show ?case
  proof (cases "T \<le> t")
    case True
    then have "\<forall>(t, h) \<in> set (rq # reqs). T \<le> t" using Cons.prems(2) rq by fastforce
    from window_room [OF assms(1) Cons.prems this] room_bound [OF Cons.prems(1)] show ?thesis by (rule order.trans)
  next
    case False
    obtain r b' where g: "rate_guard env t h b = (r, b')" by (rule prod.exhaust)
    from Cons.IH [OF rate_ok_step [OF assms(1) Cons.prems(1) g]] Cons.prems(2) rq g False
    show ?thesis by (cases r) auto
  qed
qed

text \<open>
  C40: what the rate limit promises. Of the requests with one key, however they are spread and
  whatever the other keys send, an interval of one window length holds at most twice the configured
  number of mutations, less one, since the counting windows start with a request and not with the interval.
\<close>

theorem rate_limit_bound:
  assumes "re_enabled env \<noteq> Some ''false''" and "sorted (map fst reqs)"
  shows "counted_in env k T (let_through env reqs Map.empty) \<le> 2 * maxPerWindow env - 1"
  using window_bound [OF assms(1) _ assms(2)] by (simp add: rate_ok_def)

section \<open>Pages of the plan list\<close>

text \<open>A client that follows \<open>nextCursor\<close>; \<open>answer\<close> is what the orchestrator replies to each of the calls.\<close>

fun follow :: "nat \<Rightarrow> http_response \<Rightarrow> string option \<Rightarrow> string option \<Rightarrow> json list option" where
  "follow 0 answer limitStr cursor = None"
| "follow (Suc n) answer limitStr cursor =
     (case listPlans answer limitStr cursor of
        Inl _ \<Rightarrow> None
      | Inr (page, nxt, _) \<Rightarrow> (case nxt of None \<Rightarrow> Some page | Some c \<Rightarrow> map_option (append page) (follow n answer limitStr (Some c))))"

lemma limit_pos: "1 \<le> clampLimit raw"
  by (auto simp: clampLimit_def split: option.splits)

lemma find_index_nth:
  "i < length xs \<Longrightarrow> distinct (map f xs) \<Longrightarrow> find_index (\<lambda>x. f x = f (xs ! i)) xs = Some i"
proof (induction xs arbitrary: i)
  case (Cons x xs)
  then show ?case by (cases i) auto
qed simp

definition row_id :: "json \<Rightarrow> string" where
  "row_id it = planRowId (jget it ''id'')"

text \<open>The page that starts at \<open>s\<close>.\<close>

lemma page_from:
  assumes "distinct (map row_id items)" "[] \<notin> row_id ` set items" "s < length items"
    and "cursor = (if s = 0 then None else Some (row_id (items ! (s - 1))))" and "1 \<le> limit"
  shows "paginatePlanItems items limit cursor = Inr (take limit (drop s items),
     if s + limit < length items then Some (row_id (items ! (s + limit - 1))) else None)"
proof -
  have id: "row_id (items ! i) \<noteq> []" if "i < length items" for i using assms(2) that by (metis image_eqI nth_mem)
  have start: "(case js_or_null cursor of None \<Rightarrow> Some 0
      | Some c \<Rightarrow> map_option Suc (find_index (\<lambda>it. planRowId (jget it ''id'') = c) items)) = Some s"
    using find_index_nth [of "s - 1" items row_id] assms(1,3,4) id [of "s - 1"] by (auto simp: js_or_null_def row_id_def)
  have "last (take limit (drop s items)) = items ! (s + limit - 1)" if "s + limit < length items"
    using that assms(5) by (simp add: last_conv_nth)
  then show ?thesis
    using assms(3,5) start id [of "s + limit - 1"] by (auto simp: paginatePlanItems_def Let_def row_id_def)
qed

lemma follow_from:
  assumes "distinct (map row_id items)" "[] \<notin> row_id ` set items" "\<forall>it \<in> set items. \<exists>kvs. it = JObj kvs"
    and "st < 400" "jget b ''items'' = Some (JArr items)"
  shows "s < length items \<Longrightarrow> length items - s < n
    \<Longrightarrow> cursor = (if s = 0 then None else Some (row_id (items ! (s - 1))))
    \<Longrightarrow> follow n (Response st (Some b)) limitStr cursor = Some (drop s items)"
proof (induction n arbitrary: s cursor)
  case (Suc n)
  let ?l = "clampLimit limitStr"
  have "map (\<lambda>it. case it of JObj kvs \<Rightarrow> JObj kvs | _ \<Rightarrow> JObj []) items = items"
    using assms(3) by (fastforce intro: map_idI)
  then have page: "listPlans (Response st (Some b)) limitStr cursor
      = Inr (take ?l (drop s items), if s + ?l < length items then Some (row_id (items ! (s + ?l - 1))) else None, ?l)"
    using page_from [OF assms(1,2) Suc.prems(1,3) limit_pos] assms(4,5) by (simp add: listPlans_def Let_def)
  show ?case
  proof (cases "s + ?l < length items")
    case True
    have "follow n (Response st (Some b)) limitStr (Some (row_id (items ! (s + ?l - 1)))) = Some (drop (s + ?l) items)"
      using Suc.IH [of "s + ?l"] Suc.prems(2) True limit_pos [of limitStr] by simp
    moreover have "take ?l (drop s items) @ drop (s + ?l) items = drop s items"
      by (metis add.commute append_take_drop_id drop_drop)
    ultimately show ?thesis using page True by simp
  next
    case False
    with page show ?thesis by simp
  qed
qed simp

text \<open>
  The pages of the plan list are complete. If the plans the orchestrator reports have
  distinct ids and do not change between the calls, a client that follows \<open>nextCursor\<close> gets each of
  them exactly once and in order, whatever limit it asks for, and needs no more calls than there are plans.
\<close>

theorem pages_complete:
  assumes "st < 400" and "jget b ''items'' = Some (JArr items)" and "\<forall>it \<in> set items. \<exists>kvs. it = JObj kvs"
    and "distinct (map row_id items)" and "[] \<notin> row_id ` set items"
  shows "follow (Suc (length items)) (Response st (Some b)) limitStr None = Some items"
proof (cases "items = []")
  case True
  with assms(1,2) show ?thesis by (simp add: listPlans_def paginatePlanItems_def js_or_null_def)
next
  case False
  with follow_from [OF assms(4,5,3,1,2), of 0 "Suc (length items)" None limitStr] show ?thesis by (simp del: follow.simps)
qed

section \<open>A read that resumes trading\<close>

text \<open>An effective value read in the last minute is the answer for every scope.\<close>

lemma effective_shared:
  assumes "cw_client w" "answered e" "answered e2" "ce_now e2 < ce_now e + 60000"
    and "fresh e (cw_one w (Plain (B_effective k))) = None" "getEffective e 0 k environment tenantId w = (Some v, w1)"
  shows "getEffective e2 0 k env2 tenant2 w1 = (Some v, w1)"
proof -
  have key: "buildCacheKey (B_effective k) None None = Plain (B_effective k)" by (simp add: buildCacheKey_def)
  have "w1 = w\<lparr>cw_one := (cw_one w)(Plain (B_effective k) \<mapsto> (v, ce_now e + 60000))\<rparr>"
    using assms(1,2,5,6) by (auto simp: getEffective_def read_through_def key answered_def split: option.splits)
  then show ?thesis using assms(1,3,4) by (simp add: getEffective_def read_through_def key fresh_def answered_def)
qed

lemma running_by_body:
  assumes "parseEnvOverride he = None" and "stale he now cache" and "jget body ''configValue'' = Some (JStr raw)" and "raw \<noteq> []"
    and "JP raw = Some v" "jget v ''killSwitch'' = Some (JBool False)"
  shows "\<not> fst (isLiveHalted JP he True body now cache)" and "\<not> fst (live_isLiveHalted JP he True body now cache)"
proof -
  have b: "jis_object (Some body)" using assms(3) by (cases body) (auto simp: jis_object_def)
  moreover have "jis_object (Some v)" using assms(6) by (cases v) (auto simp: jis_object_def)
  ultimately have r: "refresh_halt JP True body now c = Some (False, now)" "refresh_live_halt JP True body now c = Some (False, now)" for c
    using assms(3-6) by (simp_all add: refresh_halt_def refresh_live_halt_def parseKillSwitch_def jnonempty_str_def)
  show "\<not> fst (isLiveHalted JP he True body now cache)" using assms(1,2) r by (auto simp: isLiveHalted_def stale_def Let_def split: option.splits)
  show "\<not> fst (live_isLiveHalted JP he True body now cache)" using assms(1,2) r by (auto simp: live_isLiveHalted_def stale_def Let_def split: option.splits)
qed


section \<open>Instances\<close>

definition ex_pipe :: "string list \<Rightarrow> string list \<Rightarrow> bool" where
  "ex_pipe ps fs = list_all (\<lambda>f. f \<in> set ps) fs"

lemma ex_pipe_whitelisting: "whitelisting ex_pipe"
  by (auto simp: whitelisting_def ex_pipe_def list_all_iff)

definition ex_status_dto :: config_status_dto where
  "ex_status_dto = \<lparr> hd_operatorId = ''op'', hd_approveReason = None, hd_idempotencyKey = None, hd_expectedEntityVersion = None,
     ht_active = False, ht_scopeType = None, ht_scopeValue = None \<rparr>"

definition ex_rollback_dto :: config_rollback_dto where
  "ex_rollback_dto = \<lparr> hd_operatorId = ''op'', hd_approveReason = None, hd_idempotencyKey = None, hd_expectedEntityVersion = None,
     hr_toVersion = 1, hr_scopeType = None, hr_scopeValue = None \<rparr>"

definition ex_promote_dto :: config_promote_dto where
  "ex_promote_dto = \<lparr> hd_operatorId = ''op'', hd_approveReason = None, hd_idempotencyKey = None, hd_expectedEntityVersion = None,
     hp_fromScopeType = S_global, hp_fromScopeValue = None, hp_toScopeType = S_tenant, hp_toScopeValue = Some ''t'' \<rparr>"

theorem write_routes_refuse_witness:
  "(\<exists>err. rollback_route ex_pipe (ex_cfg_env ''n'' 5) ''dex.limits'' (rollback_body ex_rollback_dto) (ex_config True) = (Inl err, ex_config True))
   \<and> (\<exists>err. status_route ex_pipe (ex_cfg_env ''n'' 5) ''dex.limits'' (status_body ex_status_dto) (ex_config True) = (Inl err, ex_config True))"
proof -
  have "has_operator (rollback_body ex_rollback_dto)" "has_operator (promote_body ex_promote_dto)" "has_operator (status_body ex_status_dto)"
    by (simp_all add: has_operator_def rollback_body_def promote_body_def status_body_def)
  from write_routes_refuse [OF ex_pipe_whitelisting this] show ?thesis by blast
qed

definition ex_update_dto :: config_update_dto where
  "ex_update_dto = \<lparr> hd_operatorId = ''op'', hd_approveReason = Some ''r'', hd_idempotencyKey = None, hd_expectedEntityVersion = None,
     hu_configValue = ''off'', hu_scopeType = None, hu_scopeValue = None, hu_active = None \<rparr>"

theorem http_update_misses_globals_witness:
  "update_route (ex_cfg_env ''n'' 5) ''dex.limits'' (update_body ex_update_dto)
     (snd (effective_route (ex_cfg_env ''m'' 3) ''dex.limits'' None None (ex_config True)))
   = (Inl (NotFoundException ''Configuration not found''), snd (effective_route (ex_cfg_env ''m'' 3) ''dex.limits'' None None (ex_config True)))"
proof -
  have "http_step ex_pipe (ex_config True) (snd (effective_route (ex_cfg_env ''m'' 3) ''dex.limits'' None None (ex_config True)))"
    by (rule hs_effective [OF surjective_pairing])
  from http_update_misses_globals [OF r_into_rtranclp [of "http_step ex_pipe", OF this] ex_pipe_whitelisting ex_config_start,
      of "update_body ex_update_dto" "ex_cfg_env ''n'' 5" "''dex.limits''"]
  show ?thesis by (simp add: update_body_def ex_update_dto_def js_or_null_def)
qed

definition ex_gateway :: gateway where
  "ex_gateway = \<lparr> gw_client = False, gw_memory = emptyState, gw_stored = None, gw_buckets = Map.empty, gw_audit = [] \<rparr>"

definition ex_hermes_env :: hermes_env where
  "ex_hermes_env = \<lparr> hn_fate = Answered, hn_audit = True, hn_correlationId = None \<rparr>"

definition ex_risk_config :: config_world where
  "ex_risk_config = (ex_config True)\<lparr>cw_rows := [(ex_cfg_row ''a'' ''off'' S_tenant (Some ''t'') 1)\<lparr>cg_configKey := ''risk.limits''\<rparr>,
     ex_cfg_row ''b'' ''on'' S_tenant (Some ''t'') 1]\<rparr>"

definition ex_tenant_update :: config_update_dto where
  "ex_tenant_update = ex_update_dto\<lparr>hu_scopeType := Some S_tenant, hu_scopeValue := Some ''t''\<rparr>"

theorem gateway_spares_sensitive_keys_witness:
  "\<exists>g w. (hermes_step ex_pipe)\<^sup>*\<^sup>* (ex_gateway, ex_risk_config) (g, w)
     \<and> map cg_configValue (cw_rows w) = [''off'', ''on'', ''off''] \<and> map cg_configValue (sensitive_rows w) = [''off'']"
proof -
  let ?r = "hermes_updateConfig ex_hermes_env (ex_cfg_env ''n'' 5) ''dex.limits'' ex_tenant_update (ex_gateway, ex_risk_config)"
  obtain out g w where r: "?r = (out, (g, w))" by (metis surj_pair)
  have run: "(hermes_step ex_pipe)\<^sup>*\<^sup>* (ex_gateway, ex_risk_config) (g, w)" by (rule r_into_rtranclp, rule hm_update [OF r])
  from gateway_spares_sensitive_keys [OF run ex_pipe_whitelisting] have "sensitive_rows w = sensitive_rows ex_risk_config" .
  moreover have "map cg_configValue (sensitive_rows ex_risk_config) = [''off'']" by code_simp
  moreover have "map cg_configValue (cw_rows (snd (snd ?r))) = [''off'', ''on'', ''off'']" by code_simp
  ultimately have "map cg_configValue (cw_rows w) = [''off'', ''on'', ''off''] \<and> map cg_configValue (sensitive_rows w) = [''off'']"
    using r by simp
  with run show ?thesis by (intro exI [of _ g] exI [of _ w] conjI) simp_all
qed

definition ex_rate_env :: rate_env where
  "ex_rate_env = \<lparr> re_windowMs = Some ''100'', re_max = Some ''2'', re_enabled = None \<rparr>"

definition ex_requests :: "(int \<times> header) list" where
  "ex_requests = [(0, One_header ''k''), (99, One_header ''k''), (99, One_header ''k''), (100, One_header ''k''),
     (101, One_header ''k''), (102, One_header ''k'')]"

lemma ex_rate_runs: "counted_in ex_rate_env ''k'' 99 (let_through ex_rate_env ex_requests Map.empty) = 3" "maxPerWindow ex_rate_env = 2"
  by code_simp+

theorem rate_limit_bound_witness:
  "counted_in ex_rate_env ''k'' 99 (let_through ex_rate_env ex_requests Map.empty) \<le> 2 * maxPerWindow ex_rate_env - 1
     \<and> counted_in ex_rate_env ''k'' 99 (let_through ex_rate_env ex_requests Map.empty) = 3"
  using rate_limit_bound [of ex_rate_env ex_requests "''k''" 99] ex_rate_runs(1)
  by (simp add: ex_rate_env_def ex_requests_def)

definition ex_plans :: "json list" where
  "ex_plans = [JObj [(''id'', JStr ''a'')], JObj [(''id'', JStr ''b'')], JObj [(''id'', JStr ''c'')]]"

theorem pages_complete_witness:
  "follow 4 (Response 200 (Some (JObj [(''items'', JArr ex_plans)]))) (Some ''2'') None = Some ex_plans"
proof -
  have "Suc (length ex_plans) = 4" by (simp add: ex_plans_def)
  moreover have "distinct (map row_id ex_plans)" "[] \<notin> row_id ` set ex_plans" "\<forall>it \<in> set ex_plans. \<exists>kvs. it = JObj kvs"
    by (simp_all add: ex_plans_def row_id_def planRowId_def)
  ultimately show ?thesis
    using pages_complete [of 200 "JObj [(''items'', JArr ex_plans)]" ex_plans "Some ''2''"] by (simp del: follow.simps)
qed

definition ex_gw_halt :: halt_env where
  "ex_gw_halt = \<lparr> he_override = None, he_cacheTtl = None, he_production = True \<rparr>"

definition ex_mixed_config :: config_world where
  "ex_mixed_config = (ex_config True)\<lparr>cw_rows := [ex_cfg_row ''a'' ''on'' S_global None 1, ex_cfg_row ''b'' ''off'' S_tenant (Some ''t'') 1]\<rparr>"


end
