(* ===== verification/Leg_Driver.thy ===== *)
theory Leg_Driver
  imports Execution
begin

text \<open>
  \<open>leg-auto-driver.worker.ts\<close>: one cycle of the worker that drives the legs of executing plans
  from \<open>created\<close> to \<open>filled\<close> through the operations of \<open>Legs\<close> and \<open>Fills\<close>, and
  \<open>partial-fill-playbook.service.ts\<close>, the parser of the strategy for partial fills.
\<close>

section \<open>Settings\<close>

definition leg_drive_enabled :: "string option \<Rightarrow> bool" where
  "leg_drive_enabled raw = (case raw of None \<Rightarrow> False
     | Some s \<Rightarrow> s = ''true'' \<or> s = ''1'' \<or> s = ''yes'' \<or> s = ''on'')"

definition leg_drive_intervalMs :: "string option \<Rightarrow> int" where
  "leg_drive_intervalMs raw = (case raw of None \<Rightarrow> 2000
     | Some s \<Rightarrow> (case js_parseInt10 s of None \<Rightarrow> 2000 | Some n \<Rightarrow> if n < 500 then 2000 else n))"

definition markSentTimeoutMs :: "string option \<Rightarrow> int" where
  "markSentTimeoutMs raw = (case raw of None \<Rightarrow> 90000
     | Some s \<Rightarrow> (case js_parseInt10 s of None \<Rightarrow> 90000 | Some n \<Rightarrow> if n \<le> 0 then 90000 else n))"

section \<open>One leg\<close>

text \<open>
  What happens around one leg in a cycle: the two readings of the kill switch, what venue and
  bridge answer, whether \<open>markSent\<close> outlives its time limit (\<open>Some b\<close>; \<open>b\<close> says whether its first
  transaction has been committed, the rest of it runs on with the other transactions), and what
  others commit at the five points where the worker waits.
\<close>

record leg_answers =
  an_halted :: bool
  an_markHalted :: bool
  an_venue :: "plan \<Rightarrow> leg \<Rightarrow> venue_outcome"
  an_bridge :: "bridge_leg_params \<Rightarrow> string \<Rightarrow> venue_outcome"
  an_timeout :: "bool option"
  an_env :: "nat \<Rightarrow> exec_db \<Rightarrow> exec_db"
  an_sentMessageId :: string
  an_fillMessageId :: string
  an_uuid :: string
  an_now :: int

datatype drive_outcome = D_skip_paper_venue | D_skip_halted | D_mark_sent_timeout | D_skip_transient
  | D_mark_sent_failed | D_skip_submitting | D_unexpected_state | D_fill_failed | D_filled

text \<open>\<open>cfgLegs[leg.legIndex]?.venueKey\<close>\<close>

definition js_member :: "json option \<Rightarrow> int \<Rightarrow> json option" where
  "js_member v i = (case v of Some (JArr xs) \<Rightarrow> jidx xs i | Some (JObj kvs) \<Rightarrow> map_of kvs (string_of_int i) | _ \<Rightarrow> None)"

definition driver_venue :: "plan \<Rightarrow> leg \<Rightarrow> string option" where
  "driver_venue p l =
     (case pl_playbookConfig p of
        None \<Rightarrow> None
      | Some config \<Rightarrow> (case obj_field (js_member (jget config ''legs'') (lg_legIndex l)) ''venueKey'' of
          Some (JStr s) \<Rightarrow> Some s | _ \<Rightarrow> None))"

definition is_503 :: "exn \<Rightarrow> bool" where
  "is_503 e = (case e of ServiceUnavailableException _ \<Rightarrow> True | HttpException n \<Rightarrow> n = 503 | _ \<Rightarrow> False)"

definition driver_fill :: "string \<Rightarrow> string \<Rightarrow> apply_fill_dto" where
  "driver_fill legId uuid =
     \<lparr> af_idempotencyKey = Some (''leg-auto-driver:'' @ legId @ '':'' @ uuid), af_clientKnownVersion = None,
       af_mode = Some full_fill, af_cumulativeFilled = None \<rparr>"

definition ack_and_fill :: "leg_answers \<Rightarrow> string \<Rightarrow> string \<Rightarrow> exec_db \<Rightarrow> drive_outcome \<times> exec_db" where
  "ack_and_fill a planId legId d =
     (case markAcknowledged planId legId (an_now a) d of
        (Inl _, d1) \<Rightarrow> (D_fill_failed, d1)
      | (Inr _, d1) \<Rightarrow>
          (case applyFill planId legId (driver_fill legId (an_uuid a)) (an_fillMessageId a) (an_now a) (an_env a 3 d1) of
             (Inl _, d2) \<Rightarrow> (D_fill_failed, d2)
           | (Inr _, d2) \<Rightarrow> (D_filled, d2)))"

definition after_mark_sent :: "leg_answers \<Rightarrow> string \<Rightarrow> string \<Rightarrow> exec_db \<Rightarrow> drive_outcome \<times> exec_db" where
  "after_mark_sent a planId legId d =
     (case get_leg legId d of
        None \<Rightarrow> (D_skip_submitting, d)
      | Some refreshed \<Rightarrow>
          (if lg_state refreshed = L_submitting then (D_skip_submitting, d)
           else if lg_state refreshed \<noteq> L_sent then (D_unexpected_state, d)
           else ack_and_fill a planId legId d))"

definition drive_leg :: "leg_answers \<Rightarrow> string \<Rightarrow> plan \<Rightarrow> leg \<Rightarrow> exec_db \<Rightarrow> drive_outcome \<times> exec_db" where
  "drive_leg a planId p l d =
     (if \<not> isLiveVenueKey (driver_venue p l) then (D_skip_paper_venue, d)
      else if an_halted a then (D_skip_halted, d)
      else
        (let d0 = an_env a 0 d
         in case an_timeout a of
              Some begun \<Rightarrow>
                (D_mark_sent_timeout, an_env a 1
                   (if begun then snd (beginMarkSent planId (lg_id l) (an_markHalted a) (an_now a) d0) else d0))
            | None \<Rightarrow>
                (case markSent planId (lg_id l) (an_markHalted a) (an_venue a) (an_bridge a) (an_sentMessageId a)
                    (an_now a) (an_env a 1) (an_now a) d0 of
                   (Inl e, d1) \<Rightarrow> (if is_503 e then D_skip_transient else D_mark_sent_failed, d1)
                 | (Inr _, d1) \<Rightarrow> after_mark_sent a planId (lg_id l) (an_env a 2 d1))))"

section \<open>The cycle\<close>

text \<open>The loop over the legs of one plan; \<open>True\<close> unless the kill switch ended it with \<open>return\<close>.\<close>

fun drive_legs :: "(string \<Rightarrow> leg_answers) \<Rightarrow> string \<Rightarrow> plan \<Rightarrow> leg list \<Rightarrow> exec_db \<Rightarrow> bool \<times> exec_db" where
  "drive_legs A planId p [] d = (True, d)"
| "drive_legs A planId p (l # ls) d =
     (case drive_leg (A (lg_id l)) planId p l d of
        (outcome, d1) \<Rightarrow> if outcome = D_skip_halted then (False, d1) else drive_legs A planId p ls d1)"

record drive_world =
  dw_leg :: "string \<Rightarrow> leg_answers"
  dw_before :: "string \<Rightarrow> exec_db \<Rightarrow> exec_db"
  dw_after :: "string \<Rightarrow> exec_db \<Rightarrow> exec_db"
  dw_messageId :: "string \<Rightarrow> string"
  dw_now :: int

definition drivePlanLegs :: "drive_world \<Rightarrow> string \<Rightarrow> leg list \<Rightarrow> exec_db \<Rightarrow> exec_db" where
  "drivePlanLegs W planId ls d =
     (let d0 = dw_before W planId d
      in case get_plan planId d0 of
           None \<Rightarrow> d0
         | Some p \<Rightarrow>
             (if pl_state p \<noteq> P_executing then d0
              else case drive_legs (dw_leg W) planId p (sort_key lg_legIndex ls) d0 of
                (False, d1) \<Rightarrow> d1
              | (True, d1) \<Rightarrow>
                  snd (tryMarkPlanCompletedWhenAllLegsFilled planId (dw_messageId W planId) (dw_now W)
                    (dw_after W planId d1))))"

fun bucket_push :: "leg \<Rightarrow> (string \<times> leg list) list \<Rightarrow> (string \<times> leg list) list" where
  "bucket_push l [] = [(lg_planId l, [l])]"
| "bucket_push l ((i, b) # m) = (if i = lg_planId l then (i, b @ [l]) # m else (i, b) # bucket_push l m)"

definition byPlan :: "leg list \<Rightarrow> (string \<times> leg list) list" where
  "byPlan ls = fold bucket_push ls []"

definition created_batch :: "exec_db \<Rightarrow> leg list" where
  "created_batch d = take 20 (sort_key lg_createdAt (filter (\<lambda>l. lg_state l = L_created) (ed_legs d)))"

definition drivePendingLegs :: "drive_world \<Rightarrow> exec_db \<Rightarrow> exec_db" where
  "drivePendingLegs W d = fold (\<lambda>(i, ls). drivePlanLegs W i ls) (byPlan (created_batch d)) d"

definition leg_drive_cycle :: "bool \<Rightarrow> string option \<Rightarrow> bool \<Rightarrow> drive_world \<Rightarrow> exec_db \<Rightarrow> exec_db" where
  "leg_drive_cycle busy enabledEnv halted W d =
     (if busy \<or> \<not> leg_drive_enabled enabledEnv then d
      else case assertLiveNotHalted halted of Inl _ \<Rightarrow> d | Inr _ \<Rightarrow> drivePendingLegs W d)"

section \<open>The partial-fill playbook\<close>

datatype fill_strategy = strategy_continue | strategy_hedge | strategy_unwind

record partial_fill_config =
  pf_strategy :: "fill_strategy option"
  pf_driftBps :: "rat option"
  pf_maxPartialLegCommits :: "int option"

definition parse_strategy :: "json option \<Rightarrow> exn + fill_strategy option" where
  "parse_strategy v =
     (case v of
        None \<Rightarrow> Inr None
      | Some (JStr s) \<Rightarrow>
          (if s = ''continue'' then Inr (Some strategy_continue) else if s = ''hedge'' then Inr (Some strategy_hedge)
           else if s = ''unwind'' then Inr (Some strategy_unwind)
           else Inl (BadRequestException ''Invalid partialFillStrategy''))
      | Some _ \<Rightarrow> Inl (BadRequestException ''Invalid partialFillStrategy''))"

definition parse_drift :: "json option \<Rightarrow> exn + rat option" where
  "parse_drift v = (case v of None \<Rightarrow> Inr None | Some (JNum q) \<Rightarrow> Inr (Some q)
     | Some _ \<Rightarrow> Inl (BadRequestException ''driftBpsThreshold must be a finite number''))"

definition parse_commits :: "json option \<Rightarrow> exn + int option" where
  "parse_commits v =
     (case v of
        None \<Rightarrow> Inr None
      | Some c \<Rightarrow>
          (case json_int (Some c) of
             Some n \<Rightarrow> if n < 1 then Inl (BadRequestException ''maxPartialLegCommits must be a positive integer'') else Inr (Some n)
           | None \<Rightarrow> Inl (BadRequestException ''maxPartialLegCommits must be a positive integer'')))"

text \<open>An array is rejected like every other value that is not an object.\<close>

definition parse_playbook :: "json option \<Rightarrow> exn + partial_fill_config" where
  "parse_playbook config =
     (case config of
        None \<Rightarrow> Inr \<lparr> pf_strategy = None, pf_driftBps = None, pf_maxPartialLegCommits = None \<rparr>
      | Some JNull \<Rightarrow> Inr \<lparr> pf_strategy = None, pf_driftBps = None, pf_maxPartialLegCommits = None \<rparr>
      | Some (JObj kvs) \<Rightarrow>
          (case parse_strategy (map_of kvs ''partialFillStrategy'') of
             Inl e \<Rightarrow> Inl e
           | Inr s \<Rightarrow> (case parse_drift (map_of kvs ''driftBpsThreshold'') of
               Inl e \<Rightarrow> Inl e
             | Inr b \<Rightarrow> (case parse_commits (map_of kvs ''maxPartialLegCommits'') of
                 Inl e \<Rightarrow> Inl e
               | Inr n \<Rightarrow> Inr \<lparr> pf_strategy = s, pf_driftBps = b, pf_maxPartialLegCommits = n \<rparr>)))
      | Some _ \<Rightarrow> Inl (BadRequestException ''playbook_config must be a JSON object''))"

end
