(* ===== verification/Leg_Driver_Props.thy ===== *)
theory Leg_Driver_Props
  imports Leg_Driver Exec_Run
begin

text \<open>
  Properties of the leg driver: what a cycle may do to the database, what it achieves when every
  venue answers, and what the failure of one leg, a leg it skips and a full batch do.
\<close>

section \<open>One leg is filled\<close>

text \<open>The worker meets no halt and no time limit, nobody else commits, and the venue accepts.\<close>

definition accepting :: "leg_answers \<Rightarrow> bool" where
  "accepting a \<longleftrightarrow> \<not> an_halted a \<and> \<not> an_markHalted a \<and> an_timeout a = None \<and> an_env a = (\<lambda>n. id)
     \<and> (\<forall>p l. \<exists>x m. an_venue a p l = VSent x m)"

definition moved :: "exec_db \<Rightarrow> leg \<Rightarrow> exec_db \<Rightarrow> bool" where
  "moved d l d' \<longleftrightarrow> ed_plans d' = ed_plans d \<and> ed_legs d' = save_row lg_id l (ed_legs d)"

lemma moved_get:
  assumes "moved d l d'"
  shows "get_plan i d' = get_plan i d" "get_leg i d' = (if i = lg_id l then Some l else get_leg i d)"
  using assms by (simp_all add: moved_def db_row_simps)

lemma moved_trans: "moved d l d1 \<Longrightarrow> moved d1 l' d2 \<Longrightarrow> lg_id l' = lg_id l \<Longrightarrow> moved d l' d2"
  by (simp add: moved_def)

lemma beginMarkSent_moves:
  assumes "get_plan pid d = Some p" "pl_state p = P_executing" "get_leg lid d = Some l" "lg_planId l = pid"
    "lg_state l = L_created" "\<not> halted"
  shows "\<exists>l' d'. beginMarkSent pid lid halted now d = (Inr (p, l'), d') \<and> moved d l' d' \<and> ed_fills d' = ed_fills d
    \<and> l' = l\<lparr>lg_state := L_submitting, lg_entityVersion := lg_entityVersion l + 1, lg_updatedAt := now\<rparr>"
  using assms
  by (simp add: beginMarkSent_def transaction_def find_leg_of_plan_def Let_def assertLiveNotHalted_def moved_def)

lemma completeMarkSent_moves:
  assumes "get_leg lid d = Some l" "lg_planId l = pid" "lg_state l = L_submitting"
  shows "\<exists>l' d'. completeMarkSent pid lid corr x meta m now d = (Inr l', d') \<and> moved d l' d' \<and> ed_fills d' = ed_fills d
    \<and> l' = l\<lparr>lg_state := L_sent, lg_entityVersion := lg_entityVersion l + 1, lg_venueRef := Some x, lg_updatedAt := now\<rparr>"
proof -
  have w: "ed_plans (writeOutboxRow t et p cc mm now' y) = ed_plans y \<and> ed_legs (writeOutboxRow t et p cc mm now' y) = ed_legs y
      \<and> ed_fills (writeOutboxRow t et p cc mm now' y) = ed_fills y" for t et p cc mm now' y
    by (simp add: writeOutboxRow_def)
  have f: "find_leg_of_plan pid lid d = Some l" using assms by (simp add: find_leg_of_plan_Some)
  show ?thesis
    using assms(3)
    by (cases meta) (simp_all add: completeMarkSent_def complete_tx_def transaction_def f Let_def moved_def
      persistWithOutcome_def emitConfirmed_def emitFailed_def w split: option.splits)
qed

lemma markAcknowledged_moves:
  assumes "get_plan pid d = Some p" "get_leg lid d = Some l" "lg_planId l = pid" "lg_state l = L_sent"
  shows "\<exists>l' d'. markAcknowledged pid lid now d = (Inr l', d') \<and> moved d l' d' \<and> ed_fills d' = ed_fills d
    \<and> l' = l\<lparr>lg_state := L_acknowledged, lg_entityVersion := lg_entityVersion l + 1, lg_updatedAt := now\<rparr>"
  using assms by (simp add: markAcknowledged_def transaction_def find_leg_of_plan_def Let_def moved_def)

lemma driver_fill_moves:
  assumes "get_plan pid d = Some p" "get_leg lid d = Some l" "lg_planId l = pid" "lg_state l = L_acknowledged"
    and "\<forall>f \<in> set (ed_fills d). fi_legId f = lid \<longrightarrow> Some (fi_idempotencyKey f) \<noteq> af_idempotencyKey (driver_fill lid uuid)"
  shows "\<exists>l' c d'. applyFill pid lid (driver_fill lid uuid) m now d = (Inr (l', c), d') \<and> moved d l' d'
    \<and> l' = l\<lparr>lg_filledQuantity := lg_targetQuantity l, lg_state := L_filled, lg_entityVersion := lg_entityVersion l + 1,
        lg_updatedAt := now\<rparr> \<and> ed_fills d' = ed_fills d @ fill_key_rows (driver_fill lid uuid) l'"
proof -
  have k: "given_key (driver_fill lid uuid) = af_idempotencyKey (driver_fill lid uuid)"
    by (simp add: driver_fill_def given_key_def)
  have n: "next_fill (driver_fill lid uuid) l = Inr (lg_targetQuantity l, L_filled)"
    by (simp add: next_fill_def driver_fill_def)
  let ?l = "l\<lparr>lg_filledQuantity := lg_targetQuantity l, lg_state := L_filled, lg_entityVersion := lg_entityVersion l + 1,
        lg_updatedAt := now\<rparr>"
  obtain l' c d' where c: "commit_fill pid lid (driver_fill lid uuid) m now p ?l d = ((l', c), d')" by (metis surj_pair)
  have f: "find_leg_of_plan pid lid d = Some l" using assms by (simp add: find_leg_of_plan_Some)
  have s: "\<not> (\<exists>f \<in> set (ed_fills d). fi_legId f = lid \<and> Some (fi_idempotencyKey f) = given_key (driver_fill lid uuid))"
    using assms(5) unfolding k by blast
  have "af_clientKnownVersion (driver_fill lid uuid) = None" by (simp add: driver_fill_def)
  then have "fill_tx pid lid (driver_fill lid uuid) m now d = (Inr (l', c), d')"
    unfolding fill_tx_def using assms(1,4) f n c by (simp only: option.simps sum.simps if_not_P [OF s]) simp
  then have "applyFill pid lid (driver_fill lid uuid) m now d = (Inr (l', c), d')"
    by (simp add: applyFill_def transaction_def)
  with commit_fill_shape [OF c] show ?thesis by (auto simp: moved_def)
qed

text \<open>The key of a fill is a new UUID.\<close>

definition fresh_key :: "leg_answers \<Rightarrow> string \<Rightarrow> exec_db \<Rightarrow> bool" where
  "fresh_key a legId d \<longleftrightarrow>
     (\<forall>f \<in> set (ed_fills d). fi_legId f = legId \<longrightarrow>
        Some (fi_idempotencyKey f) \<noteq> af_idempotencyKey (driver_fill legId (an_uuid a)))"

definition drivable :: "string \<Rightarrow> plan \<Rightarrow> leg \<Rightarrow> exec_db \<Rightarrow> bool" where
  "drivable pid p l d \<longleftrightarrow> get_plan pid d = Some p \<and> pl_state p = P_executing \<and> get_leg (lg_id l) d = Some l
     \<and> lg_planId l = pid \<and> lg_state l = L_created \<and> lg_legType l = dex \<and> isLiveVenueKey (driver_venue p l)"

lemma markSent_accepted:
  assumes "drivable pid p l d" "accepting a"
  shows "\<exists>l' d'. markSent pid (lg_id l) (an_markHalted a) (an_venue a) (an_bridge a) m now id now2 d = (Inr l', d')
    \<and> moved d l' d' \<and> ed_fills d' = ed_fills d \<and> lg_state l' = L_sent \<and> lg_id l' = lg_id l \<and> lg_planId l' = pid"
proof -
  have h: "get_plan pid d = Some p" "pl_state p = P_executing" "get_leg (lg_id l) d = Some l" "lg_planId l = pid"
    "lg_state l = L_created" "\<not> an_markHalted a" "lg_legType l = dex" using assms by (simp_all add: drivable_def accepting_def)
  let ?l1 = "l\<lparr>lg_state := L_submitting, lg_entityVersion := lg_entityVersion l + 1, lg_updatedAt := now\<rparr>"
  obtain d1 where b: "beginMarkSent pid (lg_id l) (an_markHalted a) now d = (Inr (p, ?l1), d1)" "moved d ?l1 d1"
    "ed_fills d1 = ed_fills d" using beginMarkSent_moves [OF h(1-6)] by blast
  obtain x mt where v: "an_venue a p ?l1 = VSent x mt" using assms(2) unfolding accepting_def by blast
  have g: "get_leg (lg_id l) d1 = Some ?l1" using moved_get [OF b(2)] by simp
  from completeMarkSent_moves [OF g, of pid "pl_correlationId p" x mt m now2] h(4) obtain l2 d2 where
    c: "completeMarkSent pid (lg_id l) (pl_correlationId p) x mt m now2 d1 = (Inr l2, d2)" "moved d1 l2 d2"
      "ed_fills d2 = ed_fills d1" "lg_state l2 = L_sent" "lg_id l2 = lg_id l" "lg_planId l2 = pid" by auto
  have "markSent pid (lg_id l) (an_markHalted a) (an_venue a) (an_bridge a) m now id now2 d = (Inr l2, d2)"
    using b(1) h(7) v c(1) by (simp add: markSent_def)
  moreover have "moved d l2 d2" using moved_trans [OF b(2) c(2)] c(5) by simp
  ultimately show ?thesis using b(3) c(3-) by auto
qed

lemma drive_leg_fills:
  assumes "drivable pid p l d" "accepting a" "fresh_key a (lg_id l) d"
  shows "\<exists>l' d'. drive_leg a pid p l d = (D_filled, d') \<and> moved d l' d' \<and> lg_id l' = lg_id l \<and> lg_planId l' = pid \<and> lg_state l' = L_filled
    \<and> (\<exists>r. ed_fills d' = ed_fills d @ r \<and> (\<forall>f \<in> set r. fi_legId f = lg_id l))"
proof -
  have a: "\<not> an_halted a" "an_timeout a = None" "an_env a = (\<lambda>n. id)" using assms(2) by (simp_all add: accepting_def)
  have h: "get_plan pid d = Some p" "isLiveVenueKey (driver_venue p l)" using assms(1) by (simp_all add: drivable_def)
  from markSent_accepted [OF assms(1,2)] obtain l1 d1 where
    s: "markSent pid (lg_id l) (an_markHalted a) (an_venue a) (an_bridge a) (an_sentMessageId a) (an_now a) id (an_now a) d
          = (Inr l1, d1)" "moved d l1 d1" "ed_fills d1 = ed_fills d" "lg_state l1 = L_sent" "lg_id l1 = lg_id l"
      "lg_planId l1 = pid" by blast
  note g1 = moved_get [OF s(2)]
  from markAcknowledged_moves [of pid d1 p "lg_id l" l1 "an_now a"] g1 h(1) s(4-6) obtain l2 d2 where
    k: "markAcknowledged pid (lg_id l) (an_now a) d1 = (Inr l2, d2)" "moved d1 l2 d2" "ed_fills d2 = ed_fills d1"
      "lg_state l2 = L_acknowledged" "lg_id l2 = lg_id l" "lg_planId l2 = pid" by auto
  note g2 = moved_get [OF k(2)]
  have fk: "\<forall>f \<in> set (ed_fills d2). fi_legId f = lg_id l \<longrightarrow> Some (fi_idempotencyKey f) \<noteq> af_idempotencyKey (driver_fill (lg_id l) (an_uuid a))"
    using assms(3) s(3) k(3) by (simp add: fresh_key_def)
  from driver_fill_moves [of pid d2 p "lg_id l" l2, OF _ _ _ k(4) fk, of "an_fillMessageId a" "an_now a"] g1 g2 h(1) k(5,6)
  obtain l3 c d3 where
    f: "applyFill pid (lg_id l) (driver_fill (lg_id l) (an_uuid a)) (an_fillMessageId a) (an_now a) d2 = (Inr (l3, c), d3)"
      "moved d2 l3 d3" "lg_id l3 = lg_id l" "lg_planId l3 = pid" "lg_state l3 = L_filled"
      "ed_fills d3 = ed_fills d2 @ fill_key_rows (driver_fill (lg_id l) (an_uuid a)) l3" by auto
  have d: "drive_leg a pid p l d = (D_filled, d3)"
    using a h(2) s(1,4,5) g1 k(1) f(1) by (simp add: drive_leg_def after_mark_sent_def ack_and_fill_def)
  have mv: "moved d l3 d3"
    by (rule moved_trans [OF moved_trans [OF s(2) k(2)] f(2)]) (simp_all add: s k f)
  have r: "\<forall>r \<in> set (fill_key_rows (driver_fill (lg_id l) (an_uuid a)) l3). fi_legId r = lg_id l"
    using f(3) by (auto simp: fill_key_rows_def split: option.splits)
  show ?thesis
    by (intro exI conjI) (rule d, rule mv, rule f(3), rule f(4), rule f(5), use f(6) k(3) s(3) in simp, rule r)
qed

text \<open>A venue that refuses the order leaves a failed leg behind, and the loop goes on.\<close>

definition refusing :: "leg_answers \<Rightarrow> bool" where
  "refusing a \<longleftrightarrow> \<not> an_halted a \<and> \<not> an_markHalted a \<and> an_timeout a = None \<and> an_env a = (\<lambda>n. id)
     \<and> (\<forall>p l. \<exists>msg. an_venue a p l = VClientError msg)"

lemma failSubmittingLeg_moves:
  assumes "get_leg lid d = Some l" "lg_planId l = pid" "lg_state l = L_submitting"
  shows "\<exists>l'. moved d l' (failSubmittingLeg pid lid c msg now d) \<and> ed_fills (failSubmittingLeg pid lid c msg now d) = ed_fills d
    \<and> lg_id l' = lg_id l \<and> lg_planId l' = pid \<and> lg_state l' = L_failed"
  using assms by (auto simp: failSubmittingLeg_def find_leg_of_plan_def Let_def moved_def)

lemma drive_leg_refused:
  assumes "drivable pid p l d" "refusing a"
  shows "\<exists>l' d'. drive_leg a pid p l d = (D_mark_sent_failed, d') \<and> moved d l' d' \<and> ed_fills d' = ed_fills d
    \<and> lg_id l' = lg_id l \<and> lg_planId l' = pid \<and> lg_state l' = L_failed"
proof -
  have h: "get_plan pid d = Some p" "pl_state p = P_executing" "get_leg (lg_id l) d = Some l" "lg_planId l = pid"
    "lg_state l = L_created" "\<not> an_markHalted a" "lg_legType l = dex" "isLiveVenueKey (driver_venue p l)"
    using assms by (simp_all add: drivable_def refusing_def)
  let ?l1 = "l\<lparr>lg_state := L_submitting, lg_entityVersion := lg_entityVersion l + 1, lg_updatedAt := an_now a\<rparr>"
  obtain d1 where b: "beginMarkSent pid (lg_id l) (an_markHalted a) (an_now a) d = (Inr (p, ?l1), d1)" "moved d ?l1 d1"
    "ed_fills d1 = ed_fills d" using beginMarkSent_moves [OF h(1-6)] by blast
  obtain msg where v: "an_venue a p ?l1 = VClientError msg" using assms(2) unfolding refusing_def by blast
  define d2 where "d2 = failSubmittingLeg pid (lg_id l) (pl_correlationId p) msg (an_now a) d1"
  have g: "get_leg (lg_id l) d1 = Some ?l1" using moved_get [OF b(2)] by simp
  from failSubmittingLeg_moves [OF g, of pid "pl_correlationId p" msg "an_now a"] h(4) obtain l2 where
    f: "moved d1 l2 d2" "ed_fills d2 = ed_fills d1" "lg_id l2 = lg_id l" "lg_planId l2 = pid" "lg_state l2 = L_failed"
    by (auto simp: d2_def)
  have "drive_leg a pid p l d = (D_mark_sent_failed, d2)"
    using assms(2) b(1) h(7,8) v by (simp add: refusing_def drive_leg_def markSent_def d2_def is_503_def)
  moreover have "moved d l2 d2" using moved_trans [OF b(2) f(1)] f(3) by simp
  ultimately show ?thesis using f b(3) by auto
qed

section \<open>The legs of one plan\<close>

text \<open>The legs with an id in \<open>S\<close> have become filled legs of the plan, nothing else has changed.\<close>

definition filled_in :: "string \<Rightarrow> string set \<Rightarrow> exec_db \<Rightarrow> exec_db \<Rightarrow> bool" where
  "filled_in pid S d d' \<longleftrightarrow> ed_plans d' = ed_plans d
     \<and> (\<exists>F. (\<forall>i. lg_id (F i) = i \<and> lg_planId (F i) = pid \<and> lg_state (F i) = L_filled)
          \<and> ed_legs d' = map (\<lambda>l. if lg_id l \<in> S then F (lg_id l) else l) (ed_legs d))"

lemma filled_in_none: "filled_in pid {} d d"
  using exI [of "\<lambda>F. \<forall>i. lg_id (F i) = i \<and> lg_planId (F i) = pid \<and> lg_state (F i) = L_filled"
      "\<lambda>i. undefined\<lparr>lg_id := i, lg_planId := pid, lg_state := L_filled\<rparr>"]
  by (simp add: filled_in_def)

lemma filled_in_cons:
  assumes "moved d l d1" "get_leg (lg_id l) d = Some l0" "lg_planId l = pid" "lg_state l = L_filled"
    and "filled_in pid S d1 d'" "lg_id l \<notin> S"
  shows "filled_in pid (insert (lg_id l) S) d d'"
proof -
  from assms(5) obtain F where F: "\<forall>i. lg_id (F i) = i \<and> lg_planId (F i) = pid \<and> lg_state (F i) = L_filled"
    "ed_legs d' = map (\<lambda>y. if lg_id y \<in> S then F (lg_id y) else y) (ed_legs d1)" "ed_plans d' = ed_plans d1"
    by (auto simp: filled_in_def)
  have m: "ed_legs d1 = map (\<lambda>y. if lg_id y = lg_id l then l else y) (ed_legs d)" "ed_plans d1 = ed_plans d"
    using assms(1,2) save_row_existing [of lg_id l "ed_legs d" l0] by (simp_all add: moved_def get_leg_def)
  let ?F = "F(lg_id l := l)"
  have a: "ed_legs d' = map (\<lambda>y. if lg_id y \<in> insert (lg_id l) S then ?F (lg_id y) else y) (ed_legs d)"
    unfolding F(2) m(1) using assms(6) by auto
  have b: "\<forall>i. lg_id (?F i) = i \<and> lg_planId (?F i) = pid \<and> lg_state (?F i) = L_filled"
    using F(1) assms(3,4) by simp
  show ?thesis
    unfolding filled_in_def by (intro conjI exI [of _ ?F], use F(3) m(2) in simp, rule b, rule a)
qed

lemma drive_legs_fill:
  assumes "\<forall>l \<in> set ls. drivable pid p l d \<and> accepting (A (lg_id l)) \<and> fresh_key (A (lg_id l)) (lg_id l) d"
    and "distinct (map lg_id ls)"
  shows "\<exists>d'. drive_legs A pid p ls d = (True, d') \<and> filled_in pid (lg_id ` set ls) d d'"
  using assms
proof (induction ls arbitrary: d)
  case Nil
  then show ?case by (simp add: filled_in_none)
next
  case (Cons l ls)
  then have l: "drivable pid p l d" "accepting (A (lg_id l))" "fresh_key (A (lg_id l)) (lg_id l) d" by simp_all
  from drive_leg_fills [OF l] obtain l' d1 r where s: "drive_leg (A (lg_id l)) pid p l d = (D_filled, d1)" "moved d l' d1"
    "lg_id l' = lg_id l" "lg_planId l' = pid" "lg_state l' = L_filled" "ed_fills d1 = ed_fills d @ r"
    "\<forall>f \<in> set r. fi_legId f = lg_id l" by blast
  have "drivable pid p y d1 \<and> accepting (A (lg_id y)) \<and> fresh_key (A (lg_id y)) (lg_id y) d1" if y: "y \<in> set ls" for y
  proof -
    have n: "lg_id y \<noteq> lg_id l" using Cons.prems(2) imageI [OF y, of lg_id] by auto
    have "drivable pid p y d" "accepting (A (lg_id y))" "fresh_key (A (lg_id y)) (lg_id y) d" using Cons.prems(1) y by simp_all
    with n s(3,6,7) show ?thesis by (auto simp: drivable_def moved_get [OF s(2)] fresh_key_def)
  qed
  with Cons.IH [of d1] Cons.prems(2) obtain d' where d': "drive_legs A pid p ls d1 = (True, d')"
    "filled_in pid (lg_id ` set ls) d1 d'" by auto
  have "get_leg (lg_id l') d = Some l" using l(1) s(3) by (simp add: drivable_def)
  from filled_in_cons [OF s(2) this s(4,5) d'(2)] Cons.prems(2) s(1,3) d'(1) show ?case by simp
qed

lemma tryMark_completes:
  assumes "get_plan pid d = Some p" "pl_state p = P_executing" "legs_of_plan pid d \<noteq> []"
    "\<forall>l \<in> set (legs_of_plan pid d). lg_state l = L_filled"
  shows "\<exists>q. get_plan pid (snd (tryMarkPlanCompletedWhenAllLegsFilled pid m now d)) = Some q \<and> pl_state q = P_completed"
proof -
  have "pl_id p = pid" using get_plan_key [OF assms(1)] .
  with assms show ?thesis
    by (auto simp: tryMarkPlanCompletedWhenAllLegsFilled_def Let_def row_simps)
qed

lemma tryMark_unfilled:
  "l \<in> set (legs_of_plan pid d) \<Longrightarrow> lg_state l \<noteq> L_filled \<Longrightarrow>
     snd (tryMarkPlanCompletedWhenAllLegsFilled pid m now d) = d"
  by (auto simp: tryMarkPlanCompletedWhenAllLegsFilled_def Let_def)

lemma drivePlanLegs_completes:
  assumes "get_plan pid d = Some p" "pl_state p = P_executing" "ls \<noteq> []"
    and "\<forall>l \<in> set ls. drivable pid p l d \<and> accepting (dw_leg W (lg_id l)) \<and> fresh_key (dw_leg W (lg_id l)) (lg_id l) d"
    and "distinct (map lg_id ls)" and "set (legs_of_plan pid d) \<subseteq> set ls"
    and "dw_before W pid = id" "dw_after W pid = id"
  shows "\<exists>q. get_plan pid (drivePlanLegs W pid ls d) = Some q \<and> pl_state q = P_completed"
proof -
  let ?ls = "sort_key lg_legIndex ls"
  have dist: "distinct (map lg_id ?ls)" using assms(5) by (simp add: distinct_map)
  have set: "set ?ls = set ls" by simp
  from drive_legs_fill [of ?ls pid p d "dw_leg W"] assms(4) dist obtain d' where
    r: "drive_legs (dw_leg W) pid p ?ls d = (True, d')" "filled_in pid (lg_id ` set ls) d d'" by auto
  then obtain F where F: "\<forall>i. lg_id (F i) = i \<and> lg_planId (F i) = pid \<and> lg_state (F i) = L_filled"
    "ed_legs d' = map (\<lambda>l. if lg_id l \<in> lg_id ` set ls then F (lg_id l) else l) (ed_legs d)" "ed_plans d' = ed_plans d"
    by (auto simp: filled_in_def)
  have filled: "lg_state y = L_filled" if "y \<in> set (legs_of_plan pid d')" for y
  proof -
    from that F(2) obtain l where l: "l \<in> set (ed_legs d)" "y = (if lg_id l \<in> lg_id ` set ls then F (lg_id l) else l)"
      "lg_planId y = pid" by (auto simp: legs_of_plan_def)
    show ?thesis
    proof (cases "lg_id l \<in> lg_id ` set ls")
      case True
      with l F(1) show ?thesis by simp
    next
      case False
      with l have "l \<in> set (legs_of_plan pid d)" by (simp add: legs_of_plan_def)
      with assms(6) False show ?thesis by blast
    qed
  qed
  obtain l where l: "l \<in> set ls" using assms(3) by (cases ls) auto
  then have "get_leg (lg_id l) d = Some l" using assms(4) by (simp add: drivable_def)
  then have "l \<in> set (ed_legs d)" by (rule get_leg_in)
  then have "F (lg_id l) \<in> set (ed_legs d')" using F(2) l by force
  then have ne: "legs_of_plan pid d' \<noteq> []" using F(1) by (auto simp: legs_of_plan_def filter_empty_conv)
  have "get_plan pid d' = Some p" using assms(1) F(3) by (simp add: get_plan_def)
  from tryMark_completes [OF this assms(2) ne, of "dw_messageId W pid" "dw_now W"] filled show ?thesis
    using assms(1,2,7,8) r(1) by (simp add: drivePlanLegs_def)
qed

section \<open>Plans do not touch each other\<close>

text \<open>What the worker of one plan needs of the database.\<close>

definition apart :: "string \<Rightarrow> exec_db \<Rightarrow> exec_db \<Rightarrow> bool" where
  "apart pid d d' \<longleftrightarrow> get_plan pid d' = get_plan pid d \<and> legs_of_plan pid d' = legs_of_plan pid d
     \<and> distinct (map lg_id (ed_legs d'))
     \<and> (\<forall>l \<in> set (legs_of_plan pid d). \<forall>f \<in> set (ed_fills d'). fi_legId f = lg_id l \<longrightarrow> f \<in> set (ed_fills d))"

lemma apart_refl: "distinct (map lg_id (ed_legs d)) \<Longrightarrow> apart pid d d"
  by (simp add: apart_def)

lemma apart_trans: "apart pid d d1 \<Longrightarrow> apart pid d1 d2 \<Longrightarrow> apart pid d d2"
  by (auto simp: apart_def)

lemma apart_same:
  "ed_plans d' = ed_plans d \<Longrightarrow> ed_legs d' = ed_legs d \<Longrightarrow> ed_fills d' = ed_fills d \<Longrightarrow>
     distinct (map lg_id (ed_legs d)) \<Longrightarrow> apart pid d d'"
  by (simp add: apart_def get_plan_def legs_of_plan_def)

lemma legs_of_plan_save:
  assumes "distinct (map lg_id (ed_legs d))" "get_leg (lg_id l) d = Some l0" "lg_planId l0 \<noteq> pid" "lg_planId l \<noteq> pid"
    and "ed_legs d' = save_row lg_id l (ed_legs d)"
  shows "legs_of_plan pid d' = legs_of_plan pid d"
proof -
  have e: "ed_legs d' = map (\<lambda>y. if lg_id y = lg_id l then l else y) (ed_legs d)"
    using assms(2,5) save_row_existing [of lg_id l "ed_legs d" l0] by (simp add: get_leg_def)
  have one: "y = l0" if "y \<in> set (ed_legs d)" "lg_id y = lg_id l" for y
    using that assms(1,2) distinct_get_row [of lg_id "ed_legs d" y] by (simp add: get_leg_def)
  have "filter (\<lambda>y. lg_planId y = pid) (map (\<lambda>y. if lg_id y = lg_id l then l else y) ys) = filter (\<lambda>y. lg_planId y = pid) ys"
    if "set ys \<subseteq> set (ed_legs d)" for ys
    using that
  proof (induction ys)
    case Nil
    then show ?case by simp
  next
    case (Cons y ys)
    have "lg_id y = lg_id l \<Longrightarrow> lg_planId y \<noteq> pid" using one [of y] Cons.prems assms(3) by auto
    with Cons assms(4) show ?case by auto
  qed
  then show ?thesis by (simp add: legs_of_plan_def e)
qed

lemma apart_moved:
  assumes "distinct (map lg_id (ed_legs d))" "get_leg (lg_id l) d = Some l0" "lg_planId l0 \<noteq> pid" "lg_planId l \<noteq> pid"
    and "ed_plans d' = ed_plans d" "ed_legs d' = save_row lg_id l (ed_legs d)"
    and "\<forall>f \<in> set (ed_fills d'). f \<in> set (ed_fills d) \<or> fi_legId f = lg_id l"
  shows "apart pid d d'"
proof -
  have "lg_id y \<noteq> lg_id l" if "y \<in> set (legs_of_plan pid d)" for y
  proof -
    from that have y: "y \<in> set (ed_legs d)" "lg_planId y = pid" by (simp_all add: legs_of_plan_def)
    from distinct_get_row [OF assms(1) y(1)] have "get_leg (lg_id y) d = Some y" by (simp add: get_leg_def)
    with y(2) assms(2,3) show ?thesis by auto
  qed
  with assms(7) have "\<forall>y \<in> set (legs_of_plan pid d). \<forall>f \<in> set (ed_fills d'). fi_legId f = lg_id y \<longrightarrow> f \<in> set (ed_fills d)"
    by metis
  with assms(1,5,6) legs_of_plan_save [OF assms(1-4) assms(6)] show ?thesis by (simp add: apart_def get_plan_def)
qed

text \<open>An operation on a leg of the plan \<open>q\<close>.\<close>

definition touches :: "string \<Rightarrow> exec_db \<Rightarrow> exec_db \<Rightarrow> bool" where
  "touches q d d' \<longleftrightarrow> ed_plans d' = ed_plans d \<and> (ed_legs d' = ed_legs d \<and> ed_fills d' = ed_fills d
     \<or> (\<exists>l l0. get_leg (lg_id l) d = Some l0 \<and> lg_planId l0 = q \<and> lg_planId l = q \<and> ed_legs d' = save_row lg_id l (ed_legs d)
          \<and> (\<forall>f \<in> set (ed_fills d'). f \<in> set (ed_fills d) \<or> fi_legId f = lg_id l)))"

lemma touches_refl [simp]: "touches q d d"
  by (simp add: touches_def)

lemma touches_apart:
  assumes "touches q d d'" "q \<noteq> pid" "distinct (map lg_id (ed_legs d))"
  shows "apart pid d d'"
  using assms(1) unfolding touches_def
proof (elim conjE disjE exE)
  assume "ed_plans d' = ed_plans d" "ed_legs d' = ed_legs d" "ed_fills d' = ed_fills d"
  then show ?thesis using assms(3) by (rule apart_same)
next
  fix l l0
  assume "ed_plans d' = ed_plans d" "get_leg (lg_id l) d = Some l0" "lg_planId l0 = q" "lg_planId l = q"
    "ed_legs d' = save_row lg_id l (ed_legs d)" "\<forall>f \<in> set (ed_fills d'). f \<in> set (ed_fills d) \<or> fi_legId f = lg_id l"
  with assms(2,3) show ?thesis by (intro apart_moved [of d l l0]) simp_all
qed

lemma touches_move:
  assumes "find_leg_of_plan q lid d = Some l0" "lg_id l = lg_id l0" "lg_planId l = lg_planId l0"
    "ed_plans d' = ed_plans d" "ed_legs d' = save_row lg_id l (ed_legs d)" "ed_fills d' = ed_fills d"
  shows "touches q d d'"
proof -
  have "get_leg (lg_id l) d = Some l0" "lg_planId l0 = q"
    using assms(1,2) get_leg_key [of lid d l0] by (simp_all add: find_leg_of_plan_Some)
  with assms(3-) show ?thesis unfolding touches_def by auto
qed

lemma touches_begin:
  assumes "beginMarkSent q lid h now d = (out, d')"
  shows "touches q d d'"
  using assms
proof (cases rule: beginMarkSent_cases)
  case (refused e)
  then show ?thesis by simp
next
  case (reserved p l l')
  then show ?thesis by (intro touches_move [of q lid d l l']) (simp_all add: find_leg_of_plan_Some)
qed

lemma touches_fail: "touches q d (failSubmittingLeg q lid c msg now d)"
proof (cases "find_leg_of_plan q lid d")
  case None
  then show ?thesis by (simp add: failSubmittingLeg_def)
next
  case (Some l)
  show ?thesis
  proof (cases "lg_state l = L_submitting")
    case True
    show ?thesis
      by (rule touches_move [OF Some, of "l\<lparr>lg_state := L_failed, lg_entityVersion := lg_entityVersion l + 1, lg_updatedAt := now\<rparr>"])
        (simp_all add: failSubmittingLeg_def Some True Let_def)
  qed (simp add: failSubmittingLeg_def Some)
qed

lemma touches_terminal:
  assumes "applyTerminalSubmitError q lid c t msg now d = (out, d')"
  shows "touches q d d'"
proof (cases "find_leg_of_plan q lid d")
  case None
  with assms show ?thesis by (auto simp: applyTerminalSubmitError_def terminal_tx_def transaction_def)
next
  case (Some l)
  show ?thesis
  proof (cases "lg_state l = L_submitting")
    case True
    show ?thesis
      by (rule touches_move [OF Some, of "l\<lparr>lg_state := terminal_state t, lg_entityVersion := lg_entityVersion l + 1, lg_updatedAt := now\<rparr>"])
        (use assms in \<open>auto simp: applyTerminalSubmitError_def terminal_tx_def transaction_def Some True Let_def\<close>)
  next
    case False
    have "ed_plans d' = ed_plans d \<and> ed_legs d' = ed_legs d \<and> ed_fills d' = ed_fills d"
      using assms by (auto simp: applyTerminalSubmitError_def terminal_tx_def transaction_def Some False)
    then show ?thesis by (simp add: touches_def)
  qed
qed

lemma ed_fills_audited [simp]: "ed_fills (audited a d) = ed_fills d"
  by (simp add: audited_def)

lemma touches_complete:
  assumes "completeMarkSent q lid c x meta m now d = (out, d')"
  shows "touches q d d'"
proof (cases "\<exists>l. find_leg_of_plan q lid d = Some l \<and> lg_state l = L_submitting")
  case True
  then obtain l where l: "find_leg_of_plan q lid d = Some l" "lg_state l = L_submitting" by blast
  then have g: "get_leg lid d = Some l" "lg_planId l = q" by (simp_all add: find_leg_of_plan_Some)
  from completeMarkSent_moves [OF g l(2), of c x meta m now] assms show ?thesis
    by (intro touches_move [OF l(1), of "l\<lparr>lg_state := L_sent, lg_entityVersion := lg_entityVersion l + 1,
        lg_venueRef := Some x, lg_updatedAt := now\<rparr>"]) (auto simp: moved_def)
next
  case False
  then have "ed_plans d' = ed_plans d \<and> ed_legs d' = ed_legs d \<and> ed_fills d' = ed_fills d"
    using assms by (auto simp: completeMarkSent_def complete_tx_def transaction_def split: option.splits)
  then show ?thesis by (simp add: touches_def)
qed

lemma touches_ack:
  assumes "markAcknowledged q lid now d = (out, d')"
  shows "touches q d d'"
proof (cases "\<exists>p l. get_plan q d = Some p \<and> find_leg_of_plan q lid d = Some l \<and> lg_state l = L_sent")
  case True
  then obtain p l where l: "get_plan q d = Some p" "find_leg_of_plan q lid d = Some l" "lg_state l = L_sent" by blast
  then have g: "get_leg lid d = Some l" "lg_planId l = q" by (simp_all add: find_leg_of_plan_Some)
  from markAcknowledged_moves [OF l(1) g l(3), of now] assms show ?thesis
    by (intro touches_move [OF l(2), of "l\<lparr>lg_state := L_acknowledged, lg_entityVersion := lg_entityVersion l + 1,
        lg_updatedAt := now\<rparr>"]) (auto simp: moved_def)
next
  case False
  with assms have "d' = d" by (auto simp: markAcknowledged_def transaction_def split: option.splits if_splits)
  then show ?thesis by simp
qed

lemma touches_fill:
  assumes "applyFill q lid dto m now d = (out, d')"
  shows "touches q d d'"
proof (cases "fill_tx q lid dto m now d")
  case (Pair o1 d1)
  note f = Pair
  show ?thesis
  proof (cases o1)
    case (Inl e)
    with f assms have "d' = d" by (simp add: applyFill_def transaction_def)
    then show ?thesis by simp
  next
    case (Inr r)
    with f assms have d': "d' = d1" by (simp add: applyFill_def transaction_def)
    show ?thesis
    proof (cases "d1 = d")
      case True
      with d' show ?thesis by simp
    next
      case False
      with f Inr obtain p l n st where s0: "find_leg_of_plan q lid d = Some l"
        "commit_fill q lid dto m now p (l\<lparr>lg_filledQuantity := n, lg_state := st,
            lg_entityVersion := lg_entityVersion l + 1, lg_updatedAt := now\<rparr>) d = (r, d1)"
        by (auto simp: fill_tx_def split: option.splits if_splits sum.splits prod.splits)
      define saved where "saved = l\<lparr>lg_filledQuantity := n, lg_state := st, lg_entityVersion := lg_entityVersion l + 1, lg_updatedAt := now\<rparr>"
      have s: "find_leg_of_plan q lid d = Some l" "lg_id saved = lg_id l" "lg_planId saved = lg_planId l"
        "commit_fill q lid dto m now p saved d = (r, d1)" using s0 by (simp_all add: saved_def)
      obtain l' ctx where r: "r = (l', ctx)" by (cases r)
      note c = commit_fill_shape [OF s(4) [unfolded r]]
      have fi: "\<forall>f \<in> set (fill_key_rows dto saved). fi_legId f = lg_id saved"
        by (auto simp: fill_key_rows_def split: option.splits)
      have g: "get_leg (lg_id saved) d = Some l" "lg_planId l = q"
        using s(1,2) get_leg_key [of lid d l] by (simp_all add: find_leg_of_plan_Some)
      have "\<forall>f \<in> set (ed_fills d1). f \<in> set (ed_fills d) \<or> fi_legId f = lg_id saved" using c fi by auto
      with c g s(3) show ?thesis
        unfolding touches_def d' by (intro conjI disjI2 exI [of _ saved] exI [of _ l]) simp_all
    qed
  qed
qed

text \<open>A cycle in which nobody else commits.\<close>

definition calm :: "drive_world \<Rightarrow> bool" where
  "calm W \<longleftrightarrow> dw_before W = (\<lambda>i. id) \<and> dw_after W = (\<lambda>i. id) \<and> (\<forall>i. an_env (dw_leg W i) = (\<lambda>n. id))"

lemma touches_distinct: "touches q d d' \<Longrightarrow> distinct (map lg_id (ed_legs d)) \<Longrightarrow> distinct (map lg_id (ed_legs d'))"
  unfolding touches_def by auto

text \<open>Runs of such operations.\<close>

lemma touches_star_apart:
  assumes "(touches q)\<^sup>*\<^sup>* d d'" "q \<noteq> pid" "distinct (map lg_id (ed_legs d))"
  shows "apart pid d d'"
  using assms(1)
proof (induction rule: rtranclp_induct)
  case base
  show ?case using assms(3) by (rule apart_refl)
next
  case (step y z)
  then have "distinct (map lg_id (ed_legs y))" by (simp add: apart_def)
  from touches_apart [OF step.hyps(2) assms(2) this] step.IH show ?case by (metis apart_trans)
qed

lemma touches_markSent:
  assumes "markSent q lid h v b m now id now2 d = (out, d')"
  shows "(touches q)\<^sup>*\<^sup>* d d'"
proof (cases "beginMarkSent q lid h now d")
  case (Pair o1 d1)
  have t1: "(touches q)\<^sup>*\<^sup>* d d1" using touches_begin [OF Pair] by blast
  show ?thesis
  proof (cases o1)
    case (Inl e)
    with assms Pair t1 show ?thesis by (simp add: markSent_def)
  next
    case (Inr pl)
    obtain p l where pl: "pl = (p, l)" by (cases pl)
    define d3 where "d3 = (if lg_legType l = bridge \<and> extractBridgeParams (pl_playbookConfig p) (lg_legIndex l) = None
      then failSubmittingLeg q lid (pl_correlationId p) ''Bridge leg has no bridge params in playbookConfig'' now2 d1 else d1)"
    have "(touches q)\<^sup>*\<^sup>* d1 d3" unfolding d3_def using touches_fail by auto
    moreover have "(touches q)\<^sup>*\<^sup>* d3 d'"
      using assms Pair Inr pl touches_complete touches_terminal touches_fail
      unfolding markSent_def by (fastforce simp: Let_def d3_def [symmetric] split: venue_outcome.splits)
    ultimately show ?thesis using t1 by (meson rtranclp_trans)
  qed
qed

lemma touches_drive_leg:
  assumes "an_env a = (\<lambda>n. id)" "drive_leg a q p l d = (out, d')"
  shows "(touches q)\<^sup>*\<^sup>* d d'"
proof (cases "isLiveVenueKey (driver_venue p l) \<and> \<not> an_halted a")
  case False
  with assms(2) have "d' = d" by (auto simp: drive_leg_def split: if_splits)
  then show ?thesis by simp
next
  case live: True
  show ?thesis
  proof (cases "an_timeout a")
    case (Some begun)
    with live assms show ?thesis
      using touches_begin [of q "lg_id l" "an_markHalted a" "an_now a" d]
      by (cases "beginMarkSent q (lg_id l) (an_markHalted a) (an_now a) d") (auto simp: drive_leg_def)
  next
    case None
    obtain o1 d1 where m: "markSent q (lg_id l) (an_markHalted a) (an_venue a) (an_bridge a) (an_sentMessageId a)
                    (an_now a) id (an_now a) d = (o1, d1)" by (metis surj_pair)
    have t1: "(touches q)\<^sup>*\<^sup>* d d1" using touches_markSent [OF m] .
    obtain o2 d2 where k: "markAcknowledged q (lg_id l) (an_now a) d1 = (o2, d2)" by (metis surj_pair)
    obtain o3 d3 where f: "applyFill q (lg_id l) (driver_fill (lg_id l) (an_uuid a)) (an_fillMessageId a) (an_now a) d2 = (o3, d3)"
      by (metis surj_pair)
    have t2: "(touches q)\<^sup>*\<^sup>* d d2" using t1 touches_ack [OF k] by (meson rtranclp.rtrancl_into_rtrancl)
    have t3: "(touches q)\<^sup>*\<^sup>* d d3" using t2 touches_fill [OF f] by (meson rtranclp.rtrancl_into_rtrancl)
    have "d' = d1 \<or> d' = d2 \<or> d' = d3"
      using assms live None m k f
      by (auto simp: drive_leg_def after_mark_sent_def ack_and_fill_def split: sum.splits option.splits if_splits)
    with t1 t2 t3 show ?thesis by blast
  qed
qed

lemma touches_drive_legs:
  assumes "\<forall>i. an_env (A i) = (\<lambda>n. id)" "drive_legs A q p ls d = (b, d')"
  shows "(touches q)\<^sup>*\<^sup>* d d'"
  using assms(2)
proof (induction ls arbitrary: d)
  case Nil
  then show ?case by simp
next
  case (Cons l ls)
  obtain out d1 where s: "drive_leg (A (lg_id l)) q p l d = (out, d1)" by (metis surj_pair)
  have t: "(touches q)\<^sup>*\<^sup>* d d1" using touches_drive_leg [OF _ s] assms(1) by blast
  show ?case
  proof (cases "out = D_skip_halted")
    case True
    with Cons.prems s t show ?thesis by simp
  next
    case False
    with Cons.prems s have "drive_legs A q p ls d1 = (b, d')" by simp
    from Cons.IH [OF this] t show ?thesis by (meson rtranclp_trans)
  qed
qed

lemma apart_tryMark:
  assumes "q \<noteq> pid" "distinct (map lg_id (ed_legs d))"
  shows "apart pid d (snd (tryMarkPlanCompletedWhenAllLegsFilled q m now d))"
proof (cases "tryMarkPlanCompletedWhenAllLegsFilled q m now d")
  case (Pair out d')
  then show ?thesis
  proof (cases rule: tryMark_cases)
    case (refused r)
    with Pair assms(2) show ?thesis by (simp add: apart_refl)
  next
    case (changed p saved ev a)
    then have "pl_id saved = q" by (auto dest: get_plan_key)
    then have "get_plan pid d' = get_plan pid d" using changed assms(1) by (simp add: row_simps)
    moreover have "ed_legs d' = ed_legs d" "ed_fills d' = ed_fills d" using changed by simp_all
    ultimately show ?thesis using Pair assms(2) by (simp add: apart_def legs_of_plan_def)
  qed
qed

lemma apart_drivePlan:
  assumes "calm W" "q \<noteq> pid" "distinct (map lg_id (ed_legs d))"
  shows "apart pid d (drivePlanLegs W q ls d)"
proof (cases "\<exists>p. get_plan q d = Some p \<and> pl_state p = P_executing")
  case False
  with assms show ?thesis
    by (cases "get_plan q d") (auto simp: drivePlanLegs_def calm_def apart_refl)
next
  case True
  then obtain p where p: "get_plan q d = Some p" "pl_state p = P_executing" by blast
  obtain b d1 where s: "drive_legs (dw_leg W) q p (sort_key lg_legIndex ls) d = (b, d1)" by (metis surj_pair)
  have a1: "apart pid d d1"
    by (rule touches_star_apart [OF touches_drive_legs [OF _ s] assms(2,3)]) (use assms(1) in \<open>simp add: calm_def\<close>)
  then have "distinct (map lg_id (ed_legs d1))" by (simp add: apart_def)
  from apart_tryMark [OF assms(2) this] a1 have
    "apart pid d (snd (tryMarkPlanCompletedWhenAllLegsFilled q (dw_messageId W q) (dw_now W) d1))" by (metis apart_trans)
  with a1 show ?thesis using assms(1) p s by (cases b) (simp_all add: drivePlanLegs_def calm_def)
qed

lemma apart_drivePlans:
  assumes "calm W" "pid \<notin> fst ` set m" "distinct (map lg_id (ed_legs d))"
  shows "apart pid d (fold (\<lambda>(i, ls). drivePlanLegs W i ls) m d)"
  using assms(2,3)
proof (induction m arbitrary: d)
  case Nil
  then show ?case by (simp add: apart_refl)
next
  case (Cons e m)
  obtain q ls where e: "e = (q, ls)" by (cases e)
  have a: "apart pid d (drivePlanLegs W q ls d)" by (rule apart_drivePlan [OF assms(1)]) (use Cons.prems e in auto)
  then have "distinct (map lg_id (ed_legs (drivePlanLegs W q ls d)))" by (simp add: apart_def)
  from Cons.IH [OF _ this] Cons.prems a show ?case by (auto simp: e intro: apart_trans)
qed

section \<open>The legs of a plan in the batch\<close>

lemma bucket_push_keys: "fst ` set (bucket_push l m) = insert (lg_planId l) (fst ` set m)"
  by (induction l m rule: bucket_push.induct) auto

lemma bucket_push_distinct: "distinct (map fst m) \<Longrightarrow> distinct (map fst (bucket_push l m))"
proof (induction l m rule: bucket_push.induct)
  case (2 l i b m)
  have "i \<noteq> lg_planId l \<Longrightarrow> i \<notin> fst ` set m \<Longrightarrow> i \<notin> fst ` set (bucket_push l m)"
    by (simp add: bucket_push_keys)
  with 2 show ?case by auto
qed simp

lemma bucket_push_get:
  "map_of (bucket_push l m) i =
     (if i = lg_planId l then Some ((case map_of m i of None \<Rightarrow> [] | Some b \<Rightarrow> b) @ [l]) else map_of m i)"
  by (induction l m rule: bucket_push.induct) auto

lemma byPlan_fold:
  "distinct (map fst m) \<Longrightarrow> distinct (map fst (fold bucket_push ls m)) \<and>
     map_of (fold bucket_push ls m) i =
       (let own = filter (\<lambda>l. lg_planId l = i) ls in
        case map_of m i of Some b \<Rightarrow> Some (b @ own) | None \<Rightarrow> if own = [] then None else Some own)"
proof (induction ls arbitrary: m)
  case Nil
  then show ?case by (simp split: option.splits)
next
  case (Cons l ls)
  from Cons.IH [OF bucket_push_distinct [OF Cons.prems], of l] show ?case
    by (auto simp: bucket_push_get Let_def split: option.splits if_splits)
qed

lemma byPlan_split:
  assumes "filter (\<lambda>l. lg_planId l = pid) ls = own" "own \<noteq> []"
  shows "\<exists>xs ys. byPlan ls = xs @ (pid, own) # ys \<and> pid \<notin> fst ` set xs \<and> pid \<notin> fst ` set ys"
proof -
  have b: "distinct (map fst (byPlan ls))" "map_of (byPlan ls) pid = Some own"
    using byPlan_fold [of "[]" ls pid] by (simp_all add: byPlan_def Let_def assms)
  from map_of_SomeD [OF b(2)] have "(pid, own) \<in> set (byPlan ls)" .
  then obtain xs ys where s: "byPlan ls = xs @ (pid, own) # ys" by (meson split_list)
  with b(1) show ?thesis by (intro exI [of _ xs] exI [of _ ys]) auto
qed

text \<open>In a calm cycle a plan sees its own legs of the batch, and nothing of the other plans.\<close>

definition own_created :: "string \<Rightarrow> exec_db \<Rightarrow> leg list" where
  "own_created pid d = filter (\<lambda>l. lg_planId l = pid) (created_batch d)"

lemma cycle_focus:
  assumes "calm W" "distinct (map lg_id (ed_legs d))" "own_created pid d \<noteq> []"
  shows "\<exists>d0. apart pid d d0 \<and> apart pid (drivePlanLegs W pid (own_created pid d) d0) (drivePendingLegs W d)"
proof -
  from byPlan_split [OF refl assms(3) [unfolded own_created_def]] obtain xs ys where
    s: "byPlan (created_batch d) = xs @ (pid, own_created pid d) # ys" "pid \<notin> fst ` set xs" "pid \<notin> fst ` set ys"
    by (auto simp: own_created_def)
  define d0 where "d0 = fold (\<lambda>(i, ls). drivePlanLegs W i ls) xs d"
  define d1 where "d1 = drivePlanLegs W pid (own_created pid d) d0"
  have a: "apart pid d d0" unfolding d0_def by (rule apart_drivePlans [OF assms(1) s(2) assms(2)])
  have dist: "distinct (map lg_id (ed_legs d1))" if "distinct (map lg_id (ed_legs d0))"
    using apart_drivePlan [OF assms(1), of pid "pid @ ''x''" d0] that by (simp add: d1_def apart_def)
  have "drivePendingLegs W d = fold (\<lambda>(i, ls). drivePlanLegs W i ls) ys d1"
    by (simp add: drivePendingLegs_def s(1) d0_def d1_def)
  moreover have "apart pid d1 (fold (\<lambda>(i, ls). drivePlanLegs W i ls) ys d1)"
    by (rule apart_drivePlans [OF assms(1) s(3)]) (use a dist in \<open>simp add: apart_def\<close>)
  ultimately show ?thesis using a d1_def by auto
qed

lemma own_created_distinct:
  assumes "distinct (map lg_id (ed_legs d))"
  shows "distinct (map lg_id (own_created pid d))"
proof -
  let ?c = "filter (\<lambda>l. lg_state l = L_created) (ed_legs d)"
  have "distinct (map lg_id ?c)" using assms by (rule distinct_map_filter)
  then have "distinct (map lg_id (sort_key lg_createdAt ?c))" by (simp add: distinct_map)
  then have "distinct (map lg_id (created_batch d))" by (simp add: created_batch_def take_map [symmetric] distinct_take)
  then show ?thesis unfolding own_created_def by (rule distinct_map_filter)
qed

lemma own_created_set:
  assumes "length (filter (\<lambda>l. lg_state l = L_created) (ed_legs d)) \<le> 20"
  shows "set (own_created pid d) = {l \<in> set (legs_of_plan pid d). lg_state l = L_created}"
  using assms by (auto simp: own_created_def created_batch_def legs_of_plan_def)

lemma apart_leg:
  assumes "apart pid d d0" "l \<in> set (legs_of_plan pid d)"
  shows "get_leg (lg_id l) d0 = Some l" "fresh_key a (lg_id l) d \<Longrightarrow> fresh_key a (lg_id l) d0"
proof -
  have "l \<in> set (ed_legs d0)" "distinct (map lg_id (ed_legs d0))"
    using assms unfolding apart_def by (metis filter_is_subset legs_of_plan_def subsetD) (use assms in \<open>simp add: apart_def\<close>)
  then show "get_leg (lg_id l) d0 = Some l" by (simp add: get_leg_def distinct_get_row)
  show "fresh_key a (lg_id l) d0" if "fresh_key a (lg_id l) d"
    using that assms by (auto simp: apart_def fresh_key_def)
qed

lemma enabled_cycle: "leg_drive_cycle False (Some ''true'') False W d = drivePendingLegs W d"
  by (simp add: leg_drive_cycle_def leg_drive_enabled_def assertLiveNotHalted_def)

section \<open>A failed leg does not stop the next one\<close>

lemma sorted_pair:
  assumes "set ls = {l1, l2}" "distinct ls" "lg_legIndex l1 < lg_legIndex l2"
  shows "sort_key lg_legIndex ls = [l1, l2]"
proof -
  have "l1 \<noteq> l2" using assms(3) by auto
  then have "length ls = 2" using assms(1,2) distinct_card [OF assms(2)] by simp
  then obtain a b where ls: "ls = [a, b]" by (metis One_nat_def Suc_1 length_0_conv length_Suc_conv)
  with assms \<open>l1 \<noteq> l2\<close> have "ls = [l1, l2] \<or> ls = [l2, l1]" by auto
  with assms(3) show ?thesis by auto
qed

section \<open>A batch that cannot be driven\<close>

lemma drive_legs_idle:
  assumes "\<forall>l \<in> set ls. \<not> isLiveVenueKey (driver_venue p l) \<or> an_halted (A (lg_id l))"
  shows "snd (drive_legs A q p ls d) = d"
  using assms
proof (induction ls)
  case (Cons l ls)
  then show ?case by (cases "isLiveVenueKey (driver_venue p l)") (simp_all add: drive_leg_def)
qed simp

lemma drivePlan_idle:
  assumes "calm W" "\<exists>l \<in> set (legs_of_plan q d). lg_state l \<noteq> L_filled"
    and "\<And>p. get_plan q d = Some p \<Longrightarrow> pl_state p = P_executing \<Longrightarrow>
       \<forall>l \<in> set ls. \<not> isLiveVenueKey (driver_venue p l) \<or> an_halted (dw_leg W (lg_id l))"
  shows "drivePlanLegs W q ls d = d"
proof (cases "\<exists>p. get_plan q d = Some p \<and> pl_state p = P_executing")
  case False
  with assms(1) show ?thesis by (cases "get_plan q d") (auto simp: drivePlanLegs_def calm_def)
next
  case True
  then obtain p where p: "get_plan q d = Some p" "pl_state p = P_executing" by blast
  have "snd (tryMarkPlanCompletedWhenAllLegsFilled q m now d) = d" for m now
    using assms(2) tryMark_unfilled by blast
  moreover have "snd (drive_legs (dw_leg W) q p (sort_key lg_legIndex ls) d) = d"
    by (rule drive_legs_idle) (use assms(3) [OF p] in simp)
  ultimately show ?thesis
    using assms(1) p by (cases "drive_legs (dw_leg W) q p (sort_key lg_legIndex ls) d")
      (auto simp: drivePlanLegs_def calm_def split: bool.splits)
qed

lemma byPlan_entry:
  assumes "(i, b) \<in> set (byPlan ls)"
  shows "b = filter (\<lambda>l. lg_planId l = i) ls \<and> b \<noteq> []"
proof -
  have k: "distinct (map fst (byPlan ls))" "map_of (byPlan ls) i
      = (let own = filter (\<lambda>l. lg_planId l = i) ls in if own = [] then None else Some own)"
    using byPlan_fold [of "[]" ls i] by (simp_all add: byPlan_def)
  from map_of_is_SomeI [OF k(1) assms] k(2) show ?thesis by (auto simp: Let_def split: if_splits)
qed

lemma drivePending_idle:
  assumes "calm W"
    and "\<And>l p. l \<in> set (created_batch d) \<Longrightarrow> get_plan (lg_planId l) d = Some p \<Longrightarrow> pl_state p = P_executing \<Longrightarrow>
       \<not> isLiveVenueKey (driver_venue p l) \<or> an_halted (dw_leg W (lg_id l))"
  shows "drivePendingLegs W d = d"
proof -
  have one: "drivePlanLegs W i b d = d" if "(i, b) \<in> set (byPlan (created_batch d))" for i b
  proof (rule drivePlan_idle [OF assms(1)])
    note b = byPlan_entry [OF that]
    obtain l where "l \<in> set b" using last_in_set [OF conjunct2 [OF b]] by blast
    then have l: "l \<in> set (created_batch d)" "lg_planId l = i" unfolding conjunct1 [OF b] by auto
    then have "l \<in> set (ed_legs d)" "lg_state l = L_created"
      by (auto simp: created_batch_def dest!: in_set_takeD)
    with l show "\<exists>l \<in> set (legs_of_plan i d). lg_state l \<noteq> L_filled" by (auto simp: legs_of_plan_def)
    show "\<forall>l \<in> set b. \<not> isLiveVenueKey (driver_venue p l) \<or> an_halted (dw_leg W (lg_id l))"
      if "get_plan i d = Some p" "pl_state p = P_executing" for p
      using b assms(2) that by auto
  qed
  have "fold (\<lambda>(i, ls). drivePlanLegs W i ls) m d = d" if "set m \<subseteq> set (byPlan (created_batch d))" for m
    using that by (induction m) (auto simp: one)
  then show ?thesis by (simp add: drivePendingLegs_def)
qed

section \<open>A cycle is a run\<close>

lemma markSent_steps:
  assumes "markSent q lid h v b m now env now2 d = (out, d')" and "\<And>x. exec_step\<^sup>*\<^sup>* x (env x)"
  shows "exec_step\<^sup>*\<^sup>* d d'"
proof (cases "beginMarkSent q lid h now d")
  case (Pair o1 d1)
  have t1: "exec_step\<^sup>*\<^sup>* d d1" using st_begin_sent [OF Pair] by blast
  show ?thesis
  proof (cases o1)
    case (Inl e)
    with assms Pair t1 show ?thesis by (simp add: markSent_def)
  next
    case (Inr pl)
    obtain p l where pl: "pl = (p, l)" by (cases pl)
    have f: "exec_step\<^sup>*\<^sup>* x (failSubmittingLeg q lid c msg now2 x)" for x c msg using st_fail_leg [OF refl] by blast
    define d3 where "d3 = (if lg_legType l = bridge \<and> extractBridgeParams (pl_playbookConfig p) (lg_legIndex l) = None
      then failSubmittingLeg q lid (pl_correlationId p) ''Bridge leg has no bridge params in playbookConfig'' now2 (env d1) else env d1)"
    have "exec_step\<^sup>*\<^sup>* d1 d3" unfolding d3_def using assms(2) [of d1] f by (auto intro: rtranclp_trans)
    moreover have "exec_step\<^sup>*\<^sup>* d3 d'"
      using assms(1) Pair Inr pl st_complete_sent st_terminal f
      unfolding markSent_def by (fastforce simp: Let_def d3_def [symmetric] split: venue_outcome.splits)
    ultimately show ?thesis using t1 by (meson rtranclp_trans)
  qed
qed

text \<open>What the others commit is a run of the services as well.\<close>

definition serviced :: "drive_world \<Rightarrow> bool" where
  "serviced W \<longleftrightarrow> (\<forall>i x. exec_step\<^sup>*\<^sup>* x (dw_before W i x) \<and> exec_step\<^sup>*\<^sup>* x (dw_after W i x))
     \<and> (\<forall>i n x. exec_step\<^sup>*\<^sup>* x (an_env (dw_leg W i) n x))"

lemma step_after: "exec_step\<^sup>*\<^sup>* x y \<Longrightarrow> exec_step y z \<Longrightarrow> exec_step\<^sup>*\<^sup>* x z"
  by (rule rtranclp.rtrancl_into_rtrancl)

lemma ack_and_fill_steps:
  assumes "\<And>n x. exec_step\<^sup>*\<^sup>* x (an_env a n x)"
  shows "exec_step\<^sup>*\<^sup>* d (snd (ack_and_fill a q lid d))"
proof (cases "markAcknowledged q lid (an_now a) d")
  case (Pair o1 d1)
  have t1: "exec_step\<^sup>*\<^sup>* d (an_env a 3 d1)" using st_ack [OF Pair] assms [of d1 3] by (meson converse_rtranclp_into_rtranclp)
  obtain o2 d2 where f: "applyFill q lid (driver_fill lid (an_uuid a)) (an_fillMessageId a) (an_now a) (an_env a 3 d1) = (o2, d2)"
    by (metis surj_pair)
  have "exec_step\<^sup>*\<^sup>* d d1" using st_ack [OF Pair] by blast
  moreover have "exec_step\<^sup>*\<^sup>* d d2" by (rule step_after [OF t1 st_fill [OF f]])
  moreover have "snd (ack_and_fill a q lid d) = d1 \<or> snd (ack_and_fill a q lid d) = d2"
    by (cases o1; cases o2) (simp_all add: ack_and_fill_def Pair f)
  ultimately show ?thesis by metis
qed

lemma drive_leg_steps:
  assumes "\<And>n x. exec_step\<^sup>*\<^sup>* x (an_env a n x)"
  shows "exec_step\<^sup>*\<^sup>* d (snd (drive_leg a q p l d))"
proof (cases "isLiveVenueKey (driver_venue p l) \<and> \<not> an_halted a")
  case False
  then show ?thesis by (auto simp: drive_leg_def)
next
  case live: True
  let ?d0 = "an_env a 0 d"
  show ?thesis
  proof (cases "an_timeout a")
    case (Some begun)
    obtain o1 d1 where b: "beginMarkSent q (lg_id l) (an_markHalted a) (an_now a) ?d0 = (o1, d1)" by (metis surj_pair)
    have "exec_step\<^sup>*\<^sup>* d d1" by (rule step_after [OF assms st_begin_sent [OF b]])
    then have "exec_step\<^sup>*\<^sup>* d (an_env a 1 d1)" "exec_step\<^sup>*\<^sup>* d (an_env a 1 ?d0)"
      using assms by (meson rtranclp_trans)+
    with live Some b show ?thesis by (cases begun) (simp_all add: drive_leg_def Let_def)
  next
    case None
    obtain o1 d1 where m: "markSent q (lg_id l) (an_markHalted a) (an_venue a) (an_bridge a) (an_sentMessageId a)
                    (an_now a) (an_env a 1) (an_now a) ?d0 = (o1, d1)" by (metis surj_pair)
    have t1: "exec_step\<^sup>*\<^sup>* d d1" using assms [of d 0] markSent_steps [OF m] assms by (meson rtranclp_trans)
    have t2: "exec_step\<^sup>*\<^sup>* d (an_env a 2 d1)" using t1 assms by (meson rtranclp_trans)
    have t3: "exec_step\<^sup>*\<^sup>* d (snd (ack_and_fill a q (lg_id l) (an_env a 2 d1)))"
      using t2 ack_and_fill_steps [of a, OF assms] by (meson rtranclp_trans)
    have "snd (drive_leg a q p l d) \<in> {d1, an_env a 2 d1, snd (ack_and_fill a q (lg_id l) (an_env a 2 d1))}"
      using live None m by (simp add: drive_leg_def after_mark_sent_def Let_def split: sum.splits option.splits)
    with t1 t2 t3 show ?thesis by auto
  qed
qed

lemma drive_legs_steps:
  assumes "\<And>i n x. exec_step\<^sup>*\<^sup>* x (an_env (A i) n x)"
  shows "exec_step\<^sup>*\<^sup>* d (snd (drive_legs A q p ls d))"
proof (induction ls arbitrary: d)
  case Nil
  then show ?case by simp
next
  case (Cons l ls)
  obtain out d1 where s: "drive_leg (A (lg_id l)) q p l d = (out, d1)" by (metis surj_pair)
  have "exec_step\<^sup>*\<^sup>* d d1" using drive_leg_steps [of "A (lg_id l)", OF assms, of d q p l] s by simp
  with Cons.IH [of d1] s show ?case by (auto intro: rtranclp_trans)
qed

lemma drivePlan_steps:
  assumes "serviced W"
  shows "exec_step\<^sup>*\<^sup>* d (drivePlanLegs W q ls d)"
proof -
  let ?d0 = "dw_before W q d"
  have t0: "exec_step\<^sup>*\<^sup>* d ?d0" using assms by (simp add: serviced_def)
  show ?thesis
  proof (cases "\<exists>p. get_plan q ?d0 = Some p \<and> pl_state p = P_executing")
    case False
    with t0 show ?thesis by (cases "get_plan q ?d0") (auto simp: drivePlanLegs_def)
  next
    case True
    then obtain p where p: "get_plan q ?d0 = Some p" "pl_state p = P_executing" by blast
    obtain b d1 where s: "drive_legs (dw_leg W) q p (sort_key lg_legIndex ls) ?d0 = (b, d1)" by (metis surj_pair)
    have t1: "exec_step\<^sup>*\<^sup>* d d1"
      using t0 drive_legs_steps [of "dw_leg W" ?d0 q p "sort_key lg_legIndex ls"] s assms
      by (auto simp: serviced_def intro: rtranclp_trans)
    obtain o2 d2 where c: "tryMarkPlanCompletedWhenAllLegsFilled q (dw_messageId W q) (dw_now W) (dw_after W q d1) = (o2, d2)"
      by (metis surj_pair)
    have "exec_step\<^sup>*\<^sup>* d (dw_after W q d1)" using t1 assms unfolding serviced_def by (meson rtranclp_trans)
    then have t2: "exec_step\<^sup>*\<^sup>* d d2" by (rule step_after [OF _ st_completed [OF c]])
    with t1 p s c show ?thesis by (cases b) (simp_all add: drivePlanLegs_def)
  qed
qed

section \<open>The properties\<close>

text \<open>
  The driver is no new writer. Whatever venues, time limits and the kill switch answer, a
  cycle is a sequence of transactions of the services (the others may commit theirs at every
  point where the worker waits), so all that holds in every run of the orchestrator holds with it.
\<close>

theorem driver_cycle_is_a_run:
  assumes "serviced W"
  shows "exec_step\<^sup>*\<^sup>* d (leg_drive_cycle busy enabledEnv halted W d)"
proof -
  have "exec_step\<^sup>*\<^sup>* d (fold (\<lambda>(i, ls). drivePlanLegs W i ls) m d)" for m
    by (induction m arbitrary: d) (auto intro: rtranclp_trans [OF drivePlan_steps [OF assms]])
  then show ?thesis
    by (simp add: leg_drive_cycle_def drivePendingLegs_def split: sum.splits)
qed



text \<open>The first of two legs is skipped or refused; the loop goes on.\<close>

lemma first_leg_not_filled:
  assumes "get_plan pid d = Some p" "pl_state p = P_executing" "get_leg (lg_id l) d = Some l" "lg_planId l = pid"
    "lg_state l = L_created" "isLiveVenueKey (driver_venue p l) \<longrightarrow> lg_legType l = dex \<and> refusing a"
  shows "\<exists>out d' l'. drive_leg a pid p l d = (out, d') \<and> out \<noteq> D_skip_halted \<and> ed_fills d' = ed_fills d
    \<and> ed_plans d' = ed_plans d \<and> (\<forall>i. get_leg i d' = (if i = lg_id l then Some l' else get_leg i d)) \<and> lg_id l' = lg_id l
    \<and> lg_planId l' = pid \<and> lg_state l' = (if isLiveVenueKey (driver_venue p l) then L_failed else L_created)"
proof (cases "isLiveVenueKey (driver_venue p l)")
  case True
  with assms have "drivable pid p l d" "refusing a" by (simp_all add: drivable_def)
  from drive_leg_refused [OF this] obtain l' d' where
    s: "drive_leg a pid p l d = (D_mark_sent_failed, d')" "moved d l' d'" "ed_fills d' = ed_fills d"
      "lg_id l' = lg_id l" "lg_planId l' = pid" "lg_state l' = L_failed" by blast
  then show ?thesis using True moved_get [OF s(2)] by (auto simp: moved_def)
next
  case False
  then show ?thesis using assms by (simp add: drive_leg_def)
qed

text \<open>
  The legs of a plan are taken in order, but none of them waits for the one before it. When
  the venue refuses the first of two legs, or the driver does not handle it (a bridge leg has no
  venue in the playbook), the same cycle still sends the second one and fills it: the sale
  happens without the purchase, and the plan stays executing.
\<close>

theorem cycle_sells_without_buy:
  assumes "exec_inv d" and "calm W" and "length (filter (\<lambda>l. lg_state l = L_created) (ed_legs d)) \<le> 20"
    and "get_plan pid d = Some p" and "pl_state p = P_executing" and "set (legs_of_plan pid d) = {l1, l2}"
    and "lg_legIndex l1 < lg_legIndex l2" and "lg_state l1 = L_created" and "lg_state l2 = L_created"
    and "isLiveVenueKey (driver_venue p l1) \<longrightarrow> lg_legType l1 = dex \<and> refusing (dw_leg W (lg_id l1))"
    and "lg_legType l2 = dex" and "isLiveVenueKey (driver_venue p l2)" and "accepting (dw_leg W (lg_id l2))"
    and "fresh_key (dw_leg W (lg_id l2)) (lg_id l2) d"
    and "d' = leg_drive_cycle False (Some ''true'') False W d"
  shows "map_option lg_state (get_leg (lg_id l1) d')
      = Some (if isLiveVenueKey (driver_venue p l1) then L_failed else L_created)
    \<and> map_option lg_state (get_leg (lg_id l2) d') = Some L_filled \<and> map_option pl_state (get_plan pid d') = Some P_executing"
proof -
  note dist = exec_invD(2) [OF assms(1)]
  have own: "set (own_created pid d) = {l1, l2}" using own_created_set [OF assms(3)] assms(6,8,9) by auto
  then have ne: "own_created pid d \<noteq> []" by force
  have so: "sort_key lg_legIndex (own_created pid d) = [l1, l2]"
    by (rule sorted_pair [OF own _ assms(7)]) (use own_created_distinct [OF dist] in \<open>simp add: distinct_map\<close>)
  from cycle_focus [OF assms(2) dist ne] obtain d0 where
    a: "apart pid d d0" "apart pid (drivePlanLegs W pid (own_created pid d) d0) (drivePendingLegs W d)" by blast
  have l: "l1 \<in> set (legs_of_plan pid d)" "l2 \<in> set (legs_of_plan pid d)" using assms(6) by auto
  have pl: "lg_planId l1 = pid" "lg_planId l2 = pid" using l by (simp_all add: legs_of_plan_def)
  have g: "get_plan pid d0 = Some p" using a(1) assms(4) by (simp add: apart_def)
  note g1 = apart_leg(1) [OF a(1) l(1)] and g2 = apart_leg(1) [OF a(1) l(2)]
  have n: "lg_id l2 \<noteq> lg_id l1" using g1 g2 assms(7) by auto
  from first_leg_not_filled [OF g assms(5) g1 pl(1) assms(8,10)] obtain out e1 x1 where
    s1: "drive_leg (dw_leg W (lg_id l1)) pid p l1 d0 = (out, e1)" "out \<noteq> D_skip_halted" "ed_fills e1 = ed_fills d0"
      "ed_plans e1 = ed_plans d0" "\<And>i. get_leg i e1 = (if i = lg_id l1 then Some x1 else get_leg i d0)"
      "lg_id x1 = lg_id l1" "lg_planId x1 = pid"
      "lg_state x1 = (if isLiveVenueKey (driver_venue p l1) then L_failed else L_created)" by blast
  have p1: "get_plan pid e1 = Some p" using g s1(4) by (simp add: get_plan_def)
  have d2: "drivable pid p l2 e1" using g2 p1 assms(5,9,11,12) pl n by (simp add: drivable_def s1(5))
  have f2: "fresh_key (dw_leg W (lg_id l2)) (lg_id l2) e1"
    using apart_leg(2) [OF a(1) l(2) assms(14)] s1(3) by (simp add: fresh_key_def)
  from drive_leg_fills [OF d2 assms(13) f2] obtain x2 e2 where
    s2: "drive_leg (dw_leg W (lg_id l2)) pid p l2 e1 = (D_filled, e2)" "moved e1 x2 e2" "lg_id x2 = lg_id l2"
      "lg_planId x2 = pid" "lg_state x2 = L_filled" by blast
  note m2 = moved_get [OF s2(2)]
  have legs: "get_leg (lg_id l1) e2 = Some x1" "get_leg (lg_id l2) e2 = Some x2" "get_plan pid e2 = Some p"
    using n s1(5) s2(3) p1 by (simp_all add: m2)
  have un: "x1 \<in> set (legs_of_plan pid e2)" using get_leg_in [OF legs(1)] s1(7) by (simp add: legs_of_plan_def)
  have x2: "x2 \<in> set (legs_of_plan pid e2)" using get_leg_in [OF legs(2)] s2(4) by (simp add: legs_of_plan_def)
  have "snd (tryMarkPlanCompletedWhenAllLegsFilled pid m now e2) = e2" for m now
    by (rule tryMark_unfilled [OF un]) (simp add: s1(8))
  then have "drivePlanLegs W pid (own_created pid d) d0 = e2"
    using assms(2,5) g so s1(1,2) s2(1) by (simp add: drivePlanLegs_def calm_def)
  with a(2) have f: "apart pid e2 d'" using assms(15) by (simp add: enabled_cycle)
  with apart_leg(1) [OF f un] apart_leg(1) [OF f x2] legs s1(6,8) s2(3,5) assms(5) show ?thesis by (simp add: apart_def)
qed

text \<open>
  The oldest twenty created legs are all that a cycle looks at. When none of them can be
  driven (their plan has no live venue for them, as with a bridge leg or a paper venue, or the
  kill switch is on), no number of cycles changes anything, however many live legs wait behind them.
\<close>

theorem driver_starves:
  assumes "\<forall>W \<in> set Ws. calm W"
    and "\<forall>W \<in> set Ws. \<forall>l \<in> set (created_batch d). \<forall>p. get_plan (lg_planId l) d = Some p \<longrightarrow> pl_state p = P_executing \<longrightarrow>
       \<not> isLiveVenueKey (driver_venue p l) \<or> an_halted (dw_leg W (lg_id l))"
  shows "fold (leg_drive_cycle False (Some ''true'') False) Ws d = d"
  using assms
proof (induction Ws)
  case (Cons W Ws)
  have "drivePendingLegs W d = d" by (rule drivePending_idle) (use Cons.prems in auto)
  with Cons show ?case by (simp add: enabled_cycle)
qed simp

section \<open>Concrete cycles\<close>

definition ex_drive_answer :: "venue_outcome \<Rightarrow> leg_answers" where
  "ex_drive_answer v = \<lparr> an_halted = False, an_markHalted = False, an_venue = (\<lambda>p l. v), an_bridge = (\<lambda>b k. v),
     an_timeout = None, an_env = (\<lambda>n. id), an_sentMessageId = ''m'', an_fillMessageId = ''f'', an_uuid = ''u'', an_now = 9 \<rparr>"

definition ex_drive_world :: "(string \<Rightarrow> venue_outcome) \<Rightarrow> drive_world" where
  "ex_drive_world v = \<lparr> dw_leg = (\<lambda>i. ex_drive_answer (v i)), dw_before = (\<lambda>i. id), dw_after = (\<lambda>i. id),
     dw_messageId = (\<lambda>i. ''c''), dw_now = 9 \<rparr>"

definition ex_dplan :: "string \<Rightarrow> plan" where
  "ex_dplan i = \<lparr> pl_id = i, pl_correlationId = None, pl_state = P_executing, pl_capitalReservationId = None,
     pl_riskDecisionId = None, pl_routeKey = None, pl_entityVersion = 4,
     pl_playbookConfig = (if i = ''paper'' then None else
       Some (JObj [(''legs'', JArr [JObj [(''venueKey'', JStr ''uniswap-v2'')], JObj [(''venueKey'', JStr ''biswap'')]])])),
     pl_costBreakdown = None, pl_createdAt = 0, pl_updatedAt = 0 \<rparr>"

definition ex_dleg :: "string \<Rightarrow> string \<Rightarrow> int \<Rightarrow> int \<Rightarrow> leg" where
  "ex_dleg i pid n t = mk_leg i pid \<lparr> df_legIndex = n, df_legType = dex, df_chainId = None, df_targetQuantity = 1 \<rparr> t"

definition ex_two :: exec_db where
  "ex_two = empty_exec\<lparr> ed_plans := [ex_dplan ''p''], ed_legs := [ex_dleg ''buy'' ''p'' 0 1, ex_dleg ''sell'' ''p'' 1 1] \<rparr>"

definition ex_full :: exec_db where
  "ex_full = empty_exec\<lparr> ed_plans := [ex_dplan ''paper'', ex_dplan ''p''],
     ed_legs := map (\<lambda>n. ex_dleg (replicate n (CHR ''x'')) ''paper'' (int n) 0) [0..<20] @ [ex_dleg ''buy'' ''p'' 0 1] \<rparr>"

lemmas ex_drive_defs = ex_two_def ex_dplan_def ex_dleg_def mk_leg_def empty_exec_def

lemma ex_two_inv: "exec_inv ex_two"
  by (simp add: exec_inv_def ex_drive_defs events_ok_def events_def get_plan_def get_leg_def get_row_def leg_ok_def
    leg_has_plan_def plan_ok_def)

lemma ex_drive_calm: "calm (ex_drive_world v)"
  by (simp add: calm_def ex_drive_world_def ex_drive_answer_def)

lemma ex_two_facts:
  "length (filter (\<lambda>l. lg_state l = L_created) (ed_legs ex_two)) \<le> 20"
  "get_plan ''p'' ex_two = Some (ex_dplan ''p'')" "pl_state (ex_dplan i) = P_executing"
  "legs_of_plan ''p'' ex_two = [ex_dleg ''buy'' ''p'' 0 1, ex_dleg ''sell'' ''p'' 1 1]"
  "lg_state (ex_dleg i pid n t) = L_created" "lg_legType (ex_dleg i pid n t) = dex" "lg_legIndex (ex_dleg i pid n t) = n"
  "lg_id (ex_dleg i pid n t) = i" "fresh_key a i ex_two"
  "isLiveVenueKey (driver_venue (ex_dplan ''p'') (ex_dleg i pid 0 t))"
  "isLiveVenueKey (driver_venue (ex_dplan ''p'') (ex_dleg i pid 1 t))"
  by (simp_all add: ex_drive_defs get_plan_def get_row_def legs_of_plan_def fresh_key_def driver_venue_def obj_field_def
    js_member_def jidx_def isLiveVenueKey_def DEX_VENUE_KEYS_def)

lemma ex_answers:
  "v i = VSent x m \<Longrightarrow> accepting (dw_leg (ex_drive_world v) i)" "v i = VClientError msg \<Longrightarrow> refusing (dw_leg (ex_drive_world v) i)"
  by (simp_all add: accepting_def refusing_def ex_drive_world_def ex_drive_answer_def)

lemma driver_cycle_is_a_run_witness:
  "exec_step\<^sup>*\<^sup>* ex_two (leg_drive_cycle False (Some ''true'') False (ex_drive_world (\<lambda>i. VSent ''order'' None)) ex_two)"
  by (rule driver_cycle_is_a_run) (simp add: serviced_def ex_drive_world_def ex_drive_answer_def)


lemma cycle_sells_without_buy_witness:
  "\<exists>d'. map_option lg_state (get_leg ''buy'' d') = Some L_failed \<and> map_option lg_state (get_leg ''sell'' d') = Some L_filled
     \<and> map_option pl_state (get_plan ''p'' d') = Some P_executing"
proof -
  let ?v = "\<lambda>i. if i = ''buy'' then VClientError ''no'' else VSent ''order'' None"
  show ?thesis
    using cycle_sells_without_buy [OF ex_two_inv ex_drive_calm [of ?v] ex_two_facts(1,2,3),
      of "ex_dleg ''buy'' ''p'' 0 1" "ex_dleg ''sell'' ''p'' 1 1", OF _ _ _ _ _ _ _ _ _ refl]
    by (auto simp: ex_two_facts ex_answers)
qed

lemma ex_full_batch: "set (created_batch ex_full) \<subseteq> {l. lg_planId l = ''paper''}"
proof -
  have "sort_key lg_createdAt (filter (\<lambda>l. lg_state l = L_created) (ed_legs ex_full)) = ed_legs ex_full"
    by (simp add: ex_full_def ex_drive_defs sorted_sort_id filter_id_conv upt_rec)
  then show ?thesis by (auto simp: created_batch_def ex_full_def ex_dleg_def empty_exec_def)
qed

lemma driver_starves_witness:
  "fold (leg_drive_cycle False (Some ''true'') False) (replicate 100 (ex_drive_world (\<lambda>i. VSent ''order'' None))) ex_full = ex_full"
proof (rule driver_starves)
  have p: "get_plan ''paper'' ex_full = Some (ex_dplan ''paper'')"
    by (simp add: ex_full_def get_plan_def get_row_def ex_dplan_def)
  have n: "\<not> isLiveVenueKey (driver_venue (ex_dplan ''paper'') l)" for l
    by (simp add: driver_venue_def ex_dplan_def isLiveVenueKey_def)
  have b: "lg_planId l = ''paper''" if "l \<in> set (created_batch ex_full)" for l using that ex_full_batch by blast
  show "\<forall>W \<in> set (replicate 100 (ex_drive_world (\<lambda>i. VSent ''order'' None))). \<forall>l \<in> set (created_batch ex_full). \<forall>p.
      get_plan (lg_planId l) ex_full = Some p \<longrightarrow> pl_state p = P_executing \<longrightarrow>
       \<not> isLiveVenueKey (driver_venue p l) \<or> an_halted (dw_leg W (lg_id l))"
    using b p n by auto
qed (simp add: ex_drive_calm)

end
