(* ===== verification/Live_Drive.thy ===== *)
theory Live_Drive
  imports Live_Gates Plan_Setup Opportunity
begin

text \<open>
  \<open>live-auto-drive.worker.ts\<close>: one tick of the worker that turns evaluated opportunities into
  live plans, over the opportunity database, the plan-setup saga and the guards in front of it.
\<close>

section \<open>One opportunity\<close>

text \<open>What the services answer while an opportunity is handled.\<close>

record drive_env =
  dv_haltOk :: bool                    \<comment> \<open>the poll of the kill switch: reply, body, time\<close>
  dv_haltBody :: json
  dv_haltNow :: int
  dv_price :: http_response
  dv_riskReached :: bool
  dv_fee :: http_response
  dv_roundTrip :: http_response
  dv_uuid :: string                    \<comment> \<open>\<open>randomUUID()\<close>\<close>
  dv_setup :: setup_env
  dv_now :: int

datatype drive_skip = skip_min_profit | skip_no_instrument | skip_no_token | skip_no_price | skip_no_venue
  | skip_no_quote | skip_negative_roundtrip | setup_refused

definition payload_str :: "opportunity \<Rightarrow> string \<Rightarrow> string option" where
  "payload_str opp k = (case map_of (op_payload opp) k of Some (JStr s) \<Rightarrow> Some s | _ \<Rightarrow> None)"

definition payload_num :: "opportunity \<Rightarrow> string \<Rightarrow> rat option" where
  "payload_num opp k = (case map_of (op_payload opp) k of Some (JNum q) \<Rightarrow> Some q | _ \<Rightarrow> None)"

definition evidence :: "opportunity \<Rightarrow> string \<Rightarrow> json option" where
  "evidence opp k = (case map_of (op_payload opp) ''evidence'' of None \<Rightarrow> None | Some ev \<Rightarrow> jget ev k)"

definition grossProfitUsd :: "rat \<Rightarrow> opportunity \<Rightarrow> rat" where
  "grossProfitUsd notionalUsd opp =
     (case (evidence opp ''buyPrice'', evidence opp ''sellPrice'') of
        (Some (JNum b), Some (JNum s)) \<Rightarrow> if b > 0 \<and> s > 0 then notionalUsd * (s - b) / b else 0
      | _ \<Rightarrow> 0)"

definition drive_correlationId :: "drive_env \<Rightarrow> risk_db \<Rightarrow> opportunity \<Rightarrow> string" where
  "drive_correlationId v k opp =
     (let fallback = (case op_correlationId opp of None \<Rightarrow> dv_uuid v | Some c \<Rightarrow> c);
          rid = (case op_riskDecisionId opp of None \<Rightarrow> [] | Some r \<Rightarrow> r)
      in case getRiskDecision_live rid (if dv_riskReached v then get_decision_route rid k else Unreachable) of
           None \<Rightarrow> fallback | Some c \<Rightarrow> c)"

text \<open>
  The body of the loop up to the saga: the reason of a skip, or the input of the saga. A fee tier
  that is no integer is refused by the validators of the orchestrator.
\<close>

definition drive_input :: "live_config \<Rightarrow> drive_env \<Rightarrow> risk_db \<Rightarrow> opportunity \<Rightarrow> drive_skip + plan_setup_input" where
  "drive_input cfg v k opp =
     (case payload_num opp ''netProfitUsd'' of
        None \<Rightarrow> Inl skip_min_profit
      | Some net \<Rightarrow>
      if net < lv_minNetProfitUsd cfg then Inl skip_min_profit
      else case payload_str opp ''instrumentKey'' of
        None \<Rightarrow> Inl skip_no_instrument
      | Some instrumentKey \<Rightarrow>
      (case resolveTokens instrumentKey of
        None \<Rightarrow> Inl skip_no_token
      | Some tokens \<Rightarrow>
      (case getTokenPriceUsd (dv_price v) of
        None \<Rightarrow> Inl skip_no_price
      | Some quoteUsd \<Rightarrow>
      (case computeAmountIns tokens (lv_notionalUsd cfg) (evidence opp ''buyPrice'') quoteUsd of
        None \<Rightarrow> Inl skip_no_price
      | Some (buyAmountIn, sellAmountIn) \<Rightarrow>
      (case (payload_str opp ''buyVenue'', payload_str opp ''sellVenue'') of
        (Some buyVenue, Some sellVenue) \<Rightarrow>
          (case evaluateRoundTrip (dv_roundTrip v) of
             None \<Rightarrow> Inl skip_no_quote
           | Some bps \<Rightarrow>
               (if \<not> js_less (lv_minRoundTripBps cfg) (Fin bps) then Inl skip_negative_roundtrip
                else case getBestFeeTier (dv_fee v) of
                  Some q \<Rightarrow>
                    (if q \<noteq> of_int \<lfloor>q\<rfloor> then Inl setup_refused
                     else Inr \<lparr> pi_correlationId = drive_correlationId v k opp,
                       pi_riskDecisionId = (case op_riskDecisionId opp of None \<Rightarrow> [] | Some r \<Rightarrow> r),
                       pi_routeKey = instrumentKey, pi_notionalUsd = lv_notionalUsd cfg, pi_slippageBps = None, pi_tokens = tokens,
                       pi_buyAmountIn = buyAmountIn, pi_sellAmountIn = sellAmountIn, pi_buyVenueKey = buyVenue, pi_sellVenueKey = sellVenue,
                       pi_grossProfitUsd = grossProfitUsd (lv_notionalUsd cfg) opp,
                       pi_buyFeeTier = Some \<lfloor>q\<rfloor>, pi_sellFeeTier = Some \<lfloor>q\<rfloor> \<rparr>)
                | None \<Rightarrow> Inr \<lparr> pi_correlationId = drive_correlationId v k opp,
                       pi_riskDecisionId = (case op_riskDecisionId opp of None \<Rightarrow> [] | Some r \<Rightarrow> r),
                       pi_routeKey = instrumentKey, pi_notionalUsd = lv_notionalUsd cfg, pi_slippageBps = None, pi_tokens = tokens,
                       pi_buyAmountIn = buyAmountIn, pi_sellAmountIn = sellAmountIn, pi_buyVenueKey = buyVenue, pi_sellVenueKey = sellVenue,
                       pi_grossProfitUsd = grossProfitUsd (lv_notionalUsd cfg) opp, pi_buyFeeTier = None, pi_sellFeeTier = None \<rparr>))
      | _ \<Rightarrow> Inl skip_no_venue)))))"

section \<open>The tick\<close>

record live_world =
  lw_opps :: opp_db
  lw_system :: system
  lw_halt :: halt_cache
  lw_config :: live_cache

text \<open>
  \<open>res[0]?.rowCount ?? res[0]?.changes ?? 0\<close> of the answer of the conditional \<open>UPDATE\<close>; the driver
  is the argument that gives this answer for a number of changed rows.
\<close>

definition updated_count :: "json \<Rightarrow> rat" where
  "updated_count res =
     (case res of
        JArr (x # _) \<Rightarrow>
          (case jcoalesce (jget x ''rowCount'') (jget x ''changes'') of Some (JNum n) \<Rightarrow> n | _ \<Rightarrow> 0)
      | _ \<Rightarrow> 0)"

definition matched_rows :: "string \<Rightarrow> opp_db \<Rightarrow> nat" where
  "matched_rows i d = length (filter (\<lambda>x. op_id x = i \<and> op_livePlanId x = None) (od_opps d))"

definition drive_one :: "live_config \<Rightarrow> (nat \<Rightarrow> json) \<Rightarrow> drive_env \<Rightarrow> opportunity \<Rightarrow> live_world \<Rightarrow> nat \<times> live_world" where
  "drive_one cfg driver v opp w =
     (case drive_input cfg v (sy_risk (lw_system w)) opp of
        Inl _ \<Rightarrow> (0, w)
      | Inr i \<Rightarrow>
          (case orchestrate (dv_setup v) i (lw_system w) of
             (Inl _, s) \<Rightarrow> (0, w\<lparr>lw_system := s\<rparr>)
           | (Inr (planId, _), s) \<Rightarrow>
               (let updated = updated_count (driver (matched_rows (op_id opp) (lw_opps w)))
                in (if updated > 0 then 1 else 0,
                    w\<lparr>lw_system := s, lw_opps := stamp_live_plan planId (op_id opp) (dv_now v) (lw_opps w)\<rparr>))))"

fun drive_loop ::
  "(string \<Rightarrow> json option) \<Rightarrow> halt_env \<Rightarrow> live_config \<Rightarrow> (nat \<Rightarrow> json) \<Rightarrow> (nat \<Rightarrow> drive_env) \<Rightarrow> nat \<Rightarrow> opportunity list
     \<Rightarrow> live_world \<Rightarrow> nat \<times> live_world" where
  "drive_loop JSON_parse he cfg driver env k [] w = (0, w)"
| "drive_loop JSON_parse he cfg driver env k (opp # rest) w =
     (case live_isLiveHalted JSON_parse he (dv_haltOk (env k)) (dv_haltBody (env k)) (dv_haltNow (env k)) (lw_halt w) of
        (True, c) \<Rightarrow> (0, w\<lparr>lw_halt := c\<rparr>)
      | (False, c) \<Rightarrow>
          (case drive_one cfg driver (env k) opp (w\<lparr>lw_halt := c\<rparr>) of
             (n, w1) \<Rightarrow> (case drive_loop JSON_parse he cfg driver env (k + 1) rest w1 of (m, w2) \<Rightarrow> (n + m, w2))))"

definition runCycleInner ::
  "(string \<Rightarrow> json option) \<Rightarrow> halt_env \<Rightarrow> live_config \<Rightarrow> (nat \<Rightarrow> json) \<Rightarrow> (nat \<Rightarrow> drive_env) \<Rightarrow> live_world \<Rightarrow> nat \<times> live_world" where
  "runCycleInner JSON_parse he cfg driver env w =
     (if int (live_in_flight (lw_opps w)) \<ge> lv_maxConcurrentPlans cfg then (0, w)
      else drive_loop JSON_parse he cfg driver env 0 (undispatched (nat (lv_batchSize cfg)) (lw_opps w)) w)"

datatype tick_status = T_idle | T_disabled | T_halted | T_ran nat

text \<open>
  \<open>runCycle\<close>: the flags are \<open>isShuttingDown\<close> and \<open>isRunning\<close>, \<open>resp\<close> the answer of the config
  service at \<open>t0\<close>, and the first poll of the kill switch has its own answer.
\<close>

definition live_tick ::
  "(string \<Rightarrow> json option) \<Rightarrow> live_env \<Rightarrow> halt_env \<Rightarrow> (nat \<Rightarrow> json) \<Rightarrow> bool \<Rightarrow> bool \<Rightarrow> http_response \<Rightarrow> int
     \<Rightarrow> bool \<Rightarrow> json \<Rightarrow> int \<Rightarrow> (nat \<Rightarrow> drive_env) \<Rightarrow> live_world \<Rightarrow> tick_status \<times> live_world" where
  "live_tick JSON_parse le he driver isShuttingDown isRunning resp t0 ok body t1 env w =
     (if isShuttingDown \<or> isRunning then (T_idle, w)
      else case ensureEffectiveConfigLoaded JSON_parse le resp t0 (lw_config w) of
        (cfg, cc) \<Rightarrow>
          (let w1 = w\<lparr>lw_config := cc\<rparr>
           in if \<not> lv_enabled cfg then (T_disabled, w1)
              else case live_isLiveHalted JSON_parse he ok body t1 (lw_halt w1) of
                (True, c) \<Rightarrow> (T_halted, w1\<lparr>lw_halt := c\<rparr>)
              | (False, c) \<Rightarrow>
                  (case runCycleInner JSON_parse he cfg driver env (w1\<lparr>lw_halt := c\<rparr>) of (n, w2) \<Rightarrow> (T_ran n, w2))))"

text \<open>\<open>trigger\<close>: the manual tick has the same guards.\<close>

definition trigger ::
  "(string \<Rightarrow> json option) \<Rightarrow> live_env \<Rightarrow> halt_env \<Rightarrow> (nat \<Rightarrow> json) \<Rightarrow> bool \<Rightarrow> http_response \<Rightarrow> int
     \<Rightarrow> bool \<Rightarrow> json \<Rightarrow> int \<Rightarrow> (nat \<Rightarrow> drive_env) \<Rightarrow> live_world \<Rightarrow> (bool \<times> nat \<times> string) \<times> live_world" where
  "trigger JSON_parse le he driver isRunning resp t0 ok body t1 env w =
     (if isRunning then ((False, 0, ''cycle already running''), w)
      else case live_tick JSON_parse le he driver False False resp t0 ok body t1 env w of
        (T_disabled, w') \<Rightarrow> ((False, 0, ''worker disabled''), w')
      | (T_halted, w') \<Rightarrow> ((False, 0, ''live halted''), w')
      | (T_ran n, w') \<Rightarrow> ((True, n, ''manual cycle complete''), w')
      | (T_idle, w') \<Rightarrow> ((False, 0, ''cycle already running''), w'))"

section \<open>Properties\<close>

lemma stamp_ids: "map op_id (od_opps (stamp_live_plan p i n d)) = map op_id (od_opps d)"
  by (simp add: stamp_live_plan_def)

lemma stamp_in_flight:
  assumes "distinct (map op_id (od_opps d))"
  shows "live_in_flight (stamp_live_plan p i n d) \<le> live_in_flight d + 1"
proof -
  let ?f = "\<lambda>x. if op_id x = i \<and> op_livePlanId x = None then x\<lparr>op_livePlanId := Some p, op_updatedAt := n\<rparr> else x"
  let ?P = "\<lambda>x. op_state x = O_risk_checked \<and> op_livePlanId x \<noteq> None"
  have "length (filter ?P (map ?f xs)) \<le> length (filter ?P xs) + 1" if "distinct (map op_id xs)" for xs
    using that
  proof (induction xs)
    case (Cons x xs)
    show ?case
    proof (cases "op_id x = i")
      case True
      then have "op_id y \<noteq> i" if "y \<in> set xs" for y using Cons.prems that by (auto simp: rev_image_eqI)
      then have "map ?f xs = xs" by (intro map_idI) simp
      then show ?thesis by (simp del: map_map)
    next
      case False
      with Cons show ?thesis by simp
    qed
  qed simp
  from this [OF assms] show ?thesis by (simp add: stamp_live_plan_def live_in_flight_def)
qed

lemma drive_one_in_flight:
  assumes "drive_one cfg driver v opp w = (n, w')" and "distinct (map op_id (od_opps (lw_opps w)))"
  shows "live_in_flight (lw_opps w') \<le> live_in_flight (lw_opps w) + 1 \<and> distinct (map op_id (od_opps (lw_opps w')))"
  using assms stamp_in_flight [OF assms(2)] stamp_ids
  by (auto simp: drive_one_def Let_def split: sum.splits prod.splits)

lemma drive_loop_in_flight:
  assumes "drive_loop JSON_parse he cfg driver env k os w = (n, w')" and "distinct (map op_id (od_opps (lw_opps w)))"
  shows "live_in_flight (lw_opps w') \<le> live_in_flight (lw_opps w) + length os"
  using assms
proof (induction os arbitrary: k w n)
  case (Cons opp rest)
  obtain b c where h: "live_isLiveHalted JSON_parse he (dv_haltOk (env k)) (dv_haltBody (env k)) (dv_haltNow (env k)) (lw_halt w) = (b, c)"
    by (rule prod.exhaust)
  show ?case
  proof (cases b)
    case True
    with h Cons.prems show ?thesis by auto
  next
    case False
    obtain m w1 where one: "drive_one cfg driver (env k) opp (w\<lparr>lw_halt := c\<rparr>) = (m, w1)" by (rule prod.exhaust)
    obtain l where rest: "drive_loop JSON_parse he cfg driver env (k + 1) rest w1 = (l, w')"
      using Cons.prems(1) h False one by (auto split: prod.splits)
    have "live_in_flight (lw_opps w1) \<le> live_in_flight (lw_opps w) + 1" "distinct (map op_id (od_opps (lw_opps w1)))"
      using drive_one_in_flight [OF one] Cons.prems(2) by auto
    with Cons.IH [OF rest] show ?thesis by simp
  qed
qed simp

text \<open>
  The cap on live plans. A tick that finds the cap reached marks nothing; any other tick ends with
  at most the cap less one plus the batch size in flight, so with the default batch size of one the
  cap is never exceeded.
\<close>

theorem plans_in_flight_bounded:
  assumes "runCycleInner JSON_parse he cfg driver env w = (n, w')" and "distinct (map op_id (od_opps (lw_opps w)))"
    and "1 \<le> lv_batchSize cfg"
  shows "(lv_maxConcurrentPlans cfg \<le> int (live_in_flight (lw_opps w)) \<and> w' = w)
    \<or> int (live_in_flight (lw_opps w')) \<le> lv_maxConcurrentPlans cfg - 1 + lv_batchSize cfg"
proof (cases "lv_maxConcurrentPlans cfg \<le> int (live_in_flight (lw_opps w))")
  case True
  with assms(1) show ?thesis by (simp add: runCycleInner_def)
next
  case False
  let ?os = "undispatched (nat (lv_batchSize cfg)) (lw_opps w)"
  have "length ?os \<le> nat (lv_batchSize cfg)"
    unfolding undispatched_def by (rule order_trans [OF length_filter_le]) simp
  moreover have "drive_loop JSON_parse he cfg driver env 0 ?os w = (n, w')" using assms(1) False by (simp add: runCycleInner_def)
  from drive_loop_in_flight [OF this assms(2)]
  have "live_in_flight (lw_opps w') \<le> live_in_flight (lw_opps w) + length ?os" .
  ultimately show ?thesis using False assms(3) by linarith
qed

definition ex_live_opp :: "string \<Rightarrow> string option \<Rightarrow> int \<Rightarrow> opportunity" where
  "ex_live_opp i plan t = \<lparr> op_id = i, op_correlationId = None, op_state = O_risk_checked, op_riskDecisionId = None,
     op_livePlanId = plan, op_payload = [], op_entityVersion = 1, op_createdAt = t, op_updatedAt = t \<rparr>"

definition ex_live_config :: live_config where
  "ex_live_config = \<lparr> lv_enabled = True, lv_intervalMs = 1000, lv_minNetProfitUsd = 5, lv_maxConcurrentPlans = 2, lv_notionalUsd = 50,
     lv_batchSize = 1, lv_minRoundTripBps = Fin 0 \<rparr>"

theorem plans_in_flight_bounded_witness:
  "\<forall>env w. \<exists>w'. runCycleInner (\<lambda>_. None) \<lparr> he_override = Some ''false'', he_cacheTtl = None, he_production = True \<rparr> ex_live_config (\<lambda>_. JNull) env
       (w\<lparr>lw_opps := \<lparr> od_opps = [ex_live_opp ''a'' (Some ''p'') 1, ex_live_opp ''b'' None 2], od_outbox = [], od_inbox = [] \<rparr>\<rparr>) = (0, w')
    \<and> int (live_in_flight (lw_opps w')) \<le> 2"
proof (intro allI)
  fix env :: "nat \<Rightarrow> drive_env" and w :: live_world
  let ?he = "\<lparr> he_override = Some ''false'', he_cacheTtl = None, he_production = True \<rparr>"
  let ?d = "\<lparr> od_opps = [ex_live_opp ''a'' (Some ''p'') 1, ex_live_opp ''b'' None 2], od_outbox = [], od_inbox = [] \<rparr>"
  let ?r = "runCycleInner (\<lambda>_. None) ?he ex_live_config (\<lambda>_. JNull) env (w\<lparr>lw_opps := ?d\<rparr>)"
  have "undispatched 1 ?d = [ex_live_opp ''b'' None 2]" by (simp add: undispatched_def ex_live_opp_def)
  moreover have "live_in_flight ?d = 1" by (simp add: live_in_flight_def ex_live_opp_def)
  ultimately have run: "?r = (0, w\<lparr>lw_opps := ?d\<rparr>)"
    by (simp add: runCycleInner_def ex_live_config_def live_isLiveHalted_def parseEnvOverride_def drive_one_def drive_input_def
        payload_num_def ex_live_opp_def)
  have "distinct (map op_id (od_opps (lw_opps (w\<lparr>lw_opps := ?d\<rparr>))))" by (simp add: ex_live_opp_def)
  from plans_in_flight_bounded [OF run this] run
  show "\<exists>w'. ?r = (0, w') \<and> int (live_in_flight (lw_opps w')) \<le> 2"
    by (auto simp: ex_live_config_def live_in_flight_def ex_live_opp_def)
qed

section \<open>What reaches the saga\<close>

definition guarded :: "live_config \<Rightarrow> drive_env \<Rightarrow> risk_db \<Rightarrow> opportunity \<Rightarrow> plan_setup_input \<Rightarrow> bool" where
  "guarded cfg v k opp i \<longleftrightarrow>
     (\<exists>net key tokens quoteUsd bps. payload_num opp ''netProfitUsd'' = Some net \<and> lv_minNetProfitUsd cfg \<le> net
        \<and> payload_str opp ''instrumentKey'' = Some key \<and> resolveTokens key = Some tokens \<and> pi_tokens i = tokens
        \<and> getTokenPriceUsd (dv_price v) = Some quoteUsd \<and> 0 < quoteUsd
        \<and> computeAmountIns tokens (lv_notionalUsd cfg) (evidence opp ''buyPrice'') quoteUsd = Some (pi_buyAmountIn i, pi_sellAmountIn i)
        \<and> evaluateRoundTrip (dv_roundTrip v) = Some bps \<and> js_less (lv_minRoundTripBps cfg) (Fin bps)
        \<and> pi_notionalUsd i = lv_notionalUsd cfg \<and> 0 < lv_notionalUsd cfg)"

lemma drive_input_guarded:
  assumes "drive_input cfg v k opp = Inr i"
  shows "guarded cfg v k opp i"
proof -
  obtain net key tokens quoteUsd a b bv sv bps where h: "payload_num opp ''netProfitUsd'' = Some net" "\<not> net < lv_minNetProfitUsd cfg"
    "payload_str opp ''instrumentKey'' = Some key" "resolveTokens key = Some tokens" "getTokenPriceUsd (dv_price v) = Some quoteUsd"
    "computeAmountIns tokens (lv_notionalUsd cfg) (evidence opp ''buyPrice'') quoteUsd = Some (a, b)"
    "payload_str opp ''buyVenue'' = Some bv" "payload_str opp ''sellVenue'' = Some sv"
    "evaluateRoundTrip (dv_roundTrip v) = Some bps" "js_less (lv_minRoundTripBps cfg) (Fin bps)"
    using assms unfolding drive_input_def
    by (auto split: option.splits if_splits prod.splits)
  have "pi_tokens i = tokens \<and> (pi_buyAmountIn i, pi_sellAmountIn i) = (a, b) \<and> pi_notionalUsd i = lv_notionalUsd cfg"
    using assms h by (auto simp: drive_input_def split: option.splits if_splits)
  moreover have "0 < quoteUsd" "0 < lv_notionalUsd cfg" using h(6) by (auto simp: computeAmountIns_def split: if_splits)
  ultimately show ?thesis using h unfolding guarded_def by auto
qed

end
