(* ===== verification/Live_Props.thy ===== *)
theory Live_Props
  imports Live_Drive Scanner_Props
begin

text \<open>
  Properties of the live auto drive: what the tokens and amounts of an opportunity of the scanner
  are, and that a tick touches the other services only through guarded runs of the saga.
\<close>

section \<open>Tokens and amounts\<close>

lemma hex_not_dash: "hex_val c \<noteq> None \<Longrightarrow> c \<noteq> CHR ''-''"
  by (auto simp: hex_val.simps)

lemma address_plain:
  assumes "ADDRESS_RE a"
  shows "a \<noteq> []" "CHR ''-'' \<notin> set a"
proof -
  from assms show "a \<noteq> []" by (auto simp: ADDRESS_RE_def)
  obtain r where r: "a = ''0x'' @ r" using assms by (auto simp: ADDRESS_RE_def starts_with_iff)
  then have "list_all (\<lambda>c. hex_val c \<noteq> None) r" using assms by (simp add: ADDRESS_RE_def)
  then show "CHR ''-'' \<notin> set a" using hex_not_dash by (auto simp: r list_all_iff)
qed

text \<open>
  The key of a finding names its tokens. For a spread between token addresses, the key that the
  scanner publishes is read back by the opportunity service as the same chain and addresses, and it
  resolves exactly when the chain has an address book and the decimals of both tokens are known.
\<close>

theorem scanner_key_roundtrip:
  assumes "0 < xs_chainId x" and "ADDRESS_RE (xs_token0 x)" "ADDRESS_RE (xs_token1 x)"
  shows "parseInstrumentKey (deriveInstrumentKey x) = Some (xs_chainId x, xs_token0 x, xs_token1 x)
    \<and> resolveTokens (deriveInstrumentKey x) =
        (case (pickAddressBook (xs_chainId x), map_of KNOWN_DECIMALS_BY_ADDRESS (js_lower (xs_token0 x)),
               map_of KNOWN_DECIMALS_BY_ADDRESS (js_lower (xs_token1 x))) of
           (Some _, Some d0, Some d1) \<Rightarrow> Some \<lparr> rt_token0Address = xs_token0 x, rt_token1Address = xs_token1 x,
              rt_decimals0 = d0, rt_decimals1 = d1, rt_chainId = xs_chainId x \<rparr>
         | _ \<Rightarrow> None)"
proof -
  have "parseInstrumentKey (deriveInstrumentKey x) = Some (xs_chainId x, xs_token0 x, xs_token1 x)"
    using parse_key [OF assms(1) address_plain(1) [OF assms(2)] address_plain(1) [OF assms(3)] address_plain(2) [OF assms(2)]]
    by (simp add: deriveInstrumentKey_def)
  then show ?thesis
    using assms(2,3) by (simp add: resolveTokens_def resolveAddress_def resolveDecimals_def split: option.split)
qed

definition ex_token_spread :: cross_spread where
  "ex_token_spread = ex_spread\<lparr>xs_token0 := ''0x539bdE0d7Dbd336b79148AA742883198BBF60342'',
     xs_token1 := ''0xaf88d065e77c8cC2239327C5EDb3A432268e5831''\<rparr>"

theorem scanner_key_roundtrip_witness:
  "map_option rt_decimals0 (resolveTokens (deriveInstrumentKey ex_token_spread)) = Some 18
    \<and> map_option rt_decimals1 (resolveTokens (deriveInstrumentKey ex_token_spread)) = Some 6"
proof -
  have "0 < xs_chainId ex_token_spread" by (simp add: ex_token_spread_def ex_spread_def)
  moreover have "ADDRESS_RE (xs_token0 ex_token_spread)" "ADDRESS_RE (xs_token1 ex_token_spread)"
    "map_of KNOWN_DECIMALS_BY_ADDRESS (js_lower (xs_token0 ex_token_spread)) = Some 18"
    "map_of KNOWN_DECIMALS_BY_ADDRESS (js_lower (xs_token1 ex_token_spread)) = Some 6" by code_simp+
  moreover have "pickAddressBook (xs_chainId ex_token_spread) \<noteq> None"
    by (simp add: pickAddressBook_def ex_token_spread_def ex_spread_def)
  ultimately show ?thesis using scanner_key_roundtrip [of ex_token_spread] by auto
qed

text \<open>
  The key of a finding that the orphan worker publishes again has a pool for its base token: it does
  not resolve, unless the address of the pool is that of a known token.
\<close>

lemma republished_key_unresolved:
  assumes "0 < fd_chainId f" and "ADDRESS_RE (fd_buyPoolAddr f)" "ADDRESS_RE (fd_canonicalToken f)"
    and "js_lower (fd_buyPoolAddr f) \<notin> fst ` set KNOWN_DECIMALS_BY_ADDRESS"
  shows "resolveTokens (deriveInstrumentKey (reconstructSpread f)) = None"
proof -
  have "parseInstrumentKey (deriveInstrumentKey (reconstructSpread f)) = Some (fd_chainId f, fd_buyPoolAddr f, fd_canonicalToken f)"
    using parse_key [OF assms(1) address_plain(1) [OF assms(2)] address_plain(1) [OF assms(3)] address_plain(2) [OF assms(2)]]
    by (simp add: deriveInstrumentKey_def reconstructSpread_def)
  moreover have "map_of KNOWN_DECIMALS_BY_ADDRESS (js_lower (fd_buyPoolAddr f)) = None" using assms(4) by (simp add: map_of_eq_None_iff)
  ultimately show ?thesis
    using assms(2) by (simp add: resolveTokens_def resolveDecimals_def split: option.split)
qed

text \<open>
  The amounts are worth the notional. Whenever amounts are computed, the input of the buy leg is
  within half a unit of the notional at the price of the quote token, the input of the sell leg is
  within half a unit of what that buys at the observed price, and neither is negative.
\<close>

theorem amounts_priced:
  assumes "computeAmountIns tokens notionalUsd (Some (JNum buyPrice)) quoteUsd = Some (buyIn, sellIn)"
  shows "\<bar>of_int buyIn / 10 ^ nat (rt_decimals1 tokens) * quoteUsd - notionalUsd\<bar> \<le> quoteUsd / (2 * 10 ^ nat (rt_decimals1 tokens))
    \<and> \<bar>of_int sellIn / 10 ^ nat (rt_decimals0 tokens) * buyPrice - notionalUsd / quoteUsd\<bar>
        \<le> buyPrice / (2 * 10 ^ nat (rt_decimals0 tokens))
    \<and> 0 \<le> buyIn \<and> 0 \<le> sellIn"
proof -
  let ?a = "10 ^ nat (rt_decimals1 tokens) :: rat" and ?b = "10 ^ nat (rt_decimals0 tokens) :: rat"
  have g: "0 < notionalUsd" "0 < quoteUsd" "0 < buyPrice" and v: "buyIn = js_round (notionalUsd / quoteUsd * ?a)"
    "sellIn = js_round (notionalUsd / quoteUsd / buyPrice * ?b)"
    using assms by (auto simp: computeAmountIns_def Let_def split: if_splits)
  have near: "\<bar>of_int (js_round (q * s)) / s * r - q * r\<bar> \<le> r / (2 * s)" if "0 < s" "0 < r" for q s r :: rat
  proof -
    have "of_int (js_round (q * s)) / s * r - q * r = (of_int (js_round (q * s)) - q * s) * (r / s)"
      using that by (simp add: field_simps)
    also have "\<bar>\<dots>\<bar> = \<bar>of_int (js_round (q * s)) - q * s\<bar> * (r / s)" using that by (simp add: abs_mult)
    also have "\<dots> \<le> 1 / 2 * (r / s)" using that by (intro mult_right_mono js_round_near) simp
    finally show ?thesis by (simp add: field_simps)
  qed
  have nn: "0 \<le> js_round q" if "0 \<le> q" for q using that by (simp add: js_round_def)
  have "notionalUsd / quoteUsd * quoteUsd = notionalUsd" "notionalUsd / quoteUsd / buyPrice * buyPrice = notionalUsd / quoteUsd"
    using g by simp_all
  with near [of ?a quoteUsd "notionalUsd / quoteUsd"] near [of ?b buyPrice "notionalUsd / quoteUsd / buyPrice"] g
  have "\<bar>of_int buyIn / ?a * quoteUsd - notionalUsd\<bar> \<le> quoteUsd / (2 * ?a)"
    "\<bar>of_int sellIn / ?b * buyPrice - notionalUsd / quoteUsd\<bar> \<le> buyPrice / (2 * ?b)"
    unfolding v by simp_all
  moreover have "0 \<le> buyIn" "0 \<le> sellIn" unfolding v using g by (auto intro!: nn)
  ultimately show ?thesis by blast
qed

theorem amounts_priced_witness:
  "\<exists>b s. computeAmountIns \<lparr> rt_token0Address = ''a'', rt_token1Address = ''b'', rt_decimals0 = 18, rt_decimals1 = 6, rt_chainId = 1 \<rparr>
       50 (Some (JNum 3)) 2 = Some (b, s)
    \<and> \<bar>of_int b / 10 ^ 6 * 2 - 50\<bar> \<le> (2 :: rat) / (2 * 10 ^ 6) \<and> 0 \<le> s"
proof -
  let ?t = "\<lparr> rt_token0Address = ''a'', rt_token1Address = ''b'', rt_decimals0 = 18, rt_decimals1 = 6, rt_chainId = 1 \<rparr>"
  obtain b s where c: "computeAmountIns ?t 50 (Some (JNum 3)) 2 = Some (b, s)" by (simp add: computeAmountIns_def Let_def)
  with amounts_priced [OF c] show ?thesis by auto
qed

section \<open>The tick\<close>

inductive guarded_run :: "live_config \<Rightarrow> opportunity set \<Rightarrow> system \<Rightarrow> system \<Rightarrow> bool" for cfg opps where
  none: "guarded_run cfg opps s s"
| saga: "guarded_run cfg opps s s1 \<Longrightarrow> opp \<in> opps \<Longrightarrow> guarded cfg v (sy_risk s1) opp i
    \<Longrightarrow> orchestrate (dv_setup v) i s1 = (out, s2) \<Longrightarrow> guarded_run cfg opps s s2"

lemma guarded_run_trans: "guarded_run cfg opps s1 s2 \<Longrightarrow> guarded_run cfg opps s s1 \<Longrightarrow> guarded_run cfg opps s s2"
  by (induction s1 s2 rule: guarded_run.induct) (auto intro: guarded_run.intros)

lemma guarded_run_mono: "guarded_run cfg opps s s' \<Longrightarrow> opps \<subseteq> opps' \<Longrightarrow> guarded_run cfg opps' s s'"
  by (induction rule: guarded_run.induct) (auto intro: guarded_run.intros)

lemma drive_one_guarded:
  assumes "drive_one cfg driver v opp w = (n, w')"
  shows "guarded_run cfg {opp} (lw_system w) (lw_system w')"
proof (cases "drive_input cfg v (sy_risk (lw_system w)) opp")
  case (Inl e)
  with assms show ?thesis by (simp add: drive_one_def guarded_run.none)
next
  case (Inr i)
  obtain out s where r: "orchestrate (dv_setup v) i (lw_system w) = (out, s)" by (rule prod.exhaust)
  have "guarded_run cfg {opp} (lw_system w) s"
    using guarded_run.saga [OF guarded_run.none _ drive_input_guarded [OF Inr] r] by simp
  moreover have "lw_system w' = s" using assms Inr r by (auto simp: drive_one_def Let_def split: sum.splits)
  ultimately show ?thesis by simp
qed

lemma drive_loop_guarded:
  "drive_loop JSON_parse he cfg driver env k os w = (n, w') \<Longrightarrow> guarded_run cfg (set os) (lw_system w) (lw_system w')"
proof (induction os arbitrary: k w n)
  case (Cons opp rest)
  obtain b c where h: "live_isLiveHalted JSON_parse he (dv_haltOk (env k)) (dv_haltBody (env k)) (dv_haltNow (env k)) (lw_halt w) = (b, c)"
    by (rule prod.exhaust)
  show ?case
  proof (cases b)
    case True
    with h Cons.prems show ?thesis by (auto intro: guarded_run.none)
  next
    case False
    obtain m w1 where one: "drive_one cfg driver (env k) opp (w\<lparr>lw_halt := c\<rparr>) = (m, w1)" by (rule prod.exhaust)
    obtain l where "drive_loop JSON_parse he cfg driver env (k + 1) rest w1 = (l, w')"
      using Cons.prems(1) h False one by (auto split: prod.splits)
    from Cons.IH [OF this] drive_one_guarded [OF one] show ?thesis
      by (auto intro: guarded_run_trans guarded_run_mono)
  qed
qed (simp add: guarded_run.none)

definition pending :: "opp_db \<Rightarrow> opportunity set" where
  "pending d = {opp \<in> set (od_opps d). op_state opp = O_risk_checked \<and> op_livePlanId opp = None}"

text \<open>What a tick needs to act: the worker is enabled, not halted, and a slot is free.\<close>

definition tick_open :: "live_config \<Rightarrow> bool \<Rightarrow> opp_db \<Rightarrow> bool" where
  "tick_open cfg halted d \<longleftrightarrow> lv_enabled cfg \<and> \<not> halted \<and> int (live_in_flight d) < lv_maxConcurrentPlans cfg"


text \<open>The answer of the driver is a pair of the rows and their number, so no plan is ever counted.\<close>

lemma typeorm_count_is_zero: "updated_count (JArr [JArr [], JNum n]) = 0"
  by (simp add: updated_count_def jcoalesce_def)

text \<open>A saga that fails leaves the opportunity pending, also when its plan is already executing.\<close>

lemma failed_saga_stays_pending:
  assumes "drive_input cfg v (sy_risk (lw_system w)) opp = Inr i" and "orchestrate (dv_setup v) i (lw_system w) = (Inl e, s)"
  shows "drive_one cfg driver v opp w = (0, w\<lparr>lw_system := s\<rparr>)"
  using assms by (simp add: drive_one_def)

end
