(* ===== verification/Plan_Setup_Props.thy ===== *)
theory Plan_Setup_Props
  imports Plan_Setup
begin

text \<open>
  Properties of the plan-setup saga: what a success guarantees across the four services, what a
  failure leaves behind, and what a lost answer of the last call does.
\<close>

section \<open>Steps\<close>

lemma signedPost_Inr:
  assumes "signedPost f route s = (Inr v, s')"
  shows "f = Answered" "\<exists>st body. route s = (Response st body, s') \<and> http_ok st \<and> v = (case body of None \<Rightarrow> JObj [] | Some b \<Rightarrow> b)"
  using assms by (auto simp: signedPost_def split: fate.splits prod.splits http_response.splits if_splits)

lemma plan_answer_ok:
  assumes "plan_answer ok out = (Response st body, s')" and "http_ok st"
    and "\<And>e x. out = (Inl e, x) \<Longrightarrow> \<not> http_ok (status_of_exn e)"
  shows "\<exists>p. out = (Inr p, s') \<and> body = Some (planView p (getDexEnrichment (pl_id p) (sy_exec s')))"
  using assms by (auto simp: plan_answer_def split: prod.splits sum.splits)

lemma view_id_planView [simp]: "view_id (planView p x) = pl_id p"
  by (simp add: view_id_def planView_def)

lemma count_bridges_bad: "count_bridges b n ls = Inl e \<Longrightarrow> \<exists>m. e = BadRequestException m"
  by (induction b n ls rule: count_bridges.induct) (auto split: if_splits)

lemma resolve_legs_bad: "resolve_legs ad n ls = Inl e \<Longrightarrow> \<not> http_ok (status_of_exn e)"
proof (induction ad n ls arbitrary: e rule: resolve_legs.induct)
  case (2 ad i l ls)
  then show ?case
    by (auto simp: validateAndResolveBridgeLeg_def http_ok_def split: if_splits sum.splits option.splits)
qed simp

lemma build_saved:
  assumes "buildMultiLegPlan ad q newId now d = (out, d')"
  shows "(\<exists>e. out = Inl e \<and> \<not> http_ok (status_of_exn e) \<and> d' = d)
    \<or> (\<exists>p. out = Inr p \<and> get_plan newId d' = Some p \<and> pl_id p = newId \<and> pl_state p = P_planned
         \<and> pl_correlationId p = ml_correlationId q \<and> pl_riskDecisionId p = ml_riskDecisionId q)"
proof (cases "validateLegSequence (ml_legs q)")
  case (Inl e)
  then have "\<not> http_ok (status_of_exn e)"
    by (auto simp: validateLegSequence_def http_ok_def split: if_splits sum.splits dest!: count_bridges_bad)
  with Inl assms show ?thesis by (auto simp: buildMultiLegPlan_def)
next
  case (Inr u)
  show ?thesis
  proof (cases "resolveAndValidateLegs ad (ml_legs q)")
    case (Inl e)
    then have "\<not> http_ok (status_of_exn e)"
      unfolding resolveAndValidateLegs_def by (rule resolve_legs_bad)
    with Inl Inr assms show ?thesis by (auto simp: buildMultiLegPlan_def)
  next
    case ok: (Inr js)
    with Inr assms show ?thesis by (auto simp: buildMultiLegPlan_def Let_def db_row_simps)
  qed
qed

lemma create_step:
  assumes "createPlan e i n s = (Inr v, s1)"
  shows "\<exists>p x. v = planView p x \<and> pl_id p = pe_planId e \<and> get_plan (pe_planId e) (sy_exec s1) = Some p \<and> pl_state p = P_planned
    \<and> pl_correlationId p = Some (pi_correlationId i) \<and> pl_riskDecisionId p = Some (pi_riskDecisionId i)
    \<and> sy_capital s1 = sy_capital s \<and> sy_risk s1 = sy_risk s"
proof -
  let ?q = "plan_body i n"
  obtain st body where r: "multi_leg_route (pe_adapters e) (pe_planId e) (pe_now e 0) ?q s = (Response st body, s1)" "http_ok st"
    "v = (case body of None \<Rightarrow> JObj [] | Some b \<Rightarrow> b)"
    using signedPost_Inr(2) [OF assms [unfolded createPlan_def]] by blast
  obtain out d where b: "buildMultiLegPlan (pe_adapters e) ?q (pe_planId e) (pe_now e 0) (sy_exec s) = (out, d)" by (rule prod.exhaust)
  have q: "ml_correlationId ?q = Some (pi_correlationId i)" "ml_riskDecisionId ?q = Some (pi_riskDecisionId i)"
    by (simp_all add: plan_body_def Let_def)
  have a: "plan_answer 201 (out, s\<lparr>sy_exec := d\<rparr>) = (Response st body, s1)"
    using r(1,2) b by (auto simp: multi_leg_route_def http_ok_def split: if_splits)
  from build_saved [OF b] show ?thesis
  proof (elim disjE exE conjE)
    fix e assume "out = Inl e" "\<not> http_ok (status_of_exn e)"
    with a r(2) show ?thesis by (simp add: plan_answer_def)
  next
    fix p assume "out = Inr p" "get_plan (pe_planId e) d = Some p" "pl_id p = pe_planId e" "pl_state p = P_planned"
      "pl_correlationId p = ml_correlationId ?q" "pl_riskDecisionId p = ml_riskDecisionId ?q"
    with a r(3) q show ?thesis by (auto simp: plan_answer_def)
  qed
qed

text \<open>The errors of the checks are answered with an error status.\<close>

lemma parseCapital_bad: "parseCapitalSnapshot b = Inl e \<Longrightarrow> \<exists>m. e = BadGatewayException m"
  by (auto simp: parseCapitalSnapshot_def split: json.splits option.splits if_splits)

lemma parseRisk_bad: "parseRiskSnapshot b = Inl e \<Longrightarrow> \<exists>m. e = BadGatewayException m"
  by (auto simp: parseRiskSnapshot_def split: json.splits option.splits if_splits)

lemma getReservation_bad: "getReservation r = Inl e \<Longrightarrow> \<exists>m. e = BadGatewayException m \<or> e = NotFoundException m"
  by (auto simp: getReservation_def split: http_response.splits option.splits if_splits dest: parseCapital_bad)

lemma getRisk_bad: "getRiskDecisionHttp r = Inl e \<Longrightarrow> \<exists>m. e = BadGatewayException m \<or> e = NotFoundException m"
  by (auto simp: getRiskDecisionHttp_def split: http_response.splits option.splits if_splits dest: parseRisk_bad)

lemma load_bad:
  "loadReservationSnapshotTwice r1 r2 b = Inl e \<Longrightarrow> \<exists>m. e = BadGatewayException m \<or> e = NotFoundException m \<or> e = ConflictException m"
  unfolding loadReservationSnapshotTwice_def
  by (cases "getReservation r1"; cases "getReservation r2") (auto split: if_splits dest!: getReservation_bad)

lemma approved_bad:
  "assertApprovedRiskViaHttp risk p = Inl e \<Longrightarrow> \<exists>m. e = BadGatewayException m \<or> e = ConflictException m"
proof (cases "pl_riskDecisionId p")
  case (Some rid)
  assume "assertApprovedRiskViaHttp risk p = Inl e"
  with Some show ?thesis
    by (cases "getRiskDecisionHttp (risk rid)") (auto simp: assertApprovedRiskViaHttp_def split: if_splits dest!: getRisk_bad)
qed (auto simp: assertApprovedRiskViaHttp_def)

lemma checks_bad:
  assumes "reservation_checks risk r1 r2 b now p = Inl e"
  shows "\<not> http_ok (status_of_exn e)"
proof -
  have "assertApprovedRiskViaHttp risk p = Inl e \<or> loadReservationSnapshotTwice r1 r2 b = Inl e
      \<or> (\<exists>c. assertReservationActive now c = Inl e \<or> assertReservationMatchesPlan p c = Inl e)"
    using assms unfolding reservation_checks_def by (auto split: sum.splits)
  then have "\<exists>m. e = BadGatewayException m \<or> e = NotFoundException m \<or> e = ConflictException m"
    by (auto dest!: approved_bad load_bad simp: assertReservationActive_def assertReservationMatchesPlan_def
        split: if_splits json.splits option.splits)
  then show ?thesis by (auto simp: http_ok_def)
qed

definition link_row :: "string \<Rightarrow> int \<Rightarrow> plan \<Rightarrow> plan" where
  "link_row rid now p = p\<lparr>pl_capitalReservationId := Some rid, pl_state := P_reserved,
     pl_entityVersion := pl_entityVersion p + 1, pl_updatedAt := now\<rparr>"

lemma link_tx_out:
  "transaction (link_tx i c now) d = (out, d') \<Longrightarrow>
     (\<exists>e. out = Inl e \<and> \<not> http_ok (status_of_exn e) \<and> d' = d)
     \<or> (\<exists>p. get_plan i d = Some p \<and> pl_state p = P_planned \<and> out = Inr (link_row c now p) \<and> get_plan i d' = Some (link_row c now p))"
proof (cases "get_plan i d")
  case (Some p)
  assume l: "transaction (link_tx i c now) d = (out, d')"
  have k: "pl_id p = i" using Some by (rule get_plan_key)
  show ?thesis
  proof (cases "pl_state p = P_planned")
    case True
    with l Some have "out = Inr (link_row c now p) \<and> (\<exists>a. d' = audited a (save_plan (link_row c now p) d))"
      by (auto simp: link_tx_def transaction_def link_row_def Let_def)
    moreover have "pl_id (link_row c now p) = i" using k by (simp add: link_row_def)
    ultimately show ?thesis using Some True by (auto simp: db_row_simps)
  qed (use l Some in \<open>auto simp: link_tx_def transaction_def http_ok_def\<close>)
qed (auto simp: link_tx_def transaction_def http_ok_def)

text \<open>\<open>link\<close>: both outcomes.\<close>

lemma link_over_cases:
  assumes "link_over_services pid rid t1 t2 t3 now s = (out, s')"
  shows "sy_risk s' = sy_risk s \<and> sy_capital s' \<in> {sy_capital s, snd (get_reservation_route rid t2 (snd (get_reservation_route rid t1 (sy_capital s))))}
    \<and> ((\<exists>e. out = Inl e \<and> \<not> http_ok (status_of_exn e) \<and> sy_exec s' = sy_exec s)
       \<or> (\<exists>p. get_plan pid (sy_exec s) = Some p \<and> out = Inr (link_row rid now p) \<and> get_plan pid (sy_exec s') = Some (link_row rid now p)))"
proof -
  let ?risk = "\<lambda>i. get_decision_route i (sy_risk s)"
  let ?c1 = "get_reservation_route rid t1 (sy_capital s)"
  let ?c2 = "get_reservation_route rid t2 (snd ?c1)"
  obtain x where l: "linkReservation pid rid ?risk (fst ?c1) (fst ?c2) t3 id now (sy_exec s) = (out, x)"
    and s': "sy_exec s' = x" "sy_risk s' = sy_risk s" "sy_capital s' \<in> {sy_capital s, snd ?c2}"
    using assms by (auto simp: link_over_services_def Let_def split: prod.splits)
  have "(\<exists>e. out = Inl e \<and> \<not> http_ok (status_of_exn e) \<and> x = sy_exec s)
      \<or> (\<exists>p. get_plan pid (sy_exec s) = Some p \<and> out = Inr (link_row rid now p) \<and> get_plan pid x = Some (link_row rid now p))"
  proof (cases "get_plan pid (sy_exec s)")
    case None
    with l show ?thesis by (auto simp: linkReservation_def http_ok_def)
  next
    case (Some p)
    show ?thesis
    proof (cases "pl_state p = P_planned \<and> reservation_checks ?risk (fst ?c1) (fst ?c2) False t3 p = Inr ()")
      case True
      with l Some have "transaction (link_tx pid rid now) (sy_exec s) = (out, x)" by (simp add: linkReservation_def)
      from link_tx_out [OF this] show ?thesis by auto
    next
      case False
      then obtain e where "out = Inl e" "x = sy_exec s" "\<not> http_ok (status_of_exn e)"
        using l Some by (cases "reservation_checks ?risk (fst ?c1) (fst ?c2) False t3 p")
          (auto simp: linkReservation_def http_ok_def dest: checks_bad [unfolded http_ok_def] split: if_splits)
      then show ?thesis by simp
    qed
  qed
  with s' show ?thesis by auto
qed

lemma arm_over_cases:
  assumes "arm_over_services pid t1 t2 t3 id m now s = (out, s')"
  shows "sy_risk s' = sy_risk s
    \<and> (\<exists>rid. sy_capital s' \<in> {sy_capital s, snd (get_reservation_route rid t2 (snd (get_reservation_route rid t1 (sy_capital s))))})
    \<and> ((\<exists>e. out = Inl e \<and> \<not> http_ok (status_of_exn e) \<and> sy_exec s' = sy_exec s)
       \<or> (\<exists>p q. get_plan pid (sy_exec s) = Some p \<and> out = Inr q \<and> get_plan pid (sy_exec s') = Some q \<and> pl_state q = P_armed
            \<and> pl_capitalReservationId q = pl_capitalReservationId p))"
proof -
  let ?risk = "\<lambda>i. get_decision_route i (sy_risk s)"
  let ?c1 = "\<lambda>i. get_reservation_route i t1 (sy_capital s)"
  let ?c2 = "\<lambda>i. get_reservation_route i t2 (snd (?c1 i))"
  obtain x where l: "arm pid ?risk (\<lambda>i. fst (?c1 i)) (\<lambda>i. fst (?c2 i)) t3 id m now (sy_exec s) = (out, x)"
    and s0: "\<exists>read. s' = s\<lparr>sy_exec := x, sy_capital := (case read of None \<Rightarrow> sy_capital s | Some i \<Rightarrow> snd (?c2 i))\<rparr>"
    using assms by (auto simp: arm_over_services_def Let_def split: prod.splits)
  from s0 obtain read where "s' = s\<lparr>sy_exec := x, sy_capital := (case read of None \<Rightarrow> sy_capital s | Some i \<Rightarrow> snd (?c2 i))\<rparr>" ..
  then have s': "sy_exec s' = x" "sy_risk s' = sy_risk s" "\<exists>rid. sy_capital s' \<in> {sy_capital s, snd (?c2 rid)}"
    by (auto split: option.splits)
  have "(\<exists>e. out = Inl e \<and> \<not> http_ok (status_of_exn e) \<and> x = sy_exec s)
      \<or> (\<exists>p q. get_plan pid (sy_exec s) = Some p \<and> out = Inr q \<and> get_plan pid x = Some q \<and> pl_state q = P_armed
            \<and> pl_capitalReservationId q = pl_capitalReservationId p)"
  proof (cases "get_plan pid (sy_exec s)")
    case None
    with l show ?thesis by (auto simp: arm_def http_ok_def)
  next
    case (Some p)
    have k: "pl_id p = pid" using Some by (rule get_plan_key)
    show ?thesis
    proof (cases out)
      case (Inr q)
      from l [unfolded this] obtain crid where "pl_capitalReservationId p = Some crid"
        and tx: "transaction (arm_tx pid m now) (sy_exec s) = (Inr q, x)"
        by (rule arm_cases) (use Some in auto)
      from tx show ?thesis
        by (cases rule: arm_tx_cases) (use Some Inr k in \<open>auto simp: db_row_simps\<close>)
    next
      case (Inl e)
      have "\<not> http_ok (status_of_exn e) \<and> x = sy_exec s"
      proof (cases "pl_state p = P_reserved \<and> pl_capitalReservationId p \<noteq> None")
        case False
        then show ?thesis using l Inl Some by (auto simp: arm_def http_ok_def split: if_splits)
      next
        case True
        then obtain crid where c: "pl_state p = P_reserved" "pl_capitalReservationId p = Some crid" by auto
        show ?thesis
        proof (cases "reservation_checks ?risk (fst (?c1 crid)) (fst (?c2 crid)) True t3 p")
          case (Inl e')
          with l c Some \<open>out = Inl e\<close> checks_bad [OF Inl] show ?thesis by (simp add: arm_def)
        next
          case (Inr u)
          then have "transaction (arm_tx pid m now) (sy_exec s) = (Inl e, x)" using l c Some Inl by (simp add: arm_def)
          then show ?thesis using c Some by (auto simp: transaction_def arm_tx_def Let_def)
        qed
      qed
      then show ?thesis using Inl by simp
    qed
  qed
  with s' show ?thesis by auto
qed

lemma begin_tx_plan:
  assumes "begin_tx pid newId cnt est minNet now d = (Inr (q, ls), d')"
  shows "\<exists>p. get_plan pid d = Some p \<and> get_plan pid d' = Some q \<and> pl_state q = P_executing
    \<and> pl_capitalReservationId q = pl_capitalReservationId p"
proof -
  obtain p where p: "get_plan pid d = Some p" "pl_state p = P_armed" "legs_of_plan pid d = []"
    using assms by (auto simp: begin_tx_def split: option.splits if_splits)
  have k: "pl_id p = pid" using p(1) by (rule get_plan_key)
  define p1 where "p1 = p\<lparr>pl_state := P_executing, pl_entityVersion := pl_entityVersion p + 1, pl_updatedAt := now\<rparr>"
  obtain dfs where dfs: "begin_leg_defs (pl_playbookConfig p1) cnt = Inr dfs"
    using assms p by (auto simp: begin_tx_def Let_def p1_def split: sum.splits)
  define saved where "saved = map (\<lambda>(i, df). mk_leg (newId i) (pl_id p1) df now) (enumerate 0 dfs)"
  define d2 where "d2 = fold save_leg saved (save_plan p1 d)"
  obtain r d3 where g: "applyPlanCostGate est minNet now p1 saved d2 = (r, d3)" by (rule prod.exhaust)
  have "r = Inr (q, ls) \<and> (\<exists>a. d' = audited a d3)"
    using assms p dfs g
    by (auto simp: begin_tx_def Let_def p1_def [symmetric] saved_def [symmetric] d2_def [symmetric] split: sum.splits)
  then obtain a where r: "r = Inr (q, ls)" "d' = audited a d3" by blast
  have keep: "get_plan pid (fold save_leg xs y) = get_plan pid y" for xs y
    by (induction xs arbitrary: y) (simp_all add: db_row_simps)
  have keep2: "get_plan pid (fold (\<lambda>l. save_leg (f l)) xs y) = get_plan pid y" for f :: "leg \<Rightarrow> leg" and xs y
    by (induction xs arbitrary: y) (simp_all add: db_row_simps)
  have "get_plan pid d2 = get_plan pid (save_plan p1 d)" unfolding d2_def by (rule keep)
  then have d2: "get_plan pid d2 = Some p1" using k by (simp add: plans.get_save p1_def)
  have "get_plan pid d3 = Some q \<and> pl_state q = P_executing \<and> pl_capitalReservationId q = pl_capitalReservationId p"
    using g r(1) d2 k
    by (auto simp: applyPlanCostGate_def Let_def keep2 db_row_simps p1_def split: sum.splits if_splits)
  with p(1) r(2) show ?thesis by (simp add: db_row_simps)
qed

text \<open>The steps over HTTP.\<close>

lemma link_step:
  assumes "signedPost f (link_route pid rid now) s = (Inr v, s')"
  shows "\<exists>p. get_plan pid (sy_exec s) = Some p \<and> get_plan pid (sy_exec s') = Some (link_row rid now p) \<and> sy_risk s' = sy_risk s
    \<and> sy_capital s' \<in> {sy_capital s, snd (get_reservation_route rid now (snd (get_reservation_route rid now (sy_capital s))))}"
proof -
  obtain st body where r: "link_route pid rid now s = (Response st body, s')" "http_ok st" using signedPost_Inr(2) [OF assms] by blast
  obtain out x where l: "link_over_services pid rid now now now now s = (out, x)" by (rule prod.exhaust)
  have a: "plan_answer 200 (out, x) = (Response st body, s')"
    using r l by (auto simp: link_route_def http_ok_def split: if_splits)
  note c = link_over_cases [OF l]
  then obtain p where "out = Inr (link_row rid now p)" "get_plan pid (sy_exec s) = Some p" "get_plan pid (sy_exec x) = Some (link_row rid now p)"
    using a r(2) by (auto simp: plan_answer_def)
  with a c show ?thesis by (auto simp: plan_answer_def)
qed

lemma arm_step:
  assumes "signedPost f (arm_route pid m now) s = (Inr v, s')"
  shows "\<exists>p. arm_over_services pid now now now id m now s = (Inr p, s')"
proof -
  obtain st body where r: "arm_route pid m now s = (Response st body, s')" "http_ok st" using signedPost_Inr(2) [OF assms] by blast
  obtain out x where l: "arm_over_services pid now now now id m now s = (out, x)" by (rule prod.exhaust)
  have a: "plan_answer 200 (out, x) = (Response st body, s')"
    using r l by (auto simp: arm_route_def http_ok_def split: if_splits)
  with r(2) arm_over_cases [OF l] l show ?thesis by (auto simp: plan_answer_def)
qed

text \<open>The errors of \<open>beginExecution\<close>.\<close>

lemma gate_bad: "applyPlanCostGate est mn now p ls d = (Inl e, d') \<Longrightarrow> \<exists>m. e = UnprocessableEntityException m"
  by (auto simp: applyPlanCostGate_def Let_def split: sum.splits if_splits)

lemma parse_defs_bad: "parse_leg_defs js = Inl e \<Longrightarrow> \<exists>m. e = PlainError m"
  by (induction js arbitrary: e rule: parse_leg_defs.induct) (auto split: sum.splits option.splits)

lemma begin_defs_bad: "begin_leg_defs c n = Inl e \<Longrightarrow> \<exists>m. e = PlainError m"
  by (auto simp: begin_leg_defs_def simp del: parse_leg_defs.simps dest: parse_defs_bad split: option.splits list.splits)

lemma begin_bad: "beginExecution pid newId cnt est mn now d = (Inl e, d') \<Longrightarrow> \<not> http_ok (status_of_exn e) \<and> d' = d"
proof -
  assume b: "beginExecution pid newId cnt est mn now d = (Inl e, d')"
  then have "d' = d" unfolding beginExecution_def by (rule transaction_Inl)
  moreover have "fst (begin_tx pid newId cnt est mn now d) = Inl e"
    using b by (metis beginExecution_def fst_conv fst_transaction)
  then have "\<exists>m. e = NotFoundException m \<or> e = ConflictException m \<or> e = UnprocessableEntityException m \<or> e = PlainError m"
    by (auto simp: begin_tx_def Let_def split: option.splits if_splits sum.splits prod.splits dest!: begin_defs_bad gate_bad)
  ultimately show ?thesis by (auto simp: http_ok_def)
qed

lemma begin_step:
  assumes "signedPost f (begin_route pid newId cnt est mn now) s = (Inr v, s')"
  shows "\<exists>p q. get_plan pid (sy_exec s) = Some p \<and> get_plan pid (sy_exec s') = Some q \<and> pl_state q = P_executing
    \<and> pl_capitalReservationId q = pl_capitalReservationId p \<and> sy_capital s' = sy_capital s \<and> sy_risk s' = sy_risk s"
proof -
  obtain st body where r: "begin_route pid newId cnt est mn now s = (Response st body, s')" "http_ok st"
    using signedPost_Inr(2) [OF assms] by blast
  obtain out x where b: "beginExecution pid newId cnt est mn now (sy_exec s) = (out, x)" by (rule prod.exhaust)
  show ?thesis
  proof (cases out)
    case (Inl e)
    with r b begin_bad show ?thesis by (auto simp: begin_route_def http_ok_def split: if_splits)
  next
    case (Inr w)
    obtain q ls where w: "w = (q, ls)" by (cases w)
    have "begin_tx pid newId cnt est mn now (sy_exec s) = (Inr (q, ls), x)"
      using b Inr w by (simp add: beginExecution_def)
    from begin_tx_plan [OF this] r(1) b Inr w r(2) show ?thesis
      by (auto simp: begin_route_def http_ok_def split: if_splits)
  qed
qed

section \<open>Capital\<close>

text \<open>The reservations of a plan amount to \<open>q\<close>.\<close>

definition amounts_to :: "string \<Rightarrow> rat \<Rightarrow> capital_db \<Rightarrow> bool" where
  "amounts_to pid q c \<longleftrightarrow> (\<forall>r \<in> set (cd_reservations c). cr_planId r = Some pid \<longrightarrow> cr_amountUsd r = q)"

lemma in_saved_reservations: "f \<in> set (save_row key r rs) \<Longrightarrow> f = r \<or> f \<in> set rs"
  by (auto simp: save_row_def split: if_splits)

lemma save_row_amounts:
  "amounts_to pid q c \<Longrightarrow> (cr_planId r = Some pid \<longrightarrow> cr_amountUsd r = q)
     \<Longrightarrow> cd_reservations c' = save_row cr_id r (cd_reservations c) \<Longrightarrow> amounts_to pid q c'"
  by (auto simp: amounts_to_def dest!: in_saved_reservations)

lemma read_capital:
  "snd (get_reservation_route i t c) = (case get_res i c of None \<Rightarrow> c
     | Some r \<Rightarrow> if cr_state r = active \<and> cr_expiresAt r \<le> t
         then save_res (r\<lparr>cr_state := expired, cr_entityVersion := cr_entityVersion r + 1\<rparr>) c else c)"
  by (cases "get_res i c")
    (simp_all add: get_reservation_route_def getById_def transaction_def materializeCapitalReservationExpiryIfNeeded_def)

lemma read_amounts: "amounts_to pid q c \<Longrightarrow> amounts_to pid q (snd (get_reservation_route i t c))"
proof (cases "get_res i c")
  case (Some r)
  assume a: "amounts_to pid q c"
  have "r \<in> set (cd_reservations c)" using Some unfolding get_res_def by (rule get_row_in_set)
  with a have "cr_planId r = Some pid \<longrightarrow> cr_amountUsd r = q" by (simp add: amounts_to_def)
  then have "amounts_to pid q (save_res (r\<lparr>cr_state := expired, cr_entityVersion := cr_entityVersion r + 1\<rparr>) c)"
    by (intro save_row_amounts [OF a, of "r\<lparr>cr_state := expired, cr_entityVersion := cr_entityVersion r + 1\<rparr>"])
      (simp_all add: save_res_def)
  with a Some show ?thesis by (simp add: read_capital)
qed (simp add: read_capital)

lemma reserve_amounts:
  assumes "amounts_to pid (rd_amountUsd dto) c"
  shows "amounts_to pid (rd_amountUsd dto) (snd (reserve_route cR rid mid now dto c))"
proof -
  have at: "amounts_to pid (rd_amountUsd dto) (snd (attemptReserve cR dto rid mid now x))"
    if a: "amounts_to pid (rd_amountUsd dto) x" for x
  proof -
    obtain o1 x1 where e: "attemptReserve cR dto rid mid now x = (o1, x1)" by (rule prod.exhaust)
    from e have "amounts_to pid (rd_amountUsd dto) x1"
    proof (cases rule: attemptReserve_cases)
      case (fail e g)
      with a show ?thesis by (simp add: amounts_to_def)
    next
      case (ok k row)
      show ?thesis by (rule save_row_amounts [OF a _ ok(10)]) (simp add: ok(7))
    qed
    then show ?thesis by (simp add: e)
  qed
  show ?thesis
  proof (cases "attemptReserve cR dto rid mid now c")
    case (Pair o1 c1)
    with at [OF assms] have c1: "amounts_to pid (rd_amountUsd dto) c1" by simp
    let ?r = "reserve cR cR dto rid mid rid mid now now id c"
    have "snd ?r = c1 \<or> snd ?r = snd (attemptReserve cR dto rid mid now c1)"
      by (simp add: reserve_def Pair Let_def split: sum.split option.split)
    then have "amounts_to pid (rd_amountUsd dto) (snd ?r)" using c1 at [OF c1] by auto
    moreover have "snd (reserve_route cR rid mid now dto c) = c \<or> snd (reserve_route cR rid mid now dto c) = snd ?r"
      by (simp add: reserve_route_def split: prod.split sum.split)
    ultimately show ?thesis using assms by auto
  qed
qed

lemma reserve_step:
  assumes "reserveCapital_setup e i pid s = (Inr v, s')" and "amounts_to pid (pi_notionalUsd i) (sy_capital s)"
  shows "sy_exec s' = sy_exec s \<and> sy_risk s' = sy_risk s \<and> amounts_to pid (pi_notionalUsd i) (sy_capital s')"
proof -
  let ?dto = "\<lparr> rd_correlationId = pi_correlationId i, rd_planId = Some pid, rd_amountUsd = pi_notionalUsd i, rd_ttlSeconds = Some 300 \<rparr>"
  obtain st body where r: "on_capital (reserve_route (pe_ceiling e) (pe_reservationId e) (pe_reserveMessageId e) (pe_now e 1) ?dto) s
      = (Response st body, s')"
    using signedPost_Inr(2) [OF assms(1) [unfolded reserveCapital_setup_def]] by blast
  then have "reserve_route (pe_ceiling e) (pe_reservationId e) (pe_reserveMessageId e) (pe_now e 1) ?dto (sy_capital s)
      = (Response st body, sy_capital s')" "s' = s\<lparr>sy_capital := sy_capital s'\<rparr>"
    by (auto simp: on_capital_def split: prod.splits)
  moreover have "amounts_to pid (pi_notionalUsd i) (snd (reserve_route (pe_ceiling e) (pe_reservationId e) (pe_reserveMessageId e) (pe_now e 1) ?dto (sy_capital s)))"
    using reserve_amounts [of pid ?dto "sy_capital s"] assms(2) by simp
  ultimately show ?thesis by (metis snd_conv system.select_convs(2,3) system.surjective system.update_convs(1))
qed

section \<open>Success\<close>

lemma reserve_frame:
  assumes "signedPost f (on_capital route) s = (out, s')"
  shows "sy_exec s' = sy_exec s" "sy_risk s' = sy_risk s"
  using assms by (auto simp: signedPost_def on_capital_def split: fate.splits prod.splits http_response.splits if_splits)

lemma orchestrate_phases:
  assumes "orchestrate e i s = (Inr (pid, rid), s')"
  obtains v s1 w s2 a s3 b s4 z where
    "createPlan e i (case pi_slippageBps i of None \<Rightarrow> 50 | Some n \<Rightarrow> n) s = (Inr v, s1)" "pid = view_id v"
    "reserveCapital_setup e i pid s1 = (Inr w, s2)" "rid = view_id w"
    "signedPost (pe_fate e 2) (link_route pid rid (pe_now e 2)) s2 = (Inr a, s3)"
    "signedPost (pe_fate e 3) (arm_route pid (pe_armMessageId e) (pe_now e 3)) s3 = (Inr b, s4)"
    "signedPost (pe_fate e 4) (begin_route pid (pe_legId e) (pe_legCount e) (pe_est e) (pe_minNet e) (pe_now e 4)) s4 = (Inr z, s')"
  using assms by (auto simp: orchestrate_def setup_steps_def split: prod.splits sum.splits)

lemma setup_success:
  assumes "orchestrate e i s = (Inr (pid, rid), s')"
  shows "pid = pe_planId e \<and> (\<exists>p r dec. get_plan pid (sy_exec s') = Some p \<and> pl_state p = P_executing
      \<and> pl_capitalReservationId p = Some rid \<and> get_res rid (sy_capital s') = Some r \<and> cr_state r = active
      \<and> cr_planId r = Some pid \<and> cr_correlationId r = pi_correlationId i \<and> pe_now e 3 < cr_expiresAt r
      \<and> get_decision (pi_riskDecisionId i) (sy_risk s') = Some dec \<and> rk_outcome dec = approved
      \<and> rk_correlationId dec = pi_correlationId i)"
  using assms
proof (rule orchestrate_phases)
  fix v s1 w s2 a s3 b s4 z
  assume c: "createPlan e i (case pi_slippageBps i of None \<Rightarrow> 50 | Some n \<Rightarrow> n) s = (Inr v, s1)" "pid = view_id v"
    and r: "reserveCapital_setup e i pid s1 = (Inr w, s2)" "rid = view_id w"
    and ph: "signedPost (pe_fate e 2) (link_route pid rid (pe_now e 2)) s2 = (Inr a, s3)"
    "signedPost (pe_fate e 3) (arm_route pid (pe_armMessageId e) (pe_now e 3)) s3 = (Inr b, s4)"
    "signedPost (pe_fate e 4) (begin_route pid (pe_legId e) (pe_legCount e) (pe_est e) (pe_minNet e) (pe_now e 4)) s4 = (Inr z, s')"
  from create_step [OF c(1)] obtain p0 where p0: "pid = pe_planId e" "get_plan pid (sy_exec s1) = Some p0"
    "pl_correlationId p0 = Some (pi_correlationId i)" "pl_riskDecisionId p0 = Some (pi_riskDecisionId i)" using c(2) by auto
  note r2 = reserve_frame [OF r(1) [unfolded reserveCapital_setup_def]]
  from link_step [OF ph(1)] r2 p0 have p1: "get_plan pid (sy_exec s3) = Some (link_row rid (pe_now e 2) p0)" by auto
  from arm_step [OF ph(2)] obtain p2 where ar: "arm_over_services pid (pe_now e 3) (pe_now e 3) (pe_now e 3) id (pe_armMessageId e) (pe_now e 3) s3
    = (Inr p2, s4)" by blast
  have p2: "get_plan pid (sy_exec s4) = Some p2" "pl_capitalReservationId p2 = Some rid"
    using arm_over_cases [OF ar] p1 by (auto simp: link_row_def)
  from arm_over_services_backed [OF ar] obtain row dec where bk: "get_res rid (sy_capital s4) = Some row" "cr_state row = active"
    "pe_now e 3 < cr_expiresAt row" "cr_planId row = Some pid" "get_decision (pi_riskDecisionId i) (sy_risk s4) = Some dec"
    "rk_outcome dec = approved" "cr_correlationId row = pi_correlationId i" "rk_correlationId dec = pi_correlationId i"
    using p1(1) p0(3,4) by (auto simp: link_row_def)
  with begin_step [OF ph(3)] p2 p0(1) show ?thesis by auto
qed

lemma setup_amounts:
  assumes "orchestrate e i s = (Inr (pid, rid), s')" and "amounts_to pid (pi_notionalUsd i) (sy_capital s)"
  shows "amounts_to pid (pi_notionalUsd i) (sy_capital s')"
  using assms(1)
proof (rule orchestrate_phases)
  fix v s1 w s2 a s3 b s4 z
  assume c: "createPlan e i (case pi_slippageBps i of None \<Rightarrow> 50 | Some n \<Rightarrow> n) s = (Inr v, s1)" "pid = view_id v"
    and r: "reserveCapital_setup e i pid s1 = (Inr w, s2)" "rid = view_id w"
    and ph: "signedPost (pe_fate e 2) (link_route pid rid (pe_now e 2)) s2 = (Inr a, s3)"
    "signedPost (pe_fate e 3) (arm_route pid (pe_armMessageId e) (pe_now e 3)) s3 = (Inr b, s4)"
    "signedPost (pe_fate e 4) (begin_route pid (pe_legId e) (pe_legCount e) (pe_est e) (pe_minNet e) (pe_now e 4)) s4 = (Inr z, s')"
  have "amounts_to pid (pi_notionalUsd i) (sy_capital s1)" using create_step [OF c(1)] assms(2) by auto
  then have "amounts_to pid (pi_notionalUsd i) (sy_capital s2)" using reserve_step [OF r(1)] by blast
  then have "amounts_to pid (pi_notionalUsd i) (sy_capital s3)" using link_step [OF ph(1)] read_amounts by fastforce
  then have "amounts_to pid (pi_notionalUsd i) (sy_capital s4)" using arm_step [OF ph(2)] arm_over_cases read_amounts by fastforce
  then show ?thesis using begin_step [OF ph(3)] by auto
qed

text \<open>
  C34: a plan that was set up is backed. When the saga succeeds for a plan id that no reservation
  names yet, the plan is executing and linked to a reservation of this plan that is active, covers
  exactly the notional, carries the correlation id of the request and outlives the arming, and the
  named risk decision exists, is approved and has the same correlation id.
\<close>

theorem setup_backed:
  assumes "orchestrate e i s = (Inr (pid, rid), s')"
    and "\<forall>r \<in> set (cd_reservations (sy_capital s)). cr_planId r \<noteq> Some (pe_planId e)"
  shows "\<exists>p r dec. get_plan pid (sy_exec s') = Some p \<and> pl_state p = P_executing
      \<and> pl_capitalReservationId p = Some rid \<and> get_res rid (sy_capital s') = Some r \<and> cr_state r = active
      \<and> cr_planId r = Some pid \<and> cr_amountUsd r = pi_notionalUsd i \<and> cr_correlationId r = pi_correlationId i
      \<and> pe_now e 3 < cr_expiresAt r
      \<and> get_decision (pi_riskDecisionId i) (sy_risk s') = Some dec \<and> rk_outcome dec = approved
      \<and> rk_correlationId dec = pi_correlationId i"
proof -
  note h = setup_success [OF assms(1)]
  then have "amounts_to pid (pi_notionalUsd i) (sy_capital s)" using assms(2) by (simp add: amounts_to_def)
  then have "amounts_to pid (pi_notionalUsd i) (sy_capital s')" by (rule setup_amounts [OF assms(1)])
  with h show ?thesis unfolding amounts_to_def get_res_def using get_row_in_set by fast
qed

section \<open>Failure\<close>

lemma release_state:
  "pe_fate e 5 \<noteq> Lost \<Longrightarrow> snd (releaseReservation e rid s) = s\<lparr>sy_capital := snd (release_route rid (pe_now e 5) (sy_capital s))\<rparr>"
  by (auto simp: releaseReservation_def signedPost_def release_http_def split: prod.split fate.split)

text \<open>Reads keep every reservation and make none.\<close>

lemma get_res_save [simp]: "get_res j (save_res r c) = (if j = cr_id r then Some r else get_res j c)"
  by (rule res.get_save)

lemma read_domain: "get_res j (snd (get_reservation_route i t c)) = None \<longleftrightarrow> get_res j c = None"
  by (auto simp: read_capital dest: get_res_key split: option.split)

lemma link_domain: "get_res j (sy_capital (snd (signedPost f (link_route p r n) s))) = None \<longleftrightarrow> get_res j (sy_capital s) = None"
proof -
  have "get_res j (sy_capital (snd (link_route p r n s))) = None \<longleftrightarrow> get_res j (sy_capital s) = None"
    using link_over_cases [OF prod.collapse [symmetric], of p r n n n n s] read_domain
    by (auto simp: link_route_def plan_answer_def split: prod.splits sum.splits)
  then show ?thesis by (auto simp: signedPost_def split: fate.split prod.splits http_response.split)
qed

lemma arm_domain: "get_res j (sy_capital (snd (signedPost f (arm_route p m n) s))) = None \<longleftrightarrow> get_res j (sy_capital s) = None"
proof -
  have "get_res j (sy_capital (snd (arm_route p m n s))) = None \<longleftrightarrow> get_res j (sy_capital s) = None"
    using arm_over_cases [OF prod.collapse [symmetric], of p n n n m n s] read_domain
    by (auto simp: arm_route_def plan_answer_def split: prod.splits sum.splits)
  then show ?thesis by (auto simp: signedPost_def split: fate.split prod.splits http_response.split)
qed

lemma begin_capital: "sy_capital (snd (signedPost f (begin_route p k c x y n) s)) = sy_capital s"
proof -
  have "sy_capital (snd (begin_route p k c x y n s)) = sy_capital s"
    by (auto simp: begin_route_def split: prod.splits sum.splits)
  then show ?thesis by (auto simp: signedPost_def split: fate.split prod.splits http_response.split)
qed

lemma steps_domain: "get_res j (sy_capital (snd (setup_steps e p r s))) = None \<longleftrightarrow> get_res j (sy_capital s) = None"
  using link_domain [of j "pe_fate e 2" p r "pe_now e 2" s]
    arm_domain [of j "pe_fate e 3" p "pe_armMessageId e" "pe_now e 3" "snd (signedPost (pe_fate e 2) (link_route p r (pe_now e 2)) s)"]
  by (auto simp: setup_steps_def begin_capital split: prod.splits sum.splits)

text \<open>
  A lost answer of the last call leaves a plan that runs without capital. When the same run would
  succeed with every call answered and only the answer of the begin call is lost, the saga reports
  a failure and releases the reservation, while the plan is executing.
\<close>

theorem begin_answer_lost:
  assumes "orchestrate (e\<lparr>pe_fate := \<lambda>_. Answered\<rparr>) i s = (Inr (pid, rid), s1)"
  shows "\<exists>err s'. orchestrate (e\<lparr>pe_fate := (\<lambda>_. Answered)(4 := Answer_lost)\<rparr>) i s = (Inl err, s')
    \<and> settled rid (pe_now e 5) (sy_capital s')
    \<and> (\<exists>p. get_plan pid (sy_exec s') = Some p \<and> pl_state p = P_executing \<and> pl_capitalReservationId p = Some rid)"
  using assms
proof (rule orchestrate_phases)
  let ?g = "e\<lparr>pe_fate := \<lambda>_. Answered\<rparr>" and ?b = "e\<lparr>pe_fate := (\<lambda>_. Answered)(4 := Answer_lost)\<rparr>"
  let ?start = "begin_route pid (pe_legId e) (pe_legCount e) (pe_est e) (pe_minNet e) (pe_now e 4)"
  fix v t1 w t2 a t3 b t4 z
  assume c: "createPlan ?g i (case pi_slippageBps i of None \<Rightarrow> 50 | Some n \<Rightarrow> n) s = (Inr v, t1)" "pid = view_id v"
    and r: "reserveCapital_setup ?g i pid t1 = (Inr w, t2)" "rid = view_id w"
    and l: "signedPost (pe_fate ?g 2) (link_route pid rid (pe_now ?g 2)) t2 = (Inr a, t3)"
    and m: "signedPost (pe_fate ?g 3) (arm_route pid (pe_armMessageId ?g) (pe_now ?g 3)) t3 = (Inr b, t4)"
    and n: "signedPost (pe_fate ?g 4) (begin_route pid (pe_legId ?g) (pe_legCount ?g) (pe_est ?g) (pe_minNet ?g) (pe_now ?g 4)) t4 = (Inr z, s1)"
  have "createPlan ?b i (case pi_slippageBps i of None \<Rightarrow> 50 | Some n \<Rightarrow> n) s = (Inr v, t1)"
    using c(1) by (simp add: createPlan_def)
  moreover have "reserveCapital_setup ?b i pid t1 = (Inr w, t2)" using r(1) by (simp add: reserveCapital_setup_def)
  moreover have "snd (?start t4) = s1" using n signedPost_Inr(2) by fastforce
  then have "setup_steps ?b pid rid t2 = (Inl (ServiceUnavailableException ''upstream unreachable''), s1)"
    using l m by (simp add: setup_steps_def signedPost_def)
  ultimately have o1: "orchestrate ?b i s = (Inl (ServiceUnavailableException ''upstream unreachable''), snd (releaseReservation ?b rid s1))"
    using c(2) r(2) by (simp add: orchestrate_def)
  from setup_success [OF assms] obtain p res where p: "get_plan pid (sy_exec s1) = Some p" "pl_state p = P_executing"
    "pl_capitalReservationId p = Some rid" "get_res rid (sy_capital s1) = Some res" by blast
  have u: "is_uuid4 rid" using l by (auto simp: link_route_def signedPost_def http_ok_def split: if_splits)
  have s': "snd (releaseReservation ?b rid s1) = s1\<lparr>sy_capital := snd (release_route rid (pe_now e 5) (sy_capital s1))\<rparr>"
    by (simp add: release_state)
  have "settled rid (pe_now e 5) (snd (release_route rid (pe_now e 5) (sy_capital s1)))"
    using release_route_settles [OF p(4) u] by blast
  with o1 p show ?thesis by (simp add: s')
qed

lemma release_domain: "get_res j (snd (release_route i t c)) = None \<longleftrightarrow> get_res j c = None"
proof (cases "release i t c")
  case (Pair o1 c1)
  have "get_res j c1 = None \<longleftrightarrow> get_res j c = None"
    using release_cases [OF Pair] by (auto simp: get_res_def row_simps split: if_splits)
  with Pair show ?thesis by (auto simp: release_route_def split: sum.split)
qed

lemma attempt_new:
  assumes "attemptReserve cR dto rid mid now c = (out, c')" and "get_res j c = None"
  shows "get_res j c' = None \<or> (j = rid \<and> (\<exists>row. out = Inr row \<and> cr_id row = rid))"
  using assms(1)
proof (cases rule: attemptReserve_cases)
  case (fail e g)
  with assms(2) show ?thesis by (simp add: get_res_def)
next
  case (ok k row)
  then have "get_res j c' = (if j = rid then Some row else get_res j c)" by (simp add: get_res_def row_simps)
  with ok assms(2) show ?thesis by auto
qed

lemma reserve_new:
  assumes "reserve cR cR dto rid mid rid mid now now id c = (out, c')" and "get_res j c = None"
  shows "get_res j c' = None \<or> (j = rid \<and> (\<exists>row. out = Inr row \<and> cr_id row = rid))"
proof -
  obtain o1 c1 where a: "attemptReserve cR dto rid mid now c = (o1, c1)" by (rule prod.exhaust)
  note n1 = attempt_new [OF a assms(2)]
  show ?thesis
  proof (cases o1)
    case (Inr row)
    with a n1 assms(1) show ?thesis by (auto simp: reserve_def)
  next
    case (Inl e)
    with n1 have c1: "get_res j c1 = None" by simp
    obtain o2 c2 where b: "attemptReserve cR dto rid mid now c1 = (o2, c2)" by (rule prod.exhaust)
    show ?thesis using assms(1) a Inl b c1 attempt_new [OF b c1]
      by (auto simp: reserve_def Let_def split: if_splits option.splits)
  qed
qed

lemma reserve_route_new:
  assumes "get_res j c = None"
  shows "get_res j (snd (reserve_route cR rid mid now dto c)) = None
    \<or> (j = rid \<and> (\<exists>view. fst (reserve_route cR rid mid now dto c) = Response 201 (Some view) \<and> view_id view = rid))"
  using reserve_new [OF prod.collapse [symmetric] assms, of cR dto rid mid now] assms
  by (auto simp: reserve_route_def reservation_view_def view_id_def split: prod.splits sum.splits)

lemma create_capital: "sy_capital (snd (createPlan e i n s)) = sy_capital s"
  by (auto simp: createPlan_def signedPost_def multi_leg_route_def plan_answer_def
      split: fate.split prod.splits sum.splits http_response.splits)

lemma capital_step_new:
  assumes "reserveCapital_setup e i pid s = (out, s')" and "get_res j (sy_capital s) = None" and "pe_fate e 1 \<noteq> Answer_lost"
  shows "get_res j (sy_capital s') = None \<or> (j = pe_reservationId e \<and> (\<exists>v. out = Inr v \<and> view_id v = j))"
proof -
  let ?dto = "\<lparr> rd_correlationId = pi_correlationId i, rd_planId = Some pid, rd_amountUsd = pi_notionalUsd i, rd_ttlSeconds = Some 300 \<rparr>"
  show ?thesis
    using assms reserve_route_new [OF assms(2), of "pe_ceiling e" "pe_reservationId e" "pe_reserveMessageId e" "pe_now e 1" ?dto]
    by (auto simp: reserveCapital_setup_def signedPost_def on_capital_def http_ok_def
        split: fate.splits prod.splits http_response.splits if_splits)
qed

text \<open>
  C35: a failed setup holds no capital. When the saga fails, the answer of the reserve call was not
  lost and the release reaches the capital service, every reservation that did not exist before is
  released or its lease has ended: no step that fails leaks capital.
\<close>

theorem failed_setup_releases:
  assumes "orchestrate e i s = (Inl err, s')" and "get_res j (sy_capital s) = None"
    and "pe_fate e 1 \<noteq> Answer_lost" and "pe_fate e 5 \<noteq> Lost" and "is_uuid4 (pe_reservationId e)"
  shows "get_res j (sy_capital s') = None \<or> settled j (pe_now e 5) (sy_capital s')"
proof -
  obtain o1 s1 where c: "createPlan e i (case pi_slippageBps i of None \<Rightarrow> 50 | Some n \<Rightarrow> n) s = (o1, s1)" by (rule prod.exhaust)
  have j1: "get_res j (sy_capital s1) = None" using create_capital [of e i _ s] c assms(2) by (metis snd_conv)
  show ?thesis
  proof (cases o1)
    case (Inl e1)
    with c j1 assms(1) show ?thesis by (simp add: orchestrate_def)
  next
    case (Inr v)
    obtain o2 s2 where r: "reserveCapital_setup e i (view_id v) s1 = (o2, s2)" by (rule prod.exhaust)
    note j2 = capital_step_new [OF r j1 assms(3)]
    show ?thesis
    proof (cases o2)
      case (Inl e2)
      with c \<open>o1 = Inr v\<close> r j2 assms(1) show ?thesis by (simp add: orchestrate_def)
    next
      case w: (Inr w)
      let ?s3 = "snd (setup_steps e (view_id v) (view_id w) s2)"
      have s': "s' = ?s3\<lparr>sy_capital := snd (release_route (view_id w) (pe_now e 5) (sy_capital ?s3))\<rparr>"
        using assms(1) c Inr r w release_state [of e, OF assms(4)]
        by (auto simp: orchestrate_def split: prod.splits sum.splits)
      show ?thesis
      proof (cases "get_res j (sy_capital ?s3)")
        case None
        then have "get_res j (snd (release_route (view_id w) (pe_now e 5) (sy_capital ?s3))) = None" by (simp add: release_domain)
        then show ?thesis by (simp add: s')
      next
        case (Some res)
        then have "get_res j (sy_capital s2) \<noteq> None" using steps_domain [of j e "view_id v" "view_id w" s2] by simp
        with j2 w have "j = pe_reservationId e" "view_id w = j" by auto
        with release_route_settles [OF Some, of "pe_now e 5"] assms(5) show ?thesis by (simp add: s')
      qed
    qed
  qed
qed

section \<open>An example\<close>

definition ex_u :: "char \<Rightarrow> string" where
  "ex_u c = ''0000000'' @ [c] @ ''-0000-4000-8000-000000000000''"

definition ex_setup_env :: setup_env where
  "ex_setup_env = \<lparr> pe_planId = ex_u CHR ''1'', pe_reservationId = ex_u CHR ''2'', pe_reserveMessageId = ''m1'', pe_armMessageId = ''m2'',
     pe_legId = (\<lambda>n. ''leg'' @ digits_of_nat n), pe_ceiling = Inr 1000, pe_adapters = (\<lambda>_. None), pe_legCount = None,
     pe_est = (\<lambda>_ _. Inl (PlainError ''no estimate'')), pe_minNet = 0, pe_now = int, pe_fate = (\<lambda>_. Answered) \<rparr>"

definition ex_setup_input :: plan_setup_input where
  "ex_setup_input = \<lparr> pi_correlationId = ex_u CHR ''3'', pi_riskDecisionId = ex_u CHR ''4'', pi_routeKey = ''arb:42161:a-b'', pi_notionalUsd = 50,
     pi_slippageBps = None, pi_tokens = \<lparr> rt_token0Address = ''0xa'', rt_token1Address = ''0xb'', rt_decimals0 = 18, rt_decimals1 = 6, rt_chainId = 42161 \<rparr>,
     pi_buyAmountIn = 5, pi_sellAmountIn = 7, pi_buyVenueKey = ''sushiswap'', pi_sellVenueKey = ''uniswap-v2'',
     pi_grossProfitUsd = 1, pi_buyFeeTier = None, pi_sellFeeTier = None \<rparr>"

definition ex_setup_system :: system where
  "ex_setup_system = \<lparr> sy_capital = empty_capital_db,
     sy_risk = empty_risk\<lparr>kd_decisions := [ex_decision\<lparr>rk_id := ex_u CHR ''4'', rk_correlationId := ex_u CHR ''3''\<rparr>]\<rparr>,
     sy_exec = empty_exec \<rparr>"

lemma ex_setup_runs: "\<exists>s'. orchestrate ex_setup_env ex_setup_input ex_setup_system = (Inr (ex_u CHR ''1'', ex_u CHR ''2''), s')"
proof -
  have "fst (orchestrate ex_setup_env ex_setup_input ex_setup_system) = Inr (ex_u CHR ''1'', ex_u CHR ''2'')" by code_simp
  then show ?thesis by (metis prod.collapse)
qed

theorem setup_backed_witness:
  "\<exists>s' p r. orchestrate ex_setup_env ex_setup_input ex_setup_system = (Inr (ex_u CHR ''1'', ex_u CHR ''2''), s')
    \<and> get_plan (ex_u CHR ''1'') (sy_exec s') = Some p \<and> pl_state p = P_executing
    \<and> get_res (ex_u CHR ''2'') (sy_capital s') = Some r \<and> cr_state r = active \<and> cr_amountUsd r = 50"
proof -
  obtain s' where r: "orchestrate ex_setup_env ex_setup_input ex_setup_system = (Inr (ex_u CHR ''1'', ex_u CHR ''2''), s')"
    using ex_setup_runs by blast
  have "\<forall>r \<in> set (cd_reservations (sy_capital ex_setup_system)). cr_planId r \<noteq> Some (pe_planId ex_setup_env)"
    by (simp add: ex_setup_system_def empty_capital_db_def)
  from setup_backed [OF r this] r show ?thesis by (auto simp: ex_setup_input_def)
qed

theorem begin_answer_lost_witness:
  "\<exists>err s' p. orchestrate (ex_setup_env\<lparr>pe_fate := (\<lambda>_. Answered)(4 := Answer_lost)\<rparr>) ex_setup_input ex_setup_system = (Inl err, s')
    \<and> settled (ex_u CHR ''2'') 5 (sy_capital s') \<and> get_plan (ex_u CHR ''1'') (sy_exec s') = Some p \<and> pl_state p = P_executing"
proof -
  have "ex_setup_env\<lparr>pe_fate := \<lambda>_. Answered\<rparr> = ex_setup_env" by (simp add: ex_setup_env_def)
  with ex_setup_runs obtain s' where
    "orchestrate (ex_setup_env\<lparr>pe_fate := \<lambda>_. Answered\<rparr>) ex_setup_input ex_setup_system = (Inr (ex_u CHR ''1'', ex_u CHR ''2''), s')"
    by auto
  from begin_answer_lost [OF this] show ?thesis by (auto simp: ex_setup_env_def)
qed

theorem failed_setup_releases_witness:
  "\<exists>err s'. orchestrate (ex_setup_env\<lparr>pe_fate := (\<lambda>_. Answered)(2 := Lost)\<rparr>) ex_setup_input ex_setup_system = (Inl err, s')
    \<and> (get_res (ex_u CHR ''2'') (sy_capital s') = None \<or> settled (ex_u CHR ''2'') 5 (sy_capital s'))"
proof -
  let ?e = "ex_setup_env\<lparr>pe_fate := (\<lambda>_. Answered)(2 := Lost)\<rparr>"
  have "case fst (orchestrate ?e ex_setup_input ex_setup_system) of Inl _ \<Rightarrow> True | Inr _ \<Rightarrow> False" by code_simp
  then obtain err s' where r: "orchestrate ?e ex_setup_input ex_setup_system = (Inl err, s')"
    by (cases "orchestrate ?e ex_setup_input ex_setup_system") (auto split: sum.splits)
  have "get_res (ex_u CHR ''2'') (sy_capital ex_setup_system) = None"
    by (simp add: ex_setup_system_def empty_capital_db_def get_res_def get_row_def)
  moreover have "is_uuid4 (pe_reservationId ?e)" by code_simp
  ultimately show ?thesis
    using failed_setup_releases [OF r, of "ex_u CHR ''2''"] r by (auto simp: ex_setup_env_def)
qed

end
