(* ===== verification/Venues.thy ===== *)
theory Venues
  imports Legs
begin

text \<open>
  What the DEX adapters of the orchestrator share: the addresses of the chains
  (\<open>packages/contracts-eth/src/addresses\<close>), the router of each venue, the parameters of a swap as they are read
  from the playbook, and the arithmetic of the slippage tolerance.
\<close>

section \<open>Failures\<close>

text \<open>
  The error classes of \<open>venue-adapter.ts\<close>, and any other exception. The string is the fixed text.
\<close>

datatype venue_error = Client_error string | Transient_error string | Terminal_error venue_terminal string | Other_error string

section \<open>Addresses\<close>

definition ZERO_ADDRESS :: string where
  "ZERO_ADDRESS = ''0x0000000000000000000000000000000000000000''"

record eth_addresses =
  ea_uniswapV2Router :: string
  ea_uniswapV2Factory :: string
  ea_uniswapV3Router :: string
  ea_uniswapV3Factory :: string
  ea_quoterV2 :: string
  ea_sushiSwapRouter :: string
  ea_sushiSwapFactory :: string
  ea_weth :: string
  ea_usdc :: string
  ea_usdt :: string
  ea_chainlinkEthUsd :: string
  ea_chainlinkUsdcUsd :: string
  ea_chainlinkUsdtUsd :: string

definition ArbitrumMainnetAddresses :: eth_addresses where
  "ArbitrumMainnetAddresses = \<lparr>
     ea_uniswapV2Router = ''0x1b02dA8Cb0d097eB8D57A175b88c7D8b47997506'',
     ea_uniswapV2Factory = ''0xf1D7CC64Fb745938252F3B21e12e7C8398cE848e'',
     ea_uniswapV3Router = ''0xE592427A0AEce92De3Edee1F18E0157C05861564'',
     ea_uniswapV3Factory = ''0x1F98431c8aD98523631AE4a59f267346ea31F984'',
     ea_quoterV2 = ''0x61fFE014bA17989E743c5F6cB21bF9697530B21e'',
     ea_sushiSwapRouter = ''0x1b02dA8Cb0d097eB8D57A175b88c7D8b47997506'',
     ea_sushiSwapFactory = ''0xc35DADB65012eC5796536bD9864eD8773aBc74C4'',
     ea_weth = ''0x82aF49447D8a07e3bd95BD0d56f35241523fBab1'',
     ea_usdc = ''0xaf88d065e77c8cC2239327C5EDb3A432268e5831'',
     ea_usdt = ''0xFd086bC7CD5C481DCC9C85ebE478A1C0b69FCbb9'',
     ea_chainlinkEthUsd = ''0x639Fe6ab55C921f74e7fac1ee960C0B6293ba612'',
     ea_chainlinkUsdcUsd = ZERO_ADDRESS, ea_chainlinkUsdtUsd = ZERO_ADDRESS \<rparr>"

definition ArbitrumSepoliaAddresses :: eth_addresses where
  "ArbitrumSepoliaAddresses = \<lparr>
     ea_uniswapV2Router = ''0x4752ba5dbc23f44d87826276bf6fd6b6c874abfc'',
     ea_uniswapV2Factory = ''0xd1F20C1c6864211b0Ce7b6AdF4d82E5B85cAb2c0'',
     ea_uniswapV3Router = ''0x3bFA4769FB09eefC5a80d58Ea2719aF8D5Be33b0'',
     ea_uniswapV3Factory = ''0x31e2a1d903E458bB0F7770965e6d8211f2348919'',
     ea_quoterV2 = ZERO_ADDRESS,
     ea_sushiSwapRouter = ''0x4752ba5DBc23F44D87826276BF6Fd6B6c874abfc'',
     ea_sushiSwapFactory = ''0xd1f20c1c6864211b0cE7b6aDF4D82E5b85CAb2C0'',
     ea_weth = ''0x4200000000000000000000000000000000000006'',
     ea_usdc = ''0x75FAf114EAFB1ACBE2A3976482854F7F230fA178'',
     ea_usdt = ''0x319c9e4a6554Ae6e5d75979E9D009D84B6fB53F6'',
     ea_chainlinkEthUsd = ZERO_ADDRESS, ea_chainlinkUsdcUsd = ZERO_ADDRESS, ea_chainlinkUsdtUsd = ZERO_ADDRESS \<rparr>"

definition BaseMainnetAddresses :: eth_addresses where
  "BaseMainnetAddresses = \<lparr>
     ea_uniswapV2Router = ZERO_ADDRESS, ea_uniswapV2Factory = ZERO_ADDRESS,
     ea_uniswapV3Router = ''0x2626664c2603336E57B55794666850a4e5c3A2F6'',
     ea_uniswapV3Factory = ''0x33128a8fC17869897dcE68Ed026d594dd274D2f3'',
     ea_quoterV2 = ''0x3d4Ba44E389a089B36D2c2596e99161E3a58a0Ec'',
     ea_sushiSwapRouter = ''0x6bdEd42c6DA8fBf0d2ba55b2Fa120Ec19711bCee'',
     ea_sushiSwapFactory = ''0x7Dae51aE332A0E1F979b1B1d01ED6D68468e41ec'',
     ea_weth = ''0x4200000000000000000000000000000000000006'',
     ea_usdc = ''0x833589fCD6eDb6E08f4c7C32D4f71b54bdA02913'',
     ea_usdt = ''0xFdEbec2Fcc5819D3b0a2499f5Cc2B2b2aa1A806E'',
     ea_chainlinkEthUsd = ''0x71041DDdAD3595f9cEd3DcCF3a44C052051F9EF9'',
     ea_chainlinkUsdcUsd = ''0x591e825c558479126a8a70Ec109bA6F3C9F1e42C'',
     ea_chainlinkUsdtUsd = ''0xDfc0FAd3C803Cf5Db8C1b85113ebe4f0Fd2c1f37'' \<rparr>"

definition BaseSepoliaAddresses :: eth_addresses where
  "BaseSepoliaAddresses = \<lparr>
     ea_uniswapV2Router = ZERO_ADDRESS, ea_uniswapV2Factory = ZERO_ADDRESS,
     ea_uniswapV3Router = ''0x94cC0AaC5338A89d4C4A095063cEA4D13e00Cf42'',
     ea_uniswapV3Factory = ''0x1233427D9291214787Ee4c65a2a3a649a0A849E4'',
     ea_quoterV2 = ZERO_ADDRESS,
     ea_sushiSwapRouter = ZERO_ADDRESS, ea_sushiSwapFactory = ZERO_ADDRESS,
     ea_weth = ''0x39B068b95720a4D9d492A6A41Cf37e75D67dcE1D'',
     ea_usdc = ''0x036CbD53842c5426634e7929541eC2318f3dCF7e'',
     ea_usdt = ZERO_ADDRESS,
     ea_chainlinkEthUsd = ZERO_ADDRESS, ea_chainlinkUsdcUsd = ZERO_ADDRESS, ea_chainlinkUsdtUsd = ZERO_ADDRESS \<rparr>"

record bnb_addresses =
  ba_pancakeV2Router :: string
  ba_pancakeV2Factory :: string
  ba_pancakeV3Router :: string
  ba_pancakeV3Factory :: string
  ba_uniswapV3Router :: string
  ba_uniswapV3Factory :: string
  ba_quoterV2 :: string
  ba_sushiSwapRouter :: string
  ba_sushiSwapFactory :: string
  ba_biswapV2Router :: string
  ba_biswapV2Factory :: string
  ba_wbnb :: string
  ba_usdt :: string
  ba_usdc :: string
  ba_busd :: string
  ba_chainlinkBnbUsd :: string
  ba_chainlinkUsdcUsd :: string
  ba_chainlinkUsdtUsd :: string

definition BnbMainnetAddresses :: bnb_addresses where
  "BnbMainnetAddresses = \<lparr>
     ba_pancakeV2Router = ''0x10ED43C718714eb63d5aA57B78B54704E256024E'',
     ba_pancakeV2Factory = ''0xcA143Ce32Fe78f1f7019d7d551a6402fC5350c73'',
     ba_pancakeV3Router = ''0x13f4EA83D0bd40E75C8222255bc855a974568Dd4'',
     ba_pancakeV3Factory = ''0x0BFbCF9fa4f9C56B0F40a671Ad40E0805A091865'',
     ba_uniswapV3Router = ''0xB971eF87ede563556b2ED4b1C0b0019111Dd85d2'',
     ba_uniswapV3Factory = ''0xdB1d10011AD0Ff90774D0C6Bb92e5C5c8b4461F7'',
     ba_quoterV2 = ''0x78D8aE0aC6dB1bF6946AC9c7D438d49c5E2C2dE5'',
     ba_sushiSwapRouter = ''0x1b02dA8Cb0d097eB8D57A175b88c7D8b47997506'',
     ba_sushiSwapFactory = ''0xc35DADB65012eC5796536bD9864eD8773aBc74C4'',
     ba_biswapV2Router = ''0x3a6d8cA8D9C0a3E4585c2a2c84D7A36e0301A4E'',
     ba_biswapV2Factory = ''0x858E3312ed3A876947AE49e6A8A2fA7A6b7819E8'',
     ba_wbnb = ''0xbb4CdB9CBd36B01bD1cBaEBF2De08d9173bc095c'',
     ba_usdt = ''0x55d398326f99059fF775485246999027B3197955'',
     ba_usdc = ''0x8AC76a51cc950d9822D68b83fE1Ad97B32Cd580d'',
     ba_busd = ''0xe9e7CEA3DedcA5984780Bafc599bD69ADd087D56'',
     ba_chainlinkBnbUsd = ''0x0567f2323251F0AAb15c8DfBf732C0a1150ace56'',
     ba_chainlinkUsdcUsd = ''0xE20ca8D7546932360123796d9F43550BC89c74e8'',
     ba_chainlinkUsdtUsd = ''0xB1Ad49dB8F0663920f4F7D709E54d1aC395d76cd'' \<rparr>"

definition BnbTestnetAddresses :: bnb_addresses where
  "BnbTestnetAddresses = \<lparr>
     ba_pancakeV2Router = ''0xD99D1c33F9fC3444f8101754aBC46c52416550D1'',
     ba_pancakeV2Factory = ''0x6725F303b657a9451d8BA641348b6761A6CC7a17'',
     ba_pancakeV3Router = ''0x1b81D678ffb9C0263b24A97847620C99d213eB14'',
     ba_pancakeV3Factory = ''0x0BFbCF9fa4f9C56B0F40a671Ad40E0805A091865'',
     ba_uniswapV3Router = ZERO_ADDRESS, ba_uniswapV3Factory = ZERO_ADDRESS, ba_quoterV2 = ZERO_ADDRESS,
     ba_sushiSwapRouter = ''0x1b02dA8Cb0d097eB8D57A175b88c7D8b47997506'', ba_sushiSwapFactory = ZERO_ADDRESS,
     ba_biswapV2Router = ZERO_ADDRESS, ba_biswapV2Factory = ZERO_ADDRESS,
     ba_wbnb = ''0xae13d989daC2f0dEbFf460aC112a837C89BAa7cd'',
     ba_usdt = ''0x337610d27C682f34CBc18be42bA2E79e04c15e35'',
     ba_usdc = ''0x64544969ed7EBf5f083679233325356EbE738930'',
     ba_busd = ''0xeD24FC36d5Ee211Ea25A80239Fb8C4Cfd80f12Ee'',
     ba_chainlinkBnbUsd = ZERO_ADDRESS, ba_chainlinkUsdcUsd = ZERO_ADDRESS, ba_chainlinkUsdtUsd = ZERO_ADDRESS \<rparr>"

definition getArbitrumAddresses :: "rat \<Rightarrow> venue_error + eth_addresses" where
  "getArbitrumAddresses chainId = (if chainId = 42161 then Inr ArbitrumMainnetAddresses
     else if chainId = 421614 then Inr ArbitrumSepoliaAddresses else Inl (Other_error ''Unsupported Arbitrum chain ID''))"

definition getBaseAddresses :: "rat \<Rightarrow> venue_error + eth_addresses" where
  "getBaseAddresses chainId = (if chainId = 8453 then Inr BaseMainnetAddresses
     else if chainId = 84532 then Inr BaseSepoliaAddresses else Inl (Other_error ''Unsupported Base chain ID''))"

definition getBnbAddresses :: "rat \<Rightarrow> venue_error + bnb_addresses" where
  "getBnbAddresses chainId = (if chainId = 56 then Inr BnbMainnetAddresses
     else if chainId = 97 then Inr BnbTestnetAddresses else Inl (Other_error ''Unsupported BNB chain ID''))"

section \<open>Routers\<close>

definition is_arbitrum :: "rat \<Rightarrow> bool" where
  "is_arbitrum c \<longleftrightarrow> c = 42161 \<or> c = 421611 \<or> c = 421614"

definition is_base :: "rat \<Rightarrow> bool" where
  "is_base c \<longleftrightarrow> c = 8453 \<or> c = 84532"

definition is_bnb :: "rat \<Rightarrow> bool" where
  "is_bnb c \<longleftrightarrow> c = 56 \<or> c = 97"

definition map_right :: "('a \<Rightarrow> 'b) \<Rightarrow> 'e + 'a \<Rightarrow> 'e + 'b" where
  "map_right f r = (case r of Inl e \<Rightarrow> Inl e | Inr v \<Rightarrow> Inr (f v))"

definition resolveRouterAddress :: "rat \<Rightarrow> venue_error + string" where
  "resolveRouterAddress c =
     (if is_arbitrum c then map_right ea_uniswapV2Router (getArbitrumAddresses c)
      else if is_base c then map_right ea_uniswapV2Router (getBaseAddresses c)
      else if is_bnb c then map_right ba_pancakeV2Router (getBnbAddresses c)
      else Inl (Client_error ''UniswapV2Adapter: unsupported chainId''))"

definition deployed :: "string \<Rightarrow> venue_error + string \<Rightarrow> venue_error + string" where
  "deployed msg r = (case r of Inl e \<Rightarrow> Inl e | Inr a \<Rightarrow> if a = ZERO_ADDRESS then Inl (Client_error msg) else Inr a)"

definition resolveSushiRouterAddress :: "rat \<Rightarrow> venue_error + string" where
  "resolveSushiRouterAddress c =
     (if is_arbitrum c then map_right ea_sushiSwapRouter (getArbitrumAddresses c)
      else if is_base c then deployed ''no SushiSwap deployment on Base chain'' (map_right ea_sushiSwapRouter (getBaseAddresses c))
      else if is_bnb c then deployed ''no SushiSwap deployment on BNB chain'' (map_right ba_sushiSwapRouter (getBnbAddresses c))
      else Inl (Client_error ''SushiSwapAdapter: unsupported chainId''))"

definition resolvePancakeV2RouterAddress :: "rat \<Rightarrow> venue_error + string" where
  "resolvePancakeV2RouterAddress c =
     (if is_bnb c then map_right ba_pancakeV2Router (getBnbAddresses c)
      else Inl (Client_error ''PancakeSwapV2Adapter: unsupported chainId''))"

definition resolveBiswapRouterAddress :: "rat \<Rightarrow> venue_error + string" where
  "resolveBiswapRouterAddress c =
     (if c = 56 then map_right ba_biswapV2Router (getBnbAddresses c)
      else if c = 97 then Inl (Client_error ''Biswap is not deployed on BNB testnet'')
      else Inl (Client_error ''BiswapV2Adapter: unsupported chainId''))"

definition resolveV3RouterAddress :: "rat \<Rightarrow> venue_error + string" where
  "resolveV3RouterAddress c =
     (if is_arbitrum c then map_right ea_uniswapV3Router (getArbitrumAddresses c)
      else if is_base c then map_right ea_uniswapV3Router (getBaseAddresses c)
      else if is_bnb c then map_right ba_uniswapV3Router (getBnbAddresses c)
      else Inl (Client_error ''UniswapV3Adapter: unsupported chainId''))"

definition resolveQuoterV2Address :: "rat \<Rightarrow> venue_error + string" where
  "resolveQuoterV2Address c =
     (if is_arbitrum c then map_right ea_quoterV2 (getArbitrumAddresses c)
      else if is_base c then map_right ea_quoterV2 (getBaseAddresses c)
      else if is_bnb c then map_right ba_quoterV2 (getBnbAddresses c)
      else Inr ZERO_ADDRESS)"

text \<open>The look-up of the quoters: \<open>ZERO_ADDRESS\<close> for a venue that is not on the chain.\<close>

definition resolveV2RouterAddress :: "rat \<Rightarrow> string \<Rightarrow> venue_error + string" where
  "resolveV2RouterAddress c venueKey =
     (if is_arbitrum c then map_right (\<lambda>a. if venueKey = ''sushiswap'' \<or> venueKey = ''uniswap-v2'' then ea_sushiSwapRouter a else ZERO_ADDRESS)
        (getArbitrumAddresses c)
      else if is_base c then map_right (\<lambda>a. if venueKey = ''sushiswap'' then ea_sushiSwapRouter a
        else if venueKey = ''uniswap-v2'' then ea_uniswapV2Router a else ZERO_ADDRESS) (getBaseAddresses c)
      else if is_bnb c then map_right (\<lambda>a. if venueKey = ''sushiswap'' then ba_sushiSwapRouter a
        else if venueKey = ''pancakeswap-v2'' then ba_pancakeV2Router a
        else if venueKey = ''biswap'' then ba_biswapV2Router a else ZERO_ADDRESS) (getBnbAddresses c)
      else Inr ZERO_ADDRESS)"

definition getWrappedNativeAddress :: "rat \<Rightarrow> string option" where
  "getWrappedNativeAddress c =
     (if c = 42161 \<or> c = 421614 then (case getArbitrumAddresses c of Inr a \<Rightarrow> Some (ea_weth a) | Inl _ \<Rightarrow> None)
      else if is_base c then (case getBaseAddresses c of Inr a \<Rightarrow> Some (ea_weth a) | Inl _ \<Rightarrow> None)
      else if is_bnb c then (case getBnbAddresses c of Inr a \<Rightarrow> Some (ba_wbnb a) | Inl _ \<Rightarrow> None)
      else None)"

section \<open>Parameters of a swap\<close>

record swap_params =
  sp_chainId :: rat
  sp_tokenIn :: string
  sp_tokenOut :: string
  sp_amountIn :: string
  sp_path :: "json list option"
  sp_slippageBps :: "rat option"
  sp_recipient :: "string option"
  sp_deadlineSeconds :: "rat option"

definition json_rat :: "json option \<Rightarrow> rat option" where
  "json_rat v = (case v of Some (JNum q) \<Rightarrow> Some q | _ \<Rightarrow> None)"

definition json_text :: "json option \<Rightarrow> string option" where
  "json_text v = (case v of Some (JStr s) \<Rightarrow> Some s | _ \<Rightarrow> None)"

definition validateSwapParams :: "json \<Rightarrow> swap_params option" where
  "validateSwapParams params =
     (case (json_rat (jget params ''chainId''), json_text (jget params ''tokenIn''), json_text (jget params ''tokenOut''),
            json_text (jget params ''amountIn'')) of
        (Some c, Some i, Some t, Some a) \<Rightarrow> Some \<lparr> sp_chainId = c, sp_tokenIn = i, sp_tokenOut = t, sp_amountIn = a,
          sp_path = (case jget params ''path'' of Some (JArr xs) \<Rightarrow> Some xs | _ \<Rightarrow> None),
          sp_slippageBps = json_rat (jget params ''slippageBps''), sp_recipient = json_text (jget params ''recipient''),
          sp_deadlineSeconds = json_rat (jget params ''deadlineSeconds'') \<rparr>
      | _ \<Rightarrow> None)"

definition extractSwapParams :: "json option \<Rightarrow> int \<Rightarrow> venue_error + swap_params" where
  "extractSwapParams playbookConfig legIndex =
     (case playbookConfig of
        None \<Rightarrow> Inl (Client_error ''plan is missing playbookConfig for DEX swap'')
      | Some config \<Rightarrow>
          (if \<not> jis_object (Some config) then Inl (Client_error ''plan is missing playbookConfig for DEX swap'')
           else
             (let read = (\<lambda>e. case e of Some j \<Rightarrow> if jis_object (Some j) then validateSwapParams j else None | None \<Rightarrow> None)
              in case or_else (read (array_entry (jget config ''legs'') legIndex)) (read (array_entry (jget config ''dexSwaps'') legIndex)) of
                   Some p \<Rightarrow> Inr p
                 | None \<Rightarrow> Inl (Client_error ''no swap params for plan and leg''))))"

record swap_params_v3 = swap_params +
  sp_fee :: int
  sp_amountOutExpected :: string
  sp_sqrtPriceLimitX96 :: "string option"

text \<open>\<open>None\<close> sends the caller to the next layout; a fee that is no \<open>uint24\<close> is an error at once.\<close>

definition validateSwapParamsV3 :: "json \<Rightarrow> venue_error + swap_params_v3 option" where
  "validateSwapParamsV3 params =
     (case (json_rat (jget params ''chainId''), json_text (jget params ''tokenIn''), json_text (jget params ''tokenOut''),
            json_text (jget params ''amountIn''), json_text (jget params ''amountOutExpected'')) of
        (Some c, Some i, Some t, Some a, Some x) \<Rightarrow>
          (let fee = (case json_rat (jget params ''fee'') of Some q \<Rightarrow> q | None \<Rightarrow> 3000)
           in if fee < 0 \<or> fee > 16777215 \<or> of_int \<lfloor>fee\<rfloor> \<noteq> fee then Inl (Client_error ''fee must be uint24'')
              else Inr (Some \<lparr> sp_chainId = c, sp_tokenIn = i, sp_tokenOut = t, sp_amountIn = a, sp_path = None,
                sp_slippageBps = json_rat (jget params ''slippageBps''), sp_recipient = json_text (jget params ''recipient''),
                sp_deadlineSeconds = json_rat (jget params ''deadlineSeconds''),
                sp_fee = \<lfloor>fee\<rfloor>, sp_amountOutExpected = x, sp_sqrtPriceLimitX96 = json_text (jget params ''sqrtPriceLimitX96'') \<rparr>))
      | _ \<Rightarrow> Inr None)"

definition extractSwapParamsV3 :: "json option \<Rightarrow> int \<Rightarrow> venue_error + swap_params_v3" where
  "extractSwapParamsV3 playbookConfig legIndex =
     (case playbookConfig of
        None \<Rightarrow> Inl (Client_error ''plan is missing playbookConfig for DEX swap'')
      | Some config \<Rightarrow>
          (if \<not> jis_object (Some config) then Inl (Client_error ''plan is missing playbookConfig for DEX swap'')
           else
             (let read = (\<lambda>e. case e of Some j \<Rightarrow> if jis_object (Some j) then validateSwapParamsV3 j else Inr None | None \<Rightarrow> Inr None)
              in case read (array_entry (jget config ''legs'') legIndex) of
                   Inl e \<Rightarrow> Inl e
                 | Inr (Some p) \<Rightarrow> Inr p
                 | Inr None \<Rightarrow> (case read (array_entry (jget config ''dexSwaps'') legIndex) of
                     Inl e \<Rightarrow> Inl e
                   | Inr (Some p) \<Rightarrow> Inr p
                   | Inr None \<Rightarrow> Inl (Client_error ''no swap params for plan and leg'')))))"

section \<open>Slippage\<close>

text \<open>Division of \<open>BigInt\<close>: towards zero.\<close>

definition bigint_div :: "int \<Rightarrow> int \<Rightarrow> int" where
  "bigint_div a b = sgn a * sgn b * (\<bar>a\<bar> div \<bar>b\<bar>)"

text \<open>\<open>BigInt(n)\<close> of a number throws when it is no integer.\<close>

definition number_BigInt :: "jsnum \<Rightarrow> int option" where
  "number_BigInt n = (case n of Fin q \<Rightarrow> if of_int \<lfloor>q\<rfloor> = q then Some \<lfloor>q\<rfloor> else None | _ \<Rightarrow> None)"

definition ten_thousand_minus :: "jsnum \<Rightarrow> jsnum" where
  "ten_thousand_minus n = (case n of Fin q \<Rightarrow> Fin (10000 - q) | NaN \<Rightarrow> NaN | PosInf \<Rightarrow> NegInf | NegInf \<Rightarrow> PosInf)"

definition applySlippage :: "string \<Rightarrow> jsnum \<Rightarrow> string option" where
  "applySlippage expectedOut slippageBps =
     (case (js_BigInt expectedOut, number_BigInt (ten_thousand_minus slippageBps)) of
        (Some expected, Some factor) \<Rightarrow> Some (string_of_int (bigint_div (expected * factor) 10000))
      | _ \<Rightarrow> None)"

definition getSlippageBps :: "string option \<Rightarrow> rat option \<Rightarrow> jsnum" where
  "getSlippageBps envValue override =
     (case override of
        Some q \<Rightarrow> Fin q
      | None \<Rightarrow> (case js_or_null envValue of Some s \<Rightarrow> js_Number s | None \<Rightarrow> Fin 50))"

end
