(* ===== verification/Gas.thy ===== *)
theory Gas
  imports Svc_Base
begin

text \<open>
  \<open>gas-estimator.service.ts\<close>: the fee policy of a chain, the estimate of a transaction under it and
  the value of gas in dollars. What the node answers is an argument: \<open>None\<close> is a call that throws.
  A fee is in wei; its rendering in gwei and back is exact.
\<close>

section \<open>Numbers of the environment\<close>

text \<open>\<open>Number(v)\<close> of a variable, and \<open>a || b\<close> of numbers.\<close>

definition env_number :: "string option \<Rightarrow> jsnum" where
  "env_number v = (case v of None \<Rightarrow> NaN | Some s \<Rightarrow> js_Number s)"

definition num_or :: "jsnum \<Rightarrow> jsnum \<Rightarrow> jsnum" where
  "num_or a b = (if a = NaN \<or> a = Fin 0 then b else a)"

text \<open>\<open>BigInt(Math.floor(x))\<close>, which throws on what is not finite.\<close>

definition floor_BigInt :: "jsnum \<Rightarrow> int option" where
  "floor_BigInt x = (case x of Fin q \<Rightarrow> Some \<lfloor>q\<rfloor> | _ \<Rightarrow> None)"

section \<open>Policy\<close>

record gas_env =
  ge_chainMaxFee :: "string option"   \<comment> \<open>\<open>GAS_POLICY_{id}_MAX_FEE_GWEI\<close>\<close>
  ge_chainMaxPriority :: "string option"
  ge_maxGasPrice :: "string option"   \<comment> \<open>\<open>MAX_GAS_PRICE_GWEI\<close>\<close>
  ge_maxPriorityFee :: "string option"
  ge_multiplier :: "string option"
  ge_rejectOnExceed :: "string option"

record gas_policy =
  gp_maxFeePerGasGwei :: jsnum
  gp_maxPriorityFeeGwei :: jsnum
  gp_gasLimitMultiplier :: jsnum
  gp_rejectOnExceed :: bool

definition getGasPolicy :: "gas_env \<Rightarrow> gas_policy" where
  "getGasPolicy e =
     \<lparr> gp_maxFeePerGasGwei = (case js_or_null (ge_chainMaxFee e) of Some s \<Rightarrow> js_Number s
         | None \<Rightarrow> num_or (env_number (ge_maxGasPrice e)) (Fin 50)),
       gp_maxPriorityFeeGwei = (case js_or_null (ge_chainMaxPriority e) of Some s \<Rightarrow> js_Number s
         | None \<Rightarrow> num_or (env_number (ge_maxPriorityFee e)) (Fin 2)),
       gp_gasLimitMultiplier = num_or (env_number (ge_multiplier e)) (Fin (115 / 100)),
       gp_rejectOnExceed = (ge_rejectOnExceed e \<noteq> Some ''false'') \<rparr>"

section \<open>Fees\<close>

text \<open>The answers of the node: \<open>getFeeData\<close>, with null fees as \<open>None\<close>, and the base fee of the latest block.\<close>

record fee_answer =
  fa_feeData :: "(int option \<times> int option) option"
  fa_block :: "int option option"

record fee_data =
  fd_maxFeePerGas :: int
  fd_maxPriorityFeePerGas :: int
  fd_baseFee :: int

definition gwei :: "int \<Rightarrow> rat" where
  "gwei wei = of_int wei / 1000000000"

definition int_or_zero :: "int option \<Rightarrow> int" where
  "int_or_zero v = (case v of Some n \<Rightarrow> n | None \<Rightarrow> 0)"

definition getEip1559FeeData :: "fee_answer \<Rightarrow> fee_data option" where
  "getEip1559FeeData a =
     (case fa_feeData a of
        None \<Rightarrow> None
      | Some (maxFee, maxPriority) \<Rightarrow>
          (case fa_block a of
             None \<Rightarrow> None
           | Some base \<Rightarrow> Some \<lparr> fd_maxFeePerGas = int_or_zero maxFee, fd_maxPriorityFeePerGas = int_or_zero maxPriority,
               fd_baseFee = int_or_zero base \<rparr>))"

text \<open>The clamp of \<open>estimateGas\<close> and of \<open>getCappedFeeData\<close>.\<close>

definition cap_fees :: "gas_policy \<Rightarrow> fee_data \<Rightarrow> fee_data option" where
  "cap_fees policy fd =
     (case (floor_BigInt (gp_maxFeePerGasGwei policy), floor_BigInt (gp_maxPriorityFeeGwei policy)) of
        (Some f, Some p) \<Rightarrow>
          (let policyMaxFeeWei = f * 1000000000; policyMaxPriorityWei = p * 1000000000
           in Some (fd\<lparr>fd_maxFeePerGas := if fd_maxFeePerGas fd > policyMaxFeeWei then policyMaxFeeWei else fd_maxFeePerGas fd,
                fd_maxPriorityFeePerGas := if fd_maxPriorityFeePerGas fd > policyMaxPriorityWei then policyMaxPriorityWei
                  else fd_maxPriorityFeePerGas fd\<rparr>))
      | _ \<Rightarrow> None)"

definition getCappedFeeData :: "gas_env \<Rightarrow> fee_answer \<Rightarrow> fee_data option" where
  "getCappedFeeData e a = (case getEip1559FeeData a of None \<Rightarrow> None | Some fd \<Rightarrow> cap_fees (getGasPolicy e) fd)"

definition shouldReject :: "gas_env \<Rightarrow> fee_data \<Rightarrow> bool" where
  "shouldReject e fd =
     (let policy = getGasPolicy e
      in gp_rejectOnExceed policy
         \<and> (js_less (gp_maxFeePerGasGwei policy) (Fin (gwei (fd_maxFeePerGas fd)))
            \<or> js_less (gp_maxPriorityFeeGwei policy) (Fin (gwei (fd_maxPriorityFeePerGas fd)))))"

section \<open>Estimates\<close>

record gas_estimation =
  gn_gasLimit :: int
  gn_feeData :: fee_data
  gn_estimatedCostWei :: int
  gn_withinPolicy :: bool
  gn_policyWarning :: "string option"

text \<open>\<open>Math.ceil(n * multiplier)\<close> as a \<open>BigInt\<close>.\<close>

definition buffered :: "int \<Rightarrow> jsnum \<Rightarrow> int option" where
  "buffered n m = (case m of Fin q \<Rightarrow> Some \<lceil>of_int n * q\<rceil> | _ \<Rightarrow> None)"

definition estimateGas :: "gas_env \<Rightarrow> int option \<Rightarrow> fee_answer \<Rightarrow> gas_estimation option" where
  "estimateGas e estimated a =
     (let policy = getGasPolicy e
      in case estimated of
           None \<Rightarrow> None
         | Some n \<Rightarrow>
       (case buffered n (gp_gasLimitMultiplier policy) of
          None \<Rightarrow> None
        | Some gasLimit \<Rightarrow>
       (case getEip1559FeeData a of
          None \<Rightarrow> None
        | Some fd \<Rightarrow>
           (let maxFeeWithinPolicy = js_geq (gp_maxFeePerGasGwei policy) (Fin (gwei (fd_maxFeePerGas fd)));
                priorityFeeWithinPolicy = js_geq (gp_maxPriorityFeeGwei policy) (Fin (gwei (fd_maxPriorityFeePerGas fd)));
                policyWarning = (if \<not> maxFeeWithinPolicy then Some ''Gas price exceeds policy max''
                  else if \<not> priorityFeeWithinPolicy then Some ''Priority fee exceeds policy max'' else None)
            in map_option (\<lambda>capped. \<lparr> gn_gasLimit = gasLimit, gn_feeData = capped,
                   gn_estimatedCostWei = gasLimit * fd_maxFeePerGas fd,
                   gn_withinPolicy = (if gp_rejectOnExceed policy then maxFeeWithinPolicy \<and> priorityFeeWithinPolicy else True),
                   gn_policyWarning = policyWarning \<rparr>) (cap_fees policy fd)))))"

definition estimateGasCostUsd :: "int \<Rightarrow> fee_data \<Rightarrow> rat option \<Rightarrow> rat option" where
  "estimateGasCostUsd gasLimit fd nativeUsdPrice =
     (case nativeUsdPrice of
        None \<Rightarrow> None
      | Some price \<Rightarrow>
          (if price \<le> 0 then None
           else (let costUsd = of_int (gasLimit * fd_maxFeePerGas fd) / 10 ^ 18 * price
                 in if costUsd < 0 then None else Some costUsd)))"

end
