(* ===== verification/Dex_Risk.thy ===== *)
theory Dex_Risk
  imports Playbook
begin

text \<open>
  \<open>dex-risk-policy.service.ts\<close>: the limits of live trading, read from the configuration and
  tightened by the environment, the volume of the day and the check of one trade. A day is the
  number of days since 1970; the rounding of the volume column is not modelled.
\<close>

section \<open>parseFloat\<close>

definition exponent_prefix :: "string \<Rightarrow> int option" where
  "exponent_prefix s =
     (case s of [] \<Rightarrow> None
      | c # u \<Rightarrow> if c = CHR ''e'' \<or> c = CHR ''E''
          then (let (neg, r) = (case u of CHR ''-'' # v \<Rightarrow> (True, v) | CHR ''+'' # v \<Rightarrow> (False, v) | v \<Rightarrow> (False, v));
                    ds = takeWhile is_digit r
                in if ds = [] then None else Some (if neg then - int (nat_of_digits 0 ds) else int (nat_of_digits 0 ds)))
          else None)"

definition decimal_prefix :: "string \<Rightarrow> jsnum" where
  "decimal_prefix s =
     (let ip = takeWhile is_digit s; r = dropWhile is_digit s;
          (fp, r2) = (case r of CHR ''.'' # u \<Rightarrow> (takeWhile is_digit u, dropWhile is_digit u) | u \<Rightarrow> ([], u));
          m = of_nat (nat_of_digits 0 (ip @ fp)) / 10 ^ length fp
      in if starts_with s ''Infinity'' then PosInf
         else if ip = [] \<and> fp = [] then NaN
         else Fin (case exponent_prefix r2 of None \<Rightarrow> m | Some e \<Rightarrow> js_scale10 m e))"

definition js_parseFloat :: "string \<Rightarrow> jsnum" where
  "js_parseFloat s =
     (case js_trim s of
        CHR ''-'' # u \<Rightarrow> (case decimal_prefix u of Fin q \<Rightarrow> Fin (- q) | PosInf \<Rightarrow> NegInf | x \<Rightarrow> x)
      | CHR ''+'' # u \<Rightarrow> decimal_prefix u
      | u \<Rightarrow> decimal_prefix u)"

section \<open>Limits\<close>

record dex_limits =
  dl_enabled :: bool
  dl_maxSlippageBps :: rat
  dl_maxPositionSizeUsd :: rat
  dl_minPoolLiquidityUsd :: rat
  dl_maxGasPriceGwei :: rat
  dl_allowedProtocols :: "string list"
  dl_blockedTokens :: "string list"
  dl_maxDailyVolumeUsd :: rat
  dl_minNetProfitUsd :: rat

definition SAFE_DEFAULT_CONFIG :: dex_limits where
  "SAFE_DEFAULT_CONFIG = \<lparr> dl_enabled = False, dl_maxSlippageBps = 50, dl_maxPositionSizeUsd = 500,
     dl_minPoolLiquidityUsd = 50000, dl_maxGasPriceGwei = 30,
     dl_allowedProtocols = [''uniswap-v2'', ''uniswap-v3'', ''sushiswap'', ''pancakeswap-v2'', ''biswap''],
     dl_blockedTokens = [], dl_maxDailyVolumeUsd = 5000, dl_minNetProfitUsd = 1 / 2 \<rparr>"

definition limit_number :: "json option \<Rightarrow> rat \<Rightarrow> rat" where
  "limit_number v fallback = (case v of Some (JNum q) \<Rightarrow> q | _ \<Rightarrow> fallback)"

definition limit_bool :: "json option \<Rightarrow> bool \<Rightarrow> bool" where
  "limit_bool v fallback = (case v of Some (JBool b) \<Rightarrow> b | _ \<Rightarrow> fallback)"

definition parseLimitsResponse :: "(string \<Rightarrow> json option) \<Rightarrow> bool \<Rightarrow> json \<Rightarrow> dex_limits option" where
  "parseLimitsResponse JSON_parse ok body =
     (if \<not> ok \<or> \<not> jis_object (Some body) then None
      else case jnonempty_str (jget body ''configValue'') of
        None \<Rightarrow> None
      | Some raw \<Rightarrow>
          (case JSON_parse raw of
             None \<Rightarrow> None
           | Some parsed \<Rightarrow>
               (if \<not> jis_object (Some parsed) then None
                else Some (SAFE_DEFAULT_CONFIG\<lparr>
                  dl_enabled := limit_bool (jget parsed ''enabled'') (dl_enabled SAFE_DEFAULT_CONFIG),
                  dl_maxSlippageBps := limit_number (jget parsed ''maxSlippageBps'') (dl_maxSlippageBps SAFE_DEFAULT_CONFIG),
                  dl_maxPositionSizeUsd := limit_number (jget parsed ''maxNotionalPerTradeUsd'') (dl_maxPositionSizeUsd SAFE_DEFAULT_CONFIG),
                  dl_maxDailyVolumeUsd := limit_number (jget parsed ''maxDailyNotionalUsd'') (dl_maxDailyVolumeUsd SAFE_DEFAULT_CONFIG),
                  dl_minNetProfitUsd := limit_number (jget parsed ''minNetProfitUsd'') (dl_minNetProfitUsd SAFE_DEFAULT_CONFIG)\<rparr>))))"

record dex_limits_env =
  lm_slippage :: "string option"   \<comment> \<open>\<open>DEX_MAX_SLIPPAGE_BPS\<close>\<close>
  lm_position :: "string option"   \<comment> \<open>\<open>DEX_MAX_POSITION_SIZE_USD\<close>\<close>
  lm_liquidity :: "string option"
  lm_minNetProfit :: "string option"

definition env_int :: "string option \<Rightarrow> (rat \<Rightarrow> rat \<Rightarrow> rat) \<Rightarrow> rat \<Rightarrow> rat" where
  "env_int v pick base =
     (case v of None \<Rightarrow> base | Some s \<Rightarrow> (case js_parseInt10 s of None \<Rightarrow> base | Some n \<Rightarrow> pick base (of_int n)))"

definition applyEnvLowerBounds :: "dex_limits_env \<Rightarrow> dex_limits \<Rightarrow> dex_limits" where
  "applyEnvLowerBounds e base = base\<lparr>
     dl_maxSlippageBps := env_int (lm_slippage e) min (dl_maxSlippageBps base),
     dl_maxPositionSizeUsd := env_int (lm_position e) min (dl_maxPositionSizeUsd base),
     dl_minPoolLiquidityUsd := env_int (lm_liquidity e) max (dl_minPoolLiquidityUsd base),
     dl_minNetProfitUsd := (case lm_minNetProfit e of None \<Rightarrow> dl_minNetProfitUsd base
       | Some s \<Rightarrow> (case js_parseFloat s of Fin q \<Rightarrow> max (dl_minNetProfitUsd base) q | _ \<Rightarrow> dl_minNetProfitUsd base))\<rparr>"

type_synonym dex_limits_cache = "(dex_limits \<times> int) option"

text \<open>What a check meets: the reply of the configuration service, the clock, whether the database answers.\<close>

record risk_call =
  rk_env :: dex_limits_env
  rk_parse :: "string \<Rightarrow> json option"
  rk_ok :: bool
  rk_body :: json
  rk_now :: int
  rk_db :: bool

definition refreshLimits :: "risk_call \<Rightarrow> dex_limits_cache \<Rightarrow> dex_limits_cache" where
  "refreshLimits c cache =
     (case parseLimitsResponse (rk_parse c) (rk_ok c) (rk_body c) of None \<Rightarrow> cache | Some v \<Rightarrow> Some (v, rk_now c))"

definition getEffectiveConfig :: "risk_call \<Rightarrow> dex_limits_cache \<Rightarrow> dex_limits \<times> dex_limits_cache" where
  "getEffectiveConfig c cache =
     (let cache' = (case cache of None \<Rightarrow> refreshLimits c cache
            | Some (_, fetchedAt) \<Rightarrow> if rk_now c - fetchedAt > 10000 then refreshLimits c cache else cache);
          base = (case cache' of None \<Rightarrow> SAFE_DEFAULT_CONFIG | Some (v, _) \<Rightarrow> v)
      in (applyEnvLowerBounds (rk_env c) base, cache'))"

section \<open>Daily volume\<close>

record risk_world =
  rw_limits :: dex_limits_cache
  rw_volumes :: "(int \<times> int) \<rightharpoonup> (rat \<times> nat)"

definition utc_day :: "int \<Rightarrow> int" where
  "utc_day now = now div 86400000"

definition getDailyVolume :: "risk_call \<Rightarrow> int \<Rightarrow> risk_world \<Rightarrow> rat" where
  "getDailyVolume c chainId w =
     (if \<not> rk_db c then 0
      else case rw_volumes w (chainId, utc_day (rk_now c)) of None \<Rightarrow> 0 | Some (v, _) \<Rightarrow> v)"

definition recordTradeVolume :: "int \<Rightarrow> bool \<Rightarrow> int \<Rightarrow> rat \<Rightarrow> risk_world \<Rightarrow> risk_world" where
  "recordTradeVolume now db chainId volumeUsd w =
     (if volumeUsd \<le> 0 \<or> \<not> db then w
      else (let key = (chainId, utc_day now)
            in w\<lparr>rw_volumes := (rw_volumes w)(key \<mapsto> (case rw_volumes w key of None \<Rightarrow> (volumeUsd, 1) | Some (v, n) \<Rightarrow> (v + volumeUsd, n + 1)))\<rparr>))"

section \<open>The check of a trade\<close>

record trade_request =
  tr_chainId :: int
  tr_protocol :: "string option"   \<comment> \<open>of the pool, when there is one\<close>
  tr_amountInUsd :: rat
  tr_slippageBps :: rat
  tr_gasCostUsd :: rat
  tr_tokenIn :: string
  tr_tokenOut :: string

record trade_check =
  tc_allowed :: bool
  tc_reasons :: "string list"
  tc_warnings :: "string list"
  tc_slippageBps :: rat
  tc_gasCostUsd :: rat
  tc_poolLiquidityUsd :: rat

definition trade_reasons :: "dex_limits \<Rightarrow> rat \<Rightarrow> trade_request \<Rightarrow> string list" where
  "trade_reasons config dailyVol t =
     (case tr_protocol t of Some p \<Rightarrow> if p \<notin> set (dl_allowedProtocols config) then [''Protocol not allowed''] else [] | None \<Rightarrow> [])
     @ (if tr_tokenIn t \<in> set (dl_blockedTokens config) \<or> tr_tokenOut t \<in> set (dl_blockedTokens config)
        then [''Trade involves a blocked token''] else [])
     @ (if tr_slippageBps t > dl_maxSlippageBps config then [''Slippage exceeds max''] else [])
     @ (if tr_amountInUsd t > dl_maxPositionSizeUsd config then [''Position size exceeds max''] else [])
     @ (if dailyVol + tr_amountInUsd t > dl_maxDailyVolumeUsd config then [''Daily volume would exceed max''] else [])"

definition evaluateTrade :: "risk_call \<Rightarrow> trade_request \<Rightarrow> risk_world \<Rightarrow> trade_check \<times> risk_world" where
  "evaluateTrade c t w =
     (case getEffectiveConfig c (rw_limits w) of
        (config, cache') \<Rightarrow>
          (let w1 = w\<lparr>rw_limits := cache'\<rparr>;
               reasons = trade_reasons config (getDailyVolume c (tr_chainId t) w1) t
           in (\<lparr> tc_allowed = (reasons = []), tc_reasons = reasons,
                  tc_warnings = (if tr_protocol t \<noteq> None \<and> 0 < dl_minPoolLiquidityUsd config
                    then [''Pool liquidity estimate unavailable''] else []),
                  tc_slippageBps = tr_slippageBps t, tc_gasCostUsd = tr_gasCostUsd t, tc_poolLiquidityUsd = 0 \<rparr>, w1)))"

end
