(* ===== verification/Dex_Swap.thy ===== *)
theory Dex_Swap
  imports Venues Gas Dex_Risk
begin

text \<open>
  The five live DEX adapters (\<open>execution/adapters\<close>): from the playbook of a plan to a transaction on
  the chain. What nodes, oracle and wallets answer is in \<open>swap_env\<close>; every transaction that reaches
  the chain is appended to \<open>sw_sent\<close>, also when its answer is lost. The prices of the oracle are positive.
\<close>

section \<open>Transactions\<close>

datatype sent_tx =
    Deposit string int
  | Approve string string int
  | Swap_v2 string string string "json list" string rat int fee_data
  | Swap_v3 string swap_params_v3 string string rat int fee_data

text \<open>
  \<open>sendTransaction\<close> under the lock: accepted with hash and nonce, refused, or given up after a
  timeout, in which case it may still reach the chain.
\<close>

datatype broadcast = Accepted string int | Refused | Unknown bool

record receipt =
  rt_status :: int
  rt_gasUsed :: int
  rt_gasPrice :: "int option"
  rt_blockNumber :: int
  rt_blockHash :: "string option"
  rt_index :: "int option"

text \<open>\<open>tx.wait\<close>: a receipt, nothing before the timeout, or an exception.\<close>

datatype wait_answer = Receipt receipt | Not_confirmed | Wait_failed

record tx_answer =
  ta_broadcast :: broadcast
  ta_wait :: wait_answer

record swap_env =
  sv_provider :: bool
  sv_limits1 :: risk_call
  sv_price1 :: "rat option"
  sv_decimals1 :: "nat option"
  sv_native :: "rat option"
  sv_fees1 :: fee_answer
  sv_wallet :: "string option"
  sv_quote :: "string \<Rightarrow> string \<Rightarrow> json list \<Rightarrow> int list option"
  sv_quoteV3 :: "string \<Rightarrow> swap_params_v3 \<Rightarrow> int option"
  sv_defaultSlippage :: "string option"
  sv_limits2 :: risk_call
  sv_decimalsIn :: "nat option"
  sv_decimalsOut :: "nat option"
  sv_priceIn :: "rat option"
  sv_priceOut :: "rat option"
  sv_wethBalance :: "int option"
  sv_deposit :: tx_answer
  sv_allowance :: "int option"
  sv_allowance2 :: "int option"
  sv_revoke :: tx_answer
  sv_approve :: tx_answer
  sv_approveLate :: bool
  sv_now :: int
  sv_encodes :: bool
  sv_gas :: gas_env
  sv_estimated :: "int option"
  sv_fees2 :: fee_answer
  sv_swap :: tx_answer
  sv_recordDb :: bool

record swap_world =
  sw_risk :: risk_world
  sw_sent :: "sent_tx list"

type_synonym 'a swap_step = "swap_world \<Rightarrow> (venue_error + 'a) \<times> swap_world"

text \<open>\<open>await\<close>: the rest runs on the value, an exception goes through; a value that is at hand.\<close>

definition and_then :: "'a swap_step \<Rightarrow> ('a \<Rightarrow> 'b swap_step) \<Rightarrow> 'b swap_step" where
  "and_then m f w = (case m w of (Inl e, w1) \<Rightarrow> (Inl e, w1) | (Inr v, w1) \<Rightarrow> f v w1)"

definition lift :: "venue_error + 'a \<Rightarrow> 'a swap_step" where
  "lift r w = (r, w)"

definition present :: "venue_error \<Rightarrow> 'a option \<Rightarrow> 'a swap_step" where
  "present e v = lift (case v of None \<Rightarrow> Inl e | Some x \<Rightarrow> Inr x)"

definition send :: "sent_tx \<Rightarrow> broadcast \<Rightarrow> (string \<times> int) swap_step" where
  "send tx b w =
     (case b of
        Accepted h n \<Rightarrow> (Inr (h, n), w\<lparr>sw_sent := sw_sent w @ [tx]\<rparr>)
      | Refused \<Rightarrow> (Inl (Other_error ''sendTransaction''), w)
      | Unknown landed \<Rightarrow> (Inl (Other_error ''broadcast fn timeout''), if landed then w\<lparr>sw_sent := sw_sent w @ [tx]\<rparr> else w))"

definition waitForConfirmation :: "wait_answer \<Rightarrow> receipt option swap_step" where
  "waitForConfirmation a = lift (case a of Receipt r \<Rightarrow> Inr (Some r) | Not_confirmed \<Rightarrow> Inr None | Wait_failed \<Rightarrow> Inl (Other_error ''wait''))"

section \<open>Gates\<close>

definition token_units :: "int \<Rightarrow> nat \<Rightarrow> rat" where
  "token_units n decimals = of_int n / 10 ^ decimals"

definition gate_gas_cost :: "swap_env \<Rightarrow> rat" where
  "gate_gas_cost e =
     (case sv_native e of
        None \<Rightarrow> 0
      | Some nativeUsd \<Rightarrow>
          (case getEip1559FeeData (sv_fees1 e) of
             None \<Rightarrow> 0
           | Some fd \<Rightarrow> (case estimateGasCostUsd 200000 fd (Some nativeUsd) of None \<Rightarrow> 0 | Some c \<Rightarrow> c)))"

definition trade_request_of :: "swap_env \<Rightarrow> 'a swap_params_scheme \<Rightarrow> rat \<Rightarrow> trade_request" where
  "trade_request_of e p amountInUsd = \<lparr> tr_chainId = \<lfloor>sp_chainId p\<rfloor>, tr_protocol = None, tr_amountInUsd = amountInUsd, tr_slippageBps = 0,
     tr_gasCostUsd = gate_gas_cost e, tr_tokenIn = sp_tokenIn p, tr_tokenOut = sp_tokenOut p \<rparr>"

definition enforceLiveRiskGate :: "swap_env \<Rightarrow> 'a swap_params_scheme \<Rightarrow> rat swap_step" where
  "enforceLiveRiskGate e p =
     and_then (present (Client_error ''cannot price tokenIn'') (sv_price1 e)) (\<lambda>tokenInUsd.
     and_then (present (Client_error ''cannot read decimals for tokenIn'') (sv_decimals1 e)) (\<lambda>decimals.
     and_then (present (Other_error ''BigInt'') (js_BigInt (sp_amountIn p))) (\<lambda>amountIn w.
       (let amountInUsd = token_units amountIn decimals * tokenInUsd
        in case evaluateTrade (sv_limits1 e) (trade_request_of e p amountInUsd) (sw_risk w) of
             (risk, r1) \<Rightarrow> (if \<not> tc_allowed risk then Inl (Client_error ''DEX risk denied'') else Inr amountInUsd, w\<lparr>sw_risk := r1\<rparr>)))))"

definition impact_bps :: "rat \<Rightarrow> rat \<Rightarrow> int" where
  "impact_bps notionalInUsd notionalOutUsd = max 0 (js_round ((notionalInUsd - notionalOutUsd) / notionalInUsd * 10000))"

definition enforcePostQuoteSlippageGate :: "swap_env \<Rightarrow> 'a swap_params_scheme \<Rightarrow> string \<Rightarrow> unit swap_step" where
  "enforcePostQuoteSlippageGate e p expectedAmountOut w =
     (case getEffectiveConfig (sv_limits2 e) (rw_limits (sw_risk w)) of
        (config, cache') \<Rightarrow>
          and_then (present (Client_error ''cannot read decimals for slippage check'') (sv_decimalsIn e)) (\<lambda>dIn.
          and_then (present (Client_error ''cannot read decimals for slippage check'') (sv_decimalsOut e)) (\<lambda>dOut.
          and_then (present (Other_error ''BigInt'') (js_BigInt (sp_amountIn p))) (\<lambda>amountIn.
          and_then (present (Other_error ''BigInt'') (js_BigInt expectedAmountOut)) (\<lambda>out.
          and_then (present (Client_error ''cannot price tokens for slippage check'') (sv_priceIn e)) (\<lambda>pIn.
          and_then (present (Client_error ''cannot price tokens for slippage check'') (sv_priceOut e)) (\<lambda>pOut.
            lift (if token_units amountIn dIn \<le> 0 then Inl (Client_error ''cannot price tokens for slippage check'')
                  else if of_int (impact_bps (token_units amountIn dIn * pIn) (token_units out dOut * pOut)) > dl_maxSlippageBps config
                  then Inl (Client_error ''live slippage gate blocked'') else Inr ())))))))
          (w\<lparr>sw_risk := (sw_risk w)\<lparr>rw_limits := cache'\<rparr>\<rparr>))"

section \<open>Wrapping and approval\<close>

definition ensureWrappedNativeBalance :: "swap_env \<Rightarrow> 'a swap_params_scheme \<Rightarrow> unit swap_step" where
  "ensureWrappedNativeBalance e p =
     (case getWrappedNativeAddress (sp_chainId p) of
        None \<Rightarrow> lift (Inr ())
      | Some wrapped \<Rightarrow>
          (if js_lower (sp_tokenIn p) \<noteq> js_lower wrapped then lift (Inr ())
           else case sv_wethBalance e of
             None \<Rightarrow> lift (Inr ())
           | Some balance \<Rightarrow>
               and_then (present (Other_error ''BigInt'') (js_BigInt (sp_amountIn p))) (\<lambda>required.
                 if balance \<ge> required then lift (Inr ())
                 else and_then (send (Deposit wrapped (required - balance)) (ta_broadcast (sv_deposit e))) (\<lambda>_.
                   and_then (waitForConfirmation (ta_wait (sv_deposit e))) (\<lambda>r.
                     lift (case r of Some rc \<Rightarrow> if rt_status rc = 0 then Inl (Other_error ''native wrap failed'') else Inr ()
                       | None \<Rightarrow> Inl (Other_error ''native wrap failed'')))))))"

text \<open>\<open>approveToken\<close> with the wallet given: whether the approval is confirmed.\<close>

definition approveToken :: "swap_env \<Rightarrow> string \<Rightarrow> string \<Rightarrow> int \<Rightarrow> bool swap_step" where
  "approveToken e token spender amount =
     and_then (present (Other_error ''allowance'') (sv_allowance2 e)) (\<lambda>currentAllowance.
     and_then (if currentAllowance > 0 \<and> currentAllowance \<noteq> amount
               then and_then (send (Approve token spender 0) (ta_broadcast (sv_revoke e))) (\<lambda>_.
                      and_then (waitForConfirmation (ta_wait (sv_revoke e))) (\<lambda>_. lift (Inr ())))
               else lift (Inr ())) (\<lambda>_.
     and_then (send (Approve token spender amount) (ta_broadcast (sv_approve e))) (\<lambda>_.
     and_then (waitForConfirmation (ta_wait (sv_approve e))) (\<lambda>r.
       lift (Inr (case r of Some rc \<Rightarrow> rt_status rc = 1 | None \<Rightarrow> False))))))"

text \<open>The race of the approval against its timeout, which two of the adapters have.\<close>

definition raced :: "bool \<Rightarrow> bool \<Rightarrow> 'a swap_step \<Rightarrow> 'a swap_step" where
  "raced bounded late m w =
     (case m w of (r, w1) \<Rightarrow> (if bounded \<and> late then Inl (Other_error ''ERC20 approve tx timeout'') else r, w1))"

definition ensureApproval :: "bool \<Rightarrow> swap_env \<Rightarrow> 'a swap_params_scheme \<Rightarrow> string \<Rightarrow> unit swap_step" where
  "ensureApproval bounded e p routerAddress =
     and_then (present (Other_error ''BigInt'') (js_BigInt (sp_amountIn p))) (\<lambda>amountIn.
     and_then (present (Other_error ''allowance'') (sv_allowance e)) (\<lambda>currentAllowance.
       if currentAllowance \<ge> amountIn then lift (Inr ())
       else and_then (raced bounded (sv_approveLate e) (approveToken e (sp_tokenIn p) routerAddress amountIn)) (\<lambda>confirmed.
         lift (if \<not> confirmed then Inl (Client_error ''ERC20 approve failed'') else Inr ()))))"

section \<open>Broadcast and receipt\<close>

definition swap_deadline :: "swap_env \<Rightarrow> 'a swap_params_scheme \<Rightarrow> rat" where
  "swap_deadline e p = of_int (sv_now e div 1000) + (case sp_deadlineSeconds p of Some s \<Rightarrow> s | None \<Rightarrow> 600)"

definition confirmed_meta :: "string \<Rightarrow> int \<Rightarrow> 'a swap_params_scheme \<Rightarrow> string \<Rightarrow> string \<Rightarrow> gas_estimation \<Rightarrow> receipt \<Rightarrow> onchain_meta" where
  "confirmed_meta h n p wallet router g rc =
     \<lparr> om_txHash = h, om_chainId = \<lfloor>sp_chainId p\<rfloor>, om_fromAddress = wallet, om_toAddress = router, om_nonce = Some n,
       om_gasLimit = Some (string_of_int (gn_gasLimit g)), om_gasUsed = Some (string_of_int (rt_gasUsed rc)),
       om_gasPrice = map_option string_of_int (rt_gasPrice rc),
       om_maxFeePerGas = Some (string_of_int (fd_maxFeePerGas (gn_feeData g))),
       om_maxPriorityFeePerGas = Some (string_of_int (fd_maxPriorityFeePerGas (gn_feeData g))),
       om_blockNumber = Some (rt_blockNumber rc), om_blockHash = rt_blockHash rc, om_transactionIndex = rt_index rc,
       om_value = Some ''0'', om_status = tx_confirmed, om_revertReason = None \<rparr>"

text \<open>The adapters from the gas estimate on; \<open>tx\<close> is the swap for a gas limit and fees.\<close>

definition after_broadcast ::
  "swap_env \<Rightarrow> 'a swap_params_scheme \<Rightarrow> string \<Rightarrow> string \<Rightarrow> rat \<Rightarrow> gas_estimation \<Rightarrow> string \<times> int \<Rightarrow> (string \<times> onchain_meta) swap_step" where
  "after_broadcast e p wallet router amountInUsd g hn =
     and_then (waitForConfirmation (ta_wait (sv_swap e))) (\<lambda>r w.
       (case r of
          None \<Rightarrow> (Inl (Transient_error ''tx not confirmed within timeout''), w)
        | Some rc \<Rightarrow>
            (if rt_status rc = 0 then (Inl (Terminal_error T_failed ''tx reverted on-chain''), w)
             else (Inr (fst hn, confirmed_meta (fst hn) (snd hn) p wallet router g rc),
               w\<lparr>sw_risk := recordTradeVolume (sv_now e) (sv_recordDb e) \<lfloor>sp_chainId p\<rfloor> amountInUsd (sw_risk w)\<rparr>))))"

definition submit_swap ::
  "swap_env \<Rightarrow> 'a swap_params_scheme \<Rightarrow> string \<Rightarrow> string \<Rightarrow> rat \<Rightarrow> (int \<Rightarrow> fee_data \<Rightarrow> sent_tx) \<Rightarrow> (string \<times> onchain_meta) swap_step" where
  "submit_swap e p wallet router amountInUsd tx =
     and_then (lift (if sv_encodes e then Inr () else Inl (Other_error ''encodeFunctionData''))) (\<lambda>_.
     and_then (present (Other_error ''estimateGas'') (estimateGas (sv_gas e) (sv_estimated e) (sv_fees2 e))) (\<lambda>g.
     and_then (lift (if \<not> gn_withinPolicy g then Inl (Client_error ''gas price exceeds policy'') else Inr ())) (\<lambda>_.
     and_then (send (tx (gn_gasLimit g) (gn_feeData g)) (ta_broadcast (sv_swap e)))
       (after_broadcast e p wallet router amountInUsd g))))"

text \<open>The \<open>catch\<close> around it all.\<close>

definition wrap_unexpected :: "'a swap_step \<Rightarrow> 'a swap_step" where
  "wrap_unexpected m w = (case m w of (Inl (Other_error msg), w1) \<Rightarrow> (Inl (Transient_error ''unexpected error during submitLeg''), w1)
     | out \<Rightarrow> out)"

section \<open>Routers of the V2 family\<close>

definition calculateAmountOutMin :: "swap_env \<Rightarrow> swap_params \<Rightarrow> string \<Rightarrow> json list \<Rightarrow> (string \<times> string) swap_step" where
  "calculateAmountOutMin e p routerAddress swapPath =
     and_then (present (Other_error ''getAmountsOut'') (sv_quote e routerAddress (sp_amountIn p) swapPath)) (\<lambda>amounts.
     and_then (present (Other_error ''amounts'') (if amounts = [] then None else Some (last amounts))) (\<lambda>expected.
     and_then (present (Other_error ''BigInt'') (applySlippage (string_of_int expected) (getSlippageBps (sv_defaultSlippage e) (sp_slippageBps p))))
       (\<lambda>amountOutMin. lift (Inr (amountOutMin, string_of_int expected)))))"

definition swap_path :: "swap_params \<Rightarrow> json list" where
  "swap_path p = (case sp_path p of Some xs \<Rightarrow> xs | None \<Rightarrow> [JStr (sp_tokenIn p), JStr (sp_tokenOut p)])"

definition v2_submitLeg :: "(rat \<Rightarrow> venue_error + string) \<Rightarrow> bool \<Rightarrow> swap_env \<Rightarrow> plan \<Rightarrow> leg \<Rightarrow> (string \<times> onchain_meta) swap_step" where
  "v2_submitLeg router bounded e pl lg = wrap_unexpected (
     and_then (lift (extractSwapParams (pl_playbookConfig pl) (lg_legIndex lg))) (\<lambda>p.
     and_then (lift (if sv_provider e then Inr () else Inl (Other_error ''getProvider''))) (\<lambda>_.
     and_then (lift (router (sp_chainId p))) (\<lambda>routerAddress.
     and_then (enforceLiveRiskGate e p) (\<lambda>amountInUsd.
     and_then (present (Other_error ''selectWallet'') (sv_wallet e)) (\<lambda>wallet.
     and_then (calculateAmountOutMin e p routerAddress (swap_path p)) (\<lambda>(amountOutMin, expectedAmountOut).
     and_then (enforcePostQuoteSlippageGate e p expectedAmountOut) (\<lambda>_.
     and_then (ensureWrappedNativeBalance e p) (\<lambda>_.
     and_then (ensureApproval bounded e p routerAddress) (\<lambda>_.
       submit_swap e p wallet routerAddress amountInUsd
         (Swap_v2 routerAddress (sp_amountIn p) amountOutMin (swap_path p)
           (case sp_recipient p of Some r \<Rightarrow> r | None \<Rightarrow> wallet) (swap_deadline e p))))))))))))"

definition uniswap_v2_submitLeg :: "swap_env \<Rightarrow> plan \<Rightarrow> leg \<Rightarrow> (string \<times> onchain_meta) swap_step" where
  "uniswap_v2_submitLeg = v2_submitLeg resolveRouterAddress False"

definition sushiswap_submitLeg :: "swap_env \<Rightarrow> plan \<Rightarrow> leg \<Rightarrow> (string \<times> onchain_meta) swap_step" where
  "sushiswap_submitLeg = v2_submitLeg resolveSushiRouterAddress True"

definition pancakeswap_submitLeg :: "swap_env \<Rightarrow> plan \<Rightarrow> leg \<Rightarrow> (string \<times> onchain_meta) swap_step" where
  "pancakeswap_submitLeg = v2_submitLeg resolvePancakeV2RouterAddress False"

definition biswap_submitLeg :: "swap_env \<Rightarrow> plan \<Rightarrow> leg \<Rightarrow> (string \<times> onchain_meta) swap_step" where
  "biswap_submitLeg = v2_submitLeg resolveBiswapRouterAddress False"

section \<open>Uniswap V3\<close>

definition quoteV3 :: "swap_env \<Rightarrow> swap_params_v3 \<Rightarrow> string option" where
  "quoteV3 e p =
     (case resolveQuoterV2Address (sp_chainId p) of
        Inl _ \<Rightarrow> None
      | Inr quoter \<Rightarrow>
          (if quoter = ZERO_ADDRESS \<or> js_BigInt (sp_amountIn p) = None
              \<or> js_BigInt (case sp_sqrtPriceLimitX96 p of Some s \<Rightarrow> s | None \<Rightarrow> ''0'') = None then None
           else case sv_quoteV3 e quoter p of
             None \<Rightarrow> None
           | Some amountOut \<Rightarrow> if amountOut \<le> 0 then None else Some (string_of_int amountOut)))"

definition calculateAmountOutMinV3 :: "swap_env \<Rightarrow> swap_params_v3 \<Rightarrow> (string \<times> bool \<times> string) swap_step" where
  "calculateAmountOutMinV3 e p =
     (let slippageBps = getSlippageBps (sv_defaultSlippage e) (sp_slippageBps p);
          (expected, live) = (case quoteV3 e p of Some q \<Rightarrow> (q, True) | None \<Rightarrow> (sp_amountOutExpected p, False))
      in and_then (present (Other_error ''BigInt'') (applySlippage expected slippageBps)) (\<lambda>amountOutMin.
           lift (Inr (amountOutMin, live, expected))))"

definition uniswap_v3_submitLeg :: "swap_env \<Rightarrow> plan \<Rightarrow> leg \<Rightarrow> (string \<times> onchain_meta) swap_step" where
  "uniswap_v3_submitLeg e pl lg = wrap_unexpected (
     and_then (lift (extractSwapParamsV3 (pl_playbookConfig pl) (lg_legIndex lg))) (\<lambda>p.
     and_then (lift (if sv_provider e then Inr () else Inl (Other_error ''getProvider''))) (\<lambda>_.
     and_then (lift (resolveV3RouterAddress (sp_chainId p))) (\<lambda>routerAddress.
     and_then (enforceLiveRiskGate e p) (\<lambda>amountInUsd.
     and_then (present (Other_error ''selectWallet'') (sv_wallet e)) (\<lambda>wallet.
     and_then (calculateAmountOutMinV3 e p) (\<lambda>(amountOutMin, live, expectedAmountOut).
     and_then (enforcePostQuoteSlippageGate e p expectedAmountOut) (\<lambda>_.
     and_then (ensureWrappedNativeBalance e p) (\<lambda>_.
     and_then (ensureApproval True e p routerAddress) (\<lambda>_.
       submit_swap e p wallet routerAddress amountInUsd
         (Swap_v3 routerAddress p amountOutMin (case sp_recipient p of Some r \<Rightarrow> r | None \<Rightarrow> wallet) (swap_deadline e p))))))))))))"

end
