(* ===== verification/Venue_Factory.thy ===== *)
theory Venue_Factory
  imports Dex_Swap
begin

text \<open>
  \<open>venue-factory.service.ts\<close> and the venues without a chain: the simulation (\<open>paper-dex.adapter.ts\<close>), the
  HTTP front (\<open>http-venue.adapter.ts\<close>) and the sandbox (\<open>mock-venue.adapter.ts\<close>). Metrics and the
  categories of client errors, which only reach the log, are left out.
\<close>

section \<open>Simulation\<close>

record paper_env =
  pe_gasUsed :: "string option"
  pe_gasPriceGwei :: "string option"
  pe_outputMultiplier :: "string option"
  pe_priceImpactBps :: "string option"
  pe_defaultSlippage :: "string option"
  pe_uuid :: string

definition trimmed_env :: "string option \<Rightarrow> string option" where
  "trimmed_env v = js_or_null (map_option js_trim v)"

definition readSimulatedGasUsed :: "paper_env \<Rightarrow> int" where
  "readSimulatedGasUsed e =
     (case trimmed_env (pe_gasUsed e) of None \<Rightarrow> 180000
      | Some s \<Rightarrow> (case js_parseInt10 s of Some n \<Rightarrow> if n > 0 then n else 180000 | None \<Rightarrow> 180000))"

definition positive_float :: "string option \<Rightarrow> rat \<Rightarrow> rat" where
  "positive_float v dflt =
     (case trimmed_env v of None \<Rightarrow> dflt
      | Some s \<Rightarrow> (case js_parseFloat s of Fin q \<Rightarrow> if q > 0 then q else dflt | _ \<Rightarrow> dflt))"

definition readSimulatedGasPriceGwei :: "paper_env \<Rightarrow> rat" where
  "readSimulatedGasPriceGwei e = positive_float (pe_gasPriceGwei e) (1 / 10)"

definition readSimulatedOutputMultiplier :: "paper_env \<Rightarrow> rat" where
  "readSimulatedOutputMultiplier e = positive_float (pe_outputMultiplier e) 1"

definition readSimulatedPriceImpactBps :: "paper_env \<Rightarrow> int" where
  "readSimulatedPriceImpactBps e =
     (case trimmed_env (pe_priceImpactBps e) of None \<Rightarrow> 5
      | Some s \<Rightarrow> (case js_parseInt10 s of Some n \<Rightarrow> if n \<ge> 0 then n else 5 | None \<Rightarrow> 5))"

definition simulateSwapOutput :: "string \<Rightarrow> jsnum \<Rightarrow> rat \<Rightarrow> int \<Rightarrow> (string \<times> string) option" where
  "simulateSwapOutput amountIn slippageBps outputMultiplier priceImpactBps =
     (case js_BigInt amountIn of
        None \<Rightarrow> None
      | Some input \<Rightarrow>
          (let multiplied = bigint_div (input * js_round (outputMultiplier * 10000)) 10000;
               amountOut = string_of_int (bigint_div (multiplied * (10000 - priceImpactBps)) 10000)
           in map_option (\<lambda>amountOutMin. (amountOut, amountOutMin)) (applySlippage amountOut slippageBps)))"

definition calculateSimulatedGasCostEth :: "int \<Rightarrow> rat \<Rightarrow> rat" where
  "calculateSimulatedGasCostEth gasUsed gasPriceGwei = of_int gasUsed * gasPriceGwei / 1000000000"

definition paper_validate :: "swap_params \<Rightarrow> venue_error + unit" where
  "paper_validate p =
     (case js_BigInt (sp_amountIn p) of
        None \<Rightarrow> Inl (Other_error ''BigInt'')
      | Some amountIn \<Rightarrow>
          (if amountIn \<le> 0 then Inl (Client_error ''amountIn must be positive'')
           else if sp_tokenIn p = sp_tokenOut p then Inl (Client_error ''tokenIn and tokenOut must differ'') else Inr ()))"

record paper_result =
  pr_externalOrderId :: string
  pr_amountOut :: string
  pr_amountOutMin :: string
  pr_gasCostEth :: rat
  pr_path :: "json list"

definition paper_submitLeg :: "paper_env \<Rightarrow> plan \<Rightarrow> leg \<Rightarrow> venue_error + paper_result" where
  "paper_submitLeg e pl lg =
     (case extractSwapParams (pl_playbookConfig pl) (lg_legIndex lg) of
        Inl err \<Rightarrow> Inl err
      | Inr p \<Rightarrow>
          (case paper_validate p of
             Inl err \<Rightarrow> Inl err
           | Inr _ \<Rightarrow>
               (case simulateSwapOutput (sp_amountIn p) (getSlippageBps (pe_defaultSlippage e) (sp_slippageBps p))
                       (readSimulatedOutputMultiplier e) (readSimulatedPriceImpactBps e) of
                  None \<Rightarrow> Inl (Other_error ''BigInt'')
                | Some (amountOut, amountOutMin) \<Rightarrow> Inr \<lparr> pr_externalOrderId = ''paper-dex:'' @ pe_uuid e,
                    pr_amountOut = amountOut, pr_amountOutMin = amountOutMin,
                    pr_gasCostEth = calculateSimulatedGasCostEth (readSimulatedGasUsed e) (readSimulatedGasPriceGwei e),
                    pr_path = swap_path p \<rparr>)))"

section \<open>HTTP venue\<close>

definition buildLegSubmitIdempotencyKey :: "string \<Rightarrow> string" where
  "buildLegSubmitIdempotencyKey legId = ''execution:leg:'' @ legId @ '':submit''"

definition readVenueHttpTimeoutMs :: "string option \<Rightarrow> int" where
  "readVenueHttpTimeoutMs v =
     (case js_parseInt10 (case v of None \<Rightarrow> ''12000'' | Some s \<Rightarrow> js_trim s) of
        None \<Rightarrow> 12000 | Some n \<Rightarrow> min 120000 (max 1000 n))"

definition parseTerminalState :: "json option \<Rightarrow> venue_terminal option" where
  "parseTerminalState v =
     (case v of
        Some (JStr s) \<Rightarrow> (if s = ''rejected'' then Some T_rejected
          else if s = ''timedOut'' \<or> s = ''timed_out'' then Some T_timedOut
          else if s = ''failed'' then Some T_failed else None)
      | _ \<Rightarrow> None)"

text \<open>The body of the request, and the reply: the body is \<open>None\<close> when it is not JSON.\<close>

definition http_request_body :: "plan \<Rightarrow> leg \<Rightarrow> json" where
  "http_request_body pl lg = JObj [(''planId'', JStr (pl_id pl)), (''legId'', JStr (lg_id lg)),
     (''legIndex'', JNum (of_int (lg_legIndex lg))), (''submitIdempotencyKey'', JStr (buildLegSubmitIdempotencyKey (lg_id lg)))]"

datatype http_reply = No_reply | Reply int "json option"

definition http_submitLeg :: "(json \<Rightarrow> http_reply) \<Rightarrow> plan \<Rightarrow> leg \<Rightarrow> venue_error + string" where
  "http_submitLeg fetch pl lg =
     (case fetch (http_request_body pl lg) of
        No_reply \<Rightarrow> Inl (Transient_error ''network error or timeout'')
      | Reply st body \<Rightarrow>
          (if 200 \<le> st \<and> st \<le> 299 then
             (case body of
                None \<Rightarrow> Inl (Client_error ''invalid JSON'')
              | Some b \<Rightarrow> (case jnonempty_str (jget b ''externalOrderId'') of
                  Some i \<Rightarrow> Inr i | None \<Rightarrow> Inl (Client_error ''missing externalOrderId'')))
           else if st \<in> {408, 429, 502, 503, 504} then Inl (Transient_error ''transient HTTP status'')
           else if st = 409 \<and> jis_object (Some (case body of Some b \<Rightarrow> b | None \<Rightarrow> JObj [])) then
             (let b = (case body of Some b \<Rightarrow> b | None \<Rightarrow> JObj [])
              in case parseTerminalState (jcoalesce (jget b ''terminalState'') (jget b ''terminal_state'')) of
                   Some t \<Rightarrow> Inl (Terminal_error t ''terminal submit'')
                 | None \<Rightarrow> Inl (Client_error ''409 conflict without terminalState''))
           else if st \<ge> 500 then Inl (Transient_error ''server error'')
           else if st \<ge> 400 then Inl (Client_error ''client HTTP status'')
           else Inl (Transient_error ''unexpected HTTP status'')))"

section \<open>Sandbox\<close>

record mock_env =
  mk_terminalLegIndex :: "string option"
  mk_terminalState :: "string option"
  mk_uuid :: string

definition readInitialSubmitFailures :: "string option \<Rightarrow> int" where
  "readInitialSubmitFailures v =
     (case trimmed_env v of None \<Rightarrow> 0
      | Some s \<Rightarrow> (case js_parseInt10 s of Some n \<Rightarrow> if n > 0 then n else 0 | None \<Rightarrow> 0))"

definition readTerminalLegIndex :: "string option \<Rightarrow> int option" where
  "readTerminalLegIndex v =
     (case trimmed_env v of None \<Rightarrow> None
      | Some s \<Rightarrow> (case js_parseInt10 s of Some n \<Rightarrow> if n \<ge> 0 then Some n else None | None \<Rightarrow> None))"

definition readTerminalState :: "string option \<Rightarrow> venue_terminal option" where
  "readTerminalState v =
     (let raw = js_lower (js_trim (case v of Some s \<Rightarrow> s | None \<Rightarrow> []))
      in if raw = ''rejected'' then Some T_rejected
         else if raw = ''timed_out'' \<or> raw = ''timedout'' then Some T_timedOut
         else if raw = ''failed'' then Some T_failed else None)"

definition mock_accept :: "mock_env \<Rightarrow> leg \<Rightarrow> int \<Rightarrow> (venue_error + string) \<times> int" where
  "mock_accept e lg submitFailuresRemaining =
     (if submitFailuresRemaining > 0
      then (Inl (Transient_error ''Mock venue injected failure''), submitFailuresRemaining - 1)
      else (Inr (''mock:'' @ lg_id lg @ '':'' @ take 8 (mk_uuid e)), submitFailuresRemaining))"

text \<open>\<open>MockVenueAdapter\<close> keeps how many submissions are still to fail.\<close>

definition mock_submitLeg :: "mock_env \<Rightarrow> leg \<Rightarrow> int \<Rightarrow> (venue_error + string) \<times> int" where
  "mock_submitLeg e lg submitFailuresRemaining =
     (case (readTerminalLegIndex (mk_terminalLegIndex e), readTerminalState (mk_terminalState e)) of
        (Some i, Some t) \<Rightarrow>
          (if lg_legIndex lg = i then (Inl (Terminal_error t ''Mock venue terminal submit''), submitFailuresRemaining)
           else mock_accept e lg submitFailuresRemaining)
      | _ \<Rightarrow> mock_accept e lg submitFailuresRemaining)"

section \<open>Routing\<close>

datatype venue_route = To_uniswap_v2 | To_uniswap_v3 | To_sushiswap | To_pancakeswap_v2 | To_biswap | To_paper | To_http | To_mock

text \<open>
  \<open>resolveAdapter\<close>. The HTTP front is made on its first use and kept: \<open>http\<close> is the address it was made
  with, \<open>dexEnabled\<close> and \<open>base\<close> are \<open>DEX_VENUE_ENABLED\<close> and \<open>VENUE_HTTP_BASE_URL\<close> at the call.
\<close>

definition resolveDexAdapter :: "string option \<Rightarrow> string \<Rightarrow> venue_error + venue_route" where
  "resolveDexAdapter dexEnabled key =
     (if dexEnabled \<noteq> Some ''true'' then Inl (Client_error ''DEX_VENUE_ENABLED is not true'')
      else if key = ''uniswap-v2'' then Inr To_uniswap_v2
      else if key = ''uniswap-v3'' then Inr To_uniswap_v3
      else if key = ''sushiswap'' then Inr To_sushiswap
      else if key = ''pancakeswap-v2'' then Inr To_pancakeswap_v2
      else if key = ''biswap'' then Inr To_biswap
      else Inl (Client_error ''no adapter registered''))"

definition getOrCreateHttpAdapter :: "string option \<Rightarrow> string option \<Rightarrow> (venue_error + venue_route) \<times> string option" where
  "getOrCreateHttpAdapter base http =
     (case http of
        Some _ \<Rightarrow> (Inr To_http, http)
      | None \<Rightarrow> (case trimmed_env base of
          None \<Rightarrow> (Inl (Client_error ''VENUE_HTTP_BASE_URL is not set''), None)
        | Some u \<Rightarrow> (Inr To_http, Some u)))"

definition resolveLegacyAdapter :: "string option \<Rightarrow> string option \<Rightarrow> (venue_error + venue_route) \<times> string option" where
  "resolveLegacyAdapter base http =
     (if trimmed_env base \<noteq> None then getOrCreateHttpAdapter base http else (Inr To_mock, http))"

definition resolveAdapter ::
  "string option \<Rightarrow> string option \<Rightarrow> string option \<Rightarrow> string option \<Rightarrow> (venue_error + venue_route) \<times> string option" where
  "resolveAdapter dexEnabled base venueKey http =
     (case js_or_null venueKey of
        None \<Rightarrow> resolveLegacyAdapter base http
      | Some key \<Rightarrow>
          (if key = ''paper-dex'' then (Inr To_paper, http)
           else if isLiveVenueKey (Some key) then (resolveDexAdapter dexEnabled key, http)
           else if key = ''http'' then getOrCreateHttpAdapter base http
           else if key = ''mock'' then (Inr To_mock, http)
           else (Inl (Client_error ''unknown venueKey''), http)))"

record venue_env =
  ve_dexEnabled :: "string option"
  ve_httpBase :: "string option"
  ve_swap :: swap_env
  ve_paper :: paper_env
  ve_fetch :: "string \<Rightarrow> json \<Rightarrow> http_reply"
  ve_mock :: mock_env

record venue_world =
  vw_http :: "string option"
  vw_mockFailures :: int
  vw_swap :: swap_world

text \<open>The order id and, of a live venue, the proof on the chain.\<close>

type_synonym submit_result = "venue_error + string \<times> onchain_meta option"

definition live_submit :: "(string \<times> onchain_meta) swap_step \<Rightarrow> venue_world \<Rightarrow> submit_result \<times> venue_world" where
  "live_submit m w = (case m (vw_swap w) of (r, s) \<Rightarrow> (map_right (map_prod (\<lambda>h. h) Some) r, w\<lparr>vw_swap := s\<rparr>))"

definition factory_submitLeg :: "venue_env \<Rightarrow> plan \<Rightarrow> leg \<Rightarrow> venue_world \<Rightarrow> submit_result \<times> venue_world" where
  "factory_submitLeg e pl lg w =
     (case resolveAdapter (ve_dexEnabled e) (ve_httpBase e) (extractVenueKey pl lg) (vw_http w) of
        (Inl err, http) \<Rightarrow> (Inl err, w\<lparr>vw_http := http\<rparr>)
      | (Inr route, http) \<Rightarrow>
          (let w1 = w\<lparr>vw_http := http\<rparr>
           in case route of
                To_uniswap_v2 \<Rightarrow> live_submit (uniswap_v2_submitLeg (ve_swap e) pl lg) w1
              | To_uniswap_v3 \<Rightarrow> live_submit (uniswap_v3_submitLeg (ve_swap e) pl lg) w1
              | To_sushiswap \<Rightarrow> live_submit (sushiswap_submitLeg (ve_swap e) pl lg) w1
              | To_pancakeswap_v2 \<Rightarrow> live_submit (pancakeswap_submitLeg (ve_swap e) pl lg) w1
              | To_biswap \<Rightarrow> live_submit (biswap_submitLeg (ve_swap e) pl lg) w1
              | To_paper \<Rightarrow> (map_right (\<lambda>r. (pr_externalOrderId r, None)) (paper_submitLeg (ve_paper e) pl lg), w1)
              | To_http \<Rightarrow> (map_right (\<lambda>i. (i, None)) (http_submitLeg (ve_fetch e (case http of Some u \<Rightarrow> u | None \<Rightarrow> [])) pl lg), w1)
              | To_mock \<Rightarrow> (case mock_submitLeg (ve_mock e) lg (vw_mockFailures w1) of
                  (r, n) \<Rightarrow> (map_right (\<lambda>i. (i, None)) r, w1\<lparr>vw_mockFailures := n\<rparr>))))"

text \<open>The handlers of \<open>markSent\<close> for what the venue threw.\<close>

definition venue_answer :: "submit_result \<Rightarrow> venue_outcome" where
  "venue_answer r =
     (case r of
        Inr (i, meta) \<Rightarrow> VSent i meta
      | Inl (Client_error m) \<Rightarrow> VClientError m
      | Inl (Terminal_error t m) \<Rightarrow> VTerminal t m
      | Inl (Transient_error m) \<Rightarrow> VOther m
      | Inl (Other_error m) \<Rightarrow> VOther m)"

end
