(* ===== verification/Swap_Gates.thy ===== *)
theory Swap_Gates
  imports Venue_Factory Plan_Builder
begin

text \<open>
  How the steps of a live swap compose: what each of them sends, and what must have been checked
  before a swap reaches the chain.
\<close>

section \<open>Steps that respect a preorder of worlds\<close>

definition obeys :: "(swap_world \<Rightarrow> swap_world \<Rightarrow> bool) \<Rightarrow> 'a swap_step \<Rightarrow> bool" where
  "obeys R m \<longleftrightarrow> (\<forall>w. R w (snd (m w)))"

lemma obeysD: "obeys R m \<Longrightarrow> m w = (r, w') \<Longrightarrow> R w w'"
  unfolding obeys_def by (metis snd_conv)

lemma obeysI: "(\<And>w r w'. m w = (r, w') \<Longrightarrow> R w w') \<Longrightarrow> obeys R m"
  unfolding obeys_def by (metis surj_pair snd_conv)

lemma and_thenE:
  assumes "and_then m f w = (r, w')"
  obtains (fail) e where "m w = (Inl e, w')" "r = Inl e"
    | (run) x w1 where "m w = (Inr x, w1)" "f x w1 = (r, w')"
  using assms by (auto simp: and_then_def split: prod.splits sum.splits)

text \<open>Fees and gas of a world of any kind do not move the chain; each locale below is one way of looking at a world.\<close>

locale world_view =
  fixes R :: "swap_world \<Rightarrow> swap_world \<Rightarrow> bool"
  assumes same: "R w w"
    and via: "R w w1 \<Longrightarrow> R w1 w2 \<Longrightarrow> R w w2"
begin

lemma r_and_then: "obeys R m \<Longrightarrow> (\<And>x. obeys R (f x)) \<Longrightarrow> obeys R (and_then m f)"
  by (rule obeysI, erule and_thenE) (auto dest: obeysD intro: via)

lemma r_lift: "obeys R (lift v)"
  by (rule obeysI) (simp add: lift_def same)

lemma r_present: "obeys R (present err v)"
  unfolding present_def by (rule r_lift)

lemma r_present_then: "(\<And>x. v = Some x \<Longrightarrow> obeys R (f x)) \<Longrightarrow> obeys R (and_then (present err v) f)"
  by (rule obeysI, erule and_thenE)
    (auto simp: present_def lift_def same split: option.splits dest: obeysD)

lemma r_wait: "obeys R (waitForConfirmation a)"
  unfolding waitForConfirmation_def by (rule r_lift)

lemma r_raced: "obeys R m \<Longrightarrow> obeys R (raced b late m)"
  by (rule obeysI) (auto simp: raced_def split: prod.splits dest: obeysD)

lemma r_wrap: "obeys R m \<Longrightarrow> obeys R (wrap_unexpected m)"
  by (rule obeysI) (auto simp: wrap_unexpected_def split: prod.splits sum.splits venue_error.splits dest: obeysD)

lemma r_if: "obeys R m \<Longrightarrow> obeys R n \<Longrightarrow> obeys R (if b then m else n)"
  by simp

text \<open>A step runs on from an earlier one, or nothing the view sees has changed.\<close>

lemma run_on:
  assumes "and_then m f w = (r, w')" "obeys R m" "\<not> R w w'"
  obtains x w1 where "m w = (Inr x, w1)" "f x w1 = (r, w')" "R w w1" "\<not> R w1 w'"
  using assms(1)
proof (cases rule: and_thenE)
  case (fail e)
  then show ?thesis using assms obeysD by blast
next
  case (run x w1)
  moreover from run assms(2) have "R w w1" by (blast dest: obeysD)
  ultimately show ?thesis using that assms(3) via by blast
qed

end

text \<open>What a step sends, and whether it swaps.\<close>

definition sends_only :: "(sent_tx \<Rightarrow> bool) \<Rightarrow> swap_world \<Rightarrow> swap_world \<Rightarrow> bool" where
  "sends_only Q w w' \<longleftrightarrow> (\<exists>new. sw_sent w' = sw_sent w @ new \<and> (\<forall>tx \<in> set new. Q tx))"

fun is_swap :: "sent_tx \<Rightarrow> bool" where
  "is_swap (Swap_v2 _ _ _ _ _ _ _ _) = True"
| "is_swap (Swap_v3 _ _ _ _ _ _ _) = True"
| "is_swap _ = False"

definition swaps :: "swap_world \<Rightarrow> sent_tx list" where
  "swaps w = filter is_swap (sw_sent w)"

definition no_swap :: "swap_world \<Rightarrow> swap_world \<Rightarrow> bool" where
  "no_swap w w' \<longleftrightarrow> swaps w' = swaps w"

interpretation so: world_view "sends_only Q" for Q
  by unfold_locales (auto simp: sends_only_def)

interpretation ns: world_view no_swap
  by unfold_locales (simp_all add: no_swap_def)

lemma send_sends: "Q tx \<Longrightarrow> obeys (sends_only Q) (send tx b)"
  by (rule obeysI) (auto simp: send_def sends_only_def split: broadcast.splits if_splits)

lemma no_swap_of_sends: "obeys (sends_only (\<lambda>tx. \<not> is_swap tx)) m \<Longrightarrow> obeys no_swap m"
  by (rule obeysI, drule obeysD, assumption) (auto simp: sends_only_def no_swap_def swaps_def)

lemmas step_rules = so.r_and_then so.r_lift so.r_present so.r_wait so.r_raced so.r_wrap send_sends

text \<open>The gates send nothing.\<close>

lemma risk_gate_sends: "obeys (sends_only Q) (enforceLiveRiskGate e p)"
  unfolding enforceLiveRiskGate_def
  by (intro so.r_and_then so.r_present) (rule obeysI, auto simp: Let_def sends_only_def split: prod.splits if_splits)

lemma slippage_gate_sends: "obeys (sends_only Q) (enforcePostQuoteSlippageGate e p x)"
proof (rule obeysI)
  fix w r w'
  assume a: "enforcePostQuoteSlippageGate e p x w = (r, w')"
  obtain c k where g: "getEffectiveConfig (sv_limits2 e) (rw_limits (sw_risk w)) = (c, k)" by (rule prod.exhaust)
  let ?w = "w\<lparr>sw_risk := (sw_risk w)\<lparr>rw_limits := k\<rparr>\<rparr>"
  have "sends_only Q ?w w'"
    using a unfolding enforcePostQuoteSlippageGate_def g prod.case
    by (rule obeysD [rotated]) (intro so.r_and_then so.r_present so.r_lift)
  then show "sends_only Q w w'" by (simp add: sends_only_def)
qed

lemma quote_sends: "obeys (sends_only Q) (calculateAmountOutMin e p a path)"
  unfolding calculateAmountOutMin_def by (intro so.r_and_then so.r_present so.r_lift)

lemma quoteV3_sends: "obeys (sends_only Q) (calculateAmountOutMinV3 e p)"
  unfolding calculateAmountOutMinV3_def Let_def
  by (auto split: option.splits intro!: so.r_and_then so.r_present so.r_lift)

lemma wrap_sends:
  assumes "\<And>a n. getWrappedNativeAddress (sp_chainId p) = Some a \<Longrightarrow> js_lower (sp_tokenIn p) = js_lower a \<Longrightarrow> Q (Deposit a n)"
  shows "obeys (sends_only Q) (ensureWrappedNativeBalance e p)"
  unfolding ensureWrappedNativeBalance_def using assms
  by (auto split: option.splits intro!: step_rules)

lemma approve_sends:
  assumes "\<And>n. js_BigInt (sp_amountIn p) = Some n \<Longrightarrow> Q (Approve (sp_tokenIn p) a n)" "Q (Approve (sp_tokenIn p) a 0)"
  shows "obeys (sends_only Q) (ensureApproval b e p a)"
  unfolding ensureApproval_def approveToken_def using assms
  by (intro so.r_present_then so.r_and_then so.r_if so.r_raced so.r_lift so.r_wait so.r_present send_sends)


section \<open>The way to a swap\<close>

lemma present_Inr [simp]: "present err v w = (Inr x, w1) \<longleftrightarrow> v = Some x \<and> w1 = w"
  by (auto simp: present_def lift_def split: option.splits)

lemma lift_Inr [simp]: "lift v w = (Inr x, w1) \<longleftrightarrow> v = Inr x \<and> w1 = w"
  by (auto simp: lift_def)

lemma wrap_unexpected_world: "wrap_unexpected m w = (r, w') \<Longrightarrow> \<exists>r1. m w = (r1, w')"
  by (auto simp: wrap_unexpected_def split: prod.splits sum.splits venue_error.splits)

lemma estimateGas_capped:
  assumes "estimateGas ge n fa = Some g"
  obtains f q where "floor_BigInt (gp_maxFeePerGasGwei (getGasPolicy ge)) = Some f"
    "floor_BigInt (gp_maxPriorityFeeGwei (getGasPolicy ge)) = Some q"
    "fd_maxFeePerGas (gn_feeData g) \<le> f * 1000000000" "fd_maxPriorityFeePerGas (gn_feeData g) \<le> q * 1000000000"
  using assms by (auto simp: estimateGas_def Let_def cap_fees_def split: option.splits)

lemma after_broadcast_sends: "obeys (sends_only Q) (after_broadcast e p wallet router usd g hn)"
  unfolding after_broadcast_def
  by (intro so.r_and_then so.r_wait obeysI) (auto simp: sends_only_def split: option.splits if_splits)

text \<open>A \<open>tx.wait\<close> that throws is an exception of the submission, none of the classes of \<open>venue-adapter.ts\<close>.\<close>

definition wait_thrown :: "swap_env \<Rightarrow> venue_error + 'a \<Rightarrow> bool" where
  "wait_thrown e r \<longleftrightarrow> (ta_wait (sv_swap e) = Wait_failed \<longrightarrow> (\<exists>m. r = Inl (Other_error m)))"

lemma submit_swap_swaps:
  assumes "submit_swap e p wallet router usd tx w = (r, w')" "\<not> no_swap w w'" "\<And>gl fd. is_swap (tx gl fd)"
  obtains g where "estimateGas (sv_gas e) (sv_estimated e) (sv_fees2 e) = Some g" "gn_withinPolicy g"
    "swaps w' = swaps w @ [tx (gn_gasLimit g) (gn_feeData g)]" "wait_thrown e r"
proof -
  let ?send = "\<lambda>g. and_then (send (tx (gn_gasLimit g) (gn_feeData g)) (ta_broadcast (sv_swap e))) (after_broadcast e p wallet router usd g)"
  from assms(1) [unfolded submit_swap_def] obtain x w1 where
    "and_then (present (Other_error ''estimateGas'') (estimateGas (sv_gas e) (sv_estimated e) (sv_fees2 e))) (\<lambda>g.
       and_then (lift (if \<not> gn_withinPolicy g then Inl (Client_error ''gas price exceeds policy'') else Inr ())) (\<lambda>_. ?send g)) w = (r, w')"
    by (rule ns.run_on) (use assms(2) ns.r_lift in auto)
  then obtain g where g: "estimateGas (sv_gas e) (sv_estimated e) (sv_fees2 e) = Some g"
    and 2: "and_then (lift (if \<not> gn_withinPolicy g then Inl (Client_error ''gas price exceeds policy'') else Inr ())) (\<lambda>_. ?send g) w = (r, w')"
    by (rule ns.run_on) (use assms(2) ns.r_present in auto)
  from 2 have pol: "gn_withinPolicy g \<and> ?send g w = (r, w')"
    by (rule ns.run_on) (use assms(2) ns.r_lift in \<open>auto split: if_splits\<close>)
  then have "?send g w = (r, w')" by simp
  then have "swaps w' = swaps w @ [tx (gn_gasLimit g) (gn_feeData g)] \<and> wait_thrown e r"
  proof (cases rule: and_thenE)
    case (fail err)
    then show ?thesis using assms(2,3) by (auto simp: send_def swaps_def no_swap_def wait_thrown_def split: broadcast.splits if_splits)
  next
    case (run hn w1)
    have "no_swap w1 w'" using run(2) no_swap_of_sends [OF after_broadcast_sends] by (blast dest: obeysD)
    moreover have "wait_thrown e r"
      using run(2) by (auto simp: wait_thrown_def after_broadcast_def waitForConfirmation_def lift_def elim!: and_thenE)
    ultimately show ?thesis using run(1) assms(3) by (auto simp: send_def swaps_def no_swap_def split: broadcast.splits if_splits)
  qed
  with g pol show ?thesis by (intro that) simp_all
qed


text \<open>The gates of a swap that was let through.\<close>

lemma risk_gate_passed:
  assumes "enforceLiveRiskGate e p w = (Inr usd, w')"
  obtains price d n where "sv_price1 e = Some price" "sv_decimals1 e = Some d" "js_BigInt (sp_amountIn p) = Some n"
    "usd = token_units n d * price" "tc_allowed (fst (evaluateTrade (sv_limits1 e) (trade_request_of e p usd) (sw_risk w)))"
    "sw_risk w' = snd (evaluateTrade (sv_limits1 e) (trade_request_of e p usd) (sw_risk w))"
  using assms unfolding enforceLiveRiskGate_def
  by (elim and_thenE; fastforce simp: Let_def split: prod.splits if_splits)

lemma allowed_within_limits:
  assumes "tc_allowed (fst (evaluateTrade c t w))"
  defines "lm \<equiv> fst (getEffectiveConfig c (rw_limits w))"
  shows "tr_amountInUsd t \<le> dl_maxPositionSizeUsd lm"
    "getDailyVolume c (tr_chainId t) w + tr_amountInUsd t \<le> dl_maxDailyVolumeUsd lm"
    "tr_slippageBps t \<le> dl_maxSlippageBps lm"
    "tr_tokenIn t \<notin> set (dl_blockedTokens lm)" "tr_tokenOut t \<notin> set (dl_blockedTokens lm)"
  using assms(1) unfolding lm_def
  by (auto simp: evaluateTrade_def trade_reasons_def getDailyVolume_def Let_def split: prod.splits if_splits option.splits)

lemma slippage_gate_passed:
  assumes "enforcePostQuoteSlippageGate e p x w = (Inr u, w')"
  obtains dIn dOut n out pIn pOut where "sv_decimalsIn e = Some dIn" "sv_decimalsOut e = Some dOut"
    "js_BigInt (sp_amountIn p) = Some n" "js_BigInt x = Some out" "sv_priceIn e = Some pIn" "sv_priceOut e = Some pOut"
    "0 < token_units n dIn"
    "of_int (impact_bps (token_units n dIn * pIn) (token_units out dOut * pOut))
       \<le> dl_maxSlippageBps (fst (getEffectiveConfig (sv_limits2 e) (rw_limits (sw_risk w))))"
  using assms unfolding enforcePostQuoteSlippageGate_def
  by (cases "getEffectiveConfig (sv_limits2 e) (rw_limits (sw_risk w))", simp, elim and_thenE)
    (fastforce split: if_splits simp: not_le not_less)+

lemma js_round_upper: "x < of_int (js_round x) + 1 / 2"
  unfolding js_round_def by linarith

text \<open>The impact the gate lets through, as a bound of the value that comes out.\<close>

lemma impact_bound:
  fixes a b m :: rat
  assumes "0 < a" "of_int (impact_bps a b) \<le> m"
  shows "(1 - (m + 1 / 2) / 10000) * a < b"
proof -
  let ?i = "(a - b) / a * 10000"
  have "?i < of_int (js_round ?i) + 1 / 2" by (rule js_round_upper)
  also have "of_int (js_round ?i) \<le> of_int (impact_bps a b) + (0 :: rat)" unfolding impact_bps_def by simp
  finally have "?i < m + 1 / 2" using assms(2) by linarith
  then have "(a - b) / a < (m + 1 / 2) / 10000" by simp
  then have "a - b < (m + 1 / 2) / 10000 * a" using assms(1) by (simp add: pos_divide_less_eq)
  then show ?thesis unfolding left_diff_distrib mult_1 by linarith
qed

lemma bigint_div_floor: "0 < b \<Longrightarrow> (of_int a / of_int b :: rat) < of_int (bigint_div a b) + 1"
proof (cases "0 \<le> a")
  case True
  assume "0 < b"
  then have "bigint_div a b = a div b" using True by (auto simp: bigint_div_def sgn_if)
  moreover have "(of_int a / of_int b :: rat) < of_int \<lfloor>of_int a / of_int b :: rat\<rfloor> + 1" by linarith
  ultimately show ?thesis by (simp add: floor_divide_of_int_eq)
next
  case False
  assume b: "0 < b"
  then have "bigint_div a b = - ((- a) div b)" using False by (simp add: bigint_div_def sgn_if)
  moreover have "of_int ((- a) div b) \<le> (of_int (- a) / of_int b :: rat)"
    unfolding floor_divide_of_int_eq [symmetric, where 'a = rat] by (rule of_int_floor_le)
  ultimately show ?thesis by simp
qed

lemma js_BigInt_neg: "js_BigInt (CHR ''-'' # digits_of_nat n) = Some (- int n)"
proof -
  have d: "\<forall>c \<in> set (digits_of_nat n). is_digit c" by (rule digits_of_nat_digits)
  have ws: "\<not> is_ws c" if "is_digit c" for c using that by (auto simp: is_digit_def is_ws_def)
  have "dropWhile is_ws (rev (digits_of_nat n) @ ''-'') = rev (digits_of_nat n) @ ''-''"
    using d ws by (cases "rev (digits_of_nat n)") (auto simp: rev_eq_Cons_iff)
  then have "js_trim (CHR ''-'' # digits_of_nat n) = CHR ''-'' # digits_of_nat n"
    by (simp add: js_trim_def is_ws_def)
  then show ?thesis using d by (simp add: js_BigInt_def list_all_iff)
qed

lemma js_BigInt_string_of_int [simp]: "js_BigInt (string_of_int i) = Some i"
  using js_BigInt_neg [of "nat (- i)"] by (simp add: string_of_int_def js_BigInt_digits)

lemma applySlippage_value:
  assumes "applySlippage (string_of_int x) (Fin s) = Some minOut"
  shows "js_BigInt minOut = Some (bigint_div (x * \<lfloor>10000 - s\<rfloor>) 10000)" "of_int \<lfloor>10000 - s\<rfloor> = 10000 - s"
  using assms by (auto simp: applySlippage_def number_BigInt_def ten_thousand_minus_def split: if_splits)

lemma applySlippage_floor:
  assumes "applySlippage (string_of_int x) (Fin s) = Some minOut" "js_BigInt minOut = Some m"
  shows "of_int x * (1 - s / 10000) < of_int m + 1"
proof -
  have "m = bigint_div (x * \<lfloor>10000 - s\<rfloor>) 10000" using assms applySlippage_value by force
  moreover have "of_int (x * \<lfloor>10000 - s\<rfloor>) / of_int 10000 = of_int x * (1 - s / 10000)"
    by (simp add: applySlippage_value(2) [OF assms(1)] field_simps)
  ultimately show ?thesis using bigint_div_floor [of 10000 "x * \<lfloor>10000 - s\<rfloor>"] by (simp only: zero_less_numeral simp_thms)
qed

text \<open>Both tolerances together, in dollars.\<close>

lemma value_floor:
  fixes v pOut s M :: rat
  assumes "(1 - (M + 1 / 2) / 10000) * v < of_int x / 10 ^ d * pOut" "of_int x * (1 - s / 10000) < of_int m + 1"
    "s \<le> 10000" "0 < pOut"
  shows "(1 - s / 10000) * ((1 - (M + 1 / 2) / 10000) * v) < of_int (m + 1) / 10 ^ d * pOut"
proof -
  have "(1 - s / 10000) * ((1 - (M + 1 / 2) / 10000) * v) \<le> (1 - s / 10000) * (of_int x / 10 ^ d * pOut)"
    using assms(1,3) by (intro mult_left_mono) simp_all
  also have "\<dots> = of_int x * (1 - s / 10000) * (pOut / 10 ^ d)" by (simp add: field_simps)
  also have "\<dots> < (of_int m + 1) * (pOut / 10 ^ d)"
    using assms(2,4) by (intro mult_strict_right_mono) simp_all
  also have "\<dots> = of_int (m + 1) / 10 ^ d * pOut" by simp
  finally show ?thesis .
qed


section \<open>A swap passed every gate\<close>

definition clears :: "'a swap_step \<Rightarrow> swap_world \<Rightarrow> (venue_error + 'a \<Rightarrow> swap_world \<Rightarrow> bool) \<Rightarrow> bool" where
  "clears m w C \<longleftrightarrow> (\<forall>r w'. m w = (r, w') \<longrightarrow> swaps w' \<noteq> swaps w \<longrightarrow> C r w')"

lemma clears_then:
  assumes "obeys no_swap m" "\<And>x w1. m w = (Inr x, w1) \<Longrightarrow> swaps w1 = swaps w \<Longrightarrow> clears (f x) w1 C"
  shows "clears (and_then m f) w C"
  unfolding clears_def
proof (intro allI impI)
  fix r w'
  assume "and_then m f w = (r, w')" "swaps w' \<noteq> swaps w"
  then show "C r w'"
    using assms by (elim ns.run_on) (auto simp: no_swap_def clears_def)
qed

lemma clears_pair: "(\<And>a b. x = (a, b) \<Longrightarrow> clears (f a b) w C) \<Longrightarrow> clears (case x of (a, b) \<Rightarrow> f a b) w C"
  by (cases x) simp

definition wrapped :: "venue_error + 'a \<Rightarrow> venue_error + 'a" where
  "wrapped r = (case r of Inl (Other_error _) \<Rightarrow> Inl (Transient_error ''unexpected error during submitLeg'') | x \<Rightarrow> x)"

lemma clears_wrap: "clears m w (\<lambda>r. C (wrapped r)) \<Longrightarrow> clears (wrap_unexpected m) w C"
  by (force simp: clears_def wrap_unexpected_def wrapped_def split: prod.splits sum.splits venue_error.splits)

lemma clears_submit:
  assumes "\<And>gl fd. is_swap (tx gl fd)"
    "\<And>g r w'. wait_thrown e r \<Longrightarrow> estimateGas (sv_gas e) (sv_estimated e) (sv_fees2 e) = Some g \<Longrightarrow> gn_withinPolicy g \<Longrightarrow>
       swaps w' = swaps w @ [tx (gn_gasLimit g) (gn_feeData g)] \<Longrightarrow> C r w'"
  shows "clears (submit_swap e p wallet router usd tx) w C"
  unfolding clears_def
proof (intro allI impI)
  fix r w'
  assume "submit_swap e p wallet router usd tx w = (r, w')" "swaps w' \<noteq> swaps w"
  then show "C r w'" by (elim submit_swap_swaps) (use assms in \<open>simp_all add: no_swap_def\<close>)
qed

lemma wrap_quiet: "obeys no_swap (ensureWrappedNativeBalance e p)"
  by (intro no_swap_of_sends wrap_sends) simp

lemma approve_quiet: "obeys no_swap (ensureApproval b e p a)"
  by (intro no_swap_of_sends approve_sends) simp_all

lemmas clears_step = clears_then [OF ns.r_lift] clears_then [OF ns.r_present]
  clears_then [OF no_swap_of_sends [OF risk_gate_sends]] clears_then [OF no_swap_of_sends [OF slippage_gate_sends]]
  clears_then [OF no_swap_of_sends [OF quote_sends]] clears_then [OF no_swap_of_sends [OF quoteV3_sends]]
  clears_then [OF wrap_quiet] clears_then [OF approve_quiet]

text \<open>From the quote on.\<close>

lemma clears_tail:
  assumes "\<And>gl fd. is_swap (tx gl fd)"
    "\<And>g r w1 w'. wait_thrown e r \<Longrightarrow> enforcePostQuoteSlippageGate e p out w = (Inr (), w1) \<Longrightarrow>
       estimateGas (sv_gas e) (sv_estimated e) (sv_fees2 e) = Some g \<Longrightarrow> gn_withinPolicy g \<Longrightarrow>
       swaps w' = swaps w @ [tx (gn_gasLimit g) (gn_feeData g)] \<Longrightarrow> C r w'"
  shows "clears (and_then (enforcePostQuoteSlippageGate e p out) (\<lambda>_. and_then (ensureWrappedNativeBalance e p) (\<lambda>_.
     and_then (ensureApproval b e p a) (\<lambda>_. submit_swap e p wallet a usd tx)))) w C"
  by (rule clears_step(4), rule clears_step(7), rule clears_step(8), rule clears_submit, rule assms(1), rule assms(2)) simp_all

lemma quote_same_world: "calculateAmountOutMin e p a path w = (Inr (x, y), w1) \<Longrightarrow>
    w1 = w \<and> (\<exists>amounts. sv_quote e a (sp_amountIn p) path = Some amounts \<and> amounts \<noteq> [] \<and> y = string_of_int (last amounts)
      \<and> applySlippage y (getSlippageBps (sv_defaultSlippage e) (sp_slippageBps p)) = Some x)"
  unfolding calculateAmountOutMin_def by (elim and_thenE; fastforce split: if_splits)

lemma v2_swap_path:
  assumes "v2_submitLeg router bounded e pl lg w = (r, w')" "swaps w' \<noteq> swaps w"
  obtains p a usd wallet minOut out w1 w2 g where
    "extractSwapParams (pl_playbookConfig pl) (lg_legIndex lg) = Inr p" "router (sp_chainId p) = Inr a"
    "enforceLiveRiskGate e p w = (Inr usd, w1)" "sv_wallet e = Some wallet"
    "applySlippage (string_of_int out) (getSlippageBps (sv_defaultSlippage e) (sp_slippageBps p)) = Some minOut"
    "enforcePostQuoteSlippageGate e p (string_of_int out) w1 = (Inr (), w2)"
    "estimateGas (sv_gas e) (sv_estimated e) (sv_fees2 e) = Some g" "gn_withinPolicy g"
    "swaps w' = swaps w @ [Swap_v2 a (sp_amountIn p) minOut (swap_path p)
       (case sp_recipient p of Some x \<Rightarrow> x | None \<Rightarrow> wallet) (swap_deadline e p) (gn_gasLimit g) (gn_feeData g)]"
proof -
  let ?C = "\<lambda>w'. \<exists>p a usd wallet minOut out w1 w2 g. extractSwapParams (pl_playbookConfig pl) (lg_legIndex lg) = Inr p
      \<and> router (sp_chainId p) = Inr a \<and> enforceLiveRiskGate e p w = (Inr usd, w1) \<and> sv_wallet e = Some wallet
      \<and> applySlippage (string_of_int out) (getSlippageBps (sv_defaultSlippage e) (sp_slippageBps p)) = Some minOut
      \<and> enforcePostQuoteSlippageGate e p (string_of_int out) w1 = (Inr (), w2)
      \<and> estimateGas (sv_gas e) (sv_estimated e) (sv_fees2 e) = Some g \<and> gn_withinPolicy g
      \<and> swaps w' = swaps w @ [Swap_v2 a (sp_amountIn p) minOut (swap_path p)
           (case sp_recipient p of Some x \<Rightarrow> x | None \<Rightarrow> wallet) (swap_deadline e p) (gn_gasLimit g) (gn_feeData g)]"
  have C: "?C w'" if "lift (extractSwapParams (pl_playbookConfig pl) (lg_legIndex lg)) w = (Inr p, x1)"
      "lift (if sv_provider e then Inr () else Inl (Other_error ''getProvider'')) x1 = (Inr u, x2)"
      "lift (router (sp_chainId p)) x2 = (Inr a, x3)" "enforceLiveRiskGate e p x3 = (Inr usd, x4)" "swaps x4 = swaps x3"
      "present (Other_error ''selectWallet'') (sv_wallet e) x4 = (Inr wallet, x5)"
      "calculateAmountOutMin e p a (swap_path p) x5 = (Inr q, x6)" "q = (minOut, x)"
      "enforcePostQuoteSlippageGate e p x x6 = (Inr (), x7)"
      "estimateGas (sv_gas e) (sv_estimated e) (sv_fees2 e) = Some g" "gn_withinPolicy g"
      "swaps w' = swaps x6 @ [Swap_v2 a (sp_amountIn p) minOut (swap_path p)
        (case sp_recipient p of Some x \<Rightarrow> x | None \<Rightarrow> wallet) (swap_deadline e p) (gn_gasLimit g) (gn_feeData g)]"
    for w' p u a usd wallet minOut x q g x1 x2 x3 x4 x5 x6 x7
  proof -
    have ws: "x1 = w" "x2 = w" "x3 = w" "x5 = x4" using that(1-3,6) by simp_all
    from quote_same_world [OF that(7) [unfolded that(8)]] obtain am where am: "x6 = x5" "x = string_of_int (last am)"
      "applySlippage x (getSlippageBps (sv_defaultSlippage e) (sp_slippageBps p)) = Some minOut" by blast
    show ?thesis
      by (rule exI [of _ p], rule exI [of _ a], rule exI [of _ usd], rule exI [of _ wallet], rule exI [of _ minOut],
          rule exI [of _ "last am"], rule exI [of _ x4], rule exI [of _ x7], rule exI [of _ g])
        (use that ws am in simp)
  qed
  have "clears (v2_submitLeg router bounded e pl lg) w (\<lambda>_. ?C)"
    unfolding v2_submitLeg_def
    apply (rule clears_wrap, rule clears_step(1), rule clears_step(1), rule clears_step(1), rule clears_step(3),
      rule clears_step(2), rule clears_step(5), rule clears_pair, rule clears_tail, simp)
    by (rule C)
  then show thesis using assms that unfolding clears_def by blast
qed

lemma thrown_transient: "wait_thrown e r \<Longrightarrow> ta_wait (sv_swap e) = Wait_failed \<Longrightarrow> \<exists>m. wrapped r = Inl (Transient_error m)"
  by (auto simp: wait_thrown_def wrapped_def)

lemma v2_thrown:
  assumes "ta_wait (sv_swap e) = Wait_failed"
  shows "clears (v2_submitLeg router bounded e pl lg) w (\<lambda>r _. \<exists>m. r = Inl (Transient_error m))"
  unfolding v2_submitLeg_def
  apply (rule clears_wrap, rule clears_step(1), rule clears_step(1), rule clears_step(1), rule clears_step(3),
    rule clears_step(2), rule clears_step(5), rule clears_pair, rule clears_tail, simp)
  by (rule thrown_transient [OF _ assms])

lemma v3_thrown:
  assumes "ta_wait (sv_swap e) = Wait_failed"
  shows "clears (uniswap_v3_submitLeg e pl lg) w (\<lambda>r _. \<exists>m. r = Inl (Transient_error m))"
  unfolding uniswap_v3_submitLeg_def
  apply (rule clears_wrap, rule clears_step(1), rule clears_step(1), rule clears_step(1), rule clears_step(3),
    rule clears_step(2), rule clears_step(6), rule clears_pair, rule clears_pair, rule clears_tail, simp)
  by (rule thrown_transient [OF _ assms])

end
