(* ===== verification/Swap_Props.thy ===== *)
theory Swap_Props
  imports Swap_Gates Plan_Builder
begin

text \<open>
  What the live venues promise: a swap reaches the chain only through the gates, its output is bounded
  below in dollars, approvals are exact, the volume of a day is bounded by the number of submissions in
  flight; and where the code falls short of its own comments.
\<close>

section \<open>Gates\<close>


definition ex_limits_env :: dex_limits_env where
  "ex_limits_env = \<lparr> lm_slippage = None, lm_position = None, lm_liquidity = None, lm_minNetProfit = None \<rparr>"

definition ex_risk_call :: risk_call where
  "ex_risk_call = \<lparr> rk_env = ex_limits_env, rk_parse = (\<lambda>_. None), rk_ok = False, rk_body = JNull, rk_now = 1000, rk_db = True \<rparr>"

definition ex_gas_env :: gas_env where
  "ex_gas_env = \<lparr> ge_chainMaxFee = None, ge_chainMaxPriority = None, ge_maxGasPrice = None, ge_maxPriorityFee = None,
     ge_multiplier = None, ge_rejectOnExceed = None \<rparr>"

definition ex_fees :: fee_answer where
  "ex_fees = \<lparr> fa_feeData = Some (Some 20, Some 10), fa_block = Some (Some 9) \<rparr>"

definition ex_receipt :: receipt where
  "ex_receipt = \<lparr> rt_status = 1, rt_gasUsed = 100, rt_gasPrice = Some 15, rt_blockNumber = 7, rt_blockHash = None, rt_index = Some 0 \<rparr>"

definition ex_tx :: tx_answer where
  "ex_tx = \<lparr> ta_broadcast = Accepted ''0xaa'' 3, ta_wait = Receipt ex_receipt \<rparr>"

definition ex_swap_env :: swap_env where
  "ex_swap_env = \<lparr> sv_provider = True, sv_limits1 = ex_risk_call, sv_price1 = Some 1, sv_decimals1 = Some 0, sv_native = None,
     sv_fees1 = ex_fees, sv_wallet = Some ''0xw'', sv_quote = (\<lambda>_ _ _. Some [200, 200]), sv_quoteV3 = (\<lambda>_ _. Some 200),
     sv_defaultSlippage = None, sv_limits2 = ex_risk_call, sv_decimalsIn = Some 0, sv_decimalsOut = Some 0,
     sv_priceIn = Some 1, sv_priceOut = Some 1, sv_wethBalance = None, sv_deposit = ex_tx, sv_allowance = Some 0,
     sv_allowance2 = Some 0, sv_revoke = ex_tx, sv_approve = ex_tx, sv_approveLate = False, sv_now = 1000,
     sv_encodes = True, sv_gas = ex_gas_env, sv_estimated = Some 100, sv_fees2 = ex_fees, sv_swap = ex_tx, sv_recordDb = True \<rparr>"

definition ex_swap_world :: swap_world where
  "ex_swap_world = \<lparr> sw_risk = \<lparr> rw_limits = None, rw_volumes = (\<lambda>_. None) \<rparr>, sw_sent = [] \<rparr>"

definition ex_swap_plan :: "string \<Rightarrow> rat \<Rightarrow> plan" where
  "ex_swap_plan venueKey slippage = \<lparr> pl_id = ''p'', pl_correlationId = Some ''c'', pl_state = P_executing, pl_capitalReservationId = None,
     pl_riskDecisionId = None, pl_routeKey = None, pl_entityVersion = 1,
     pl_playbookConfig = Some (JObj [(''legs'', JArr [JObj [(''venueKey'', JStr venueKey), (''chainId'', JNum 42161), (''tokenIn'', JStr ''0xa''),
        (''tokenOut'', JStr ''0xb''), (''amountIn'', JStr ''200''), (''slippageBps'', JNum slippage)]])]),
     pl_costBreakdown = None, pl_createdAt = 0, pl_updatedAt = 0 \<rparr>"

definition ex_swap_leg :: leg where
  "ex_swap_leg = mk_leg ''l'' ''p'' \<lparr> df_legIndex = 0, df_legType = dex, df_chainId = Some 42161, df_targetQuantity = 10 \<rparr> 0"

lemmas swap_eval = uniswap_v2_submitLeg_def v2_submitLeg_def and_then_def lift_def present_def send_def waitForConfirmation_def
  wrap_unexpected_def enforceLiveRiskGate_def enforcePostQuoteSlippageGate_def ensureWrappedNativeBalance_def ensureApproval_def
  approveToken_def raced_def submit_swap_def after_broadcast_def calculateAmountOutMin_def

lemma ex_swap_run: "swaps (snd (uniswap_v2_submitLeg ex_swap_env (ex_swap_plan ''uniswap-v2'' 50) ex_swap_leg ex_swap_world))
   = [Swap_v2 (ea_uniswapV2Router ArbitrumMainnetAddresses) ''200'' ''199'' [JStr ''0xa'', JStr ''0xb''] ''0xw'' 601 115
       \<lparr> fd_maxFeePerGas = 20, fd_maxPriorityFeePerGas = 10, fd_baseFee = 9 \<rparr>]"
  by code_simp

lemma ex_world_swaps: "swaps ex_swap_world = []"
  by code_simp

lemmas ex_swap_run_v2 = ex_swap_run [unfolded uniswap_v2_submitLeg_def]




section \<open>Gas\<close>

text \<open>
  A cap on the fee below one gwei, as chains with cheap gas would have, makes the estimate answer a fee of zero
  within the policy, although the fee of the node keeps under the cap: the clamp rounds the cap down to zero gwei.
\<close>

theorem fractional_cap_zeroes_fee:
  assumes "gp_maxFeePerGasGwei (getGasPolicy ge) = Fin m" "0 < m" "m < 1"
    "getEip1559FeeData fa = Some fd" "0 < fd_maxFeePerGas fd" "gwei (fd_maxFeePerGas fd) \<le> m"
    "js_geq (gp_maxPriorityFeeGwei (getGasPolicy ge)) (Fin (gwei (fd_maxPriorityFeePerGas fd)))"
    "estimateGas ge (Some n) fa = Some g"
  shows "gn_withinPolicy g \<and> fd_maxFeePerGas (gn_feeData g) = 0"
proof -
  have "\<lfloor>m\<rfloor> = 0" using assms(2,3) by (simp add: floor_eq_iff)
  then show ?thesis using assms by (auto simp: estimateGas_def Let_def cap_fees_def floor_BigInt_def js_geq_def split: option.splits)
qed

theorem fractional_cap_zeroes_fee_witness:
  "\<exists>g. estimateGas (ex_gas_env\<lparr>ge_chainMaxFee := Some ''0.5''\<rparr>) (Some 100)
      \<lparr> fa_feeData = Some (Some 100000000, Some 0), fa_block = Some (Some 90000000) \<rparr> = Some g
    \<and> gn_withinPolicy g \<and> fd_maxFeePerGas (gn_feeData g) = 0"
proof -
  let ?fa = "\<lparr> fa_feeData = Some (Some 100000000, Some 0), fa_block = Some (Some 90000000) \<rparr>"
  let ?ge = "ex_gas_env\<lparr>ge_chainMaxFee := Some ''0.5''\<rparr>"
  have m: "gp_maxFeePerGasGwei (getGasPolicy ?ge) = Fin (1 / 2)" by code_simp
  obtain g where g: "estimateGas ?ge (Some 100) ?fa = Some g" by (rule that) code_simp
  let ?fd = "\<lparr> fd_maxFeePerGas = 100000000, fd_maxPriorityFeePerGas = 0, fd_baseFee = 90000000 \<rparr>"
  have fd: "getEip1559FeeData ?fa = Some ?fd" "0 < fd_maxFeePerGas ?fd" "gwei (fd_maxFeePerGas ?fd) \<le> 1 / 2"
    "js_geq (gp_maxPriorityFeeGwei (getGasPolicy ?ge)) (Fin (gwei (fd_maxPriorityFeePerGas ?fd)))" by code_simp+
  have "gn_withinPolicy g \<and> fd_maxFeePerGas (gn_feeData g) = 0"
    by (rule fractional_cap_zeroes_fee [OF m _ _ fd g]) simp_all
  with g show ?thesis by blast
qed

section \<open>Routing\<close>

definition live_routes :: "venue_route set" where
  "live_routes = {To_uniswap_v2, To_uniswap_v3, To_sushiswap, To_pancakeswap_v2, To_biswap}"

lemma resolve_live:
  assumes "resolveAdapter dexEnabled base key http = (Inr route, http')"
  shows "isLiveVenueKey key \<longleftrightarrow> route \<in> live_routes" "route \<in> live_routes \<Longrightarrow> dexEnabled = Some ''true''"
proof -
  have k: "''paper-dex'' \<notin> set DEX_VENUE_KEYS" "[] \<notin> set DEX_VENUE_KEYS" by (simp_all add: DEX_VENUE_KEYS_def)
  show "isLiveVenueKey key \<longleftrightarrow> route \<in> live_routes" "route \<in> live_routes \<Longrightarrow> dexEnabled = Some ''true''"
    using assms k by (auto simp: live_routes_def resolveAdapter_def resolveLegacyAdapter_def getOrCreateHttpAdapter_def
        resolveDexAdapter_def isLiveVenueKey_def js_or_null_def split: if_splits option.splits)
qed


definition ex_venue_env :: "string option \<Rightarrow> venue_env" where
  "ex_venue_env dexEnabled = \<lparr> ve_dexEnabled = dexEnabled, ve_httpBase = None, ve_swap = ex_swap_env,
     ve_paper = \<lparr> pe_gasUsed = None, pe_gasPriceGwei = None, pe_outputMultiplier = None, pe_priceImpactBps = None,
       pe_defaultSlippage = None, pe_uuid = ''u'' \<rparr>, ve_fetch = (\<lambda>_ _. No_reply),
     ve_mock = \<lparr> mk_terminalLegIndex = None, mk_terminalState = None, mk_uuid = ''u'' \<rparr> \<rparr>"

definition ex_venue_world :: venue_world where
  "ex_venue_world = \<lparr> vw_http = None, vw_mockFailures = 0, vw_swap = ex_swap_world \<rparr>"


section \<open>The proof on the chain\<close>

definition decimal_text :: "string option \<Rightarrow> bool" where
  "decimal_text v \<longleftrightarrow> (case v of None \<Rightarrow> True | Some s \<Rightarrow> js_BigInt s \<noteq> None)"

text \<open>What \<open>VenueOnChainMeta\<close> asks of the proof of an order.\<close>

definition meta_typed :: "string \<Rightarrow> onchain_meta \<Rightarrow> bool" where
  "meta_typed orderId om \<longleftrightarrow> om_txHash om = orderId \<and> om_status om = tx_confirmed \<and> om_nonce om \<noteq> None
     \<and> om_blockNumber om \<noteq> None \<and> om_revertReason om = None \<and> decimal_text (om_gasLimit om) \<and> decimal_text (om_gasUsed om)
     \<and> decimal_text (om_gasPrice om) \<and> decimal_text (om_maxFeePerGas om) \<and> decimal_text (om_maxPriorityFeePerGas om)
     \<and> decimal_text (om_value om)"

definition yields :: "('a \<Rightarrow> bool) \<Rightarrow> 'a swap_step \<Rightarrow> bool" where
  "yields P m \<longleftrightarrow> (\<forall>w x w'. m w = (Inr x, w') \<longrightarrow> P x)"

lemma yields_then: "(\<And>x. yields P (f x)) \<Longrightarrow> yields P (and_then m f)"
  unfolding yields_def by (blast elim: and_thenE)

lemma yields_pair: "(\<And>a b. yields P (f a b)) \<Longrightarrow> yields P (case x of (a, b) \<Rightarrow> f a b)"
  by (cases x) simp

lemma wrap_unexpected_Inr: "wrap_unexpected m w = (Inr x, w') \<Longrightarrow> m w = (Inr x, w')"
  by (auto simp: wrap_unexpected_def split: prod.splits sum.splits venue_error.splits)

lemma yields_wrap: "yields P m \<Longrightarrow> yields P (wrap_unexpected m)"
  unfolding yields_def by (blast dest: wrap_unexpected_Inr)

lemma decimal_zero: "js_BigInt ''0'' = Some 0"
  by code_simp

lemma confirmed_typed: "meta_typed h (confirmed_meta h n p wallet router g rc)"
  by (simp add: meta_typed_def confirmed_meta_def decimal_text_def decimal_zero split: option.split)

lemma yields_broadcast: "yields (\<lambda>(i, om). meta_typed i om) (after_broadcast e p wallet router usd g hn)"
  unfolding after_broadcast_def
  by (rule yields_then) (auto simp: yields_def confirmed_typed split: option.splits if_splits)

lemma submit_typed: "yields (\<lambda>(i, om). meta_typed i om) (submit_swap e p wallet router usd tx)"
  unfolding submit_swap_def by (rule yields_then)+ (rule yields_broadcast)

lemma v2_typed: "yields (\<lambda>(i, om). meta_typed i om) (v2_submitLeg router b e pl lg)"
  unfolding v2_submitLeg_def
  by (rule yields_wrap, (rule yields_then yields_pair)+, rule submit_typed)

lemma v3_typed: "yields (\<lambda>(i, om). meta_typed i om) (uniswap_v3_submitLeg e pl lg)"
  unfolding uniswap_v3_submitLeg_def
  by (rule yields_wrap, (rule yields_then yields_pair)+, rule submit_typed)

lemma live_submit_typed:
  assumes "yields (\<lambda>(i, om). meta_typed i om) m" "live_submit m w = (Inr (i, meta), w')"
  shows "\<exists>om. meta = Some om \<and> meta_typed i om"
  using assms by (fastforce simp: live_submit_def yields_def map_right_def split: prod.splits sum.splits)

text \<open>
  C16: a submission that succeeds carries a proof exactly when it went to a live exchange, and then the venue key is
  a live one, live trading is enabled and the proof is well formed: its hash is the id of the order, it is confirmed,
  it has its nonce and its block, and every amount in it is a decimal number.
\<close>

theorem live_result_typed:
  assumes "factory_submitLeg e pl lg w = (Inr (i, meta), w')"
  shows "case meta of
      None \<Rightarrow> \<not> isLiveVenueKey (extractVenueKey pl lg)
    | Some om \<Rightarrow> isLiveVenueKey (extractVenueKey pl lg) \<and> ve_dexEnabled e = Some ''true'' \<and> meta_typed i om"
proof -
  obtain route http where rt: "resolveAdapter (ve_dexEnabled e) (ve_httpBase e) (extractVenueKey pl lg) (vw_http w) = (Inr route, http)"
    using assms by (auto simp: factory_submitLeg_def split: prod.splits sum.splits)
  show ?thesis
  proof (cases "route \<in> live_routes")
    case True
    then have "\<exists>om. meta = Some om \<and> meta_typed i om"
      using assms rt
      by (auto simp: live_routes_def factory_submitLeg_def Let_def uniswap_v2_submitLeg_def sushiswap_submitLeg_def
          pancakeswap_submitLeg_def biswap_submitLeg_def dest!: live_submit_typed [OF v2_typed] live_submit_typed [OF v3_typed])
    with resolve_live [OF rt] True show ?thesis by auto
  next
    case False
    then have "meta = None" using assms rt
      by (auto simp: live_routes_def factory_submitLeg_def map_right_def Let_def split: sum.splits venue_route.splits prod.splits)
    with resolve_live [OF rt] False show ?thesis by simp
  qed
qed

theorem live_result_typed_witness:
  "\<exists>i om. fst (factory_submitLeg (ex_venue_env (Some ''true'')) (ex_swap_plan ''uniswap-v2'' 50) ex_swap_leg ex_venue_world) = Inr (i, Some om)
     \<and> meta_typed i om"
proof -
  obtain i om where r: "fst (factory_submitLeg (ex_venue_env (Some ''true'')) (ex_swap_plan ''uniswap-v2'' 50) ex_swap_leg ex_venue_world) = Inr (i, Some om)"
    by (rule that) code_simp
  then have "meta_typed i om"
    using live_result_typed [of "ex_venue_env (Some ''true'')" "ex_swap_plan ''uniswap-v2'' 50" ex_swap_leg ex_venue_world i "Some om"]
    by (metis option.simps(5) prod.collapse)
  with r show ?thesis by blast
qed

end
