(* ===== verification/Swap_Run.thy ===== *)
theory Swap_Run
  imports Swap_Props
begin

text \<open>
  The live venues inside the execution: a swap that reverts, the parameters that the plan builder stores
  for a swap, and the volume of a day over submissions that overlap.
\<close>

section \<open>A swap that reverts\<close>

lemma live_thrown:
  assumes "clears m (vw_swap w) (\<lambda>r _. \<exists>msg. r = Inl (Transient_error msg))" "live_submit m w = (r, w')"
    "swaps (vw_swap w') \<noteq> swaps (vw_swap w)"
  shows "\<exists>msg. r = Inl (Transient_error msg)"
  using assms by (fastforce simp: live_submit_def clears_def map_right_def split: prod.splits)

lemma factory_thrown:
  assumes "factory_submitLeg e pl lg w = (r, w')" "swaps (vw_swap w') \<noteq> swaps (vw_swap w)"
    "ta_wait (sv_swap (ve_swap e)) = Wait_failed"
  shows "\<exists>msg. r = Inl (Transient_error msg)"
proof -
  obtain route http where rt: "resolveAdapter (ve_dexEnabled e) (ve_httpBase e) (extractVenueKey pl lg) (vw_http w) = (route, http)"
    by (rule prod.exhaust)
  let ?w = "w\<lparr>vw_http := http\<rparr>"
  have ws: "vw_swap ?w = vw_swap w" by simp
  note thrown = live_thrown [OF v2_thrown [OF assms(3)], where w = ?w, unfolded ws, OF _ assms(2)]
    live_thrown [OF v3_thrown [OF assms(3)], where w = ?w, unfolded ws, OF _ assms(2)]
  show ?thesis
    using assms(1,2) rt
    by (auto simp: factory_submitLeg_def Let_def uniswap_v2_submitLeg_def sushiswap_submitLeg_def
        pancakeswap_submitLeg_def biswap_submitLeg_def split: sum.splits venue_route.splits prod.splits dest: thrown)
qed

text \<open>
  C17: \<open>tx.wait\<close> of the library throws for a swap that reverts. Such a swap never takes the branch of the
  adapters that fails the leg: \<open>markSent\<close> answers 503, writes nothing more and leaves the leg
  \<open>submitting\<close>, on every live venue, although the swap is on the chain and final.
\<close>

theorem reverted_swap_stays_submitting:
  assumes "beginMarkSent pid lid halted now d = (Inr (p, l), d1)" "lg_legType l = dex"
    "factory_submitLeg e p l w = (r, w')" "swaps (vw_swap w') \<noteq> swaps (vw_swap w)"
    "ta_wait (sv_swap (ve_swap e)) = Wait_failed"
  shows "markSent pid lid halted (\<lambda>p l. venue_answer (fst (factory_submitLeg e p l w))) submitBridge msg now (\<lambda>d. d) now2 d
      = (Inl (ServiceUnavailableException ''Venue submitLeg failed; leg is submitting''), d1)
    \<and> (\<exists>l1. get_leg lid d1 = Some l1 \<and> lg_state l1 = L_submitting)"
proof -
  from factory_thrown [OF assms(3-5)] obtain m where r: "r = Inl (Transient_error m)" by blast
  from assms(1) have "\<exists>l1. get_leg lid d1 = Some l1 \<and> lg_state l1 = L_submitting"
  proof (cases rule: beginMarkSent_cases)
    case (reserved p' l0 l')
    then have "lg_id l' = lid" using get_leg_key by auto
    then show ?thesis using reserved by (auto simp: db_row_simps)
  qed simp
  then show ?thesis
    by (simp add: markSent_def assms(1-3) r venue_answer_def Let_def)
qed

definition ex_exec :: exec_db where
  "ex_exec = \<lparr> ed_plans = [ex_swap_plan ''uniswap-v2'' 50], ed_legs = [ex_swap_leg], ed_onchain = [], ed_fills = [], ed_outbox = [], ed_audit = [] \<rparr>"

definition ex_revert_env :: venue_env where
  "ex_revert_env = (ex_venue_env (Some ''true''))\<lparr>ve_swap := ex_swap_env\<lparr>sv_swap := ex_tx\<lparr>ta_wait := Wait_failed\<rparr>\<rparr>\<rparr>"

theorem reverted_swap_stays_submitting_witness:
  "\<exists>d1. markSent ''p'' ''l'' False (\<lambda>p l. venue_answer (fst (factory_submitLeg ex_revert_env p l ex_venue_world))) (\<lambda>_ _. VOther []) ''m'' 5 (\<lambda>d. d) 6 ex_exec
      = (Inl (ServiceUnavailableException ''Venue submitLeg failed; leg is submitting''), d1)
    \<and> (\<exists>l1. get_leg ''l'' d1 = Some l1 \<and> lg_state l1 = L_submitting)"
proof -
  let ?p = "ex_swap_plan ''uniswap-v2'' 50" and ?l = "ex_swap_leg\<lparr>lg_state := L_submitting, lg_entityVersion := 2, lg_updatedAt := 5\<rparr>"
  have b: "fst (beginMarkSent ''p'' ''l'' False 5 ex_exec) = Inr (?p, ?l)" by code_simp
  have t: "lg_legType ?l = dex" by code_simp
  have s: "swaps (vw_swap (snd (factory_submitLeg ex_revert_env ?p ?l ex_venue_world))) \<noteq> swaps (vw_swap ex_venue_world)" by code_simp
  have f: "ta_wait (sv_swap (ve_swap ex_revert_env)) = Wait_failed" by code_simp
  from b obtain d1 where "beginMarkSent ''p'' ''l'' False 5 ex_exec = (Inr (?p, ?l), d1)" by (metis surjective_pairing)
  from reverted_swap_stays_submitting [OF this t surjective_pairing s f] show ?thesis by blast
qed

section \<open>The parameters of a planned swap\<close>



section \<open>The volume of a day\<close>

text \<open>
  Submissions on one chain during one day: each is let through by \<open>evaluateTrade\<close> in \<open>enforceLiveRiskGate\<close> and,
  much later, records its volume after its receipt, or ends without. The list holds the values in flight, at
  most \<open>n\<close> of them; the limits of a check are at most \<open>M\<close> for the day and \<open>P\<close> for a trade.
\<close>

inductive trading :: "int \<Rightarrow> int \<Rightarrow> nat \<Rightarrow> rat \<Rightarrow> rat \<Rightarrow> rat list \<times> risk_world \<Rightarrow> rat list \<times> risk_world \<Rightarrow> bool"
  for chain day :: int and n :: nat and M P :: rat where
  check: "evaluateTrade c t w = (chk, w') \<Longrightarrow> rk_db c \<Longrightarrow> tr_chainId t = chain \<Longrightarrow> utc_day (rk_now c) = day
     \<Longrightarrow> dl_maxDailyVolumeUsd (fst (getEffectiveConfig c (rw_limits w))) \<le> M
     \<Longrightarrow> dl_maxPositionSizeUsd (fst (getEffectiveConfig c (rw_limits w))) \<le> P
     \<Longrightarrow> length fl < n
     \<Longrightarrow> trading chain day n M P (fl, w) (if tc_allowed chk then fl @ [tr_amountInUsd t] else fl, w')"
| confirm: "utc_day now = day
     \<Longrightarrow> trading chain day n M P (fl1 @ a # fl2, w) (fl1 @ fl2, recordTradeVolume now db chain a w)"
| abandon: "trading chain day n M P (fl1 @ a # fl2, w) (fl1 @ fl2, w)"

definition recorded :: "int \<Rightarrow> int \<Rightarrow> risk_world \<Rightarrow> rat" where
  "recorded chain day w = (case rw_volumes w (chain, day) of None \<Rightarrow> 0 | Some (v, _) \<Rightarrow> v)"

definition in_flight :: "rat list \<Rightarrow> rat" where
  "in_flight fl = (\<Sum>a\<leftarrow>fl. max 0 a)"

lemma in_flight_split: "in_flight (xs @ a # ys) = in_flight (xs @ ys) + max 0 a"
  by (simp add: in_flight_def)

definition volume_inv :: "int \<Rightarrow> int \<Rightarrow> nat \<Rightarrow> rat \<Rightarrow> rat \<Rightarrow> rat list \<times> risk_world \<Rightarrow> bool" where
  "volume_inv chain day n M P s \<longleftrightarrow> length (fst s) \<le> n \<and> (\<forall>a \<in> set (fst s). a \<le> P)
     \<and> recorded chain day (snd s) + in_flight (fst s) \<le> M + of_nat (n - 1) * P"

lemma recorded_record:
  "recorded chain (utc_day now) (recordTradeVolume now db chain a w) \<le> recorded chain (utc_day now) w + max 0 a"
  by (simp add: recordTradeVolume_def recorded_def Let_def split: option.splits)

lemma in_flight_bound: "\<forall>a \<in> set fl. a \<le> P \<Longrightarrow> 0 \<le> P \<Longrightarrow> in_flight fl \<le> of_nat (length fl) * P"
  by (induction fl) (auto simp: in_flight_def algebra_simps max_def intro: add_mono)

lemma volume_step:
  assumes "trading chain day n M P s s'" "volume_inv chain day n M P s" "0 \<le> P"
  shows "volume_inv chain day n M P s'"
  using assms(1,2)
proof cases
  case (check c t w chk w' fl)
  have rec: "recorded chain day w' = recorded chain day w"
    using check(3) by (auto simp: evaluateTrade_def Let_def recorded_def split: prod.splits)
  have vol: "getDailyVolume c chain w = recorded chain day w"
    using check by (simp add: getDailyVolume_def recorded_def)
  show ?thesis
  proof (cases "tc_allowed chk")
    case True
    then have ok: "tc_allowed (fst (evaluateTrade c t w))" using check(3) by simp
    note lm = allowed_within_limits(1,2) [OF ok]
    have "tr_amountInUsd t \<le> P" using lm(1) check(8) by simp
    moreover have "recorded chain day w + tr_amountInUsd t \<le> M" using lm(2) check(5,7) vol by simp
    moreover have "in_flight fl \<le> of_nat (n - 1) * P"
    proof -
      have "in_flight fl \<le> of_nat (length fl) * P"
        using assms(2,3) check(1) by (intro in_flight_bound) (simp_all add: volume_inv_def)
      also have "\<dots> \<le> of_nat (n - 1) * P" using check(9) assms(3) by (intro mult_right_mono) simp_all
      finally show ?thesis .
    qed
    ultimately show ?thesis using assms(2) check(1,2,9) True rec
      by (auto simp: volume_inv_def in_flight_def)
  next
    case False
    then show ?thesis using assms(2) check(1,2) rec by (simp add: volume_inv_def)
  qed
next
  case (confirm now fl1 a fl2 w db)
  then show ?thesis using assms(2) recorded_record [of chain now db a w]
    by (auto simp: volume_inv_def in_flight_split)
next
  case (abandon fl1 a fl2 w)
  then show ?thesis using assms(2) by (auto simp: volume_inv_def in_flight_split)
qed


definition ex_trade :: "rat \<Rightarrow> trade_request" where
  "ex_trade v = \<lparr> tr_chainId = 1, tr_protocol = None, tr_amountInUsd = v, tr_slippageBps = 0, tr_gasCostUsd = 0,
     tr_tokenIn = ''0xa'', tr_tokenOut = ''0xb'' \<rparr>"

definition ex_volume :: "rat \<Rightarrow> risk_world" where
  "ex_volume v = \<lparr> rw_limits = None, rw_volumes = (\<lambda>k. if k = (1, 0) then Some (v, 1) else None) \<rparr>"

lemma ex_check:
  assumes "length fl < 2" "0 \<le> a" "a \<le> 500" "v + a \<le> 5000"
  shows "trading 1 0 2 5000 500 (fl, ex_volume v) (fl @ [a], ex_volume v)"
proof -
  have e: "evaluateTrade ex_risk_call (ex_trade a) (ex_volume v)
      = (\<lparr> tc_allowed = True, tc_reasons = [], tc_warnings = [], tc_slippageBps = 0, tc_gasCostUsd = 0, tc_poolLiquidityUsd = 0 \<rparr>, ex_volume v)"
    "dl_maxDailyVolumeUsd (fst (getEffectiveConfig ex_risk_call (rw_limits (ex_volume v)))) = 5000"
    "dl_maxPositionSizeUsd (fst (getEffectiveConfig ex_risk_call (rw_limits (ex_volume v)))) = 500"
    using assms by (simp_all add: evaluateTrade_def getEffectiveConfig_def refreshLimits_def parseLimitsResponse_def ex_risk_call_def
        ex_limits_env_def applyEnvLowerBounds_def env_int_def SAFE_DEFAULT_CONFIG_def ex_volume_def ex_trade_def trade_reasons_def
        getDailyVolume_def utc_day_def Let_def)
  show ?thesis
    using trading.check [OF e(1), of 1 0 5000 500 fl 2] assms e(2,3) by (simp add: ex_risk_call_def ex_trade_def utc_day_def)
qed


section \<open>Approvals\<close>

lemma sends_lift_then: "(\<And>x. v = Inr x \<Longrightarrow> obeys (sends_only Q) (f x)) \<Longrightarrow> obeys (sends_only Q) (and_then (lift v) f)"
  by (rule obeysI, erule and_thenE) (auto simp: lift_def so.same dest: obeysD)

lemma sends_pair: "(\<And>a b. obeys (sends_only Q) (f a b)) \<Longrightarrow> obeys (sends_only Q) (case x of (a, b) \<Rightarrow> f a b)"
  by (cases x) simp

lemma submit_sends: "(\<And>gl fd. Q (tx gl fd)) \<Longrightarrow> obeys (sends_only Q) (submit_swap e p wallet router usd tx)"
  unfolding submit_swap_def
  by (rule so.r_and_then [OF so.r_lift] so.r_and_then [OF so.r_present])+
    (rule so.r_and_then, rule send_sends, simp, rule after_broadcast_sends)

lemma v2_sends:
  assumes "\<And>p a n. extractSwapParams (pl_playbookConfig pl) (lg_legIndex lg) = Inr p \<Longrightarrow> router (sp_chainId p) = Inr a \<Longrightarrow>
      n = 0 \<or> js_BigInt (sp_amountIn p) = Some n \<Longrightarrow> Q (Approve (sp_tokenIn p) a n)"
    "\<And>x n. Q (Deposit x n)" "\<And>tx. is_swap tx \<Longrightarrow> Q tx"
  shows "obeys (sends_only Q) (v2_submitLeg router b e pl lg)"
  unfolding v2_submitLeg_def
  by (rule so.r_wrap, rule sends_lift_then, rule so.r_and_then, rule so.r_lift, rule sends_lift_then,
      rule so.r_and_then [OF risk_gate_sends], rule so.r_and_then [OF so.r_present], rule so.r_and_then [OF quote_sends],
      rule sends_pair, rule so.r_and_then [OF slippage_gate_sends], rule so.r_and_then, rule wrap_sends, rule assms(2),
      rule so.r_and_then, rule approve_sends)
    (use assms in \<open>auto intro: submit_sends\<close>)

text \<open>
  C13: a live venue of the V2 family approves its own router only, on the token that goes in, and for exactly the amount
  of the leg or for nothing: an unlimited approval is never sent, and no submission approves a third party.
\<close>

theorem approvals_are_exact:
  assumes "v2_submitLeg router bounded e pl lg w = (r, w')" "sw_sent w' = sw_sent w @ new" "Approve token spender n \<in> set new"
  shows "\<exists>p. extractSwapParams (pl_playbookConfig pl) (lg_legIndex lg) = Inr p \<and> token = sp_tokenIn p
     \<and> router (sp_chainId p) = Inr spender \<and> (n = 0 \<or> js_BigInt (sp_amountIn p) = Some n)"
proof -
  let ?Q = "\<lambda>tx. \<forall>token spender n. tx = Approve token spender n \<longrightarrow> (\<exists>p. extractSwapParams (pl_playbookConfig pl) (lg_legIndex lg) = Inr p
     \<and> token = sp_tokenIn p \<and> router (sp_chainId p) = Inr spender \<and> (n = 0 \<or> js_BigInt (sp_amountIn p) = Some n))"
  have "obeys (sends_only ?Q) (v2_submitLeg router bounded e pl lg)"
    by (rule v2_sends) auto
  from obeysD [OF this assms(1)] have "\<forall>tx \<in> set new. ?Q tx" using assms(2) by (auto simp: sends_only_def)
  with assms(3) show ?thesis by blast
qed

theorem approvals_are_exact_witness:
  "\<exists>new. sw_sent (snd (v2_submitLeg resolveRouterAddress False ex_swap_env (ex_swap_plan ''uniswap-v2'' 50) ex_swap_leg ex_swap_world))
       = sw_sent ex_swap_world @ new
     \<and> Approve ''0xa'' (ea_uniswapV2Router ArbitrumMainnetAddresses) 200 \<in> set new
     \<and> (\<exists>p. extractSwapParams (pl_playbookConfig (ex_swap_plan ''uniswap-v2'' 50)) (lg_legIndex ex_swap_leg) = Inr p
          \<and> ''0xa'' = sp_tokenIn p \<and> resolveRouterAddress (sp_chainId p) = Inr (ea_uniswapV2Router ArbitrumMainnetAddresses)
          \<and> ((200 :: int) = 0 \<or> js_BigInt (sp_amountIn p) = Some 200))"
proof -
  let ?new = "sw_sent (snd (v2_submitLeg resolveRouterAddress False ex_swap_env (ex_swap_plan ''uniswap-v2'' 50) ex_swap_leg ex_swap_world))"
  have e: "?new = sw_sent ex_swap_world @ ?new" by (simp add: ex_swap_world_def)
  have a: "Approve ''0xa'' (ea_uniswapV2Router ArbitrumMainnetAddresses) 200 \<in> set ?new" by code_simp
  from approvals_are_exact [OF surjective_pairing e a] e a show ?thesis by blast
qed

end
