(* ===== verification/Bridge_Transfer.thy ===== *)
theory Bridge_Transfer
  imports Legs
begin

text \<open>
  \<open>bridge-transfer.service.ts\<close>, \<open>bridge-finality.service.ts\<close> and the cycle of
  \<open>bridge-transfer-polling.worker.ts\<close>: the records of bridge transfers from submission to their end.
  What a bridge adapter and the nodes answer are arguments; \<open>bw_sent\<close> holds the idempotency key of every
  transfer an adapter has put on its chain.
\<close>

section \<open>Finality\<close>

definition CHAIN_FINALITY_CONFIRMATIONS :: "int \<Rightarrow> int option" where
  "CHAIN_FINALITY_CONFIRMATIONS = map_of [(1, 12), (11155111, 3), (42161, 1), (421614, 1), (8453, 1), (84532, 1), (56, 15), (97, 3), (10, 1)]"

definition getRequiredConfirmations :: "int \<Rightarrow> int" where
  "getRequiredConfirmations chainId = (case CHAIN_FINALITY_CONFIRMATIONS chainId of Some n \<Rightarrow> n | None \<Rightarrow> 12)"

text \<open>
  \<open>BRIDGE_FINALITY_CONFIRMATIONS\<close>: \<open>JSON_parse\<close> reads the text; a value of the map is a number or a text
  that reads as one.
\<close>

definition json_Number :: "json \<Rightarrow> jsnum" where
  "json_Number v = (case v of JNum q \<Rightarrow> Fin q | JStr s \<Rightarrow> js_Number s | JBool b \<Rightarrow> Fin (if b then 1 else 0) | JNull \<Rightarrow> Fin 0 | _ \<Rightarrow> NaN)"

fun parse_overrides :: "(string \<times> json) list \<Rightarrow> int \<Rightarrow> int option" where
  "parse_overrides [] = (\<lambda>_. None)"
| "parse_overrides ((key, v) # rest) =
     (let later = parse_overrides rest
      in case (js_Number key, json_Number v) of
           (Fin c, Fin n) \<Rightarrow>
             (if c > 0 \<and> n \<ge> 1
              then (\<lambda>chain. case later chain of Some m \<Rightarrow> Some m | None \<Rightarrow> if of_int chain = c then Some \<lfloor>n\<rfloor> else None)
              else later)
         | _ \<Rightarrow> later)"

definition parseEnvOverrides :: "(string \<Rightarrow> json option) \<Rightarrow> string option \<Rightarrow> int \<Rightarrow> int option" where
  "parseEnvOverrides JSON_parse raw =
     (case js_or_null raw of
        None \<Rightarrow> (\<lambda>_. None)
      | Some s \<Rightarrow> (case JSON_parse s of
          Some (JObj kvs) \<Rightarrow> parse_overrides kvs
        | Some (JArr xs) \<Rightarrow> parse_overrides (zip (map digits_of_nat [0..<length xs]) xs)
        | _ \<Rightarrow> (\<lambda>_. None)))"

definition getRequiredConfirmationsFor :: "(int \<Rightarrow> int option) \<Rightarrow> int \<Rightarrow> int" where
  "getRequiredConfirmationsFor overrides chainId =
     (case overrides chainId of Some v \<Rightarrow> max v (getRequiredConfirmations chainId) | None \<Rightarrow> getRequiredConfirmations chainId)"

text \<open>The answers of the node: the block of the receipt, if there is one, and the current block; \<open>None\<close> throws.\<close>

definition getSourceConfirmations :: "string \<Rightarrow> (int option \<times> int) option \<Rightarrow> int" where
  "getSourceConfirmations txHash rpc =
     (if txHash = [] then 0
      else case rpc of Some (Some b, current) \<Rightarrow> max 0 (current - b) | _ \<Rightarrow> 0)"

record source_finality =
  sf_confirmed :: bool
  sf_confirmations :: int
  sf_requiredConfirmations :: int
  sf_timedOut :: bool

text \<open>\<open>waitForTransaction\<close> and then \<open>getBlockNumber\<close>, both in one \<open>try\<close>: \<open>None\<close> when one of them throws.\<close>

definition waitForSourceFinality :: "(int \<Rightarrow> int option) \<Rightarrow> string \<Rightarrow> int \<Rightarrow> (int option option \<times> int) option \<Rightarrow> source_finality" where
  "waitForSourceFinality overrides txHash chainId rpc =
     (let required = getRequiredConfirmationsFor overrides chainId;
          late = \<lparr> sf_confirmed = False, sf_confirmations = 0, sf_requiredConfirmations = required, sf_timedOut = True \<rparr>
      in if txHash = [] then late
         else case rpc of
           Some (Some block, current) \<Rightarrow>
             (let n = max 0 (current - (case block of Some b \<Rightarrow> b | None \<Rightarrow> current))
              in \<lparr> sf_confirmed = (n \<ge> required), sf_confirmations = n, sf_requiredConfirmations = required, sf_timedOut = False \<rparr>)
         | _ \<Rightarrow> late)"

section \<open>Records\<close>

datatype bridge_status = B_pending | B_relaying | B_confirming | B_completed | B_failed | B_timed_out

record bridge_row =
  br_id :: string
  br_legId :: string
  br_bridgeKey :: string
  br_sourceChainId :: int
  br_destinationChainId :: int
  br_sourceTxHash :: "string option"
  br_destinationTxHash :: "string option"
  br_bridgeId :: "string option"
  br_tokenAddress :: string
  br_destinationTokenAddress :: string
  br_amount :: string
  br_status :: bridge_status
  br_estimatedRelayMs :: "int option"
  br_actualRelayMs :: "int option"
  br_idempotencyKey :: string
  br_sourceConfirmations :: int
  br_requiredConfirmations :: int
  br_destinationConfirmations :: int
  br_finalizedAt :: "int option"
  br_submittedAt :: "int option"
  br_confirmedAt :: "int option"
  br_failedAt :: "int option"
  br_timeoutAt :: "int option"
  br_errorMessage :: "string option"
  br_updatedAt :: int

record bridge_params =
  bp_sourceChainId :: int
  bp_destinationChainId :: int
  bp_token :: string
  bp_destinationToken :: string
  bp_amount :: int
  bp_idempotencyKey :: string

record bridge_submit_result =
  bs_sourceTxHash :: string
  bs_bridgeId :: string
  bs_estimatedRelayMs :: int

text \<open>The adapter: it throws, perhaps after its transaction is out, or answers.\<close>

datatype bridge_submit = B_throws bool | B_sent bridge_submit_result

record bridge_world =
  bw_rows :: "bridge_row list"
  bw_sent :: "string list"

definition get_transfer :: "string \<Rightarrow> bridge_world \<Rightarrow> bridge_row option" where
  "get_transfer i w = get_row br_id i (bw_rows w)"

definition save_transfer :: "bridge_row \<Rightarrow> bridge_world \<Rightarrow> bridge_world" where
  "save_transfer r w = w\<lparr>bw_rows := save_row br_id r (bw_rows w)\<rparr>"

interpretation transfers: row_store get_transfer save_transfer br_id
  by unfold_locales (simp_all add: get_transfer_def save_transfer_def row_simps)

definition find_by_key :: "string \<Rightarrow> bridge_world \<Rightarrow> bridge_row option" where
  "find_by_key k w = find (\<lambda>r. br_idempotencyKey r = k) (bw_rows w)"

definition is_active :: "bridge_status \<Rightarrow> bool" where
  "is_active s \<longleftrightarrow> s = B_pending \<or> s = B_relaying \<or> s = B_confirming"

definition new_transfer ::
  "string \<Rightarrow> bridge_params \<Rightarrow> string \<Rightarrow> bridge_submit_result \<Rightarrow> int \<Rightarrow> string \<Rightarrow> int \<Rightarrow> bridge_row" where
  "new_transfer bridgeKey p legId res required newId now =
     \<lparr> br_id = newId, br_legId = legId, br_bridgeKey = bridgeKey, br_sourceChainId = bp_sourceChainId p,
       br_destinationChainId = bp_destinationChainId p, br_sourceTxHash = Some (bs_sourceTxHash res), br_destinationTxHash = None,
       br_bridgeId = Some (bs_bridgeId res), br_tokenAddress = bp_token p, br_destinationTokenAddress = bp_destinationToken p,
       br_amount = string_of_int (bp_amount p), br_status = B_pending, br_estimatedRelayMs = Some (bs_estimatedRelayMs res),
       br_actualRelayMs = None, br_idempotencyKey = bp_idempotencyKey p, br_sourceConfirmations = 0,
       br_requiredConfirmations = required, br_destinationConfirmations = 0, br_finalizedAt = None, br_submittedAt = Some now,
       br_confirmedAt = None, br_failedAt = None, br_timeoutAt = Some (now + bs_estimatedRelayMs res * 2),
       br_errorMessage = None, br_updatedAt = now \<rparr>"

text \<open>
  \<open>db\<close> says whether \<open>save\<close> succeeds. The exception is the one of the code, or the error of the adapter or of
  the database.
\<close>

definition submitBridgeTransfer ::
  "string \<Rightarrow> bridge_submit \<Rightarrow> bool \<Rightarrow> (int \<Rightarrow> int option) \<Rightarrow> bridge_params \<Rightarrow> string \<Rightarrow> string \<Rightarrow> int \<Rightarrow> bridge_world
     \<Rightarrow> (string + bridge_row) \<times> bridge_world" where
  "submitBridgeTransfer bridgeKey answer db overrides p legId newId now w =
     (case find_by_key (bp_idempotencyKey p) w of
        Some existing \<Rightarrow>
          (if is_active (br_status existing) then (Inr existing, w)
           else if br_status existing = B_failed \<or> br_status existing = B_timed_out
           then (Inl ''Operator approval required for retry'', w)
           else (Inr existing, w))
      | None \<Rightarrow>
          (case answer of
             B_throws landed \<Rightarrow> (Inl ''adapter'', if landed then w\<lparr>bw_sent := bp_idempotencyKey p # bw_sent w\<rparr> else w)
           | B_sent res \<Rightarrow>
               (let w1 = w\<lparr>bw_sent := bp_idempotencyKey p # bw_sent w\<rparr>;
                    row = new_transfer bridgeKey p legId res (getRequiredConfirmationsFor overrides (bp_sourceChainId p)) newId now
                in if \<not> db then (Inl ''database'', w1)
                   else (Inr row, save_transfer row w1))))"

definition getActiveTransfers :: "bridge_world \<Rightarrow> bridge_row list" where
  "getActiveTransfers w = filter (\<lambda>r. is_active (br_status r)) (bw_rows w)"

section \<open>Polling\<close>

record status_answer =
  sa_status :: string
  sa_destinationTxHash :: "string option"
  sa_confirmations :: "int option"

definition adapter_status :: "string \<Rightarrow> bridge_status option" where
  "adapter_status s = map_of [(''pending'', B_pending), (''relaying'', B_relaying), (''confirming'', B_confirming),
     (''completed'', B_completed), (''failed'', B_failed)] s"

text \<open>The columns of the \<open>update\<close>, from the entity the poll was given.\<close>

definition poll_updates :: "bridge_row \<Rightarrow> bridge_status \<Rightarrow> status_answer \<Rightarrow> int option \<Rightarrow> int \<Rightarrow> bridge_row \<Rightarrow> bridge_row" where
  "poll_updates entity s a srcConf now r =
     r\<lparr>br_updatedAt := now,
       br_destinationConfirmations := (case sa_confirmations a of Some n \<Rightarrow> n | None \<Rightarrow> 0),
       br_sourceConfirmations := (case srcConf of Some n \<Rightarrow> n | None \<Rightarrow> br_sourceConfirmations r),
       br_status := (if s \<noteq> br_status entity then s else br_status r),
       br_destinationTxHash := (case js_or_null (sa_destinationTxHash a) of Some h \<Rightarrow> Some h | None \<Rightarrow> br_destinationTxHash r),
       br_confirmedAt := (if s = B_completed then Some now else br_confirmedAt r),
       br_finalizedAt := (if s = B_completed then Some now else br_finalizedAt r),
       br_actualRelayMs := (if s = B_completed then (case br_submittedAt entity of Some t \<Rightarrow> Some (now - t) | None \<Rightarrow> br_actualRelayMs r)
         else br_actualRelayMs r),
       br_failedAt := (if s = B_failed then Some now else br_failedAt r),
       br_errorMessage := (if s = B_failed then Some ''Bridge adapter reported failed status'' else br_errorMessage r)\<rparr>"

definition update_transfer :: "string \<Rightarrow> (bridge_row \<Rightarrow> bridge_row) \<Rightarrow> bridge_world \<Rightarrow> bridge_world" where
  "update_transfer i f w = w\<lparr>bw_rows := map (\<lambda>r. if br_id r = i then f r else r) (bw_rows w)\<rparr>"

text \<open>\<open>None\<close> when the adapter throws; otherwise the entity the method returns.\<close>

definition pollAndUpdateStatus ::
  "bridge_row \<Rightarrow> status_answer option \<Rightarrow> (int option \<times> int) option \<Rightarrow> int \<Rightarrow> bridge_world \<Rightarrow> bridge_row option \<times> bridge_world" where
  "pollAndUpdateStatus entity answer rpc now w =
     (case js_or_null (br_bridgeId entity) of
        None \<Rightarrow> (Some entity, w)
      | Some _ \<Rightarrow>
          (case answer of
             None \<Rightarrow> (None, w)
           | Some a \<Rightarrow>
               (case adapter_status (sa_status a) of
                  None \<Rightarrow> (Some entity, w)
                | Some s \<Rightarrow>
                    (let srcConf = map_option (\<lambda>h. getSourceConfirmations h rpc) (js_or_null (br_sourceTxHash entity));
                         destConf = (case sa_confirmations a of Some n \<Rightarrow> n | None \<Rightarrow> 0);
                         sourceConfChanged = (case srcConf of Some n \<Rightarrow> n \<noteq> br_sourceConfirmations entity | None \<Rightarrow> False)
                     in if s = br_status entity \<and> \<not> sourceConfChanged \<and> destConf = br_destinationConfirmations entity then (Some entity, w)
                        else (let w1 = update_transfer (br_id entity) (poll_updates entity s a srcConf now) w
                              in (Some (case get_transfer (br_id entity) w1 of Some r \<Rightarrow> r | None \<Rightarrow> entity\<lparr>br_status := s\<rparr>), w1))))))"

definition markTimedOut :: "string \<Rightarrow> int \<Rightarrow> bridge_world \<Rightarrow> bridge_row option \<times> bridge_world" where
  "markTimedOut i now w =
     (let w1 = update_transfer i (\<lambda>r. r\<lparr>br_status := B_timed_out, br_failedAt := Some now,
            br_errorMessage := Some ''Bridge transfer exceeded timeout deadline'', br_updatedAt := now\<rparr>) w
      in (get_transfer i w1, w1))"

text \<open>
  One transfer of a cycle: the clock when its turn comes, whether its adapter is registered, what the
  adapter and the node answer.
\<close>

record poll_answers =
  pa_now :: int
  pa_adapter :: bool
  pa_status :: "status_answer option"
  pa_rpc :: "(int option \<times> int) option"

definition poll_transfer :: "poll_answers \<Rightarrow> bridge_row \<Rightarrow> bridge_world \<Rightarrow> bridge_world" where
  "poll_transfer a r w =
     (if (case br_timeoutAt r of Some t \<Rightarrow> pa_now a > t | None \<Rightarrow> False) then snd (markTimedOut (br_id r) (pa_now a) w)
      else if \<not> pa_adapter a then w
      else snd (pollAndUpdateStatus r (pa_status a) (pa_rpc a) (pa_now a) w))"

definition pollOnce :: "(string \<Rightarrow> poll_answers) \<Rightarrow> bridge_world \<Rightarrow> bridge_world" where
  "pollOnce answers w = fold (\<lambda>r. poll_transfer (answers (br_id r)) r) (getActiveTransfers w) w"

end
