(* ===== verification/Bridge_Props.thy ===== *)
theory Bridge_Props
  imports Bridge_Transfer
begin

text \<open>
  What the records of bridge transfers promise over runs of submissions and polling cycles, and where they
  stop short: the order of the adapter and the record, and of the deadline and the delivery.
\<close>

section \<open>One transfer of a cycle\<close>

lemma getRequired_at_least: "getRequiredConfirmations c \<le> getRequiredConfirmationsFor ov c"
  by (simp add: getRequiredConfirmationsFor_def split: option.split)

text \<open>A step of a cycle touches_row the columns of its own row, never its keys, and sends nothing.\<close>

definition touches_row :: "string \<Rightarrow> bridge_world \<Rightarrow> bridge_world \<Rightarrow> bool" where
  "touches_row i w w' \<longleftrightarrow> bw_sent w' = bw_sent w
     \<and> (\<exists>f. bw_rows w' = map (\<lambda>r. if br_id r = i then f r else r) (bw_rows w)
          \<and> (\<forall>r. br_id (f r) = br_id r \<and> br_idempotencyKey (f r) = br_idempotencyKey r \<and> br_timeoutAt (f r) = br_timeoutAt r))"

lemma touches_row_same: "touches_row i w w"
  unfolding touches_row_def by (intro conjI exI [of _ "\<lambda>r. r"]) simp_all

lemma touches_row_update:
  assumes "\<And>r. br_id (f r) = br_id r \<and> br_idempotencyKey (f r) = br_idempotencyKey r \<and> br_timeoutAt (f r) = br_timeoutAt r"
  shows "touches_row i w (update_transfer i f w)"
  unfolding touches_row_def update_transfer_def using assms by (intro conjI exI [of _ f]) simp_all

lemma poll_updates_keeps:
  "br_id (poll_updates e s a c n r) = br_id r" "br_idempotencyKey (poll_updates e s a c n r) = br_idempotencyKey r"
  "br_timeoutAt (poll_updates e s a c n r) = br_timeoutAt r"
  by (simp_all add: poll_updates_def)

lemma pollAndUpdate_touches: "touches_row (br_id e) w (snd (pollAndUpdateStatus e a rpc now w))"
  by (simp add: pollAndUpdateStatus_def touches_row_same touches_row_update poll_updates_keeps Let_def split: option.split)

lemma poll_transfer_touches: "touches_row (br_id r) w (poll_transfer a r w)"
  by (simp add: poll_transfer_def markTimedOut_def Let_def touches_row_same touches_row_update pollAndUpdate_touches)

lemma touches_row_get:
  assumes "touches_row i w w'" "j \<noteq> i"
  shows "get_transfer j w' = get_transfer j w"
proof -
  obtain f where f: "bw_rows w' = map (\<lambda>r. if br_id r = i then f r else r) (bw_rows w)" "\<And>r. br_id (f r) = br_id r"
    using assms(1) by (auto simp: touches_row_def)
  have "get_row br_id j (map (\<lambda>r. if br_id r = i then f r else r) rs) = get_row br_id j rs" for rs
    using f(2) assms(2) by (induction rs) (simp_all add: get_row_def)
  then show ?thesis by (simp add: get_transfer_def f(1))
qed

section \<open>Cycles\<close>

definition bridge_keys :: "bridge_world \<Rightarrow> string list" where
  "bridge_keys w = map br_idempotencyKey (bw_rows w)"

definition bridge_ids :: "bridge_world \<Rightarrow> string list" where
  "bridge_ids w = map br_id (bw_rows w)"

lemma touches_row_lists: "touches_row i w w' \<Longrightarrow> bridge_keys w' = bridge_keys w \<and> bridge_ids w' = bridge_ids w \<and> bw_sent w' = bw_sent w"
  by (auto simp: touches_row_def bridge_keys_def bridge_ids_def)

lemma fold_lists:
  "bridge_keys (fold (\<lambda>r. poll_transfer (an (br_id r)) r) rs w) = bridge_keys w
   \<and> bridge_ids (fold (\<lambda>r. poll_transfer (an (br_id r)) r) rs w) = bridge_ids w
   \<and> bw_sent (fold (\<lambda>r. poll_transfer (an (br_id r)) r) rs w) = bw_sent w"
  using touches_row_lists [OF poll_transfer_touches] by (induction rs arbitrary: w) simp_all

lemma fold_other:
  "j \<notin> br_id ` set rs \<Longrightarrow> get_transfer j (fold (\<lambda>r. poll_transfer (an (br_id r)) r) rs w) = get_transfer j w"
  using touches_row_get [OF poll_transfer_touches] by (induction rs arbitrary: w) simp_all

lemma get_transfer_id: "get_transfer i w = Some r \<Longrightarrow> br_id r = i"
  unfolding get_transfer_def by (rule get_row_key)

lemma get_transfer_in:
  assumes "distinct (bridge_ids w)"
  shows "get_transfer i w = Some r \<longleftrightarrow> r \<in> set (bw_rows w) \<and> br_id r = i"
proof -
  have "distinct (map br_id rs) \<Longrightarrow> get_row br_id i rs = Some r \<longleftrightarrow> r \<in> set rs \<and> br_id r = i" for rs
    by (induction rs) (auto simp: get_row_def)
  then show ?thesis using assms by (simp add: get_transfer_def bridge_ids_def)
qed

text \<open>What a cycle does to one active row is what its own turn does.\<close>

lemma pollOnce_active:
  assumes "distinct (bridge_ids w)" "get_transfer i w = Some r" "is_active (br_status r)"
  shows "\<exists>w1. get_transfer i w1 = Some r \<and> get_transfer i (pollOnce an w) = get_transfer i (poll_transfer (an i) r w1)"
proof -
  have r: "r \<in> set (bw_rows w)" "br_id r = i" using assms get_transfer_in by auto
  then have "r \<in> set (getActiveTransfers w)" using assms(3) by (simp add: getActiveTransfers_def)
  then obtain xs ys where sp: "getActiveTransfers w = xs @ r # ys" by (meson split_list)
  have "distinct (map br_id (getActiveTransfers w))"
    using assms(1) by (simp add: getActiveTransfers_def bridge_ids_def distinct_map_filter)
  then have n: "i \<notin> br_id ` set xs" "i \<notin> br_id ` set ys" using sp r(2) by auto
  let ?w1 = "fold (\<lambda>r. poll_transfer (an (br_id r)) r) xs w"
  have "get_transfer i ?w1 = Some r" using fold_other [OF n(1)] assms(2) by simp
  moreover have "get_transfer i (pollOnce an w) = get_transfer i (poll_transfer (an i) r ?w1)"
    using fold_other [OF n(2)] r(2) by (simp add: pollOnce_def sp)
  ultimately show ?thesis by blast
qed

lemma pollOnce_closed:
  assumes "distinct (bridge_ids w)" "get_transfer i w = Some r" "\<not> is_active (br_status r)"
  shows "get_transfer i (pollOnce an w) = Some r"
proof -
  have "i \<notin> br_id ` set (getActiveTransfers w)"
  proof
    assume "i \<in> br_id ` set (getActiveTransfers w)"
    then obtain r' where "r' \<in> set (bw_rows w)" "br_id r' = i" "is_active (br_status r')"
      by (auto simp: getActiveTransfers_def)
    then show False using assms get_transfer_in [OF assms(1), of i] by (metis option.inject)
  qed
  then show ?thesis using fold_other assms(2) by (simp add: pollOnce_def)
qed

lemma update_get:
  assumes "get_transfer i w = Some r" "\<And>r. br_id (f r) = br_id r"
  shows "get_transfer i (update_transfer i f w) = Some (f r)"
proof -
  have "get_row br_id i rs = Some r \<Longrightarrow> get_row br_id i (map (\<lambda>r. if br_id r = i then f r else r) rs) = Some (f r)" for rs
  proof (induction rs)
    case (Cons x rs)
    then show ?case using assms(2) by (cases "br_id x = i") (simp_all add: get_row_def)
  qed (simp add: get_row_def)
  then show ?thesis using assms(1) by (simp add: get_transfer_def update_transfer_def)
qed

section \<open>Properties\<close>


definition ex_transfer :: bridge_row where
  "ex_transfer = new_transfer ''across'' \<lparr> bp_sourceChainId = 42161, bp_destinationChainId = 8453, bp_token = ''0xa'',
     bp_destinationToken = ''0xb'', bp_amount = 5, bp_idempotencyKey = ''k'' \<rparr> ''l''
     \<lparr> bs_sourceTxHash = ''0xh'', bs_bridgeId = ''1'', bs_estimatedRelayMs = 100 \<rparr> 1 ''t'' 0"

definition ex_poll_answers :: "int \<Rightarrow> string \<Rightarrow> poll_answers" where
  "ex_poll_answers now i = \<lparr> pa_now = now, pa_adapter = True,
     pa_status = Some \<lparr> sa_status = ''completed'', sa_destinationTxHash = Some ''0xd'', sa_confirmations = Some 3 \<rparr>, pa_rpc = None \<rparr>"


text \<open>
  Runs of submissions and cycles. \<open>ok\<close> says that no record is lost: the adapter does not throw once its
  transaction is out, and the save after it succeeds.
\<close>

inductive bridge_step :: "bool \<Rightarrow> bridge_world \<Rightarrow> bridge_world \<Rightarrow> bool" for ok :: bool where
  submit: "submitBridgeTransfer key ans db ov p legId newId now w = (r, w') \<Longrightarrow> newId \<notin> set (bridge_ids w)
     \<Longrightarrow> ok \<longrightarrow> db \<and> ans \<noteq> B_throws True \<Longrightarrow> bridge_step ok w w'"
| cycle: "bridge_step ok w (pollOnce an w)"

lemma find_by_key_None: "find_by_key k w = None \<longleftrightarrow> k \<notin> set (bridge_keys w)"
  by (auto simp: find_by_key_def bridge_keys_def find_None_iff)

lemma save_fresh:
  assumes "br_id r \<notin> br_id ` set rs"
  shows "save_row br_id r rs = rs @ [r]"
proof -
  have "\<not> (\<exists>x \<in> set rs. br_id x = br_id r)" using assms by (metis imageI)
  then show ?thesis unfolding save_row_def by (rule if_not_P)
qed

lemma submit_cases:
  assumes "submitBridgeTransfer key ans db ov p legId newId now w = (r, w')" "newId \<notin> set (bridge_ids w)"
  obtains (nothing) "w' = w"
    | (lost) "bw_rows w' = bw_rows w" "bw_sent w' = bp_idempotencyKey p # bw_sent w" "\<not> db \<or> ans = B_throws True"
        "bp_idempotencyKey p \<notin> set (bridge_keys w)"
    | (made) row where "bw_rows w' = bw_rows w @ [row]" "bw_sent w' = bp_idempotencyKey p # bw_sent w" "br_id row = newId"
        "br_idempotencyKey row = bp_idempotencyKey p" "br_status row = B_pending" "bp_idempotencyKey p \<notin> set (bridge_keys w)"
proof (cases "find_by_key (bp_idempotencyKey p) w")
  case (Some x)
  then have "w' = w" using assms(1) by (simp add: submitBridgeTransfer_def split: if_splits)
  then show ?thesis by (rule nothing)
next
  case None
  note n = None [unfolded find_by_key_None]
  show ?thesis
  proof (cases ans)
    case (B_throws landed)
    show ?thesis
    proof (cases landed)
      case True
      then have "w' = w\<lparr>bw_sent := bp_idempotencyKey p # bw_sent w\<rparr>" using assms(1) None B_throws by (simp add: submitBridgeTransfer_def)
      then show ?thesis using True B_throws n by (intro lost) simp_all
    next
      case False
      then have "w' = w" using assms(1) None B_throws by (simp add: submitBridgeTransfer_def)
      then show ?thesis by (rule nothing)
    qed
  next
    case (B_sent res)
    let ?row = "new_transfer key p legId res (getRequiredConfirmationsFor ov (bp_sourceChainId p)) newId now"
    have "br_id ?row \<notin> br_id ` set (bw_rows w)" using assms(2) by (simp add: bridge_ids_def new_transfer_def)
    then show ?thesis using assms(1) None B_sent lost n made [of ?row]
      by (cases db) (auto simp: submitBridgeTransfer_def Let_def save_transfer_def save_fresh, simp_all add: new_transfer_def)
  qed
qed

definition bridge_inv :: "bridge_world \<Rightarrow> bool" where
  "bridge_inv w \<longleftrightarrow> distinct (bridge_ids w) \<and> distinct (bridge_keys w)"

definition bridge_recorded :: "bridge_world \<Rightarrow> bool" where
  "bridge_recorded w \<longleftrightarrow> distinct (bw_sent w) \<and> set (bw_sent w) = set (bridge_keys w)"

lemma cycle_lists: "bridge_keys (pollOnce an w) = bridge_keys w" "bridge_ids (pollOnce an w) = bridge_ids w" "bw_sent (pollOnce an w) = bw_sent w"
  using fold_lists by (simp_all add: pollOnce_def)

lemma bridge_step_inv:
  assumes "bridge_step ok w w'" "bridge_inv w"
  shows "bridge_inv w'"
  using assms(1)
proof cases
  case (submit key ans db ov p legId newId now r)
  from submit(1,2) show ?thesis
    by (cases rule: submit_cases) (use assms(2) submit(2) in \<open>auto simp: bridge_inv_def bridge_ids_def bridge_keys_def\<close>)
next
  case (cycle an)
  then show ?thesis using assms(2) by (simp add: bridge_inv_def cycle_lists)
qed

lemma bridge_step_recorded:
  assumes "bridge_step True w w'" "bridge_recorded w"
  shows "bridge_recorded w'"
  using assms(1)
proof cases
  case (submit key ans db ov p legId newId now r)
  from submit(1,2) show ?thesis
    by (cases rule: submit_cases) (use assms(2) submit(3) in \<open>auto simp: bridge_recorded_def bridge_keys_def\<close>)
next
  case (cycle an)
  then show ?thesis using assms(2) by (simp add: bridge_recorded_def cycle_lists)
qed

lemma bridge_step_closed:
  assumes "bridge_step ok w w'" "bridge_inv w" "get_transfer i w = Some r" "\<not> is_active (br_status r)"
  shows "get_transfer i w' = Some r"
  using assms(1)
proof cases
  case (submit key ans db ov p legId newId now x)
  from submit(1,2) show ?thesis
  proof (cases rule: submit_cases)
    case (made row)
    then show ?thesis using assms(3) by (simp add: get_transfer_def get_row_def find_append)
  qed (use assms(3) in \<open>simp_all add: get_transfer_def\<close>)
next
  case (cycle an)
  then show ?thesis using pollOnce_closed assms(2-4) by (simp add: bridge_inv_def)
qed

abbreviation no_transfers :: bridge_world where
  "no_transfers \<equiv> \<lparr> bw_rows = [], bw_sent = [] \<rparr>"

lemma bridge_run_inv:
  assumes "(bridge_step ok)\<^sup>*\<^sup>* no_transfers w"
  shows "bridge_inv w"
  using assms
proof (induction rule: rtranclp_induct)
  case base
  show ?case by (simp add: bridge_inv_def bridge_ids_def bridge_keys_def)
qed (rule bridge_step_inv)


definition ex_params :: bridge_params where
  "ex_params = \<lparr> bp_sourceChainId = 42161, bp_destinationChainId = 8453, bp_token = ''0xa'', bp_destinationToken = ''0xb'',
     bp_amount = 5, bp_idempotencyKey = ''k'' \<rparr>"

definition ex_submit :: "bool \<Rightarrow> bridge_world \<Rightarrow> (string + bridge_row) \<times> bridge_world" where
  "ex_submit db = submitBridgeTransfer ''across'' (B_sent \<lparr> bs_sourceTxHash = ''0xh'', bs_bridgeId = ''1'', bs_estimatedRelayMs = 100 \<rparr>) db
     (\<lambda>_. None) ex_params ''l'' ''t'' 0"


text \<open>
  The adapter is called before the record exists: when the save fails, the next submission of the same leg
  bridges the amount again. No adapter reads the idempotency key.
\<close>

theorem lost_record_bridges_twice:
  "bw_sent (snd (ex_submit True (snd (ex_submit False no_transfers)))) = [''k'', ''k'']"
  by code_simp

text \<open>
  A poll updates the row by its id from the entity it was given, so an answer that arrives after another cycle
  has completed the transfer reopens it.
\<close>

theorem stale_poll_reopens:
  assumes "get_transfer i w = Some r" "br_status r = B_completed" "br_bridgeId e = Some b" "b \<noteq> []" "br_id e = i"
    "sa_status a = ''relaying''" "br_status e = B_pending"
  shows "\<exists>r'. get_transfer i (snd (pollAndUpdateStatus e (Some a) rpc now w)) = Some r' \<and> br_status r' = B_relaying"
  using assms update_get [OF assms(1)]
  by (simp add: pollAndUpdateStatus_def js_or_null_def adapter_status_def Let_def poll_updates_keeps) (simp add: poll_updates_def)

end
